(* ===== verification/Prelude.thy ===== *)
theory Prelude
  imports Main "HOL-Library.AList"
begin

text \<open>
  Shared vocabulary of the development: JavaScript results that may throw, the array
  methods \<open>some\<close> and \<open>every\<close> over predicates that may throw, the string functions the
  client uses, plain objects and \<open>Map\<close>s as insertion-ordered association lists, and the
  generic lemmas about them.

  A string is a list of characters, each standing for one code unit; code units above 255
  are not represented. The theory of routes reads a string as the bytes of its UTF-8
  encoding instead, which is what percent-encoding works on.
\<close>

named_theorems js_simps \<open>unfolding rules for the JavaScript vocabulary\<close>

section \<open>Results that may throw\<close>

datatype js_error = TypeError | SyntaxError | URIError | ErrorMsg string

type_synonym 'a res = "js_error + 'a"

fun bind_res :: "'a res \<Rightarrow> ('a \<Rightarrow> 'b res) \<Rightarrow> 'b res" where
  "bind_res (Inl e) f = Inl e"
| "bind_res (Inr x) f = f x"

lemma bind_res_Inr_iff: "bind_res m f = Inr y \<longleftrightarrow> (\<exists>x. m = Inr x \<and> f x = Inr y)"
  by (cases m) auto

lemma bind_res_Inl_iff:
  "bind_res m f = Inl e \<longleftrightarrow> m = Inl e \<or> (\<exists>x. m = Inr x \<and> f x = Inl e)"
  by (cases m) auto

text \<open>\<open>Array.prototype.some\<close> and \<open>every\<close>: left to right, stopping at the first answer or throw.\<close>

fun js_some :: "('a \<Rightarrow> bool res) \<Rightarrow> 'a list \<Rightarrow> bool res" where
  "js_some p [] = Inr False"
| "js_some p (x # xs) = bind_res (p x) (\<lambda>b. if b then Inr True else js_some p xs)"

fun js_every :: "('a \<Rightarrow> bool res) \<Rightarrow> 'a list \<Rightarrow> bool res" where
  "js_every p [] = Inr True"
| "js_every p (x # xs) = bind_res (p x) (\<lambda>b. if b then js_every p xs else Inr False)"

lemma js_some_total: "(\<And>x. x \<in> set xs \<Longrightarrow> p x = Inr (q x)) \<Longrightarrow> js_some p xs = Inr (\<exists>x\<in>set xs. q x)"
  by (induction xs) auto

lemma js_every_total: "(\<And>x. x \<in> set xs \<Longrightarrow> p x = Inr (q x)) \<Longrightarrow> js_every p xs = Inr (\<forall>x\<in>set xs. q x)"
  by (induction xs) auto

lemma js_some_TrueD: "js_some p xs = Inr True \<Longrightarrow> \<exists>x\<in>set xs. p x = Inr True"
  by (induction xs) (auto simp: bind_res_Inr_iff split: if_splits)

lemma js_every_TrueD: "js_every p xs = Inr True \<Longrightarrow> x \<in> set xs \<Longrightarrow> p x = Inr True"
  by (induction xs) (auto simp: bind_res_Inr_iff split: if_splits)

lemma js_every_cong: "(\<And>x. x \<in> set xs \<Longrightarrow> p x = q x) \<Longrightarrow> js_every p xs = js_every q xs"
proof (induction xs)
  case (Cons a xs)
  then have "p a = q a" and "js_every p xs = js_every q xs" by auto
  then show ?case by (cases "q a") auto
qed simp

section \<open>Strings\<close>

fun starts_with :: "string \<Rightarrow> string \<Rightarrow> bool" where
  "starts_with [] s = True"
| "starts_with (p # ps) [] = False"
| "starts_with (p # ps) (c # cs) = (p = c \<and> starts_with ps cs)"

lemma starts_with_append [simp]: "starts_with p (p @ s)"
  by (induction p) auto

lemma starts_with_iff: "starts_with p s \<longleftrightarrow> (\<exists>t. s = p @ t)"
  by (induction p s rule: starts_with.induct) auto

fun js_includes :: "string \<Rightarrow> string \<Rightarrow> bool" where
  "js_includes sub [] = (sub = [])"
| "js_includes sub (c # cs) = (starts_with sub (c # cs) \<or> js_includes sub cs)"

lemma js_includes_single [simp]: "js_includes [c] s \<longleftrightarrow> c \<in> set s"
  by (induction s) auto

lemma js_includes_iff: "js_includes sub s \<longleftrightarrow> (\<exists>a b. s = a @ sub @ b)"
proof (induction s)
  case (Cons c s)
  have "(\<exists>a b. c # s = a @ sub @ b) \<longleftrightarrow> (\<exists>b. c # s = sub @ b) \<or> (\<exists>a b. s = a @ sub @ b)"
    by (metis append_Cons append_Nil list.sel(3) neq_Nil_conv tl_append2)
  with Cons show ?case by (simp add: starts_with_iff)
qed auto

text \<open>\<open>s.split(sep)\<close>: leftmost, non-overlapping occurrences; an empty separator splits into characters.\<close>

function js_split :: "string \<Rightarrow> string \<Rightarrow> string list" where
  "js_split sep s =
     (if sep = [] then map (\<lambda>c. [c]) s
      else if starts_with sep s then [] # js_split sep (drop (length sep) s)
      else case s of
             [] \<Rightarrow> [[]]
           | c # cs \<Rightarrow> (case js_split sep cs of
                          [] \<Rightarrow> [[c]]
                        | w # ws \<Rightarrow> (c # w) # ws))"
  by pat_completeness auto
termination
proof (relation "measure (\<lambda>(sep, s). length s)")
  fix sep s :: string
  assume "sep \<noteq> []" and "starts_with sep s"
  then show "((sep, drop (length sep) s), sep, s) \<in> measure (\<lambda>(sep, s). length s)"
    by (auto simp: starts_with_iff)
qed auto

declare js_split.simps [simp del]

fun join :: "string \<Rightarrow> string list \<Rightarrow> string" where
  "join sep [] = []"
| "join sep [w] = w"
| "join sep (w # v # ws) = w @ sep @ join sep (v # ws)"

lemma js_split_Nil [simp]: "sep \<noteq> [] \<Longrightarrow> js_split sep [] = [[]]"
  by (cases sep) (simp_all add: js_split.simps [of _ "[]"])

lemma js_split_nonempty [simp]: "sep \<noteq> [] \<Longrightarrow> js_split sep s \<noteq> []"
  by (subst js_split.simps) (auto split: list.splits)

lemma js_split_char_Cons [simp]:
  "js_split [c] (x # xs) =
     (if x = c then [] # js_split [c] xs
      else (x # hd (js_split [c] xs)) # tl (js_split [c] xs))"
  by (cases "js_split [c] xs") (auto simp: js_split.simps [of "[c]" "x # xs"])

lemma join_Cons: "ws \<noteq> [] \<Longrightarrow> join sep (w # ws) = w @ sep @ join sep ws"
  by (cases ws) auto

lemma join_append_head: "ws \<noteq> [] \<Longrightarrow> join sep ((x @ hd ws) # tl ws) = x @ join sep ws"
  by (cases ws; cases "tl ws") auto

lemma join_split: "sep \<noteq> [] \<Longrightarrow> join sep (js_split sep s) = s"
proof (induction sep s rule: js_split.induct)
  case (1 sep s)
  show ?case
  proof (cases "starts_with sep s")
    case True
    then obtain t where t: "s = sep @ t" by (auto simp: starts_with_iff)
    from 1(1) [OF \<open>sep \<noteq> []\<close> True \<open>sep \<noteq> []\<close>] t have IH: "join sep (js_split sep t) = t" by simp
    from 1(3) t have "js_split sep s = [] # js_split sep t" by (subst js_split.simps) simp
    with 1(3) t IH show ?thesis by (simp add: join_Cons)
  next
    case False
    show ?thesis
    proof (cases s)
      case Nil
      with 1(3) show ?thesis by simp
    next
      case (Cons c cs)
      from 1(2) [OF \<open>sep \<noteq> []\<close> False Cons \<open>sep \<noteq> []\<close>] have IH: "join sep (js_split sep cs) = cs" .
      obtain w ws where ws: "js_split sep cs = w # ws"
        using 1(3) by (meson js_split_nonempty neq_Nil_conv)
      have step: "join sep ((c # w) # ws) = c # join sep (w # ws)" by (cases ws) auto
      from Cons False 1(3) ws have "js_split sep s = (c # w) # ws" by (subst js_split.simps) simp
      with Cons ws IH step show ?thesis by simp
    qed
  qed
qed

lemma set_join_subset: "w \<in> set ws \<Longrightarrow> set w \<subseteq> set (join sep ws)"
  by (induction sep ws rule: join.induct) auto

lemma split_no_sep: "c \<notin> set w \<Longrightarrow> js_split [c] w = [w]"
  by (induction w) auto

lemma split_char_append: "c \<notin> set w \<Longrightarrow> js_split [c] (w @ c # s) = w # js_split [c] s"
  by (induction w) auto

lemma split_join:
  "ws \<noteq> [] \<Longrightarrow> (\<And>w. w \<in> set ws \<Longrightarrow> c \<notin> set w) \<Longrightarrow> js_split [c] (join [c] ws) = ws"
  by (induction "[c]" ws rule: join.induct) (auto simp: split_no_sep split_char_append)

lemma split_parts_no_sep: "w \<in> set (js_split [c] s) \<Longrightarrow> c \<notin> set w"
proof (induction s arbitrary: w)
  case (Cons x xs)
  then show ?case
    by (cases "js_split [c] xs") (auto split: if_splits)
qed simp

text \<open>\<open>s.replace(/c/g, r)\<close> for a one-character pattern.\<close>

definition replace_char :: "char \<Rightarrow> string \<Rightarrow> string \<Rightarrow> string" where
  "replace_char c r s = concat (map (\<lambda>x. if x = c then r else [x]) s)"

lemma replace_char_simps [simp]:
  "replace_char c r [] = []"
  "replace_char c r (x # s) = (if x = c then r else [x]) @ replace_char c r s"
  by (simp_all add: replace_char_def)

section \<open>Decimal numerals\<close>

definition digit :: "nat \<Rightarrow> char" where
  "digit n = char_of (48 + n)"

definition digit_val :: "char \<Rightarrow> nat" where
  "digit_val c = of_char c - 48"

lemma digit_val_digit [simp]: "n < 10 \<Longrightarrow> digit_val (digit n) = n"
  by (simp add: digit_def digit_val_def)

lemma digit_eval [simp]:
  "digit 0 = CHR ''0''" "digit (Suc 0) = CHR ''1''" "digit 2 = CHR ''2''" "digit 3 = CHR ''3''"
  "digit 4 = CHR ''4''" "digit 5 = CHR ''5''" "digit 6 = CHR ''6''" "digit 7 = CHR ''7''"
  "digit 8 = CHR ''8''" "digit 9 = CHR ''9''"
  by (code_simp)+

fun show_nat :: "nat \<Rightarrow> string" where
  "show_nat n = (if n < 10 then [digit n] else show_nat (n div 10) @ [digit (n mod 10)])"

declare show_nat.simps [simp del]

definition read_nat :: "string \<Rightarrow> nat" where
  "read_nat s = foldl (\<lambda>n c. 10 * n + digit_val c) 0 s"

lemma read_show_nat [simp]: "read_nat (show_nat n) = n"
proof (induction n rule: show_nat.induct)
  case (1 n)
  show ?case
  proof (cases "n < 10")
    case True
    then show ?thesis by (simp add: show_nat.simps [of n] read_nat_def)
  next
    case False
    with 1 have "read_nat (show_nat (n div 10)) = n div 10" by simp
    with False show ?thesis by (simp add: show_nat.simps [of n] read_nat_def)
  qed
qed

lemma show_nat_inj [simp]: "show_nat m = show_nat n \<longleftrightarrow> m = n"
  by (metis read_show_nat)

lemma show_nat_nonempty [simp]: "show_nat n \<noteq> []"
  by (subst show_nat.simps) simp

definition is_digit :: "char \<Rightarrow> bool" where
  "is_digit c \<longleftrightarrow> 48 \<le> (of_char c :: nat) \<and> (of_char c :: nat) \<le> 57"

lemma is_digit_digit [simp]: "n < 10 \<Longrightarrow> is_digit (digit n)"
  by (simp add: is_digit_def digit_def)

lemma show_nat_digits: "c \<in> set (show_nat n) \<Longrightarrow> is_digit c"
proof (induction n rule: show_nat.induct)
  case (1 n)
  then show ?case by (cases "n < 10") (auto simp: show_nat.simps [of n])
qed

definition show_int :: "int \<Rightarrow> string" where
  "show_int i = (if i < 0 then CHR ''-'' # show_nat (nat (- i)) else show_nat (nat i))"

text \<open>
  \<open>parseInt(s, 10)\<close>: leading white space, an optional sign, then the longest run of
  digits; \<open>None\<close> is \<open>NaN\<close>. Values are exact integers (the rounding of numerals beyond
  \<open>2^53\<close> is not modelled).
\<close>

definition is_js_space :: "char \<Rightarrow> bool" where
  "is_js_space c \<longleftrightarrow> (of_char c :: nat) \<in> {9, 10, 11, 12, 13, 32, 160}"

definition parse_digits :: "string \<Rightarrow> nat option" where
  "parse_digits s = (let ds = takeWhile is_digit s in if ds = [] then None else Some (read_nat ds))"

definition js_parseInt :: "string \<Rightarrow> int option" where
  "js_parseInt s =
     (case dropWhile is_js_space s of
        [] \<Rightarrow> None
      | c # cs \<Rightarrow>
          if c = CHR ''-'' then map_option (\<lambda>n. - int n) (parse_digits cs)
          else if c = CHR ''+'' then map_option int (parse_digits cs)
          else map_option int (parse_digits (c # cs)))"

lemma is_digit_not_sign: "is_digit c \<Longrightarrow> c \<noteq> CHR ''-'' \<and> c \<noteq> CHR ''+'' \<and> \<not> is_js_space c"
  by (auto simp: is_digit_def is_js_space_def)

lemma parse_digits_show_nat [simp]: "parse_digits (show_nat n) = Some n"
proof -
  have "takeWhile is_digit (show_nat n) = show_nat n"
    by (simp add: takeWhile_eq_all_conv show_nat_digits)
  show ?thesis unfolding parse_digits_def \<open>takeWhile is_digit (show_nat n) = show_nat n\<close> Let_def by simp
qed

lemma js_parseInt_show_nat [simp]: "js_parseInt (show_nat n) = Some (int n)"
proof -
  obtain c cs where c: "show_nat n = c # cs" by (meson neq_Nil_conv show_nat_nonempty)
  then have "is_digit c" using show_nat_digits [of c n] by simp
  with c parse_digits_show_nat [of n] show ?thesis
    by (simp add: js_parseInt_def is_digit_not_sign)
qed

lemma js_parseInt_show_int [simp]: "js_parseInt (show_int i) = Some i"
proof (cases "i < 0")
  case True
  then have "\<not> is_js_space CHR ''-''" by (simp add: is_js_space_def)
  with True show ?thesis by (simp add: show_int_def js_parseInt_def)
qed (simp add: show_int_def)

section \<open>Numbers\<close>

text \<open>
  A number is an exact decimal: \<open>Dec m s\<close> is \<open>m / 10^s\<close>, with no trailing zero in the
  fraction. Reading a numeral (\<open>Number(s)\<close>) covers optional sign, digits and fraction, with
  white space around them; exponents, the other radices and \<open>Infinity\<close> read as \<open>NaN\<close>.
\<close>

datatype js_num = NaN | Dec int nat

fun mk_dec :: "int \<Rightarrow> nat \<Rightarrow> js_num" where
  "mk_dec m 0 = Dec m 0"
| "mk_dec m (Suc s) = (if m mod 10 = 0 then mk_dec (m div 10) s else Dec m (Suc s))"

definition js_trim :: "string \<Rightarrow> string" where
  "js_trim s = rev (dropWhile is_js_space (rev (dropWhile is_js_space s)))"

definition unsigned_decimal :: "int \<Rightarrow> string \<Rightarrow> js_num" where
  "unsigned_decimal sign s =
     (let ip = takeWhile is_digit s
      in case dropWhile is_digit s of
           [] \<Rightarrow> if ip = [] then NaN else Dec (sign * int (read_nat ip)) 0
         | c # fp \<Rightarrow>
             if c = CHR ''.'' \<and> list_all is_digit fp \<and> (ip \<noteq> [] \<or> fp \<noteq> [])
             then mk_dec (sign * int (read_nat (ip @ fp))) (length fp) else NaN)"

definition js_Number :: "string \<Rightarrow> js_num" where
  "js_Number s =
     (case js_trim s of
        [] \<Rightarrow> Dec 0 0
      | c # cs \<Rightarrow>
          if c = CHR ''-'' then unsigned_decimal (- 1) cs
          else if c = CHR ''+'' then unsigned_decimal 1 cs
          else unsigned_decimal 1 (c # cs))"

definition pad_left :: "nat \<Rightarrow> char \<Rightarrow> string \<Rightarrow> string" where
  "pad_left n c s = replicate (n - length s) c @ s"

fun show_num :: "js_num \<Rightarrow> string" where
  "show_num NaN = ''NaN''"
| "show_num (Dec m 0) = show_int m"
| "show_num (Dec m (Suc s)) =
     (if m < 0 then ''-'' else []) @ show_nat (nat \<bar>m\<bar> div 10 ^ Suc s) @ ''.''
     @ pad_left (Suc s) CHR ''0'' (show_nat (nat \<bar>m\<bar> mod 10 ^ Suc s))"

lemma js_trim_digits: "list_all is_digit s \<Longrightarrow> js_trim s = s"
proof -
  assume d: "list_all is_digit s"
  have "dropWhile is_js_space xs = xs" if "list_all is_digit xs" for xs
    using that by (cases xs) (auto simp: is_digit_def is_js_space_def)
  from this [OF d] this [of "rev s"] d show ?thesis by (simp add: js_trim_def)
qed

lemma js_Number_show_nat [simp]: "js_Number (show_nat n) = Dec (int n) 0"
proof -
  have d: "list_all is_digit (show_nat n)" by (simp add: list_all_iff show_nat_digits)
  then have tw: "takeWhile is_digit (show_nat n) = show_nat n" "dropWhile is_digit (show_nat n) = []"
    by (simp_all add: takeWhile_eq_all_conv dropWhile_eq_Nil_conv list_all_iff)
  obtain c cs where c: "show_nat n = c # cs" by (meson neq_Nil_conv show_nat_nonempty)
  then have "is_digit c" using d by simp
  then have "c \<noteq> CHR ''-''" "c \<noteq> CHR ''+''" using is_digit_not_sign by blast+
  with c js_trim_digits [OF d] have "js_Number (show_nat n) = unsigned_decimal 1 (show_nat n)"
    by (simp add: js_Number_def)
  then show ?thesis unfolding unsigned_decimal_def tw Let_def by simp
qed

text \<open>The text of a value in a template literal.\<close>

definition text_of :: "string option \<Rightarrow> string" where
  "text_of v = (case v of Some s \<Rightarrow> s | None \<Rightarrow> ''undefined'')"

text \<open>\<open>x || d\<close>: a missing and an empty value are both falsy.\<close>

definition or_default :: "string option \<Rightarrow> string \<Rightarrow> string" where
  "or_default x d = (case x of None \<Rightarrow> d | Some v \<Rightarrow> if v = [] then d else v)"

definition truthy :: "string option \<Rightarrow> bool" where
  "truthy x \<longleftrightarrow> (case x of None \<Rightarrow> False | Some v \<Rightarrow> v \<noteq> [])"

lemma or_default_Some [simp]: "v \<noteq> [] \<Longrightarrow> or_default (Some v) d = v"
  by (simp add: or_default_def)

lemma or_default_None [simp]: "or_default None d = d"
  by (simp add: or_default_def)

definition is_true :: "bool option \<Rightarrow> bool" where
  "is_true b \<longleftrightarrow> b = Some True"

section \<open>Objects and maps\<close>

text \<open>
  A plain object used as a dictionary, and a \<open>Map\<close>, are association lists with distinct
  keys in insertion order. Assignment overwrites in place or appends
  (\<open>AList.update\<close>), \<open>delete\<close> drops the entry (\<open>AList.delete\<close>), and the spread
  \<open>{...a, ...b}\<close> assigns the entries of \<open>b\<close> one after the other over \<open>a\<close>. The
  enumeration order of keys that look like array indices is not modelled.
\<close>

type_synonym 'v obj = "(string \<times> 'v) list"

definition wf_obj :: "('k \<times> 'v) list \<Rightarrow> bool" where
  "wf_obj o1 \<longleftrightarrow> distinct (map fst o1)"

definition obj_spread :: "('k \<times> 'v) list \<Rightarrow> ('k \<times> 'v) list \<Rightarrow> ('k \<times> 'v) list" where
  "obj_spread a b = fold (\<lambda>(k, v). AList.update k v) b a"

text \<open>\<open>Object.fromEntries(entries)\<close>: later entries overwrite earlier ones in place.\<close>

definition obj_from_entries :: "('k \<times> 'v) list \<Rightarrow> ('k \<times> 'v) list" where
  "obj_from_entries es = obj_spread [] es"

lemma wf_obj_Nil [simp]: "wf_obj []"
  by (simp add: wf_obj_def)

lemma wf_obj_update [simp]: "wf_obj o1 \<Longrightarrow> wf_obj (AList.update k v o1)"
  by (simp add: wf_obj_def distinct_update)

lemma wf_obj_delete [simp]: "wf_obj o1 \<Longrightarrow> wf_obj (AList.delete k o1)"
  by (simp add: wf_obj_def distinct_delete)

lemma wf_obj_spread [simp]: "wf_obj a \<Longrightarrow> wf_obj (obj_spread a b)"
  unfolding obj_spread_def by (induction b arbitrary: a) auto

lemma obj_get_update [simp]: "map_of (AList.update k v o1) k' = (if k' = k then Some v else map_of o1 k')"
  by (simp add: update_conv')

lemma obj_get_delete [simp]: "map_of (AList.delete k o1) k' = (if k' = k then None else map_of o1 k')"
  by (simp add: delete_conv')

lemma obj_get_spread:
  "wf_obj b \<Longrightarrow> map_of (obj_spread a b) k = (case map_of b k of None \<Rightarrow> map_of a k | Some v \<Rightarrow> Some v)"
  unfolding obj_spread_def
proof (induction b arbitrary: a)
  case (Cons p b)
  obtain k' v where p: "p = (k', v)" by force
  with Cons.prems have wf: "wf_obj b" and fresh: "map_of b k' = None"
    by (auto simp: wf_obj_def map_of_eq_None_iff)
  show ?case using Cons.IH [OF wf, of "AList.update k' v a"] p fresh
    by (auto split: option.split)
qed simp

lemma obj_from_entries_get: "wf_obj es \<Longrightarrow> map_of (obj_from_entries es) k = map_of es k"
  by (auto simp: obj_from_entries_def obj_get_spread split: option.splits)

lemma update_fresh: "k \<notin> fst ` set o1 \<Longrightarrow> AList.update k v o1 = o1 @ [(k, v)]"
  by (induction o1) auto

lemma obj_spread_fresh:
  "wf_obj b \<Longrightarrow> (\<And>k. k \<in> fst ` set b \<Longrightarrow> k \<notin> fst ` set a) \<Longrightarrow> obj_spread a b = a @ b"
  unfolding obj_spread_def
proof (induction b arbitrary: a)
  case (Cons p b)
  obtain k v where p: "p = (k, v)" by force
  have "AList.update k v a = a @ [(k, v)]"
    using Cons.prems(2) [of k] p by (simp add: update_fresh)
  moreover have "fold (\<lambda>(k, v). AList.update k v) b (a @ [(k, v)]) = (a @ [(k, v)]) @ b"
    using Cons.prems p by (intro Cons.IH) (auto simp: wf_obj_def)
  ultimately show ?case using p by simp
qed simp

lemma obj_from_entries_id: "wf_obj es \<Longrightarrow> obj_from_entries es = es"
  by (simp add: obj_from_entries_def obj_spread_fresh)

text \<open>
  Reading a property of an object literal also finds what it inherits from
  \<open>Object.prototype\<close>; code that uses \<open>{}\<close> as a dictionary sees those names.
\<close>

definition object_proto_names :: "string list" where
  "object_proto_names =
     [''constructor'', ''__defineGetter__'', ''__defineSetter__'', ''hasOwnProperty'',
      ''__lookupGetter__'', ''__lookupSetter__'', ''isPrototypeOf'', ''propertyIsEnumerable'',
      ''toString'', ''valueOf'', ''__proto__'', ''toLocaleString'']"

datatype 'v slot = Own 'v | Inherited | Missing

definition obj_index :: "'v obj \<Rightarrow> string \<Rightarrow> 'v slot" where
  "obj_index o1 k = (case map_of o1 k of
       Some v \<Rightarrow> Own v
     | None \<Rightarrow> if k \<in> set object_proto_names then Inherited else Missing)"

text \<open>
  Enumerating an object lists the keys that are array indices first, in increasing order,
  and then the others in the order they were added.
\<close>

definition array_index :: "string \<Rightarrow> bool" where
  "array_index k \<longleftrightarrow> k \<noteq> [] \<and> list_all is_digit k \<and> (k = ''0'' \<or> hd k \<noteq> CHR ''0'') \<and> read_nat k < 2 ^ 32 - 1"

definition js_order :: "('a \<Rightarrow> string) \<Rightarrow> 'a list \<Rightarrow> 'a list" where
  "js_order key xs = sort_key (\<lambda>x. read_nat (key x)) (filter (\<lambda>x. array_index (key x)) xs)
     @ filter (\<lambda>x. \<not> array_index (key x)) xs"

lemma set_js_order [simp]: "set (js_order key xs) = set xs"
  by (auto simp: js_order_def)

lemma js_order_Nil [simp]: "js_order key [] = []"
  by (simp add: js_order_def)

lemma insort_key_map: "insort_key f (g x) (map g xs) = map g (insort_key (\<lambda>y. f (g y)) x xs)"
  by (induction xs) auto

lemma sort_key_map: "sort_key f (map g xs) = map g (sort_key (\<lambda>y. f (g y)) xs)"
  by (induction xs) (simp_all add: insort_key_map)

lemma js_order_map: "js_order key (map g xs) = map g (js_order (\<lambda>x. key (g x)) xs)"
  by (simp add: js_order_def filter_map comp_def sort_key_map)

section \<open>Interface of a key-value dictionary\<close>

text \<open>
  What the clients of a dictionary rely on. It is interpreted below on plain objects, and by
  the components that bring their own dictionaries.
\<close>

locale dictionary =
  fixes get :: "'d \<Rightarrow> 'k \<Rightarrow> 'v option"
    and put :: "'k \<Rightarrow> 'v \<Rightarrow> 'd \<Rightarrow> 'd"
    and del :: "'k \<Rightarrow> 'd \<Rightarrow> 'd"
  assumes get_put: "get (put k v d) k' = (if k' = k then Some v else get d k')"
    and get_del: "get (del k d) k' = (if k' = k then None else get d k')"
begin

lemma get_put_same: "get (put k v d) k = Some v"
  by (simp add: get_put)

lemma get_del_same: "get (del k d) k = None"
  by (simp add: get_del)

lemma put_put_get: "get (put k v (put k w d)) k' = get (put k v d) k'"
  by (simp add: get_put)

lemma get_fold_del: "get (fold del ks d) k = (if k \<in> set ks then None else get d k)"
  by (induction ks arbitrary: d) (auto simp: get_del)

lemma get_fold_put:
  "distinct (map fst kvs) \<Longrightarrow>
   get (fold (\<lambda>(k, v). put k v) kvs d) k = (case map_of kvs k of None \<Rightarrow> get d k | Some v \<Rightarrow> Some v)"
proof (induction kvs arbitrary: d)
  case (Cons p kvs)
  obtain k' v where p: "p = (k', v)" by force
  with Cons.prems have fresh: "map_of kvs k' = None" and "distinct (map fst kvs)"
    by (auto simp: map_of_eq_None_iff)
  then show ?case using Cons.IH [of "put k' v d"] p by (auto simp: get_put split: option.split)
qed simp

end

text \<open>Values filed under a key of their own: what keeps every one of them where it belongs.\<close>

locale keyed_dictionary = dictionary get put del
  for get :: "'d \<Rightarrow> 'k \<Rightarrow> 'v option" and put :: "'k \<Rightarrow> 'v \<Rightarrow> 'd \<Rightarrow> 'd" and del :: "'k \<Rightarrow> 'd \<Rightarrow> 'd"
  + fixes key :: "'v \<Rightarrow> 'k"
begin

lemma keyed_put:
  "\<forall>k v. get d k = Some v \<longrightarrow> key v = k \<Longrightarrow> \<forall>k v. get (put (key w) w d) k = Some v \<longrightarrow> key v = k"
  by (simp add: get_put)

lemma keyed_del:
  "\<forall>k v. get d k = Some v \<longrightarrow> key v = k \<Longrightarrow> \<forall>k v. get (del j d) k = Some v \<longrightarrow> key v = k"
  by (simp add: get_del)

lemma get_replace:
  "get (put (key w) w (del j d)) k = (if k = key w then Some w else if k = j then None else get d k)"
  by (simp add: get_put get_del)

end

interpretation plain_object: dictionary "map_of" "AList.update" "AList.delete"
  by unfold_locales simp_all

section \<open>Interface of a coding\<close>

text \<open>
  Values written in another form and read back; \<open>ret\<close> marks a successful reading and \<open>ok\<close>
  says which values can be written.
\<close>

locale codec =
  fixes enc :: "'a \<Rightarrow> 'b" and dec :: "'b \<Rightarrow> 'c" and ret :: "'a \<Rightarrow> 'c" and ok :: "'a \<Rightarrow> bool"
  assumes dec_enc: "ok x \<Longrightarrow> dec (enc x) = ret x"
    and ret_inj: "ret x = ret y \<Longrightarrow> x = y"
begin

lemma enc_eq: "ok x \<Longrightarrow> ok y \<Longrightarrow> enc x = enc y \<longleftrightarrow> x = y"
  by (metis dec_enc ret_inj)

lemma enc_inj_on: "(\<And>x. x \<in> A \<Longrightarrow> ok x) \<Longrightarrow> inj_on enc A"
  by (auto simp: inj_on_def enc_eq)

lemma map_enc_eq: "list_all ok xs \<Longrightarrow> list_all ok ys \<Longrightarrow> map enc xs = map enc ys \<longleftrightarrow> xs = ys"
proof (induction xs arbitrary: ys)
  case (Cons x xs)
  then show ?case by (cases ys) (auto simp: enc_eq)
qed auto

end

interpretation decimal: codec show_nat read_nat "\<lambda>n. n" "\<lambda>_. True"
  by unfold_locales simp_all

section \<open>Interface of an event-driven component\<close>

text \<open>
  A component reacts to one event at a time. Events that satisfy \<open>ok\<close> keep its invariant, so
  every run does. A logging component also sends requests, each justified by the event and
  the state it was sent in.
\<close>

locale machine =
  fixes step :: "'e \<Rightarrow> 's \<Rightarrow> 's" and ok :: "'e \<Rightarrow> bool" and inv :: "'s \<Rightarrow> bool"
  assumes inv_step: "ok e \<Longrightarrow> inv s \<Longrightarrow> inv (step e s)"
begin

lemma inv_run: "list_all ok es \<Longrightarrow> inv s \<Longrightarrow> inv (fold step es s)"
  by (induction es arbitrary: s) (simp_all add: inv_step)

lemma inv_prefix_run: "list_all ok (pre @ post) \<Longrightarrow> inv s \<Longrightarrow> inv (fold step pre s)"
  by (simp add: inv_run)

end

locale logging_machine = machine step ok inv
  for step :: "'e \<Rightarrow> 's \<Rightarrow> 's" and ok :: "'e \<Rightarrow> bool" and inv :: "'s \<Rightarrow> bool"
  + fixes log :: "'s \<Rightarrow> 'o list" and why :: "'e \<Rightarrow> 's \<Rightarrow> 'o \<Rightarrow> bool"
  assumes log_step: "ok e \<Longrightarrow> inv s \<Longrightarrow> \<exists>new. log (step e s) = log s @ new \<and> list_all (why e s) new"
begin

lemma log_grows: "list_all ok es \<Longrightarrow> inv s \<Longrightarrow> \<exists>new. log (fold step es s) = log s @ new"
proof (induction es arbitrary: s)
  case (Cons e es)
  then obtain new where "log (step e s) = log s @ new" using log_step by force
  with Cons.IH [of "step e s"] Cons.prems inv_step show ?case by force
qed simp

lemma logged:
  "list_all ok es \<Longrightarrow> inv s \<Longrightarrow> x \<in> set (log (fold step es s)) \<Longrightarrow>
   x \<in> set (log s) \<or> (\<exists>pre e post. es = pre @ e # post \<and> why e (fold step pre s) x)"
proof (induction es rule: rev_induct)
  case (snoc e es)
  then have inv: "inv (fold step es s)" and e: "ok e" by (simp_all add: inv_run)
  then obtain new where new: "log (step e (fold step es s)) = log (fold step es s) @ new"
    "list_all (why e (fold step es s)) new" using log_step by blast
  from snoc.prems(3) new(1) have "x \<in> set (log (fold step es s)) \<or> x \<in> set new" by simp
  then show ?case
  proof
    assume "x \<in> set new"
    with new(2) have "why e (fold step es s) x" by (simp add: list_all_iff)
    then show ?thesis by blast
  next
    assume "x \<in> set (log (fold step es s))"
    with snoc.IH snoc.prems have "x \<in> set (log s) \<or> (\<exists>pre e' post. es = pre @ e' # post \<and> why e' (fold step pre s) x)"
      by simp
    then show ?thesis by (metis append_Cons append_assoc)
  qed
qed simp

end

end
