(* ===== verification/Permissions.thy ===== *)
theory Permissions
  imports Prelude
begin

text \<open>
  Role-based access control of the client, \<open>frontend/src/lib/permissions.ts\<close>, with the
  hooks \<open>usePermission\<close> and \<open>useCreatePermission\<close> that apply it to the current route.
  The server's list of permissions is indexed by cluster and resource type
  (\<open>modifyRolesData\<close>); \<open>isPermitted\<close> and \<open>isPermittedToCreate\<close> look up that index.
  The lemmas show that the index loses and invents nothing, and that each decision agrees
  with a direct reading of the flat list.
\<close>

section \<open>Data\<close>

datatype Action =
  ALL | VIEW | EDIT | CREATE | DELETE | RESET_OFFSETS | EXECUTE | MODIFY_GLOBAL_COMPATIBILITY
| ANALYSIS_VIEW | ANALYSIS_RUN | MESSAGES_READ | MESSAGES_PRODUCE | MESSAGES_DELETE
| OPERATE | RESTART

datatype ResourceType =
  APPLICATIONCONFIG | CLUSTERCONFIG | TOPIC | CONSUMER | SCHEMA | CONNECT | CONNECTOR | KSQL
| ACL | AUDIT | CLIENT_QUOTAS

record UserPermission =
  up_clusters :: "string list"
  up_resource :: ResourceType
  up_value :: "string option"
  up_actions :: "Action list"

type_synonym RolesType = "UserPermission list"
type_synonym ResourceMap = "(ResourceType \<times> RolesType) list"
type_synonym RolesModifiedTypes = "(string \<times> ResourceMap) list"

definition ResourceExemptList :: "ResourceType list" where
  "ResourceExemptList = [KSQL, CLUSTERCONFIG, APPLICATIONCONFIG, ACL, AUDIT]"

section \<open>Operations\<close>

text \<open>The body of the inner \<open>forEach\<close>: one permission entered under one cluster name.\<close>

definition add_item :: "UserPermission \<Rightarrow> string \<Rightarrow> RolesModifiedTypes \<Rightarrow> RolesModifiedTypes" where
  "add_item item name m =
     (case map_of m name of
        Some cluster \<Rightarrow>
          (case map_of cluster (up_resource item) of
             Some resourceItem \<Rightarrow>
               AList.update name (AList.update (up_resource item) (resourceItem @ [item]) cluster) m
           | None \<Rightarrow> AList.update name (AList.update (up_resource item) [item] cluster) m)
      | None \<Rightarrow> AList.update name [(up_resource item, [item])] m)"

definition modifyRolesData :: "RolesType option \<Rightarrow> RolesModifiedTypes" where
  "modifyRolesData data =
     (case data of
        None \<Rightarrow> []
      | Some items \<Rightarrow> fold (\<lambda>item m. fold (add_item item) (up_clusters item) m) items [])"

text \<open>
  \<open>new RegExp(regexp)\<close> throws on a malformed pattern; the regular-expression engine is a
  parameter: \<open>re regexp\<close> is \<open>None\<close> for a pattern that does not compile, else its test.
  The empty string and \<open>undefined\<close> are both falsy.
\<close>

type_synonym regexp_engine = "string \<Rightarrow> (string \<Rightarrow> bool) option"

definition valueMatches :: "regexp_engine \<Rightarrow> string option \<Rightarrow> string option \<Rightarrow> bool res" where
  "valueMatches re regexp val =
     (case val of
        None \<Rightarrow> Inr False
      | Some v \<Rightarrow>
          if v = [] then Inr False
          else (case regexp of
                  None \<Rightarrow> Inr True
                | Some r \<Rightarrow>
                    if r = [] then Inr True
                    else (case re r of None \<Rightarrow> Inl SyntaxError | Some t \<Rightarrow> Inr (t v))))"

definition item_allows ::
  "regexp_engine \<Rightarrow> ResourceType \<Rightarrow> string option \<Rightarrow> Action \<Rightarrow> UserPermission \<Rightarrow> bool res" where
  "item_allows re resource val a item =
     (if a \<notin> set (up_actions item) then Inr False
      else if resource \<in> set ResourceExemptList then Inr True
      else valueMatches re (up_value item) val)"

definition isPermitted ::
  "regexp_engine \<Rightarrow> RolesModifiedTypes option \<Rightarrow> ResourceType \<Rightarrow> Action list \<Rightarrow> string
   \<Rightarrow> string option \<Rightarrow> bool \<Rightarrow> bool res" where
  "isPermitted re roles resource actions clusterName val rbacFlag =
     (if \<not> rbacFlag then Inr True
      else case roles of
             None \<Rightarrow> Inr False
           | Some m \<Rightarrow>
               if length m = 0 then Inr False
               else (case map_of m clusterName of
                       None \<Rightarrow> Inr False
                     | Some clusterMap \<Rightarrow>
                         (case map_of clusterMap resource of
                            None \<Rightarrow> Inr False
                          | Some resourcePermissions \<Rightarrow>
                              js_every (\<lambda>a. js_some (item_allows re resource val a) resourcePermissions)
                                actions)))"

definition isPermittedToCreate ::
  "RolesModifiedTypes option \<Rightarrow> ResourceType \<Rightarrow> string \<Rightarrow> bool \<Rightarrow> bool" where
  "isPermittedToCreate roles resource clusterName rbacFlag =
     (if \<not> rbacFlag then True
      else case roles of
             None \<Rightarrow> False
           | Some m \<Rightarrow>
               if length m = 0 then False
               else (case map_of m clusterName of
                       None \<Rightarrow> False
                     | Some clusterMap \<Rightarrow>
                         (case map_of clusterMap resource of
                            None \<Rightarrow> False
                          | Some resourceData \<Rightarrow>
                              list_ex (\<lambda>item. CREATE \<in> set (up_actions item)) resourceData)))"

text \<open>The hooks read the cluster name from the route and the roles from the context.\<close>

record RolesAccess =
  ra_roles :: "RolesModifiedTypes option"
  ra_rbacFlag :: bool

definition usePermission ::
  "regexp_engine \<Rightarrow> string \<Rightarrow> RolesAccess \<Rightarrow> ResourceType \<Rightarrow> Action list \<Rightarrow> string option \<Rightarrow> bool res" where
  "usePermission re clusterName ctx resource actions val =
     isPermitted re (ra_roles ctx) resource actions clusterName val (ra_rbacFlag ctx)"

definition useCreatePermission :: "string \<Rightarrow> RolesAccess \<Rightarrow> ResourceType \<Rightarrow> bool" where
  "useCreatePermission clusterName ctx resource =
     isPermittedToCreate (ra_roles ctx) resource clusterName (ra_rbacFlag ctx)"

section \<open>What the index holds\<close>

text \<open>The entries under a cluster and a resource; \<open>[]\<close> when there is no such key.\<close>

definition entries :: "RolesModifiedTypes \<Rightarrow> string \<Rightarrow> ResourceType \<Rightarrow> RolesType" where
  "entries m c r =
     (case map_of m c of
        None \<Rightarrow> []
      | Some cm \<Rightarrow> (case map_of cm r of None \<Rightarrow> [] | Some items \<Rightarrow> items))"

text \<open>The specification: the permissions of the flat list that name the cluster, once per mention.\<close>

definition granted :: "RolesType \<Rightarrow> string \<Rightarrow> ResourceType \<Rightarrow> RolesType" where
  "granted items c r =
     concat (map (\<lambda>item. if up_resource item = r
                         then replicate (count_list (up_clusters item) c) item else []) items)"

definition no_empty_slot :: "RolesModifiedTypes \<Rightarrow> bool" where
  "no_empty_slot m \<longleftrightarrow> (\<forall>c cm r items. map_of m c = Some cm \<longrightarrow> map_of cm r = Some items \<longrightarrow> items \<noteq> [])"

lemma entries_add_item:
  "entries (add_item item name m) c r =
     entries m c r @ (if c = name \<and> r = up_resource item then [item] else [])"
  by (auto simp: entries_def add_item_def split: option.splits)

lemma no_empty_slot_add_item: "no_empty_slot m \<Longrightarrow> no_empty_slot (add_item item name m)"
  by (auto simp: no_empty_slot_def add_item_def split: option.splits if_splits)

lemma entries_add_clusters:
  "entries (fold (add_item item) cs m) c r =
     entries m c r @ (if r = up_resource item then replicate (count_list cs c) item else [])"
  by (induction cs arbitrary: m) (auto simp: entries_add_item replicate_append_same)

lemma no_empty_slot_add_clusters: "no_empty_slot m \<Longrightarrow> no_empty_slot (fold (add_item item) cs m)"
  by (induction cs arbitrary: m) (auto simp: no_empty_slot_add_item)

lemma entries_fold:
  "entries (fold (\<lambda>item m. fold (add_item item) (up_clusters item) m) items m) c r =
     entries m c r @ granted items c r"
  by (induction items arbitrary: m) (auto simp: entries_add_clusters granted_def)

lemma no_empty_slot_fold:
  "no_empty_slot m \<Longrightarrow> no_empty_slot (fold (\<lambda>item m. fold (add_item item) (up_clusters item) m) items m)"
  by (induction items arbitrary: m) (auto simp: no_empty_slot_add_clusters)

lemma entries_modifyRolesData: "entries (modifyRolesData (Some items)) c r = granted items c r"
  by (simp add: modifyRolesData_def entries_fold) (simp add: entries_def)

lemma no_empty_slot_Nil: "no_empty_slot []"
  by (simp add: no_empty_slot_def)

lemma no_empty_slot_modifyRolesData: "no_empty_slot (modifyRolesData d)"
  by (cases d) (simp_all add: modifyRolesData_def no_empty_slot_fold no_empty_slot_Nil)

lemma set_granted:
  "item \<in> set (granted items c r) \<longleftrightarrow> item \<in> set items \<and> c \<in> set (up_clusters item) \<and> up_resource item = r"
  by (auto simp: granted_def count_list_0_iff)

text \<open>Both decisions run over the entries of the index, and answer no when there are none.\<close>

lemma isPermitted_entries:
  "isPermitted re (Some (modifyRolesData d)) resource actions c val True =
     (if entries (modifyRolesData d) c resource = [] then Inr False
      else js_every (\<lambda>a. js_some (item_allows re resource val a) (entries (modifyRolesData d) c resource))
             actions)"
  using no_empty_slot_modifyRolesData [of d]
  by (auto simp: isPermitted_def entries_def no_empty_slot_def split: option.splits)

lemma isPermittedToCreate_entries:
  "isPermittedToCreate (Some (modifyRolesData d)) resource c True =
     list_ex (\<lambda>item. CREATE \<in> set (up_actions item)) (entries (modifyRolesData d) c resource)"
  by (auto simp: isPermittedToCreate_def entries_def split: option.splits)

lemma item_allows_total:
  assumes "\<And>r. up_value item = Some r \<Longrightarrow> r \<noteq> [] \<Longrightarrow> re r \<noteq> None"
  shows "item_allows re resource val a item = Inr
     (a \<in> set (up_actions item) \<and>
      (resource \<in> set ResourceExemptList \<or> valueMatches re (up_value item) val = Inr True))"
  using assms by (auto simp: item_allows_def valueMatches_def split: option.splits)

section \<open>Properties\<close>

text \<open>
  Indexing the permissions by cluster and resource type loses nothing and invents
  nothing: under every cluster and resource the index holds, in order, exactly the
  permissions of the flat list that name that cluster, once per mention.
\<close>

theorem modifyRolesData_granted:
  "entries (modifyRolesData (Some items)) c r = granted items c r"
  by (rule entries_modifyRolesData)

text \<open>The direct reading of the flat list.\<close>

definition role_grants ::
  "regexp_engine \<Rightarrow> RolesType \<Rightarrow> string \<Rightarrow> ResourceType \<Rightarrow> Action list \<Rightarrow> string option \<Rightarrow> bool" where
  "role_grants re items c resource actions val \<longleftrightarrow>
     (\<exists>item\<in>set items. c \<in> set (up_clusters item) \<and> up_resource item = resource) \<and>
     (\<forall>a\<in>set actions. \<exists>item\<in>set items.
        c \<in> set (up_clusters item) \<and> up_resource item = resource \<and> a \<in> set (up_actions item) \<and>
        (resource \<in> set ResourceExemptList \<or> valueMatches re (up_value item) val = Inr True))"

definition patterns_compile :: "regexp_engine \<Rightarrow> RolesType \<Rightarrow> bool" where
  "patterns_compile re items \<longleftrightarrow> (\<forall>item\<in>set items. \<forall>r. up_value item = Some r \<longrightarrow> r \<noteq> [] \<longrightarrow> re r \<noteq> None)"

lemma isPermitted_flat:
  assumes "patterns_compile re items"
  shows "isPermitted re (Some (modifyRolesData (Some items))) resource actions c val rbac =
    Inr (rbac \<longrightarrow> role_grants re items c resource actions val)"
proof (cases rbac)
  case False
  then show ?thesis by (simp add: isPermitted_def)
next
  case True
  define xs where "xs = granted items c resource"
  define ok where "ok a item \<longleftrightarrow> a \<in> set (up_actions item) \<and>
      (resource \<in> set ResourceExemptList \<or> valueMatches re (up_value item) val = Inr True)" for a and item :: UserPermission
  have allows: "item_allows re resource val a item = Inr (ok a item)" if "item \<in> set xs" for a item
    unfolding ok_def using that assms [unfolded patterns_compile_def] by (intro item_allows_total) (auto simp: xs_def set_granted)
  have every: "js_every (\<lambda>a. js_some (item_allows re resource val a) xs) actions =
      Inr (\<forall>a\<in>set actions. \<exists>item\<in>set xs. ok a item)"
    by (rule js_every_total) (rule js_some_total, rule allows)
  have mem: "item \<in> set xs \<longleftrightarrow>
      item \<in> set items \<and> c \<in> set (up_clusters item) \<and> up_resource item = resource" for item
    by (simp add: xs_def set_granted)
  have empty: "xs = [] \<longleftrightarrow> (\<forall>item. item \<notin> set xs)"
    by (cases xs) auto
  have "isPermitted re (Some (modifyRolesData (Some items))) resource actions c val rbac =
      (if xs = [] then Inr False else Inr (\<forall>a\<in>set actions. \<exists>item\<in>set xs. ok a item))"
    using True every by (simp add: isPermitted_entries entries_modifyRolesData xs_def)
  also have "\<dots> = Inr ((\<exists>item. item \<in> set xs) \<and> (\<forall>a\<in>set actions. \<exists>item. item \<in> set xs \<and> ok a item))"
    unfolding empty by (auto simp: Bex_def) (use empty in blast)
  finally show ?thesis
    using True by (simp add: mem ok_def Bex_def conj_ac role_grants_def)
qed

text \<open>
  C1. When every pattern compiles, a permission check over the index is the direct reading
  of the flat list: with access control off everything is allowed; with it on, some
  permission must name the cluster and the resource, and for every requested action one of
  those must list the action and, unless the resource type is exempt from naming, match
  the resource's name.
\<close>

theorem isPermitted_spec:
  assumes "\<forall>item\<in>set items. \<forall>r. up_value item = Some r \<longrightarrow> r \<noteq> [] \<longrightarrow> re r \<noteq> None"
  shows "isPermitted re (Some (modifyRolesData (Some items))) resource actions c val rbac =
    Inr (rbac \<longrightarrow>
      (\<exists>item\<in>set items. c \<in> set (up_clusters item) \<and> up_resource item = resource) \<and>
      (\<forall>a\<in>set actions. \<exists>item\<in>set items.
         c \<in> set (up_clusters item) \<and> up_resource item = resource \<and> a \<in> set (up_actions item) \<and>
         (resource \<in> set ResourceExemptList \<or> valueMatches re (up_value item) val = Inr True)))"
  using isPermitted_flat [of re items] assms by (simp add: patterns_compile_def role_grants_def)

theorem isPermitted_spec_witness:
  "isPermitted (\<lambda>r. Some (starts_with r))
     (Some (modifyRolesData (Some
        [\<lparr>up_clusters = [''dev''], up_resource = TOPIC, up_value = Some ''t'', up_actions = [VIEW]\<rparr>])))
     TOPIC [VIEW] ''dev'' (Some ''topic-1'') True = Inr True"
proof -
  let ?items = "[\<lparr>up_clusters = [''dev''], up_resource = TOPIC, up_value = Some ''t'', up_actions = [VIEW]\<rparr>]"
  have h: "\<forall>item\<in>set ?items. \<forall>r. up_value item = Some r \<longrightarrow> r \<noteq> [] \<longrightarrow>
      (\<lambda>r. Some (starts_with r)) r \<noteq> None" by simp
  show ?thesis
    unfolding isPermitted_spec [OF h] by (simp add: valueMatches_def)
qed

text \<open>
  The creation check ignores names and patterns: it is granted exactly when some
  permission of the flat list names the cluster and the resource and lists \<open>CREATE\<close>. It
  therefore grants creation to every role whose name pattern an ordinary check could refuse.
\<close>

theorem isPermittedToCreate_spec:
  "isPermittedToCreate (Some (modifyRolesData (Some items))) resource c rbac \<longleftrightarrow>
     (rbac \<longrightarrow> (\<exists>item\<in>set items.
        c \<in> set (up_clusters item) \<and> up_resource item = resource \<and> CREATE \<in> set (up_actions item)))"
proof (cases rbac)
  case True
  then show ?thesis
    by (auto simp: isPermittedToCreate_entries entries_modifyRolesData list_ex_iff set_granted)
qed (simp add: isPermittedToCreate_def)

theorem isPermittedToCreate_spec_witness:
  "isPermittedToCreate (Some (modifyRolesData (Some
      [\<lparr>up_clusters = [''dev''], up_resource = TOPIC, up_value = Some ''none'', up_actions = [CREATE]\<rparr>])))
    TOPIC ''dev'' True"
  by (subst isPermittedToCreate_spec) simp

end
