(* ===== verification/Paths.thy ===== *)
theory Paths
  imports Prelude
begin

text \<open>
  The client's routes, \<open>frontend/src/lib/paths.ts\<close>, and the reading of the cluster
  name back from the current route, \<open>frontend/src/lib/hooks/useAppParams.tsx\<close>.
  Every path builder takes its parameters as options: \<open>None\<close> is an omitted argument,
  for which the default of the source (the route pattern) is used.

  \<open>encodeURIComponent\<close> and \<open>decodeURIComponent\<close> are modelled on UTF-8 bytes, with
  \<open>URIError\<close> as the error value. The lemmas show that they are inverse to each other,
  that an encoded segment contains no separator, and from that which routes can and which
  cannot be confused.
\<close>

section \<open>URI components\<close>

definition uri_unreserved :: "char \<Rightarrow> bool" where
  "uri_unreserved c \<longleftrightarrow>
     c \<in> set ''ABCDEFGHIJKLMNOPQRSTUVWXYZabcdefghijklmnopqrstuvwxyz0123456789-_.!~*()'' \<or> c = CHR 0x27"

definition hex_digit :: "nat \<Rightarrow> char" where
  "hex_digit n = ''0123456789ABCDEF'' ! n"

definition hex_val :: "char \<Rightarrow> nat option" where
  "hex_val c =
     (let n = of_char c :: nat
      in if 48 \<le> n \<and> n \<le> 57 then Some (n - 48)
         else if 65 \<le> n \<and> n \<le> 70 then Some (n - 55)
         else if 97 \<le> n \<and> n \<le> 102 then Some (n - 87)
         else None)"

definition encode_char :: "char \<Rightarrow> string" where
  "encode_char c =
     (if uri_unreserved c then [c]
      else let n = of_char c :: nat in [CHR ''%'', hex_digit (n div 16), hex_digit (n mod 16)])"

definition encodeURIComponent :: "string \<Rightarrow> string" where
  "encodeURIComponent s = concat (map encode_char s)"

fun percent_decode :: "string \<Rightarrow> string option" where
  "percent_decode [] = Some []"
| "percent_decode (c # s) =
     (if c = CHR ''%''
      then (case s of
              h # l # t \<Rightarrow>
                (case (hex_val h, hex_val l) of
                   (Some a, Some b) \<Rightarrow> map_option ((#) (char_of (16 * a + b))) (percent_decode t)
                 | _ \<Rightarrow> None)
            | _ \<Rightarrow> None)
      else map_option ((#) c) (percent_decode s))"

text \<open>Well-formed UTF-8: no stray continuation byte, no overlong form, no surrogate.\<close>

definition byte_in :: "nat \<Rightarrow> nat \<Rightarrow> char \<Rightarrow> bool" where
  "byte_in lo hi c \<longleftrightarrow> lo \<le> (of_char c :: nat) \<and> (of_char c :: nat) \<le> hi"

fun utf8_valid :: "string \<Rightarrow> bool" where
  "utf8_valid [] = True"
| "utf8_valid (a # s) =
     (if byte_in 0 127 a then utf8_valid s
      else case s of
        [] \<Rightarrow> False
      | b # s1 \<Rightarrow>
          if byte_in 194 223 a then byte_in 128 191 b \<and> utf8_valid s1
          else case s1 of
            [] \<Rightarrow> False
          | c # s2 \<Rightarrow>
              if byte_in 224 239 a
              then byte_in (if byte_in 224 224 a then 160 else 128) (if byte_in 237 237 a then 159 else 191) b
                   \<and> byte_in 128 191 c \<and> utf8_valid s2
              else case s2 of
                [] \<Rightarrow> False
              | d # s3 \<Rightarrow>
                  byte_in 240 244 a
                  \<and> byte_in (if byte_in 240 240 a then 144 else 128) (if byte_in 244 244 a then 143 else 191) b
                  \<and> byte_in 128 191 c \<and> byte_in 128 191 d \<and> utf8_valid s3)"

definition decodeURIComponent :: "string \<Rightarrow> string res" where
  "decodeURIComponent s =
     (case percent_decode s of
        None \<Rightarrow> Inl URIError
      | Some t \<Rightarrow> if utf8_valid t then Inr t else Inl URIError)"

section \<open>Route builders\<close>

definition dflt :: "'a \<Rightarrow> 'a option \<Rightarrow> 'a" where
  "dflt d p = (case p of None \<Rightarrow> d | Some v \<Rightarrow> v)"

definition GIT_REPO_LINK :: string where
  "GIT_REPO_LINK = ''https://github.com/cy-kaf/cy-kaf-client''"

definition gitCommitPath :: "string \<Rightarrow> string" where
  "gitCommitPath commit = GIT_REPO_LINK @ ''/commit/'' @ commit"

definition RouteParams_clusterName :: string where "RouteParams_clusterName = '':clusterName''"
definition RouteParams_consumerGroupID :: string where "RouteParams_consumerGroupID = '':consumerGroupID''"
definition RouteParams_subject :: string where "RouteParams_subject = '':subject''"
definition RouteParams_topicName :: string where "RouteParams_topicName = '':topicName''"
definition RouteParams_connectName :: string where "RouteParams_connectName = '':connectName''"
definition RouteParams_connectorName :: string where "RouteParams_connectorName = '':connectorName''"
definition RouteParams_brokerId :: string where "RouteParams_brokerId = '':brokerId''"

definition getNonExactPath :: "string \<Rightarrow> string" where
  "getNonExactPath path = path @ ''/*''"

definition errorPage :: string where "errorPage = ''/404''"
definition accessErrorPage :: string where "accessErrorPage = ''/403''"

definition clusterPath :: "string option \<Rightarrow> string" where
  "clusterPath clusterName =
     (let name = dflt RouteParams_clusterName clusterName
      in ''/ui/clusters/'' @
         (if name = RouteParams_clusterName then name else encodeURIComponent name))"

subsection \<open>Brokers\<close>

definition clusterBrokerRelativePath :: string where
  "clusterBrokerRelativePath = ''brokers''"

definition clusterBrokerMetricsRelativePath :: string where
  "clusterBrokerMetricsRelativePath = ''metrics''"

definition clusterBrokerConfigsRelativePath :: string where
  "clusterBrokerConfigsRelativePath = ''configs''"

definition clusterBrokersPath :: "string option \<Rightarrow> string" where
  "clusterBrokersPath clusterName =
     clusterPath (Some (dflt RouteParams_clusterName clusterName)) @ ''/'' @ clusterBrokerRelativePath"

definition clusterBrokerPath :: "string option \<Rightarrow> string option \<Rightarrow> string" where
  "clusterBrokerPath clusterName brokerId =
     clusterBrokersPath (Some (dflt RouteParams_clusterName clusterName)) @ ''/'' @ dflt RouteParams_brokerId brokerId"

definition clusterBrokerMetricsPath :: "string option \<Rightarrow> string option \<Rightarrow> string" where
  "clusterBrokerMetricsPath clusterName brokerId =
     clusterBrokerPath (Some (dflt RouteParams_clusterName clusterName)) (Some (dflt RouteParams_brokerId brokerId)) @ ''/'' @
     clusterBrokerMetricsRelativePath"

definition clusterBrokerConfigsPath :: "string option \<Rightarrow> string option \<Rightarrow> string" where
  "clusterBrokerConfigsPath clusterName brokerId =
     clusterBrokerPath (Some (dflt RouteParams_clusterName clusterName)) (Some (dflt RouteParams_brokerId brokerId)) @ ''/'' @
     clusterBrokerConfigsRelativePath"

subsection \<open>Consumer groups\<close>

definition clusterConsumerGroupsRelativePath :: string where
  "clusterConsumerGroupsRelativePath = ''consumer-groups''"

definition clusterConsumerGroupResetRelativePath :: string where
  "clusterConsumerGroupResetRelativePath = ''reset-offsets''"

definition clusterConsumerGroupResetOffsetsRelativePath :: string where
  "clusterConsumerGroupResetOffsetsRelativePath = RouteParams_consumerGroupID @ ''/'' @ clusterConsumerGroupResetRelativePath"

definition clusterConsumerGroupsPath :: "string option \<Rightarrow> string" where
  "clusterConsumerGroupsPath clusterName =
     clusterPath (Some (dflt RouteParams_clusterName clusterName)) @ ''/'' @ clusterConsumerGroupsRelativePath"

definition clusterConsumerGroupDetailsPath :: "string option \<Rightarrow> string option \<Rightarrow> string" where
  "clusterConsumerGroupDetailsPath clusterName groupId =
     clusterConsumerGroupsPath (Some (dflt RouteParams_clusterName clusterName)) @ ''/'' @ dflt RouteParams_consumerGroupID groupId"

definition clusterConsumerGroupResetOffsetsPath :: "string option \<Rightarrow> string option \<Rightarrow> string" where
  "clusterConsumerGroupResetOffsetsPath clusterName groupId =
     clusterConsumerGroupDetailsPath (Some (dflt RouteParams_clusterName clusterName)) (Some (dflt RouteParams_consumerGroupID groupId)) @ ''/'' @
     clusterConsumerGroupResetRelativePath"

subsection \<open>Schemas\<close>

definition clusterSchemasRelativePath :: string where
  "clusterSchemasRelativePath = ''schemas''"

definition clusterSchemaNewRelativePath :: string where
  "clusterSchemaNewRelativePath = ''create-new''"

definition clusterSchemaEditPageRelativePath :: string where
  "clusterSchemaEditPageRelativePath = ''edit''"

definition clusterSchemaSchemaComparePageRelativePath :: string where
  "clusterSchemaSchemaComparePageRelativePath = ''compare''"

definition clusterSchemaEditRelativePath :: string where
  "clusterSchemaEditRelativePath = RouteParams_subject @ ''/'' @ clusterSchemaEditPageRelativePath"

definition clusterSchemaSchemaDiffRelativePath :: string where
  "clusterSchemaSchemaDiffRelativePath = RouteParams_subject @ ''/'' @ clusterSchemaSchemaComparePageRelativePath"

definition clusterSchemasPath :: "string option \<Rightarrow> string" where
  "clusterSchemasPath clusterName =
     clusterPath (Some (dflt RouteParams_clusterName clusterName)) @ ''/schemas''"

definition clusterSchemaNewPath :: "string option \<Rightarrow> string" where
  "clusterSchemaNewPath clusterName =
     clusterSchemasPath (Some (dflt RouteParams_clusterName clusterName)) @ ''/'' @ clusterSchemaNewRelativePath"

definition clusterSchemaPath :: "string option \<Rightarrow> string option \<Rightarrow> string" where
  "clusterSchemaPath clusterName subject =
     (let subject = dflt RouteParams_subject subject;
          subjectName = (if subject \<noteq> '':subject'' then encodeURIComponent subject else subject)
      in clusterSchemasPath (Some (dflt RouteParams_clusterName clusterName)) @ ''/'' @ subjectName)"

definition clusterSchemaEditPath :: "string option \<Rightarrow> string option \<Rightarrow> string" where
  "clusterSchemaEditPath clusterName subject =
     (let subject = dflt RouteParams_subject subject;
          subjectName = (if subject \<noteq> '':subject'' then encodeURIComponent subject else subject)
      in clusterSchemasPath (Some (dflt RouteParams_clusterName clusterName)) @ ''/'' @ subjectName @ ''/edit'')"

definition clusterSchemaComparePath :: "string option \<Rightarrow> string option \<Rightarrow> string" where
  "clusterSchemaComparePath clusterName subject =
     clusterSchemaPath (Some (dflt RouteParams_clusterName clusterName)) (Some (dflt RouteParams_subject subject)) @ ''/compare''"

subsection \<open>Topics\<close>

definition clusterTopicsRelativePath :: string where
  "clusterTopicsRelativePath = ''all-topics''"

definition clusterTopicNewRelativePath :: string where
  "clusterTopicNewRelativePath = ''create-new-topic''"

definition clusterTopicCopyRelativePath :: string where
  "clusterTopicCopyRelativePath = ''copy''"

definition clusterTopicsPath :: "string option \<Rightarrow> string" where
  "clusterTopicsPath clusterName =
     clusterPath (Some (dflt RouteParams_clusterName clusterName)) @ ''/'' @ clusterTopicsRelativePath"

definition clusterTopicNewPath :: "string option \<Rightarrow> string" where
  "clusterTopicNewPath clusterName =
     clusterTopicsPath (Some (dflt RouteParams_clusterName clusterName)) @ ''/'' @ clusterTopicNewRelativePath"

definition clusterTopicCopyPath :: "string option \<Rightarrow> string" where
  "clusterTopicCopyPath clusterName =
     clusterTopicsPath (Some (dflt RouteParams_clusterName clusterName)) @ ''/'' @ clusterTopicCopyRelativePath"

definition clusterTopicSettingsRelativePath :: string where
  "clusterTopicSettingsRelativePath = ''settings''"

definition clusterTopicMessagesRelativePath :: string where
  "clusterTopicMessagesRelativePath = ''messages''"

definition clusterTopicConsumerGroupsRelativePath :: string where
  "clusterTopicConsumerGroupsRelativePath = ''consumer-groups''"

definition clusterTopicStatisticsRelativePath :: string where
  "clusterTopicStatisticsRelativePath = ''statistics''"

definition clusterTopicConnectorsRelativePath :: string where
  "clusterTopicConnectorsRelativePath = ''connectors''"

definition clusterTopicAclsRelativePath :: string where
  "clusterTopicAclsRelativePath = ''acls''"

definition clusterTopicEditRelativePath :: string where
  "clusterTopicEditRelativePath = ''edit''"

definition clusterTopicPath :: "string option \<Rightarrow> string option \<Rightarrow> string" where
  "clusterTopicPath clusterName topicName =
     clusterTopicsPath (Some (dflt RouteParams_clusterName clusterName)) @ ''/'' @ dflt RouteParams_topicName topicName"

definition clusterTopicSettingsPath :: "string option \<Rightarrow> string option \<Rightarrow> string" where
  "clusterTopicSettingsPath clusterName topicName =
     clusterTopicPath (Some (dflt RouteParams_clusterName clusterName)) (Some (dflt RouteParams_topicName topicName)) @ ''/'' @
     clusterTopicSettingsRelativePath"

definition clusterTopicMessagesPath :: "string option \<Rightarrow> string option \<Rightarrow> string" where
  "clusterTopicMessagesPath clusterName topicName =
     clusterTopicPath (Some (dflt RouteParams_clusterName clusterName)) (Some (dflt RouteParams_topicName topicName)) @ ''/'' @
     clusterTopicMessagesRelativePath"

definition clusterTopicEditPath :: "string option \<Rightarrow> string option \<Rightarrow> string" where
  "clusterTopicEditPath clusterName topicName =
     clusterTopicPath (Some (dflt RouteParams_clusterName clusterName)) (Some (dflt RouteParams_topicName topicName)) @ ''/'' @
     clusterTopicEditRelativePath"

definition clusterTopicConsumerGroupsPath :: "string option \<Rightarrow> string option \<Rightarrow> string" where
  "clusterTopicConsumerGroupsPath clusterName topicName =
     clusterTopicPath (Some (dflt RouteParams_clusterName clusterName)) (Some (dflt RouteParams_topicName topicName)) @ ''/'' @
     clusterTopicConsumerGroupsRelativePath"

definition clusterTopicStatisticsPath :: "string option \<Rightarrow> string option \<Rightarrow> string" where
  "clusterTopicStatisticsPath clusterName topicName =
     clusterTopicPath (Some (dflt RouteParams_clusterName clusterName)) (Some (dflt RouteParams_topicName topicName)) @ ''/'' @
     clusterTopicStatisticsRelativePath"

subsection \<open>Kafka Connect\<close>

definition clusterConnectsRelativePath :: string where
  "clusterConnectsRelativePath = ''connects''"

definition clusterConnectorsRelativePath :: string where
  "clusterConnectorsRelativePath = ''connectors''"

definition kafkaConnectRelativePath :: string where
  "kafkaConnectRelativePath = ''kafka-connect''"

definition kafkaConnectClustersRelativePath :: string where
  "kafkaConnectClustersRelativePath = ''clusters''"

definition clusterConnectConnectorsRelativePath :: string where
  "clusterConnectConnectorsRelativePath = RouteParams_connectName @ ''/connectors''"

definition clusterConnectConnectorRelativePath :: string where
  "clusterConnectConnectorRelativePath = clusterConnectsRelativePath @ ''/'' @
     clusterConnectConnectorsRelativePath @ ''/'' @ RouteParams_connectorName"

definition clusterConnectorNewRelativePath :: string where
  "clusterConnectorNewRelativePath = ''create-new''"

definition clusterConnectConnectorTasksRelativePath :: string where
  "clusterConnectConnectorTasksRelativePath = ''tasks''"

definition clusterConnectConnectorConfigRelativePath :: string where
  "clusterConnectConnectorConfigRelativePath = ''config''"

definition clusterConnectConnectorTopicsRelativePath :: string where
  "clusterConnectConnectorTopicsRelativePath = ''topics''"

definition clusterConnectsPath :: "string option \<Rightarrow> string" where
  "clusterConnectsPath clusterName =
     clusterPath (Some (dflt RouteParams_clusterName clusterName)) @ ''/connects''"

definition kafkaConnectPath :: "string option \<Rightarrow> string" where
  "kafkaConnectPath clusterName =
     clusterPath (Some (dflt RouteParams_clusterName clusterName)) @ ''/kafka-connect''"

definition kafkaConnectClustersPath :: "string option \<Rightarrow> string" where
  "kafkaConnectClustersPath clusterName =
     kafkaConnectPath (Some (dflt RouteParams_clusterName clusterName)) @ ''/clusters''"

definition clusterConnectorsPath :: "string option \<Rightarrow> string" where
  "clusterConnectorsPath clusterName =
     kafkaConnectPath (Some (dflt RouteParams_clusterName clusterName)) @ ''/connectors''"

definition clusterConnectorNameSubPath :: "string option \<Rightarrow> string" where
  "clusterConnectorNameSubPath clusterName =
     dflt RouteParams_connectorName clusterName @ ''/connectors''"

definition clusterConnectorNewPath :: "string option \<Rightarrow> string" where
  "clusterConnectorNewPath clusterName =
     clusterPath (Some (dflt RouteParams_clusterName clusterName)) @ ''/create-new''"

definition clusterConnectConnectorsPath :: "string option \<Rightarrow> string option \<Rightarrow> string" where
  "clusterConnectConnectorsPath clusterName connectName =
     clusterConnectsPath (Some (dflt RouteParams_clusterName clusterName)) @ ''/'' @
     dflt RouteParams_connectName connectName @ ''/connectors''"

definition clusterConnectConnectorPath :: "string option \<Rightarrow> string option \<Rightarrow> string option \<Rightarrow> string" where
  "clusterConnectConnectorPath clusterName connectName connectorName =
     clusterConnectConnectorsPath (Some (dflt RouteParams_clusterName clusterName)) (Some (dflt RouteParams_connectName connectName)) @ ''/'' @
     dflt RouteParams_connectorName connectorName"

definition clusterConnectConnectorEditPath :: "string option \<Rightarrow> string option \<Rightarrow> string option \<Rightarrow> string" where
  "clusterConnectConnectorEditPath clusterName connectName connectorName =
     clusterConnectConnectorsPath (Some (dflt RouteParams_clusterName clusterName)) (Some (dflt RouteParams_connectName connectName)) @ ''/'' @
     dflt RouteParams_connectorName connectorName @ ''/edit''"

definition clusterConnectConnectorTasksPath :: "string option \<Rightarrow> string option \<Rightarrow> string option \<Rightarrow> string" where
  "clusterConnectConnectorTasksPath clusterName connectName connectorName =
     clusterConnectConnectorPath (Some (dflt RouteParams_clusterName clusterName)) (Some (dflt RouteParams_connectName connectName))
       (Some (dflt RouteParams_connectorName connectorName)) @ ''/'' @ clusterConnectConnectorTasksRelativePath"

definition clusterConnectConnectorConfigPath :: "string option \<Rightarrow> string option \<Rightarrow> string option \<Rightarrow> string" where
  "clusterConnectConnectorConfigPath clusterName connectName connectorName =
     clusterConnectConnectorPath (Some (dflt RouteParams_clusterName clusterName)) (Some (dflt RouteParams_connectName connectName))
       (Some (dflt RouteParams_connectorName connectorName)) @ ''/'' @ clusterConnectConnectorConfigRelativePath"

definition clusterConnectConnectorTopicsPath :: "string option \<Rightarrow> string option \<Rightarrow> string option \<Rightarrow> string" where
  "clusterConnectConnectorTopicsPath clusterName connectName connectorName =
     clusterConnectConnectorPath (Some (dflt RouteParams_clusterName clusterName)) (Some (dflt RouteParams_connectName connectName))
       (Some (dflt RouteParams_connectorName connectorName)) @ ''/'' @ clusterConnectConnectorTopicsRelativePath"

subsection \<open>ksqlDB\<close>

definition clusterKsqlDbRelativePath :: string where
  "clusterKsqlDbRelativePath = ''ksqldb''"

definition clusterKsqlDbQueryRelativePath :: string where
  "clusterKsqlDbQueryRelativePath = ''query''"

definition clusterKsqlDbTablesRelativePath :: string where
  "clusterKsqlDbTablesRelativePath = ''tables''"

definition clusterKsqlDbStreamsRelativePath :: string where
  "clusterKsqlDbStreamsRelativePath = ''streams''"

definition clusterKsqlDbPath :: "string option \<Rightarrow> string" where
  "clusterKsqlDbPath clusterName =
     clusterPath (Some (dflt RouteParams_clusterName clusterName)) @ ''/'' @ clusterKsqlDbRelativePath"

definition clusterKsqlDbQueryPath :: "string option \<Rightarrow> string" where
  "clusterKsqlDbQueryPath clusterName =
     clusterKsqlDbPath (Some (dflt RouteParams_clusterName clusterName)) @ ''/'' @ clusterKsqlDbQueryRelativePath"

definition clusterKsqlDbTablesPath :: "string option \<Rightarrow> string" where
  "clusterKsqlDbTablesPath clusterName =
     clusterKsqlDbPath (Some (dflt RouteParams_clusterName clusterName)) @ ''/'' @ clusterKsqlDbTablesRelativePath"

definition clusterKsqlDbStreamsPath :: "string option \<Rightarrow> string" where
  "clusterKsqlDbStreamsPath clusterName =
     clusterKsqlDbPath (Some (dflt RouteParams_clusterName clusterName)) @ ''/'' @ clusterKsqlDbStreamsRelativePath"

subsection \<open>Cluster configuration and ACLs\<close>

definition clusterConfigRelativePath :: string where
  "clusterConfigRelativePath = ''config''"

definition clusterConfigPath :: "string option \<Rightarrow> string" where
  "clusterConfigPath clusterName =
     clusterPath (Some (dflt RouteParams_clusterName clusterName)) @ ''/'' @ clusterConfigRelativePath"

definition clusterNewConfigRelativePath :: string where
  "clusterNewConfigRelativePath = ''create-new-cluster''"

definition clusterNewConfigPath :: string where
  "clusterNewConfigPath = ''/ui/clusters/'' @ clusterNewConfigRelativePath"

definition clusterAclRelativePath :: string where
  "clusterAclRelativePath = ''acl''"

definition clusterAclNewRelativePath :: string where
  "clusterAclNewRelativePath = ''create-new-acl''"

definition clusterACLPath :: "string option \<Rightarrow> string" where
  "clusterACLPath clusterName =
     clusterPath (Some (dflt RouteParams_clusterName clusterName)) @ ''/'' @ clusterAclRelativePath"

section \<open>Reading the cluster name back\<close>

text \<open>
  The router splits the location at slashes and decodes each matched segment once before
  handing it to \<open>useParams\<close>; \<open>useAppParams\<close> then decodes the cluster name again and
  stores it in the parameter object. \<open>params\<close> is that object; the result is its new
  value, or the error thrown to the component.
\<close>

record RouteValues =
  rv_clusterName :: "string option"

definition useAppParams :: "'a RouteValues_scheme \<Rightarrow> 'a RouteValues_scheme res" where
  "useAppParams params =
     (case rv_clusterName params of
        None \<Rightarrow> Inr params
      | Some name \<Rightarrow>
          bind_res (decodeURIComponent name) (\<lambda>n. Inr (params\<lparr>rv_clusterName := Some n\<rparr>)))"

section \<open>Lemmas on URI components\<close>

lemma all_less_16: "(\<And>n. n \<in> set [0..<16] \<Longrightarrow> P n) \<Longrightarrow> n < 16 \<Longrightarrow> P n"
  by simp

lemma hex_val_digit [simp]: "n < 16 \<Longrightarrow> hex_val (hex_digit n) = Some n"
proof (erule all_less_16 [rotated])
  have "list_all (\<lambda>n. hex_val (hex_digit n) = Some n) [0..<16]" by code_simp
  then show "\<And>n. n \<in> set [0..<16] \<Longrightarrow> hex_val (hex_digit n) = Some n"
    by (simp only: list_all_iff)
qed

lemma hex_digit_unreserved [simp]: "n < 16 \<Longrightarrow> uri_unreserved (hex_digit n)"
proof (erule all_less_16 [rotated])
  have "list_all (\<lambda>n. uri_unreserved (hex_digit n)) [0..<16]" by code_simp
  then show "\<And>n. n \<in> set [0..<16] \<Longrightarrow> uri_unreserved (hex_digit n)"
    by (simp only: list_all_iff)
qed

lemma percent_not_unreserved [simp]: "\<not> uri_unreserved CHR ''%''"
  by code_simp

lemma slash_not_unreserved [simp]: "\<not> uri_unreserved CHR ''/''"
  by code_simp

lemma colon_not_unreserved [simp]: "\<not> uri_unreserved CHR '':''"
  by code_simp

lemma of_char_less_256: "(of_char c :: nat) < 256"
  by (metis nat_of_char_less_256)

lemma of_char_nibbles: "(of_char c :: nat) div 16 < 16" "(of_char c :: nat) mod 16 < 16"
proof -
  have "(of_char c :: nat) < 16 * 16" using of_char_less_256 [of c] by simp
  then show "(of_char c :: nat) div 16 < 16" by (rule less_mult_imp_div_less)
qed simp

lemma char_of_nibbles [simp]: "char_of (16 * ((of_char c :: nat) div 16) + of_char c mod 16) = c"
  by simp

lemma percent_decode_encode_char:
  "percent_decode (encode_char c @ s) = map_option ((#) c) (percent_decode s)"
proof (cases "uri_unreserved c")
  case True
  then have "c \<noteq> CHR ''%''" by auto
  with True show ?thesis by (simp add: encode_char_def)
next
  case False
  with of_char_nibbles [of c] show ?thesis by (simp add: encode_char_def Let_def)
qed

lemma percent_decode_encode: "percent_decode (encodeURIComponent s) = Some s"
  by (induction s) (simp_all add: encodeURIComponent_def percent_decode_encode_char)

interpretation percent: codec encodeURIComponent percent_decode Some "\<lambda>_. True"
  by unfold_locales (simp_all add: percent_decode_encode)

lemma encodeURIComponent_inj [simp]: "encodeURIComponent s = encodeURIComponent t \<longleftrightarrow> s = t"
  by (simp add: percent.enc_eq)

lemma encode_char_set: "x \<in> set (encode_char c) \<Longrightarrow> uri_unreserved x \<or> x = CHR ''%''"
  using of_char_nibbles [of c] by (auto simp: encode_char_def Let_def split: if_splits)

lemma encodeURIComponent_set: "x \<in> set (encodeURIComponent s) \<Longrightarrow> uri_unreserved x \<or> x = CHR ''%''"
  by (auto simp: encodeURIComponent_def dest: encode_char_set)

lemma encodeURIComponent_no_slash [simp]: "CHR ''/'' \<notin> set (encodeURIComponent s)"
  using encodeURIComponent_set [of "CHR ''/''" s] by auto

lemma encodeURIComponent_no_colon [simp]: "CHR '':'' \<notin> set (encodeURIComponent s)"
  using encodeURIComponent_set [of "CHR '':''" s] by auto

lemma encodeURIComponent_not_pattern [simp]: "encodeURIComponent s \<noteq> CHR '':'' # t"
  using encodeURIComponent_no_colon [of s] by (metis list.set_intros(1))

lemma percent_decode_id: "CHR ''%'' \<notin> set s \<Longrightarrow> percent_decode s = Some s"
  by (induction s) auto

lemma percent_decode_length: "percent_decode s = Some t \<Longrightarrow> length t \<le> length s"
  by (induction s arbitrary: t rule: percent_decode.induct)
    (fastforce split: if_splits list.splits option.splits)+

lemma percent_decode_shrinks:
  "percent_decode s = Some t \<Longrightarrow> CHR ''%'' \<in> set s \<Longrightarrow> length t < length s"
proof (induction s arbitrary: t rule: percent_decode.induct)
  case (2 c s)
  show ?case
  proof (cases "c = CHR ''%''")
    case True
    then show ?thesis using 2(3)
      by (auto split: list.splits option.splits dest!: percent_decode_length)
  next
    case False
    then show ?thesis using 2 by auto
  qed
qed simp

section \<open>Lemmas on routes\<close>

definition route_segment :: "string \<Rightarrow> string \<Rightarrow> string" where
  "route_segment pattern name = (if name = pattern then name else encodeURIComponent name)"

lemma route_segment_no_slash: "CHR ''/'' \<notin> set pat \<Longrightarrow> CHR ''/'' \<notin> set (route_segment pat s)"
  by (simp add: route_segment_def)

lemma route_segment_inj: "route_segment (CHR '':'' # p) s = route_segment (CHR '':'' # p) t \<longleftrightarrow> s = t"
  by (auto simp: route_segment_def) (metis encodeURIComponent_not_pattern)+

lemma clusterPath_Some:
  "clusterPath (Some c) = ''/ui/clusters/'' @ route_segment RouteParams_clusterName c"
  by (simp add: clusterPath_def dflt_def route_segment_def Let_def)

lemma clusterPath_inj [simp]: "clusterPath (Some c) = clusterPath (Some d) \<longleftrightarrow> c = d"
  by (simp add: clusterPath_Some RouteParams_clusterName_def route_segment_inj)

lemma append_sep_inj:
  "x \<notin> set a \<Longrightarrow> x \<notin> set b \<Longrightarrow> a @ x # s = b @ x # t \<longleftrightarrow> a = b \<and> s = t"
  by (induction a arbitrary: b) (case_tac b; auto)+

lemma clusterPath_append_inj:
  "clusterPath (Some c) @ CHR ''/'' # s = clusterPath (Some d) @ CHR ''/'' # t \<longleftrightarrow> c = d \<and> s = t"
proof -
  have "CHR ''/'' \<notin> set (route_segment RouteParams_clusterName c)" for c
    by (rule route_segment_no_slash) (simp add: RouteParams_clusterName_def)
  then show ?thesis
    by (auto simp: clusterPath_Some append_sep_inj RouteParams_clusterName_def route_segment_inj)
qed

section \<open>Properties\<close>

text \<open>
  A well-formed string survives encoding and decoding unchanged, and its encoding
  contains neither a path separator nor the colon that marks a route pattern.
\<close>

theorem uri_component_roundtrip:
  assumes "utf8_valid s"
  shows "decodeURIComponent (encodeURIComponent s) = Inr s
    \<and> CHR ''/'' \<notin> set (encodeURIComponent s) \<and> CHR '':'' \<notin> set (encodeURIComponent s)"
  using assms by (simp add: decodeURIComponent_def percent_decode_encode)

theorem uri_component_roundtrip_witness:
  "decodeURIComponent (encodeURIComponent ''a/b:100%'') = Inr ''a/b:100%''"
proof -
  have "utf8_valid ''a/b:100%''" by code_simp
  from uri_component_roundtrip [OF this] show ?thesis by blast
qed

text \<open>
  The pages of a schema subject are addressed without ambiguity: two pairs of cluster
  and subject have the same page only if they are equal, whatever characters the names
  contain, and the edit page of one subject is never the page of another.
\<close>

theorem schema_paths_injective:
  "(clusterSchemaPath (Some c) (Some s) = clusterSchemaPath (Some d) (Some t) \<longleftrightarrow> c = d \<and> s = t)
   \<and> (clusterSchemaEditPath (Some c) (Some s) = clusterSchemaEditPath (Some d) (Some t) \<longleftrightarrow> c = d \<and> s = t)
   \<and> clusterSchemaPath (Some c) (Some s) \<noteq> clusterSchemaEditPath (Some d) (Some t)"
proof (intro conjI)
  let ?seg = "route_segment RouteParams_subject"
  have page: "clusterSchemaPath (Some c) (Some s) = clusterPath (Some c) @ CHR ''/'' # ''schemas/'' @ ?seg s"
    for c s by (simp add: clusterSchemaPath_def clusterSchemasPath_def dflt_def route_segment_def Let_def
        RouteParams_subject_def)
  have edit: "clusterSchemaEditPath (Some c) (Some s) =
      clusterPath (Some c) @ CHR ''/'' # ''schemas/'' @ ?seg s @ ''/edit''"
    for c s by (simp add: clusterSchemaEditPath_def clusterSchemasPath_def dflt_def route_segment_def Let_def
        RouteParams_subject_def)
  have inj: "?seg a = ?seg b \<longleftrightarrow> a = b" for a b
    by (simp add: RouteParams_subject_def route_segment_inj)
  have slash: "CHR ''/'' \<notin> set (?seg a)" for a
    by (rule route_segment_no_slash) (simp add: RouteParams_subject_def)
  show "clusterSchemaPath (Some c) (Some s) = clusterSchemaPath (Some d) (Some t) \<longleftrightarrow> c = d \<and> s = t"
    unfolding page clusterPath_append_inj by (simp add: inj)
  show "clusterSchemaEditPath (Some c) (Some s) = clusterSchemaEditPath (Some d) (Some t) \<longleftrightarrow> c = d \<and> s = t"
    unfolding edit clusterPath_append_inj by (simp add: inj)
  show "clusterSchemaPath (Some c) (Some s) \<noteq> clusterSchemaEditPath (Some d) (Some t)"
    unfolding page edit clusterPath_append_inj using slash [of s] by auto
qed

text \<open>
  Reading the cluster name from the route decodes it a second time, after the router.
  The name survives exactly when it contains no percent sign: every other name is either
  changed or makes the page throw.
\<close>

theorem useAppParams_second_decode:
  assumes "utf8_valid n"
  shows "useAppParams \<lparr>rv_clusterName = Some n\<rparr> = Inr \<lparr>rv_clusterName = Some n\<rparr>
    \<longleftrightarrow> CHR ''%'' \<notin> set n"
proof
  assume "useAppParams \<lparr>rv_clusterName = Some n\<rparr> = Inr \<lparr>rv_clusterName = Some n\<rparr>"
  then have "percent_decode n = Some n"
    by (auto simp: useAppParams_def bind_res_Inr_iff decodeURIComponent_def split: option.splits if_splits)
  then show "CHR ''%'' \<notin> set n" using percent_decode_shrinks by fastforce
next
  assume "CHR ''%'' \<notin> set n"
  with assms show "useAppParams \<lparr>rv_clusterName = Some n\<rparr> = Inr \<lparr>rv_clusterName = Some n\<rparr>"
    by (simp add: useAppParams_def decodeURIComponent_def percent_decode_id)
qed

theorem useAppParams_second_decode_witness:
  "useAppParams \<lparr>rv_clusterName = Some ''100%''\<rparr> \<noteq> Inr \<lparr>rv_clusterName = Some ''100%''\<rparr>"
proof -
  have "utf8_valid ''100%''" by code_simp
  from useAppParams_second_decode [OF this] show ?thesis by simp
qed

text \<open>
  Routes whose last segment is not encoded can coincide: the page of the consumer group
  \<open>g/reset-offsets\<close> is the offset-reset page of the group \<open>g\<close>; the pages of the topics
  \<open>create-new-topic\<close> and \<open>copy\<close>, and of no other topic, are the creation and copy forms;
  and the page of the cluster \<open>create-new-cluster\<close>, and of no other cluster, is the form
  for a new cluster.
\<close>

theorem unencoded_routes_collide:
  "clusterConsumerGroupDetailsPath (Some c) (Some (g @ ''/reset-offsets'')) =
     clusterConsumerGroupResetOffsetsPath (Some c) (Some g)
   \<and> (clusterTopicPath (Some c) (Some t) \<in> {clusterTopicNewPath (Some c), clusterTopicCopyPath (Some c)}
     \<longleftrightarrow> t \<in> {''create-new-topic'', ''copy''})
   \<and> (clusterPath (Some c) = clusterNewConfigPath \<longleftrightarrow> c = ''create-new-cluster'')"
proof (intro conjI)
  show "clusterConsumerGroupDetailsPath (Some c) (Some (g @ ''/reset-offsets'')) =
      clusterConsumerGroupResetOffsetsPath (Some c) (Some g)"
    by (simp add: clusterConsumerGroupDetailsPath_def clusterConsumerGroupResetOffsetsPath_def dflt_def
        clusterConsumerGroupResetRelativePath_def)
  show "clusterTopicPath (Some c) (Some t) \<in> {clusterTopicNewPath (Some c), clusterTopicCopyPath (Some c)}
      \<longleftrightarrow> t \<in> {''create-new-topic'', ''copy''}"
    by (simp add: clusterTopicPath_def clusterTopicNewPath_def clusterTopicCopyPath_def dflt_def
        clusterTopicNewRelativePath_def clusterTopicCopyRelativePath_def)
  have enc: "encodeURIComponent ''create-new-cluster'' = ''create-new-cluster''" by code_simp
  have "route_segment RouteParams_clusterName c = ''create-new-cluster'' \<longleftrightarrow> c = ''create-new-cluster''"
    by (auto simp: route_segment_def RouteParams_clusterName_def enc)
      (metis enc encodeURIComponent_inj)
  then show "clusterPath (Some c) = clusterNewConfigPath \<longleftrightarrow> c = ''create-new-cluster''"
    by (simp add: clusterPath_Some clusterNewConfigPath_def clusterNewConfigRelativePath_def)
qed

end
