(* ===== verification/SearchParams.thy ===== *)
theory SearchParams
  imports Prelude
begin

text \<open>
  The standard \<open>URLSearchParams\<close> object, as the client uses it: an ordered list of
  name-value pairs in which a name may occur several times. \<open>get\<close> reads the first
  occurrence, \<open>set\<close> overwrites it and drops the others, \<open>append\<close> adds one, \<open>delete\<close>
  drops all. \<open>toString\<close> is the form-urlencoded serialisation.
\<close>

type_synonym sparams = "(string \<times> string) list"

abbreviation sp_get :: "sparams \<Rightarrow> string \<Rightarrow> string option" where
  "sp_get ps k \<equiv> map_of ps k"

fun sp_set :: "string \<Rightarrow> string \<Rightarrow> sparams \<Rightarrow> sparams" where
  "sp_set k v [] = [(k, v)]"
| "sp_set k v ((k', w) # ps) =
     (if k' = k then (k, v) # AList.delete k ps else (k', w) # sp_set k v ps)"

definition sp_append :: "string \<Rightarrow> string \<Rightarrow> sparams \<Rightarrow> sparams" where
  "sp_append k v ps = ps @ [(k, v)]"

definition sp_delete :: "string \<Rightarrow> sparams \<Rightarrow> sparams" where
  "sp_delete k ps = AList.delete k ps"

definition sp_has :: "sparams \<Rightarrow> string \<Rightarrow> bool" where
  "sp_has ps k \<longleftrightarrow> sp_get ps k \<noteq> None"

section \<open>Serialisation\<close>

definition form_plain :: "char \<Rightarrow> bool" where
  "form_plain c \<longleftrightarrow>
     c \<in> set ''ABCDEFGHIJKLMNOPQRSTUVWXYZabcdefghijklmnopqrstuvwxyz0123456789*-._''"

definition form_encode_char :: "char \<Rightarrow> string" where
  "form_encode_char c =
     (if form_plain c then [c]
      else if c = CHR '' '' then ''+''
      else let n = of_char c :: nat
           in [CHR ''%'', ''0123456789ABCDEF'' ! (n div 16), ''0123456789ABCDEF'' ! (n mod 16)])"

definition form_encode :: "string \<Rightarrow> string" where
  "form_encode s = concat (map form_encode_char s)"

definition sp_toString :: "sparams \<Rightarrow> string" where
  "sp_toString ps = join ''&'' (map (\<lambda>(k, v). form_encode k @ ''='' @ form_encode v) ps)"

lemma sp_toString_empty [simp]: "sp_toString ps = [] \<longleftrightarrow> ps = []"
proof (cases ps)
  case (Cons p qs)
  then show ?thesis by (cases qs) (auto simp: sp_toString_def split: prod.splits)
qed (simp add: sp_toString_def)

section \<open>The dictionary laws\<close>

lemma sp_get_set [simp]: "sp_get (sp_set k v ps) k' = (if k' = k then Some v else sp_get ps k')"
  by (induction k v ps rule: sp_set.induct) auto

lemma sp_get_delete [simp]: "sp_get (sp_delete k ps) k' = (if k' = k then None else sp_get ps k')"
  by (simp add: sp_delete_def)

lemma sp_get_append [simp]:
  "sp_get (sp_append k v ps) k' = (case sp_get ps k' of None \<Rightarrow> if k' = k then Some v else None | Some w \<Rightarrow> Some w)"
  by (auto simp: sp_append_def map_add_def split: option.splits)

interpretation search_params: dictionary "map_of" "sp_set" "sp_delete"
  by unfold_locales simp_all

end
