(* ===== verification/FilterStore.thy ===== *)
theory FilterStore
  imports Prelude
begin

text \<open>
  The saved message filters: the store of \<open>frontend/src/lib/hooks/useMessageFiltersStore.ts\<close>
  and the checks the filter form makes before it writes to it,
  \<open>frontend/src/components/Topics/Topic/Messages/Filters/AddEditFilterContainer.tsx\<close>.
  The store keeps the filters in an object keyed by filter id, and the cursor of the next
  page. The lemmas show that every entry stays under its own id and that each operation
  changes exactly the entries it names.
\<close>

section \<open>Store\<close>

record AdvancedFilter =
  af_id :: string
  af_value :: string
  af_filterCode :: string

record MessageFiltersState =
  filters :: "AdvancedFilter obj"
  nextCursor :: "string option"

definition initial_store :: MessageFiltersState where
  "initial_store = \<lparr>filters = [], nextCursor = None\<rparr>"

text \<open>
  \<open>filters[id]\<close> is an object when there is such an entry, an inherited function when the
  id names a member of \<open>Object.prototype\<close>, and otherwise \<open>undefined\<close>.
\<close>

definition selectFilter :: "string option \<Rightarrow> MessageFiltersState \<Rightarrow> AdvancedFilter slot" where
  "selectFilter fid st =
     (case fid of
        None \<Rightarrow> Missing
      | Some k \<Rightarrow> if k = [] then Missing else obj_index (filters st) k)"

definition save :: "AdvancedFilter \<Rightarrow> MessageFiltersState \<Rightarrow> MessageFiltersState" where
  "save f st = st\<lparr>filters := AList.update (af_id f) f (filters st)\<rparr>"

definition replace_filter :: "string \<Rightarrow> AdvancedFilter \<Rightarrow> MessageFiltersState \<Rightarrow> MessageFiltersState" where
  "replace_filter filterId f st =
     (let newFilters = filters st;
          newFilters = (if filterId \<noteq> af_id f then AList.delete filterId newFilters else newFilters);
          newFilters = AList.update (af_id f) f newFilters
      in st\<lparr>filters := newFilters\<rparr>)"

definition remove_filter :: "string \<Rightarrow> MessageFiltersState \<Rightarrow> MessageFiltersState" where
  "remove_filter fid st = st\<lparr>filters := AList.delete fid (filters st)\<rparr>"

definition removeAll :: "MessageFiltersState \<Rightarrow> MessageFiltersState" where
  "removeAll st = st\<lparr>filters := []\<rparr>"

definition setNextCursor :: "string option \<Rightarrow> MessageFiltersState \<Rightarrow> MessageFiltersState" where
  "setNextCursor c st = st\<lparr>nextCursor := c\<rparr>"

text \<open>The persistence middleware writes the filters only, and merges them over the initial state.\<close>

definition partialize :: "MessageFiltersState \<Rightarrow> AdvancedFilter obj" where
  "partialize st = filters st"

definition rehydrate :: "AdvancedFilter obj \<Rightarrow> MessageFiltersState" where
  "rehydrate fs = initial_store\<lparr>filters := fs\<rparr>"

section \<open>Form validation\<close>

record FilterValues =
  fv_id :: "string option"
  fv_value :: string

definition codeToName :: "string \<Rightarrow> string" where
  "codeToName code = (if length code > 32 then take 32 code else code)"

text \<open>Reading \<open>filter.id\<close> of an inherited function gives \<open>undefined\<close>, which differs from every id.\<close>

definition submitValidation :: "string option \<Rightarrow> string \<Rightarrow> string \<Rightarrow> MessageFiltersState \<Rightarrow> bool" where
  "submitValidation fid code currentFilterId st =
     (if fid = Some [] then codeToName code \<notin> set (map fst (filters st))
      else case selectFilter fid st of
             Missing \<Rightarrow> True
           | Own f \<Rightarrow> af_id f = currentFilterId
           | Inherited \<Rightarrow> False)"

definition getLabelName :: "FilterValues \<Rightarrow> string" where
  "getLabelName v =
     (case fv_id v of
        Some i \<Rightarrow> if i \<noteq> [] then i
                   else if length (fv_value v) > 32 then codeToName (fv_value v) else fv_value v
      | None \<Rightarrow> if length (fv_value v) > 32 then codeToName (fv_value v) else fv_value v)"

text \<open>
  The store part of \<open>onSubmit\<close>. \<open>registered\<close> is the id the server gave to the filter code,
  \<open>None\<close> when the request failed or returned no id. The result is the new store and the
  filter that was written, if any.
\<close>

definition onSubmit ::
  "string option \<Rightarrow> FilterValues \<Rightarrow> AdvancedFilter option \<Rightarrow> MessageFiltersState
   \<Rightarrow> MessageFiltersState \<times> AdvancedFilter option" where
  "onSubmit registered values currentFilter st =
     (let filterId = (case currentFilter of None \<Rightarrow> [] | Some f \<Rightarrow> af_id f)
      in if \<not> submitValidation (fv_id values) (fv_value values) filterId st then (st, None)
         else case registered of
           None \<Rightarrow> (st, None)
         | Some code \<Rightarrow>
             if code = [] then (st, None)
             else let filterValue = \<lparr>af_id = getLabelName values, af_value = fv_value values,
                                     af_filterCode = code\<rparr>
                  in if currentFilter \<noteq> None then (replace_filter filterId filterValue st, Some filterValue)
                     else (save filterValue st, Some filterValue))"

section \<open>Invariant\<close>

definition store_ok :: "MessageFiltersState \<Rightarrow> bool" where
  "store_ok st \<longleftrightarrow> wf_obj (filters st) \<and> (\<forall>k f. map_of (filters st) k = Some f \<longrightarrow> af_id f = k)"

datatype store_op = Save AdvancedFilter | Replace string AdvancedFilter | Remove string
  | RemoveAll | SetNextCursor "string option"

fun run_store_op :: "store_op \<Rightarrow> MessageFiltersState \<Rightarrow> MessageFiltersState" where
  "run_store_op (Save f) st = save f st"
| "run_store_op (Replace i f) st = replace_filter i f st"
| "run_store_op (Remove i) st = remove_filter i st"
| "run_store_op RemoveAll st = removeAll st"
| "run_store_op (SetNextCursor c) st = setNextCursor c st"

lemmas store_defs = save_def replace_filter_def remove_filter_def removeAll_def setNextCursor_def

lemma store_ok_initial: "store_ok initial_store"
  by (simp add: store_ok_def initial_store_def)

interpretation saved_filters: keyed_dictionary map_of AList.update AList.delete af_id
  by unfold_locales

lemma store_ok_op: "store_ok st \<Longrightarrow> store_ok (run_store_op op st)"
proof -
  assume "store_ok st"
  then have wf: "wf_obj (filters st)" and keyed: "\<forall>k f. map_of (filters st) k = Some f \<longrightarrow> af_id f = k"
    by (simp_all add: store_ok_def)
  note del = saved_filters.keyed_del [OF keyed] and put = saved_filters.keyed_put [OF keyed]
  show ?thesis
  proof (cases op)
    case (Save f)
    have "filters (run_store_op op st) = AList.update (af_id f) f (filters st)"
      unfolding Save by (simp add: save_def)
    then show ?thesis unfolding store_ok_def using wf put [of f] by (simp only: wf_obj_update simp_thms)
  next
    case (Replace i f)
    define d where "d = (if i \<noteq> af_id f then AList.delete i (filters st) else filters st)"
    have d: "wf_obj d" "\<forall>k g. map_of d k = Some g \<longrightarrow> af_id g = k"
      using wf keyed del [of i] by (simp_all only: d_def wf_obj_delete split: if_split) simp_all
    have "filters (run_store_op op st) = AList.update (af_id f) f d"
      unfolding Replace d_def by (simp add: replace_filter_def Let_def)
    then show ?thesis unfolding store_ok_def using d(1) saved_filters.keyed_put [OF d(2), of f]
      by (simp only: wf_obj_update simp_thms)
  next
    case (Remove i)
    have "filters (run_store_op op st) = AList.delete i (filters st)"
      unfolding Remove by (simp add: remove_filter_def)
    then show ?thesis unfolding store_ok_def using wf del [of i] by (simp only: wf_obj_delete simp_thms)
  qed (use wf keyed in \<open>simp_all add: store_ok_def removeAll_def setNextCursor_def\<close>)
qed

interpretation filter_store: machine run_store_op "\<lambda>_. True" store_ok
  by unfold_locales (rule store_ok_op)

lemma selectFilter_Own:
  "selectFilter (Some k) st = Own f \<longleftrightarrow> k \<noteq> [] \<and> map_of (filters st) k = Some f"
  by (auto simp: selectFilter_def obj_index_def split: option.splits)

lemma getLabelName_nonempty: "fv_value v \<noteq> [] \<Longrightarrow> getLabelName v \<noteq> []"
  by (auto simp: getLabelName_def codeToName_def split: option.splits)

lemma getLabelName_untouched: "fv_id v = None \<or> fv_id v = Some [] \<Longrightarrow> getLabelName v = codeToName (fv_value v)"
  by (auto simp: getLabelName_def codeToName_def)

section \<open>Properties\<close>

text \<open>
  Whatever sequence of saves, replacements, removals and cursor changes the store goes
  through, every filter stays under its own id and no id occurs twice, so selecting an id
  returns a filter with that id. The persisted part restores all filters and drops the cursor.
\<close>

theorem store_keyed_by_id:
  "(let st = fold run_store_op ops initial_store
    in wf_obj (filters st)
       \<and> (\<forall>k f. selectFilter (Some k) st = Own f \<longrightarrow> af_id f = k)
       \<and> filters (rehydrate (partialize st)) = filters st
       \<and> nextCursor (rehydrate (partialize st)) = None)"
  using filter_store.inv_run [of ops, OF _ store_ok_initial]
  by (simp add: Let_def store_ok_def selectFilter_Own rehydrate_def partialize_def initial_store_def list_all_iff)

theorem store_keyed_by_id_witness:
  "selectFilter (Some ''b'') (fold run_store_op
      [Save \<lparr>af_id = ''a'', af_value = ''v'', af_filterCode = ''c''\<rparr>,
       Replace ''a'' \<lparr>af_id = ''b'', af_value = ''w'', af_filterCode = ''d''\<rparr>] initial_store)
    = Own \<lparr>af_id = ''b'', af_value = ''w'', af_filterCode = ''d''\<rparr>"
proof -
  let ?ops = "[Save \<lparr>af_id = ''a'', af_value = ''v'', af_filterCode = ''c''\<rparr>,
       Replace ''a'' \<lparr>af_id = ''b'', af_value = ''w'', af_filterCode = ''d''\<rparr>]"
  have "selectFilter (Some ''b'') (fold run_store_op ?ops initial_store)
      = Own \<lparr>af_id = ''b'', af_value = ''w'', af_filterCode = ''d''\<rparr>"
    by (simp add: store_defs initial_store_def selectFilter_def obj_index_def Let_def)
  with store_keyed_by_id [of ?ops] show ?thesis by simp
qed

text \<open>
  Submitting the filter form writes at most one filter. When it writes one, that filter
  is stored under its display name, an edited filter no longer exists under its former
  name, and every other filter is untouched.
\<close>

theorem onSubmit_frame:
  assumes "onSubmit registered values cur st = (st', Some f)" and "fv_value values \<noteq> []"
  shows "af_id f = getLabelName values \<and> selectFilter (Some (af_id f)) st' = Own f
    \<and> (\<forall>c. cur = Some c \<longrightarrow> af_id c \<noteq> af_id f \<longrightarrow> map_of (filters st') (af_id c) = None)
    \<and> (\<forall>k. k \<noteq> af_id f \<longrightarrow> (\<forall>c. cur = Some c \<longrightarrow> k \<noteq> af_id c) \<longrightarrow>
          map_of (filters st') k = map_of (filters st) k)"
proof -
  let ?f = "\<lparr>af_id = getLabelName values, af_value = fv_value values, af_filterCode = the registered\<rparr>"
  from assms(1) have f: "f = ?f"
    and st': "st' = (case cur of None \<Rightarrow> save ?f st | Some c \<Rightarrow> replace_filter (af_id c) ?f st)"
    by (auto simp: onSubmit_def Let_def split: if_splits option.splits)
  from getLabelName_nonempty [OF assms(2)] show ?thesis
    unfolding f st'
    by (auto simp: selectFilter_Own store_defs Let_def saved_filters.get_replace [of ?f, simplified] split: option.splits)
qed

theorem onSubmit_frame_witness:
  "snd (onSubmit (Some ''c0de'') \<lparr>fv_id = Some ''mine'', fv_value = ''true''\<rparr> None initial_store)
    = Some \<lparr>af_id = ''mine'', af_value = ''true'', af_filterCode = ''c0de''\<rparr>"
proof -
  let ?v = "\<lparr>fv_id = Some ''mine'', fv_value = ''true''\<rparr>"
  obtain st' f where r: "onSubmit (Some ''c0de'') ?v None initial_store = (st', Some f)"
    by (simp add: onSubmit_def submitValidation_def selectFilter_def obj_index_def initial_store_def
        object_proto_names_def Let_def)
  have "af_id f = ''mine''"
    using onSubmit_frame [OF r] by (simp add: getLabelName_def)
  with r show ?thesis
    by (auto simp: onSubmit_def Let_def split: if_splits)
qed

text \<open>
  The uniqueness check of the form is complete only when the name field was touched.
  With a name, or with the field cleared, adding a filter never overwrites an existing one;
  with the field left untouched it is not checked at all, and saving overwrites any filter
  whose name is the first thirty-two characters of the code.
\<close>

theorem submit_name_check:
  "(fv_id values \<noteq> None \<longrightarrow> store_ok st \<longrightarrow> getLabelName values \<in> fst ` set (filters st) \<longrightarrow>
      [] \<notin> fst ` set (filters st) \<longrightarrow> onSubmit registered values None st = (st, None))
   \<and> (fv_id values = None \<longrightarrow> registered = Some code \<longrightarrow> code \<noteq> [] \<longrightarrow>
      onSubmit registered values None st =
        (let f = \<lparr>af_id = codeToName (fv_value values), af_value = fv_value values, af_filterCode = code\<rparr>
         in (save f st, Some f)))"
proof (intro conjI impI)
  assume named: "fv_id values \<noteq> None" and ok: "store_ok st"
    and taken: "getLabelName values \<in> fst ` set (filters st)" and "[] \<notin> fst ` set (filters st)"
  obtain i where i: "fv_id values = Some i" using named by auto
  have "\<not> submitValidation (fv_id values) (fv_value values) [] st"
  proof (cases "i = []")
    case True
    with i taken show ?thesis by (simp add: submitValidation_def getLabelName_untouched)
  next
    case False
    with i have "getLabelName values = i" by (simp add: getLabelName_def)
    with taken obtain f where f: "map_of (filters st) i = Some f"
      by (metis map_of_eq_None_iff not_Some_eq)
    with ok False have "af_id f \<noteq> []" by (auto simp: store_ok_def)
    with i False f show ?thesis
      by (simp add: submitValidation_def selectFilter_def obj_index_def)
  qed
  then show "onSubmit registered values None st = (st, None)"
    by (simp add: onSubmit_def)
next
  assume "fv_id values = None" and "registered = Some code" and "code \<noteq> []"
  then show "onSubmit registered values None st =
        (let f = \<lparr>af_id = codeToName (fv_value values), af_value = fv_value values, af_filterCode = code\<rparr>
         in (save f st, Some f))"
    by (simp add: onSubmit_def submitValidation_def selectFilter_def getLabelName_untouched Let_def)
qed

theorem submit_name_check_witness:
  "onSubmit (Some ''c2'') \<lparr>fv_id = None, fv_value = ''x''\<rparr> None
     (save \<lparr>af_id = ''x'', af_value = ''y'', af_filterCode = ''c1''\<rparr> initial_store)
   = (save \<lparr>af_id = ''x'', af_value = ''x'', af_filterCode = ''c2''\<rparr>
        (save \<lparr>af_id = ''x'', af_value = ''y'', af_filterCode = ''c1''\<rparr> initial_store),
      Some \<lparr>af_id = ''x'', af_value = ''x'', af_filterCode = ''c2''\<rparr>)"
  using submit_name_check [of "\<lparr>fv_id = None, fv_value = ''x''\<rparr>"
      "save \<lparr>af_id = ''x'', af_value = ''y'', af_filterCode = ''c1''\<rparr> initial_store" "Some ''c2''" "''c2''"]
  by (simp add: codeToName_def Let_def)

end
