(* ===== verification/MessageFilters.thy ===== *)
theory MessageFilters
  imports SearchParams FilterStore
begin

text \<open>
  The filters of the message page: \<open>frontend/src/lib/hooks/useMessagesFilters.ts\<close> and
  \<open>useMessagesFiltersFields.ts\<close>, with the handlers of
  \<open>Topics/Topic/Messages/Filters/SavedFilters.tsx\<close>. The state of the page is the query of
  the URL, the filter fields remembered in local storage per topic and cluster, the saved
  filters of the store and the progress of initialisation. A handler is a function from
  page to page; the functional updates it makes are applied in the order in which it makes
  them (the batching of the rendering library is not modelled).
\<close>

section \<open>Keys and polling modes\<close>

datatype FilterKey =
  KMode | KTimestamp | KKeySerde | KValueSerde | KLimit | KOffset | KStringFilter | KPartitions
| KSmartFilterId | KActiveFilterId | KActiveFilterNPId | KCursor | KR

fun MessagesFilterKeys :: "FilterKey \<Rightarrow> string" where
  "MessagesFilterKeys KMode = ''mode''"
| "MessagesFilterKeys KTimestamp = ''timestamp''"
| "MessagesFilterKeys KKeySerde = ''keySerde''"
| "MessagesFilterKeys KValueSerde = ''valueSerde''"
| "MessagesFilterKeys KLimit = ''limit''"
| "MessagesFilterKeys KOffset = ''offset''"
| "MessagesFilterKeys KStringFilter = ''stringFilter''"
| "MessagesFilterKeys KPartitions = ''partitions''"
| "MessagesFilterKeys KSmartFilterId = ''smartFilterId''"
| "MessagesFilterKeys KActiveFilterId = ''activeFilterId''"
| "MessagesFilterKeys KActiveFilterNPId = ''activeFilterNPId''"
| "MessagesFilterKeys KCursor = ''cursor''"
| "MessagesFilterKeys KR = ''r''"

lemma MessagesFilterKeys_inj [simp]: "MessagesFilterKeys j = MessagesFilterKeys k \<longleftrightarrow> j = k"
  by (cases j; cases k) simp_all

declare MessagesFilterKeys.simps [simp del]

datatype PollingMode =
  FROM_OFFSET | TO_OFFSET | FROM_TIMESTAMP | TO_TIMESTAMP | LATEST | EARLIEST | TAILING

definition polling_modes :: "(string \<times> PollingMode) list" where
  "polling_modes =
     [(''FROM_OFFSET'', FROM_OFFSET), (''TO_OFFSET'', TO_OFFSET),
      (''FROM_TIMESTAMP'', FROM_TIMESTAMP), (''TO_TIMESTAMP'', TO_TIMESTAMP),
      (''LATEST'', LATEST), (''EARLIEST'', EARLIEST), (''TAILING'', TAILING)]"

fun mode_name :: "PollingMode \<Rightarrow> string" where
  "mode_name FROM_OFFSET = ''FROM_OFFSET''"
| "mode_name TO_OFFSET = ''TO_OFFSET''"
| "mode_name FROM_TIMESTAMP = ''FROM_TIMESTAMP''"
| "mode_name TO_TIMESTAMP = ''TO_TIMESTAMP''"
| "mode_name LATEST = ''LATEST''"
| "mode_name EARLIEST = ''EARLIEST''"
| "mode_name TAILING = ''TAILING''"

definition ModeOptions :: "(PollingMode \<times> string) list" where
  "ModeOptions =
     [(LATEST, ''Newest''), (EARLIEST, ''Oldest''), (TAILING, ''Live''), (FROM_OFFSET, ''From offset''),
      (TO_OFFSET, ''To offset''), (FROM_TIMESTAMP, ''Since time''), (TO_TIMESTAMP, ''To time'')]"

text \<open>The enumeration is an object indexed by the string, so inherited names are found too.\<close>

definition convertStrToPollingMode :: "string \<Rightarrow> PollingMode slot" where
  "convertStrToPollingMode s = obj_index polling_modes s"

definition PER_PAGE_messages :: nat where "PER_PAGE_messages = 100"

definition defaultModeValue :: PollingMode where "defaultModeValue = fst (ModeOptions ! 0)"

section \<open>Remembered fields\<close>

type_synonym FilterFields = "(FilterKey \<times> string) list"
type_synonym FieldsStorage = "(string \<times> FilterFields) list"

definition fields_of :: "FieldsStorage \<Rightarrow> string \<Rightarrow> FilterFields" where
  "fields_of m r = (case map_of m r of None \<Rightarrow> [] | Some f \<Rightarrow> f)"

definition removeMessagesFilterFields :: "string \<Rightarrow> FieldsStorage \<Rightarrow> FieldsStorage" where
  "removeMessagesFilterFields r m = AList.delete r m"

definition removeMessagesFiltersField :: "string \<Rightarrow> FilterKey \<Rightarrow> FieldsStorage \<Rightarrow> FieldsStorage" where
  "removeMessagesFiltersField r k m = AList.update r (AList.delete k (fields_of m r)) m"

definition setMessagesFiltersField :: "string \<Rightarrow> FilterKey \<Rightarrow> string \<Rightarrow> FieldsStorage \<Rightarrow> FieldsStorage" where
  "setMessagesFiltersField r k v m = AList.update r (AList.update k v (fields_of m r)) m"

definition fields_from_storage_keys :: "FilterKey list" where
  "fields_from_storage_keys =
     [KMode, KOffset, KTimestamp, KPartitions, KKeySerde, KValueSerde, KStringFilter, KActiveFilterId,
      KSmartFilterId]"

definition fields_from_url_keys :: "FilterKey list" where
  "fields_from_url_keys =
     [KMode, KOffset, KTimestamp, KPartitions, KKeySerde, KValueSerde, KActiveFilterId, KSmartFilterId]"

definition from_storage :: "FilterFields \<Rightarrow> FilterKey \<Rightarrow> sparams \<Rightarrow> sparams" where
  "from_storage stored k params =
     (if truthy (map_of stored k) then sp_set (MessagesFilterKeys k) (the (map_of stored k)) params
      else params)"

definition from_url :: "string \<Rightarrow> sparams \<Rightarrow> FilterKey \<Rightarrow> FieldsStorage \<Rightarrow> FieldsStorage" where
  "from_url r params k m =
     (case sp_get params (MessagesFilterKeys k) of
        Some v \<Rightarrow> if v \<noteq> [] then setMessagesFiltersField r k v m else m
      | None \<Rightarrow> m)"

definition initMessagesFiltersFields ::
  "string \<Rightarrow> sparams \<Rightarrow> FieldsStorage \<Rightarrow> sparams \<times> FieldsStorage" where
  "initMessagesFiltersFields r params m =
     (case map_of m r of
        Some stored \<Rightarrow>
          if sp_toString params = [] then (fold (from_storage stored) fields_from_storage_keys params, m)
          else (params, fold (from_url r params) fields_from_url_keys (removeMessagesFilterFields r m))
      | None \<Rightarrow> (params, fold (from_url r params) fields_from_url_keys (removeMessagesFilterFields r m)))"

text \<open>\<open>useActiveFilters\<close>: the operations over the fields of all topics.\<close>

definition removeFilterIfActive :: "string \<Rightarrow> FieldsStorage \<Rightarrow> FieldsStorage" where
  "removeFilterIfActive fid m =
     map (\<lambda>(k, v). if map_of v KActiveFilterId = Some fid then (k, []) else (k, v)) m"

definition removeAllActiveFilters :: "FieldsStorage \<Rightarrow> FieldsStorage" where
  "removeAllActiveFilters m = []"

definition findWhereFilterIsActive :: "string \<Rightarrow> FieldsStorage \<Rightarrow> string list" where
  "findWhereFilterIsActive fid m =
     map (\<lambda>(name, v).
            let parts = js_split '':'' name
            in (if length parts > 1 then parts ! 1 else ''undefined'') @ '':'' @ parts ! 0)
       (filter (\<lambda>(name, v). map_of v KActiveFilterId = Some fid) m)"

section \<open>The page\<close>

record page =
  pg_storageKey :: string
  pg_params :: sparams
  pg_fields :: FieldsStorage
  pg_store :: MessageFiltersState
  pg_target :: "(string \<times> string) option"
  pg_initialized :: "string option"

definition isInitialized :: "page \<Rightarrow> bool" where
  "isInitialized pg \<longleftrightarrow> pg_initialized pg = Some (pg_storageKey pg)"

definition init_effect :: "page \<Rightarrow> page" where
  "init_effect pg =
     (let (ps, m) = initMessagesFiltersFields (pg_storageKey pg) (pg_params pg) (pg_fields pg);
          ps = sp_set (MessagesFilterKeys KLimit) (show_nat PER_PAGE_messages) ps;
          ps = (if sp_get ps (MessagesFilterKeys KMode) = None
                then sp_set (MessagesFilterKeys KMode) (mode_name defaultModeValue) ps else ps);
          ps = sp_delete (MessagesFilterKeys KCursor) ps
      in pg\<lparr>pg_fields := m, pg_initialized := None,
            pg_target := Some (pg_storageKey pg, sp_toString ps), pg_params := ps\<rparr>)"

definition initialized_effect :: "page \<Rightarrow> page" where
  "initialized_effect pg =
     (case pg_target pg of
        Some (r, search) \<Rightarrow>
          if r = pg_storageKey pg \<and> sp_toString (pg_params pg) = search
             \<and> pg_initialized pg \<noteq> Some (pg_storageKey pg)
          then pg\<lparr>pg_initialized := Some (pg_storageKey pg)\<rparr> else pg
      | None \<Rightarrow> pg)"

text \<open>Helpers: one write to the remembered fields, or to the query, of the page.\<close>

definition put_field :: "FilterKey \<Rightarrow> string \<Rightarrow> page \<Rightarrow> page" where
  "put_field k v pg = pg\<lparr>pg_fields := setMessagesFiltersField (pg_storageKey pg) k v (pg_fields pg)\<rparr>"

definition drop_field :: "FilterKey \<Rightarrow> page \<Rightarrow> page" where
  "drop_field k pg = pg\<lparr>pg_fields := removeMessagesFiltersField (pg_storageKey pg) k (pg_fields pg)\<rparr>"

definition put_param :: "FilterKey \<Rightarrow> string \<Rightarrow> page \<Rightarrow> page" where
  "put_param k v pg = pg\<lparr>pg_params := sp_set (MessagesFilterKeys k) v (pg_params pg)\<rparr>"

definition drop_param :: "FilterKey \<Rightarrow> page \<Rightarrow> page" where
  "drop_param k pg = pg\<lparr>pg_params := sp_delete (MessagesFilterKeys k) (pg_params pg)\<rparr>"

section \<open>Setters\<close>

definition setMode :: "PollingMode \<Rightarrow> page \<Rightarrow> page" where
  "setMode newMode pg =
     (let pg = drop_field KOffset pg;
          pg = drop_field KTimestamp pg;
          pg = put_field KMode (mode_name newMode) pg;
          pg = put_param KMode (mode_name newMode) pg;
          pg = drop_param KOffset pg
      in drop_param KTimestamp pg)"

definition setTimeStamp :: "int option \<Rightarrow> page \<Rightarrow> page" where
  "setTimeStamp newDate pg =
     (case newDate of
        None \<Rightarrow> drop_param KTimestamp (drop_field KTimestamp pg)
      | Some t \<Rightarrow> put_param KTimestamp (show_int t) (put_field KTimestamp (show_int t) pg))"

definition setKeySerde :: "string \<Rightarrow> page \<Rightarrow> page" where
  "setKeySerde v pg = put_field KKeySerde v (put_param KKeySerde v pg)"

definition setValueSerde :: "string \<Rightarrow> page \<Rightarrow> page" where
  "setValueSerde v pg = put_param KValueSerde v (put_field KValueSerde v pg)"

definition setOffsetValue :: "string \<Rightarrow> page \<Rightarrow> page" where
  "setOffsetValue v pg = put_param KOffset v (put_field KOffset v pg)"

definition setSearch :: "string \<Rightarrow> page \<Rightarrow> page" where
  "setSearch v pg =
     (if v \<noteq> [] then put_param KStringFilter v (put_field KStringFilter v pg)
      else drop_param KStringFilter (drop_field KStringFilter pg))"

definition setPartition :: "string list \<Rightarrow> page \<Rightarrow> page" where
  "setPartition vs pg =
     (let pg = drop_param KPartitions pg
      in if vs \<noteq> [] then
           (let pg = put_field KPartitions (join '','' vs) pg
            in pg\<lparr>pg_params := sp_append (MessagesFilterKeys KPartitions) (join '','' vs) (pg_params pg)\<rparr>)
         else drop_field KPartitions pg)"

definition setSmartFilter :: "AdvancedFilter option \<Rightarrow> page \<Rightarrow> page" where
  "setSmartFilter newFilter pg =
     (case newFilter of
        None \<Rightarrow>
          (let pg = drop_param KSmartFilterId pg;
               pg = drop_param KActiveFilterId pg;
               pg = drop_field KSmartFilterId pg
           in drop_field KActiveFilterId pg)
      | Some nf \<Rightarrow>
          (case selectFilter (Some (af_id nf)) (pg_store pg) of
             Missing \<Rightarrow> pg
           | Own f \<Rightarrow>
               (let pg = put_field KActiveFilterId (af_id f) pg;
                    pg = put_field KSmartFilterId (af_filterCode f) pg;
                    pg = put_param KSmartFilterId (af_filterCode f) pg
                in put_param KActiveFilterId (af_id nf) pg)
           | Inherited \<Rightarrow>
               (let pg = drop_field KActiveFilterId pg;
                    pg = drop_field KSmartFilterId pg;
                    pg = put_param KSmartFilterId ''undefined'' pg
                in put_param KActiveFilterId (af_id nf) pg)))"

definition refreshData :: "page \<Rightarrow> page" where
  "refreshData pg =
     (if truthy (sp_get (pg_params pg) (MessagesFilterKeys KR)) then drop_param KR pg
      else put_param KR ''r'' pg)"

definition getCursorValue :: "sparams \<Rightarrow> int" where
  "getCursorValue ps =
     (case js_parseInt (or_default (sp_get ps (MessagesFilterKeys KCursor)) ''0'') of
        None \<Rightarrow> 0 | Some c \<Rightarrow> c)"

definition paginateTopics :: "page \<Rightarrow> page" where
  "paginateTopics pg =
     (let cursor = getCursorValue (pg_params pg) + 1
      in if cursor \<noteq> 0 then put_param KCursor (show_int cursor) pg else pg)"

text \<open>Handlers of the list of saved filters.\<close>

definition deleteFilterHandler :: "string \<Rightarrow> page \<Rightarrow> page" where
  "deleteFilterHandler fid pg =
     (let pg = setSmartFilter None pg;
          pg = pg\<lparr>pg_store := remove_filter fid (pg_store pg)\<rparr>
      in pg\<lparr>pg_fields := removeFilterIfActive fid (pg_fields pg)\<rparr>)"

definition clearAllHandler :: "page \<Rightarrow> page" where
  "clearAllHandler pg =
     pg\<lparr>pg_store := removeAll (pg_store pg), pg_fields := removeAllActiveFilters (pg_fields pg)\<rparr>"

section \<open>Getters\<close>

definition get_mode :: "page \<Rightarrow> PollingMode slot" where
  "get_mode pg =
     (case convertStrToPollingMode (or_default (sp_get (pg_params pg) (MessagesFilterKeys KMode)) []) of
        Missing \<Rightarrow> Own defaultModeValue | m \<Rightarrow> m)"

definition get_partitions :: "page \<Rightarrow> string list" where
  "get_partitions pg =
     filter (\<lambda>v. v \<noteq> []) (js_split '','' (or_default (sp_get (pg_params pg) (MessagesFilterKeys KPartitions)) []))"

definition get_smartFilter :: "page \<Rightarrow> AdvancedFilter slot" where
  "get_smartFilter pg =
     selectFilter (Some (or_default (sp_get (pg_params pg) (MessagesFilterKeys KActiveFilterId)) [])) (pg_store pg)"

definition useIsMessagesSmartFilterPersisted :: "sparams \<Rightarrow> bool" where
  "useIsMessagesSmartFilterPersisted ps \<longleftrightarrow> truthy (sp_get ps (MessagesFilterKeys KActiveFilterId))"

definition useIsLiveMode :: "sparams \<Rightarrow> bool" where
  "useIsLiveMode ps \<longleftrightarrow>
     convertStrToPollingMode (or_default (sp_get ps (MessagesFilterKeys KMode)) []) = Own TAILING"

section \<open>Agreement of the URL with the remembered fields\<close>

text \<open>
  The URL and the remembered fields agree on a key when a reader of either, for which a
  missing and an empty value are the same, sees the same value.
\<close>

definition field :: "page \<Rightarrow> FilterKey \<Rightarrow> string option" where
  "field pg k = map_of (fields_of (pg_fields pg) (pg_storageKey pg)) k"

definition param :: "page \<Rightarrow> FilterKey \<Rightarrow> string option" where
  "param pg k = sp_get (pg_params pg) (MessagesFilterKeys k)"

definition agree :: "page \<Rightarrow> FilterKey \<Rightarrow> bool" where
  "agree pg k \<longleftrightarrow> or_default (field pg k) [] = or_default (param pg k) []"

lemma fields_of_update [simp]: "fields_of (AList.update r f m) r' = (if r' = r then f else fields_of m r')"
  by (simp add: fields_of_def)

lemma fields_of_delete [simp]: "fields_of (AList.delete r m) r' = (if r' = r then [] else fields_of m r')"
  by (simp add: fields_of_def)

lemma page_writes [simp]:
  "field (put_field k v pg) k' = (if k' = k then Some v else field pg k')"
  "field (drop_field k pg) k' = (if k' = k then None else field pg k')"
  "field (put_param k v pg) k' = field pg k'"
  "field (drop_param k pg) k' = field pg k'"
  "param (put_param k v pg) k' = (if k' = k then Some v else param pg k')"
  "param (drop_param k pg) k' = (if k' = k then None else param pg k')"
  "param (put_field k v pg) k' = param pg k'"
  "param (drop_field k pg) k' = param pg k'"
  by (simp_all add: field_def param_def put_field_def drop_field_def put_param_def drop_param_def
      setMessagesFiltersField_def removeMessagesFiltersField_def)

lemma page_frame [simp]:
  "pg_store (put_field k v pg) = pg_store pg"
  "pg_store (drop_field k pg) = pg_store pg"
  "pg_store (put_param k v pg) = pg_store pg"
  "pg_store (drop_param k pg) = pg_store pg"
  "pg_storageKey (put_field k v pg) = pg_storageKey pg"
  "pg_storageKey (drop_field k pg) = pg_storageKey pg"
  "pg_storageKey (put_param k v pg) = pg_storageKey pg"
  "pg_storageKey (drop_param k pg) = pg_storageKey pg"
  by (simp_all add: put_field_def drop_field_def put_param_def drop_param_def)

datatype page_op =
  SetMode PollingMode | SetTimeStamp "int option" | SetKeySerde string | SetValueSerde string
| SetOffset string | SetSearch string | SetPartition "string list"
| SetSmartFilter "AdvancedFilter option" | Refresh | Paginate | DeleteFilter string

fun run_op :: "page_op \<Rightarrow> page \<Rightarrow> page" where
  "run_op (SetMode m) pg = setMode m pg"
| "run_op (SetTimeStamp t) pg = setTimeStamp t pg"
| "run_op (SetKeySerde v) pg = setKeySerde v pg"
| "run_op (SetValueSerde v) pg = setValueSerde v pg"
| "run_op (SetOffset v) pg = setOffsetValue v pg"
| "run_op (SetSearch v) pg = setSearch v pg"
| "run_op (SetPartition vs) pg = setPartition vs pg"
| "run_op (SetSmartFilter f) pg = setSmartFilter f pg"
| "run_op Refresh pg = refreshData pg"
| "run_op Paginate pg = paginateTopics pg"
| "run_op (DeleteFilter i) pg = deleteFilterHandler i pg"

text \<open>Activating a filter whose id names a member of \<open>Object.prototype\<close> is excluded.\<close>

fun op_ok :: "page_op \<Rightarrow> bool" where
  "op_ok (SetSmartFilter (Some f)) = (af_id f \<notin> set object_proto_names)"
| "op_ok _ = True"

lemmas setter_defs = setMode_def setTimeStamp_def setKeySerde_def setValueSerde_def setOffsetValue_def
  setSearch_def refreshData_def paginateTopics_def

lemma setPartition_reads:
  "field (setPartition vs pg) k = (if k = KPartitions then (if vs = [] then None else Some (join '','' vs)) else field pg k)"
  "param (setPartition vs pg) k = (if k = KPartitions then (if vs = [] then None else Some (join '','' vs)) else param pg k)"
  by (auto simp: setPartition_def Let_def field_def param_def drop_param_def drop_field_def put_field_def
      setMessagesFiltersField_def removeMessagesFiltersField_def split: option.splits)

lemma fields_of_removeFilterIfActive:
  "fields_of (removeFilterIfActive i m) r =
     (if map_of (fields_of m r) KActiveFilterId = Some i then [] else fields_of m r)"
  by (induction m) (auto simp: removeFilterIfActive_def fields_of_def)

lemma removeFilterIfActive_reads:
  "field (pg\<lparr>pg_fields := removeFilterIfActive i (pg_fields pg)\<rparr>) k =
     (if field pg KActiveFilterId = Some i then None else field pg k)"
  by (simp add: field_def fields_of_removeFilterIfActive)

lemma deleteFilterHandler_reads:
  "field (deleteFilterHandler i pg) k = (if k \<in> {KSmartFilterId, KActiveFilterId} then None else field pg k)"
  "param (deleteFilterHandler i pg) k = (if k \<in> {KSmartFilterId, KActiveFilterId} then None else param pg k)"
proof -
  define p1 where "p1 = setSmartFilter None pg"
  have f1: "field p1 k = (if k \<in> {KSmartFilterId, KActiveFilterId} then None else field pg k)" for k
    by (simp add: p1_def setSmartFilter_def Let_def)
  have h: "deleteFilterHandler i pg =
      (p1\<lparr>pg_store := remove_filter i (pg_store p1)\<rparr>)\<lparr>pg_fields := removeFilterIfActive i (pg_fields p1)\<rparr>"
    by (simp add: deleteFilterHandler_def p1_def Let_def)
  have "field (deleteFilterHandler i pg) k =
      field (p1\<lparr>pg_fields := removeFilterIfActive i (pg_fields p1)\<rparr>) k"
    by (simp add: h field_def)
  also have "\<dots> = field p1 k" using f1 [of KActiveFilterId] by (simp add: removeFilterIfActive_reads)
  finally show "field (deleteFilterHandler i pg) k =
      (if k \<in> {KSmartFilterId, KActiveFilterId} then None else field pg k)" by (simp add: f1)
  have "param (deleteFilterHandler i pg) k = param p1 k" by (simp add: h param_def)
  then show "param (deleteFilterHandler i pg) k =
      (if k \<in> {KSmartFilterId, KActiveFilterId} then None else param pg k)"
    by (simp add: p1_def setSmartFilter_def Let_def)
qed

lemma agree_iff:
  assumes "field pg' k = (if b then x else field pg k)" and "param pg' k = (if b then x else param pg k)"
  shows "agree pg k \<Longrightarrow> agree pg' k"
  using assms by (simp add: agree_def)

lemma agree_setSmartFilter:
  assumes "store_ok (pg_store pg)" and "op_ok (SetSmartFilter f)" and "agree pg k"
  shows "agree (setSmartFilter f pg) k"
proof (cases f)
  case None
  with assms(3) show ?thesis by (simp add: setSmartFilter_def agree_def Let_def)
next
  case (Some nf)
  show ?thesis
  proof (cases "selectFilter (Some (af_id nf)) (pg_store pg)")
    case (Own g)
    with assms(1) have "af_id g = af_id nf" by (auto simp: selectFilter_Own store_ok_def)
    with Some Own assms(3) show ?thesis by (simp add: setSmartFilter_def agree_def Let_def)
  next
    case Inherited
    with Some assms(2) show ?thesis
      by (auto simp: selectFilter_def obj_index_def split: if_splits option.splits)
  next
    case Missing
    with Some assms(3) show ?thesis by (simp add: setSmartFilter_def)
  qed
qed

lemma agree_op:
  assumes "store_ok (pg_store pg)" and "op_ok op" and "agree pg k" and "k \<notin> {KR, KCursor}"
  shows "agree (run_op op pg) k"
proof (cases op)
  case (SetSmartFilter f)
  with assms agree_setSmartFilter show ?thesis by simp
next
  case (SetPartition vs)
  with assms(3) show ?thesis by (simp add: agree_def setPartition_reads)
next
  case (DeleteFilter i)
  with assms(3) show ?thesis by (simp add: agree_def deleteFilterHandler_reads)
qed (use assms(3,4) in \<open>auto simp: agree_def setter_defs Let_def split: option.splits\<close>)

lemma store_ok_run_op: "store_ok (pg_store pg) \<Longrightarrow> store_ok (pg_store (run_op op pg))"
proof (cases op)
  case (DeleteFilter i)
  assume "store_ok (pg_store pg)"
  then have "store_ok (remove_filter i (pg_store pg))"
    using store_ok_op [of "pg_store pg" "Remove i"] by simp
  with DeleteFilter show ?thesis by (simp add: deleteFilterHandler_def setSmartFilter_def Let_def)
qed (auto simp: setter_defs setPartition_def setSmartFilter_def Let_def split: option.splits slot.splits)

lemma param_op_limit: "param (run_op op pg) KLimit = param pg KLimit"
proof (cases op)
  case (DeleteFilter i)
  then show ?thesis by (simp add: deleteFilterHandler_reads)
qed (auto simp: setter_defs setPartition_reads setSmartFilter_def Let_def split: option.splits slot.splits)

lemma param_op_mode: "param pg KMode \<noteq> None \<Longrightarrow> param (run_op op pg) KMode \<noteq> None"
proof (cases op)
  case (DeleteFilter i)
  assume "param pg KMode \<noteq> None"
  with DeleteFilter show ?thesis by (simp add: deleteFilterHandler_reads)
qed (auto simp: setter_defs setPartition_reads setSmartFilter_def Let_def split: option.splits slot.splits)

section \<open>Initialisation\<close>

lemma sp_get_from_storage:
  "sp_get (fold (from_storage stored) ks ps) (MessagesFilterKeys k) =
     (if k \<in> set ks \<and> truthy (map_of stored k) then map_of stored k else sp_get ps (MessagesFilterKeys k))"
  by (induction ks arbitrary: ps) (auto simp: from_storage_def truthy_def split: option.splits)

lemma fields_from_url:
  "map_of (fields_of (fold (from_url r ps) ks m) r) k =
     (if k \<in> set ks \<and> truthy (sp_get ps (MessagesFilterKeys k)) then sp_get ps (MessagesFilterKeys k)
      else map_of (fields_of m r) k)"
  by (induction ks arbitrary: m)
    (auto simp: from_url_def truthy_def setMessagesFiltersField_def split: option.splits)

definition restored :: "page \<Rightarrow> bool" where
  "restored pg \<longleftrightarrow> pg_params pg = [] \<and> map_of (pg_fields pg) (pg_storageKey pg) \<noteq> None"

lemma init_fields_restored:
  assumes "restored pg" and "initMessagesFiltersFields (pg_storageKey pg) (pg_params pg) (pg_fields pg) = (ps, m)"
  shows "m = pg_fields pg"
    and "sp_get ps (MessagesFilterKeys k) =
      (if k \<in> set fields_from_storage_keys \<and> truthy (field pg k) then field pg k else None)"
  using assms
  by (auto simp: restored_def initMessagesFiltersFields_def field_def fields_of_def sp_get_from_storage
      split: option.splits)

lemma init_fields_url:
  assumes "\<not> restored pg" and "initMessagesFiltersFields (pg_storageKey pg) (pg_params pg) (pg_fields pg) = (ps, m)"
  shows "ps = pg_params pg"
    and "map_of (fields_of m (pg_storageKey pg)) k =
      (if k \<in> set fields_from_url_keys \<and> truthy (param pg k) then param pg k else None)"
  using assms
  by (auto simp: restored_def initMessagesFiltersFields_def param_def fields_from_url fields_of_delete
      removeMessagesFilterFields_def split: option.splits if_splits)

lemma init_effect_frame [simp]:
  "pg_store (init_effect pg) = pg_store pg" "pg_storageKey (init_effect pg) = pg_storageKey pg"
  "pg_initialized (init_effect pg) = None"
  "pg_target (init_effect pg) = Some (pg_storageKey pg, sp_toString (pg_params (init_effect pg)))"
  by (simp_all add: init_effect_def Let_def split: prod.split)

lemma field_init_effect:
  "field (init_effect pg) k =
     (if restored pg then field pg k
      else if k \<in> set fields_from_url_keys \<and> truthy (param pg k) then param pg k else None)"
proof -
  obtain ps m where i: "initMessagesFiltersFields (pg_storageKey pg) (pg_params pg) (pg_fields pg) = (ps, m)"
    by force
  have "field (init_effect pg) k = map_of (fields_of m (pg_storageKey pg)) k"
    by (simp add: field_def init_effect_def i Let_def)
  then show ?thesis
    using init_fields_restored(1) [OF _ i] init_fields_url(2) [OF _ i, of k] by (auto simp: field_def)
qed

lemma param_init_effect:
  "param (init_effect pg) k =
     (if k = KCursor then None
      else if k = KLimit then Some (show_nat PER_PAGE_messages)
      else let v = (if restored pg
                    then if k \<in> set fields_from_storage_keys \<and> truthy (field pg k) then field pg k else None
                    else param pg k)
           in if k = KMode \<and> v = None then Some (mode_name defaultModeValue) else v)"
proof -
  obtain ps m where i: "initMessagesFiltersFields (pg_storageKey pg) (pg_params pg) (pg_fields pg) = (ps, m)"
    by force
  have "sp_get ps (MessagesFilterKeys k) = (if restored pg
      then if k \<in> set fields_from_storage_keys \<and> truthy (field pg k) then field pg k else None
      else param pg k)"
    using init_fields_restored(2) [OF _ i, of k] init_fields_url(1) [OF _ i] by (auto simp: param_def)
  moreover have "param (init_effect pg) k =
     (if k = KCursor then None
      else if k = KLimit then Some (show_nat PER_PAGE_messages)
      else if k = KMode \<and> sp_get ps (MessagesFilterKeys KMode) = None
           then Some (mode_name defaultModeValue) else sp_get ps (MessagesFilterKeys k))"
    by (auto simp: param_def init_effect_def i Let_def)
  ultimately show ?thesis by (auto simp: Let_def)
qed

lemma or_default_truthy: "or_default (if truthy x then x else None) d = or_default x d"
  by (auto simp: or_default_def truthy_def split: option.splits)

definition synced_keys :: "FilterKey list" where
  "synced_keys = [KOffset, KTimestamp, KPartitions, KKeySerde, KValueSerde, KActiveFilterId, KSmartFilterId]"

lemma agree_init_effect:
  assumes "k \<in> set synced_keys"
  shows "agree (init_effect pg) k"
proof -
  from assms have "k \<in> set fields_from_url_keys" and "k \<in> set fields_from_storage_keys"
    and "k \<noteq> KCursor" and "k \<noteq> KLimit" and "k \<noteq> KMode"
    by (auto simp: synced_keys_def fields_from_url_keys_def fields_from_storage_keys_def)
  then show ?thesis
    by (simp add: agree_def field_init_effect param_init_effect or_default_truthy)
qed

definition in_sync :: "page \<Rightarrow> bool" where
  "in_sync pg \<longleftrightarrow> store_ok (pg_store pg) \<and> (\<forall>k\<in>set synced_keys. agree pg k)
     \<and> param pg KLimit = Some ''100'' \<and> param pg KMode \<noteq> None"

lemma in_sync_init: "store_ok (pg_store pg) \<Longrightarrow> in_sync (init_effect pg)"
proof -
  assume "store_ok (pg_store pg)"
  moreover have "show_nat PER_PAGE_messages = ''100''" by code_simp
  ultimately show ?thesis by (simp add: in_sync_def agree_init_effect) (simp add: param_init_effect Let_def)
qed

interpretation page: machine run_op op_ok in_sync
proof unfold_locales
  fix op pg assume "op_ok op" and "in_sync pg"
  then show "in_sync (run_op op pg)"
    unfolding in_sync_def
    by (intro conjI ballI param_op_mode) (auto simp: store_ok_run_op param_op_limit synced_keys_def
        intro!: agree_op)
qed

section \<open>Properties\<close>


definition sample_page :: page where
  "sample_page = \<lparr>pg_storageKey = ''t:c'', pg_params = [], pg_fields = [(''t:c'', [(KOffset, ''7'')])],
     pg_store = initial_store, pg_target = None, pg_initialized = None\<rparr>"


text \<open>
  A search text that arrives in the URL is used but never remembered: initialisation
  from a URL leaves the search field of the topic empty, although the same field is restored
  from storage when the URL is empty.
\<close>

theorem url_search_not_remembered:
  "(\<not> restored pg \<longrightarrow> field (init_effect pg) KStringFilter = None
      \<and> param (init_effect pg) KStringFilter = param pg KStringFilter)
   \<and> (restored pg \<longrightarrow> truthy (field pg KStringFilter) \<longrightarrow>
      param (init_effect pg) KStringFilter = field pg KStringFilter)"
  by (simp add: field_init_effect param_init_effect fields_from_url_keys_def fields_from_storage_keys_def)

theorem url_search_not_remembered_witness:
  "field (init_effect (sample_page\<lparr>pg_params := [(''stringFilter'', ''x'')]\<rparr>)) KStringFilter = None"
proof -
  have "\<not> restored (sample_page\<lparr>pg_params := [(''stringFilter'', ''x'')]\<rparr>)" by (simp add: restored_def)
  then show ?thesis using url_search_not_remembered by blast
qed

text \<open>
  The page is not ready while the URL is being initialised, and becomes ready as soon
  as the URL shows the initialised query; initialising again from that query, on an empty
  cursor, leaves the query's fields as they are.
\<close>

theorem initialisation_completes:
  "\<not> isInitialized (init_effect pg) \<and> isInitialized (initialized_effect (init_effect pg))
   \<and> pg_params (initialized_effect (init_effect pg)) = pg_params (init_effect pg)
   \<and> (\<forall>k. param (init_effect (init_effect pg)) k = param (init_effect pg) k)"
proof -
  have mode: "param (init_effect pg) KMode \<noteq> None" by (simp add: param_init_effect Let_def)
  then have "pg_params (init_effect pg) \<noteq> []" by (auto simp: param_def)
  then have "\<not> restored (init_effect pg)" by (simp add: restored_def)
  moreover have "param (init_effect pg) KCursor = None" by (simp add: param_init_effect)
  moreover have "param (init_effect pg) KLimit = Some (show_nat PER_PAGE_messages)"
    by (simp add: param_init_effect)
  ultimately have "param (init_effect (init_effect pg)) k = param (init_effect pg) k" for k
    using mode by (subst param_init_effect) (auto simp: Let_def)
  then show ?thesis by (simp add: isInitialized_def initialized_effect_def)
qed

text \<open>
  Clearing all saved filters leaves the URL alone: an active filter keeps filtering
  the messages through its code in the query, while the page can no longer name or show it.
\<close>

theorem clear_all_keeps_active_filter:
  "param (clearAllHandler pg) k = param pg k
   \<and> field (clearAllHandler pg) k = None
   \<and> (\<forall>f. get_smartFilter (clearAllHandler pg) \<noteq> Own f)"
  by (simp add: clearAllHandler_def param_def field_def removeAllActiveFilters_def fields_of_def
      get_smartFilter_def selectFilter_Own removeAll_def)

end
