(* ===== verification/TopicMessages.thy ===== *)
theory TopicMessages
  imports MessageFilters Paths
begin

text \<open>
  The stream of messages of a topic, \<open>frontend/src/lib/hooks/api/topicMessages.tsx\<close>.
  The hook builds the request from the URL query, receives server events through
  \<open>fetchEventSource\<close>, collects messages and shows them in batches, one batch per
  animation frame. The state holds what the hook keeps in refs and React state, the
  animation frames the browser has scheduled, and which connection is live.

  \<open>fetchEventSource\<close> and the browser are not part of the source; the model uses their
  documented behaviour: a connection whose signal is aborted delivers no further events, a
  handler that returns from \<open>onerror\<close> keeps the connection retrying, and a cancelled
  animation frame does not run.
\<close>

section \<open>Events and state\<close>

datatype EventType = MESSAGE | PHASE | CONSUMING | OTHER_EVENT

record 'm TopicMessageEvent =
  ev_type :: EventType
  ev_message :: "'m option"
  ev_phase_name :: "string option"
  ev_consuming :: "nat option"
  ev_cursor_id :: "string option"

record 'm stream =
  messages :: "'m list"
  phase :: "string option"
  consumptionStats :: "nat option"
  isFetching :: bool
  pendingMessages :: "'m list"
  pendingFrame :: "nat option"
  activeMode :: "PollingMode slot"
  prevCursor :: int
  controller :: nat
  live :: "nat option"
  frames :: "nat list"
  nextFrame :: nat
  cursorStore :: "string option"
  alerts :: nat

definition initial_stream :: "'m stream" where
  "initial_stream =
     \<lparr>messages = [], phase = None, consumptionStats = None, isFetching = False, pendingMessages = [],
      pendingFrame = None, activeMode = Missing, prevCursor = 0, controller = 0, live = None, frames = [],
      nextFrame = 0, cursorStore = None, alerts = 0\<rparr>"

section \<open>Batching\<close>

definition cancelPendingMessages :: "'m stream \<Rightarrow> 'm stream" where
  "cancelPendingMessages s =
     (let s = (case pendingFrame s of
                 Some i \<Rightarrow> s\<lparr>frames := List.removeAll i (frames s), pendingFrame := None\<rparr>
               | None \<Rightarrow> s)
      in s\<lparr>pendingMessages := []\<rparr>)"

definition flushPendingMessages :: "'m stream \<Rightarrow> 'm stream" where
  "flushPendingMessages s =
     (let batch = pendingMessages s;
          s = s\<lparr>pendingFrame := None, pendingMessages := []\<rparr>
      in if batch = [] then s
         else s\<lparr>messages := (if activeMode s = Own TAILING then rev batch @ messages s
                             else messages s @ batch)\<rparr>)"

definition queueMessage :: "'m \<Rightarrow> 'm stream \<Rightarrow> 'm stream" where
  "queueMessage m s =
     (let s = s\<lparr>pendingMessages := pendingMessages s @ [m]\<rparr>
      in if pendingFrame s = None
         then s\<lparr>pendingFrame := Some (nextFrame s), frames := frames s @ [nextFrame s],
                nextFrame := Suc (nextFrame s)\<rparr>
         else s)"

text \<open>The current controller is never aborted: aborting it replaces it at once.\<close>

definition abortFetchData :: "'m stream \<Rightarrow> 'm stream" where
  "abortFetchData s =
     (let s = cancelPendingMessages s
      in s\<lparr>isFetching := False,
           live := (if live s = Some (controller s) then None else live s),
           controller := Suc (controller s)\<rparr>)"

section \<open>The request\<close>

definition MESSAGES_PER_PAGE :: string where "MESSAGES_PER_PAGE = ''100''"

definition copy_param :: "sparams \<Rightarrow> FilterKey \<Rightarrow> sparams \<Rightarrow> sparams" where
  "copy_param search k req =
     (case sp_get search (MessagesFilterKeys k) of
        Some v \<Rightarrow> if v \<noteq> [] then sp_set (MessagesFilterKeys k) v req else req
      | None \<Rightarrow> req)"

definition mode_param :: "sparams \<Rightarrow> string" where
  "mode_param search = (case sp_get search (MessagesFilterKeys KMode) of None \<Rightarrow> [] | Some v \<Rightarrow> v)"

definition seek_param :: "sparams \<Rightarrow> sparams \<Rightarrow> sparams" where
  "seek_param search req =
     (case convertStrToPollingMode (mode_param search) of
        Own mode \<Rightarrow>
          if mode = TO_TIMESTAMP \<or> mode = FROM_TIMESTAMP
          then sp_set (MessagesFilterKeys KTimestamp)
                 (or_default (sp_get search (MessagesFilterKeys KTimestamp)) ''0'') req
          else if mode = TO_OFFSET \<or> mode = FROM_OFFSET
          then sp_set (MessagesFilterKeys KOffset)
                 (or_default (sp_get search (MessagesFilterKeys KOffset)) ''0'') req
          else req
      | _ \<Rightarrow> req)"

definition requestParams :: "sparams \<Rightarrow> string option \<Rightarrow> int \<Rightarrow> sparams" where
  "requestParams search cursor prev =
     (let req = [(MessagesFilterKeys KLimit,
                   or_default (sp_get search (MessagesFilterKeys KLimit)) MESSAGES_PER_PAGE),
                 (MessagesFilterKeys KMode, mode_param search)];
          req = fold (copy_param search) [KStringFilter, KKeySerde, KSmartFilterId, KValueSerde] req;
          req = seek_param search req;
          req = (case sp_get search (MessagesFilterKeys KPartitions) of
                   Some p \<Rightarrow> sp_append (MessagesFilterKeys KPartitions) p req
                 | None \<Rightarrow> req)
      in if truthy cursor \<and> prev < getCursorValue search
         then sp_set (MessagesFilterKeys KCursor) (the cursor) req else req)"

definition messages_url :: "string \<Rightarrow> string \<Rightarrow> string \<Rightarrow> sparams \<Rightarrow> string" where
  "messages_url basePath clusterName topicName req =
     basePath @ ''/api/clusters/'' @ encodeURIComponent clusterName @ ''/topics/'' @ topicName
     @ ''/messages/v2?'' @ sp_toString req"

text \<open>
  The effect, run whenever the query or the topic changes while the filters are ready: it
  drops the previous connection and opens one for the new query. The result carries the
  query parameters of the request.
\<close>

definition start_fetch :: "sparams \<Rightarrow> 'm stream \<Rightarrow> 'm stream \<times> sparams" where
  "start_fetch search s =
     (let s = s\<lparr>activeMode := convertStrToPollingMode (mode_param search)\<rparr>;
          s = abortFetchData s;
          s = s\<lparr>isFetching := True\<rparr>;
          req = requestParams search (cursorStore s) (prevCursor s)
      in (s\<lparr>prevCursor := getCursorValue search, live := Some (controller s)\<rparr>, req))"

section \<open>Handlers of the connection\<close>

definition onopen :: "bool \<Rightarrow> nat \<Rightarrow> 'm stream \<Rightarrow> 'm stream" where
  "onopen ok status s =
     (if ok \<and> status = 200 then (cancelPendingMessages s)\<lparr>messages := []\<rparr>
      else if status \<ge> 400 \<and> status < 500 \<and> status \<noteq> 429 then s\<lparr>alerts := Suc (alerts s)\<rparr>
      else s)"

definition onmessage :: "'m TopicMessageEvent \<Rightarrow> 'm stream \<Rightarrow> 'm stream" where
  "onmessage e s =
     (let s = (if cursorStore s \<noteq> ev_cursor_id e
               then s\<lparr>cursorStore := (if truthy (ev_cursor_id e) then ev_cursor_id e else None)\<rparr> else s)
      in case ev_type e of
           MESSAGE \<Rightarrow> (case ev_message e of Some m \<Rightarrow> queueMessage m s | None \<Rightarrow> s)
         | PHASE \<Rightarrow> (if truthy (ev_phase_name e) then s\<lparr>phase := ev_phase_name e\<rparr> else s)
         | CONSUMING \<Rightarrow> (case ev_consuming e of Some c \<Rightarrow> s\<lparr>consumptionStats := Some c\<rparr> | None \<Rightarrow> s)
         | OTHER_EVENT \<Rightarrow> s)"

definition onclose :: "'m stream \<Rightarrow> 'm stream" where
  "onclose s =
     (flushPendingMessages s)\<lparr>isFetching := False, controller := Suc (controller s), live := None\<rparr>"

definition onerror :: "'m stream \<Rightarrow> 'm stream" where
  "onerror s = s\<lparr>cursorStore := None, isFetching := False, alerts := Suc (alerts s)\<rparr>"

text \<open>
  One event of the environment. Connection events carry the controller they belong to and
  are delivered to the live connection only; a frame runs if it is still scheduled.
\<close>

datatype 'm event =
  Start sparams | Open nat bool nat | Message nat "'m TopicMessageEvent" | Close nat | Error nat
| Frame nat | Abort

fun step :: "'m event \<Rightarrow> 'm stream \<Rightarrow> 'm stream" where
  "step (Start search) s = fst (start_fetch search s)"
| "step (Open c ok status) s = (if live s = Some c then onopen ok status s else s)"
| "step (Message c e) s = (if live s = Some c then onmessage e s else s)"
| "step (Close c) s = (if live s = Some c then onclose s else s)"
| "step (Error c) s = (if live s = Some c then onerror s else s)"
| "step (Frame i) s =
     (if i \<in> set (frames s) then flushPendingMessages (s\<lparr>frames := remove1 i (frames s)\<rparr>) else s)"
| "step Abort s = abortFetchData s"

section \<open>Nothing is left waiting without a frame\<close>

definition stream_ok :: "'m stream \<Rightarrow> bool" where
  "stream_ok s \<longleftrightarrow>
     (pendingMessages s \<noteq> [] \<longrightarrow> pendingFrame s \<noteq> None)
     \<and> (\<forall>i. pendingFrame s = Some i \<longrightarrow> i \<in> set (frames s))
     \<and> distinct (frames s) \<and> (\<forall>i\<in>set (frames s). i < nextFrame s)
     \<and> (\<forall>c. live s = Some c \<longrightarrow> c = controller s)"

lemmas stream_defs = cancelPendingMessages_def flushPendingMessages_def queueMessage_def abortFetchData_def
  onopen_def onclose_def onerror_def

lemma stream_ok_initial: "stream_ok initial_stream"
  by (simp add: stream_ok_def initial_stream_def)

lemma stream_ok_cancel: "stream_ok s \<Longrightarrow> stream_ok (cancelPendingMessages s)"
  by (auto simp: stream_ok_def cancelPendingMessages_def Let_def distinct_removeAll split: option.splits)

lemma stream_ok_flush: "stream_ok s \<Longrightarrow> stream_ok (flushPendingMessages s)"
  by (auto simp: stream_ok_def flushPendingMessages_def Let_def)

lemma stream_ok_frame: "stream_ok s \<Longrightarrow> stream_ok (flushPendingMessages (s\<lparr>frames := remove1 i (frames s)\<rparr>))"
  by (auto simp: stream_ok_def flushPendingMessages_def Let_def dest: notin_set_remove1)

lemma stream_ok_queue: "stream_ok s \<Longrightarrow> stream_ok (queueMessage m s)"
  by (auto simp: stream_ok_def queueMessage_def Let_def less_Suc_eq)

lemma stream_ok_onmessage: "stream_ok s \<Longrightarrow> stream_ok (onmessage e s)"
proof -
  assume ok: "stream_ok s"
  define s1 where "s1 = (if cursorStore s \<noteq> ev_cursor_id e
     then s\<lparr>cursorStore := (if truthy (ev_cursor_id e) then ev_cursor_id e else None)\<rparr> else s)"
  from ok have "stream_ok s1" by (simp add: stream_ok_def s1_def)
  then show ?thesis
    unfolding onmessage_def Let_def s1_def [symmetric]
    by (cases "ev_type e"; cases "ev_message e"; cases "ev_consuming e")
      (simp_all add: stream_ok_queue, simp_all add: stream_ok_def)
qed

lemma live_abort: "stream_ok s \<Longrightarrow> live (abortFetchData s) = None"
proof -
  assume "stream_ok s"
  from stream_ok_cancel [OF this]
  have "live (cancelPendingMessages s) = None
      \<or> live (cancelPendingMessages s) = Some (controller (cancelPendingMessages s))"
    unfolding stream_ok_def by (metis not_None_eq)
  then show ?thesis unfolding abortFetchData_def Let_def by (elim disjE) simp_all
qed

lemma stream_ok_abort: "stream_ok s \<Longrightarrow> stream_ok (abortFetchData s)"
  using stream_ok_cancel [of s] live_abort [of s]
  unfolding stream_ok_def abortFetchData_def Let_def by simp

lemma stream_ok_step: "stream_ok s \<Longrightarrow> stream_ok (step e s)"
proof (cases e)
  case (Start search)
  assume "stream_ok s"
  then have "stream_ok (s\<lparr>activeMode := convertStrToPollingMode (mode_param search)\<rparr>)" by (simp add: stream_ok_def)
  from stream_ok_abort [OF this] Start show ?thesis by (simp add: start_fetch_def Let_def stream_ok_def)
next
  case (Open c ok status)
  assume "stream_ok s"
  with stream_ok_cancel [of s] Open show ?thesis by (auto simp: onopen_def stream_ok_def)
next
  case (Close c)
  assume "stream_ok s"
  with stream_ok_flush [of s] Close show ?thesis by (auto simp: onclose_def stream_ok_def)
next
  case (Error c)
  assume "stream_ok s"
  with Error show ?thesis by (simp add: onerror_def stream_ok_def)
qed (simp_all add: stream_ok_onmessage stream_ok_frame stream_ok_abort)

interpretation stream: machine step "\<lambda>_. True" stream_ok
  by unfold_locales (rule stream_ok_step)

lemma stream_ok_reachable: "stream_ok (fold step hist initial_stream)"
  by (rule stream.inv_run) (simp_all add: stream_ok_initial list_all_iff)

section \<open>What a connection delivers\<close>

text \<open>The messages in a list of events, and the messages shown, both oldest first.\<close>

fun payload :: "'m event \<Rightarrow> 'm list" where
  "payload (Message c e) =
     (if ev_type e = MESSAGE then (case ev_message e of Some m \<Rightarrow> [m] | None \<Rightarrow> []) else [])"
| "payload _ = []"

definition shown :: "'m stream \<Rightarrow> 'm list" where
  "shown s = (if activeMode s = Own TAILING then rev (messages s) else messages s)"

text \<open>Events of one connection between its opening and its end.\<close>

fun streaming :: "nat \<Rightarrow> 'm event \<Rightarrow> bool" where
  "streaming c (Message d e) = (d = c)"
| "streaming c (Error d) = (d = c)"
| "streaming c (Frame i) = True"
| "streaming c _ = False"

lemma shown_flush: "shown (flushPendingMessages s) = shown s @ pendingMessages s"
  by (simp add: shown_def flushPendingMessages_def Let_def)

lemma flush_clears: "pendingMessages (flushPendingMessages s) = []"
  by (simp add: flushPendingMessages_def Let_def)

lemma shown_cong: "messages t = messages s \<Longrightarrow> activeMode t = activeMode s \<Longrightarrow> shown t = shown s"
  by (simp add: shown_def)

lemma queue_reads:
  "shown (queueMessage m s) = shown s" "pendingMessages (queueMessage m s) = pendingMessages s @ [m]"
  "live (queueMessage m s) = live s"
  by (simp_all add: queueMessage_def Let_def shown_def)

lemma onmessage_reads:
  "shown (onmessage e s) = shown s \<and> live (onmessage e s) = live s
   \<and> pendingMessages (onmessage e s) = pendingMessages s @ payload (Message c e)"
proof -
  define s1 where "s1 = (if cursorStore s \<noteq> ev_cursor_id e
     then s\<lparr>cursorStore := (if truthy (ev_cursor_id e) then ev_cursor_id e else None)\<rparr> else s)"
  have s1: "shown s1 = shown s" "pendingMessages s1 = pendingMessages s" "live s1 = live s"
    by (simp_all add: s1_def shown_def)
  show ?thesis
    unfolding onmessage_def Let_def s1_def [symmetric]
    by (cases "ev_type e"; cases "ev_message e"; cases "ev_consuming e")
      (simp_all add: queue_reads s1, simp_all add: s1 shown_cong [of _ s1])
qed

lemma streaming_step:
  assumes "live s = Some c" and "streaming c e"
  shows "live (step e s) = Some c
    \<and> shown (step e s) @ pendingMessages (step e s) = shown s @ pendingMessages s @ payload e"
proof (cases e)
  case (Message d ev)
  with assms onmessage_reads [of ev s c] show ?thesis by simp
next
  case (Error d)
  with assms show ?thesis by (simp add: onerror_def shown_def)
next
  case (Frame i)
  have "shown (s\<lparr>frames := fs\<rparr>) = shown s" for fs by (simp add: shown_def)
  moreover have "live (flushPendingMessages t) = live t" for t :: "'a stream"
    by (simp add: flushPendingMessages_def Let_def)
  ultimately show ?thesis using Frame assms by (simp add: shown_flush flush_clears)
qed (use assms in simp_all)

lemma streaming_run:
  assumes "live s = Some c" and "list_all (streaming c) es"
  shows "live (fold step es s) = Some c
    \<and> shown (fold step es s) @ pendingMessages (fold step es s)
        = shown s @ pendingMessages s @ concat (map payload es)"
  using assms
proof (induction es arbitrary: s)
  case (Cons e es)
  from Cons.prems streaming_step [of s c e] have st: "live (step e s) = Some c"
    "shown (step e s) @ pendingMessages (step e s) = shown s @ pendingMessages s @ payload e" by auto
  from Cons.IH [OF st(1)] Cons.prems st(2) show ?case by (simp flip: append_assoc)
qed simp

text \<open>No connection, nothing waiting, and a fixed list of messages.\<close>

definition silent :: "'m list \<Rightarrow> 'm stream \<Rightarrow> bool" where
  "silent ms s \<longleftrightarrow> live s = None \<and> pendingMessages s = [] \<and> \<not> isFetching s \<and> messages s = ms"

fun no_start :: "'m event \<Rightarrow> bool" where
  "no_start (Start p) = False"
| "no_start e = True"

lemma silent_step: "no_start e \<Longrightarrow> silent ms s \<Longrightarrow> silent ms (step e s)"
  by (cases e) (simp_all add: silent_def stream_defs Let_def split: option.splits)

interpretation silence: machine step no_start "silent ms" for ms
  by unfold_locales (rule silent_step)

section \<open>The request parameters\<close>

lemma copy_params_other:
  "k \<notin> set ks \<Longrightarrow> sp_get (fold (copy_param search) ks req) (MessagesFilterKeys k) = sp_get req (MessagesFilterKeys k)"
  by (induction ks arbitrary: req) (auto simp: copy_param_def split: option.splits)

lemma seek_param_get:
  "sp_get (seek_param search req) (MessagesFilterKeys k) =
     (if k = KTimestamp \<and> mode_param search \<in> {''TO_TIMESTAMP'', ''FROM_TIMESTAMP''}
      then Some (or_default (sp_get search (MessagesFilterKeys KTimestamp)) ''0'')
      else if k = KOffset \<and> mode_param search \<in> {''TO_OFFSET'', ''FROM_OFFSET''}
      then Some (or_default (sp_get search (MessagesFilterKeys KOffset)) ''0'')
      else sp_get req (MessagesFilterKeys k))"
  by (auto simp: seek_param_def convertStrToPollingMode_def obj_index_def polling_modes_def)

lemma partitions_append_get:
  "k \<noteq> KPartitions \<Longrightarrow>
   sp_get (case p of Some v \<Rightarrow> sp_append (MessagesFilterKeys KPartitions) v req | None \<Rightarrow> req) (MessagesFilterKeys k)
     = sp_get req (MessagesFilterKeys k)"
  by (simp split: option.split)

lemma base_params_get:
  "sp_get [(MessagesFilterKeys KLimit, l), (MessagesFilterKeys KMode, v)] (MessagesFilterKeys k) =
     (if k = KLimit then Some l else if k = KMode then Some v else None)"
  by simp

lemma requestParams_get:
  "k \<in> {KTimestamp, KOffset, KCursor, KLimit, KMode} \<Longrightarrow>
   sp_get (requestParams search cursor prev) (MessagesFilterKeys k) =
     (if k = KCursor then (if truthy cursor \<and> prev < getCursorValue search then cursor else None)
      else if k = KLimit then Some (or_default (sp_get search (MessagesFilterKeys KLimit)) MESSAGES_PER_PAGE)
      else if k = KMode then Some (mode_param search)
      else if k = KTimestamp \<and> mode_param search \<in> {''TO_TIMESTAMP'', ''FROM_TIMESTAMP''}
      then Some (or_default (sp_get search (MessagesFilterKeys KTimestamp)) ''0'')
      else if k = KOffset \<and> mode_param search \<in> {''TO_OFFSET'', ''FROM_OFFSET''}
      then Some (or_default (sp_get search (MessagesFilterKeys KOffset)) ''0'')
      else None)"
  unfolding requestParams_def Let_def
  by (cases "truthy cursor \<and> prev < getCursorValue search"; elim insertE)
    (simp_all add: partitions_append_get seek_param_get copy_params_other base_params_get truthy_def
      del: fold_simps fold.simps split: option.splits)

section \<open>Properties\<close>

text \<open>
  C6. Between the successful opening of a connection and its end, every message the server
  sends is kept exactly once and in order: what is shown followed by what waits for a frame
  is what was received, whatever frames run in between and however the connection errs; at
  the end everything received is shown, newest first in live mode and oldest first
  otherwise, and the page is no longer fetching.
\<close>

theorem connection_delivers_all:
  assumes "live s = Some c" and "list_all (streaming c) es"
  shows "(let s0 = step (Open c True 200) s; s1 = fold step es s0; s2 = step (Close c) s1
    in shown s1 @ pendingMessages s1 = concat (map payload es)
       \<and> messages s2 = (if activeMode s = Own TAILING then rev (concat (map payload es))
                        else concat (map payload es))
       \<and> pendingMessages s2 = [] \<and> \<not> isFetching s2)"
proof -
  define s0 where "s0 = step (Open c True 200) s"
  define s1 where "s1 = fold step es s0"
  from assms(1) have s0: "live s0 = Some c" "shown s0 = []" "pendingMessages s0 = []" "activeMode s0 = activeMode s"
    by (auto simp: s0_def onopen_def cancelPendingMessages_def shown_def Let_def split: option.split)
  from streaming_run [OF s0(1) assms(2)] s0
  have run: "live s1 = Some c" "shown s1 @ pendingMessages s1 = concat (map payload es)"
    by (simp_all add: s1_def)
  have mode: "activeMode (fold step xs t) = activeMode t" if "list_all (streaming c) xs" for xs and t :: "'a stream"
    using that
  proof (induction xs arbitrary: t)
    case (Cons x xs)
    have "activeMode (step x t) = activeMode t"
      using Cons.prems
      by (cases x) (auto simp: onmessage_def queueMessage_def onerror_def flushPendingMessages_def Let_def
          split: EventType.splits option.splits)
    with Cons show ?case by simp
  qed simp
  have "shown (flushPendingMessages s1) = concat (map payload es)"
    using run(2) by (simp add: shown_flush)
  moreover have "activeMode s1 = activeMode s" using mode [OF assms(2)] s0(4) by (simp add: s1_def)
  moreover have "activeMode (flushPendingMessages s1) = activeMode s1"
    by (simp add: flushPendingMessages_def Let_def)
  ultimately have "messages (flushPendingMessages s1) =
      (if activeMode s = Own TAILING then rev (concat (map payload es)) else concat (map payload es))"
    by (simp add: shown_def split: if_splits) (metis rev_rev_ident)
  with run show ?thesis
    unfolding Let_def s0_def [symmetric] s1_def [symmetric]
    by (simp add: onclose_def flush_clears)
qed

definition sample_event :: "nat \<Rightarrow> nat TopicMessageEvent" where
  "sample_event n = \<lparr>ev_type = MESSAGE, ev_message = Some n, ev_phase_name = None, ev_consuming = None,
     ev_cursor_id = None\<rparr>"

theorem connection_delivers_all_witness:
  "messages (step (Close 1) (fold step [Message 1 (sample_event 1), Frame 0, Message 1 (sample_event 2)]
     (step (Open 1 True 200) (step (Start [(''mode'', ''TAILING'')]) initial_stream)))) = [2, 1]"
proof -
  let ?s = "step (Start [(''mode'', ''TAILING'')]) initial_stream :: nat stream"
  let ?es = "[Message 1 (sample_event 1), Frame 0, Message 1 (sample_event 2)]"
  have "mode_param [(''mode'', ''TAILING'')] = ''TAILING''" by code_simp
  then have s: "live ?s = Some 1" "activeMode ?s = Own TAILING"
    by (simp_all add: start_fetch_def abortFetchData_def cancelPendingMessages_def initial_stream_def Let_def
        convertStrToPollingMode_def obj_index_def polling_modes_def)
  have "list_all (streaming 1) ?es" by simp
  from connection_delivers_all [OF s(1) this] s(2) show ?thesis
    by (simp add: Let_def sample_event_def del: fold_simps)
qed

text \<open>
  Stopping the stream is final: after an abort, whatever events still arrive for the
  old connection and whatever frames still run, the messages shown do not change and the
  page is not fetching, until a new fetch is started.
\<close>

theorem abort_silences:
  assumes "\<forall>p. Start p \<notin> set es"
  shows "messages (fold step es (step Abort (fold step hist initial_stream))) =
           messages (fold step hist initial_stream)
    \<and> \<not> isFetching (fold step es (step Abort (fold step hist initial_stream)))"
proof -
  let ?s = "fold step hist initial_stream"
  have "live (step Abort ?s) = None" by (simp add: live_abort stream_ok_reachable)
  moreover have "pendingMessages (step Abort ?s) = []" "\<not> isFetching (step Abort ?s)"
    "messages (step Abort ?s) = messages ?s"
    by (auto simp: abortFetchData_def cancelPendingMessages_def Let_def split: option.split)
  ultimately have start: "silent (messages ?s) (step Abort ?s)" by (simp add: silent_def)
  have "no_start e" if "\<forall>p. e \<noteq> Start p" for e :: "'a event" using that by (cases e) auto
  with assms have "list_all no_start es" unfolding list_all_iff by metis
  from silence.inv_run [OF this start] show ?thesis by (simp add: silent_def)
qed

theorem abort_silences_witness:
  "messages (fold step [Frame 0, Message 1 (sample_event 5), Close 1]
     (step Abort (fold step [Start []] initial_stream))) = messages (fold step [Start []] initial_stream)"
proof -
  have "\<forall>p. Start p \<notin> set [Frame 0, Message 1 (sample_event 5), Close 1]" by simp
  from abort_silences [OF this] show ?thesis by blast
qed

text \<open>
  C39. No message is ever stuck: in every reachable state, if messages wait to be shown then
  an animation frame is scheduled for them, and running it shows them all.
\<close>

theorem pending_messages_have_a_frame:
  assumes "pendingMessages (fold step hist initial_stream) \<noteq> []"
  shows "\<exists>i\<in>set (frames (fold step hist initial_stream)).
    pendingFrame (fold step hist initial_stream) = Some i
    \<and> pendingMessages (step (Frame i) (fold step hist initial_stream)) = []
    \<and> shown (step (Frame i) (fold step hist initial_stream)) =
        shown (fold step hist initial_stream) @ pendingMessages (fold step hist initial_stream)"
proof -
  let ?s = "fold step hist initial_stream"
  from assms stream_ok_reachable [of hist] obtain i where i: "pendingFrame ?s = Some i" "i \<in> set (frames ?s)"
    by (auto simp: stream_ok_def)
  have "shown (?s\<lparr>frames := fs\<rparr>) = shown ?s" for fs by (simp add: shown_def)
  with i show ?thesis by (intro bexI [of _ i]) (simp_all add: flush_clears shown_flush)
qed

theorem pending_messages_have_a_frame_witness:
  "\<exists>i\<in>set (frames (fold step [Start [], Open 1 True 200, Message 1 (sample_event 5)] initial_stream)).
     shown (step (Frame i) (fold step [Start [], Open 1 True 200, Message 1 (sample_event 5)] initial_stream)) =
     shown (fold step [Start [], Open 1 True 200, Message 1 (sample_event 5)] initial_stream) @ [5]"
proof -
  let ?h = "[Start [], Open 1 True 200, Message 1 (sample_event 5)]"
  have p: "pendingMessages (fold step ?h initial_stream) = [5]"
    by (simp add: start_fetch_def stream_defs onmessage_def sample_event_def initial_stream_def Let_def)
  then have "pendingMessages (fold step ?h initial_stream) \<noteq> []" by simp
  from pending_messages_have_a_frame [OF this] p show ?thesis by auto
qed

text \<open>
  The request of a fetch: a timestamp is sent in exactly the two timestamp modes and an
  offset in exactly the two offset modes, each defaulting to zero; a cursor is sent exactly
  when the store holds one and the page counter of the URL has grown since the last fetch;
  a limit and the mode are always sent.
\<close>

theorem request_contract:
  "(let req = snd (start_fetch search s) in
     (sp_get req ''timestamp'' \<noteq> None \<longleftrightarrow> mode_param search \<in> {''TO_TIMESTAMP'', ''FROM_TIMESTAMP''})
   \<and> (sp_get req ''offset'' \<noteq> None \<longleftrightarrow> mode_param search \<in> {''TO_OFFSET'', ''FROM_OFFSET''})
   \<and> sp_get req ''cursor'' =
       (if truthy (cursorStore s) \<and> prevCursor s < getCursorValue search then cursorStore s else None)
   \<and> sp_get req ''limit'' = Some (or_default (sp_get search ''limit'') ''100'')
   \<and> sp_get req ''mode'' = Some (mode_param search))"
proof -
  have req: "snd (start_fetch search s) = requestParams search (cursorStore s) (prevCursor s)"
    by (auto simp: start_fetch_def abortFetchData_def cancelPendingMessages_def Let_def split: option.split)
  show ?thesis
    unfolding req Let_def
    using requestParams_get [of KTimestamp search "cursorStore s" "prevCursor s"]
      requestParams_get [of KOffset search "cursorStore s" "prevCursor s"]
      requestParams_get [of KCursor search "cursorStore s" "prevCursor s"]
      requestParams_get [of KLimit search "cursorStore s" "prevCursor s"]
      requestParams_get [of KMode search "cursorStore s" "prevCursor s"]
    by (auto simp: MessagesFilterKeys.simps MESSAGES_PER_PAGE_def)
qed

end
