(* ===== verification/AppConfig.thy ===== *)
theory AppConfig
  imports Prelude
begin

text \<open>
  The stored application configuration and the operations that rewrite its list of
  clusters: \<open>frontend/src/lib/hooks/api/appConfig.ts\<close>,
  \<open>frontend/src/lib/duplicateClusterName.ts\<close>, and the question put to the user by
  \<open>components/Dashboard/ClusterTableActionsCell.tsx\<close>. The server is the state: the
  configuration it returns from \<open>getCurrentConfig\<close> and replaces on \<open>restartWithConfig\<close>.
  Parts of the configuration the client never looks into are values of the type \<open>'a\<close>.
\<close>

section \<open>Configuration data\<close>

record Credentials =
  username :: "string option"
  password :: "string option"

record KafkaSsl =
  truststoreLocation :: "string option"
  truststorePassword :: "string option"
  verify :: "bool option"

record Keystore =
  keystoreLocation :: "string option"
  keystorePassword :: "string option"

record KafkaConnect =
  kc_name :: "string option"
  kc_address :: "string option"
  kc_username :: "string option"
  kc_password :: "string option"
  kc_keystoreLocation :: "string option"
  kc_keystorePassword :: "string option"

record 'a Metrics =
  mt_type :: "string option"
  mt_port :: "js_num option"
  mt_ssl :: "bool option"
  mt_username :: "string option"
  mt_password :: "string option"
  mt_keystoreLocation :: "string option"
  mt_keystorePassword :: "string option"
  mt_prometheusExpose :: "bool option"
  mt_store :: "'a option"

record SerdeConfig =
  sc_name :: "string option"
  sc_className :: "string option"
  sc_filePath :: "string option"
  sc_properties :: "string obj option"
  sc_topicKeysPattern :: "string option"
  sc_topicValuesPattern :: "string option"

datatype MaskingType = REMOVE | MASK | REPLACE

record MaskingConfig =
  mk_type :: "MaskingType option"
  mk_fields :: "string list option"
  mk_fieldsNamePattern :: "string option"
  mk_maskingCharsReplacement :: "string list option"
  mk_replacement :: "string option"
  mk_topicKeysPattern :: "string option"
  mk_topicValuesPattern :: "string option"

text \<open>\<open>schemaRegistryAuth\<close> may also hold an \<open>oauth\<close> part.\<close>

record 'a RegistryAuth = Credentials +
  oauth :: "'a option"

record 'a Cluster =
  cl_name :: "string option"
  cl_bootstrapServers :: "string option"
  cl_ssl :: "KafkaSsl option"
  cl_schemaRegistry :: "string option"
  cl_schemaRegistryAuth :: "'a RegistryAuth option"
  cl_schemaRegistrySsl :: "Keystore option"
  cl_ksqldbServer :: "string option"
  cl_ksqldbServerSsl :: "Keystore option"
  cl_ksqldbServerAuth :: "Credentials option"
  cl_kafkaConnect :: "KafkaConnect list option"
  cl_metrics :: "'a Metrics option"
  cl_properties :: "string obj option"
  cl_consumerProperties :: "'a option"
  cl_producerProperties :: "'a option"
  cl_readOnly :: "bool option"
  cl_serde :: "SerdeConfig list option"
  cl_defaultKeySerde :: "string option"
  cl_defaultValueSerde :: "string option"
  cl_masking :: "MaskingConfig list option"
  cl_pollingThrottleRate :: "js_num option"
  cl_audit :: "'a option"

record 'a KafkaConfig =
  polling :: "'a option"
  adminClientTimeout :: "js_num option"
  internalTopicPrefix :: "string option"
  defaultMetricsStorage :: "'a option"
  kafka_cache :: "'a option"
  kafka_clusters :: "'a Cluster list option"

record 'a ConfigProperties =
  config_auth :: "'a option"
  config_rbac :: "'a option"
  config_webclient :: "'a option"
  config_kafka :: "'a KafkaConfig option"

record 'a ApplicationConfig =
  config_properties :: "'a ConfigProperties option"

definition empty_cluster :: "'a Cluster" where
  "empty_cluster =
     \<lparr>cl_name = None, cl_bootstrapServers = None, cl_ssl = None, cl_schemaRegistry = None,
      cl_schemaRegistryAuth = None, cl_schemaRegistrySsl = None, cl_ksqldbServer = None,
      cl_ksqldbServerSsl = None, cl_ksqldbServerAuth = None, cl_kafkaConnect = None, cl_metrics = None,
      cl_properties = None, cl_consumerProperties = None, cl_producerProperties = None, cl_readOnly = None,
      cl_serde = None, cl_defaultKeySerde = None, cl_defaultValueSerde = None, cl_masking = None,
      cl_pollingThrottleRate = None, cl_audit = None\<rparr>"

section \<open>Names of duplicates\<close>

definition DUPLICATE_NAME_SUFFIX :: string where "DUPLICATE_NAME_SUFFIX = ''-copy''"

definition numbered :: "string \<Rightarrow> nat \<Rightarrow> string" where
  "numbered candidate i = candidate @ ''-'' @ show_nat i"

text \<open>The loop over \<open>index\<close>, with the size of the set of taken names as its bound.\<close>

function numbered_loop :: "string set \<Rightarrow> string \<Rightarrow> nat \<Rightarrow> nat \<Rightarrow> string" where
  "numbered_loop taken candidate sz index =
     (if index \<le> sz + 2
      then if numbered candidate index \<notin> taken then numbered candidate index
           else numbered_loop taken candidate sz (index + 1)
      else numbered candidate (sz + 2))"
  by pat_completeness auto
termination by (relation "measure (\<lambda>(_, _, sz, index). sz + 3 - index)") auto

declare numbered_loop.simps [simp del]

definition nextDuplicateName :: "string \<Rightarrow> string list \<Rightarrow> string" where
  "nextDuplicateName base existingNames =
     (let taken = set existingNames; candidate = base @ DUPLICATE_NAME_SUFFIX
      in if candidate \<notin> taken then candidate
         else numbered_loop taken candidate (length (remdups existingNames)) 2)"

section \<open>Operations on the list of clusters\<close>

definition existing_clusters :: "'a ApplicationConfig \<Rightarrow> 'a Cluster list" where
  "existing_clusters config =
     (case config_properties config of
        None \<Rightarrow> []
      | Some p \<Rightarrow> (case config_kafka p of
                     None \<Rightarrow> []
                   | Some k \<Rightarrow> (case kafka_clusters k of None \<Rightarrow> [] | Some cs \<Rightarrow> cs)))"

definition aggregateClusters ::
  "'a Cluster \<Rightarrow> 'a ApplicationConfig \<Rightarrow> string option \<Rightarrow> bool \<Rightarrow> 'a Cluster list" where
  "aggregateClusters cluster existingConfig initialName deleteCluster =
     (let existing = existing_clusters existingConfig
      in if initialName = None \<or> initialName = Some [] then existing @ [cluster]
         else if \<not> deleteCluster
         then map (\<lambda>c. if cl_name c = initialName then cluster else c) existing
         else filter (\<lambda>c. cl_name c \<noteq> initialName) existing)"

text \<open>\<open>{ ...existingConfig, properties: { ...existingConfig.properties, kafka: { clusters } } }\<close>\<close>

definition with_clusters :: "'a Cluster list \<Rightarrow> 'a ApplicationConfig \<Rightarrow> 'a ApplicationConfig" where
  "with_clusters cs config =
     (let p = (case config_properties config of
                 Some p \<Rightarrow> p
               | None \<Rightarrow> \<lparr>config_auth = None, config_rbac = None, config_webclient = None, config_kafka = None\<rparr>)
      in config\<lparr>config_properties := Some (p\<lparr>config_kafka := Some \<lparr>polling = None,
           adminClientTimeout = None, internalTopicPrefix = None, defaultMetricsStorage = None,
           kafka_cache = None, kafka_clusters = Some cs\<rparr>\<rparr>)\<rparr>)"

text \<open>
  The mutations: the configuration on the server before and after, and the query keys
  invalidated on success.
\<close>

definition useUpdateAppConfig ::
  "string option \<Rightarrow> bool \<Rightarrow> 'a Cluster \<Rightarrow> 'a ApplicationConfig \<Rightarrow> 'a ApplicationConfig" where
  "useUpdateAppConfig initialName deleteCluster cluster config =
     with_clusters (aggregateClusters cluster config initialName deleteCluster) config"

definition no_longer_configured :: "string \<Rightarrow> js_error" where
  "no_longer_configured n = ErrorMsg (''Cluster '' @ n @ '' is no longer configured'')"

definition cluster_names :: "'a ApplicationConfig \<Rightarrow> string list" where
  "cluster_names config = concat (map (\<lambda>c. case cl_name c of Some n \<Rightarrow> [n] | None \<Rightarrow> []) (existing_clusters config))"

definition useDuplicateAppConfigCluster ::
  "string \<Rightarrow> 'a ApplicationConfig \<Rightarrow> (string \<times> 'a ApplicationConfig) res" where
  "useDuplicateAppConfigCluster sourceName config =
     (case List.find (\<lambda>c. cl_name c = Some sourceName) (existing_clusters config) of
        None \<Rightarrow> Inl (no_longer_configured sourceName)
      | Some source \<Rightarrow>
          let name = nextDuplicateName sourceName (cluster_names config);
              clusters = aggregateClusters (source\<lparr>cl_name := Some name\<rparr>) config None False
          in Inr (name, with_clusters clusters config))"

definition useDeleteAppConfigCluster :: "string \<Rightarrow> 'a ApplicationConfig \<Rightarrow> 'a ApplicationConfig res" where
  "useDeleteAppConfigCluster clusterName config =
     (if \<not> list_ex (\<lambda>c. cl_name c = Some clusterName) (existing_clusters config)
      then Inl (no_longer_configured clusterName)
      else Inr (with_clusters
        (aggregateClusters (empty_cluster\<lparr>cl_name := Some clusterName\<rparr>) config (Some clusterName) True) config))"

section \<open>Fresh names\<close>

lemma numbered_inj [simp]: "numbered c i = numbered c j \<longleftrightarrow> i = j"
  by (simp add: numbered_def)

lemma numbered_not_candidate: "numbered c i \<noteq> c"
  by (simp add: numbered_def)

lemma numbered_loop_found:
  "numbered_loop taken c n i \<in> numbered c ` {i..n + 2} \<or> i > n + 2"
proof (induction taken c n i rule: numbered_loop.induct)
  case (1 taken c n i)
  show ?case
    using 1 by (cases "numbered c i \<in> taken"; cases "i + 1 \<le> n + 2")
      (auto simp: numbered_loop.simps [of taken c n i] numbered_loop.simps [of taken c n "Suc i"] image_iff
        intro: bexI [of _ "n + 2"])
qed

lemma numbered_loop_fresh:
  assumes "\<exists>j\<in>{i..n + 2}. numbered c j \<notin> taken"
  shows "numbered_loop taken c n i \<notin> taken"
  using assms
proof (induction taken c n i rule: numbered_loop.induct)
  case (1 taken c n i)
  then obtain j where j: "i \<le> j" "j \<le> n + 2" "numbered c j \<notin> taken" by auto
  show ?case
  proof (cases "numbered c i \<in> taken")
    case True
    with j have "i + 1 \<le> j" by (cases "i = j") auto
    with j have "\<exists>j\<in>{i + 1..n + 2}. numbered c j \<notin> taken" by auto
    moreover from j have "i \<le> n + 2" by simp
    ultimately have "numbered_loop taken c n (i + 1) \<notin> taken" using True 1(1) by blast
    with True \<open>i \<le> n + 2\<close> show ?thesis by (simp add: numbered_loop.simps [of taken c n i])
  next
    case False
    with j show ?thesis by (subst numbered_loop.simps) auto
  qed
qed

text \<open>At most \<open>size\<close> of the \<open>size + 1\<close> numbered candidates can be taken.\<close>

lemma free_numbered: "\<exists>j\<in>{2..length (remdups names) + 2}. numbered c j \<notin> set names"
proof (rule ccontr)
  let ?n = "length (remdups names)"
  assume "\<not> ?thesis"
  then have "numbered c ` {2..?n + 2} \<subseteq> set names" by auto
  then have "card (numbered c ` {2..?n + 2}) \<le> card (set names)" by (rule card_mono [rotated]) simp
  moreover have "card (numbered c ` {2..?n + 2}) = ?n + 1"
    by (subst card_image) (auto simp: inj_on_def)
  ultimately show False by (simp add: length_remdups_card_conv)
qed

lemma nextDuplicateName_fresh: "nextDuplicateName base names \<notin> set names"
  using numbered_loop_fresh [OF free_numbered] by (simp add: nextDuplicateName_def Let_def)

lemma nextDuplicateName_form:
  "nextDuplicateName base names = base @ DUPLICATE_NAME_SUFFIX
   \<or> (\<exists>i\<ge>2. nextDuplicateName base names = numbered (base @ DUPLICATE_NAME_SUFFIX) i)"
  using numbered_loop_found [of "set names" "base @ DUPLICATE_NAME_SUFFIX" "length (remdups names)" 2]
  by (auto simp: nextDuplicateName_def Let_def)

lemma numbered_loop_first:
  assumes "numbered_loop taken c n i = numbered c k" and "i \<le> j" and "j < k" and "k \<le> n + 2"
  shows "numbered c j \<in> taken"
  using assms
proof (induction taken c n i rule: numbered_loop.induct)
  case (1 taken c n i)
  then have le: "i \<le> n + 2" by simp
  show ?case
  proof (cases "numbered c i \<in> taken")
    case True
    with 1(2) le have "numbered_loop taken c n (i + 1) = numbered c k"
      by (subst (asm) numbered_loop.simps) simp
    with 1 True le show ?thesis by (cases "i = j") auto
  next
    case False
    with 1(2-) le show ?thesis by (subst (asm) numbered_loop.simps) simp
  qed
qed

section \<open>Reading back the list of clusters\<close>

lemma existing_with_clusters [simp]: "existing_clusters (with_clusters cs config) = cs"
  by (simp add: existing_clusters_def with_clusters_def Let_def split: option.splits)

lemma cluster_names_iff: "n \<in> set (cluster_names config) \<longleftrightarrow> (\<exists>c\<in>set (existing_clusters config). cl_name c = Some n)"
  by (force simp: cluster_names_def split: option.splits)

lemma find_SomeD: "List.find P xs = Some x \<Longrightarrow> x \<in> set xs \<and> P x"
  by (auto simp: find_Some_iff)

lemma replace_unique:
  assumes "distinct (map f xs)" and "s \<in> set xs"
  shows "map (\<lambda>x. if f x = f s then y else x) xs = map (\<lambda>x. if x = s then y else x) xs"
    and "distinct (map f (map (\<lambda>x. if f x = f s then y else x) xs)) \<longleftrightarrow> (\<forall>x\<in>set xs. x \<noteq> s \<longrightarrow> f x \<noteq> f y)"
proof -
  have inj: "f x = f s \<longleftrightarrow> x = s" if "x \<in> set xs" for x
    using assms that by (auto simp: distinct_map inj_on_def)
  then show "map (\<lambda>x. if f x = f s then y else x) xs = map (\<lambda>x. if x = s then y else x) xs" by simp
  have "inj_on f (set xs)" using assms(1) by (simp add: distinct_map)
  then have "inj_on (\<lambda>x. if x = s then f y else f x) (set xs) \<longleftrightarrow> (\<forall>x\<in>set xs. x \<noteq> s \<longrightarrow> f x \<noteq> f y)"
    using assms(2) unfolding inj_on_def by (metis (mono_tags))
  moreover have "map f (map (\<lambda>x. if f x = f s then y else x) xs) = map (\<lambda>x. if x = s then f y else f x) xs"
    using inj by simp
  ultimately show "distinct (map f (map (\<lambda>x. if f x = f s then y else x) xs)) \<longleftrightarrow> (\<forall>x\<in>set xs. x \<noteq> s \<longrightarrow> f x \<noteq> f y)"
    using assms(1) by (simp only: distinct_map simp_thms)
qed

definition unique_names :: "'a ApplicationConfig \<Rightarrow> bool" where
  "unique_names config \<longleftrightarrow> distinct (map cl_name (existing_clusters config))"

section \<open>Properties\<close>


definition sample_cluster :: "string \<Rightarrow> nat Cluster" where
  "sample_cluster n = empty_cluster\<lparr>cl_name := Some n, cl_bootstrapServers := Some ''localhost:9092''\<rparr>"

definition sample_config :: "nat ApplicationConfig" where
  "sample_config = \<lparr>config_properties = Some \<lparr>config_auth = Some 1, config_rbac = None, config_webclient = None,
     config_kafka = Some \<lparr>polling = Some 7, adminClientTimeout = None, internalTopicPrefix = Some ''_'',
       defaultMetricsStorage = None, kafka_cache = None,
       kafka_clusters = Some [sample_cluster ''dev'', sample_cluster ''dev-copy'']\<rparr>\<rparr>\<rparr>"

lemma sample_config_clusters:
  "existing_clusters sample_config = [sample_cluster ''dev'', sample_cluster ''dev-copy'']"
  by (simp add: existing_clusters_def sample_config_def)


text \<open>
  Deleting a cluster removes exactly the clusters of that name and keeps the others in
  order; deleting one that is not configured is refused instead of rewriting the file; and a
  second deletion is refused.
\<close>

theorem delete_spec:
  "(case useDeleteAppConfigCluster n config of
      Inl e \<Rightarrow> e = no_longer_configured n \<and> n \<notin> set (cluster_names config)
    | Inr config' \<Rightarrow>
        n \<in> set (cluster_names config)
      \<and> existing_clusters config' =
          (if n = [] then existing_clusters config @ [empty_cluster\<lparr>cl_name := Some []\<rparr>]
           else [c \<leftarrow> existing_clusters config. cl_name c \<noteq> Some n])
      \<and> (n = [] \<or> useDeleteAppConfigCluster n config' = Inl (no_longer_configured n)))"
proof (cases "n \<in> set (cluster_names config)")
  case True
  then have "list_ex (\<lambda>c. cl_name c = Some n) (existing_clusters config)"
    by (auto simp: cluster_names_iff list_ex_iff)
  with True show ?thesis
    by (auto simp: useDeleteAppConfigCluster_def aggregateClusters_def list_ex_iff Let_def)
next
  case False
  then have "\<not> list_ex (\<lambda>c. cl_name c = Some n) (existing_clusters config)"
    by (auto simp: cluster_names_iff list_ex_iff)
  with False show ?thesis by (simp add: useDeleteAppConfigCluster_def)
qed

text \<open>
  What a rewrite of the configuration keeps: every rewrite preserves the sections beside
  the Kafka one, and none preserves a setting of the Kafka section other than the clusters:
  the polling settings, the client timeout, the internal topic prefix, the metrics storage
  and the cache are all absent from the configuration that is written.
\<close>

theorem rewrite_drops_kafka_siblings:
  "(let config' = useUpdateAppConfig initialName del cluster config in
     (\<forall>p. config_properties config = Some p \<longrightarrow>
        map_option config_auth (config_properties config') = Some (config_auth p)
      \<and> map_option config_rbac (config_properties config') = Some (config_rbac p)
      \<and> map_option config_webclient (config_properties config') = Some (config_webclient p))
   \<and> (\<exists>k. map_option config_kafka (config_properties config') = Some (Some k)
      \<and> polling k = None \<and> adminClientTimeout k = None \<and> internalTopicPrefix k = None
      \<and> defaultMetricsStorage k = None \<and> kafka_cache k = None
      \<and> kafka_clusters k = Some (aggregateClusters cluster config initialName del)))"
  by (auto simp: useUpdateAppConfig_def with_clusters_def Let_def split: option.splits)

theorem rewrite_drops_kafka_siblings_witness:
  "map_option config_auth (config_properties (useUpdateAppConfig (Some ''dev'') False (sample_cluster ''x'') sample_config))
     = Some (Some 1)"
  using rewrite_drops_kafka_siblings [of "Some ''dev''" False "sample_cluster ''x''" sample_config]
  by (simp add: Let_def sample_config_def)

text \<open>
  Saving the form of a cluster: without an initial name the cluster is appended;
  otherwise every cluster of that name is replaced in place and all others are kept. The
  names stay unique exactly when the new name is not the name of another cluster: nothing
  in the operation refuses to rename one cluster to the name of another.
\<close>

theorem update_spec:
  assumes "unique_names config" and "initial \<noteq> []"
    and "source \<in> set (existing_clusters config)" and "cl_name source = Some initial"
  shows "(let config' = useUpdateAppConfig (Some initial) False cluster config in
      length (existing_clusters config') = length (existing_clusters config)
    \<and> (\<forall>i<length (existing_clusters config).
         existing_clusters config' ! i =
           (if existing_clusters config ! i = source then cluster else existing_clusters config ! i))
    \<and> (unique_names config' \<longleftrightarrow>
         (\<forall>c\<in>set (existing_clusters config). c \<noteq> source \<longrightarrow> cl_name c \<noteq> cl_name cluster)))"
proof -
  let ?cs = "existing_clusters config"
  have d: "distinct (map cl_name ?cs)" using assms(1) by (simp add: unique_names_def)
  have new: "existing_clusters (useUpdateAppConfig (Some initial) False cluster config)
      = map (\<lambda>c. if cl_name c = cl_name source then cluster else c) ?cs"
    using assms(2,4) by (simp add: useUpdateAppConfig_def aggregateClusters_def)
  show ?thesis unfolding Let_def unique_names_def new
    using replace_unique [OF d assms(3), of cluster] by simp
qed

theorem update_spec_witness:
  "length (existing_clusters (useUpdateAppConfig (Some ''dev'') False (sample_cluster ''dev-copy'') sample_config)) = 2
   \<and> \<not> unique_names (useUpdateAppConfig (Some ''dev'') False (sample_cluster ''dev-copy'') sample_config)"
proof -
  let ?config' = "useUpdateAppConfig (Some ''dev'') False (sample_cluster ''dev-copy'') sample_config"
  note cs = sample_config_clusters
  then have "unique_names sample_config" by (simp add: unique_names_def sample_cluster_def)
  moreover have "sample_cluster ''dev'' \<in> set (existing_clusters sample_config)" using cs by simp
  moreover have "cl_name (sample_cluster ''dev'') = Some ''dev''" by (simp add: sample_cluster_def)
  ultimately have "length (existing_clusters ?config') = length (existing_clusters sample_config)
    \<and> (unique_names ?config' \<longleftrightarrow> (\<forall>c\<in>set (existing_clusters sample_config).
          c \<noteq> sample_cluster ''dev'' \<longrightarrow> cl_name c \<noteq> cl_name (sample_cluster ''dev-copy'')))"
    using update_spec [of sample_config "''dev''" "sample_cluster ''dev''" "sample_cluster ''dev-copy''"]
    unfolding Let_def by blast
  moreover have "sample_cluster ''dev-copy'' \<noteq> sample_cluster ''dev''"
    by (simp add: sample_cluster_def empty_cluster_def)
  ultimately show ?thesis by (simp add: cs)
qed

section \<open>The search for a free name ends\<close>

text \<open>The search that the comment of the code promises, without a bound.\<close>

partial_function (option) first_free :: "string set \<Rightarrow> string \<Rightarrow> nat \<Rightarrow> string option" where
  "first_free taken candidate index =
     (if numbered candidate index \<notin> taken then Some (numbered candidate index)
      else first_free taken candidate (index + 1))"

text \<open>A taken candidate leaves room for one number less, so fewer probes are needed than the loop allows.\<close>

lemma free_number_early:
  assumes "c \<in> set names"
  shows "\<exists>j\<in>{2..length (remdups names) + 1}. numbered c j \<notin> set names"
proof (rule ccontr)
  let ?n = "length (remdups names)"
  assume "\<not> ?thesis"
  then have "insert c (numbered c ` {2..?n + 1}) \<subseteq> set names" using assms by auto
  then have "card (insert c (numbered c ` {2..?n + 1})) \<le> card (set names)" by (rule card_mono [rotated]) simp
  moreover have "card (insert c (numbered c ` {2..?n + 1})) = ?n + 1"
  proof (subst card_insert_disjoint)
    show "c \<notin> numbered c ` {2..?n + 1}" by (metis imageE numbered_not_candidate)
  qed (simp_all add: card_image inj_on_def)
  ultimately show False by (simp add: length_remdups_card_conv)
qed

lemma first_free_loop:
  assumes "numbered c j \<notin> taken" and "i \<le> j" and "j \<le> n + 2"
  shows "\<exists>k\<in>{i..j}. first_free taken c i = Some (numbered c k) \<and> numbered_loop taken c n i = numbered c k"
  using assms
proof (induction taken c n i rule: numbered_loop.induct)
  case (1 taken c n i)
  show ?case
  proof (cases "numbered c i \<in> taken")
    case True
    with 1 have "i + 1 \<le> j" by (cases "i = j") auto
    with 1 True have "\<exists>k\<in>{i + 1..j}. first_free taken c (i + 1) = Some (numbered c k)
        \<and> numbered_loop taken c n (i + 1) = numbered c k" by simp
    with True \<open>i + 1 \<le> j\<close> \<open>j \<le> n + 2\<close> show ?thesis
      by (subst first_free.simps, subst numbered_loop.simps) (auto intro: Suc_leD)
  next
    case False
    with 1 show ?thesis by (subst first_free.simps, subst numbered_loop.simps) auto
  qed
qed

text \<open>
  C21. The search for the name of a copy always ends. When the first name is taken, the unbounded
  search for the first free number returns, after at most as many probes as there are distinct names, the
  name that the bounded loop of the code returns; so the name after the loop is never used, and
  the bound of the loop is one larger than it needs to be.
\<close>

theorem duplicate_search_terminates:
  assumes "base @ DUPLICATE_NAME_SUFFIX \<in> set names"
  shows "first_free (set names) (base @ DUPLICATE_NAME_SUFFIX) 2 = Some (nextDuplicateName base names)
    \<and> nextDuplicateName base names \<notin> set names
    \<and> (\<exists>k\<in>{2..length (remdups names) + 1}. nextDuplicateName base names = numbered (base @ DUPLICATE_NAME_SUFFIX) k)"
proof -
  let ?c = "base @ DUPLICATE_NAME_SUFFIX" and ?n = "length (remdups names)"
  obtain j where j: "j \<in> {2..?n + 1}" "numbered ?c j \<notin> set names" using free_number_early [OF assms] by blast
  then obtain k where "k \<in> {2..j}" "first_free (set names) ?c 2 = Some (numbered ?c k)"
    "numbered_loop (set names) ?c ?n 2 = numbered ?c k" using first_free_loop [of ?c j "set names" 2 ?n] by auto
  with j assms show ?thesis
    using nextDuplicateName_fresh [of base names] by (auto simp: nextDuplicateName_def Let_def intro!: bexI [of _ k])
qed

theorem duplicate_search_terminates_witness:
  "first_free {''dev-copy'', ''dev-copy-2'', ''dev''} ''dev-copy'' 2 = Some (nextDuplicateName ''dev'' [''dev'', ''dev-copy'', ''dev-copy-2''])
   \<and> nextDuplicateName ''dev'' [''dev'', ''dev-copy'', ''dev-copy-2''] \<notin> {''dev-copy'', ''dev-copy-2'', ''dev''}"
  using duplicate_search_terminates [of "''dev''" "[''dev'', ''dev-copy'', ''dev-copy-2'']"]
  by (simp add: DUPLICATE_NAME_SUFFIX_def insert_commute)


end
