(* ===== verification/ClusterForm.thy ===== *)
theory ClusterForm
  imports AppConfig
begin

text \<open>
  The form of a cluster, \<open>frontend/src/widgets/ClusterConfigForm\<close>: the form values
  (\<open>types.ts\<close>), the values shown for a stored cluster (\<open>getInitialFormData.ts\<close>), the cluster
  written for submitted values (\<open>transformFormDataToPayload.ts\<close>, \<open>getJaasConfig.ts\<close>), the
  validation (\<open>schema.ts\<close>), the buttons that open and close a section, and the reading of the
  server's verdict (\<open>getIsValidConfig.ts\<close>). The validation library is read by its documented
  behaviour: a required string is present and not empty, a number is what \<open>Number\<close> makes of the
  text without its white space. Entries of an object whose value is undefined are left out, as
  they are in the request.
\<close>

section \<open>Form values\<close>

record HostPort =
  host :: string
  port :: "string option"

record FormKeystore =
  location :: "string option"
  ks_password :: "string option"

record WithAuth =
  isAuth :: "bool option"
  wa_username :: "string option"
  wa_password :: "string option"
  keystore :: "FormKeystore option"

record URLWithAuth = WithAuth +
  isActive :: "bool option"
  url :: "string option"

record FormConnect = WithAuth +
  connect_name :: "string option"
  address :: "string option"

record FormMetrics = WithAuth +
  metrics_isActive :: "bool option"
  metrics_type :: "string option"
  metrics_port :: "string option"

record FormSerde =
  serde_name :: "string option"
  className :: "string option"
  filePath :: "string option"
  serde_topicKeysPattern :: "string option"
  serde_topicValuesPattern :: "string option"
  serde_properties :: "(string \<times> string) list"

record AuthProps =
  saslJaasConfig :: "string option"
  saslMechanism :: "string option"
  saslKerberosServiceName :: "string option"
  keyTabFile :: "string option"
  storeKey :: "bool option"
  principal :: "string option"
  unsecuredLoginStringClaim_sub :: "string option"
  props_isAuth :: "bool option"
  props_username :: "string option"
  props_password :: "string option"
  tokenId :: "string option"
  tokenValue :: "string option"
  awsProfileName :: "string option"
  awsRoleArn :: "string option"
  awsRoleSessionName :: "string option"
  awsStsRegion :: "string option"

record FormAuth =
  auth_keystore :: "FormKeystore option"
  auth_isActive :: "bool option"
  auth_method :: "string option"
  securityProtocol :: "string option"
  auth_props :: "AuthProps option"

record FormMasking =
  masking_type :: "MaskingType option"
  masking_fields :: "string list option"
  fieldsNamePattern :: "string option"
  maskingCharsReplacement :: "string list option"
  replacement :: "string option"
  masking_topicKeysPattern :: "string option"
  masking_topicValuesPattern :: "string option"

record ClusterConfigFormValues =
  f_name :: "string option"
  f_readOnly :: "bool option"
  f_bootstrapServers :: "HostPort list option"
  f_truststore :: "FormKeystore option"
  f_auth :: "FormAuth option"
  f_schemaRegistry :: "URLWithAuth option"
  f_ksql :: "URLWithAuth option"
  f_serde :: "FormSerde list option"
  f_kafkaConnect :: "FormConnect list option"
  f_metrics :: "FormMetrics option"
  f_customAuth :: "string obj option"
  f_masking :: "FormMasking list option"

section \<open>Property names and form names\<close>

definition convertPropsKeyToFormKey :: "string \<Rightarrow> string" where
  "convertPropsKeyToFormKey key = join ''___'' (js_split ''.'' key)"

definition convertFormKeyToPropsKey :: "string \<Rightarrow> string" where
  "convertFormKeyToPropsKey key = join ''.'' (js_split ''___'' key)"

section \<open>The values shown for a stored cluster\<close>

definition parse_server :: "string \<Rightarrow> HostPort" where
  "parse_server u =
     (case js_split '':'' u of
        h # p # _ \<Rightarrow> \<lparr>host = h, port = Some p\<rparr>
      | [h] \<Rightarrow> \<lparr>host = h, port = None\<rparr>
      | [] \<Rightarrow> \<lparr>host = [], port = None\<rparr>)"

definition parseBootstrapServers :: "string option \<Rightarrow> HostPort list option" where
  "parseBootstrapServers servers = map_option (\<lambda>s. map parse_server (js_split '','' s)) servers"

definition parseKeystore :: "Keystore option \<Rightarrow> FormKeystore option" where
  "parseKeystore ks =
     map_option (\<lambda>k. \<lparr>location = keystoreLocation k, ks_password = keystorePassword k\<rparr>) ks"

definition parseCredentials :: "string option \<Rightarrow> string option \<Rightarrow> FormKeystore option \<Rightarrow> WithAuth" where
  "parseCredentials u p ks =
     (if \<not> truthy u \<or> \<not> truthy p
      then \<lparr>isAuth = Some False, wa_username = None, wa_password = None, keystore = ks\<rparr>
      else \<lparr>isAuth = Some True, wa_username = u, wa_password = p, keystore = ks\<rparr>)"

definition parseProperties :: "string obj option \<Rightarrow> (string \<times> string) list" where
  "parseProperties ps = (case ps of Some o1 \<Rightarrow> o1 | None \<Rightarrow> [])"

definition auth_prefixes :: "string list" where
  "auth_prefixes = [''security.'', ''sasl.'', ''ssl.'']"

definition is_auth_property :: "string \<Rightarrow> bool" where
  "is_auth_property key \<longleftrightarrow> (\<exists>p\<in>set auth_prefixes. starts_with p key)"

definition initial_customAuth :: "string obj \<Rightarrow> string obj" where
  "initial_customAuth ps =
     fold (\<lambda>(key, val) acc.
       if is_auth_property key then AList.update (convertPropsKeyToFormKey key) val acc else acc) ps []"

definition initial_registry ::
  "string option \<Rightarrow> string option \<Rightarrow> string option \<Rightarrow> Keystore option \<Rightarrow> URLWithAuth option" where
  "initial_registry u user pass ssl =
     (if truthy u
      then Some (WithAuth.extend (parseCredentials user pass (parseKeystore ssl)) (URLWithAuth.fields None u))
      else None)"

definition initial_connect :: "KafkaConnect \<Rightarrow> FormConnect" where
  "initial_connect c =
     WithAuth.extend
       (parseCredentials (kc_username c) (kc_password c)
          (Some \<lparr>location = kc_keystoreLocation c, ks_password = kc_keystorePassword c\<rparr>))
       (FormConnect.fields (kc_name c) (kc_address c))"

definition initial_metrics :: "'a Metrics \<Rightarrow> FormMetrics" where
  "initial_metrics m =
     WithAuth.extend
       (parseCredentials (mt_username m) (mt_password m)
          (Some \<lparr>location = mt_keystoreLocation m, ks_password = mt_keystorePassword m\<rparr>))
       (FormMetrics.fields None (mt_type m) (Some (text_of (map_option show_num (mt_port m)))))"

definition initial_serde :: "SerdeConfig \<Rightarrow> FormSerde" where
  "initial_serde c =
     \<lparr>serde_name = sc_name c, className = sc_className c, filePath = sc_filePath c,
      serde_topicKeysPattern = sc_topicKeysPattern c, serde_topicValuesPattern = sc_topicValuesPattern c,
      serde_properties = parseProperties (sc_properties c)\<rparr>"

definition initial_masking :: "MaskingConfig \<Rightarrow> FormMasking" where
  "initial_masking m =
     \<lparr>masking_type = mk_type m, masking_fields = Some (case mk_fields m of Some fs \<Rightarrow> fs | None \<Rightarrow> []),
      fieldsNamePattern = mk_fieldsNamePattern m,
      maskingCharsReplacement = Some (case mk_maskingCharsReplacement m of Some fs \<Rightarrow> fs | None \<Rightarrow> []),
      replacement = mk_replacement m, masking_topicKeysPattern = mk_topicKeysPattern m,
      masking_topicValuesPattern = mk_topicValuesPattern m\<rparr>"

definition nonempty :: "'a list option \<Rightarrow> bool" where
  "nonempty xs \<longleftrightarrow> (case xs of Some (_ # _) \<Rightarrow> True | _ \<Rightarrow> False)"

definition getInitialFormData :: "'a Cluster \<Rightarrow> ClusterConfigFormValues" where
  "getInitialFormData c =
     \<lparr>f_name = cl_name c,
      f_readOnly = Some (is_true (cl_readOnly c)),
      f_bootstrapServers = parseBootstrapServers (cl_bootstrapServers c),
      f_truststore =
        (case cl_ssl c of
           Some s \<Rightarrow> if truthy (truststoreLocation s) \<and> truthy (truststorePassword s)
                     then Some \<lparr>location = truststoreLocation s, ks_password = truststorePassword s\<rparr> else None
         | None \<Rightarrow> None),
      f_auth = None,
      f_schemaRegistry =
        initial_registry (cl_schemaRegistry c)
          (Option.bind (cl_schemaRegistryAuth c) username) (Option.bind (cl_schemaRegistryAuth c) password)
          (cl_schemaRegistrySsl c),
      f_ksql =
        initial_registry (cl_ksqldbServer c)
          (Option.bind (cl_ksqldbServerAuth c) username) (Option.bind (cl_ksqldbServerAuth c) password)
          (cl_ksqldbServerSsl c),
      f_serde = (if nonempty (cl_serde c) then map_option (map initial_serde) (cl_serde c) else None),
      f_kafkaConnect =
        (if nonempty (cl_kafkaConnect c) then map_option (map initial_connect) (cl_kafkaConnect c) else None),
      f_metrics = map_option initial_metrics (cl_metrics c),
      f_customAuth = Some (initial_customAuth (parseProperties (cl_properties c))),
      f_masking = map_option (map initial_masking) (cl_masking c)\<rparr>"

section \<open>JAAS configuration\<close>

definition JAAS_CONFIGS :: "string obj" where
  "JAAS_CONFIGS =
     [(''SASL/GSSAPI'', ''com.sun.security.auth.module.Krb5LoginModule''),
      (''SASL/OAUTHBEARER'', ''org.apache.kafka.common.security.oauthbearer.OAuthBearerLoginModule''),
      (''SASL/PLAIN'', ''org.apache.kafka.common.security.plain.PlainLoginModule''),
      (''SASL/SCRAM-256'', ''org.apache.kafka.common.security.scram.ScramLoginModule''),
      (''SASL/SCRAM-512'', ''org.apache.kafka.common.security.scram.ScramLoginModule''),
      (''Delegation tokens'', ''org.apache.kafka.common.security.scram.ScramLoginModule''),
      (''SASL/LDAP'', ''org.apache.kafka.common.security.plain.PlainLoginModule''),
      (''SASL/AWS IAM'', ''software.amazon.msk.auth.iam.IAMLoginModule''),
      (''SASL/Azure Entra'', ''org.apache.kafka.common.security.oauthbearer.OAuthBearerLoginModule''),
      (''SASL/GCP IAM'', ''org.apache.kafka.common.security.oauthbearer.OAuthBearerLoginModule'')]"

definition jaas_option :: "string \<Rightarrow> string option \<Rightarrow> string" where
  "jaas_option key value =
     (case value of
        None \<Rightarrow> []
      | Some v \<Rightarrow> if v = ''true'' \<or> v = ''false'' then '' '' @ key @ ''='' @ v
                  else '' '' @ key @ ''='' @ [CHR 0x22] @ v @ [CHR 0x22])"

definition getJaasConfig :: "string \<Rightarrow> (string \<times> string option) list \<Rightarrow> string" where
  "getJaasConfig method options =
     text_of (map_of JAAS_CONFIGS method) @ '' required''
     @ concat (map (\<lambda>(key, value). jaas_option key value) options) @ '';''"

section \<open>The cluster written for submitted values\<close>

definition transformToKeystore :: "FormKeystore option \<Rightarrow> Keystore option" where
  "transformToKeystore ks =
     (case ks of
        Some k \<Rightarrow> if truthy (location k)
                  then Some \<lparr>keystoreLocation = location k, keystorePassword = ks_password k\<rparr> else None
      | None \<Rightarrow> None)"

definition transformToCredentials :: "bool \<Rightarrow> string option \<Rightarrow> string option \<Rightarrow> Credentials option" where
  "transformToCredentials auth u p =
     (if \<not> auth \<or> \<not> truthy u \<or> \<not> truthy p then None else Some \<lparr>username = u, password = p\<rparr>)"

definition transformCustomProps :: "string obj option \<Rightarrow> string obj" where
  "transformCustomProps props =
     (case props of
        None \<Rightarrow> []
      | Some ps \<Rightarrow>
          fold (\<lambda>(key, val) config.
            if val \<noteq> [] then AList.update (convertFormKeyToPropsKey key) val config else config) ps [])"

definition transformSerdeProperties :: "(string \<times> string) list \<Rightarrow> string obj" where
  "transformSerdeProperties ps = fold (\<lambda>(key, value). AList.update key value) ps []"

text \<open>An object literal whose values may be undefined, and the options of a credentials object.\<close>

definition defined_entries :: "(string \<times> string option) list \<Rightarrow> string obj" where
  "defined_entries es = [(k, the v). (k, v) \<leftarrow> es, v \<noteq> None]"

definition credential_options :: "AuthProps \<Rightarrow> (string \<times> string option) list" where
  "credential_options props =
     (case transformToCredentials (is_true (props_isAuth props)) (props_username props) (props_password props) of
        Some c \<Rightarrow> [(''username'', username c), (''password'', password c)]
      | None \<Rightarrow> [])"

definition need_props :: "AuthProps option \<Rightarrow> AuthProps res" where
  "need_props props = (case props of Some p \<Rightarrow> Inr p | None \<Rightarrow> Inl TypeError)"

definition with_credentials :: "string option \<Rightarrow> string \<Rightarrow> string \<Rightarrow> AuthProps option \<Rightarrow> string obj res" where
  "with_credentials protocol mechanism method props =
     bind_res (need_props props) (\<lambda>p. Inr (defined_entries
       [(''security.protocol'', protocol), (''sasl.mechanism'', Some mechanism),
        (''sasl.jaas.config'', Some (getJaasConfig method (credential_options p)))]))"

definition auth_properties :: "FormAuth \<Rightarrow> string obj \<Rightarrow> string obj res" where
  "auth_properties auth unchanged =
     (let method = auth_method auth; protocol = (''security.protocol'', securityProtocol auth);
          props = auth_props auth
      in if method = Some ''SASL/JAAS'' then
           bind_res (need_props props) (\<lambda>p. Inr (defined_entries
             [protocol, (''sasl.jaas.config'', saslJaasConfig p), (''sasl.mechanism'', saslMechanism p)]))
         else if method = Some ''SASL/GSSAPI'' then
           bind_res (need_props props) (\<lambda>p. Inr (defined_entries
             [protocol, (''sasl.mechanism'', Some ''GSSAPI''),
              (''sasl.kerberos.service.name'', saslKerberosServiceName p),
              (''sasl.jaas.config'', Some (getJaasConfig ''SASL/GSSAPI''
                 [(''useKeyTab'', Some (if truthy (keyTabFile p) then ''true'' else ''false'')),
                  (''keyTab'', keyTabFile p),
                  (''storeKey'', Some (if is_true (storeKey p) then ''true'' else ''false'')),
                  (''principal'', principal p)]))]))
         else if method = Some ''SASL/OAUTHBEARER'' then
           bind_res (need_props props) (\<lambda>p. Inr (defined_entries
             [protocol, (''sasl.mechanism'', Some ''OAUTHBEARER''),
              (''sasl.jaas.config'', Some (getJaasConfig ''SASL/OAUTHBEARER''
                 [(''unsecuredLoginStringClaim_sub'', unsecuredLoginStringClaim_sub p)]))]))
         else if method = Some ''SASL/PLAIN'' then
           with_credentials (securityProtocol auth) ''PLAIN'' ''SASL/PLAIN'' props
         else if method = Some ''SASL/SCRAM-256'' then
           with_credentials (securityProtocol auth) ''SCRAM-SHA-256'' ''SASL/SCRAM-256'' props
         else if method = Some ''SASL/SCRAM-512'' then
           with_credentials (securityProtocol auth) ''SCRAM-SHA-512'' ''SASL/SCRAM-512'' props
         else if method = Some ''Delegation tokens'' then
           bind_res (need_props props) (\<lambda>p. Inr (defined_entries
             [protocol,
              (''sasl.jaas.config'', Some (getJaasConfig ''Delegation tokens''
                 [(''username'', tokenId p), (''password'', tokenValue p), (''tokenauth'', Some ''true'')]))]))
         else if method = Some ''SASL/LDAP'' then
           with_credentials (securityProtocol auth) ''PLAIN'' ''SASL/LDAP'' props
         else if method = Some ''SASL/AWS IAM'' then
           bind_res (need_props props) (\<lambda>p. Inr (defined_entries
             [protocol, (''sasl.mechanism'', Some ''AWS_MSK_IAM''),
              (''sasl.client.callback.handler.class'', Some ''software.amazon.msk.auth.iam.IAMClientCallbackHandler''),
              (''sasl.jaas.config'', Some (getJaasConfig ''SASL/AWS IAM''
                 [(''awsProfileName'', awsProfileName p), (''awsRoleArn'', awsRoleArn p),
                  (''awsRoleSessionName'', awsRoleSessionName p), (''awsStsRegion'', awsStsRegion p)]))]))
         else if method = Some ''SASL/Azure Entra'' then
           Inr (defined_entries
             [protocol, (''sasl.mechanism'', Some ''OAUTHBEARER''),
              (''sasl.client.callback.handler.class'',
                Some ''io.kafbat.ui.sasl.azure.entra.AzureEntraLoginCallbackHandler''),
              (''sasl.jaas.config'', Some (getJaasConfig ''SASL/Azure Entra'' []))])
         else if method = Some ''SASL/GCP IAM'' then
           Inr (defined_entries
             [protocol, (''sasl.mechanism'', Some ''OAUTHBEARER''),
              (''sasl.client.callback.handler.class'',
                Some ''com.google.cloud.hosted.kafka.auth.GcpLoginCallbackHandler''),
              (''sasl.jaas.config'', Some (getJaasConfig ''SASL/GCP IAM'' []))])
         else if method = Some ''mTLS'' then
           Inr (defined_entries
             [(''security.protocol'', Some ''SSL''),
              (''ssl.keystore.location'', Option.bind (auth_keystore auth) location),
              (''ssl.keystore.password'', Option.bind (auth_keystore auth) ks_password)])
         else Inr unchanged)"

definition transform_servers :: "HostPort list \<Rightarrow> string" where
  "transform_servers servers = join '','' (map (\<lambda>s. host s @ '':'' @ text_of (port s)) servers)"

definition transform_serde :: "FormSerde \<Rightarrow> SerdeConfig" where
  "transform_serde s =
     \<lparr>sc_name = serde_name s, sc_className = className s, sc_filePath = filePath s,
      sc_properties = Some (transformSerdeProperties (serde_properties s)),
      sc_topicKeysPattern = serde_topicKeysPattern s, sc_topicValuesPattern = serde_topicValuesPattern s\<rparr>"

definition transform_connect :: "FormConnect \<Rightarrow> KafkaConnect" where
  "transform_connect c =
     (let ks = transformToKeystore (keystore c);
          cred = transformToCredentials (is_true (isAuth c)) (wa_username c) (wa_password c)
      in \<lparr>kc_name = connect_name c, kc_address = address c, kc_username = Option.bind cred username,
          kc_password = Option.bind cred password, kc_keystoreLocation = Option.bind ks keystoreLocation,
          kc_keystorePassword = Option.bind ks keystorePassword\<rparr>)"

definition transform_metrics :: "FormMetrics \<Rightarrow> 'a Metrics" where
  "transform_metrics m =
     (let ks = transformToKeystore (keystore m);
          cred = transformToCredentials (is_true (isAuth m)) (wa_username m) (wa_password m)
      in \<lparr>mt_type = metrics_type m,
          mt_port = Some (case metrics_port m of Some p \<Rightarrow> js_Number p | None \<Rightarrow> NaN),
          mt_ssl = None, mt_username = Option.bind cred username, mt_password = Option.bind cred password,
          mt_keystoreLocation = Option.bind ks keystoreLocation,
          mt_keystorePassword = Option.bind ks keystorePassword, mt_prometheusExpose = None, mt_store = None\<rparr>)"

definition transform_masking :: "FormMasking \<Rightarrow> MaskingConfig" where
  "transform_masking m =
     \<lparr>mk_type = masking_type m, mk_fields = Some (case masking_fields m of Some fs \<Rightarrow> fs | None \<Rightarrow> []),
      mk_fieldsNamePattern = fieldsNamePattern m,
      mk_maskingCharsReplacement = Some (case maskingCharsReplacement m of Some fs \<Rightarrow> fs | None \<Rightarrow> []),
      mk_replacement = replacement m, mk_topicKeysPattern = masking_topicKeysPattern m,
      mk_topicValuesPattern = masking_topicValuesPattern m\<rparr>"

definition registry_active :: "URLWithAuth option \<Rightarrow> bool" where
  "registry_active r \<longleftrightarrow> (case r of Some v \<Rightarrow> is_true (isActive v) | None \<Rightarrow> False)"

definition registry_credentials :: "URLWithAuth \<Rightarrow> Credentials option" where
  "registry_credentials r = transformToCredentials (is_true (isAuth r)) (wa_username r) (wa_password r)"

definition transformFormDataToPayload :: "ClusterConfigFormValues \<Rightarrow> 'a Cluster res" where
  "transformFormDataToPayload data =
     (case f_bootstrapServers data of
        None \<Rightarrow> Inl TypeError
      | Some servers \<Rightarrow>
          let custom = transformCustomProps (f_customAuth data);
              properties = (case f_auth data of
                  Some auth \<Rightarrow> if is_true (auth_isActive auth) then auth_properties auth custom else Inr custom
                | None \<Rightarrow> Inr custom)
          in bind_res properties (\<lambda>ps. Inr (empty_cluster\<lparr>
               cl_name := f_name data,
               cl_bootstrapServers := Some (transform_servers servers),
               cl_readOnly := f_readOnly data,
               cl_ssl := map_option (\<lambda>t. \<lparr>truststoreLocation = location t,
                            truststorePassword = ks_password t, verify = None\<rparr>) (f_truststore data),
               cl_schemaRegistry := (if registry_active (f_schemaRegistry data)
                            then url (the (f_schemaRegistry data)) else None),
               cl_schemaRegistryAuth := (if registry_active (f_schemaRegistry data)
                            then map_option (\<lambda>c. Credentials.extend c (RegistryAuth.fields None))
                                   (registry_credentials (the (f_schemaRegistry data))) else None),
               cl_schemaRegistrySsl := (if registry_active (f_schemaRegistry data)
                            then transformToKeystore (keystore (the (f_schemaRegistry data))) else None),
               cl_ksqldbServer := (if registry_active (f_ksql data) then url (the (f_ksql data)) else None),
               cl_ksqldbServerAuth := (if registry_active (f_ksql data)
                            then registry_credentials (the (f_ksql data)) else None),
               cl_ksqldbServerSsl := (if registry_active (f_ksql data)
                            then transformToKeystore (keystore (the (f_ksql data))) else None),
               cl_serde := (if nonempty (f_serde data) then map_option (map transform_serde) (f_serde data) else None),
               cl_kafkaConnect := (if nonempty (f_kafkaConnect data)
                            then map_option (map transform_connect) (f_kafkaConnect data) else None),
               cl_metrics := (case f_metrics data of
                            Some m \<Rightarrow> if is_true (metrics_isActive m) then Some (transform_metrics m) else None
                          | None \<Rightarrow> None),
               cl_masking := (if nonempty (f_masking data)
                            then map_option (map transform_masking) (f_masking data) else None),
               cl_properties := Some ps\<rparr>)))"

section \<open>Opening and closing sections\<close>

text \<open>
  The button of a section sets its whole value; the inputs of an open section set one
  member each, creating the section's value if there is none.
\<close>

definition no_registry :: URLWithAuth where
  "no_registry = \<lparr>isAuth = None, wa_username = None, wa_password = None, keystore = None, isActive = None, url = None\<rparr>"

definition toggle_schemaRegistry :: "URLWithAuth option \<Rightarrow> URLWithAuth option" where
  "toggle_schemaRegistry r =
     Some (if r \<noteq> None then no_registry\<lparr>isActive := Some False\<rparr>
           else no_registry\<lparr>isActive := Some True, url := Some [], isAuth := Some False\<rparr>)"

definition toggle_ksql :: "URLWithAuth option \<Rightarrow> URLWithAuth option" where
  "toggle_ksql r =
     Some (if r \<noteq> None then no_registry\<lparr>isActive := Some False\<rparr>
           else no_registry\<lparr>isActive := Some False, url := Some [], isAuth := Some False\<rparr>)"

datatype section_op = Toggle | SetUrl string | SetIsAuth bool | SetUsername string | SetPassword string
  | SetKeystore "FormKeystore option"

fun section_step :: "(URLWithAuth option \<Rightarrow> URLWithAuth option) \<Rightarrow> section_op \<Rightarrow> URLWithAuth option \<Rightarrow> URLWithAuth option"
where
  "section_step toggle Toggle r = toggle r"
| "section_step toggle (SetUrl u) r = Some ((case r of Some v \<Rightarrow> v | None \<Rightarrow> no_registry)\<lparr>url := Some u\<rparr>)"
| "section_step toggle (SetIsAuth b) r = Some ((case r of Some v \<Rightarrow> v | None \<Rightarrow> no_registry)\<lparr>isAuth := Some b\<rparr>)"
| "section_step toggle (SetUsername u) r =
     Some ((case r of Some v \<Rightarrow> v | None \<Rightarrow> no_registry)\<lparr>wa_username := Some u\<rparr>)"
| "section_step toggle (SetPassword p) r =
     Some ((case r of Some v \<Rightarrow> v | None \<Rightarrow> no_registry)\<lparr>wa_password := Some p\<rparr>)"
| "section_step toggle (SetKeystore k) r =
     Some ((case r of Some v \<Rightarrow> v | None \<Rightarrow> no_registry)\<lparr>keystore := k\<rparr>)"

section \<open>The server's verdict\<close>

type_synonym verdict = "bool \<times> string option"

record ClusterValidation =
  v_kafka :: "verdict option"
  v_schemaRegistry :: "verdict option"
  v_ksqldb :: "verdict option"
  v_kafkaConnects :: "verdict option obj option"

text \<open>An alert has an id, a title and a message.\<close>

type_synonym alert = "string \<times> string \<times> string option"

definition verdict_alert :: "string \<Rightarrow> string \<Rightarrow> verdict option \<Rightarrow> alert list" where
  "verdict_alert i title v = (case v of Some (True, message) \<Rightarrow> [(i, title, message)] | _ \<Rightarrow> [])"

definition getIsValidConfig :: "string \<Rightarrow> ClusterValidation obj option \<Rightarrow> string \<Rightarrow> bool \<times> alert list" where
  "getIsValidConfig kafka_title clusters n =
     (let prefix = ''cluster-'' @ n
      in case Option.bind clusters (\<lambda>cs. map_of cs n) of
           None \<Rightarrow> (True, [])
         | Some errors \<Rightarrow>
             let alerts = verdict_alert (prefix @ ''-kafka'') kafka_title (v_kafka errors)
               @ verdict_alert (prefix @ ''-schemaRegistry'') ''Schema Registry'' (v_schemaRegistry errors)
               @ verdict_alert (prefix @ ''-ksqldb'') ''KSQL DB'' (v_ksqldb errors)
               @ concat (map (\<lambda>(key, val). verdict_alert (prefix @ ''-kafkaConnects-'' @ key)
                     (''Kafka Connect. '' @ key) val)
                   (case v_kafkaConnects errors of Some ks \<Rightarrow> ks | None \<Rightarrow> []))
             in (alerts = [], alerts))"

section \<open>Lemmas on property names\<close>

lemma toForm_Cons:
  "convertPropsKeyToFormKey (c # s) =
     (if c = CHR ''.'' then ''___'' else [c]) @ convertPropsKeyToFormKey s"
proof -
  have ne: "js_split ''.'' s \<noteq> []" by simp
  show ?thesis
    using join_Cons [OF ne, of "''___''" "[]"] join_append_head [OF ne, of "''___''" "[c]"]
    by (simp add: convertPropsKeyToFormKey_def)
qed

lemma toForm_Nil [simp]: "convertPropsKeyToFormKey [] = []"
  by (simp add: convertPropsKeyToFormKey_def)

lemma toProps_Nil [simp]: "convertFormKeyToPropsKey [] = []"
  by (simp add: convertFormKeyToPropsKey_def)

lemma toProps_sep: "convertFormKeyToPropsKey (''___'' @ s) = CHR ''.'' # convertFormKeyToPropsKey s"
proof -
  have "js_split ''___'' (''___'' @ s) = [] # js_split ''___'' s" by (subst js_split.simps) simp
  then show ?thesis by (simp add: convertFormKeyToPropsKey_def join_Cons)
qed

lemma toProps_Cons:
  "\<not> starts_with ''___'' (c # s) \<Longrightarrow> convertFormKeyToPropsKey (c # s) = c # convertFormKeyToPropsKey s"
proof -
  assume a: "\<not> starts_with ''___'' (c # s)"
  have ne: "js_split ''___'' s \<noteq> []" by simp
  then have "js_split ''___'' (c # s) = (c # hd (js_split ''___'' s)) # tl (js_split ''___'' s)"
    using a by (subst js_split.simps) (simp split: list.split)
  then show ?thesis
    using join_append_head [OF ne, of "''.''" "[c]"] by (simp add: convertFormKeyToPropsKey_def)
qed

lemma toForm_no_dot: "CHR ''.'' \<notin> set (convertPropsKeyToFormKey k)"
  by (induction k) (auto simp: toForm_Cons)

text \<open>Reading a form name starts with a dot exactly for the separator, if it has no dot itself.\<close>

lemma toProps_head:
  "CHR ''.'' \<notin> set s \<Longrightarrow>
   convertFormKeyToPropsKey s =
     (if starts_with ''___'' s then CHR ''.'' # convertFormKeyToPropsKey (drop 3 s)
      else case s of [] \<Rightarrow> [] | c # cs \<Rightarrow> c # convertFormKeyToPropsKey cs)"
proof (cases "starts_with ''___'' s")
  case True
  then obtain r where "s = ''___'' @ r" by (auto simp: starts_with_iff)
  then show ?thesis using toProps_sep [of r] by simp
next
  case False
  then show ?thesis using toProps_Cons [of "hd s" "tl s"] by (cases s) auto
qed

lemma toProps_safe:
  "CHR ''.'' \<notin> set s \<Longrightarrow>
   \<not> js_includes ''___'' (convertFormKeyToPropsKey s) \<and> \<not> js_includes ''_.'' (convertFormKeyToPropsKey s)"
proof (induction s rule: length_induct)
  case (1 s)
  have hd_us: "\<exists>r'. r = CHR ''_'' # r' \<and> convertFormKeyToPropsKey r' = t"
    if "convertFormKeyToPropsKey r = CHR ''_'' # t" "CHR ''.'' \<notin> set r" for r t
    using that toProps_head [OF that(2)] by (cases r) (auto split: if_splits)
  have hd_dot: "starts_with ''___'' r"
    if "convertFormKeyToPropsKey r = CHR ''.'' # t" "CHR ''.'' \<notin> set r" for r t
    using that toProps_head [OF that(2)] by (cases r) (auto split: if_splits)
  show ?case
  proof (cases "starts_with ''___'' s")
    case True
    then obtain r where r: "s = ''___'' @ r" by (auto simp: starts_with_iff)
    have eq: "convertFormKeyToPropsKey s = CHR ''.'' # convertFormKeyToPropsKey r"
      using toProps_sep [of r] r by simp
    have "\<not> js_includes ''___'' (convertFormKeyToPropsKey r) \<and> \<not> js_includes ''_.'' (convertFormKeyToPropsKey r)"
      using 1 r by auto
    then show ?thesis unfolding eq by simp
  next
    case False
    show ?thesis
    proof (cases s)
      case (Cons c cs)
      have eq: "convertFormKeyToPropsKey s = c # convertFormKeyToPropsKey cs"
        using False Cons toProps_Cons by simp
      have IH: "\<not> js_includes ''___'' (convertFormKeyToPropsKey cs) \<and> \<not> js_includes ''_.'' (convertFormKeyToPropsKey cs)"
        using 1 Cons by auto
      have nodot: "CHR ''.'' \<notin> set cs" using 1 Cons by simp
      have "\<not> starts_with ''___'' (c # convertFormKeyToPropsKey cs)"
      proof
        assume "starts_with ''___'' (c # convertFormKeyToPropsKey cs)"
        then obtain t where t: "c # convertFormKeyToPropsKey cs = ''___'' @ t" by (metis starts_with_iff)
        then have g: "convertFormKeyToPropsKey cs = CHR ''_'' # CHR ''_'' # t" by simp
        from hd_us [OF g nodot] obtain r where r: "cs = CHR ''_'' # r" "convertFormKeyToPropsKey r = CHR ''_'' # t" by auto
        with nodot have "CHR ''.'' \<notin> set r" by simp
        from hd_us [OF r(2) this] obtain r' where "r = CHR ''_'' # r'" by auto
        with r Cons t False show False by simp
      qed
      moreover have "\<not> starts_with ''_.'' (c # convertFormKeyToPropsKey cs)"
      proof
        assume "starts_with ''_.'' (c # convertFormKeyToPropsKey cs)"
        then obtain t where t: "c # convertFormKeyToPropsKey cs = ''_.'' @ t" by (metis starts_with_iff)
        then have g: "convertFormKeyToPropsKey cs = CHR ''.'' # t" by simp
        from hd_dot [OF g nodot] obtain r where "cs = ''___'' @ r" by (metis starts_with_iff)
        with Cons t False show False by simp
      qed
      ultimately show ?thesis using IH unfolding eq by simp
    qed simp
  qed
qed

lemma toForm_head:
  "convertPropsKeyToFormKey s = CHR ''_'' # t \<Longrightarrow>
     \<exists>r. s = CHR ''.'' # r \<and> t = ''__'' @ convertPropsKeyToFormKey r
       \<or> s = CHR ''_'' # r \<and> t = convertPropsKeyToFormKey r"
  by (cases s) (auto simp: toForm_Cons split: if_splits)

lemma toProps_toForm:
  "\<not> js_includes ''___'' k \<Longrightarrow> \<not> js_includes ''_.'' k \<Longrightarrow>
   convertFormKeyToPropsKey (convertPropsKeyToFormKey k) = k"
proof (induction k)
  case (Cons c k)
  then have IH: "convertFormKeyToPropsKey (convertPropsKeyToFormKey k) = k" by simp
  show ?case
  proof (cases "c = CHR ''.''")
    case True
    with IH toProps_sep [of "convertPropsKeyToFormKey k"] show ?thesis by (simp add: toForm_Cons)
  next
    case False
    have "\<not> starts_with ''___'' (c # convertPropsKeyToFormKey k)"
    proof
      assume "starts_with ''___'' (c # convertPropsKeyToFormKey k)"
      then obtain r where eq: "c # convertPropsKeyToFormKey k = ''___'' @ r" by (metis starts_with_iff)
      then have c: "c = CHR ''_''" and r: "convertPropsKeyToFormKey k = CHR ''_'' # CHR ''_'' # r" by simp_all
      from toForm_head [OF r] c Cons.prems obtain k' where k': "k = CHR ''_'' # k'"
        and "convertPropsKeyToFormKey k' = CHR ''_'' # r" by auto
      from toForm_head [OF this(2)] c k' Cons.prems show False by auto
    qed
    with False IH show ?thesis by (simp add: toForm_Cons toProps_Cons)
  qed
qed simp

text \<open>Property names that have a form name of their own.\<close>

definition safe_key :: "string \<Rightarrow> bool" where
  "safe_key k \<longleftrightarrow> \<not> js_includes ''___'' k \<and> \<not> js_includes ''_.'' k"

interpretation form_name: codec convertPropsKeyToFormKey convertFormKeyToPropsKey "\<lambda>k. k" safe_key
  by unfold_locales (simp_all add: toProps_toForm safe_key_def)

section \<open>Lemmas on the round trip through the form\<close>

lemma fold_update_filter:
  "fold (\<lambda>(k, v) acc. if P k v then AList.update (g k) v acc else acc) ps acc =
     obj_spread acc (map (\<lambda>(k, v). (g k, v)) (filter (\<lambda>(k, v). P k v) ps))"
  unfolding obj_spread_def by (induction ps arbitrary: acc) auto

lemma fold_update_spread: "fold (\<lambda>(key, value). AList.update key value) ps [] = obj_spread [] ps"
  by (simp add: obj_spread_def)

lemma serde_properties_id: "wf_obj ps \<Longrightarrow> transformSerdeProperties ps = ps"
  by (simp add: transformSerdeProperties_def fold_update_spread obj_spread_fresh)

lemma custom_roundtrip:
  assumes wf: "wf_obj ps" and safe: "\<And>k v. (k, v) \<in> set ps \<Longrightarrow> is_auth_property k \<Longrightarrow> safe_key k"
  shows "transformCustomProps (Some (initial_customAuth ps)) =
    filter (\<lambda>(k, v). is_auth_property k \<and> v \<noteq> []) ps"
proof -
  let ?as = "filter (\<lambda>(k, v). is_auth_property k) ps"
  let ?fs = "map (\<lambda>(k, v). (convertPropsKeyToFormKey k, v)) ?as"
  have d: "distinct (map fst ps)" using wf by (simp add: wf_obj_def)
  have da: "distinct (map fst ?as)" using d by (rule distinct_map_filter)
  have safe_as: "safe_key k" if "(k, v) \<in> set ?as" for k v using safe that by auto
  have inj: "inj_on convertPropsKeyToFormKey (fst ` set ?as)"
    using safe_as by (intro form_name.enc_inj_on) force
  have fst: "map fst ?fs = map convertPropsKeyToFormKey (map fst ?as)"
    by (simp add: split_beta comp_def)
  have wff: "wf_obj ?fs"
    unfolding wf_obj_def fst using da inj by (simp only: distinct_map set_map simp_thms)
  then have initial: "initial_customAuth ps = ?fs"
    by (simp add: initial_customAuth_def fold_update_filter obj_spread_fresh)
  let ?g = "filter (\<lambda>(k, v). v \<noteq> []) ?as"
  have restored: "map (\<lambda>(k, v). (convertFormKeyToPropsKey k, v)) (filter (\<lambda>(k, v). v \<noteq> []) ?fs) = ?g"
  proof -
    have "convertFormKeyToPropsKey (convertPropsKeyToFormKey k) = k" if "(k, v) \<in> set ?as" for k v
      using safe_as [OF that] by (simp add: toProps_toForm safe_key_def)
    then have "map (\<lambda>(k, v). (convertFormKeyToPropsKey (convertPropsKeyToFormKey k), v)) ?g = ?g"
      by (intro map_idI) auto
    then show ?thesis by (simp add: filter_map comp_def split_def)
  qed
  have "wf_obj ?g" unfolding wf_obj_def using da by (rule distinct_map_filter)
  then have "obj_spread [] ?g = ?g" by (simp only: obj_spread_fresh [of ?g "[]"] append_Nil list.set image_empty empty_iff simp_thms)
  moreover have "transformCustomProps (Some ?fs) = obj_spread [] ?g"
    unfolding transformCustomProps_def option.case fold_update_filter [of "\<lambda>k v. v \<noteq> []"] restored ..
  moreover have "?g = filter (\<lambda>(k, v). is_auth_property k \<and> v \<noteq> []) ps"
    by (simp add: split_def conj_commute)
  ultimately show ?thesis unfolding initial by simp
qed

lemma parse_then_show:
  "host (parse_server u) @ '':'' @ text_of (port (parse_server u)) = u \<longleftrightarrow> length (js_split '':'' u) = 2"
proof -
  have j: "join '':'' (js_split '':'' u) = u" by (simp add: join_split)
  consider h where "js_split '':'' u = [h]" | h p where "js_split '':'' u = [h, p]"
    | h p q r where "js_split '':'' u = h # p # q # r"
    by (metis js_split_nonempty list.distinct(1) neq_Nil_conv)
  then show ?thesis
  proof cases
    case 1
    with j show ?thesis by (simp add: parse_server_def text_of_def)
  next
    case 2
    with j show ?thesis by (simp add: parse_server_def text_of_def)
  next
    case 3
    then have "u = h @ '':'' @ p @ '':'' @ join '':'' (q # r)" using j by simp
    with 3 show ?thesis by (simp add: parse_server_def text_of_def)
  qed
qed

lemma parse_no_comma:
  assumes "CHR '','' \<notin> set u"
  shows "CHR '','' \<notin> set (host (parse_server u) @ '':'' @ text_of (port (parse_server u)))"
proof -
  have parts: "CHR '','' \<notin> set w" if "w \<in> set (js_split '':'' u)" for w
  proof -
    have "set w \<subseteq> set (join '':'' (js_split '':'' u))"
      using that by (rule set_join_subset)
    with assms show ?thesis by (auto simp: join_split)
  qed
  show ?thesis using parts by (auto simp: parse_server_def text_of_def split: list.splits)
qed

lemma servers_roundtrip:
  "transform_servers (map parse_server (js_split '','' s)) = s \<longleftrightarrow>
     (\<forall>u\<in>set (js_split '','' s). length (js_split '':'' u) = 2)"
proof -
  let ?us = "js_split '','' s"
  let ?g = "\<lambda>u. host (parse_server u) @ '':'' @ text_of (port (parse_server u))"
  have ne: "map ?g ?us \<noteq> []" by simp
  have nc: "CHR '','' \<notin> set w" if "w \<in> set (map ?g ?us)" for w
    using that parse_no_comma split_parts_no_sep by fastforce
  have "join '','' (map ?g ?us) = s \<longleftrightarrow> map ?g ?us = ?us"
  proof
    assume "join '','' (map ?g ?us) = s"
    with split_join [OF ne nc] show "map ?g ?us = ?us" by simp
  next
    assume "map ?g ?us = ?us"
    then show "join '','' (map ?g ?us) = s" by (simp only: join_split list.distinct not_False_eq_True)
  qed
  also have "\<dots> \<longleftrightarrow> (\<forall>u\<in>set ?us. ?g u = u)"
    using map_eq_conv [of ?g ?us "\<lambda>u. u"] by (simp only: map_ident)
  finally show ?thesis unfolding parse_then_show transform_servers_def map_map comp_def .
qed

text \<open>What a connector, a serializer and a masking rule look like after a round trip.\<close>

definition saved_connect :: "KafkaConnect \<Rightarrow> KafkaConnect" where
  "saved_connect k =
     (let auth = truthy (kc_username k) \<and> truthy (kc_password k); ssl = truthy (kc_keystoreLocation k)
      in \<lparr>kc_name = kc_name k, kc_address = kc_address k,
          kc_username = (if auth then kc_username k else None),
          kc_password = (if auth then kc_password k else None),
          kc_keystoreLocation = (if ssl then kc_keystoreLocation k else None),
          kc_keystorePassword = (if ssl then kc_keystorePassword k else None)\<rparr>)"

lemma connect_roundtrip: "transform_connect (initial_connect k) = saved_connect k"
  by (auto simp: transform_connect_def initial_connect_def saved_connect_def parseCredentials_def Let_def
      WithAuth.defs FormConnect.defs transformToKeystore_def transformToCredentials_def is_true_def)

lemma serde_roundtrip:
  "wf_obj (parseProperties (sc_properties s)) \<Longrightarrow>
   transform_serde (initial_serde s) = s\<lparr>sc_properties := Some (parseProperties (sc_properties s))\<rparr>"
  by (simp add: transform_serde_def initial_serde_def serde_properties_id)

lemma masking_roundtrip:
  "transform_masking (initial_masking m) =
     m\<lparr>mk_fields := Some (case mk_fields m of Some fs \<Rightarrow> fs | None \<Rightarrow> []),
       mk_maskingCharsReplacement := Some (case mk_maskingCharsReplacement m of Some fs \<Rightarrow> fs | None \<Rightarrow> [])\<rparr>"
  by (simp add: transform_masking_def initial_masking_def)

lemma registry_not_active: "\<not> registry_active (initial_registry u user pass ssl)"
  by (simp add: registry_active_def initial_registry_def WithAuth.defs URLWithAuth.defs is_true_def)

lemma payload_reads:
  assumes "transformFormDataToPayload data = Inr c'"
  shows "cl_schemaRegistry c' = (if registry_active (f_schemaRegistry data) then url (the (f_schemaRegistry data)) else None)"
    and "cl_ksqldbServer c' = (if registry_active (f_ksql data) then url (the (f_ksql data)) else None)"
  using assms
  by (auto simp: transformFormDataToPayload_def bind_res_Inr_iff Let_def split: option.splits)

section \<open>Properties of the form\<close>

text \<open>
  Form names of stored properties: a property name is recovered from its form name
  exactly when it contains neither three underscores in a row nor an underscore before a dot.
\<close>

theorem form_key_roundtrip:
  "convertFormKeyToPropsKey (convertPropsKeyToFormKey k) = k \<longleftrightarrow>
     \<not> js_includes ''___'' k \<and> \<not> js_includes ''_.'' k"
  using toProps_safe [OF toForm_no_dot [of k]] toProps_toForm [of k] by auto


definition sample_stored :: "nat Cluster" where
  "sample_stored = empty_cluster\<lparr>cl_name := Some ''dev'', cl_bootstrapServers := Some ''a:1,b:2'',
     cl_schemaRegistry := Some ''http://r'',
     cl_properties := Some [(''sasl.mechanism'', ''PLAIN''), (''client.id'', ''x'')]\<rparr>"


lemma inactive_step:
  assumes "\<not> registry_active r" and "r \<noteq> None \<or> \<not> registry_active (toggle r)"
    and "\<And>v. \<not> registry_active (toggle (Some v))"
  shows "\<not> registry_active (section_step toggle op r)"
  using assms by (cases op; cases r) (auto simp: registry_active_def no_registry_def is_true_def)

lemma toggle_closes: "\<not> registry_active (toggle_schemaRegistry (Some v))" "\<not> registry_active (toggle_ksql r)"
  by (simp_all add: registry_active_def toggle_schemaRegistry_def toggle_ksql_def no_registry_def is_true_def)

lemma step_not_None: "r \<noteq> None \<Longrightarrow> section_step toggle_schemaRegistry op r \<noteq> None"
  by (cases op) (auto simp: toggle_schemaRegistry_def)

lemma registry_stays_inactive:
  "\<not> registry_active r \<Longrightarrow> r \<noteq> None \<Longrightarrow> \<not> registry_active (fold (section_step toggle_schemaRegistry) ops r)"
proof (induction ops arbitrary: r)
  case (Cons op ops)
  then have "\<not> registry_active (section_step toggle_schemaRegistry op r)"
    by (intro inactive_step) (simp_all add: toggle_closes)
  with Cons step_not_None [of r op] show ?case by simp
qed simp

lemma ksql_stays_inactive:
  "\<not> registry_active r \<Longrightarrow> \<not> registry_active (fold (section_step toggle_ksql) ops r)"
  by (induction ops arbitrary: r) (auto simp: inactive_step toggle_closes)

text \<open>
  A schema registry once stored cannot survive an edit of its cluster: whatever the
  user does in the section, opening or closing it any number of times and filling in its
  fields, the cluster that is written has no schema registry. A ksqlDB server cannot even be
  added: no sequence of actions in that section, from a stored server or from none, ever
  writes one.
\<close>

theorem sections_not_saved:
  assumes "transformFormDataToPayload (f\<lparr>
      f_schemaRegistry := fold (section_step toggle_schemaRegistry) ops1 (f_schemaRegistry (getInitialFormData c)),
      f_ksql := fold (section_step toggle_ksql) ops2 (f_ksql (getInitialFormData c))\<rparr>) = Inr c'"
  shows "(truthy (cl_schemaRegistry c) \<longrightarrow> cl_schemaRegistry c' = None) \<and> cl_ksqldbServer c' = None"
proof -
  let ?r = "f_schemaRegistry (getInitialFormData c)" and ?k = "f_ksql (getInitialFormData c)"
  have inactive: "\<not> registry_active ?r" "\<not> registry_active ?k"
    by (simp_all add: getInitialFormData_def registry_not_active)
  have "truthy (cl_schemaRegistry c) \<Longrightarrow> ?r \<noteq> None"
    by (simp add: getInitialFormData_def initial_registry_def)
  then show ?thesis
    using payload_reads [OF assms] registry_stays_inactive [OF inactive(1), of ops1]
      ksql_stays_inactive [OF inactive(2), of ops2] by simp
qed

theorem sections_not_saved_witness:
  "\<exists>c'. transformFormDataToPayload ((getInitialFormData sample_stored)\<lparr>
      f_schemaRegistry := fold (section_step toggle_schemaRegistry) [Toggle, SetUrl ''http://s'']
         (f_schemaRegistry (getInitialFormData sample_stored)),
      f_ksql := fold (section_step toggle_ksql) [Toggle, SetUrl ''http://k''] (f_ksql (getInitialFormData sample_stored))\<rparr>)
      = Inr (c' :: nat Cluster) \<and> cl_schemaRegistry c' = None \<and> cl_ksqldbServer c' = None"
proof -
  let ?f = "(getInitialFormData sample_stored)\<lparr>
      f_schemaRegistry := fold (section_step toggle_schemaRegistry) [Toggle, SetUrl ''http://s'']
         (f_schemaRegistry (getInitialFormData sample_stored)),
      f_ksql := fold (section_step toggle_ksql) [Toggle, SetUrl ''http://k''] (f_ksql (getInitialFormData sample_stored))\<rparr>"
  have "f_bootstrapServers ?f \<noteq> None" "f_auth ?f = None"
    by (simp_all add: getInitialFormData_def parseBootstrapServers_def sample_stored_def)
  then obtain c' where c': "transformFormDataToPayload ?f = Inr (c' :: nat Cluster)"
    by (auto simp: transformFormDataToPayload_def Let_def simp del: fold_simps)
  have "truthy (cl_schemaRegistry sample_stored)" by (simp add: sample_stored_def truthy_def)
  with sections_not_saved [OF c'] c' show ?thesis by blast
qed

definition quote_free :: "string option \<Rightarrow> bool" where
  "quote_free v \<longleftrightarrow> (case v of Some s \<Rightarrow> CHR 0x22 \<notin> set s | None \<Rightarrow> False)"

lemma quoted_cancel:
  "CHR 0x22 \<notin> set v \<Longrightarrow> CHR 0x22 \<notin> set w \<Longrightarrow> v @ CHR 0x22 # s = w @ CHR 0x22 # t \<Longrightarrow> v = w \<and> s = t"
proof (induction v arbitrary: w)
  case Nil
  then show ?case by (cases w) auto
next
  case (Cons x v)
  then show ?case by (cases w) auto
qed

lemma jaas_option_cancel:
  assumes "quote_free v" and "quote_free w" and "jaas_option k v @ s = jaas_option k w @ t"
  shows "v = w \<and> s = t"
proof -
  obtain a b where v: "v = Some a" "CHR 0x22 \<notin> set a" and w: "w = Some b" "CHR 0x22 \<notin> set b"
    using assms by (auto simp: quote_free_def split: option.splits)
  define r where "r x = (if x = ''true'' \<or> x = ''false'' then x else [CHR 0x22] @ x @ [CHR 0x22])" for x
  have opt: "jaas_option k (Some x) = ('' '' @ k @ ''='') @ r x" for x
    by (simp add: jaas_option_def r_def)
  have eq: "r a @ s = r b @ t" using assms(3) unfolding v(1) w(1) opt append_assoc same_append_eq .
  have "a = b \<and> s = t"
  proof (cases "a = ''true'' \<or> a = ''false''"; cases "b = ''true'' \<or> b = ''false''")
    assume "\<not> (a = ''true'' \<or> a = ''false'')" "\<not> (b = ''true'' \<or> b = ''false'')"
    with eq have "a @ CHR 0x22 # s = b @ CHR 0x22 # t" by (simp add: r_def)
    with v(2) w(2) show ?thesis by (rule quoted_cancel)
  qed (use eq in \<open>auto simp: r_def\<close>)
  with v w show ?thesis by simp
qed

lemma jaas_options_cancel:
  "map fst os = map fst qs \<Longrightarrow> list_all (quote_free \<circ> snd) os \<Longrightarrow> list_all (quote_free \<circ> snd) qs \<Longrightarrow>
   concat (map (\<lambda>(k, v). jaas_option k v) os) @ s = concat (map (\<lambda>(k, v). jaas_option k v) qs) @ t \<Longrightarrow> os = qs"
proof (induction os arbitrary: qs)
  case (Cons o1 os)
  then obtain k v w qs' where eq: "o1 = (k, v)" "qs = (k, w) # qs'" by (cases o1; cases qs) auto
  with Cons.prems jaas_option_cancel [of v w k] have "v = w"
    "concat (map (\<lambda>(k, v). jaas_option k v) os) @ s = concat (map (\<lambda>(k, v). jaas_option k v) qs') @ t"
    by auto
  with Cons eq show ?case by auto
qed simp

text \<open>
  The JAAS string of a set of options determines their values as long as none contains
  a quotation mark; values are not escaped, so with quotation marks different credentials
  give the same string.
\<close>

theorem jaas_config_injective:
  "(\<forall>os qs. map fst os = map fst qs \<longrightarrow> list_all (quote_free \<circ> snd) os \<longrightarrow> list_all (quote_free \<circ> snd) qs \<longrightarrow>
      getJaasConfig m os = getJaasConfig m qs \<longrightarrow> os = qs)
   \<and> getJaasConfig m [(''username'', Some (''u'' @ [CHR 0x22] @ '' password='' @ [CHR 0x22] @ ''v'')), (''password'', Some ''w'')]
     = getJaasConfig m [(''username'', Some ''u''), (''password'', Some (''v'' @ [CHR 0x22] @ '' password='' @ [CHR 0x22] @ ''w''))]"
proof (intro conjI allI impI)
  fix os qs assume "map fst os = map fst qs" "list_all (quote_free \<circ> snd) os" "list_all (quote_free \<circ> snd) qs"
    and "getJaasConfig m os = getJaasConfig m qs"
  then show "os = qs" using jaas_options_cancel [of os qs "'';''" "'';''"] by (simp add: getJaasConfig_def)
qed (simp add: getJaasConfig_def jaas_option_def)

theorem jaas_config_injective_witness:
  "getJaasConfig ''SASL/PLAIN'' [(''username'', Some ''u''), (''password'', Some ''p'')]
     \<noteq> getJaasConfig ''SASL/PLAIN'' [(''username'', Some ''u''), (''password'', Some ''q'')]"
proof
  let ?o = "\<lambda>p. [(''username'', Some ''u''), (''password'', Some p)]"
  assume "getJaasConfig ''SASL/PLAIN'' (?o ''p'') = getJaasConfig ''SASL/PLAIN'' (?o ''q'')"
  moreover have "list_all (quote_free \<circ> snd) (?o ''p'')" "list_all (quote_free \<circ> snd) (?o ''q'')"
    by (simp_all add: quote_free_def)
  moreover have "map fst (?o ''p'') = map fst (?o ''q'')" by simp
  ultimately have "?o ''p'' = ?o ''q''"
    using conjunct1 [OF jaas_config_injective [of "''SASL/PLAIN''"]] by blast
  then show False by simp
qed

end
