(* ===== verification/ClusterSchema.thy ===== *)
theory ClusterSchema
  imports ClusterForm
begin

text \<open>
  Validation and submission of the cluster form: \<open>schema.ts\<close>, the buttons of the remaining
  sections, and the handlers of \<open>frontend/src/widgets/ClusterConfigForm/index.tsx\<close>. Submission
  validates first and hands the validated, cast values to the handler.
\<close>

section \<open>Validation\<close>

text \<open>The number schema removes white space and rejects an empty text.\<close>

definition yup_number :: "string \<Rightarrow> js_num" where
  "yup_number s = (let t = filter (\<lambda>c. \<not> is_js_space c) s in if t = [] then NaN else js_Number t)"

definition positive :: "js_num \<Rightarrow> bool" where
  "positive n \<longleftrightarrow> (case n of Dec m _ \<Rightarrow> m > 0 | NaN \<Rightarrow> False)"

definition portSchema :: "string option \<Rightarrow> bool" where
  "portSchema p \<longleftrightarrow> (case p of Some s \<Rightarrow> positive (yup_number s) | None \<Rightarrow> False)"

definition bootstrapServerSchema :: "HostPort \<Rightarrow> bool" where
  "bootstrapServerSchema s \<longleftrightarrow> host s \<noteq> [] \<and> portSchema (port s)"

definition sslSchema :: "FormKeystore option \<Rightarrow> bool" where
  "sslSchema k \<longleftrightarrow> (case k of Some v \<Rightarrow> truthy (ks_password v) \<longrightarrow> truthy (location v) | None \<Rightarrow> True)"

definition credentials_ok :: "bool option \<Rightarrow> string option \<Rightarrow> string option \<Rightarrow> bool" where
  "credentials_ok auth u p \<longleftrightarrow> (is_true auth \<longrightarrow> truthy u \<and> truthy p)"

definition urlWithAuthSchema :: "URLWithAuth option \<Rightarrow> bool" where
  "urlWithAuthSchema r \<longleftrightarrow> (case r of
      Some v \<Rightarrow> truthy (url v) \<and> credentials_ok (isAuth v) (wa_username v) (wa_password v) \<and> sslSchema (keystore v)
    | None \<Rightarrow> True)"

definition serdeSchema :: "FormSerde \<Rightarrow> bool" where
  "serdeSchema s \<longleftrightarrow> truthy (serde_name s) \<and> truthy (className s) \<and> truthy (filePath s)
     \<and> truthy (serde_topicKeysPattern s) \<and> truthy (serde_topicValuesPattern s)
     \<and> list_all (\<lambda>(k, v). k \<noteq> [] \<and> v \<noteq> []) (serde_properties s)"

definition kafkaConnectSchema :: "FormConnect \<Rightarrow> bool" where
  "kafkaConnectSchema c \<longleftrightarrow> truthy (connect_name c) \<and> truthy (address c)
     \<and> credentials_ok (isAuth c) (wa_username c) (wa_password c) \<and> sslSchema (keystore c)"

definition metricsSchema :: "FormMetrics option \<Rightarrow> bool" where
  "metricsSchema m \<longleftrightarrow> (case m of
      Some v \<Rightarrow> metrics_type v \<in> {Some ''JMX'', Some ''PROMETHEUS''} \<and> portSchema (metrics_port v)
        \<and> credentials_ok (isAuth v) (wa_username v) (wa_password v) \<and> sslSchema (keystore v)
    | None \<Rightarrow> True)"

definition no_props :: AuthProps where
  "no_props = \<lparr>saslJaasConfig = None, saslMechanism = None, saslKerberosServiceName = None, keyTabFile = None,
     storeKey = None, principal = None, unsecuredLoginStringClaim_sub = None, props_isAuth = None,
     props_username = None, props_password = None, tokenId = None, tokenValue = None, awsProfileName = None,
     awsRoleArn = None, awsRoleSessionName = None, awsStsRegion = None\<rparr>"

text \<open>An object schema reads a missing value as an object without members.\<close>

definition authPropsSchema :: "string option \<Rightarrow> AuthProps option \<Rightarrow> bool" where
  "authPropsSchema method props \<longleftrightarrow>
     (let p = (case props of Some p \<Rightarrow> p | None \<Rightarrow> no_props)
      in if method = Some ''SASL/JAAS'' then truthy (saslJaasConfig p) \<and> truthy (saslMechanism p)
         else if method = Some ''SASL/GSSAPI'' then truthy (saslKerberosServiceName p) \<and> truthy (principal p)
         else if method = Some ''SASL/OAUTHBEARER'' then truthy (unsecuredLoginStringClaim_sub p)
         else if method \<in> {Some ''SASL/PLAIN'', Some ''SASL/SCRAM-256'', Some ''SASL/SCRAM-512'', Some ''SASL/LDAP''}
         then truthy (props_username p) \<and> truthy (props_password p)
         else if method = Some ''Delegation tokens'' then truthy (tokenId p) \<and> truthy (tokenValue p)
         else True)"

definition protocol_methods :: "string list" where
  "protocol_methods =
     [''SASL/JAAS'', ''SASL/GSSAPI'', ''SASL/OAUTHBEARER'', ''SASL/PLAIN'', ''SASL/SCRAM-256'', ''SASL/SCRAM-512'',
      ''SASL/LDAP'', ''SASL/AWS IAM'', ''SASL/Azure Entra'', ''SASL/GCP IAM'']"

definition auth_methods :: "string list" where
  "auth_methods =
     [''SASL/JAAS'', ''SASL/GSSAPI'', ''SASL/OAUTHBEARER'', ''SASL/PLAIN'', ''SASL/SCRAM-256'', ''SASL/SCRAM-512'',
      ''Delegation tokens'', ''SASL/LDAP'', ''SASL/AWS IAM'', ''SASL/Azure Entra'', ''SASL/GCP IAM'', ''mTLS'']"

definition authSchema :: "FormAuth option \<Rightarrow> bool" where
  "authSchema auth \<longleftrightarrow> (case auth of
      None \<Rightarrow> True
    | Some a \<Rightarrow>
        auth_method a \<in> Some ` set auth_methods
        \<and> (securityProtocol a = None \<and> auth_method a \<notin> Some ` set protocol_methods
           \<or> securityProtocol a \<in> {Some ''SASL_SSL'', Some ''SASL_PLAINTEXT''})
        \<and> (auth_method a = Some ''mTLS'' \<longrightarrow> truthy (Option.bind (auth_keystore a) location))
        \<and> authPropsSchema (auth_method a) (auth_props a))"

definition blank :: "string \<Rightarrow> bool" where
  "blank s \<longleftrightarrow> js_trim s = []"

definition maskingSchema :: "FormMasking \<Rightarrow> bool" where
  "maskingSchema m \<longleftrightarrow>
     (let has_field = (case masking_fields m of Some fs \<Rightarrow> list_ex (\<lambda>s. \<not> blank s) fs | None \<Rightarrow> False);
          has_pattern = (case fieldsNamePattern m of Some p \<Rightarrow> \<not> blank p | None \<Rightarrow> False);
          field_ok = (\<lambda>value. \<not> blank value \<or> has_field \<or> has_pattern)
      in masking_type m \<noteq> None
         \<and> list_all field_ok (case masking_fields m of Some fs \<Rightarrow> fs | None \<Rightarrow> [])
         \<and> (has_field \<or> has_pattern))"

definition each :: "('a \<Rightarrow> bool) \<Rightarrow> 'a list option \<Rightarrow> bool" where
  "each p xs \<longleftrightarrow> (case xs of Some ys \<Rightarrow> list_all p ys | None \<Rightarrow> True)"

definition formSchema :: "ClusterConfigFormValues \<Rightarrow> bool" where
  "formSchema f \<longleftrightarrow>
     (case f_name f of Some n \<Rightarrow> length n \<ge> 3 | None \<Rightarrow> False)
     \<and> f_readOnly f \<noteq> None
     \<and> each bootstrapServerSchema (f_bootstrapServers f) \<and> f_bootstrapServers f \<noteq> Some []
     \<and> sslSchema (f_truststore f) \<and> authSchema (f_auth f)
     \<and> urlWithAuthSchema (f_schemaRegistry f) \<and> urlWithAuthSchema (f_ksql f)
     \<and> each serdeSchema (f_serde f) \<and> each kafkaConnectSchema (f_kafkaConnect f)
     \<and> each maskingSchema (f_masking f) \<and> metricsSchema (f_metrics f)"

text \<open>
  What validation hands on: ports are numbers, printed again where the payload needs text,
  and a missing props object of a method with an object schema is an empty object.
\<close>

definition cast_port :: "string option \<Rightarrow> string option" where
  "cast_port p = map_option (\<lambda>s. show_num (yup_number s)) p"

definition props_methods :: "string list" where
  "props_methods = filter (\<lambda>m. m \<notin> {''SASL/Azure Entra'', ''SASL/GCP IAM'', ''mTLS''}) auth_methods"

definition cast_form :: "ClusterConfigFormValues \<Rightarrow> ClusterConfigFormValues" where
  "cast_form f = f\<lparr>
     f_bootstrapServers := map_option (map (\<lambda>s. s\<lparr>port := cast_port (port s)\<rparr>)) (f_bootstrapServers f),
     f_auth := map_option (\<lambda>a. if auth_props a = None \<and> auth_method a \<in> Some ` set props_methods
                 then a\<lparr>auth_props := Some no_props\<rparr> else a) (f_auth f),
     f_metrics := map_option (\<lambda>m. m\<lparr>metrics_port := cast_port (metrics_port m)\<rparr>) (f_metrics f)\<rparr>"

section \<open>Handlers\<close>

datatype 'a outcome = Rejected | Threw js_error | Saved "'a ApplicationConfig"

definition onSubmit ::
  "string option \<Rightarrow> ClusterConfigFormValues \<Rightarrow> 'a ApplicationConfig \<Rightarrow> 'a outcome" where
  "onSubmit initialName f config =
     (if \<not> formSchema f then Rejected
      else case transformFormDataToPayload (cast_form f) of
             Inl e \<Rightarrow> Threw e
           | Inr c \<Rightarrow> Saved (useUpdateAppConfig initialName False c config))"

definition confirmClusterDelete ::
  "string option \<Rightarrow> ClusterConfigFormValues \<Rightarrow> 'a ApplicationConfig \<Rightarrow> 'a outcome" where
  "confirmClusterDelete initialName f config =
     (if \<not> truthy initialName then Rejected
      else case transformFormDataToPayload f of
             Inl e \<Rightarrow> Threw e
           | Inr c \<Rightarrow> Saved (useUpdateAppConfig initialName True c config))"

text \<open>The page of a cluster shows the first stored cluster of that name.\<close>

definition currentClusterConfig :: "string \<Rightarrow> 'a ApplicationConfig \<Rightarrow> ClusterConfigFormValues option" where
  "currentClusterConfig clusterName config =
     map_option getInitialFormData (List.find (\<lambda>c. cl_name c = Some clusterName) (existing_clusters config))"

definition hasCustomConfig :: "ClusterConfigFormValues \<Rightarrow> bool" where
  "hasCustomConfig f \<longleftrightarrow> (case f_customAuth f of Some ps \<Rightarrow> list_ex (\<lambda>(_, v). v \<noteq> []) ps | None \<Rightarrow> False)"

definition toggle_metrics :: "FormMetrics option \<Rightarrow> FormMetrics option" where
  "toggle_metrics m =
     (let empty = \<lparr>isAuth = None, wa_username = None, wa_password = None, keystore = None,
                   metrics_isActive = None, metrics_type = None, metrics_port = None\<rparr>
      in Some (if m \<noteq> None then empty\<lparr>metrics_isActive := Some False\<rparr>
               else empty\<lparr>metrics_isActive := Some True, metrics_type := Some [], metrics_port := Some ''0'',
                          isAuth := Some False\<rparr>))"

definition toggle_auth :: "FormAuth option \<Rightarrow> FormAuth option" where
  "toggle_auth a =
     Some \<lparr>auth_keystore = None, auth_isActive = Some (a = None), auth_method = None, securityProtocol = None,
           auth_props = None\<rparr>"

definition toggle_truststore :: "FormKeystore option \<Rightarrow> FormKeystore option" where
  "toggle_truststore t =
     Some (if t \<noteq> None then \<lparr>location = None, ks_password = None\<rparr>
           else \<lparr>location = Some [], ks_password = Some []\<rparr>)"

section \<open>Lemmas\<close>

lemma auth_total:
  assumes "authSchema (Some a)" and "auth_props a \<noteq> None \<or> auth_method a \<notin> Some ` set props_methods"
  shows "\<exists>ps. auth_properties a custom = Inr ps"
proof (cases "auth_props a")
  case (Some p)
  then show ?thesis by (simp add: auth_properties_def Let_def with_credentials_def need_props_def)
next
  case None
  with assms have "auth_method a \<in> {Some ''SASL/Azure Entra'', Some ''SASL/GCP IAM'', Some ''mTLS''}"
    by (auto simp: authSchema_def props_methods_def auth_methods_def)
  then show ?thesis by (auto simp: auth_properties_def Let_def)
qed

lemma cast_auth:
  assumes "authSchema (Some a)" and "f_auth f = Some a"
  shows "\<exists>a' ps. f_auth (cast_form f) = Some a' \<and> auth_isActive a' = auth_isActive a \<and> auth_properties a' custom = Inr ps"
proof -
  let ?a = "if auth_props a = None \<and> auth_method a \<in> Some ` set props_methods then a\<lparr>auth_props := Some no_props\<rparr> else a"
  have "authSchema (Some ?a)" using assms(1) by (auto simp: authSchema_def authPropsSchema_def)
  moreover have "auth_props ?a \<noteq> None \<or> auth_method ?a \<notin> Some ` set props_methods" by simp
  ultimately obtain ps where "auth_properties ?a custom = Inr ps" using auth_total [of ?a custom] by blast
  then show ?thesis using assms(2) by (intro exI [of _ ?a] exI [of _ ps]) (simp add: cast_form_def)
qed

lemma show_num_no_comma: "positive n \<Longrightarrow> CHR '','' \<notin> set (show_num n) \<and> CHR '':'' \<notin> set (show_num n)"
proof -
  have d: "CHR '','' \<notin> set (show_nat k)" "CHR '':'' \<notin> set (show_nat k)" for k
    using show_nat_digits [of "CHR '',''" k] show_nat_digits [of "CHR '':''" k] by (auto simp: is_digit_def)
  assume "positive n"
  then show ?thesis
    by (cases n rule: show_num.cases) (auto simp: positive_def show_int_def pad_left_def d)
qed

section \<open>Properties\<close>


definition sample_form :: ClusterConfigFormValues where
  "sample_form = \<lparr>f_name = Some ''prod'', f_readOnly = Some False,
     f_bootstrapServers = Some [\<lparr>host = ''a'', port = Some ''09092''\<rparr>], f_truststore = None,
     f_auth = Some \<lparr>auth_keystore = None, auth_isActive = Some True, auth_method = Some ''SASL/AWS IAM'',
       securityProtocol = Some ''SASL_SSL'', auth_props = None\<rparr>,
     f_schemaRegistry = None, f_ksql = None, f_serde = None, f_kafkaConnect = None, f_metrics = None,
     f_customAuth = None, f_masking = None\<rparr>"


text \<open>
  Closing a section blocks the form: once the schema registry, the ksqlDB server, the
  metrics or the authentication has a value, the button that closes its section leaves a
  value the validation rejects, so nothing can be submitted until the section is filled in
  again; only the trust store can be closed and submitted, and is then stored without
  location and password.
\<close>

theorem closing_a_section_blocks_submit:
  "onSubmit initial (f\<lparr>f_schemaRegistry := toggle_schemaRegistry (Some r)\<rparr>) config = Rejected
   \<and> onSubmit initial (f\<lparr>f_ksql := toggle_ksql (Some k)\<rparr>) config = Rejected
   \<and> onSubmit initial (f\<lparr>f_metrics := toggle_metrics (Some m)\<rparr>) config = Rejected
   \<and> onSubmit initial (f\<lparr>f_auth := toggle_auth (Some a)\<rparr>) config = Rejected
   \<and> sslSchema (toggle_truststore (Some t))"
proof -
  have "\<not> urlWithAuthSchema (toggle_schemaRegistry (Some r))" "\<not> urlWithAuthSchema (toggle_ksql (Some k))"
    by (simp_all add: urlWithAuthSchema_def toggle_schemaRegistry_def toggle_ksql_def no_registry_def truthy_def)
  moreover have "\<not> metricsSchema (toggle_metrics (Some m))" by (simp add: metricsSchema_def toggle_metrics_def)
  moreover have "\<not> authSchema (toggle_auth (Some a))" by (simp add: authSchema_def toggle_auth_def image_iff)
  moreover have "sslSchema (toggle_truststore (Some t))" by (simp add: sslSchema_def toggle_truststore_def truthy_def)
  ultimately show ?thesis by (simp add: onSubmit_def formSchema_def)
qed

end
