(* ===== verification/Json.thy ===== *)
theory Json
  imports Prelude
begin

text \<open>
  Values of unknown type, as code that validates them sees them: the results of
  \<open>JSON.parse\<close> and of reading their members. A missing member is \<open>None\<close>.
\<close>

datatype json =
  JNull | JBool bool | JNum js_num | JStr string | JArr "json list" | JObj "(string \<times> json) list"

text \<open>\<open>typeof value === 'object' && value !== null\<close> also holds for arrays.\<close>

fun isRecord :: "json option \<Rightarrow> bool" where
  "isRecord (Some (JArr _)) = True"
| "isRecord (Some (JObj _)) = True"
| "isRecord _ = False"

text \<open>\<open>Object.keys(value)\<close> and \<open>hasOwnProperty\<close> of an object or array.\<close>

fun object_keys :: "json \<Rightarrow> string list" where
  "object_keys (JArr xs) = map show_nat [0..<length xs]"
| "object_keys (JObj ms) = map fst ms"
| "object_keys _ = []"

fun has_own :: "json \<Rightarrow> string \<Rightarrow> bool" where
  "has_own (JArr xs) k = (k = ''length'' \<or> k \<in> show_nat ` {0..<length xs})"
| "has_own (JObj ms) k = (map_of ms k \<noteq> None)"
| "has_own _ k = False"

text \<open>Reading a member, for names that are not inherited and not of arrays.\<close>

fun member :: "json \<Rightarrow> string \<Rightarrow> json option" where
  "member (JObj ms) k = map_of ms k"
| "member _ k = None"

definition hasExactKeys :: "json option \<Rightarrow> string list \<Rightarrow> bool" where
  "hasExactKeys value keys \<longleftrightarrow>
     isRecord value \<and> length (object_keys (the value)) = length keys \<and> list_all (has_own (the value)) keys"

definition is_bool :: "json option \<Rightarrow> bool" where
  "is_bool v \<longleftrightarrow> (case v of Some (JBool _) \<Rightarrow> True | _ \<Rightarrow> False)"

definition is_string :: "json option \<Rightarrow> bool" where
  "is_string v \<longleftrightarrow> (case v of Some (JStr _) \<Rightarrow> True | _ \<Rightarrow> False)"

definition the_bool :: "json option \<Rightarrow> bool" where
  "the_bool v = (case v of Some (JBool b) \<Rightarrow> b | _ \<Rightarrow> False)"

definition the_string :: "json option \<Rightarrow> string" where
  "the_string v = (case v of Some (JStr s) \<Rightarrow> s | _ \<Rightarrow> [])"

lemma is_bool_iff: "is_bool v \<longleftrightarrow> (\<exists>b. v = Some (JBool b))"
  by (auto simp: is_bool_def split: option.splits json.splits)

lemma is_string_iff: "is_string v \<longleftrightarrow> (\<exists>s. v = Some (JStr s))"
  by (auto simp: is_string_def split: option.splits json.splits)

text \<open>An object with distinct keys that passes the test has exactly these keys.\<close>

lemma exact_keys_set:
  assumes "hasExactKeys (Some (JObj ms)) keys" and "distinct keys"
  shows "set (map fst ms) = set keys"
proof -
  have sub: "set keys \<subseteq> set (map fst ms)"
    using assms(1) by (auto simp: hasExactKeys_def list_all_iff map_of_eq_None_iff)
  have "card (set (map fst ms)) \<le> length (map fst ms)" by (rule card_length)
  also have "\<dots> = card (set keys)" using assms by (simp add: hasExactKeys_def distinct_card)
  finally show ?thesis using sub by (metis List.finite_set card_seteq)
qed

lemma exact_keys_object:
  "hasExactKeys (Some v) keys \<Longrightarrow> keys \<noteq> [] \<Longrightarrow> ''length'' \<notin> set keys \<Longrightarrow>
   list_all (\<lambda>k. \<not> list_all is_digit k) keys \<Longrightarrow> \<exists>ms. v = JObj ms"
proof (cases v)
  case (JArr xs)
  assume a: "hasExactKeys (Some v) keys" "keys \<noteq> []" "''length'' \<notin> set keys"
    "list_all (\<lambda>k. \<not> list_all is_digit k) keys"
  then obtain k ks where k: "keys = k # ks" by (meson neq_Nil_conv)
  with a JArr have "k \<in> show_nat ` {0..<length xs}" by (auto simp: hasExactKeys_def)
  then have "list_all is_digit k" using show_nat_digits by (auto simp: list_all_iff)
  with a k show ?thesis by simp
qed (auto simp: hasExactKeys_def)

section \<open>Text of a value\<close>

text \<open>\<open>String(value)\<close>; in an array a null member is the empty text.\<close>

fun js_String :: "json \<Rightarrow> string" where
  "js_String JNull = ''null''"
| "js_String (JBool b) = (if b then ''true'' else ''false'')"
| "js_String (JNum n) = show_num n"
| "js_String (JStr s) = s"
| "js_String (JArr xs) = join '','' (map (\<lambda>x. if x = JNull then [] else js_String x) xs)"
| "js_String (JObj ms) = ''[object Object]''"

definition hex_digit :: "nat \<Rightarrow> char" where
  "hex_digit n = ''0123456789abcdef'' ! n"

definition json_char :: "char \<Rightarrow> string" where
  "json_char c =
     (let n = of_char c :: nat; bs = CHR 0x5C
      in if c = CHR 0x22 \<or> c = bs then [bs, c]
         else if n = 8 then [bs, CHR ''b''] else if n = 9 then [bs, CHR ''t''] else if n = 10 then [bs, CHR ''n'']
         else if n = 12 then [bs, CHR ''f''] else if n = 13 then [bs, CHR ''r'']
         else if n < 32 then [bs, CHR ''u'', CHR ''0'', CHR ''0'', hex_digit (n div 16), hex_digit (n mod 16)]
         else [c])"

definition json_quote :: "string \<Rightarrow> string" where
  "json_quote s = [CHR 0x22] @ concat (map json_char s) @ [CHR 0x22]"

text \<open>\<open>JSON.stringify(value)\<close> without indentation.\<close>

fun js_stringify :: "json \<Rightarrow> string" where
  "js_stringify JNull = ''null''"
| "js_stringify (JBool b) = (if b then ''true'' else ''false'')"
| "js_stringify (JNum n) = (case n of NaN \<Rightarrow> ''null'' | Dec m s \<Rightarrow> show_num (Dec m s))"
| "js_stringify (JStr s) = json_quote s"
| "js_stringify (JArr xs) = ''['' @ join '','' (map js_stringify xs) @ '']''"
| "js_stringify (JObj ms) = ''{'' @ join '','' (map (\<lambda>(k, v). json_quote k @ '':'' @ js_stringify v) ms) @ ''}''"

end
