(* ===== verification/DesktopMcp.thy ===== *)
theory DesktopMcp
  imports Json
begin

text \<open>
  The client of the desktop host's agent settings, \<open>frontend/src/lib/hooks/api/desktopMcp.ts\<close>,
  and the settings dialog that drives it, \<open>frontend/src/components/Settings/SettingsModal.tsx\<close>.
  \<open>fetch\<close> is a parameter: it answers a request or fails. The dialog is a step relation whose
  state records every request it has sent.
\<close>

section \<open>Types\<close>

record MCPSettings =
  enabled :: bool
  allowWrites :: bool

datatype ClientKind = Codex | ClaudeCode

datatype ClientStatus =
  client_not_found | not_configured | configured | configuration_conflict | repair_required | status_error

record ClientIntegration =
  client :: ClientKind
  status :: ClientStatus
  canConfigure :: bool
  manualCommand :: string
  message :: string

datatype DesktopMCPState = Unavailable | Available MCPSettings

definition invalidResponseError :: string where "invalidResponseError = ''Invalid desktop MCP response.''"
definition genericRequestError :: string where "genericRequestError = ''Desktop MCP request failed.''"

fun configurePaths :: "ClientKind \<Rightarrow> string" where
  "configurePaths Codex = ''/__desktop/mcp-integrations/codex/configure''"
| "configurePaths ClaudeCode = ''/__desktop/mcp-integrations/claude-code/configure''"

definition client_names :: "(string \<times> ClientKind) list" where
  "client_names = [(''codex'', Codex), (''claude-code'', ClaudeCode)]"

definition clientStatuses :: "(string \<times> ClientStatus) list" where
  "clientStatuses =
     [(''client_not_found'', client_not_found), (''not_configured'', not_configured), (''configured'', configured),
      (''configuration_conflict'', configuration_conflict), (''repair_required'', repair_required),
      (''error'', status_error)]"

definition desktopMcpErrorMessages :: "string obj" where
  "desktopMcpErrorMessages =
     [(''invalid_request'', ''Invalid request.''), (''desktop_only'', ''Desktop only.''),
      (''mcp_disabled'', ''MCP is disabled.''),
      (''write_confirmation_required'', ''Confirm write access before enabling it.''),
      (''client_not_found'', ''Client not found.''),
      (''concurrent_modification'', ''Configuration changed externally.''),
      (''rollback_failed'', ''Rollback failed.''),
      (''verification_failed'', ''Configuration verification failed.''),
      (''client_command_failed'', ''Client command failed.'')]"

section \<open>Validation\<close>

definition isMCPSettings :: "json \<Rightarrow> bool" where
  "isMCPSettings v \<longleftrightarrow>
     hasExactKeys (Some v) [''enabled'', ''allowWrites'']
     \<and> is_bool (member v ''enabled'') \<and> is_bool (member v ''allowWrites'')"

definition isClientKind :: "json option \<Rightarrow> bool" where
  "isClientKind v \<longleftrightarrow> is_string v \<and> map_of client_names (the_string v) \<noteq> None"

definition isClientIntegration :: "json \<Rightarrow> bool" where
  "isClientIntegration v \<longleftrightarrow>
     hasExactKeys (Some v) [''client'', ''status'', ''canConfigure'', ''manualCommand'', ''message'']
     \<and> isClientKind (member v ''client'')
     \<and> is_string (member v ''status'') \<and> map_of clientStatuses (the_string (member v ''status'')) \<noteq> None
     \<and> is_bool (member v ''canConfigure'') \<and> is_string (member v ''manualCommand'')
     \<and> is_string (member v ''message'')"

definition isUpdateMCPSettingsRequest :: "json \<Rightarrow> bool" where
  "isUpdateMCPSettingsRequest v \<longleftrightarrow>
     hasExactKeys (Some v) [''enabled'', ''allowWrites'', ''confirmWrites'']
     \<and> is_bool (member v ''enabled'') \<and> is_bool (member v ''allowWrites'') \<and> is_bool (member v ''confirmWrites'')"

definition isConfigureClientRequest :: "json \<Rightarrow> bool" where
  "isConfigureClientRequest v \<longleftrightarrow>
     hasExactKeys (Some v) [''client'', ''replace'']
     \<and> isClientKind (member v ''client'') \<and> is_bool (member v ''replace'')"

definition isIntegrationsResponse :: "json \<Rightarrow> bool" where
  "isIntegrationsResponse v \<longleftrightarrow>
     hasExactKeys (Some v) [''clients'']
     \<and> (case member v ''clients'' of Some (JArr xs) \<Rightarrow> list_all isClientIntegration xs | _ \<Rightarrow> False)"

definition safeError :: "json \<Rightarrow> js_error" where
  "safeError v =
     (if hasExactKeys (Some v) [''code'', ''message'']
         \<and> is_string (member v ''code'') \<and> is_string (member v ''message'')
         \<and> map_of desktopMcpErrorMessages (the_string (member v ''code'')) = Some (the_string (member v ''message''))
      then ErrorMsg (the_string (member v ''message'')) else ErrorMsg genericRequestError)"

section \<open>Requests\<close>

record request =
  req_path :: string
  req_method :: string
  req_body :: "json option"

text \<open>A response carries its status and what reading its body as JSON gives, if it succeeds.\<close>

record response =
  resp_status :: nat
  resp_json :: "json option"

definition resp_ok :: "response \<Rightarrow> bool" where
  "resp_ok r \<longleftrightarrow> 200 \<le> resp_status r \<and> resp_status r \<le> 299"

definition readJSON :: "response \<Rightarrow> json res" where
  "readJSON r =
     (case resp_json r of
        Some v \<Rightarrow> Inr v
      | None \<Rightarrow> Inl (ErrorMsg (if resp_ok r then invalidResponseError else genericRequestError)))"

definition checked :: "(json \<Rightarrow> bool) \<Rightarrow> (json \<Rightarrow> 'a) \<Rightarrow> response \<Rightarrow> 'a res" where
  "checked valid decode r =
     bind_res (readJSON r) (\<lambda>body.
       if \<not> resp_ok r then Inl (safeError body)
       else if \<not> valid body then Inl (ErrorMsg invalidResponseError)
       else Inr (decode body))"

definition settings_of :: "json \<Rightarrow> MCPSettings" where
  "settings_of v = \<lparr>enabled = the_bool (member v ''enabled''), allowWrites = the_bool (member v ''allowWrites'')\<rparr>"

definition integration_of :: "json \<Rightarrow> ClientIntegration" where
  "integration_of v =
     \<lparr>client = the (map_of client_names (the_string (member v ''client''))),
      status = the (map_of clientStatuses (the_string (member v ''status''))),
      canConfigure = the_bool (member v ''canConfigure''),
      manualCommand = the_string (member v ''manualCommand''),
      message = the_string (member v ''message'')\<rparr>"

definition getSettings :: "(request \<Rightarrow> response res) \<Rightarrow> DesktopMCPState res" where
  "getSettings fetch =
     bind_res (fetch \<lparr>req_path = ''/__desktop/mcp-settings'', req_method = ''GET'', req_body = None\<rparr>) (\<lambda>r.
       if resp_status r = 404 then Inr Unavailable
       else bind_res (checked isMCPSettings settings_of r) (\<lambda>s. Inr (Available s)))"

definition update_request :: "json \<Rightarrow> request" where
  "update_request input =
     \<lparr>req_path = ''/__desktop/mcp-settings'', req_method = ''PUT'',
      req_body = Some (JObj [(''enabled'', JBool (the_bool (member input ''enabled''))),
        (''allowWrites'', JBool (the_bool (member input ''allowWrites''))),
        (''confirmWrites'', JBool (the_bool (member input ''confirmWrites'')))])\<rparr>"

definition updateSettings :: "(request \<Rightarrow> response res) \<Rightarrow> json \<Rightarrow> MCPSettings res" where
  "updateSettings fetch input =
     (if \<not> isUpdateMCPSettingsRequest input then Inl (ErrorMsg genericRequestError)
      else bind_res (fetch (update_request input)) (checked isMCPSettings settings_of))"

definition getIntegrations :: "(request \<Rightarrow> response res) \<Rightarrow> ClientIntegration list res" where
  "getIntegrations fetch =
     bind_res (fetch \<lparr>req_path = ''/__desktop/mcp-integrations'', req_method = ''GET'', req_body = None\<rparr>)
       (checked isIntegrationsResponse (\<lambda>v.
          case member v ''clients'' of Some (JArr xs) \<Rightarrow> map integration_of xs | _ \<Rightarrow> []))"

definition configure_request :: "json \<Rightarrow> request" where
  "configure_request input =
     \<lparr>req_path = configurePaths (the (map_of client_names (the_string (member input ''client'')))),
      req_method = ''POST'',
      req_body = Some (JObj [(''replace'', JBool (the_bool (member input ''replace'')))])\<rparr>"

definition configureClient :: "(request \<Rightarrow> response res) \<Rightarrow> json \<Rightarrow> ClientIntegration res" where
  "configureClient fetch input =
     (if \<not> isConfigureClientRequest input then Inl (ErrorMsg genericRequestError)
      else bind_res (fetch (configure_request input)) (checked isClientIntegration integration_of))"

text \<open>The query keys a successful change invalidates.\<close>

definition invalidateDesktopMcpQueries :: "string list list" where
  "invalidateDesktopMcpQueries = [[''desktop-mcp'', ''settings''], [''desktop-mcp'', ''integrations'']]"

section \<open>What a caller can see\<close>

definition safe_messages :: "string list" where
  "safe_messages = invalidResponseError # genericRequestError # map snd desktopMcpErrorMessages"

lemma safeError_safe: "\<exists>m. safeError v = ErrorMsg m \<and> m \<in> set safe_messages"
proof -
  have "s \<in> snd ` set desktopMcpErrorMessages" if "map_of desktopMcpErrorMessages c = Some s" for c s
    using map_of_SomeD [OF that] by force
  then show ?thesis by (auto simp: safeError_def safe_messages_def)
qed

lemma checked_error: "checked valid decode r = Inl e \<Longrightarrow> \<exists>m. e = ErrorMsg m \<and> m \<in> set safe_messages"
  using safeError_safe
  by (auto simp: checked_def bind_res_Inl_iff readJSON_def safe_messages_def split: option.splits if_splits)

lemma checked_value:
  "checked valid decode r = Inr x \<longleftrightarrow>
     (\<exists>v. resp_json r = Some v \<and> resp_ok r \<and> valid v \<and> x = decode v)"
  by (auto simp: checked_def bind_res_Inr_iff readJSON_def split: option.splits if_splits)

lemma fetch_or_safe:
  "bind_res (fetch q) (checked valid decode) = Inl e \<Longrightarrow>
   fetch q = Inl e \<or> (\<exists>m. e = ErrorMsg m \<and> m \<in> set safe_messages)"
  by (auto simp: bind_res_Inl_iff dest: checked_error)

text \<open>
  Nothing the host sends reaches the user as an error text: every error of the four
  operations is the failure of the request itself or has one of eleven fixed messages.
\<close>

theorem errors_are_fixed:
  assumes "getSettings fetch = Inl e \<or> updateSettings fetch input = Inl e
    \<or> getIntegrations fetch = Inl e \<or> configureClient fetch input = Inl e"
  shows "(\<exists>q. fetch q = Inl e) \<or> (\<exists>m. e = ErrorMsg m \<and> m \<in> set safe_messages \<and> length safe_messages = 11)"
proof -
  have "length safe_messages = 11" by (simp add: safe_messages_def desktopMcpErrorMessages_def)
  moreover have "genericRequestError \<in> set safe_messages" by (simp add: safe_messages_def)
  ultimately show ?thesis
    using assms fetch_or_safe [of fetch]
    by (auto simp: getSettings_def updateSettings_def getIntegrations_def configureClient_def bind_res_Inl_iff
        split: if_splits dest: checked_error)
qed

definition sample_fetch :: "request \<Rightarrow> response res" where
  "sample_fetch q = Inr \<lparr>resp_status = 500, resp_json = Some (JObj [(''code'', JStr ''rollback_failed''),
     (''message'', JStr ''<script>'')])\<rparr>"

theorem errors_are_fixed_witness:
  "getSettings sample_fetch = Inl (ErrorMsg genericRequestError) \<and> genericRequestError \<in> set safe_messages"
proof -
  have g: "getSettings sample_fetch = Inl (ErrorMsg genericRequestError)"
    by (simp add: getSettings_def sample_fetch_def checked_def readJSON_def resp_ok_def safeError_def
        hasExactKeys_def is_string_def the_string_def desktopMcpErrorMessages_def)
  have "\<not> (\<exists>q. sample_fetch q = Inl (ErrorMsg genericRequestError))" by (simp add: sample_fetch_def)
  with errors_are_fixed [of sample_fetch "ErrorMsg genericRequestError" JNull] g show ?thesis by auto
qed

lemma isMCPSettings_iff:
  "isMCPSettings v \<longleftrightarrow> (\<exists>ms a b. v = JObj ms \<and> length ms = 2
     \<and> map_of ms ''enabled'' = Some (JBool a) \<and> map_of ms ''allowWrites'' = Some (JBool b))"
proof
  assume "isMCPSettings v"
  then have k: "hasExactKeys (Some v) [''enabled'', ''allowWrites'']"
    "is_bool (member v ''enabled'')" "is_bool (member v ''allowWrites'')" by (simp_all add: isMCPSettings_def)
  from exact_keys_object [OF k(1)] obtain ms where "v = JObj ms" by (auto simp: is_digit_def)
  with k show "\<exists>ms a b. v = JObj ms \<and> length ms = 2
     \<and> map_of ms ''enabled'' = Some (JBool a) \<and> map_of ms ''allowWrites'' = Some (JBool b)"
    by (auto simp: hasExactKeys_def is_bool_iff)
qed (auto simp: isMCPSettings_def hasExactKeys_def is_bool_iff)

text \<open>
  A change of the settings is sent and accepted only as specified: it succeeds exactly
  when the input has the three boolean members and no other, the host answers with success,
  and its body is an object of exactly two members, both booleans; the result is then these
  two values.
\<close>

theorem settings_are_validated:
  "updateSettings fetch input = Inr s \<longleftrightarrow>
     isUpdateMCPSettingsRequest input
   \<and> (\<exists>r ms. fetch (update_request input) = Inr r \<and> 200 \<le> resp_status r \<and> resp_status r \<le> 299
        \<and> resp_json r = Some (JObj ms) \<and> length ms = 2
        \<and> map_of ms ''enabled'' = Some (JBool (enabled s))
        \<and> map_of ms ''allowWrites'' = Some (JBool (allowWrites s)))"
proof -
  have dec: "isMCPSettings v \<and> s = settings_of v \<longleftrightarrow> (\<exists>ms. v = JObj ms \<and> length ms = 2
     \<and> map_of ms ''enabled'' = Some (JBool (enabled s)) \<and> map_of ms ''allowWrites'' = Some (JBool (allowWrites s)))" for v
    by (cases s) (auto simp: isMCPSettings_iff settings_of_def the_bool_def)
  have "checked isMCPSettings settings_of r = Inr s \<longleftrightarrow>
      resp_ok r \<and> (\<exists>v. resp_json r = Some v \<and> isMCPSettings v \<and> s = settings_of v)" for r
    by (auto simp: checked_value)
  then show ?thesis by (auto simp: updateSettings_def bind_res_Inr_iff dec resp_ok_def)
qed

section \<open>The settings dialog\<close>

text \<open>
  \<open>writes_confirmation\<close> is the state of the dialog that asks before writes are allowed. A
  request in flight remembers which handler waits for it; its number is its position in the
  list of requests sent. A mutation is pending while the request it tracks is in flight;
  resetting it on closing or opening forgets the request, which still completes.
\<close>

datatype writes_confirmation = NotConfirming | Confirming | Submitting

datatype waiting = PersistSettings | ConfirmingWrites | SubmittingClient

datatype sent = UpdateSent bool bool bool | ConfigureSent ClientKind bool

record modal =
  isOpen :: bool
  settings :: "MCPSettings option"
  confirmingWrites :: writes_confirmation
  confirmingClientReplacement :: "ClientKind option"
  submittingClient :: "ClientKind option"
  mcp_error :: "string option"
  updatePending :: "nat option"
  configurePending :: "nat option"
  inflight :: "(nat \<times> waiting) list"
  sent_log :: "sent list"

definition initial_modal :: modal where
  "initial_modal =
     \<lparr>isOpen = False, settings = None, confirmingWrites = NotConfirming, confirmingClientReplacement = None,
      submittingClient = None, mcp_error = None, updatePending = None, configurePending = None,
      inflight = [], sent_log = []\<rparr>"

definition settings_enabled :: "modal \<Rightarrow> bool" where
  "settings_enabled s \<longleftrightarrow> (case settings s of Some v \<Rightarrow> enabled v | None \<Rightarrow> False)"

definition send_update :: "waiting \<Rightarrow> bool \<Rightarrow> bool \<Rightarrow> bool \<Rightarrow> modal \<Rightarrow> modal" where
  "send_update w en aw cw s =
     s\<lparr>mcp_error := None, updatePending := Some (length (sent_log s)),
       inflight := inflight s @ [(length (sent_log s), w)], sent_log := sent_log s @ [UpdateSent en aw cw]\<rparr>"

definition toggleMCP :: "modal \<Rightarrow> modal" where
  "toggleMCP s =
     (case settings s of
        None \<Rightarrow> s
      | Some v \<Rightarrow>
          if updatePending s \<noteq> None then s
          else if enabled v then send_update PersistSettings False False False s
          else send_update PersistSettings True False False s)"

definition toggleWrites :: "modal \<Rightarrow> modal" where
  "toggleWrites s =
     (case settings s of
        None \<Rightarrow> s
      | Some v \<Rightarrow>
          if \<not> enabled v \<or> updatePending s \<noteq> None then s
          else if allowWrites v then send_update PersistSettings True False False s
          else s\<lparr>confirmingWrites := Confirming\<rparr>)"

definition confirmWrites :: "modal \<Rightarrow> modal" where
  "confirmWrites s =
     (if confirmingWrites s = Submitting \<or> updatePending s \<noteq> None then s
      else send_update ConfirmingWrites True True True (s\<lparr>confirmingWrites := Submitting\<rparr>))"

definition submitClient :: "ClientKind \<Rightarrow> bool \<Rightarrow> modal \<Rightarrow> modal" where
  "submitClient c replace s =
     (if \<not> settings_enabled s \<or> submittingClient s \<noteq> None \<or> configurePending s \<noteq> None then s
      else s\<lparr>submittingClient := Some c, mcp_error := None, configurePending := Some (length (sent_log s)),
             inflight := inflight s @ [(length (sent_log s), SubmittingClient)],
             sent_log := sent_log s @ [ConfigureSent c replace]\<rparr>)"

text \<open>The button of a client, by the status the host reports for it.\<close>

definition client_action :: "ClientIntegration \<Rightarrow> modal \<Rightarrow> modal" where
  "client_action c s =
     (if status c \<in> {configured, status_error, client_not_found} then s
      else if \<not> settings_enabled s \<or> \<not> canConfigure c \<or> configurePending s \<noteq> None then s
      else if status c = configuration_conflict \<or> status c = repair_required
      then s\<lparr>confirmingClientReplacement := Some (client c)\<rparr>
      else submitClient (client c) False s)"

definition clearTransientState :: "modal \<Rightarrow> modal" where
  "clearTransientState s =
     s\<lparr>confirmingWrites := NotConfirming, confirmingClientReplacement := None, submittingClient := None,
       mcp_error := None\<rparr>"

definition reset_mutations :: "modal \<Rightarrow> modal" where
  "reset_mutations s = s\<lparr>updatePending := None, configurePending := None\<rparr>"

definition settle :: "nat \<Rightarrow> waiting \<Rightarrow> string option \<Rightarrow> modal \<Rightarrow> modal" where
  "settle n w failure s =
     (let s = s\<lparr>inflight := remove1 (n, w) (inflight s),
                updatePending := (if updatePending s = Some n then None else updatePending s),
                configurePending := (if configurePending s = Some n then None else configurePending s),
                mcp_error := (case failure of Some m \<Rightarrow> Some m | None \<Rightarrow> mcp_error s)\<rparr>
      in case w of
           PersistSettings \<Rightarrow> s
         | ConfirmingWrites \<Rightarrow> s\<lparr>confirmingWrites := NotConfirming\<rparr>
         | SubmittingClient \<Rightarrow> s\<lparr>confirmingClientReplacement := None, submittingClient := None\<rparr>)"

text \<open>The main dialog is shown while it is open and no question is asked.\<close>

definition main_shown :: "modal \<Rightarrow> bool" where
  "main_shown s \<longleftrightarrow> isOpen s \<and> confirmingWrites s = NotConfirming \<and> confirmingClientReplacement s = None"

datatype modal_event =
  OpenModal | CloseModal | Loaded "MCPSettings option" | ToggleMCP | ToggleWrites | ConfirmWrites | CancelWrites
| ClientButton ClientIntegration | ConfirmReplace | CancelReplace | Settled nat waiting "string option" | DismissError

inductive modal_step :: "modal_event \<Rightarrow> modal \<Rightarrow> modal \<Rightarrow> bool" where
  open_modal: "\<not> isOpen s \<Longrightarrow> modal_step OpenModal s ((reset_mutations s)\<lparr>isOpen := True\<rparr>)"
| close_modal: "isOpen s \<Longrightarrow>
    modal_step CloseModal s ((reset_mutations (clearTransientState s))\<lparr>isOpen := False\<rparr>)"
| loaded: "modal_step (Loaded v) s (s\<lparr>settings := v\<rparr>)"
| toggle_mcp: "main_shown s \<Longrightarrow> modal_step ToggleMCP s (toggleMCP s)"
| toggle_writes: "main_shown s \<Longrightarrow> modal_step ToggleWrites s (toggleWrites s)"
| confirm_writes: "isOpen s \<Longrightarrow> confirmingWrites s \<noteq> NotConfirming \<Longrightarrow> modal_step ConfirmWrites s (confirmWrites s)"
| cancel_writes: "isOpen s \<Longrightarrow> confirmingWrites s = Confirming \<Longrightarrow> updatePending s = None \<Longrightarrow>
    modal_step CancelWrites s (s\<lparr>confirmingWrites := NotConfirming\<rparr>)"
| client_button: "main_shown s \<Longrightarrow> modal_step (ClientButton c) s (client_action c s)"
| confirm_replace: "isOpen s \<Longrightarrow> confirmingClientReplacement s = Some c \<Longrightarrow>
    modal_step ConfirmReplace s (submitClient c True s)"
| cancel_replace: "isOpen s \<Longrightarrow> confirmingClientReplacement s \<noteq> None \<Longrightarrow> submittingClient s = None \<Longrightarrow>
    modal_step CancelReplace s (s\<lparr>confirmingClientReplacement := None\<rparr>)"
| settled: "(n, w) \<in> set (inflight s) \<Longrightarrow> modal_step (Settled n w failure) s (settle n w failure s)"
| dismiss_error: "modal_step DismissError s (s\<lparr>mcp_error := None\<rparr>)"

code_pred modal_step .

inductive modal_run :: "modal_event list \<Rightarrow> modal \<Rightarrow> bool" where
  start: "modal_run [] initial_modal"
| more: "modal_run es s \<Longrightarrow> modal_step e s s' \<Longrightarrow> modal_run (es @ [e]) s'"

inductive_cases modal_stepE: "modal_step e s s'"

section \<open>Nothing dangerous is sent unasked\<close>

text \<open>
  Requests that allow writes and requests that replace a foreign configuration, the user
  actions that ask for the former, and those whose answer may be the latter.
\<close>

fun writes_sent :: "sent \<Rightarrow> bool" where
  "writes_sent (UpdateSent en aw cw) = (aw \<or> cw)"
| "writes_sent (ConfigureSent c r) = False"

fun replace_sent :: "sent \<Rightarrow> bool" where
  "replace_sent (UpdateSent en aw cw) = False"
| "replace_sent (ConfigureSent c r) = r"

fun asks_replace :: "modal_event \<Rightarrow> bool" where
  "asks_replace (ClientButton c) = (status c = configuration_conflict \<or> status c = repair_required)"
| "asks_replace _ = False"

definition modal_inv :: "modal_event list \<Rightarrow> modal \<Rightarrow> bool" where
  "modal_inv es s \<longleftrightarrow>
     length (filter writes_sent (sent_log s)) + (if confirmingWrites s = Confirming then 1 else 0)
       \<le> length (filter (\<lambda>e. e = ToggleWrites) es)
   \<and> length (filter writes_sent (sent_log s)) \<le> length (filter (\<lambda>e. e = ConfirmWrites) es)
   \<and> length (filter replace_sent (sent_log s))
       + (if confirmingClientReplacement s \<noteq> None \<and> submittingClient s = None then 1 else 0)
       \<le> length (filter asks_replace es)
   \<and> length (filter replace_sent (sent_log s)) \<le> length (filter (\<lambda>e. e = ConfirmReplace) es)
   \<and> (submittingClient s \<noteq> None \<longrightarrow> isOpen s \<and> configurePending s \<noteq> None)
   \<and> list_all (\<lambda>r. writes_sent r \<longrightarrow> r = UpdateSent True True True) (sent_log s)"

fun is_configure :: "sent \<Rightarrow> bool" where
  "is_configure (ConfigureSent c r) = True"
| "is_configure (UpdateSent en aw cw) = False"

definition flight_inv :: "modal \<Rightarrow> bool" where
  "flight_inv s \<longleftrightarrow>
     (\<forall>(n, w)\<in>set (inflight s). n < length (sent_log s)
        \<and> (w = SubmittingClient \<longleftrightarrow> is_configure (sent_log s ! n)))
   \<and> (\<forall>n. configurePending s = Some n \<longrightarrow> n < length (sent_log s) \<and> is_configure (sent_log s ! n))"

lemmas modal_defs = modal_inv_def reset_mutations_def clearTransientState_def toggleMCP_def toggleWrites_def
  confirmWrites_def send_update_def submitClient_def client_action_def main_shown_def settle_def Let_def

lemma modal_inv_initial: "modal_inv [] initial_modal"
  by (simp add: modal_inv_def initial_modal_def)

lemma flight_inv_initial: "flight_inv initial_modal"
  by (simp add: flight_inv_def initial_modal_def)

lemma flight_send_update:
  "flight_inv s \<Longrightarrow> w \<noteq> SubmittingClient \<Longrightarrow> flight_inv (send_update w en aw cw s)"
  by (auto simp: flight_inv_def send_update_def nth_append less_Suc_eq split_beta)

lemma flight_submit: "flight_inv s \<Longrightarrow> flight_inv (submitClient c r s)"
  by (auto simp: flight_inv_def submitClient_def nth_append less_Suc_eq split_beta)

lemma flight_cong:
  "flight_inv s \<Longrightarrow> inflight t = inflight s \<Longrightarrow> sent_log t = sent_log s \<Longrightarrow>
   configurePending t = configurePending s \<or> configurePending t = None \<Longrightarrow> flight_inv t"
  by (auto simp: flight_inv_def)

lemma flight_settle: "flight_inv s \<Longrightarrow> flight_inv (settle n w failure s)"
proof -
  assume "flight_inv s"
  then have "flight_inv (s\<lparr>inflight := remove1 (n, w) (inflight s),
      configurePending := (if configurePending s = Some n then None else configurePending s)\<rparr>)"
    by (auto simp: flight_inv_def dest: notin_set_remove1)
  then show ?thesis by (rule flight_cong) (simp_all add: settle_def Let_def split: waiting.split)
qed

lemma flight_step: "modal_step e s s' \<Longrightarrow> flight_inv s \<Longrightarrow> flight_inv s'"
proof (induction rule: modal_step.induct)
  case (toggle_mcp s)
  then show ?case by (simp add: toggleMCP_def flight_send_update split: option.split)
next
  case (toggle_writes s)
  then show ?case by (auto simp: toggleWrites_def flight_send_update split: option.split intro: flight_cong)
next
  case (confirm_writes s)
  from confirm_writes(3) have "flight_inv (s\<lparr>confirmingWrites := Submitting\<rparr>)" by (rule flight_cong) simp_all
  then show ?case using confirm_writes(3) by (simp add: confirmWrites_def flight_send_update)
next
  case (client_button s c)
  then show ?case by (auto simp: client_action_def flight_submit intro: flight_cong)
next
  case (settled n w s failure)
  then show ?case by (simp add: flight_settle)
qed (auto simp: flight_submit reset_mutations_def clearTransientState_def intro: flight_cong)

lemma count_more: "length (filter P es) \<le> length (filter P (es @ [e]))"
  by simp

lemma inv_more: "modal_inv es s \<Longrightarrow> modal_inv (es @ [e]) s"
  unfolding modal_inv_def
  by (elim conjE, intro conjI) (assumption | erule order_trans, rule count_more)+

lemma inv_send_plain:
  "modal_inv es s \<Longrightarrow> \<not> aw \<Longrightarrow> \<not> cw \<Longrightarrow> modal_inv es (send_update w en aw cw s)"
  by (simp add: modal_inv_def send_update_def)

lemma inv_cong:
  assumes "modal_inv es s" and "sent_log t = sent_log s"
    and "confirmingWrites t = confirmingWrites s \<or> confirmingWrites t \<noteq> Confirming"
    and "confirmingClientReplacement t = None
      \<or> confirmingClientReplacement t = confirmingClientReplacement s \<and> submittingClient t = submittingClient s"
    and "submittingClient t = None
      \<or> submittingClient t = submittingClient s \<and> configurePending t = configurePending s \<and> isOpen t = isOpen s"
  shows "modal_inv es t"
proof -
  have "(if confirmingWrites t = Confirming then 1 else 0) \<le> (if confirmingWrites s = Confirming then 1 else (0 :: nat))"
    using assms(3) by auto
  moreover have "(if confirmingClientReplacement t \<noteq> None \<and> submittingClient t = None then 1 else 0)
      \<le> (if confirmingClientReplacement s \<noteq> None \<and> submittingClient s = None then 1 else (0 :: nat))"
    using assms(4) by auto
  moreover have "submittingClient t \<noteq> None \<longrightarrow> isOpen t \<and> configurePending t \<noteq> None"
    using assms(1,5) by (auto simp: modal_inv_def)
  ultimately show ?thesis using assms(1) unfolding modal_inv_def assms(2) by linarith
qed

lemma modal_inv_step: "modal_step e s s' \<Longrightarrow> modal_inv es s \<Longrightarrow> flight_inv s \<Longrightarrow> modal_inv (es @ [e]) s'"
proof (induction rule: modal_step.induct)
  case (toggle_mcp s)
  from inv_more [OF toggle_mcp(2)] show ?case
    by (simp add: toggleMCP_def inv_send_plain split: option.split)
next
  case (toggle_writes s)
  have "modal_inv (es @ [ToggleWrites]) (s\<lparr>confirmingWrites := Confirming\<rparr>)"
    using toggle_writes by (simp add: modal_inv_def main_shown_def)
  with inv_more [OF toggle_writes(2), of ToggleWrites] show ?case
    by (simp add: toggleWrites_def inv_send_plain split: option.split)
next
  case (confirm_writes s)
  show ?case
  proof (cases "confirmingWrites s = Confirming \<and> updatePending s = None")
    case True
    with confirm_writes(3) show ?thesis by (simp add: confirmWrites_def send_update_def modal_inv_def)
  next
    case False
    with confirm_writes(2) have "confirmWrites s = s" by (cases "confirmingWrites s") (simp_all add: confirmWrites_def)
    with inv_more [OF confirm_writes(3)] show ?thesis by simp
  qed
next
  case (client_button s c)
  have sub: "submitClient (client c) False s = s \<or> modal_inv (es @ [ClientButton c]) (submitClient (client c) False s)"
    using inv_more [OF client_button(2), of "ClientButton c"] client_button(1,2)
    by (simp add: submitClient_def modal_inv_def main_shown_def)
  have ask: "asks_replace (ClientButton c) \<Longrightarrow> configurePending s = None \<Longrightarrow>
      modal_inv (es @ [ClientButton c]) (s\<lparr>confirmingClientReplacement := Some (client c)\<rparr>)"
    using client_button by (auto simp: modal_inv_def main_shown_def)
  show ?case
    using sub ask inv_more [OF client_button(2), of "ClientButton c"] by (auto simp: client_action_def)
next
  case (confirm_replace s c)
  show ?case
  proof (cases "settings_enabled s \<and> submittingClient s = None \<and> configurePending s = None")
    case True
    with confirm_replace show ?thesis by (simp add: submitClient_def modal_inv_def)
  next
    case False
    then have "submitClient c True s = s" by (auto simp: submitClient_def)
    with inv_more [OF confirm_replace(3)] show ?thesis by simp
  qed
next
  case (settled n w s failure)
  have w: "w = SubmittingClient" if "configurePending s = Some n"
    using settled that by (auto simp: flight_inv_def)
  show ?case
  proof (cases w)
    case SubmittingClient
    with inv_more [OF settled(2), of "Settled n w failure"] show ?thesis
      by (elim inv_cong) (simp_all add: settle_def Let_def)
  next
    case PersistSettings
    with w have "configurePending s \<noteq> Some n" by auto
    with PersistSettings inv_more [OF settled(2), of "Settled n w failure"] show ?thesis
      by (elim inv_cong) (simp_all add: settle_def Let_def)
  next
    case ConfirmingWrites
    with w have "configurePending s \<noteq> Some n" by auto
    with ConfirmingWrites inv_more [OF settled(2), of "Settled n w failure"] show ?thesis
      by (elim inv_cong) (simp_all add: settle_def Let_def)
  qed
next
  case (open_modal s)
  then have "submittingClient s = None" by (auto simp: modal_inv_def)
  with inv_more [OF open_modal(2), of OpenModal] show ?case
    by (elim inv_cong) (simp_all add: reset_mutations_def)
next
  case (close_modal s)
  from inv_more [OF close_modal(2), of CloseModal] show ?case
    by (elim inv_cong) (simp_all add: reset_mutations_def clearTransientState_def)
next
  case (loaded v s)
  from inv_more [OF loaded(1), of "Loaded v"] show ?case by (elim inv_cong) simp_all
next
  case (cancel_writes s)
  from inv_more [OF cancel_writes(4), of CancelWrites] show ?case by (elim inv_cong) simp_all
next
  case (cancel_replace s)
  from inv_more [OF cancel_replace(4), of CancelReplace] show ?case by (elim inv_cong) simp_all
next
  case (dismiss_error s)
  from inv_more [OF dismiss_error(1), of DismissError] show ?case by (elim inv_cong) simp_all
qed

lemma modal_inv_run: "modal_run es s \<Longrightarrow> modal_inv es s \<and> flight_inv s"
  by (induction rule: modal_run.induct)
    (simp_all add: modal_inv_initial flight_inv_initial modal_inv_step flight_step)

text \<open>
  C9. The settings dialog never allows writes or replaces a foreign configuration on its
  own: over every run from the closed dialog, each request that allows writes enables,
  allows and confirms together, there are at most as many of them as times the user asked to
  allow writes and at most as many as times the user confirmed it, and there are at most as
  many replacing requests as times the user pressed the button of a conflicting or broken
  client and at most as many as times the user confirmed the replacement.
\<close>

theorem nothing_sent_unasked:
  assumes "modal_run es s"
  shows "list_all (\<lambda>r. writes_sent r \<longrightarrow> r = UpdateSent True True True) (sent_log s)
    \<and> length (filter writes_sent (sent_log s)) \<le> length (filter (\<lambda>e. e = ToggleWrites) es)
    \<and> length (filter writes_sent (sent_log s)) \<le> length (filter (\<lambda>e. e = ConfirmWrites) es)
    \<and> length (filter replace_sent (sent_log s)) \<le> length (filter asks_replace es)
    \<and> length (filter replace_sent (sent_log s)) \<le> length (filter (\<lambda>e. e = ConfirmReplace) es)"
  using modal_inv_run [OF assms] unfolding modal_inv_def by linarith

theorem nothing_sent_unasked_witness:
  "\<exists>s. modal_run [Loaded (Some \<lparr>enabled = True, allowWrites = False\<rparr>), OpenModal, ToggleWrites, ConfirmWrites] s
     \<and> sent_log s = [UpdateSent True True True]"
proof -
  let ?v = "\<lparr>enabled = True, allowWrites = False\<rparr>"
  let ?s1 = "initial_modal\<lparr>settings := Some ?v\<rparr>"
  let ?s2 = "(reset_mutations ?s1)\<lparr>isOpen := True\<rparr>"
  let ?s3 = "toggleWrites ?s2" and ?s4 = "confirmWrites (toggleWrites ?s2)"
  have r1: "modal_run [Loaded (Some ?v)] ?s1"
    using modal_run.more [OF modal_run.start modal_step.loaded [of "Some ?v"]] by simp
  have "\<not> isOpen ?s1" by (simp add: initial_modal_def)
  with modal_run.more [OF r1 modal_step.open_modal] have r2: "modal_run [Loaded (Some ?v), OpenModal] ?s2" by simp
  have "main_shown ?s2" by (simp add: main_shown_def reset_mutations_def initial_modal_def)
  with modal_run.more [OF r2 modal_step.toggle_writes]
  have r3: "modal_run [Loaded (Some ?v), OpenModal, ToggleWrites] ?s3" by simp
  have s3: "isOpen ?s3" "confirmingWrites ?s3 \<noteq> NotConfirming"
    by (simp_all add: toggleWrites_def reset_mutations_def initial_modal_def)
  from modal_run.more [OF r3 modal_step.confirm_writes [OF s3]]
  have r4: "modal_run [Loaded (Some ?v), OpenModal, ToggleWrites, ConfirmWrites] ?s4" by simp
  have "sent_log ?s4 = [UpdateSent True True True]"
    by (simp add: toggleWrites_def confirmWrites_def send_update_def reset_mutations_def initial_modal_def)
  moreover have "list_all (\<lambda>r. writes_sent r \<longrightarrow> r = UpdateSent True True True) (sent_log ?s4)"
    using nothing_sent_unasked [OF r4] by blast
  ultimately show ?thesis using r4 by blast
qed

end
