(* ===== verification/DesktopUpdates.thy ===== *)
theory DesktopUpdates
  imports Json
begin

text \<open>
  Updates offered by the desktop host: the validation of the statuses it sends and the
  subscription to them, \<open>frontend/src/lib/hooks/api/desktopUpdates.ts\<close>, and the section that
  asks before installing, \<open>frontend/src/components/Settings/UpdateSection.tsx\<close>. The effects
  that run after a render are applied after each event.
\<close>

section \<open>Statuses\<close>

record DesktopUpdateStatus =
  available :: bool
  currentVersion :: string
  status_name :: string
  version :: "string option"
  update_notes :: "string option"
  downloadedBytes :: js_num
  totalBytes :: "js_num option"
  scheduled :: bool
  status_message :: "string option"

definition statusNames :: "string list" where
  "statusNames =
     [''idle'', ''checking'', ''downloading'', ''ready'', ''up_to_date'', ''error'', ''installing'', ''unavailable'']"

definition isOptionalString :: "json option \<Rightarrow> bool" where
  "isOptionalString v \<longleftrightarrow> v = None \<or> is_string v"

text \<open>\<open>typeof v === 'number' && Number.isFinite(v) && !(v < 0)\<close>\<close>

definition is_size :: "json option \<Rightarrow> bool" where
  "is_size v \<longleftrightarrow> (case v of Some (JNum (Dec m _)) \<Rightarrow> 0 \<le> m | _ \<Rightarrow> False)"

definition the_num :: "json option \<Rightarrow> js_num" where
  "the_num v = (case v of Some (JNum n) \<Rightarrow> n | _ \<Rightarrow> NaN)"

definition readDesktopUpdateStatus :: "json option \<Rightarrow> DesktopUpdateStatus option" where
  "readDesktopUpdateStatus value =
     (if \<not> isRecord value then None
      else let c = the value
        in if \<not> is_bool (member c ''available'') \<or> \<not> is_string (member c ''currentVersion'')
              \<or> \<not> (is_string (member c ''status'') \<and> the_string (member c ''status'') \<in> set statusNames)
              \<or> \<not> is_size (member c ''downloadedBytes'')
              \<or> member c ''totalBytes'' \<noteq> None \<and> \<not> is_size (member c ''totalBytes'')
              \<or> \<not> is_bool (member c ''scheduled'')
              \<or> \<not> isOptionalString (member c ''version'') \<or> \<not> isOptionalString (member c ''notes'')
              \<or> \<not> isOptionalString (member c ''message'')
           then None
           else Some \<lparr>available = the_bool (member c ''available''),
             currentVersion = the_string (member c ''currentVersion''),
             status_name = the_string (member c ''status''),
             version = map_option (\<lambda>v. the_string (Some v)) (member c ''version''),
             update_notes = map_option (\<lambda>v. the_string (Some v)) (member c ''notes''),
             downloadedBytes = the_num (member c ''downloadedBytes''),
             totalBytes = map_option (\<lambda>v. the_num (Some v)) (member c ''totalBytes''),
             scheduled = the_bool (member c ''scheduled''),
             status_message = map_option (\<lambda>v. the_string (Some v)) (member c ''message'')\<rparr>)"

text \<open>
  \<open>Math.min(100, Math.floor((downloaded / total) * 100))\<close> while downloading, on exact
  quotients.
\<close>

definition progress :: "DesktopUpdateStatus \<Rightarrow> int option" where
  "progress s =
     (case (downloadedBytes s, totalBytes s) of
        (Dec d ds, Some (Dec t ts)) \<Rightarrow>
          if status_name s = ''downloading'' \<and> t > 0
          then Some (min 100 ((d * 10 ^ ts * 100) div (t * 10 ^ ds))) else None
      | _ \<Rightarrow> None)"

section \<open>The update section\<close>

datatype action = UpdatesStatus | UpdatesCheck | UpdatesInstall | UpdatesSchedule | UpdatesCancelSchedule

record updates =
  active :: bool
  update_status :: "DesktopUpdateStatus option"
  confirmingVersion :: "string option"
  actions :: "action list"

definition ready :: "updates \<Rightarrow> bool" where
  "ready s \<longleftrightarrow> (case update_status s of Some st \<Rightarrow> available st \<and> status_name st = ''ready'' | None \<Rightarrow> False)"

definition confirmationValid :: "updates \<Rightarrow> bool" where
  "confirmationValid s \<longleftrightarrow>
     confirmingVersion s \<noteq> None \<and> ready s \<and> version (the (update_status s)) = confirmingVersion s"

definition busy :: "updates \<Rightarrow> bool" where
  "busy s \<longleftrightarrow> (case update_status s of
     Some st \<Rightarrow> status_name st \<in> {''checking'', ''downloading'', ''installing''} | None \<Rightarrow> False)"

definition effects :: "updates \<Rightarrow> updates" where
  "effects s =
     (let s = (if confirmingVersion s \<noteq> None \<and> \<not> confirmationValid s then s\<lparr>confirmingVersion := None\<rparr> else s)
      in if \<not> active s then s\<lparr>confirmingVersion := None\<rparr> else s)"

definition send :: "action \<Rightarrow> updates \<Rightarrow> updates" where
  "send a s = s\<lparr>actions := actions s @ [a]\<rparr>"

text \<open>While inactive the section is not subscribed; becoming active asks for the status.\<close>

datatype update_event =
  HostStatus "json option" | SetActive bool | PressCheck | PressInstall | PressSchedule | ConfirmInstall | CancelInstall

fun update_step :: "update_event \<Rightarrow> updates \<Rightarrow> updates" where
  "update_step (HostStatus v) s =
     (case readDesktopUpdateStatus v of
        Some st \<Rightarrow> if active s then effects (s\<lparr>update_status := Some st\<rparr>) else s
      | None \<Rightarrow> s)"
| "update_step (SetActive b) s =
     effects (if b \<and> \<not> active s then send UpdatesStatus (s\<lparr>active := True\<rparr>) else s\<lparr>active := b\<rparr>)"
| "update_step PressCheck s =
     (if \<not> confirmationValid s \<and> (case update_status s of Some st \<Rightarrow> available st | None \<Rightarrow> False)
         \<and> \<not> busy s \<and> \<not> ready s
      then send UpdatesCheck s else s)"
| "update_step PressInstall s =
     (if \<not> confirmationValid s \<and> ready s
      then effects (s\<lparr>confirmingVersion :=
             (if truthy (version (the (update_status s))) then version (the (update_status s)) else None)\<rparr>)
      else s)"
| "update_step PressSchedule s =
     (if \<not> confirmationValid s \<and> ready s
      then send (if scheduled (the (update_status s)) then UpdatesCancelSchedule else UpdatesSchedule) s else s)"
| "update_step ConfirmInstall s =
     (if confirmationValid s \<and> ready s \<and> version (the (update_status s)) = confirmingVersion s
      then send UpdatesInstall s else s)"
| "update_step CancelInstall s = (if confirmationValid s then s\<lparr>confirmingVersion := None\<rparr> else s)"

section \<open>Lemmas\<close>

lemma progress_bounds:
  "readDesktopUpdateStatus v = Some s \<Longrightarrow> progress s = Some p \<Longrightarrow> 0 \<le> p \<and> p \<le> 100"
proof -
  assume r: "readDesktopUpdateStatus v = Some s" and p: "progress s = Some p"
  have "is_size (Some (JNum (downloadedBytes s)))"
    using r by (auto simp: readDesktopUpdateStatus_def Let_def is_size_def the_num_def
        split: if_splits option.splits json.splits js_num.splits)
  with p show ?thesis
    by (auto simp: progress_def is_size_def pos_imp_zdiv_nonneg_iff split: js_num.splits option.splits if_splits)
qed

text \<open>A step that neither starts nor cancels a confirmation keeps it or drops it.\<close>

lemma confirming_step:
  assumes "e \<noteq> PressInstall"
  shows "confirmingVersion (update_step e s) \<in> {confirmingVersion s, None}"
  using assms
  by (cases e) (auto simp: effects_def send_def Let_def split: option.split)

lemma confirming_status:
  assumes "confirmingVersion (update_step (HostStatus v) s) = Some w"
    and "readDesktopUpdateStatus v = Some st" and "active s"
  shows "available st \<and> status_name st = ''ready'' \<and> version st = Some w"
  using assms
  by (auto simp: effects_def confirmationValid_def ready_def Let_def split: if_splits)

definition wf_updates :: "updates \<Rightarrow> bool" where
  "wf_updates s \<longleftrightarrow> (confirmingVersion s \<noteq> None \<longrightarrow> active s)"

lemma wf_step: "wf_updates s \<Longrightarrow> wf_updates (update_step e s)"
  by (cases e) (auto simp: wf_updates_def effects_def send_def Let_def split: option.split)

text \<open>Why an action was sent: an install only by confirming what is still valid.\<close>

definition install_reason :: "update_event \<Rightarrow> updates \<Rightarrow> action \<Rightarrow> bool" where
  "install_reason e s a \<longleftrightarrow> (a = UpdatesInstall \<longrightarrow> e = ConfirmInstall \<and> confirmationValid s)"

interpretation updates_section: logging_machine update_step "\<lambda>_. True" wf_updates actions install_reason
proof unfold_locales
  fix e s assume "wf_updates s"
  then show "wf_updates (update_step e s)" by (rule wf_step)
  show "\<exists>new. actions (update_step e s) = actions s @ new \<and> list_all (install_reason e s) new"
    by (cases e) (auto simp: effects_def send_def install_reason_def Let_def split: option.splits)
qed

lemma confirming_run:
  assumes "wf_updates s" and "PressInstall \<notin> set es" and "confirmingVersion (fold update_step es s) = Some w"
  shows "confirmingVersion s = Some w \<and>
    (\<forall>v st. HostStatus v \<in> set es \<longrightarrow> readDesktopUpdateStatus v = Some st \<longrightarrow>
       available st \<and> status_name st = ''ready'' \<and> version st = Some w)"
  using assms
proof (induction es arbitrary: s)
  case (Cons e es)
  from Cons.IH [OF wf_step [OF Cons.prems(1)], of e] Cons.prems have
    IH: "confirmingVersion (update_step e s) = Some w"
    "\<forall>v st. HostStatus v \<in> set es \<longrightarrow> readDesktopUpdateStatus v = Some st \<longrightarrow>
       available st \<and> status_name st = ''ready'' \<and> version st = Some w" by auto
  have "e \<noteq> PressInstall" using Cons.prems(2) by auto
  from confirming_step [OF this, of s] IH(1) have c: "confirmingVersion s = Some w" by auto
  with Cons.prems(1) have "active s" by (simp add: wf_updates_def)
  with IH(1) confirming_status have "available st \<and> status_name st = ''ready'' \<and> version st = Some w"
    if "e = HostStatus v" "readDesktopUpdateStatus v = Some st" for v st
    using that by blast
  with c IH(2) show ?case by auto
qed simp

section \<open>Property\<close>

definition initial_updates :: updates where
  "initial_updates = \<lparr>active = False, update_status = None, confirmingVersion = None, actions = []\<rparr>"

lemma wf_initial: "wf_updates initial_updates"
  by (simp add: wf_updates_def initial_updates_def)

lemma all_ok: "list_all (\<lambda>_. True) es"
  by (simp add: list_all_iff)

text \<open>The last time install was pressed before a version was being confirmed.\<close>

lemma last_press:
  assumes "confirmingVersion (fold update_step pre initial_updates) = Some w"
  obtains hist es where "pre = hist @ PressInstall # es" and "PressInstall \<notin> set es"
proof -
  have "PressInstall \<in> set pre"
    using confirming_run [OF wf_initial, of pre w] assms by (auto simp: initial_updates_def)
  then show ?thesis using that by (meson split_list_last)
qed

text \<open>
  C10. The host is told to install only what the user confirmed. Whenever a session has sent
  an install action, the user pressed install and later confirmed; at the confirmation the
  status shown was ready with a version, that version is the one the dialog was opened for,
  and every valid status received in between was available, ready and of that same version.
\<close>

theorem install_is_confirmed:
  assumes "UpdatesInstall \<in> set (actions (fold update_step session initial_updates))"
  shows "\<exists>hist es post w st. session = hist @ PressInstall # es @ ConfirmInstall # post
   \<and> update_status (fold update_step (hist @ PressInstall # es) initial_updates) = Some st
   \<and> available st \<and> status_name st = ''ready'' \<and> version st = Some w
   \<and> confirmingVersion (fold update_step (hist @ [PressInstall]) initial_updates) = Some w
   \<and> (\<forall>v st'. HostStatus v \<in> set es \<longrightarrow> readDesktopUpdateStatus v = Some st' \<longrightarrow>
        available st' \<and> status_name st' = ''ready'' \<and> version st' = Some w)"
proof -
  from updates_section.logged [OF all_ok wf_initial assms] obtain pre post where
    session: "session = pre @ ConfirmInstall # post" and valid: "confirmationValid (fold update_step pre initial_updates)"
    by (auto simp: install_reason_def initial_updates_def)
  then obtain w st where w: "confirmingVersion (fold update_step pre initial_updates) = Some w"
    and st: "update_status (fold update_step pre initial_updates) = Some st"
      "available st" "status_name st = ''ready''" "version st = Some w"
    by (auto simp: confirmationValid_def ready_def split: option.splits)
  from last_press [OF w] obtain hist es where pre: "pre = hist @ PressInstall # es" and es: "PressInstall \<notin> set es" .
  have "wf_updates (fold update_step (hist @ [PressInstall]) initial_updates)"
    by (intro updates_section.inv_run all_ok wf_initial)
  from confirming_run [OF this es] w pre
  have "confirmingVersion (fold update_step (hist @ [PressInstall]) initial_updates) = Some w
    \<and> (\<forall>v st. HostStatus v \<in> set es \<longrightarrow> readDesktopUpdateStatus v = Some st \<longrightarrow>
       available st \<and> status_name st = ''ready'' \<and> version st = Some w)" by simp
  with session st show ?thesis unfolding pre append.assoc append_Cons by blast
qed

definition ready_status :: "string \<Rightarrow> json option" where
  "ready_status w = Some (JObj [(''available'', JBool True), (''currentVersion'', JStr ''1''), (''status'', JStr ''ready''),
     (''version'', JStr w), (''downloadedBytes'', JNum (Dec 5 0)), (''scheduled'', JBool False)])"

theorem install_is_confirmed_witness:
  "\<exists>hist es post. [SetActive True, HostStatus (ready_status ''2''), PressInstall, ConfirmInstall]
     = hist @ PressInstall # es @ ConfirmInstall # post"
proof -
  let ?session = "[SetActive True, HostStatus (ready_status ''2''), PressInstall, ConfirmInstall]"
  have "actions (fold update_step ?session initial_updates) = [UpdatesStatus, UpdatesInstall]"
    by (simp add: initial_updates_def ready_status_def effects_def send_def readDesktopUpdateStatus_def is_bool_def
        is_string_def the_string_def the_bool_def the_num_def is_size_def isOptionalString_def statusNames_def Let_def
        confirmationValid_def ready_def truthy_def)
  then have "UpdatesInstall \<in> set (actions (fold update_step ?session initial_updates))" by simp
  from install_is_confirmed [OF this] show ?thesis by blast
qed

end
