(* ===== verification/ConfigTransfer.thy ===== *)
theory ConfigTransfer
  imports Json
begin

text \<open>
  Import and export of the Kafka environments: the requests of
  \<open>frontend/src/lib/hooks/api/configTransfer.ts\<close> and the section of the settings dialog that
  chooses a file, lets the user review conflicts, and applies the import,
  \<open>frontend/src/components/Settings/ConfigTransferSection.tsx\<close>. The state records the imports
  that were sent; texts shown to the user are the constructors of \<open>failure\<close> and \<open>success\<close>.
\<close>

section \<open>Requests\<close>

datatype reason = SameName | SameAddress | SameNameAndAddress

record ImportConflict =
  conflict_name :: string
  conflict_servers :: string
  conflict_reason :: reason

record ImportEntry =
  index :: nat
  entry_name :: string
  entry_servers :: string
  conflicts :: "ImportConflict list"
  overlaps :: "nat list"

record ImportPreview =
  revision :: string
  entries :: "ImportEntry list"

record ImportResult =
  added :: nat
  replaced :: nat
  skipped :: nat

datatype failure = TooLarge | Unreadable | Rejected string nat | RetryLater nat | Unexpected string | NotDownloaded

datatype success = ExportDone | ImportDone ImportResult

text \<open>The error of a response that is not ok: the server's text for 400 and 409 only.\<close>

definition request_error :: "nat \<Rightarrow> json option \<Rightarrow> failure" where
  "request_error status body =
     (if status = 400 \<or> status = 409
      then case body of
             Some v \<Rightarrow> if is_string (member v ''message'') then Rejected (the_string (member v ''message'')) status
                       else RetryLater status
           | None \<Rightarrow> RetryLater status
      else RetryLater status)"

fun error_status :: "failure \<Rightarrow> nat option" where
  "error_status (Rejected m s) = Some s"
| "error_status (RetryLater s) = Some s"
| "error_status _ = None"

section \<open>The section's state\<close>

record Review = ImportPreview +
  content :: string

datatype stage = Idle | Reading | Previewing string | Applying | Downloading

record transfer =
  mounted :: bool
  transfer_busy :: bool
  review :: "Review option"
  selected :: "nat list"
  failure_shown :: "failure option"
  success_shown :: "success option"
  stage :: stage
  imports_sent :: "(Review \<times> nat list) list"

definition initial_transfer :: transfer where
  "initial_transfer =
     \<lparr>mounted = True, transfer_busy = False, review = None, selected = [], failure_shown = None,
      success_shown = None, stage = Idle, imports_sent = []\<rparr>"

section \<open>Operations\<close>

definition MAX_IMPORT :: nat where "MAX_IMPORT = 10 * 1024 * 1024"

definition needs_review :: "ImportEntry list \<Rightarrow> bool" where
  "needs_review es \<longleftrightarrow> list_ex (\<lambda>e. conflicts e \<noteq> [] \<or> overlaps e \<noteq> []) es"

definition default_selection :: "ImportEntry list \<Rightarrow> nat list" where
  "default_selection es =
     fold (\<lambda>e defaults.
       if conflicts e = [] \<and> \<not> list_ex (\<lambda>i. i \<in> set defaults) (overlaps e) then defaults @ [index e] else defaults)
     es []"

definition toggle_entry :: "ImportEntry \<Rightarrow> bool \<Rightarrow> nat list \<Rightarrow> nat list" where
  "toggle_entry e checked previous =
     (if checked then sort (filter (\<lambda>i. i \<notin> set (overlaps e)) previous @ [index e])
      else filter (\<lambda>i. i \<noteq> index e) previous)"

definition showError :: "failure \<Rightarrow> transfer \<Rightarrow> transfer" where
  "showError f s =
     (if \<not> mounted s then s
      else s\<lparr>failure_shown := Some f, review := (if error_status f = Some 409 then None else review s)\<rparr>)"

text \<open>The \<open>finally\<close> part of the handlers.\<close>

definition finish :: "transfer \<Rightarrow> transfer" where
  "finish s = (if mounted s then s\<lparr>stage := Idle, transfer_busy := False\<rparr> else s\<lparr>stage := Idle\<rparr>)"

definition apply_import :: "Review \<Rightarrow> nat list \<Rightarrow> transfer \<Rightarrow> transfer" where
  "apply_import pending indices s = s\<lparr>stage := Applying, imports_sent := imports_sent s @ [(pending, indices)]\<rparr>"

definition chooseFile :: "nat option \<Rightarrow> transfer \<Rightarrow> transfer" where
  "chooseFile file s =
     (case file of
        None \<Rightarrow> s
      | Some file_size \<Rightarrow>
          if transfer_busy s then s
          else let s = s\<lparr>failure_shown := None, success_shown := None, review := None\<rparr>
               in if file_size > MAX_IMPORT then s\<lparr>failure_shown := Some TooLarge\<rparr>
                  else s\<lparr>transfer_busy := True, stage := Reading\<rparr>)"

definition file_read :: "string \<Rightarrow> transfer \<Rightarrow> transfer" where
  "file_read text s = (if \<not> mounted s then finish s else s\<lparr>stage := Previewing text\<rparr>)"

definition previewed :: "string \<Rightarrow> ImportPreview \<Rightarrow> transfer \<Rightarrow> transfer" where
  "previewed text p s =
     (if \<not> mounted s then finish s
      else let pending = ImportPreview.extend p (Review.fields text)
           in if needs_review (entries p)
              then finish (s\<lparr>selected := default_selection (entries p), review := Some pending\<rparr>)
              else apply_import pending (map index (entries p)) s)"

definition applied :: "ImportResult \<Rightarrow> transfer \<Rightarrow> transfer" where
  "applied outcome s =
     finish (if \<not> mounted s then s else s\<lparr>review := None, success_shown := Some (ImportDone outcome)\<rparr>)"

definition confirm_import :: "transfer \<Rightarrow> transfer" where
  "confirm_import s =
     (case review s of
        None \<Rightarrow> s
      | Some r \<Rightarrow>
          if transfer_busy s then s
          else apply_import r (selected s) (s\<lparr>transfer_busy := True, failure_shown := None\<rparr>))"

definition download :: "transfer \<Rightarrow> transfer" where
  "download s = s\<lparr>transfer_busy := True, failure_shown := None, success_shown := None, stage := Downloading\<rparr>"

definition onExportFinished :: "bool \<Rightarrow> transfer \<Rightarrow> transfer" where
  "onExportFinished ok s =
     (if ok then s\<lparr>success_shown := Some ExportDone\<rparr> else s\<lparr>failure_shown := Some NotDownloaded\<rparr>)"

text \<open>
  Events: user actions while their controls are enabled, answers to what is in flight, and
  the removal of the section.
\<close>

datatype transfer_event =
  Choose "nat option" | FileRead string | Previewed ImportPreview | Applied ImportResult | Failed failure
| Tick nat | Confirm | Cancel | Download | Downloaded | ExportFinished bool | Unmount

fun transfer_step :: "transfer_event \<Rightarrow> transfer \<Rightarrow> transfer" where
  "transfer_step (Choose file) s = (if mounted s \<and> \<not> transfer_busy s then chooseFile file s else s)"
| "transfer_step (FileRead text) s = (if stage s = Reading then file_read text s else s)"
| "transfer_step (Previewed p) s = (case stage s of Previewing text \<Rightarrow> previewed text p s | _ \<Rightarrow> s)"
| "transfer_step (Applied r) s = (if stage s = Applying then applied r s else s)"
| "transfer_step (Failed f) s = (if stage s = Idle then s else finish (showError f s))"
| "transfer_step (Tick i) s =
     (case review s of
        Some r \<Rightarrow>
          if mounted s \<and> \<not> transfer_busy s \<and> i < length (entries r)
          then s\<lparr>selected := toggle_entry (entries r ! i) (index (entries r ! i) \<notin> set (selected s)) (selected s)\<rparr>
          else s
      | None \<Rightarrow> s)"
| "transfer_step Confirm s =
     (if mounted s \<and> \<not> transfer_busy s \<and> selected s \<noteq> [] then confirm_import s else s)"
| "transfer_step Cancel s =
     (if mounted s \<and> \<not> transfer_busy s then s\<lparr>review := None, failure_shown := None\<rparr> else s)"
| "transfer_step Download s =
     (if mounted s \<and> \<not> transfer_busy s \<and> review s = None then download s else s)"
| "transfer_step Downloaded s = (if stage s = Downloading then finish s else s)"
| "transfer_step (ExportFinished ok) s = (if mounted s then onExportFinished ok s else s)"
| "transfer_step Unmount s = s\<lparr>mounted := False\<rparr>"

section \<open>Selections\<close>

text \<open>
  The contract of the server's preview: entries are numbered by position, and overlapping
  is symmetric and never with itself.
\<close>

definition wf_entries :: "ImportEntry list \<Rightarrow> bool" where
  "wf_entries es \<longleftrightarrow>
     map index es = [0..<length es]
   \<and> (\<forall>i<length es. \<forall>j<length es. j \<in> set (overlaps (es ! i)) \<longleftrightarrow> i \<in> set (overlaps (es ! j)))
   \<and> (\<forall>i<length es. i \<notin> set (overlaps (es ! i)))"

definition sound_selection :: "ImportEntry list \<Rightarrow> nat list \<Rightarrow> bool" where
  "sound_selection es sel \<longleftrightarrow>
     sorted sel \<and> distinct sel \<and> (\<forall>i\<in>set sel. i < length es)
   \<and> (\<forall>i\<in>set sel. \<forall>j\<in>set sel. j \<notin> set (overlaps (es ! i)))"

lemma index_nth: "wf_entries es \<Longrightarrow> i < length es \<Longrightarrow> index (es ! i) = i"
  by (metis add_0 length_map nth_map nth_upt wf_entries_def)

lemma default_sound:
  assumes "wf_entries es" and "n \<le> length es"
  shows "sound_selection es (default_selection (take n es)) \<and> (\<forall>i\<in>set (default_selection (take n es)). i < n \<and> conflicts (es ! i) = [])"
  using assms(2)
proof (induction n)
  case 0
  then show ?case by (simp add: default_selection_def sound_selection_def)
next
  case (Suc n)
  let ?d = "default_selection (take n es)" and ?e = "es ! n"
  from Suc have n: "n < length es" and IH: "sound_selection es ?d"
    "\<forall>i\<in>set ?d. i < n \<and> conflicts (es ! i) = []" by auto
  have tk: "take (Suc n) es = take n es @ [?e]" using n by (simp add: take_Suc_conv_app_nth)
  have step: "default_selection (take (Suc n) es) =
      (if conflicts ?e = [] \<and> \<not> list_ex (\<lambda>i. i \<in> set ?d) (overlaps ?e) then ?d @ [n] else ?d)"
    using index_nth [OF assms(1) n] by (simp add: default_selection_def tk)
  show ?case
  proof (cases "conflicts ?e = [] \<and> \<not> list_ex (\<lambda>i. i \<in> set ?d) (overlaps ?e)")
    case True
    have sym: "n \<notin> set (overlaps (es ! i))" if "i \<in> set ?d" for i
    proof -
      have "i < length es" using IH(2) that n by auto
      moreover have "i \<notin> set (overlaps ?e)" using True that by (auto simp: list_ex_iff)
      ultimately show ?thesis using assms(1) n by (auto simp: wf_entries_def)
    qed
    have self: "n \<notin> set (overlaps ?e)" using assms(1) n by (simp add: wf_entries_def)
    have other: "i \<notin> set (overlaps ?e)" if "i \<in> set ?d" for i
      using True that by (auto simp: list_ex_iff)
    have "sorted (?d @ [n])" using IH by (simp add: sound_selection_def sorted_append) (metis less_imp_le)
    moreover have "distinct (?d @ [n])" using IH by (auto simp: sound_selection_def)
    moreover have "\<forall>i\<in>set (?d @ [n]). i < length es" using IH n by (auto simp: sound_selection_def)
    moreover have "\<forall>i\<in>set (?d @ [n]). \<forall>j\<in>set (?d @ [n]). j \<notin> set (overlaps (es ! i))"
      using IH(1) sym self other by (simp add: sound_selection_def)
    ultimately have "sound_selection es (?d @ [n])" unfolding sound_selection_def by blast
    moreover have "\<forall>i\<in>set (?d @ [n]). i < Suc n \<and> conflicts (es ! i) = []"
      using IH(2) True by (simp add: less_Suc_eq)
    ultimately show ?thesis using True unfolding step by simp
  next
    case False
    with IH show ?thesis unfolding step by auto
  qed
qed

lemma default_selection_sound:
  "wf_entries es \<Longrightarrow> sound_selection es (default_selection es)
    \<and> (\<forall>i\<in>set (default_selection es). conflicts (es ! i) = [])"
  using default_sound [of es "length es"] by simp

lemma toggle_sound:
  assumes "wf_entries es" and "sound_selection es sel" and "i < length es"
  shows "sound_selection es (toggle_entry (es ! i) (i \<notin> set sel) sel)"
proof (cases "i \<in> set sel")
  case True
  with assms index_nth [OF assms(1,3)] show ?thesis
    using sorted_filter [of "\<lambda>x. x" sel "\<lambda>x. x \<noteq> i"]
    by (simp add: toggle_entry_def sound_selection_def)
next
  case False
  let ?f = "filter (\<lambda>j. j \<notin> set (overlaps (es ! i))) sel"
  have "j < length es \<Longrightarrow> i \<in> set (overlaps (es ! j)) \<Longrightarrow> j \<in> set (overlaps (es ! i))" for j
    using assms by (simp add: wf_entries_def)
  with assms False index_nth [OF assms(1,3)] show ?thesis
    by (auto simp: toggle_entry_def sound_selection_def wf_entries_def)
qed

lemma toggle_members: "j \<in> set (toggle_entry e b sel) \<Longrightarrow> j \<in> set sel \<or> j = index e"
  by (auto simp: toggle_entry_def split: if_splits)

lemma all_sound:
  assumes "wf_entries es" and "\<not> needs_review es"
  shows "sound_selection es (map index es)"
  using assms by (auto simp: wf_entries_def sound_selection_def needs_review_def list_ex_iff)

section \<open>What is imported\<close>

text \<open>The entries the user ticked or unticked since the shown preview arrived.\<close>

fun ticked :: "transfer_event \<Rightarrow> transfer \<Rightarrow> nat set \<Rightarrow> nat set" where
  "ticked (Previewed p) s T = (case stage s of Previewing text \<Rightarrow> {} | _ \<Rightarrow> T)"
| "ticked (Tick i) s T = insert i T"
| "ticked _ s T = T"

fun ticking_step :: "transfer_event \<Rightarrow> transfer \<times> nat set \<Rightarrow> transfer \<times> nat set" where
  "ticking_step e (s, T) = (transfer_step e s, ticked e s T)"

definition transfer_run :: "transfer_event list \<Rightarrow> transfer \<times> nat set" where
  "transfer_run es = fold ticking_step es (initial_transfer, {})"

fun preview_ok :: "transfer_event \<Rightarrow> bool" where
  "preview_ok (Previewed p) = wf_entries (entries p)"
| "preview_ok _ = True"

definition review_inv :: "transfer \<Rightarrow> nat set \<Rightarrow> bool" where
  "review_inv s T \<longleftrightarrow>
     (\<forall>r. review s = Some r \<longrightarrow>
        wf_entries (entries r) \<and> sound_selection (entries r) (selected s)
      \<and> (\<forall>i\<in>set (selected s). conflicts (entries r ! i) \<noteq> [] \<longrightarrow> i \<in> T))
   \<and> (stage s \<noteq> Idle \<longrightarrow> transfer_busy s)
   \<and> (\<forall>text. stage s \<in> {Reading, Previewing text} \<longrightarrow> review s = None)"

lemma review_inv_cong:
  "review_inv s T \<Longrightarrow> review t = None \<or> review t = review s \<and> selected t = selected s \<Longrightarrow>
   stage t = Idle \<or> stage t = stage s \<and> transfer_busy t = transfer_busy s \<Longrightarrow> review_inv t T"
  by (elim disjE conjE) (simp_all add: review_inv_def)

lemmas transfer_defs = chooseFile_def file_read_def previewed_def applied_def confirm_import_def download_def
  onExportFinished_def finish_def showError_def apply_import_def

lemma entries_extend [simp]: "entries (ImportPreview.extend p (Review.fields text)) = entries p"
  by (simp add: ImportPreview.defs)

lemma review_inv_step:
  assumes "review_inv s T" and "preview_ok e"
  shows "review_inv (transfer_step e s) (ticked e s T)"
proof (cases e)
  case (Previewed p)
  then have "wf_entries (entries p)" using assms(2) by simp
  note d = default_selection_sound [OF this] this
  show ?thesis
  proof (cases "\<exists>text. stage s = Previewing text")
    case True
    then obtain tx where tx: "stage s = Previewing tx" ..
    with assms(1) have "review s = None" "transfer_busy s" by (auto simp: review_inv_def)
    with d Previewed tx show ?thesis
      by (cases "mounted s"; cases "needs_review (entries p)") (simp_all add: review_inv_def transfer_defs Let_def)
  next
    case False
    with Previewed have "transfer_step e s = s" "ticked e s T = T" by (auto split: stage.split)
    with assms(1) show ?thesis by simp
  qed
next
  case (Tick i)
  show ?thesis
  proof (cases "review s")
    case (Some r)
    then have r: "wf_entries (entries r)" "sound_selection (entries r) (selected s)"
      "\<forall>i\<in>set (selected s). conflicts (entries r ! i) \<noteq> [] \<longrightarrow> i \<in> T" using assms(1) by (auto simp: review_inv_def)
    show ?thesis
    proof (cases "mounted s \<and> \<not> transfer_busy s \<and> i < length (entries r)")
      case True
      have "sound_selection (entries r) (toggle_entry (entries r ! i) (i \<notin> set (selected s)) (selected s))"
        using toggle_sound [OF r(1,2)] True by blast
      moreover have "\<forall>j\<in>set (toggle_entry (entries r ! i) (i \<notin> set (selected s)) (selected s)).
          conflicts (entries r ! j) \<noteq> [] \<longrightarrow> j \<in> insert i T"
        using r(3) index_nth [OF r(1), of i] True toggle_members by fastforce
      ultimately show ?thesis using Tick Some True r(1) index_nth [OF r(1), of i] assms(1)
        by (simp add: review_inv_def)
    next
      case False
      with Tick Some r assms(1) show ?thesis by (auto simp: review_inv_def)
    qed
  next
    case None
    with Tick assms(1) show ?thesis by (simp add: review_inv_def)
  qed
next
  case (Choose fo)
  with assms(1) show ?thesis by (auto simp: transfer_defs Let_def review_inv_def split: option.split)
next
  case (FileRead tx)
  with assms(1) show ?thesis by (auto simp: transfer_defs review_inv_def)
next
  case Confirm
  with assms(1) show ?thesis by (auto simp: transfer_defs review_inv_def split: option.split)
next
  case Download
  with assms(1) show ?thesis by (auto simp: transfer_defs review_inv_def)
qed (use assms(1) in \<open>auto simp: transfer_defs Let_def split: option.splits intro: review_inv_cong\<close>)

lemma sent_step:
  assumes "review_inv s T" and "preview_ok e"
    and "imports_sent (transfer_step e s) = imports_sent s @ [(r, idx)]"
  shows "sound_selection (entries r) idx \<and> (\<forall>i\<in>set idx. conflicts (entries r ! i) \<noteq> [] \<longrightarrow> i \<in> T)"
proof (cases e)
  case (Previewed p)
  then have wf: "wf_entries (entries p)" using assms(2) by simp
  from assms(3) Previewed have n: "\<not> needs_review (entries p)" "entries r = entries p" "idx = map index (entries p)"
    by (auto simp: transfer_defs Let_def split: stage.splits if_splits)
  have "conflicts (entries p ! i) = []" if "i < length (entries p)" for i
    using n(1) nth_mem [OF that] by (auto simp: needs_review_def list_ex_iff)
  moreover have "\<forall>i\<in>set idx. i < length (entries p)"
    using all_sound [OF wf n(1)] n by (simp add: sound_selection_def)
  ultimately show ?thesis using all_sound [OF wf n(1)] n by auto
next
  case Confirm
  with assms(1,3) show ?thesis
    by (auto simp: transfer_defs review_inv_def split: option.splits if_splits)
qed (use assms(3) in \<open>auto simp: transfer_defs Let_def split: option.splits if_splits\<close>)

lemma at_most_one_sent:
  "\<exists>new. imports_sent (transfer_step e s) = imports_sent s @ new \<and> (new = [] \<or> (\<exists>x. new = [x]))"
  by (cases e) (auto simp: transfer_defs Let_def split: option.splits stage.splits)

text \<open>Why an import was sent: its selection was sound, and what it replaces was ticked.\<close>

fun import_reason :: "transfer_event \<Rightarrow> transfer \<times> nat set \<Rightarrow> Review \<times> nat list \<Rightarrow> bool" where
  "import_reason e (s, T) (r, idx) \<longleftrightarrow>
     sound_selection (entries r) idx \<and> (\<forall>i\<in>set idx. conflicts (entries r ! i) \<noteq> [] \<longrightarrow> i \<in> T)"

interpretation import_dialog: logging_machine ticking_step preview_ok "\<lambda>(s, T). review_inv s T"
  "\<lambda>(s, T). imports_sent s" import_reason
proof unfold_locales
  fix e and c :: "transfer \<times> nat set"
  assume ok: "preview_ok e" and inv: "case c of (s, T) \<Rightarrow> review_inv s T"
  obtain s T where c: "c = (s, T)" by force
  with inv have inv: "review_inv s T" by simp
  from review_inv_step [OF inv ok] show "case ticking_step e c of (s, T) \<Rightarrow> review_inv s T" by (simp add: c)
  from at_most_one_sent [of e s] sent_step [OF inv ok]
  show "\<exists>new. (case ticking_step e c of (s, T) \<Rightarrow> imports_sent s) = (case c of (s, T) \<Rightarrow> imports_sent s) @ new
     \<and> list_all (import_reason e c) new" by (auto simp: c)
qed

lemma review_inv_initial: "review_inv initial_transfer {}"
  by (simp add: review_inv_def initial_transfer_def)

text \<open>
  C8. Imports are chosen soundly. Whatever the user and the server do, as long as previews
  number their entries and report overlaps symmetrically, every import sent in a run selects
  existing entries in order and without repetition, no two of which overlap, and an entry
  that would replace a local environment is selected only if, before the import was sent,
  the user had ticked or unticked it since the preview arrived.
\<close>

theorem imports_are_sound:
  assumes "list_all preview_ok es" and "(r, idx) \<in> set (imports_sent (fst (transfer_run es)))"
  shows "sorted idx \<and> distinct idx \<and> (\<forall>i\<in>set idx. i < length (entries r))
    \<and> (\<forall>i\<in>set idx. \<forall>j\<in>set idx. j \<notin> set (overlaps (entries r ! i)))
    \<and> (\<exists>pre post. es = pre @ post \<and> post \<noteq> []
        \<and> (\<forall>i\<in>set idx. conflicts (entries r ! i) \<noteq> [] \<longrightarrow> i \<in> snd (transfer_run pre)))"
proof -
  have none: "imports_sent initial_transfer = []" by (simp add: initial_transfer_def)
  from import_dialog.logged [OF assms(1), of "(initial_transfer, {})" "(r, idx)"] assms(2)
  obtain pre e post where es: "es = pre @ e # post"
    and why: "import_reason e (transfer_run pre) (r, idx)"
    unfolding transfer_run_def case_prod_beta fst_conv snd_conv none
    using review_inv_initial by fastforce
  obtain s T where "transfer_run pre = (s, T)" by force
  with why have "sound_selection (entries r) idx"
    "\<forall>i\<in>set idx. conflicts (entries r ! i) \<noteq> [] \<longrightarrow> i \<in> snd (transfer_run pre)" by auto
  with es show ?thesis unfolding sound_selection_def by blast
qed

definition sample_preview :: ImportPreview where
  "sample_preview = \<lparr>revision = ''7'', entries =
     [\<lparr>index = 0, entry_name = ''a'', entry_servers = ''h:1'', conflicts = [], overlaps = [2]\<rparr>,
      \<lparr>index = 1, entry_name = ''b'', entry_servers = ''h:2'',
        conflicts = [\<lparr>conflict_name = ''b'', conflict_servers = ''x'', conflict_reason = SameName\<rparr>], overlaps = []\<rparr>,
      \<lparr>index = 2, entry_name = ''c'', entry_servers = ''h:1'', conflicts = [], overlaps = [0]\<rparr>]\<rparr>"

theorem imports_are_sound_witness:
  "\<exists>r. imports_sent (fst (transfer_run
       [Choose (Some 5), FileRead ''y'', Previewed sample_preview, Tick 1, Tick 2, Confirm])) = [(r, [1, 2])]
     \<and> sorted [1, 2 :: nat] \<and> (\<forall>j\<in>{1, 2}. j \<notin> set (overlaps (entries r ! 2)))"
proof -
  let ?es = "[Choose (Some 5), FileRead ''y'', Previewed sample_preview, Tick 1, Tick 2, Confirm]"
  let ?r = "ImportPreview.extend sample_preview (Review.fields ''y'')"
  have sent: "imports_sent (fst (transfer_run ?es)) = [(?r, [1, 2])]"
    by (simp add: transfer_run_def initial_transfer_def transfer_defs MAX_IMPORT_def needs_review_def
        default_selection_def sample_preview_def toggle_entry_def Let_def ImportPreview.defs Review.defs)
  have "list_all preview_ok ?es"
    by (auto simp: wf_entries_def sample_preview_def less_Suc_eq nth_Cons' upt_rec)
  moreover have "(?r, [1, 2]) \<in> set (imports_sent (fst (transfer_run ?es)))" unfolding sent by simp
  ultimately have "sorted [1, 2 :: nat] \<and> (\<forall>j\<in>{1, 2}. j \<notin> set (overlaps (entries ?r ! 2)))"
    using imports_are_sound [of ?es ?r "[1, 2]"] by simp
  with sent show ?thesis by blast
qed

end
