(* ===== verification/Reminder.thy ===== *)
theory Reminder
  imports Prelude
begin

text \<open>
  The reminder that points at the list of all clusters,
  \<open>frontend/src/components/PageContainer/useAllClustersReminder.ts\<close>. The hook is a state
  machine driven by the properties of each render, with a flag kept for the session. A
  render shows something, then its effects run, and if they change the phase the hook
  renders once more. Whether a path is a cluster route is part of the input.
\<close>

section \<open>State\<close>

datatype ReminderPhase = PhIdle | AwaitingSidebarClose | Pending | Visible | Shown

record ReminderProps =
  isClusterRoute :: bool
  isSidebarVisible :: bool
  isLarge :: bool

record reminder =
  reminder_phase :: ReminderPhase
  current_props :: ReminderProps
  hasRemindedThisSession :: bool
  outputs :: "bool list"

definition normalizePathname :: "string \<Rightarrow> string" where
  "normalizePathname p =
     (let q = rev (dropWhile (\<lambda>c. c = CHR ''/'') (rev p)) in if q = [] then ''/'' else q)"

definition getEntryPhase :: "bool \<Rightarrow> ReminderProps \<Rightarrow> ReminderPhase" where
  "getEntryPhase reminded p =
     (if \<not> isClusterRoute p then PhIdle
      else if reminded then Shown
      else if isLarge p \<and> isSidebarVisible p then Visible
      else if \<not> isLarge p \<and> isSidebarVisible p then AwaitingSidebarClose
      else Pending)"

section \<open>Effects\<close>

text \<open>The effect that follows the route; \<open>was\<close> is the route of the previous run.\<close>

definition route_effect :: "bool \<Rightarrow> bool \<Rightarrow> ReminderProps \<Rightarrow> ReminderPhase \<Rightarrow> ReminderPhase" where
  "route_effect reminded was p ph =
     (if \<not> isClusterRoute p then PhIdle
      else if \<not> was then getEntryPhase reminded p
      else ph)"

definition sidebar_effect :: "ReminderProps \<Rightarrow> ReminderPhase \<Rightarrow> ReminderPhase" where
  "sidebar_effect p ph =
     (if \<not> isClusterRoute p then ph
      else if ph = AwaitingSidebarClose \<and> isLarge p then (if isSidebarVisible p then Visible else Pending)
      else if ph = AwaitingSidebarClose \<and> \<not> isSidebarVisible p then Pending
      else if ph = Visible \<and> \<not> isSidebarVisible p then Shown
      else if ph = Pending \<and> isSidebarVisible p then Visible
      else ph)"

definition isAllClustersReminderVisible :: "ReminderProps \<Rightarrow> ReminderPhase \<Rightarrow> bool" where
  "isAllClustersReminderVisible p ph \<longleftrightarrow> isClusterRoute p \<and> isSidebarVisible p \<and> ph = Visible"

text \<open>
  A render with its effects: what is shown first, the phase the effects set, what is shown
  then, and the flag the last effect sets when the phase is visible.
\<close>

definition render :: "bool \<Rightarrow> ReminderProps \<Rightarrow> ReminderPhase \<Rightarrow> reminder \<Rightarrow> reminder" where
  "render was p ph s =
     (let ph' = sidebar_effect p (route_effect (hasRemindedThisSession s) was p ph)
      in s\<lparr>reminder_phase := ph', current_props := p,
           hasRemindedThisSession := hasRemindedThisSession s \<or> ph = Visible \<or> ph' = Visible,
           outputs := outputs s @ [isAllClustersReminderVisible p ph, isAllClustersReminderVisible p ph']\<rparr>)"

definition mount :: "ReminderProps \<Rightarrow> reminder \<Rightarrow> reminder" where
  "mount p s = render (isClusterRoute p) p (getEntryPhase (hasRemindedThisSession s) p) s"

definition dismissAllClustersReminder :: "reminder \<Rightarrow> reminder" where
  "dismissAllClustersReminder s =
     s\<lparr>reminder_phase := Shown, outputs := outputs s @ [isAllClustersReminderVisible (current_props s) Shown]\<rparr>"

datatype reminder_event = Mount ReminderProps | NewProps ReminderProps | Dismiss

text \<open>Effects depend on the three properties: with equal properties nothing runs.\<close>

fun reminder_step :: "reminder_event \<Rightarrow> reminder \<Rightarrow> reminder" where
  "reminder_step (Mount p) s = mount p s"
| "reminder_step (NewProps p) s =
     (if p = current_props s
      then s\<lparr>outputs := outputs s @ [isAllClustersReminderVisible p (reminder_phase s)]\<rparr>
      else render (isClusterRoute (current_props s)) p (reminder_phase s) s)"
| "reminder_step Dismiss s = dismissAllClustersReminder s"

text \<open>The state right after the application has loaded and the hook was first mounted.\<close>

definition session :: "ReminderProps \<Rightarrow> reminder" where
  "session p = mount p \<lparr>reminder_phase = PhIdle, current_props = p, hasRemindedThisSession = False, outputs = []\<rparr>"

section \<open>Once per session\<close>

text \<open>
  \<open>once\<close>: after the reminder was visible and then was not, it is never visible again.
  \<open>unclosed\<close>: from the first time it was visible on, it has always been.
\<close>

definition once :: "bool list \<Rightarrow> bool" where
  "once outs \<longleftrightarrow> True \<notin> set (dropWhile id (dropWhile Not outs))"

definition unclosed :: "bool list \<Rightarrow> bool" where
  "unclosed outs \<longleftrightarrow> False \<notin> set (dropWhile Not outs)"

lemma no_True_unclosed: "True \<notin> set outs \<Longrightarrow> unclosed outs"
  by (induction outs) (auto simp: unclosed_def)

lemma unclosed_True: "unclosed outs \<Longrightarrow> unclosed (outs @ [True])"
  by (induction outs) (auto simp: unclosed_def)

lemma once_False: "once outs \<Longrightarrow> once (outs @ [False])"
proof -
  have "True \<notin> set (dropWhile id xs) \<Longrightarrow> True \<notin> set (dropWhile id (xs @ [False]))" for xs
    by (induction xs) auto
  moreover have "dropWhile Not (outs @ [False]) =
      (if True \<in> set outs then dropWhile Not outs @ [False] else [])"
    by (induction outs) auto
  ultimately show "once outs \<Longrightarrow> once (outs @ [False])" by (simp add: once_def)
qed

lemma unclosed_once: "unclosed outs \<Longrightarrow> once outs"
proof -
  have "False \<notin> set xs \<Longrightarrow> True \<notin> set (dropWhile id xs)" for xs by (induction xs) auto
  then show "unclosed outs \<Longrightarrow> once outs" unfolding unclosed_def once_def .
qed

definition reminder_inv :: "reminder \<Rightarrow> bool" where
  "reminder_inv s \<longleftrightarrow>
     (if reminder_phase s = Visible
      then hasRemindedThisSession s \<and> unclosed (outputs s)
         \<and> isClusterRoute (current_props s) \<and> isSidebarVisible (current_props s)
      else once (outputs s)
         \<and> (if hasRemindedThisSession s then reminder_phase s \<in> {PhIdle, Shown} else True \<notin> set (outputs s)))"

text \<open>The phase after the effects of a render is visible only on a cluster route with the sidebar.\<close>

lemma effects_visible:
  "sidebar_effect p (route_effect r was p ph) = Visible \<Longrightarrow> isClusterRoute p \<and> isSidebarVisible p"
  by (auto simp: sidebar_effect_def route_effect_def split: if_splits)

lemma effects_reminded:
  "ph \<in> {PhIdle, Shown} \<Longrightarrow> sidebar_effect p (route_effect True was p ph) \<in> {PhIdle, Shown}"
  by (auto simp: sidebar_effect_def route_effect_def getEntryPhase_def)

lemma effects_from_visible:
  "sidebar_effect p (route_effect r True p Visible) =
     (if \<not> isClusterRoute p then PhIdle else if isSidebarVisible p then Visible else Shown)"
  by (simp add: sidebar_effect_def route_effect_def)

lemma render_reads:
  "reminder_phase (render was p ph s) = sidebar_effect p (route_effect (hasRemindedThisSession s) was p ph)"
  "current_props (render was p ph s) = p"
  "hasRemindedThisSession (render was p ph s) \<longleftrightarrow>
     hasRemindedThisSession s \<or> ph = Visible \<or> reminder_phase (render was p ph s) = Visible"
  "outputs (render was p ph s) = (outputs s @ [isAllClustersReminderVisible p ph])
     @ [isAllClustersReminderVisible p (reminder_phase (render was p ph s))]"
  by (simp_all add: render_def Let_def)

lemma render_reminded:
  assumes "once (outputs s)" and "hasRemindedThisSession s" and "ph \<in> {PhIdle, Shown}"
  shows "reminder_inv (render was p ph s)"
proof -
  have ph: "reminder_phase (render was p ph s) \<in> {PhIdle, Shown}"
    using effects_reminded [OF assms(3)] assms(2) by (simp add: render_reads(1))
  then have vis: "\<not> isAllClustersReminderVisible p ph" "\<not> isAllClustersReminderVisible p (reminder_phase (render was p ph s))"
    using assms(3) by (auto simp: isAllClustersReminderVisible_def)
  have "once (outputs (render was p ph s))"
    unfolding render_reads(4) using vis assms(1) by (simp add: once_False del: append_assoc)
  with ph assms(2) show ?thesis by (auto simp: reminder_inv_def render_reads(3))
qed

lemma render_new:
  assumes "True \<notin> set (outputs s)" and "\<not> hasRemindedThisSession s"
    and "ph = Visible \<Longrightarrow> isClusterRoute p \<and> isSidebarVisible p \<and> was"
  shows "reminder_inv (render was p ph s)"
proof (cases "ph = Visible")
  case True
  with assms(3) have p: "reminder_phase (render was p ph s) = Visible"
    by (simp add: render_reads(1) effects_from_visible)
  have "unclosed (outputs (render was p ph s))"
    unfolding render_reads(4) using True p assms(3) no_True_unclosed [OF assms(1)]
    by (simp add: isAllClustersReminderVisible_def unclosed_True del: append_assoc)
  with p assms(3) True show ?thesis by (simp add: reminder_inv_def render_reads(2,3))
next
  case False
  have o1: "\<not> isAllClustersReminderVisible p ph" using False by (simp add: isAllClustersReminderVisible_def)
  show ?thesis
  proof (cases "reminder_phase (render was p ph s) = Visible")
    case True
    then have v: "isClusterRoute p \<and> isSidebarVisible p"
      using effects_visible by (simp add: render_reads(1))
    have "unclosed ((outputs s @ [False]) @ [True])"
      using assms(1) by (intro unclosed_True no_True_unclosed) simp
    with v True o1 show ?thesis
      by (simp add: reminder_inv_def render_reads(2,3,4) isAllClustersReminderVisible_def)
  next
    case nv: False
    have "True \<notin> set (outputs (render was p ph s))"
      using assms(1) o1 nv by (simp add: render_reads(4) isAllClustersReminderVisible_def)
    moreover have "once (outputs (render was p ph s))"
      using calculation by (intro unclosed_once no_True_unclosed)
    ultimately show ?thesis using nv False assms(2) by (simp add: reminder_inv_def render_reads(3))
  qed
qed

lemma entry_phase:
  "getEntryPhase True p \<in> {PhIdle, Shown}"
  "getEntryPhase False p = Visible \<Longrightarrow> isClusterRoute p \<and> isSidebarVisible p"
  by (auto simp: getEntryPhase_def split: if_splits)

lemma mount_inv:
  assumes "once (outputs s)" and "\<not> hasRemindedThisSession s \<Longrightarrow> True \<notin> set (outputs s)"
  shows "reminder_inv (mount p s)"
proof (cases "hasRemindedThisSession s")
  case True
  with assms(1) entry_phase(1) [of p] show ?thesis by (simp add: mount_def render_reminded)
next
  case False
  then show ?thesis using assms(2) entry_phase(2) [of p]
    unfolding mount_def by (intro render_new) simp_all
qed

lemma inv_once: "reminder_inv s \<Longrightarrow> once (outputs s) \<and> (\<not> hasRemindedThisSession s \<longrightarrow> True \<notin> set (outputs s))"
  by (auto simp: reminder_inv_def unclosed_once split: if_splits)

lemma visible_step_inv:
  assumes "reminder_inv s" and "reminder_phase s = Visible"
  shows "reminder_inv (render (isClusterRoute (current_props s)) p Visible s)"
proof -
  let ?r = "render (isClusterRoute (current_props s)) p Visible s"
  from assms have s: "hasRemindedThisSession s" "unclosed (outputs s)" "isClusterRoute (current_props s)"
    by (simp_all add: reminder_inv_def)
  then have ph: "reminder_phase ?r = (if \<not> isClusterRoute p then PhIdle else if isSidebarVisible p then Visible else Shown)"
    by (simp add: render_reads(1) effects_from_visible)
  show ?thesis
  proof (cases "isClusterRoute p \<and> isSidebarVisible p")
    case True
    then have "unclosed (outputs ?r)"
      unfolding render_reads(4) using ph s(2)
      by (simp add: isAllClustersReminderVisible_def unclosed_True del: append_assoc)
    with True ph s(1) show ?thesis by (simp add: reminder_inv_def render_reads(2,3))
  next
    case False
    then have "outputs ?r = (outputs s @ [False]) @ [False]"
      using ph by (auto simp: render_reads(4) isAllClustersReminderVisible_def)
    then have "once (outputs ?r)" using s(2) by (simp add: once_False unclosed_once del: append_assoc)
    with False ph s(1) show ?thesis by (auto simp: reminder_inv_def render_reads(3))
  qed
qed

lemma reminder_inv_step: "reminder_inv s \<Longrightarrow> reminder_inv (reminder_step e s)"
proof (cases e)
  case (Mount p)
  assume "reminder_inv s"
  with Mount inv_once [of s] show ?thesis by (simp add: mount_inv)
next
  case (NewProps p)
  assume inv: "reminder_inv s"
  show ?thesis
  proof (cases "p = current_props s")
    case True
    with inv NewProps show ?thesis
      by (auto simp: reminder_inv_def isAllClustersReminderVisible_def unclosed_True once_False split: if_splits)
  next
    case False
    show ?thesis
    proof (cases "reminder_phase s = Visible")
      case True
      with visible_step_inv [OF inv, of p] False NewProps show ?thesis by simp
    next
      case nv: False
      have "reminder_inv (render (isClusterRoute (current_props s)) p (reminder_phase s) s)"
      proof (cases "hasRemindedThisSession s")
        case True
        with inv nv show ?thesis by (intro render_reminded) (simp_all add: reminder_inv_def)
      next
        case False
        with inv nv show ?thesis by (intro render_new) (simp_all add: reminder_inv_def)
      qed
      with False NewProps show ?thesis by simp
    qed
  qed
next
  case Dismiss
  assume inv: "reminder_inv s"
  with inv_once [OF inv] Dismiss show ?thesis
    by (simp add: dismissAllClustersReminder_def reminder_inv_def isAllClustersReminderVisible_def once_False)
qed

interpretation reminder: machine reminder_step "\<lambda>_. True" reminder_inv
  by unfold_locales (rule reminder_inv_step)

text \<open>
  The reminder appears at most once per session: over any sequence of renders, of
  mounting the hook again and of dismissals, once it was visible and then was not, it is
  never visible again.
\<close>

theorem reminder_shown_once:
  "True \<notin> set (dropWhile id (dropWhile Not (outputs (fold reminder_step es (session p)))))"
proof -
  have "reminder_inv (session p)"
    unfolding session_def by (rule mount_inv) (simp_all add: once_def)
  then have "reminder_inv (fold reminder_step es (session p))"
    by (intro reminder.inv_run) (simp_all add: list_all_iff)
  from inv_once [OF this] show ?thesis by (simp add: once_def)
qed

end
