(* ===== verification/QueryCache.thy ===== *)
theory QueryCache
  imports Prelude "HOL-Library.Sublist"
begin

text \<open>
  The server state the client caches: the keys under which the hooks of
  \<open>frontend/src/lib/hooks/api\<close> store the answers of their requests, and the keys each change
  invalidates when it succeeds. A query is one request with its parameters; the key is what
  the hook builds from them. The query library is read by its documented behaviour: a key
  filter matches the keys it is a prefix of, and objects in keys are compared by their
  defined members.
\<close>

section \<open>Keys\<close>

datatype key_part = KS string | KN nat | KB bool | KU | KO "(string \<times> key_part) list" | KA "string list"

type_synonym query_key = "key_part list"

text \<open>An object literal of optional parameters.\<close>

definition opt_member :: "string \<Rightarrow> key_part option \<Rightarrow> (string \<times> key_part) list" where
  "opt_member n v = (case v of Some x \<Rightarrow> [(n, x)] | None \<Rightarrow> [])"

definition opt_part :: "key_part option \<Rightarrow> key_part" where
  "opt_part v = (case v of Some x \<Rightarrow> x | None \<Rightarrow> KU)"

section \<open>Queries\<close>

record schema_list =
  sl_page :: "nat option"
  sl_perPage :: "nat option"
  sl_search :: "string option"
  sl_sortOrder :: "string option"
  sl_orderBy :: "string option"
  sl_fts :: "bool option"

datatype query =
  Clusters | ClusterStats string
| Topics string "(string \<times> key_part) list" | TopicDetails string string | TopicConfig string string
| TopicConsumerGroups string string | TopicConnectors string string | TopicAcls string string
| TopicAnalysis string string
| ConsumerGroups string "(string \<times> key_part) list" | ConsumerGroupDetails string string
| ConsumerGroupsLag string "string list" "bool option"
| Acls string "string option" "bool option"
| Connects string "bool option" | Connectors string "string option" "bool option"
| Connector string string string | ConnectorTasks string string string | ConnectorConfig string string string
| Schemas string schema_list | LatestSchema string string | SchemaVersions string string | GlobalCompatibility string
| KsqlTables string | KsqlStreams string
| Brokers string | BrokerMetrics string nat | BrokerLogDirs string nat | BrokerConfig string nat
| AppConfigQuery | AppInfo | AuthSettings | UserInfo | VersionInfo | McpSettings | McpIntegrations

definition topics_all :: "string \<Rightarrow> query_key" where
  "topics_all c = [KS ''clusters'', KS c, KS ''topics'']"

definition topic_details :: "string \<Rightarrow> string \<Rightarrow> query_key" where
  "topic_details c t = topics_all c @ [KS t]"

definition connectorsKey :: "string \<Rightarrow> string option \<Rightarrow> bool option \<Rightarrow> query_key" where
  "connectorsKey c search fts =
     [KS ''clusters'', KS c, KS ''connectors'']
     @ (case search of Some s \<Rightarrow> if s \<noteq> [] then [KO [(''search'', KS s)]] else [] | None \<Rightarrow> [])
     @ (if is_true fts then [KO [(''fts'', KB True)]] else [])"

definition connectsKey :: "string \<Rightarrow> bool option \<Rightarrow> query_key" where
  "connectsKey c withStats = [KS ''clusters'', KS c, KS ''connects'', opt_part (map_option KB withStats)]"

definition connectorKey :: "string \<Rightarrow> string \<Rightarrow> string \<Rightarrow> query_key" where
  "connectorKey c connect name =
     [KS ''clusters'', KS c, KS ''connects'', KS connect, KS ''connectors'', KS name]"

definition SCHEMA_QUERY_KEY :: string where "SCHEMA_QUERY_KEY = ''schemas''"
definition LATEST_SCHEMA_QUERY_KEY :: string where "LATEST_SCHEMA_QUERY_KEY = ''latest_schemas''"
definition SCHEMAS_VERSION_QUERY_KEY :: string where "SCHEMAS_VERSION_QUERY_KEY = ''schemas_version''"
definition GLOBAL_COMPATIBILITY_SCHEMAS_QUERY_KEY :: string where
  "GLOBAL_COMPATIBILITY_SCHEMAS_QUERY_KEY = ''global_compatibility_schemas''"

definition schemas_key :: "string \<Rightarrow> schema_list \<Rightarrow> query_key" where
  "schemas_key c p =
     [KS SCHEMA_QUERY_KEY, KS c, opt_part (map_option KN (sl_page p)), opt_part (map_option KN (sl_perPage p)),
      opt_part (map_option KS (sl_search p)), opt_part (map_option KS (sl_sortOrder p)),
      opt_part (map_option KS (sl_orderBy p)), opt_part (map_option KB (sl_fts p))]"

fun key_of :: "query \<Rightarrow> query_key" where
  "key_of Clusters = [KS ''clusters'']"
| "key_of (ClusterStats c) = [KS ''clusterStats'', KS c]"
| "key_of (Topics c filters) = topics_all c @ [KO filters]"
| "key_of (TopicDetails c t) = topic_details c t"
| "key_of (TopicConfig c t) = topic_details c t @ [KS ''config'']"
| "key_of (TopicConsumerGroups c t) = topic_details c t @ [KS ''consumerGroups'']"
| "key_of (TopicConnectors c t) = topic_details c t @ [KS ''connectors'']"
| "key_of (TopicAcls c t) = topic_details c t @ [KS ''acls'']"
| "key_of (TopicAnalysis c t) = topic_details c t @ [KS ''statistics'']"
| "key_of (ConsumerGroups c params) = [KS ''clusters'', KS c, KS ''consumerGroups'', KO params]"
| "key_of (ConsumerGroupDetails c g) = [KS ''clusters'', KS c, KS ''consumerGroups'', KS g]"
| "key_of (ConsumerGroupsLag c ids incl) =
     [KS ''clusters'', KS c, KS ''consumerGroupsLag'', KA ids, opt_part (map_option KB incl)]"
| "key_of (Acls c search fts) =
     [KS ''clusters'', KS c, KS ''acls'',
      KO (opt_member ''search'' (map_option KS search) @ opt_member ''fts'' (map_option KB fts))]"
| "key_of (Connects c withStats) = connectsKey c withStats"
| "key_of (Connectors c search fts) = connectorsKey c search fts"
| "key_of (Connector c connect name) = connectorKey c connect name"
| "key_of (ConnectorTasks c connect name) = connectorKey c connect name @ [KS ''tasks'']"
| "key_of (ConnectorConfig c connect name) = connectorKey c connect name @ [KS ''config'']"
| "key_of (Schemas c params) = schemas_key c params"
| "key_of (LatestSchema c s) = [KS SCHEMA_QUERY_KEY, KS LATEST_SCHEMA_QUERY_KEY, KS c, KS s]"
| "key_of (SchemaVersions c s) = [KS SCHEMAS_VERSION_QUERY_KEY, KS c, KS s]"
| "key_of (GlobalCompatibility c) = [KS GLOBAL_COMPATIBILITY_SCHEMAS_QUERY_KEY, KS c]"
| "key_of (KsqlTables c) = [KS ''clusters'', KS c, KS ''ksqlDb'', KS ''tables'']"
| "key_of (KsqlStreams c) = [KS ''clusters'', KS c, KS ''ksqlDb'', KS ''streams'']"
| "key_of (Brokers c) = [KS ''clusters'', KS c, KS ''brokers'']"
| "key_of (BrokerMetrics c b) = [KS ''clusters'', KS c, KS ''brokers'', KN b, KS ''metrics'']"
| "key_of (BrokerLogDirs c b) = [KS ''clusters'', KS c, KS ''brokers'', KN b, KS ''logDirs'']"
| "key_of (BrokerConfig c b) = [KS ''clusters'', KS c, KS ''brokers'', KN b, KS ''settings'']"
| "key_of AppConfigQuery = [KS ''app'', KS ''config'']"
| "key_of AppInfo = [KS ''app'', KS ''info'']"
| "key_of AuthSettings = [KS ''app'', KS ''authSettings'']"
| "key_of UserInfo = [KS ''userInfo'']"
| "key_of VersionInfo = [KS ''versionInfo'']"
| "key_of McpSettings = [KS ''desktop-mcp'', KS ''settings'']"
| "key_of McpIntegrations = [KS ''desktop-mcp'', KS ''integrations'']"

section \<open>Changes\<close>

datatype key_filter = Prefix query_key | SchemaOf string | Everything

definition matches :: "key_filter \<Rightarrow> query_key \<Rightarrow> bool" where
  "matches f k = (case f of
      Prefix p \<Rightarrow> prefix p k
    | SchemaOf c \<Rightarrow> take 2 k = [KS SCHEMA_QUERY_KEY, KS c]
    | Everything \<Rightarrow> True)"

datatype change =
  CreateTopic string | UpdateTopic string string | IncreasePartitions string string | ChangeReplication string string
| DeleteTopic string string | ClearMessages string string | RecreateTopic string string | SendMessage string string
| AnalyzeTopic string string | CancelTopicAnalysis string string
| DeleteConsumerGroup string string | ResetOffsets string string | DeleteOffsets string string
| CreateAcl string | DeleteAcl string
| UpdateConnectorState string string string "string option" | RestartTask string string string
| UpdateConnectorConfig string string string | CreateConnector string | DeleteConnector string string string
| ResetConnectorOffsets string string string
| CreateSchema string string | UpdateSchemaCompatibility string string | UpdateGlobalCompatibility string | DeleteSchema string string
| UpdateBrokerConfig string nat
| UpdateAppConfig | DuplicateCluster | DeleteCluster | ImportConfig
| UpdateMcpSettings | ConfigureMcpClient

fun invalidates :: "change \<Rightarrow> key_filter list" where
  "invalidates (CreateTopic c) = [Prefix (topics_all c)]"
| "invalidates (UpdateTopic c t) = [Prefix (topics_all c)]"
| "invalidates (IncreasePartitions c t) = [Prefix (topics_all c)]"
| "invalidates (ChangeReplication c t) = [Prefix (topics_all c)]"
| "invalidates (DeleteTopic c t) = [Prefix (topics_all c)]"
| "invalidates (ClearMessages c t) = [Prefix (topics_all c)]"
| "invalidates (RecreateTopic c t) = [Prefix (topics_all c)]"
| "invalidates (SendMessage c t) = [Prefix (topics_all c)]"
| "invalidates (AnalyzeTopic c t) = [Prefix (topic_details c t @ [KS ''statistics''])]"
| "invalidates (CancelTopicAnalysis c t) = [Prefix (topic_details c t @ [KS ''statistics''])]"
| "invalidates (DeleteConsumerGroup c g) = [Prefix [KS ''clusters'', KS c, KS ''consumerGroups'']]"
| "invalidates (ResetOffsets c g) = [Prefix [KS ''clusters'', KS c, KS ''consumerGroups'']]"
| "invalidates (DeleteOffsets c g) = [Prefix [KS ''clusters'', KS c, KS ''consumerGroups'']]"
| "invalidates (CreateAcl c) = [Prefix [KS ''clusters'', KS c, KS ''acls'']]"
| "invalidates (DeleteAcl c) = [Prefix [KS ''clusters'', KS c, KS ''acls'']]"
| "invalidates (UpdateConnectorState c connect name topic) =
     [Prefix (connectorsKey c None None), Prefix (connectorKey c connect name)]
     @ (case topic of
          Some t \<Rightarrow> if t \<noteq> [] then [Prefix (topic_details c t @ [KS ''connectors''])] else []
        | None \<Rightarrow> [])"
| "invalidates (RestartTask c connect name) = [Prefix (connectorKey c connect name @ [KS ''tasks''])]"
| "invalidates (UpdateConnectorConfig c connect name) = [Prefix (connectorKey c connect name)]"
| "invalidates (CreateConnector c) = [Prefix (connectorsKey c None None)]"
| "invalidates (DeleteConnector c connect name) = [Prefix (connectorsKey c None None)]"
| "invalidates (ResetConnectorOffsets c connect name) = [Prefix (connectorKey c connect name)]"
| "invalidates (CreateSchema c s) = [SchemaOf c]"
| "invalidates (UpdateSchemaCompatibility c s) = [SchemaOf c]"
| "invalidates (UpdateGlobalCompatibility c) =
     [Prefix [KS GLOBAL_COMPATIBILITY_SCHEMAS_QUERY_KEY, KS c], SchemaOf c]"
| "invalidates (DeleteSchema c s) = [SchemaOf c]"
| "invalidates (UpdateBrokerConfig c b) = [Prefix [KS ''clusters'', KS c, KS ''brokers'', KN b, KS ''settings'']]"
| "invalidates UpdateAppConfig = [Prefix [KS ''app'', KS ''config'']]"
| "invalidates DuplicateCluster = [Prefix [KS ''app'', KS ''config''], Prefix [KS ''clusters'']]"
| "invalidates DeleteCluster = [Prefix [KS ''app'', KS ''config''], Prefix [KS ''clusters'']]"
| "invalidates ImportConfig = [Everything]"
| "invalidates UpdateMcpSettings = [Prefix [KS ''desktop-mcp'', KS ''settings''], Prefix [KS ''desktop-mcp'', KS ''integrations'']]"
| "invalidates ConfigureMcpClient = [Prefix [KS ''desktop-mcp'', KS ''settings''], Prefix [KS ''desktop-mcp'', KS ''integrations'']]"

definition refreshes :: "change \<Rightarrow> query \<Rightarrow> bool" where
  "refreshes m q \<longleftrightarrow> list_ex (\<lambda>f. matches f (key_of q)) (invalidates m)"

text \<open>The cache: which of the stored queries are stale after a change.\<close>

definition after_change :: "change \<Rightarrow> (query \<times> bool) list \<Rightarrow> (query \<times> bool) list" where
  "after_change m cache = map (\<lambda>(q, stale). (q, stale \<or> refreshes m q)) cache"

section \<open>Lemmas\<close>

lemmas key_defs = topics_all_def topic_details_def connectorsKey_def connectsKey_def connectorKey_def schemas_key_def
  SCHEMA_QUERY_KEY_def LATEST_SCHEMA_QUERY_KEY_def SCHEMAS_VERSION_QUERY_KEY_def GLOBAL_COMPATIBILITY_SCHEMAS_QUERY_KEY_def

lemma opt_part_inj:
  "opt_part (map_option KB x) = opt_part (map_option KB y) \<longleftrightarrow> x = y"
  "opt_part (map_option KN m) = opt_part (map_option KN n) \<longleftrightarrow> m = n"
  "opt_part (map_option KS s) = opt_part (map_option KS t) \<longleftrightarrow> s = t"
  by (auto simp: opt_part_def split: option.splits)

lemma opt_part_not:
  "opt_part (map_option KB x) \<noteq> KS s" "KS s \<noteq> opt_part (map_option KB x)"
  by (auto simp: opt_part_def split: option.splits)

lemma acl_filter_inj:
  "opt_member ''search'' (map_option KS s) @ opt_member ''fts'' (map_option KB f)
     = opt_member ''search'' (map_option KS s') @ opt_member ''fts'' (map_option KB f') \<longleftrightarrow> s = s' \<and> f = f'"
  by (auto simp: opt_member_def split: option.splits)

text \<open>An empty search and an unset one give the same key, and the same answer.\<close>

definition search_key :: "string option \<Rightarrow> string option" where
  "search_key s = (if truthy s then s else None)"

fun canonical :: "query \<Rightarrow> query" where
  "canonical (Connectors c search fts) = Connectors c (search_key search) (if is_true fts then Some True else None)"
| "canonical q = q"

lemma connectors_key_inj:
  "connectorsKey c s f = connectorsKey c' s' f' \<longleftrightarrow>
     c = c' \<and> search_key s = search_key s' \<and> is_true f = is_true f'"
  by (auto simp: connectorsKey_def search_key_def truthy_def split: option.splits)

fun query_cluster :: "query \<Rightarrow> string option" where
  "query_cluster (ClusterStats c) = Some c"
| "query_cluster (Topics c p) = Some c"
| "query_cluster (TopicDetails c t) = Some c"
| "query_cluster (TopicConfig c t) = Some c"
| "query_cluster (TopicConsumerGroups c t) = Some c"
| "query_cluster (TopicConnectors c t) = Some c"
| "query_cluster (TopicAcls c t) = Some c"
| "query_cluster (TopicAnalysis c t) = Some c"
| "query_cluster (ConsumerGroups c p) = Some c"
| "query_cluster (ConsumerGroupDetails c g) = Some c"
| "query_cluster (ConsumerGroupsLag c ids i) = Some c"
| "query_cluster (Acls c s f) = Some c"
| "query_cluster (Connects c w) = Some c"
| "query_cluster (Connectors c s f) = Some c"
| "query_cluster (Connector c n m) = Some c"
| "query_cluster (ConnectorTasks c n m) = Some c"
| "query_cluster (ConnectorConfig c n m) = Some c"
| "query_cluster (Schemas c p) = Some c"
| "query_cluster (LatestSchema c s) = Some c"
| "query_cluster (SchemaVersions c s) = Some c"
| "query_cluster (GlobalCompatibility c) = Some c"
| "query_cluster (KsqlTables c) = Some c"
| "query_cluster (KsqlStreams c) = Some c"
| "query_cluster (Brokers c) = Some c"
| "query_cluster (BrokerMetrics c b) = Some c"
| "query_cluster (BrokerLogDirs c b) = Some c"
| "query_cluster (BrokerConfig c b) = Some c"
| "query_cluster q = None"

fun topic_query :: "query \<Rightarrow> bool" where
  "topic_query (Topics c p) = True"
| "topic_query (TopicDetails c t) = True"
| "topic_query (TopicConfig c t) = True"
| "topic_query (TopicConsumerGroups c t) = True"
| "topic_query (TopicConnectors c t) = True"
| "topic_query (TopicAcls c t) = True"
| "topic_query (TopicAnalysis c t) = True"
| "topic_query q = False"

fun topic_change :: "change \<Rightarrow> string option" where
  "topic_change (CreateTopic c) = Some c"
| "topic_change (UpdateTopic c t) = Some c"
| "topic_change (IncreasePartitions c t) = Some c"
| "topic_change (ChangeReplication c t) = Some c"
| "topic_change (DeleteTopic c t) = Some c"
| "topic_change (ClearMessages c t) = Some c"
| "topic_change (RecreateTopic c t) = Some c"
| "topic_change (SendMessage c t) = Some c"
| "topic_change m = None"

text \<open>The keys under a cluster, and those of topics, are recognised by their first parts.\<close>

lemma topic_key: "prefix (topics_all c) (key_of q) \<longleftrightarrow> topic_query q \<and> query_cluster q = Some c"
  by (cases q) (auto simp: key_defs opt_part_not)

lemma keys_of_same_query: "canonical q = canonical q' \<Longrightarrow> key_of q = key_of q'"
proof (induction q rule: canonical.induct)
  case (1 c s f)
  then show ?case by (cases q') (auto simp: connectors_key_inj is_true_def search_key_def split: if_splits)
qed (cases q'; simp)+

lemma schemas_key_inj: "schemas_key c p = schemas_key c' p' \<longleftrightarrow> c = c' \<and> p = p'"
  by (cases p; cases p') (auto simp: schemas_key_def opt_part_inj)

lemma same_key_same_query: "key_of q = key_of q' \<Longrightarrow> canonical q = canonical q'"
  by (cases q)
    (cases q'; ((simp add: connectors_key_inj schemas_key_inj; fail)
      | (auto simp: key_defs opt_part_inj opt_part_not acl_filter_inj split: option.splits if_splits; fail)))+

section \<open>Properties\<close>

text \<open>
  C14. Cached answers are never mixed up: two requests share a cache key exactly when they
  are the same request, up to the distinction between an empty and an absent search of the
  list of connectors.
\<close>

theorem cache_keys_unambiguous:
  "key_of q = key_of q' \<longleftrightarrow> canonical q = canonical q'"
  using same_key_same_query keys_of_same_query by blast

text \<open>
  A change to a topic makes exactly the cached topic queries of its cluster stale, the
  lists, the details, the configuration, the consumer groups, the connectors, the access
  rules and the statistics alike, and touches nothing else in the cache.
\<close>

theorem topic_changes_refresh:
  assumes "topic_change m = Some c"
  shows "refreshes m q \<longleftrightarrow> topic_query q \<and> query_cluster q = Some c"
  using assms by (cases m) (simp_all add: refreshes_def matches_def topic_key)

theorem topic_changes_refresh_witness:
  "refreshes (DeleteTopic ''c'' ''t'') (TopicConfig ''c'' ''t'') \<and> \<not> refreshes (DeleteTopic ''c'' ''t'') (TopicConfig ''d'' ''t'')"
  using topic_changes_refresh [of "DeleteTopic ''c'' ''t''" "''c''"] by simp

text \<open>
  Some changes leave answers that show the changed data in the cache as fresh. A new
  schema version, a changed compatibility or a deleted subject refreshes the list of subjects
  but neither the latest schema of the subject (unless the cluster is called like the key
  itself) nor its versions; resetting or deleting offsets refreshes the consumer group but
  not its lag nor the consumer groups of a topic; access rules changed on their page are not
  refreshed on the page of a topic; and saving the form of a cluster, unlike cloning or
  deleting it, does not refresh the list of clusters.
\<close>

theorem stale_answers:
  "(refreshes (CreateSchema c s) (Schemas c p) \<and> refreshes (UpdateSchemaCompatibility c s) (Schemas c p)
      \<and> refreshes (DeleteSchema c s) (Schemas c p))
   \<and> (refreshes (CreateSchema c s) (LatestSchema c s) \<longleftrightarrow> c = ''latest_schemas'')
   \<and> (refreshes (UpdateSchemaCompatibility c s) (LatestSchema c s) \<longleftrightarrow> c = ''latest_schemas'')
   \<and> (refreshes (DeleteSchema c s) (LatestSchema c s) \<longleftrightarrow> c = ''latest_schemas'')
   \<and> \<not> refreshes (CreateSchema c s) (SchemaVersions c s)
   \<and> refreshes (ResetOffsets c g) (ConsumerGroupDetails c g)
   \<and> \<not> refreshes (ResetOffsets c g) (ConsumerGroupsLag c ids incl)
   \<and> \<not> refreshes (DeleteOffsets c g) (ConsumerGroupsLag c ids incl)
   \<and> \<not> refreshes (DeleteConsumerGroup c g) (TopicConsumerGroups c t)
   \<and> refreshes (CreateAcl c) (Acls c search fts) \<and> \<not> refreshes (CreateAcl c) (TopicAcls c t)
   \<and> refreshes DuplicateCluster Clusters \<and> refreshes DeleteCluster Clusters \<and> \<not> refreshes UpdateAppConfig Clusters"
  by (auto simp: refreshes_def matches_def key_defs)

end
