(* ===== verification/TableExport.thy ===== *)
theory TableExport
  imports Json
begin

text \<open>
  The export of a table as comma-separated text,
  \<open>frontend/src/components/common/NewTable/utils/exportTableCSV.ts\<close>. What a column's renderer
  makes of a row is part of the column: an element (with its inner text), a plain value, or an
  exception, in which case the value of the row is used instead.
\<close>

section \<open>Tables\<close>

datatype cell_result = CellElement string | CellValue "json option" | CellThrows

record column =
  col_csv :: "string option"
  col_header :: "string option"
  col_accessorKey :: "string option"
  col_csvFn :: "(json \<Rightarrow> string) option"
  col_cell :: "(json \<Rightarrow> cell_result) option"

record table =
  selected_rows :: "json list"
  paginated_rows :: "json list"
  all_rows :: "json list"
  columns :: "column list"

record ExportCsvOptions =
  opt_filename :: "string option"
  opt_prefix :: "string option"
  includeDate :: bool

section \<open>Export\<close>

definition escapeCsv :: "string \<Rightarrow> string" where
  "escapeCsv s =
     (if js_includes '','' s \<or> js_includes [CHR 0x22] s \<or> js_includes [CHR 0x0A] s
      then [CHR 0x22] @ replace_char (CHR 0x22) [CHR 0x22, CHR 0x22] s @ [CHR 0x22] else s)"

definition or_else :: "'a option \<Rightarrow> 'a option \<Rightarrow> 'a option" where
  "or_else a b = (case a of Some x \<Rightarrow> Some x | None \<Rightarrow> b)"

definition rowsToExport :: "table \<Rightarrow> json list" where
  "rowsToExport t =
     (if selected_rows t \<noteq> [] then selected_rows t
      else if all_rows t \<noteq> [] then all_rows t else paginated_rows t)"

definition headersColumns :: "table \<Rightarrow> column list" where
  "headersColumns t =
     filter (\<lambda>c. truthy (or_else (col_csv c) (col_header c)) \<and> truthy (col_accessorKey c)) (columns t)"

definition headers :: "table \<Rightarrow> string list" where
  "headers t = map (\<lambda>c. the (or_else (col_csv c) (col_header c))) (headersColumns t)"

definition accessor_text :: "column \<Rightarrow> json \<Rightarrow> string" where
  "accessor_text c row =
     (case col_accessorKey c of
        None \<Rightarrow> []
      | Some key \<Rightarrow> (case member row key of
            None \<Rightarrow> []
          | Some JNull \<Rightarrow> []
          | Some (JArr xs) \<Rightarrow> js_stringify (JArr xs)
          | Some (JObj ms) \<Rightarrow> js_stringify (JObj ms)
          | Some v \<Rightarrow> js_String v))"

definition cell_text :: "column \<Rightarrow> json \<Rightarrow> string" where
  "cell_text c row =
     (case col_csvFn c of
        Some f \<Rightarrow> f row
      | None \<Rightarrow> (case col_cell c of
            Some render \<Rightarrow> (case render row of
                CellElement s \<Rightarrow> s
              | CellValue None \<Rightarrow> []
              | CellValue (Some JNull) \<Rightarrow> []
              | CellValue (Some v) \<Rightarrow> js_String v
              | CellThrows \<Rightarrow> accessor_text c row)
          | None \<Rightarrow> accessor_text c row))"

definition body :: "table \<Rightarrow> string list list" where
  "body t = map (\<lambda>row. map (\<lambda>c. escapeCsv (cell_text c row)) (headersColumns t)) (rowsToExport t)"

definition csv :: "table \<Rightarrow> string" where
  "csv t = join [CHR 0x0A] (join '','' (headers t) # map (join '','') (body t))"

text \<open>The file name and its content, or nothing without a table or rows.\<close>

definition exportTableCSV :: "table option \<Rightarrow> ExportCsvOptions \<Rightarrow> string \<Rightarrow> (string \<times> string) option" where
  "exportTableCSV tab opts today =
     (case tab of
        None \<Rightarrow> None
      | Some t \<Rightarrow>
          if rowsToExport t = [] then None
          else let datePart = (if includeDate opts then ''_'' @ today else []);
                   prefix = (case opt_prefix opts of Some p \<Rightarrow> p | None \<Rightarrow> ''table_data'')
               in Some (case opt_filename opts of Some f \<Rightarrow> f | None \<Rightarrow> prefix @ datePart @ ''.csv'', csv t))"

section \<open>A reader of comma-separated text\<close>

fun csv_quoted :: "string \<Rightarrow> string \<times> string" where
  "csv_quoted [] = ([], [])"
| "csv_quoted [c] = (if c = CHR 0x22 then ([], []) else ([c], []))"
| "csv_quoted (c # d # s) =
     (if c = CHR 0x22 then
        if d = CHR 0x22 then (case csv_quoted s of (f, r) \<Rightarrow> (c # f, r)) else ([], d # s)
      else (case csv_quoted (d # s) of (f, r) \<Rightarrow> (c # f, r)))"

definition field_end :: "char \<Rightarrow> bool" where
  "field_end c \<longleftrightarrow> c = CHR '','' \<or> c = CHR 0x0A"

definition csv_field :: "string \<Rightarrow> string \<times> string" where
  "csv_field s =
     (case s of
        [] \<Rightarrow> ([], [])
      | c # cs \<Rightarrow> if c = CHR 0x22 then csv_quoted cs
                  else (takeWhile (\<lambda>c. \<not> field_end c) s, dropWhile (\<lambda>c. \<not> field_end c) s))"

lemma csv_quoted_length: "length (snd (csv_quoted s)) \<le> length s"
  by (induction s rule: csv_quoted.induct) (auto split: prod.splits)

lemma csv_field_length: "length (snd (csv_field s)) \<le> length s"
  using csv_quoted_length length_dropWhile_le
  by (auto simp: csv_field_def split: list.split intro: le_SucI)

function csv_read :: "string \<Rightarrow> string list list" where
  "csv_read s =
     (case csv_field s of
        (f, []) \<Rightarrow> [[f]]
      | (f, c # cs) \<Rightarrow>
          if c = CHR '','' then (case csv_read cs of [] \<Rightarrow> [[f]] | row # rows \<Rightarrow> (f # row) # rows)
          else [f] # csv_read cs)"
  by pat_completeness auto
termination
proof (relation "measure length")
  fix s f r c cs assume "(f, r) = csv_field s" "r = c # cs"
  then show "(cs, s) \<in> measure length" using csv_field_length [of s] by (metis Suc_le_lessD in_measure length_Cons snd_conv)
next
  fix s f r c cs assume "(f, r) = csv_field s" "r = c # cs"
  then show "(cs, s) \<in> measure length" using csv_field_length [of s] by (metis Suc_le_lessD in_measure length_Cons snd_conv)
qed simp

declare csv_read.simps [simp del]

section \<open>Lemmas\<close>

definition double_quotes :: "string \<Rightarrow> string" where
  "double_quotes s = replace_char (CHR 0x22) [CHR 0x22, CHR 0x22] s"

definition ends_field :: "string \<Rightarrow> bool" where
  "ends_field r \<longleftrightarrow> (case r of [] \<Rightarrow> True | c # _ \<Rightarrow> field_end c)"

lemma quoted_read: "ends_field r \<Longrightarrow> csv_quoted (double_quotes s @ CHR 0x22 # r) = (s, r)"
proof (induction s)
  case Nil
  then show ?case by (cases r) (auto simp: double_quotes_def ends_field_def field_end_def)
next
  case (Cons c s)
  then have IH: "csv_quoted (double_quotes s @ CHR 0x22 # r) = (s, r)" by simp
  obtain d ds where d: "double_quotes s @ CHR 0x22 # r = d # ds" by (cases "double_quotes s @ CHR 0x22 # r") auto
  show ?case
  proof (cases "c = CHR 0x22")
    case True
    then have "double_quotes (c # s) @ CHR 0x22 # r = CHR 0x22 # CHR 0x22 # (double_quotes s @ CHR 0x22 # r)"
      by (simp add: double_quotes_def)
    with True IH show ?thesis by simp
  next
    case False
    then have "double_quotes (c # s) @ CHR 0x22 # r = c # d # ds" using d by (simp add: double_quotes_def)
    with False IH d show ?thesis by simp
  qed
qed

lemma plain_read:
  assumes "\<not> js_includes '','' s" and "\<not> js_includes [CHR 0x22] s" and "\<not> js_includes [CHR 0x0A] s" and "ends_field r"
  shows "csv_field (s @ r) = (s, r)"
proof -
  have clean: "\<not> field_end c \<and> c \<noteq> CHR 0x22" if "c \<in> set s" for c
    using assms that by (auto simp: field_end_def)
  show ?thesis
  proof (cases s)
    case Nil
    with assms(4) show ?thesis by (cases r) (auto simp: csv_field_def ends_field_def field_end_def)
  next
    case (Cons c cs)
    then have "c \<noteq> CHR 0x22" using clean by simp
    moreover have "takeWhile (\<lambda>c. \<not> field_end c) (s @ r) = s" "dropWhile (\<lambda>c. \<not> field_end c) (s @ r) = r"
      using clean assms(4) by (cases r; simp add: takeWhile_append dropWhile_append ends_field_def)+
    ultimately show ?thesis using Cons by (simp add: csv_field_def)
  qed
qed

lemma field_read: "ends_field r \<Longrightarrow> csv_field (escapeCsv s @ r) = (s, r)"
  using quoted_read [of r s] plain_read [of s r]
  by (cases "js_includes '','' s \<or> js_includes [CHR 0x22] s \<or> js_includes [CHR 0x0A] s")
    (simp_all add: escapeCsv_def csv_field_def double_quotes_def del: js_includes_single)

lemma record_read:
  "ws \<noteq> [] \<Longrightarrow> csv_read (join '','' (map escapeCsv ws)) = [ws]"
  "ws \<noteq> [] \<Longrightarrow> csv_read (join '','' (map escapeCsv ws) @ CHR 0x0A # s) = ws # csv_read s"
proof (induction ws)
  case (Cons w ws)
  have nl: "ends_field (CHR 0x0A # s)" "ends_field []" by (simp_all add: ends_field_def field_end_def)
  {
    case 1
    show ?case
    proof (cases ws)
      case Nil
      with field_read [OF nl(2), of w] show ?thesis by (subst csv_read.simps) simp
    next
      case (Cons v vs)
      have "ends_field (CHR '','' # x)" for x by (simp add: ends_field_def field_end_def)
      from field_read [OF this, of w] Cons.IH(1) Cons show ?thesis
        by (subst csv_read.simps) (simp add: join_Cons)
    qed
  next
    case 2
    show ?case
    proof (cases ws)
      case Nil
      with field_read [OF nl(1), of w] show ?thesis by (subst csv_read.simps) simp
    next
      case (Cons v vs)
      have "ends_field (CHR '','' # x)" for x by (simp add: ends_field_def field_end_def)
      from field_read [OF this, of w] Cons.IH(2) Cons show ?thesis
        by (subst csv_read.simps) (simp add: join_Cons)
    qed
  }
qed simp_all

lemma records_read:
  "rows \<noteq> [] \<Longrightarrow> (\<And>r. r \<in> set rows \<Longrightarrow> r \<noteq> []) \<Longrightarrow>
   csv_read (join [CHR 0x0A] (map (\<lambda>r. join '','' (map escapeCsv r)) rows)) = rows"
proof (induction rows)
  case (Cons row rows)
  then have "row \<noteq> []" by simp
  with Cons record_read [of row] show ?case
    by (cases rows) (simp_all add: join_Cons)
qed simp

definition plain :: "string \<Rightarrow> bool" where
  "plain s \<longleftrightarrow> CHR '','' \<notin> set s \<and> CHR 0x22 \<notin> set s \<and> CHR 0x0A \<notin> set s"

lemma plain_escape: "plain s \<Longrightarrow> escapeCsv s = s"
  by (simp add: plain_def escapeCsv_def)

section \<open>Properties\<close>

text \<open>
  C13. Reading an exported table gives it back: when no header contains a comma, a quotation
  mark or a line break (headers are not escaped), the text has one record for the headers
  and one for each exported row, the selected rows if there are any and all rows otherwise,
  and each field is the text of its cell, whatever characters it contains.
\<close>

theorem csv_roundtrip:
  assumes "exportTableCSV (Some t) opts today = Some (fname, content)" and "headersColumns t \<noteq> []"
    and "list_all plain (headers t)"
  shows "csv_read content = headers t # map (\<lambda>row. map (\<lambda>c. cell_text c row) (headersColumns t)) (rowsToExport t)
    \<and> (selected_rows t \<noteq> [] \<longrightarrow> rowsToExport t = selected_rows t)"
proof -
  let ?rows = "headers t # map (\<lambda>row. map (\<lambda>c. cell_text c row) (headersColumns t)) (rowsToExport t)"
  have h: "map escapeCsv (headers t) = headers t"
    using assms(3) by (intro map_idI) (auto simp: list_all_iff plain_escape)
  have "content = csv t" using assms(1) by (simp add: exportTableCSV_def Let_def split: if_splits)
  also have "\<dots> = join [CHR 0x0A] (map (\<lambda>r. join '','' (map escapeCsv r)) ?rows)"
    by (simp add: csv_def body_def h comp_def)
  finally have c: "content = join [CHR 0x0A] (map (\<lambda>r. join '','' (map escapeCsv r)) ?rows)" .
  have "r \<noteq> []" if "r \<in> set ?rows" for r using that assms(2) by (auto simp: headers_def)
  then have "csv_read content = ?rows" unfolding c by (intro records_read) auto
  then show ?thesis by (simp add: rowsToExport_def)
qed

definition sample_table :: "string \<Rightarrow> table" where
  "sample_table h = \<lparr>selected_rows = [], paginated_rows = [], all_rows = [JObj [(''n'', JStr ''a,b'')]],
     columns = [\<lparr>col_csv = None, col_header = Some h, col_accessorKey = Some ''n'', col_csvFn = None, col_cell = None\<rparr>]\<rparr>"

theorem csv_roundtrip_witness:
  "csv_read (csv (sample_table ''Name'')) = [[''Name''], [''a,b'']]"
proof -
  let ?opts = "\<lparr>opt_filename = Some ''f'', opt_prefix = None, includeDate = False\<rparr>"
  have e: "exportTableCSV (Some (sample_table ''Name'')) ?opts [] = Some (''f'', csv (sample_table ''Name''))"
    by (simp add: exportTableCSV_def sample_table_def rowsToExport_def)
  have h: "headersColumns (sample_table ''Name'') = columns (sample_table ''Name'')"
    by (simp add: headersColumns_def sample_table_def or_else_def truthy_def)
  then have n: "headersColumns (sample_table ''Name'') \<noteq> []" by (simp add: sample_table_def)
  have p: "headers (sample_table ''Name'') = [''Name'']" unfolding headers_def h by (simp add: sample_table_def or_else_def)
  then have "list_all plain (headers (sample_table ''Name''))" by (simp add: plain_def)
  from csv_roundtrip [OF e n this] show ?thesis
    unfolding p h by (simp add: sample_table_def rowsToExport_def cell_text_def accessor_text_def)
qed

end
