(* ===== verification/ConsumerGroups.thy ===== *)
theory ConsumerGroups
  imports Prelude
begin

text \<open>
  Consumer group lags: the trends shown while polling, \<open>frontend/src/lib/consumerGroups.tsx\<close>
  and \<open>lib/hooks/useConsumerGroupsLagTrends.tsx\<close>, and the table of topics of a group,
  \<open>components/ConsumerGroups/Details/TopicsTable/lib/utils.ts\<close>. Objects used as dictionaries
  also answer for the names every object inherits; the models keep that.
\<close>

section \<open>Trends\<close>

datatype LagTrend = TUp | TDown | TSame | TNone

type_synonym LagMap = "int option obj"

definition computeSingleLagTrend :: "int option \<Rightarrow> int option \<Rightarrow> LagTrend" where
  "computeSingleLagTrend prev next =
     (case (prev, next) of
        (Some p, Some n) \<Rightarrow> if n > p then TUp else if n < p then TDown else TSame
      | _ \<Rightarrow> TNone)"

text \<open>
  Looking up the previous lag may find an inherited member, which is neither missing nor
  comparable with a number.
\<close>

definition trend_from :: "LagMap \<Rightarrow> string \<Rightarrow> int option \<Rightarrow> LagTrend" where
  "trend_from prevLagMap key next =
     (case obj_index prevLagMap key of
        Own prev \<Rightarrow> computeSingleLagTrend prev next
      | Missing \<Rightarrow> TNone
      | Inherited \<Rightarrow> if next = None then TNone else TSame)"

definition computeLagTrends ::
  "LagMap \<Rightarrow> 'a obj \<Rightarrow> ('a \<Rightarrow> int option) \<Rightarrow> bool \<Rightarrow> LagTrend obj" where
  "computeLagTrends prevLagMap source selectLag pollingEnabled =
     (if \<not> pollingEnabled then []
      else obj_from_entries (map (\<lambda>(key, v). (key, trend_from prevLagMap key (selectLag v))) source))"

definition buildNextLagMap :: "'a obj \<Rightarrow> ('a \<Rightarrow> int option) \<Rightarrow> LagMap" where
  "buildNextLagMap source selectLag = obj_from_entries (map (\<lambda>(key, v). (key, selectLag v)) source)"

type_synonym TopicPartitions = "LagMap option obj"

definition partitions_of :: "LagMap option \<Rightarrow> LagMap" where
  "partitions_of t = (case t of Some m \<Rightarrow> m | None \<Rightarrow> [])"

definition computePartitionsLagTrends :: "LagMap obj \<Rightarrow> TopicPartitions \<Rightarrow> bool \<Rightarrow> LagTrend obj obj" where
  "computePartitionsLagTrends prevPartitionsMap topicPartitions isPolling =
     obj_from_entries (map (\<lambda>(topicName, topicLag).
       (topicName, computeLagTrends (case obj_index prevPartitionsMap topicName of Own m \<Rightarrow> m | _ \<Rightarrow> [])
          (partitions_of topicLag) (\<lambda>lag. lag) isPolling)) topicPartitions)"

definition buildNextPartitionsLagMap :: "TopicPartitions \<Rightarrow> LagMap obj" where
  "buildNextPartitionsLagMap topicPartitions =
     obj_from_entries (map (\<lambda>(topicName, topicLag).
       (topicName, buildNextLagMap (partitions_of topicLag) (\<lambda>lag. lag))) topicPartitions)"

section \<open>The hook\<close>

record GroupLag =
  group_lag :: "int option"
  group_topics :: "LagMap option"
  group_topicPartitions :: "TopicPartitions option"

record prevLag =
  prev_groups :: LagMap
  prev_topics :: LagMap
  prev_partitions :: "LagMap obj"

record LagTrends =
  groupLagTrends :: "LagTrend obj"
  topicsLagTrends :: "LagTrend obj"
  partitionsLagTrends :: "LagTrend obj obj"

definition no_prev :: prevLag where
  "no_prev = \<lparr>prev_groups = [], prev_topics = [], prev_partitions = []\<rparr>"

definition cg_lag :: "GroupLag option \<Rightarrow> int option" where
  "cg_lag cg = Option.bind cg group_lag"

definition topics_of_group :: "GroupLag option obj \<Rightarrow> string \<Rightarrow> LagMap" where
  "topics_of_group groups groupId =
     (case map_of groups groupId of
        Some (Some g) \<Rightarrow> (case group_topics g of Some m \<Rightarrow> m | None \<Rightarrow> []) | _ \<Rightarrow> [])"

definition topicPartitions_of_group :: "GroupLag option obj \<Rightarrow> string \<Rightarrow> TopicPartitions" where
  "topicPartitions_of_group groups groupId =
     (case map_of groups groupId of
        Some (Some g) \<Rightarrow> (case group_topicPartitions g of Some m \<Rightarrow> m | None \<Rightarrow> []) | _ \<Rightarrow> [])"

definition lagTrends :: "bool \<Rightarrow> string \<Rightarrow> nat \<Rightarrow> prevLag \<Rightarrow> GroupLag option obj option \<Rightarrow> LagTrends" where
  "lagTrends includePartitions groupId pollingIntervalSec prev lagData =
     (case lagData of
        None \<Rightarrow> \<lparr>groupLagTrends = [], topicsLagTrends = [], partitionsLagTrends = []\<rparr>
      | Some groups \<Rightarrow>
          let isPolling = pollingIntervalSec > 0;
              gs = computeLagTrends (prev_groups prev) groups cg_lag isPolling
          in if \<not> includePartitions
             then \<lparr>groupLagTrends = gs, topicsLagTrends = [], partitionsLagTrends = []\<rparr>
             else \<lparr>groupLagTrends = gs,
                   topicsLagTrends = computeLagTrends (prev_topics prev) (topics_of_group groups groupId)
                     (\<lambda>lag. lag) isPolling,
                   partitionsLagTrends = computePartitionsLagTrends (prev_partitions prev)
                     (topicPartitions_of_group groups groupId) isPolling\<rparr>)"

definition remember :: "bool \<Rightarrow> string \<Rightarrow> GroupLag option obj option \<Rightarrow> prevLag \<Rightarrow> prevLag" where
  "remember includePartitions groupId lagData prev =
     (case lagData of
        None \<Rightarrow> prev
      | Some groups \<Rightarrow>
          let next = buildNextLagMap groups cg_lag
          in if \<not> includePartitions then \<lparr>prev_groups = next, prev_topics = [], prev_partitions = []\<rparr>
             else \<lparr>prev_groups = next,
                   prev_topics = buildNextLagMap (topics_of_group groups groupId) (\<lambda>lag. lag),
                   prev_partitions = buildNextPartitionsLagMap (topicPartitions_of_group groups groupId)\<rparr>)"

text \<open>
  One answer of the server: the trends shown for it, and what is remembered. The ids asked
  for are the members of the answer (\<open>select\<close> in \<open>useGetConsumerGroupsLag\<close>). Every answer
  carries the time of its data, so that a new answer is never taken for the one before. A
  group named \<open>__proto__\<close> is outside the model.
\<close>

definition select_groups :: "string list \<Rightarrow> GroupLag obj option \<Rightarrow> GroupLag option obj" where
  "select_groups ids data =
     fold (\<lambda>i acc. AList.update i (Option.bind data (\<lambda>d. map_of d i)) acc) ids []"

fun shown_trends :: "bool \<Rightarrow> string list \<Rightarrow> nat \<Rightarrow> GroupLag obj list \<Rightarrow> prevLag \<Rightarrow> LagTrends list" where
  "shown_trends incl ids sec [] prev = []"
| "shown_trends incl ids sec (d # ds) prev =
     (let groups = Some (select_groups ids (Some d)); g = (case ids of [] \<Rightarrow> [] | i # _ \<Rightarrow> i)
      in lagTrends incl g sec prev groups # shown_trends incl ids sec ds (remember incl g groups prev))"

section \<open>The table of topics\<close>

record TopicPartition =
  tp_topic :: string
  tp_consumerLag :: "int option"

definition getConsumerLagByTopic :: "TopicPartition list \<Rightarrow> int list obj res" where
  "getConsumerLagByTopic ps =
     fold (\<lambda>p acc. bind_res acc (\<lambda>acc.
       let lag = (case tp_consumerLag p of Some l \<Rightarrow> l | None \<Rightarrow> 0)
       in case obj_index acc (tp_topic p) of
            Own ls \<Rightarrow> Inr (AList.update (tp_topic p) (ls @ [lag]) acc)
          | Missing \<Rightarrow> Inr (AList.update (tp_topic p) [lag] acc)
          | Inherited \<Rightarrow> Inl TypeError)) ps (Inr [])"

text \<open>\<open>None\<close> is the text N/A.\<close>

definition calculateConsumerLag :: "int list \<Rightarrow> int option" where
  "calculateConsumerLag lags = (if lags = [] then None else Some (foldl (+) 0 lags))"

record TopicRow =
  row_topicName :: string
  row_consumerLag :: "int option"
  row_lagTrend :: LagTrend

definition getConsumerGroupTopicsTableData ::
  "TopicPartition list \<Rightarrow> string \<Rightarrow> LagTrend obj \<Rightarrow> LagMap option \<Rightarrow> TopicRow list res" where
  "getConsumerGroupTopicsTableData partitions searchQuery trends lags =
     (if partitions = [] then Inr []
      else bind_res (getConsumerLagByTopic partitions) (\<lambda>grouped. Inr (
        map (\<lambda>(topic, partitionLags).
          \<lparr>row_topicName = topic,
           row_consumerLag = (case Option.bind lags (\<lambda>m. map_of m topic) of
               Some (Some l) \<Rightarrow> Some l | _ \<Rightarrow> calculateConsumerLag partitionLags),
           row_lagTrend = (case map_of trends topic of Some t \<Rightarrow> t | None \<Rightarrow> TNone)\<rparr>)
        (filter (\<lambda>(topic, _). js_includes searchQuery topic) (js_order fst grouped)))))"

section \<open>Lemmas on the table\<close>

definition lags_of :: "string \<Rightarrow> TopicPartition list \<Rightarrow> int list" where
  "lags_of t ps = [case tp_consumerLag p of Some l \<Rightarrow> l | None \<Rightarrow> 0. p \<leftarrow> ps, tp_topic p = t]"

text \<open>Topics in the order of their first partition.\<close>

definition topics_in_order :: "TopicPartition list \<Rightarrow> string list" where
  "topics_in_order ps = rev (remdups (rev (map tp_topic ps)))"

lemma lags_of_snoc:
  "lags_of t (ps @ [p]) = lags_of t ps @ (if tp_topic p = t then [case tp_consumerLag p of Some l \<Rightarrow> l | None \<Rightarrow> 0] else [])"
  by (simp add: lags_of_def)

lemma topics_in_order_snoc:
  "topics_in_order (ps @ [p]) = topics_in_order ps @ (if tp_topic p \<in> set (topics_in_order ps) then [] else [tp_topic p])"
  by (simp add: topics_in_order_def)

lemma update_map_keys:
  "distinct ks \<Longrightarrow> k \<in> set ks \<Longrightarrow>
   AList.update k v (map (\<lambda>x. (x, f x)) ks) = map (\<lambda>x. (x, if x = k then v else f x)) ks"
  by (induction ks) auto

lemma grouped_spec:
  assumes "\<forall>p\<in>set ps. tp_topic p \<notin> set object_proto_names"
  shows "getConsumerLagByTopic ps = Inr (map (\<lambda>t. (t, lags_of t ps)) (topics_in_order ps))"
  using assms
proof (induction ps rule: rev_induct)
  case Nil
  then show ?case by (simp add: getConsumerLagByTopic_def topics_in_order_def)
next
  case (snoc p ps)
  let ?t = "tp_topic p" and ?ks = "topics_in_order ps"
  let ?lag = "case tp_consumerLag p of Some l \<Rightarrow> l | None \<Rightarrow> (0 :: int)"
  have IH: "getConsumerLagByTopic ps = Inr (map (\<lambda>t. (t, lags_of t ps)) ?ks)" using snoc by simp
  have d: "distinct ?ks" by (simp add: topics_in_order_def)
  have g: "map_of (map (\<lambda>t. (t, lags_of t ps)) ?ks) t = (if t \<in> set ?ks then Some (lags_of t ps) else None)" for t
    by (simp add: map_of_map_restrict restrict_map_def)
  have step: "getConsumerLagByTopic (ps @ [p]) =
      (case obj_index (map (\<lambda>t. (t, lags_of t ps)) ?ks) ?t of
         Own ls \<Rightarrow> Inr (AList.update ?t (ls @ [?lag]) (map (\<lambda>t. (t, lags_of t ps)) ?ks))
       | Missing \<Rightarrow> Inr (AList.update ?t [?lag] (map (\<lambda>t. (t, lags_of t ps)) ?ks))
       | Inherited \<Rightarrow> Inl TypeError)"
    using IH by (simp add: getConsumerLagByTopic_def Let_def)
  show ?case
  proof (cases "?t \<in> set ?ks")
    case True
    then show ?thesis unfolding step
      by (simp add: obj_index_def g update_map_keys [OF d True] topics_in_order_snoc lags_of_snoc)
  next
    case False
    have none: "lags_of ?t ps = []"
      using False by (auto simp: lags_of_def topics_in_order_def filter_empty_conv image_iff)
    have "AList.update ?t [?lag] (map (\<lambda>t. (t, lags_of t ps)) ?ks) = map (\<lambda>t. (t, lags_of t ps)) ?ks @ [(?t, [?lag])]"
      using False by (intro update_fresh) auto
    moreover have "?t \<notin> set object_proto_names" using snoc.prems by simp
    ultimately show ?thesis unfolding step using False none
      by (auto simp: obj_index_def g topics_in_order_snoc lags_of_snoc)
  qed
qed

lemma grouped_fails:
  "(\<exists>p\<in>set ps. tp_topic p \<in> set object_proto_names) \<Longrightarrow> getConsumerLagByTopic ps = Inl TypeError"
proof (induction ps rule: rev_induct)
  case (snoc p ps)
  show ?case
  proof (cases "\<exists>p\<in>set ps. tp_topic p \<in> set object_proto_names")
    case True
    with snoc.IH show ?thesis by (simp add: getConsumerLagByTopic_def)
  next
    case False
    with snoc.prems have p: "tp_topic p \<in> set object_proto_names" by auto
    from False have ok: "getConsumerLagByTopic ps = Inr (map (\<lambda>t. (t, lags_of t ps)) (topics_in_order ps))"
      by (intro grouped_spec) auto
    have "tp_topic p \<notin> set (topics_in_order ps)" using False p by (auto simp: topics_in_order_def)
    then have "map_of (map (\<lambda>t. (t, lags_of t ps)) (topics_in_order ps)) (tp_topic p) = None"
      by (simp add: map_of_map_restrict restrict_map_def)
    with ok p show ?thesis by (simp add: getConsumerLagByTopic_def obj_index_def)
  qed
qed simp

lemma topics_in_order_Nil [simp]: "topics_in_order [] = []"
  by (simp add: topics_in_order_def)

lemma fold_add_sum: "fold (\<lambda>x s. s + x) xs (a :: int) = a + sum_list xs"
  by (induction xs arbitrary: a) simp_all

section \<open>Lemmas on the trends\<close>

lemma obj_from_entries_map_get:
  "wf_obj o1 \<Longrightarrow> map_of (obj_from_entries (map (\<lambda>(key, v). (key, f key v)) o1)) k = map_option (f k) (map_of o1 k)"
proof -
  assume wf: "wf_obj o1"
  have "map fst (map (\<lambda>(key, v). (key, f key v)) o1) = map fst o1" by auto
  with wf have "wf_obj (map (\<lambda>(key, v). (key, f key v)) o1)" by (simp add: wf_obj_def del: map_map)
  moreover have "map_of (map (\<lambda>(key, v). (key, f key v)) o1) k = map_option (f k) (map_of o1 k)"
    by (induction o1) auto
  ultimately show ?thesis by (simp add: obj_from_entries_get)
qed

lemma select_groups_fold:
  "wf_obj acc \<Longrightarrow>
   wf_obj (fold (\<lambda>i acc. AList.update i (f i) acc) ids acc) \<and>
   map_of (fold (\<lambda>i acc. AList.update i (f i) acc) ids acc) k = (if k \<in> set ids then Some (f k) else map_of acc k)"
  by (induction ids arbitrary: acc) (auto simp: update_conv')

lemma wf_select_groups: "wf_obj (select_groups ids data)"
  and select_groups_get:
  "map_of (select_groups ids data) k = (if k \<in> set ids then Some (Option.bind data (\<lambda>d. map_of d k)) else None)"
  by (simp_all add: select_groups_def select_groups_fold)

text \<open>The lag an answer has for a group.\<close>

definition lag_in :: "GroupLag obj \<Rightarrow> string \<Rightarrow> int option" where
  "lag_in d g = Option.bind (map_of d g) group_lag"

lemma lagTrends_group:
  "0 < sec \<Longrightarrow> g \<in> set ids \<Longrightarrow>
   map_of (groupLagTrends (lagTrends incl g0 sec prev (Some (select_groups ids (Some d))))) g =
     Some (trend_from (prev_groups prev) g (lag_in d g))"
  by (simp add: lagTrends_def computeLagTrends_def Let_def obj_from_entries_map_get wf_select_groups
      select_groups_get cg_lag_def lag_in_def)

lemma remember_group:
  "g \<in> set ids \<Longrightarrow>
   map_of (prev_groups (remember incl g0 (Some (select_groups ids (Some d))) prev)) g = Some (lag_in d g)"
  by (simp add: remember_def buildNextLagMap_def Let_def obj_from_entries_map_get [where f = "\<lambda>_. h" for h]
      wf_select_groups select_groups_get cg_lag_def lag_in_def)

lemma shown_trends_group:
  "k < length ds \<Longrightarrow> 0 < sec \<Longrightarrow> g \<in> set ids \<Longrightarrow>
   map_of (groupLagTrends (shown_trends incl ids sec ds prev ! k)) g =
     Some (case k of 0 \<Rightarrow> trend_from (prev_groups prev) g (lag_in (ds ! 0) g)
           | Suc j \<Rightarrow> computeSingleLagTrend (lag_in (ds ! j) g) (lag_in (ds ! k) g))"
proof (induction ds arbitrary: k prev)
  case (Cons d ds)
  then show ?case
    by (cases k) (auto simp: Let_def lagTrends_group remember_group trend_from_def obj_index_def split: nat.split)
qed simp

section \<open>Properties\<close>

text \<open>
  The table of topics of a consumer group fails exactly when one of its topics has the
  name of a member every object inherits, such as constructor; otherwise it has one row per
  topic that matches the search, with the reported lag of the topic if there is one and the
  sum over its partitions if not. The rows follow the first partition of each topic, except
  that topics named by a number come first and in increasing order.
\<close>

theorem topics_table_spec:
  "getConsumerGroupTopicsTableData ps q trends lags =
     (if \<exists>p\<in>set ps. tp_topic p \<in> set object_proto_names then Inl TypeError
      else Inr (map (\<lambda>t. \<lparr>row_topicName = t,
         row_consumerLag = (case Option.bind lags (\<lambda>m. map_of m t) of
             Some (Some l) \<Rightarrow> Some l | _ \<Rightarrow> Some (sum_list (lags_of t ps))),
         row_lagTrend = (case map_of trends t of Some x \<Rightarrow> x | None \<Rightarrow> TNone)\<rparr>)
       (filter (js_includes q) (js_order (\<lambda>t. t) (topics_in_order ps)))))"
proof -
  have some: "calculateConsumerLag (lags_of t ps) = Some (sum_list (lags_of t ps))" if "t \<in> set (topics_in_order ps)" for t
  proof -
    have "lags_of t ps \<noteq> []" using that by (auto simp: lags_of_def topics_in_order_def)
    then show ?thesis by (simp add: calculateConsumerLag_def fold_add_sum foldl_conv_fold)
  qed
  show ?thesis
    using grouped_spec [of ps] grouped_fails [of ps] some
    by (auto simp: getConsumerGroupTopicsTableData_def js_order_map filter_map comp_def
        intro!: map_cong split: option.split)
qed

text \<open>
  While polling, the trend of a consumer group compares its lag with that in the answer
  just before; the first answer, and an answer without the lag on either side, shows none.
\<close>

theorem lag_trend_compares_answers:
  assumes "0 < sec" and "g \<in> set ids" and "g \<notin> set object_proto_names" and "k < length ds"
  shows "map_of (groupLagTrends (shown_trends incl ids sec ds no_prev ! k)) g =
     Some (if k = 0 then TNone else computeSingleLagTrend (lag_in (ds ! (k - 1)) g) (lag_in (ds ! k) g))"
  using shown_trends_group [OF assms(4,1,2)] assms(3)
  by (auto simp: no_prev_def trend_from_def obj_index_def split: nat.split)

theorem lag_trend_compares_answers_witness:
  "map_of (groupLagTrends (shown_trends False [''g''] 5
     [[(''g'', \<lparr>group_lag = Some 7, group_topics = None, group_topicPartitions = None\<rparr>)],
      [(''g'', \<lparr>group_lag = Some 9, group_topics = None, group_topicPartitions = None\<rparr>)]] no_prev ! 1)) ''g''
   = Some TUp"
  by (subst lag_trend_compares_answers)
     (simp_all add: object_proto_names_def lag_in_def computeSingleLagTrend_def)

end
