(* ===== verification/ApiRuntime.thy ===== *)
theory ApiRuntime
  imports Json Paths
begin

text \<open>
  The base of the client for the server's interface, \<open>frontend/src/generated-sources/runtime.ts\<close>:
  values on the JavaScript side, the address, headers and body of a request, and the reading of
  a response. An operation of the interface is a value of type \<open>endpoint\<close>; the operations
  themselves are in the theories \<open>ApiModels\<close> and \<open>ApiClient\<close>. As in the theory of routes,
  a string that goes into an address is the list of its UTF-8 bytes.
\<close>

section \<open>Values\<close>

text \<open>
  What the client holds: JSON, \<open>undefined\<close>, and dates. A date is its time in milliseconds,
  or \<open>None\<close> for an invalid date. Members are read from objects only: no operation reads a
  member that a string, an array or a number has.
\<close>

datatype jsval =
  VUndef | VNull | VBool bool | VNum js_num | VStr string | VDate "int option"
| VArr "jsval list" | VObj "(string \<times> jsval) list"

fun of_json :: "json \<Rightarrow> jsval" where
  "of_json JNull = VNull"
| "of_json (JBool b) = VBool b"
| "of_json (JNum n) = VNum n"
| "of_json (JStr s) = VStr s"
| "of_json (JArr xs) = VArr (map of_json xs)"
| "of_json (JObj ms) = VObj (map (\<lambda>(k, v). (k, of_json v)) ms)"

definition get_prop :: "jsval \<Rightarrow> string \<Rightarrow> jsval" where
  "get_prop v k = (case v of VObj ms \<Rightarrow> (case map_of ms k of Some x \<Rightarrow> x | None \<Rightarrow> VUndef) | _ \<Rightarrow> VUndef)"

definition nullish :: "jsval \<Rightarrow> bool" where
  "nullish v \<longleftrightarrow> v = VUndef \<or> v = VNull"

definition exists_prop :: "jsval \<Rightarrow> string \<Rightarrow> bool" where
  "exists_prop json key \<longleftrightarrow> \<not> nullish (get_prop json key)"

text \<open>
  \<open>String(value)\<close> for the values that occur in addresses; dates are written by
  \<open>toISOString\<close>, which is the argument \<open>fmt\<close>.
\<close>

fun js_text :: "(int \<Rightarrow> string) \<Rightarrow> jsval \<Rightarrow> string" where
  "js_text fmt VUndef = ''undefined''"
| "js_text fmt VNull = ''null''"
| "js_text fmt (VBool b) = (if b then ''true'' else ''false'')"
| "js_text fmt (VNum n) = show_num n"
| "js_text fmt (VStr s) = s"
| "js_text fmt (VDate d) = (case d of Some t \<Rightarrow> fmt t | None \<Rightarrow> ''Invalid Date'')"
| "js_text fmt (VArr xs) = join '','' (map (\<lambda>x. if nullish x then [] else js_text fmt x) xs)"
| "js_text fmt (VObj ms) = ''[object Object]''"

text \<open>\<open>JSON.stringify\<close>, as the JSON it writes; \<open>None\<close> for \<open>undefined\<close>.\<close>

fun to_wire :: "(int \<Rightarrow> string) \<Rightarrow> jsval \<Rightarrow> json option" where
  "to_wire fmt VUndef = None"
| "to_wire fmt VNull = Some JNull"
| "to_wire fmt (VBool b) = Some (JBool b)"
| "to_wire fmt (VNum n) = Some (if n = NaN then JNull else JNum n)"
| "to_wire fmt (VStr s) = Some (JStr s)"
| "to_wire fmt (VDate d) = Some (case d of Some t \<Rightarrow> JStr (fmt t) | None \<Rightarrow> JNull)"
| "to_wire fmt (VArr xs) = Some (JArr (map (\<lambda>x. case to_wire fmt x of Some j \<Rightarrow> j | None \<Rightarrow> JNull) xs))"
| "to_wire fmt (VObj ms) = Some (JObj (concat (map (\<lambda>(k, v).
     case to_wire fmt v of Some j \<Rightarrow> [(k, j)] | None \<Rightarrow> []) ms)))"

section \<open>Query strings\<close>

fun query_part :: "(int \<Rightarrow> string) \<Rightarrow> string \<Rightarrow> jsval \<Rightarrow> string"
  and query_parts :: "(int \<Rightarrow> string) \<Rightarrow> string \<Rightarrow> (string \<times> jsval) list \<Rightarrow> string list" where
  "query_part fmt fullKey (VArr xs) =
     encodeURIComponent fullKey @ ''=''
     @ join (''&'' @ encodeURIComponent fullKey @ ''='') (map (\<lambda>x. encodeURIComponent (js_text fmt x)) xs)"
| "query_part fmt fullKey (VObj ms) = join ''&'' (filter (\<lambda>p. p \<noteq> []) (query_parts fmt fullKey ms))"
| "query_part fmt fullKey v = encodeURIComponent fullKey @ ''='' @ encodeURIComponent (js_text fmt v)"
| "query_parts fmt prfx [] = []"
| "query_parts fmt prfx ((key, v) # ms) =
     query_part fmt (prfx @ (if prfx \<noteq> [] then ''['' @ key @ '']'' else key)) v # query_parts fmt prfx ms"

definition querystring :: "(int \<Rightarrow> string) \<Rightarrow> (string \<times> jsval) list \<Rightarrow> string \<Rightarrow> string" where
  "querystring fmt params prfx = join ''&'' (filter (\<lambda>p. p \<noteq> []) (query_parts fmt prfx params))"

section \<open>Operations of the interface\<close>

text \<open>
  The declared type of a value, which decides how the generated code converts it. \<open>TEnum\<close> is an
  enumeration declared within a model, \<open>TNamed\<close> one that has conversion functions of its own: they
  change nothing, but the elements of an array of them are visited. A model has
  fields: a name, whether the field is optional, and its type. \<open>Derived base extra tag\<close> is the
  one model with a discriminator: values whose member \<open>inherit\<close> is \<open>tag\<close> have the extra
  fields as well.
\<close>

datatype ty =
  TString | TNumber | TBoolean | TAny | TDate | TEnum "string list" | TNamed "string list"
| TNullable ty | TArray ty | TDict ty
| TModel "(string \<times> bool \<times> ty) list"
| TDerived "(string \<times> bool \<times> ty) list" "(string \<times> bool \<times> ty) list" string

abbreviation req :: "string \<Rightarrow> ty \<Rightarrow> string \<times> bool \<times> ty" where
  "req n t \<equiv> (n, False, t)"

abbreviation opt :: "string \<Rightarrow> ty \<Rightarrow> string \<times> bool \<times> ty" where
  "opt n t \<equiv> (n, True, t)"

datatype http_method = GET | POST | PUT | PATCH | DELETE

text \<open>A query parameter is sent when it is not \<open>undefined\<close>; a joined one when it is truthy.\<close>

datatype query_param = Plain string | Csv string

datatype body_kind = NoBody | JsonBody string ty | RawBody string | UrlEncoded "string list" | Multipart "string list"

datatype response_kind = JsonResponse ty | JsonListResponse ty | AnyResponse | VoidResponse | TextResponse

record endpoint =
  ep_method :: http_method
  ep_path :: string
  ep_path_params :: "string list"
  ep_required :: "string list"
  ep_query :: "query_param list"
  ep_headers :: "(string \<times> string) list"
  ep_body :: body_kind
  ep_response :: response_kind

type_synonym args = "(string \<times> jsval) list"

definition arg :: "args \<Rightarrow> string \<Rightarrow> jsval" where
  "arg p n = get_prop (VObj p) n"

text \<open>
  \<open>s.replace(pattern, replacement)\<close> for a text pattern: the first occurrence. Replacements here
  contain no dollar sign, which would be special (\<open>encodeURIComponent_no_dollar\<close> below).
\<close>

fun replace_first :: "string \<Rightarrow> string \<Rightarrow> string \<Rightarrow> string" where
  "replace_first pat rep [] = (if pat = [] then rep else [])"
| "replace_first pat rep (c # cs) =
     (if starts_with pat (c # cs) then rep @ drop (length pat) (c # cs) else c # replace_first pat rep cs)"

definition fill_path :: "(int \<Rightarrow> string) \<Rightarrow> string \<Rightarrow> string list \<Rightarrow> args \<Rightarrow> string" where
  "fill_path fmt template names p =
     fold (\<lambda>n s. replace_first (''{'' @ n @ ''}'') (encodeURIComponent (js_text fmt (arg p n))) s) names template"

fun query_member :: "(int \<Rightarrow> string) \<Rightarrow> args \<Rightarrow> query_param \<Rightarrow> (string \<times> jsval) list" where
  "query_member fmt p (Plain n) = (if arg p n = VUndef then [] else [(n, arg p n)])"
| "query_member fmt p (Csv n) =
     (case arg p n of
        VArr xs \<Rightarrow> [(n, VStr (js_text fmt (VArr xs)))]
      | _ \<Rightarrow> [])"

definition query_of :: "(int \<Rightarrow> string) \<Rightarrow> args \<Rightarrow> query_param list \<Rightarrow> (string \<times> jsval) list" where
  "query_of fmt p qs = concat (map (query_member fmt p) qs)"

section \<open>Requests\<close>

datatype payload = NoPayload | JsonText json | FormFields "(string \<times> string) list" | MultipartFields "(string \<times> jsval) list"

record request =
  rq_url :: string
  rq_method :: http_method
  rq_headers :: "(string \<times> string) list"
  rq_body :: payload

record api_configuration =
  basePath :: string
  conf_headers :: "(string \<times> string) list"

text \<open>
  Errors of an operation: a missing parameter, an error thrown while building the request or
  reading the response, and a response whose status is not a success.
\<close>

datatype api_error = RequiredError string | Thrown js_error | ResponseError nat

record response =
  rs_status :: nat
  rs_json :: "json option"
  rs_text :: string

text \<open>
  \<open>createFetchParams\<close>. The query is added only if it has members; headers of the operation
  override those of the configuration; a body that is a form is sent as it is and every other
  one as JSON, a text too.
\<close>

definition request_body :: "(int \<Rightarrow> string) \<Rightarrow> args \<Rightarrow> body_kind \<Rightarrow> (jsval \<Rightarrow> ty \<Rightarrow> js_error + jsval) \<Rightarrow> js_error + payload" where
  "request_body fmt p b encode =
     (case b of
        NoBody \<Rightarrow> Inr NoPayload
      | JsonBody n t \<Rightarrow> bind_res (encode (arg p n) t) (\<lambda>v.
          Inr (case to_wire fmt v of Some j \<Rightarrow> JsonText j | None \<Rightarrow> NoPayload))
      | RawBody n \<Rightarrow> Inr (case to_wire fmt (arg p n) of Some j \<Rightarrow> JsonText j | None \<Rightarrow> NoPayload)
      | UrlEncoded ns \<Rightarrow> Inr (FormFields (concat (map (\<lambda>n.
          if arg p n = VUndef then [] else [(n, js_text fmt (arg p n))]) ns)))
      | Multipart ns \<Rightarrow> Inr (MultipartFields (concat (map (\<lambda>n.
          if arg p n = VUndef then [] else [(n, arg p n)]) ns))))"

definition createFetchParams ::
  "(int \<Rightarrow> string) \<Rightarrow> api_configuration \<Rightarrow> endpoint \<Rightarrow> args \<Rightarrow> payload \<Rightarrow> request" where
  "createFetchParams fmt conf ep p body =
     (let query = query_of fmt p (ep_query ep)
      in \<lparr>rq_url = basePath conf @ fill_path fmt (ep_path ep) (ep_path_params ep) p
            @ (if query \<noteq> [] then ''?'' @ querystring fmt query [] else []),
          rq_method = ep_method ep,
          rq_headers = obj_spread (conf_headers conf) (ep_headers ep),
          rq_body = body\<rparr>)"

definition missing_param :: "args \<Rightarrow> string list \<Rightarrow> string option" where
  "missing_param p names = List.find (\<lambda>n. nullish (arg p n)) names"

section \<open>Conversion of models\<close>

text \<open>Types whose values the generated code passes on unchanged, in both directions.\<close>

fun unconverted :: "ty \<Rightarrow> bool" where
  "unconverted (TNullable t) = (case t of TNamed es \<Rightarrow> True | _ \<Rightarrow> unconverted t)"
| "unconverted (TArray t) = unconverted t"
| "unconverted (TDict t) = unconverted t"
| "unconverted TDate = False"
| "unconverted (TNamed es) = False"
| "unconverted (TModel fs) = False"
| "unconverted (TDerived fs ex tag) = False"
| "unconverted t = True"

primrec map_res :: "('a \<Rightarrow> 'e + 'b) \<Rightarrow> 'a list \<Rightarrow> 'e + 'b list" where
  "map_res f [] = Inr []"
| "map_res f (x # xs) =
     (case f x of
        Inl e \<Rightarrow> Inl e
      | Inr y \<Rightarrow> (case map_res f xs of Inl e \<Rightarrow> Inl e | Inr ys \<Rightarrow> Inr (y # ys)))"

lemma map_res_cong [fundef_cong]:
  "xs = ys \<Longrightarrow> (\<And>x. x \<in> set ys \<Longrightarrow> f x = g x) \<Longrightarrow> map_res f xs = map_res g ys"
  by (induction xs arbitrary: ys) (auto split: sum.split)

text \<open>
  The members \<open>Object.keys\<close> finds, for \<open>mapValues\<close>: those of an object, the elements of an
  array, the characters of a text. \<open>None\<close> for a missing value, on which it throws.
\<close>

definition own_members :: "jsval \<Rightarrow> (string \<times> jsval) list option" where
  "own_members v =
     (case v of
        VUndef \<Rightarrow> None
      | VNull \<Rightarrow> None
      | VObj ms \<Rightarrow> Some ms
      | VArr xs \<Rightarrow> Some (zip (map show_nat [0..<length xs]) xs)
      | VStr s \<Rightarrow> Some (zip (map show_nat [0..<length s]) (map (\<lambda>c. VStr [c]) s))
      | _ \<Rightarrow> Some [])"

text \<open>
  \<open>XFromJSON\<close>. Within a model an optional member that is missing or null becomes
  \<open>undefined\<close>; a required one is converted as it is.
\<close>

function FromJSON :: "(jsval \<Rightarrow> int option) \<Rightarrow> ty \<Rightarrow> jsval \<Rightarrow> jsval res"
  and fields_from :: "(jsval \<Rightarrow> int option) \<Rightarrow> (string \<times> bool \<times> ty) list \<Rightarrow> jsval \<Rightarrow> (string \<times> jsval) list res" where
  "FromJSON parse TString v = Inr v"
| "FromJSON parse TNumber v = Inr v"
| "FromJSON parse TBoolean v = Inr v"
| "FromJSON parse TAny v = Inr v"
| "FromJSON parse (TEnum es) v = Inr v"
| "FromJSON parse (TNamed es) v = Inr v"
| "FromJSON parse (TNullable t) v = Inr v"
| "FromJSON parse TDate v = Inr (VDate (parse v))"
| "FromJSON parse (TArray t) v =
     (if unconverted t then Inr v
      else (case v of VArr xs \<Rightarrow> bind_res (map_res (FromJSON parse t) xs) (\<lambda>ys. Inr (VArr ys)) | _ \<Rightarrow> Inl TypeError))"
| "FromJSON parse (TDict t) v =
     (if unconverted t then Inr v
      else (case own_members v of
              Some ms \<Rightarrow> bind_res (map_res (\<lambda>(k, x). bind_res (FromJSON parse t x) (\<lambda>y. Inr (k, y))) ms)
                           (\<lambda>ns. Inr (VObj ns))
            | None \<Rightarrow> Inl TypeError))"
| "FromJSON parse (TModel fs) v =
     (if nullish v then Inr v else bind_res (fields_from parse fs v) (\<lambda>ms. Inr (VObj ms)))"
| "FromJSON parse (TDerived base extra tag) v =
     (if nullish v then Inr v
      else if get_prop v ''inherit'' = VStr tag
      then bind_res (fields_from parse (base @ extra) v) (\<lambda>ms. Inr (VObj ms))
      else bind_res (fields_from parse base v) (\<lambda>ms. Inr (VObj ms)))"
| "fields_from parse [] v = Inr []"
| "fields_from parse ((n, optional, t) # fs) v =
     bind_res (if optional \<and> \<not> exists_prop v n then Inr VUndef else FromJSON parse t (get_prop v n)) (\<lambda>x.
       bind_res (fields_from parse fs v) (\<lambda>ms. Inr ((n, x) # ms)))"
  by pat_completeness auto
termination
  by (relation "measure (case_sum (\<lambda>(_, t, _). size t) (\<lambda>(_, fs, _). size_list (size_prod (\<lambda>_. 0) (size_prod (\<lambda>_. 0) size)) fs))")
    (auto simp: size_list_append)

text \<open>
  \<open>XToJSON\<close>, before the result is written as text. A value of a derived model is converted
  as its base.
\<close>

function ToJSON :: "(int \<Rightarrow> string) \<Rightarrow> ty \<Rightarrow> jsval \<Rightarrow> jsval res"
  and fields_to :: "(int \<Rightarrow> string) \<Rightarrow> (string \<times> bool \<times> ty) list \<Rightarrow> jsval \<Rightarrow> (string \<times> jsval) list res" where
  "ToJSON fmt TString v = Inr v"
| "ToJSON fmt TNumber v = Inr v"
| "ToJSON fmt TBoolean v = Inr v"
| "ToJSON fmt TAny v = Inr v"
| "ToJSON fmt (TEnum es) v = Inr v"
| "ToJSON fmt (TNamed es) v = Inr v"
| "ToJSON fmt (TNullable t) v = Inr v"
| "ToJSON fmt TDate v =
     (case v of
        VDate (Some d) \<Rightarrow> Inr (VStr (fmt d))
      | VDate None \<Rightarrow> Inl (ErrorMsg ''Invalid time value'')
      | _ \<Rightarrow> Inl TypeError)"
| "ToJSON fmt (TArray t) v =
     (if unconverted t then Inr v
      else (case v of VArr xs \<Rightarrow> bind_res (map_res (ToJSON fmt t) xs) (\<lambda>ys. Inr (VArr ys)) | _ \<Rightarrow> Inl TypeError))"
| "ToJSON fmt (TDict t) v =
     (if unconverted t then Inr v
      else (case own_members v of
              Some ms \<Rightarrow> bind_res (map_res (\<lambda>(k, x). bind_res (ToJSON fmt t x) (\<lambda>y. Inr (k, y))) ms)
                           (\<lambda>ns. Inr (VObj ns))
            | None \<Rightarrow> Inl TypeError))"
| "ToJSON fmt (TModel fs) v =
     (if nullish v then Inr v else bind_res (fields_to fmt fs v) (\<lambda>ms. Inr (VObj ms)))"
| "ToJSON fmt (TDerived base extra tag) v =
     (if nullish v then Inr v else bind_res (fields_to fmt base v) (\<lambda>ms. Inr (VObj ms)))"
| "fields_to fmt [] v = Inr []"
| "fields_to fmt ((n, optional, t) # fs) v =
     bind_res (if optional \<and> get_prop v n = VUndef then Inr VUndef else ToJSON fmt t (get_prop v n)) (\<lambda>x.
       bind_res (fields_to fmt fs v) (\<lambda>ms. Inr ((n, x) # ms)))"
  by pat_completeness auto
termination
  by (relation "measure (case_sum (\<lambda>(_, t, _). size t) (\<lambda>(_, fs, _). size_list (size_prod (\<lambda>_. 0) (size_prod (\<lambda>_. 0) size)) fs))")
    (auto simp: size_list_append)

section \<open>A call\<close>

definition decode_response :: "(jsval \<Rightarrow> int option) \<Rightarrow> response_kind \<Rightarrow> response \<Rightarrow> jsval res" where
  "decode_response parse kind r =
     (case kind of
        VoidResponse \<Rightarrow> Inr VUndef
      | TextResponse \<Rightarrow> Inr (VStr (rs_text r))
      | _ \<Rightarrow> (case rs_json r of
            None \<Rightarrow> Inl SyntaxError
          | Some j \<Rightarrow> (case kind of
                JsonResponse t \<Rightarrow> FromJSON parse t (of_json j)
              | JsonListResponse t \<Rightarrow> (case of_json j of
                    VArr xs \<Rightarrow> bind_res (map_res (FromJSON parse t) xs) (\<lambda>ys. Inr (VArr ys))
                  | _ \<Rightarrow> Inl TypeError)
              | _ \<Rightarrow> Inr (of_json j))))"

definition build_request ::
  "(int \<Rightarrow> string) \<Rightarrow> api_configuration \<Rightarrow> endpoint \<Rightarrow> args \<Rightarrow> api_error + request" where
  "build_request fmt conf ep p =
     (case missing_param p (ep_required ep) of
        Some n \<Rightarrow> Inl (RequiredError n)
      | None \<Rightarrow> (case request_body fmt p (ep_body ep) (\<lambda>v t. ToJSON fmt t v) of
            Inl e \<Rightarrow> Inl (Thrown e)
          | Inr body \<Rightarrow> Inr (createFetchParams fmt conf ep p body)))"

text \<open>An operation of the client: one request, whose answer must be a success to be read.\<close>

definition call ::
  "(jsval \<Rightarrow> int option) \<Rightarrow> (int \<Rightarrow> string) \<Rightarrow> api_configuration \<Rightarrow> endpoint \<Rightarrow> args
   \<Rightarrow> (request \<Rightarrow> response) \<Rightarrow> api_error + jsval" where
  "call parse fmt conf ep p server =
     (case build_request fmt conf ep p of
        Inl e \<Rightarrow> Inl e
      | Inr rq \<Rightarrow>
          let r = server rq
          in if 200 \<le> rs_status r \<and> rs_status r < 300
             then (case decode_response parse (ep_response ep) r of Inl e \<Rightarrow> Inl (Thrown e) | Inr v \<Rightarrow> Inr v)
             else Inl (ResponseError (rs_status r)))"

end
