(* ===== verification/ApiCodec.thy ===== *)
theory ApiCodec
  imports ApiRuntime
begin

text \<open>
  What the generated conversions guarantee, for every model at once: a value that has its
  declared type survives being sent and read back, and whatever JSON meets the declared
  shape is read as a value of the declared type.
\<close>

section \<open>Values of a type\<close>

text \<open>Plain JSON values: no \<open>undefined\<close>, no date, no \<open>NaN\<close>.\<close>

fun plain_value :: "jsval \<Rightarrow> bool" where
  "plain_value VUndef = False"
| "plain_value VNull = True"
| "plain_value (VBool b) = True"
| "plain_value (VNum n) = (n \<noteq> NaN)"
| "plain_value (VStr s) = True"
| "plain_value (VDate d) = False"
| "plain_value (VArr xs) = list_all plain_value xs"
| "plain_value (VObj ms) = list_all (\<lambda>(k, v). plain_value v) ms"

text \<open>\<open>valid\<close> says which times a date may have.\<close>

function conforms :: "(int \<Rightarrow> bool) \<Rightarrow> ty \<Rightarrow> jsval \<Rightarrow> bool"
  and fields_conform :: "(int \<Rightarrow> bool) \<Rightarrow> (string \<times> bool \<times> ty) list \<Rightarrow> jsval \<Rightarrow> bool" where
  "conforms valid TString v \<longleftrightarrow> (case v of VStr s \<Rightarrow> True | _ \<Rightarrow> False)"
| "conforms valid TNumber v \<longleftrightarrow> (case v of VNum n \<Rightarrow> n \<noteq> NaN | _ \<Rightarrow> False)"
| "conforms valid TBoolean v \<longleftrightarrow> (case v of VBool b \<Rightarrow> True | _ \<Rightarrow> False)"
| "conforms valid TAny v \<longleftrightarrow> plain_value v"
| "conforms valid (TEnum es) v \<longleftrightarrow> (case v of VStr s \<Rightarrow> s \<in> set es | _ \<Rightarrow> False)"
| "conforms valid (TNullable t) v \<longleftrightarrow> v = VNull \<or> conforms valid t v"
| "conforms valid TDate v \<longleftrightarrow> (case v of VDate (Some d) \<Rightarrow> valid d | _ \<Rightarrow> False)"
| "conforms valid (TArray t) v \<longleftrightarrow> (case v of VArr xs \<Rightarrow> list_all (conforms valid t) xs | _ \<Rightarrow> False)"
| "conforms valid (TDict t) v \<longleftrightarrow>
     (case v of VObj ms \<Rightarrow> list_all (\<lambda>(k, x). conforms valid t x) ms | _ \<Rightarrow> False)"
| "conforms valid (TModel fs) v \<longleftrightarrow> (case v of VObj ms \<Rightarrow> fields_conform valid fs v | _ \<Rightarrow> False)"
| "conforms valid (TDerived base extra tag) v \<longleftrightarrow>
     (case v of VObj ms \<Rightarrow> fields_conform valid base v
        \<and> (get_prop v ''inherit'' = VStr tag \<longrightarrow> fields_conform valid extra v) | _ \<Rightarrow> False)"
| "conforms valid (TNamed es) v \<longleftrightarrow> (case v of VStr s \<Rightarrow> s \<in> set es | _ \<Rightarrow> False)"
| "fields_conform valid [] v \<longleftrightarrow> True"
| "fields_conform valid ((n, optional, t) # fs) v \<longleftrightarrow>
     (optional \<and> get_prop v n = VUndef \<or> conforms valid t (get_prop v n)) \<and> fields_conform valid fs v"
  by pat_completeness auto
termination
  by (relation "measure (case_sum (\<lambda>(_, t, _). size t) (\<lambda>(_, fs, _). size_list (size_prod (\<lambda>_. 0) (size_prod (\<lambda>_. 0) size)) fs))")
    auto

text \<open>Field names are distinct in every model, and dates are not nullable.\<close>

function wf_ty :: "ty \<Rightarrow> bool" and wf_fields :: "(string \<times> bool \<times> ty) list \<Rightarrow> bool" where
  "wf_ty (TNullable t) \<longleftrightarrow> unconverted (TNullable t)"
| "wf_ty (TArray t) \<longleftrightarrow> wf_ty t"
| "wf_ty (TDict t) \<longleftrightarrow> wf_ty t"
| "wf_ty (TModel fs) \<longleftrightarrow> distinct (map fst fs) \<and> wf_fields fs"
| "wf_ty (TDerived base extra tag) \<longleftrightarrow> req ''inherit'' TString \<in> set base \<and> distinct (map fst (base @ extra)) \<and> wf_fields base \<and> wf_fields extra"
| "wf_ty TString \<longleftrightarrow> True" | "wf_ty TNumber \<longleftrightarrow> True" | "wf_ty TBoolean \<longleftrightarrow> True" | "wf_ty TAny \<longleftrightarrow> True"
| "wf_ty TDate \<longleftrightarrow> True" | "wf_ty (TEnum es) \<longleftrightarrow> True" | "wf_ty (TNamed es) \<longleftrightarrow> True"
| "wf_fields [] \<longleftrightarrow> True"
| "wf_fields ((n, optional, t) # fs) \<longleftrightarrow> wf_ty t \<and> wf_fields fs"
  by pat_completeness auto
termination
  by (relation "measure (case_sum size (size_list (size_prod (\<lambda>_. 0) (size_prod (\<lambda>_. 0) size))))") auto

text \<open>No derived model inside: those lose their extra fields when they are sent.\<close>

function lossless :: "ty \<Rightarrow> bool" and lossless_fields :: "(string \<times> bool \<times> ty) list \<Rightarrow> bool" where
  "lossless (TNullable t) \<longleftrightarrow> lossless t"
| "lossless (TArray t) \<longleftrightarrow> lossless t"
| "lossless (TDict t) \<longleftrightarrow> lossless t"
| "lossless (TModel fs) \<longleftrightarrow> lossless_fields fs"
| "lossless (TDerived base extra tag) \<longleftrightarrow> False"
| "lossless TString \<longleftrightarrow> True" | "lossless TNumber \<longleftrightarrow> True" | "lossless TBoolean \<longleftrightarrow> True" | "lossless TAny \<longleftrightarrow> True"
| "lossless TDate \<longleftrightarrow> True" | "lossless (TEnum es) \<longleftrightarrow> True" | "lossless (TNamed es) \<longleftrightarrow> True"
| "lossless_fields [] \<longleftrightarrow> True"
| "lossless_fields ((n, optional, t) # fs) \<longleftrightarrow> lossless t \<and> lossless_fields fs"
  by pat_completeness auto
termination
  by (relation "measure (case_sum size (size_list (size_prod (\<lambda>_. 0) (size_prod (\<lambda>_. 0) size))))") auto

text \<open>
  What is left of a value after it was sent and read back: declared members only, each of them
  present, and optional ones that were null are \<open>undefined\<close>.
\<close>

function canon :: "ty \<Rightarrow> jsval \<Rightarrow> jsval"
  and canon_fields :: "(string \<times> bool \<times> ty) list \<Rightarrow> jsval \<Rightarrow> (string \<times> jsval) list" where
  "canon (TArray t) v = (case v of VArr xs \<Rightarrow> VArr (map (canon t) xs) | _ \<Rightarrow> v)"
| "canon (TDict t) v = (case v of VObj ms \<Rightarrow> VObj (map (\<lambda>(k, x). (k, canon t x)) ms) | _ \<Rightarrow> v)"
| "canon (TModel fs) v = (if nullish v then v else VObj (canon_fields fs v))"
| "canon (TDerived base extra tag) v = (if nullish v then v else VObj (canon_fields base v))"
| "canon (TNullable t) v = v"
| "canon TString v = v" | "canon TNumber v = v" | "canon TBoolean v = v" | "canon TAny v = v"
| "canon TDate v = v" | "canon (TEnum es) v = v" | "canon (TNamed es) v = v"
| "canon_fields [] v = []"
| "canon_fields ((n, optional, t) # fs) v =
     (n, if optional \<and> nullish (get_prop v n) then VUndef else canon t (get_prop v n)) # canon_fields fs v"
  by pat_completeness auto
termination
  by (relation "measure (case_sum (\<lambda>(t, _). size t) (\<lambda>(fs, _). size_list (size_prod (\<lambda>_. 0) (size_prod (\<lambda>_. 0) size)) fs))")
    auto

section \<open>Unconverted types\<close>

lemma unconverted_identity:
  assumes "unconverted t"
  shows "FromJSON parse t v = Inr v" and "ToJSON fmt t v = Inr v"
  using assms by (cases t; simp)+

lemma unconverted_canon: "unconverted t \<Longrightarrow> canon t v = v"
proof (induction t arbitrary: v)
  case (TArray t)
  then show ?case by (cases v) (simp_all add: map_idI)
next
  case (TDict t)
  then show ?case by (cases v) (auto intro!: map_idI)
qed simp_all

lemma unconverted_plain: "unconverted t \<Longrightarrow> conforms valid t v \<Longrightarrow> plain_value v"
proof (induction t arbitrary: v)
  case (TArray t)
  then show ?case by (cases v) (auto simp: list_all_iff)
next
  case (TDict t)
  then show ?case by (cases v) (auto simp: list_all_iff)
next
  case (TNullable t)
  then have "unconverted t \<or> (\<exists>es. t = TNamed es)" by (cases t) simp_all
  with TNullable show ?case by (auto split: jsval.splits)
qed (auto split: jsval.splits)

lemma conforms_undefined [simp]: "\<not> conforms valid t VUndef"
  by (induction t) simp_all

lemma conforms_null: "conforms valid t VNull \<Longrightarrow> unconverted t \<or> (\<exists>u. t = TNullable u)"
  by (cases t) simp_all

text \<open>A plain value is written as the JSON it was read from.\<close>

lemma plain_wire: "plain_value v \<Longrightarrow> \<exists>j. to_wire fmt v = Some j \<and> of_json j = v"
proof (induction v)
  case (VArr xs)
  then have each: "\<forall>x\<in>set xs. \<exists>j. to_wire fmt x = Some j \<and> of_json j = x" by (auto simp: list_all_iff)
  have "\<exists>js. map (to_wire fmt) xs = map Some js \<and> map of_json js = xs"
    using each
  proof (induction xs)
    case (Cons x xs)
    then obtain j js where "to_wire fmt x = Some j" "of_json j = x" "map (to_wire fmt) xs = map Some js" "map of_json js = xs"
      by auto
    then show ?case by (intro exI [of _ "j # js"]) simp
  qed simp
  then obtain js where js: "map (to_wire fmt) xs = map Some js" "map of_json js = xs" by blast
  have "map (\<lambda>x. case to_wire fmt x of Some j \<Rightarrow> j | None \<Rightarrow> JNull) xs
      = map (\<lambda>o1. case o1 of Some j \<Rightarrow> j | None \<Rightarrow> JNull) (map (to_wire fmt) xs)" by simp
  also have "\<dots> = js" unfolding js(1) by (simp add: comp_def)
  finally show ?case using js(2) by simp
next
  case (VObj ms)
  then have each: "\<forall>(k, x)\<in>set ms. \<exists>j. to_wire fmt x = Some j \<and> of_json j = x" by (fastforce simp: list_all_iff)
  have "\<exists>js. concat (map (\<lambda>(k, v). case to_wire fmt v of Some j \<Rightarrow> [(k, j)] | None \<Rightarrow> []) ms) = js
      \<and> map (\<lambda>(k, v). (k, of_json v)) js = ms"
    using each by (induction ms) auto
  then show ?case by simp
qed auto

section \<open>Sent and read back\<close>

text \<open>One value: it is written, as null only if it is missing, and read back in normal form.\<close>

definition survives :: "(jsval \<Rightarrow> int option) \<Rightarrow> (int \<Rightarrow> string) \<Rightarrow> ty \<Rightarrow> jsval \<Rightarrow> bool" where
  "survives parse fmt t v \<longleftrightarrow> (\<exists>w j. ToJSON fmt t v = Inr w \<and> to_wire fmt w = Some j
     \<and> (j = JNull \<longrightarrow> v = VNull) \<and> FromJSON parse t (of_json j) = Inr (canon t v))"

lemma survives_unconverted:
  assumes "unconverted t" and "conforms valid t v"
  shows "survives parse fmt t v"
proof -
  from plain_wire [OF unconverted_plain [OF assms], of fmt]
  obtain j where j: "to_wire fmt v = Some j" "of_json j = v" by blast
  then have "j = JNull \<longrightarrow> v = VNull" by auto
  with j assms(1) show ?thesis
    by (auto simp: survives_def unconverted_identity unconverted_canon)
qed

lemma survives_list:
  assumes "\<forall>x\<in>set xs. survives parse fmt t x"
  shows "\<exists>ws js. map_res (ToJSON fmt t) xs = Inr ws \<and> map (to_wire fmt) ws = map Some js
    \<and> map_res (FromJSON parse t) (map of_json js) = Inr (map (canon t) xs)"
  using assms
proof (induction xs)
  case (Cons x xs)
  from Cons obtain ws js where "map_res (ToJSON fmt t) xs = Inr ws" "map (to_wire fmt) ws = map Some js"
    "map_res (FromJSON parse t) (map of_json js) = Inr (map (canon t) xs)" by auto
  moreover from Cons.prems obtain w j where "ToJSON fmt t x = Inr w" "to_wire fmt w = Some j"
    "FromJSON parse t (of_json j) = Inr (canon t x)" by (auto simp: survives_def)
  ultimately show ?case by (intro exI [of _ "w # ws"] exI [of _ "j # js"]) simp
qed simp

lemma survives_members:
  assumes "\<forall>(k, x)\<in>set ms. survives parse fmt t x"
  shows "\<exists>ws. map_res (\<lambda>(k, x). bind_res (ToJSON fmt t x) (\<lambda>y. Inr (k, y))) ms = Inr ws
    \<and> map_res (\<lambda>(k, x). bind_res (FromJSON parse t x) (\<lambda>y. Inr (k, y))) (map (\<lambda>(k, v). (k, of_json v))
         (concat (map (\<lambda>(k, v). case to_wire fmt v of Some j \<Rightarrow> [(k, j)] | None \<Rightarrow> []) ws)))
        = Inr (map (\<lambda>(k, x). (k, canon t x)) ms)"
  using assms
proof (induction ms)
  case (Cons m ms)
  obtain k x where m: "m = (k, x)" by force
  from Cons obtain ws where "map_res (\<lambda>(k, x). bind_res (ToJSON fmt t x) (\<lambda>y. Inr (k, y))) ms = Inr ws"
    "map_res (\<lambda>(k, x). bind_res (FromJSON parse t x) (\<lambda>y. Inr (k, y)))
       (map (\<lambda>(k, v). (k, of_json v)) (concat (map (\<lambda>(k, v). case to_wire fmt v of Some j \<Rightarrow> [(k, j)] | None \<Rightarrow> []) ws)))
       = Inr (map (\<lambda>(k, x). (k, canon t x)) ms)" by auto
  moreover from Cons.prems m obtain w j where "ToJSON fmt t x = Inr w" "to_wire fmt w = Some j"
    "FromJSON parse t (of_json j) = Inr (canon t x)" by (auto simp: survives_def)
  ultimately show ?case unfolding m by (intro exI [of _ "(k, w) # ws"]) simp
qed simp

text \<open>The text of a member as the reader sees it; members that are \<open>undefined\<close> are left out.\<close>

definition wired :: "(int \<Rightarrow> string) \<Rightarrow> jsval \<Rightarrow> jsval" where
  "wired fmt w = (case to_wire fmt w of Some j \<Rightarrow> of_json j | None \<Rightarrow> VUndef)"

lemma wire_members:
  assumes "distinct (map fst ws)" and "(n, w) \<in> set ws"
  shows "get_prop (VObj (map (\<lambda>(k, v). (k, of_json v))
      (concat (map (\<lambda>(k, v). case to_wire fmt v of Some j \<Rightarrow> [(k, j)] | None \<Rightarrow> []) ws)))) n = wired fmt w"
proof -
  let ?kept = "\<lambda>ws. concat (map (\<lambda>(k, v). case to_wire fmt v of Some j \<Rightarrow> [(k, j)] | None \<Rightarrow> []) ws)"
  have "map_of (?kept ws) n = Option.bind (map_of ws n) (to_wire fmt)"
    using assms(1)
  proof (induction ws)
    case (Cons p ws)
    obtain k x where p: "p = (k, x)" by force
    from Cons.prems p have "map_of ws k = None" by (simp add: map_of_eq_None_iff)
    with Cons p show ?case by (cases "to_wire fmt x") auto
  qed simp
  then have "map_of (map (\<lambda>(k, v). (k, of_json v)) (?kept ws)) n = map_option of_json (Option.bind (map_of ws n) (to_wire fmt))"
    by (simp add: map_of_map)
  moreover have "map_of ws n = Some w" using assms by (rule map_of_is_SomeI)
  ultimately show ?thesis by (simp add: get_prop_def wired_def split: option.split)
qed

lemma survives_fields:
  assumes "\<And>n optional t. (n, optional, t) \<in> set fs \<Longrightarrow>
      (optional \<and> get_prop v n = VUndef) \<or> conforms valid t (get_prop v n) \<and> survives parse fmt t (get_prop v n)"
  shows "\<exists>ws. fields_to fmt fs v = Inr ws \<and> map fst ws = map fst fs
    \<and> (\<forall>x. (\<forall>(n, w)\<in>set ws. get_prop x n = wired fmt w) \<longrightarrow> fields_from parse fs x = Inr (canon_fields fs v))"
  using assms
proof (induction fs)
  case (Cons f fs)
  obtain n optional t where f: "f = (n, optional, t)" by (cases f)
  from Cons obtain ws where ws: "fields_to fmt fs v = Inr ws" "map fst ws = map fst fs"
    "\<And>x. (\<forall>(n, w)\<in>set ws. get_prop x n = wired fmt w) \<Longrightarrow> fields_from parse fs x = Inr (canon_fields fs v)"
    by fastforce
  show ?case
  proof (cases "optional \<and> get_prop v n = VUndef")
    case True
    then have "wired fmt VUndef = VUndef" by (simp add: wired_def)
    with True ws f show ?thesis
      by (intro exI [of _ "(n, VUndef) # ws"]) (auto simp: exists_prop_def nullish_def)
  next
    case False
    with Cons.prems f have c: "conforms valid t (get_prop v n)" and "survives parse fmt t (get_prop v n)" by auto
    then obtain w j where w: "ToJSON fmt t (get_prop v n) = Inr w" "to_wire fmt w = Some j"
      "j = JNull \<longrightarrow> get_prop v n = VNull" "FromJSON parse t (of_json j) = Inr (canon t (get_prop v n))"
      by (auto simp: survives_def)
    have "nullish (of_json j) \<longleftrightarrow> nullish (get_prop v n)"
    proof
      assume "nullish (of_json j)"
      then have "j = JNull" by (cases j) (auto simp: nullish_def)
      with w(3) show "nullish (get_prop v n)" by (simp add: nullish_def)
    next
      assume "nullish (get_prop v n)"
      then have "get_prop v n = VNull" using c by (auto simp: nullish_def)
      with conforms_null [of valid t] c have "unconverted t \<or> (\<exists>u. t = TNullable u)" by simp
      with w(1,2) \<open>get_prop v n = VNull\<close> have "j = JNull" by (auto simp: unconverted_identity)
      then show "nullish (of_json j)" by (simp add: nullish_def)
    qed
    moreover have "wired fmt w = of_json j" using w(2) by (simp add: wired_def)
    ultimately show ?thesis using False w ws f
      by (intro exI [of _ "(n, w) # ws"]) (auto simp: exists_prop_def)
  qed
qed simp

lemma survives_conforming:
  shows "conforms valid t v \<Longrightarrow> \<forall>d. valid d \<longrightarrow> parse (VStr (fmt d)) = Some d \<Longrightarrow> wf_ty t \<Longrightarrow> lossless t \<Longrightarrow> survives parse fmt t v"
    and "fields_conform valid fs v \<Longrightarrow> \<forall>d. valid d \<longrightarrow> parse (VStr (fmt d)) = Some d \<Longrightarrow> wf_fields fs \<Longrightarrow> lossless_fields fs \<Longrightarrow>
      (n, optional, u) \<in> set fs \<Longrightarrow>
      (optional \<and> get_prop v n = VUndef) \<or> conforms valid u (get_prop v n) \<and> survives parse fmt u (get_prop v n)"
proof (induction valid t v and valid fs v arbitrary: and n optional u rule: conforms_fields_conform.induct)
  case (8 valid t v)
  then obtain xs where v: "v = VArr xs" and xs: "\<forall>x\<in>set xs. survives parse fmt t x"
    by (auto simp: list_all_iff split: jsval.splits)
  show ?case
  proof (cases "unconverted t")
    case True
    with 8 show ?thesis by (intro survives_unconverted) simp_all
  next
    case False
    from survives_list [OF xs] obtain ws js where w: "map_res (ToJSON fmt t) xs = Inr ws"
      "map (to_wire fmt) ws = map Some js" "map_res (FromJSON parse t) (map of_json js) = Inr (map (canon t) xs)" by blast
    have "map (\<lambda>x. case to_wire fmt x of Some j \<Rightarrow> j | None \<Rightarrow> JNull) ws
        = map (\<lambda>o1. case o1 of Some j \<Rightarrow> j | None \<Rightarrow> JNull) (map (to_wire fmt) ws)" by simp
    also have "\<dots> = js" unfolding w(2) by (simp add: comp_def)
    finally show ?thesis using w v False by (simp add: survives_def)
  qed
next
  case (9 valid t v)
  then obtain ms where v: "v = VObj ms" and ms: "\<forall>(k, x)\<in>set ms. survives parse fmt t x"
    by (fastforce simp: list_all_iff split: jsval.splits)
  show ?case
  proof (cases "unconverted t")
    case True
    with 9 show ?thesis by (intro survives_unconverted) simp_all
  next
    case False
    with survives_members [OF ms] v show ?thesis by (auto simp: survives_def own_members_def)
  qed
next
  case (10 valid fs v)
  then obtain ms where v: "v = VObj ms" and c: "fields_conform valid fs v" by (auto split: jsval.splits)
  with 10 have "\<And>n optional t. (n, optional, t) \<in> set fs \<Longrightarrow>
      (optional \<and> get_prop v n = VUndef) \<or> conforms valid t (get_prop v n) \<and> survives parse fmt t (get_prop v n)" by auto
  from survives_fields [OF this] obtain ws where ws: "fields_to fmt fs v = Inr ws" "map fst ws = map fst fs"
    "\<And>x. (\<forall>(n, w)\<in>set ws. get_prop x n = wired fmt w) \<Longrightarrow> fields_from parse fs x = Inr (canon_fields fs v)" by blast
  from 10 ws(2) have "distinct (map fst ws)" by simp
  from wire_members [OF this] ws(3) have "fields_from parse fs (VObj (map (\<lambda>(k, v). (k, of_json v))
      (concat (map (\<lambda>(k, v). case to_wire fmt v of Some j \<Rightarrow> [(k, j)] | None \<Rightarrow> []) ws)))) = Inr (canon_fields fs v)"
    by blast
  with ws(1) v show ?case by (simp add: survives_def nullish_def)
next
  case (6 valid t v)
  then show ?case using survives_unconverted [of "TNullable t" valid v] by simp
next
  case (4 valid v)
  then show ?case using survives_unconverted [of TAny valid v] by simp
qed (auto simp: survives_def split: jsval.splits option.splits)

section \<open>Reading what the server sends\<close>

text \<open>
  JSON of the declared shape: required members are there, optional ones may be missing or
  null, others may be added; a date is any text or number the platform reads as a date.
\<close>

function accepts :: "(jsval \<Rightarrow> int option) \<Rightarrow> (int \<Rightarrow> bool) \<Rightarrow> ty \<Rightarrow> jsval \<Rightarrow> bool"
  and fields_accept :: "(jsval \<Rightarrow> int option) \<Rightarrow> (int \<Rightarrow> bool) \<Rightarrow> (string \<times> bool \<times> ty) list \<Rightarrow> jsval \<Rightarrow> bool" where
  "accepts parse valid TDate v \<longleftrightarrow> (case parse v of Some d \<Rightarrow> valid d | None \<Rightarrow> False)"
| "accepts parse valid (TArray t) v \<longleftrightarrow> (case v of VArr xs \<Rightarrow> list_all (accepts parse valid t) xs | _ \<Rightarrow> False)"
| "accepts parse valid (TDict t) v \<longleftrightarrow>
     (case v of VObj ms \<Rightarrow> list_all (\<lambda>(k, x). accepts parse valid t x) ms | _ \<Rightarrow> False)"
| "accepts parse valid (TModel fs) v \<longleftrightarrow> (case v of VObj ms \<Rightarrow> fields_accept parse valid fs v | _ \<Rightarrow> False)"
| "accepts parse valid (TDerived base extra tag) v \<longleftrightarrow>
     (case v of VObj ms \<Rightarrow> fields_accept parse valid base v
        \<and> (get_prop v ''inherit'' = VStr tag \<longrightarrow> fields_accept parse valid extra v) | _ \<Rightarrow> False)"
| "accepts parse valid TString v \<longleftrightarrow> conforms valid TString v"
| "accepts parse valid TNumber v \<longleftrightarrow> conforms valid TNumber v"
| "accepts parse valid TBoolean v \<longleftrightarrow> conforms valid TBoolean v"
| "accepts parse valid TAny v \<longleftrightarrow> conforms valid TAny v"
| "accepts parse valid (TEnum es) v \<longleftrightarrow> conforms valid (TEnum es) v"
| "accepts parse valid (TNullable t) v \<longleftrightarrow> conforms valid (TNullable t) v"
| "accepts parse valid (TNamed es) v \<longleftrightarrow> conforms valid (TNamed es) v"
| "fields_accept parse valid [] v \<longleftrightarrow> True"
| "fields_accept parse valid ((n, optional, t) # fs) v \<longleftrightarrow>
     (optional \<and> nullish (get_prop v n) \<or> accepts parse valid t (get_prop v n)) \<and> fields_accept parse valid fs v"
  by pat_completeness auto
termination
  by (relation "measure (case_sum (\<lambda>(_, _, t, _). size t) (\<lambda>(_, _, fs, _). size_list (size_prod (\<lambda>_. 0) (size_prod (\<lambda>_. 0) size)) fs))")
    auto

lemma fields_from_names: "fields_from parse fs v = Inr ms \<Longrightarrow> map fst ms = map fst fs"
proof (induction fs arbitrary: ms)
  case (Cons f fs)
  then show ?case by (cases f) (auto simp: bind_res_Inr_iff)
qed simp

text \<open>The fields of a record of converted members, one by one.\<close>

definition field_ok :: "(int \<Rightarrow> bool) \<Rightarrow> string \<times> bool \<times> ty \<Rightarrow> string \<times> jsval \<Rightarrow> bool" where
  "field_ok valid f m \<longleftrightarrow> fst m = fst f
     \<and> (fst (snd f) \<and> snd m = VUndef \<or> conforms valid (snd (snd f)) (snd m))"

lemma field_ok_names: "list_all2 (field_ok valid) fs ms \<Longrightarrow> map fst ms = map fst fs"
  by (induction rule: list_all2_induct) (auto simp: field_ok_def)

lemma fields_conform_iff:
  "fields_conform valid fs v \<longleftrightarrow> (\<forall>(n, optional, t)\<in>set fs. optional \<and> get_prop v n = VUndef \<or> conforms valid t (get_prop v n))"
proof (induction fs)
  case (Cons f fs)
  then show ?case by (cases f) auto
qed simp

lemma fields_conform_list:
  assumes "list_all2 (field_ok valid) fs ms" and "distinct (map fst fs)"
  shows "fields_conform valid fs (VObj ms)"
proof -
  have d: "distinct (map fst ms)" using field_ok_names [OF assms(1)] assms(2) by simp
  have "optional \<and> get_prop (VObj ms) n = VUndef \<or> conforms valid t (get_prop (VObj ms) n)"
    if f: "(n, optional, t) \<in> set fs" for n optional t
  proof -
    from f obtain i where i: "i < length fs" "fs ! i = (n, optional, t)" by (metis in_set_conv_nth)
    with assms(1) have ok: "field_ok valid (n, optional, t) (ms ! i)" and len: "i < length ms"
      using list_all2_nthD list_all2_lengthD by fastforce+
    then have "(n, snd (ms ! i)) \<in> set ms" by (metis field_ok_def fst_conv nth_mem prod.collapse)
    with d have "get_prop (VObj ms) n = snd (ms ! i)" by (simp add: get_prop_def)
    with ok show ?thesis by (simp add: field_ok_def)
  qed
  then show ?thesis unfolding fields_conform_iff by blast
qed

text \<open>A value that can be read, as a value of its type.\<close>

definition reads :: "(jsval \<Rightarrow> int option) \<Rightarrow> (int \<Rightarrow> bool) \<Rightarrow> ty \<Rightarrow> jsval \<Rightarrow> bool" where
  "reads parse valid t v \<longleftrightarrow> (\<exists>r. FromJSON parse t v = Inr r \<and> conforms valid t r)"

lemma read_fields:
  assumes "\<forall>(n, optional, t)\<in>set fs. optional \<and> nullish (get_prop v n) \<or> reads parse valid t (get_prop v n)"
  shows "\<exists>ms. fields_from parse fs v = Inr ms \<and> list_all2 (field_ok valid) fs ms"
  using assms
proof (induction fs)
  case (Cons f fs)
  obtain n optional t where f: "f = (n, optional, t)" by (cases f)
  from Cons f obtain ms where ms: "fields_from parse fs v = Inr ms" "list_all2 (field_ok valid) fs ms" by auto
  show ?case
  proof (cases "optional \<and> nullish (get_prop v n)")
    case True
    then have "field_ok valid f (n, VUndef)" by (simp add: f field_ok_def)
    with True ms f show ?thesis by (intro exI [of _ "(n, VUndef) # ms"]) (simp add: exists_prop_def)
  next
    case False
    with Cons.prems f obtain r where "FromJSON parse t (get_prop v n) = Inr r" "conforms valid t r"
      by (auto simp: reads_def)
    moreover from this have "field_ok valid f (n, r)" by (simp add: f field_ok_def)
    ultimately show ?thesis using False ms f by (intro exI [of _ "(n, r) # ms"]) (auto simp: exists_prop_def)
  qed
qed simp

lemma read_model:
  assumes "\<forall>(n, optional, t)\<in>set fs. optional \<and> nullish (get_prop v n) \<or> reads parse valid t (get_prop v n)"
    and "distinct (map fst fs)"
  shows "\<exists>ms. fields_from parse fs v = Inr ms \<and> fields_conform valid fs (VObj ms)"
  using read_fields [OF assms(1)] fields_conform_list [OF _ assms(2)] by blast

lemma accepted_plain: "unconverted t \<Longrightarrow> accepts parse valid t v \<Longrightarrow> conforms valid t v"
proof (induction t arbitrary: v)
  case (TArray t)
  then show ?case by (cases v) (auto simp: list_all_iff)
next
  case (TDict t)
  then show ?case by (cases v) (auto simp: list_all_iff)
qed simp_all

lemma read_list:
  "\<forall>x\<in>set xs. reads parse valid t x \<Longrightarrow>
   \<exists>ys. map_res (FromJSON parse t) xs = Inr ys \<and> list_all (conforms valid t) ys"
proof (induction xs)
  case (Cons x xs)
  then obtain ys r where "map_res (FromJSON parse t) xs = Inr ys" "list_all (conforms valid t) ys"
    "FromJSON parse t x = Inr r" "conforms valid t r" by (auto simp: reads_def)
  then show ?case by (intro exI [of _ "r # ys"]) simp
qed simp

lemma read_members:
  "\<forall>(k, x)\<in>set ms. reads parse valid t x \<Longrightarrow>
   \<exists>ns. map_res (\<lambda>(k, x). bind_res (FromJSON parse t x) (\<lambda>y. Inr (k, y))) ms = Inr ns
     \<and> list_all (\<lambda>(k, x). conforms valid t x) ns"
proof (induction ms)
  case (Cons m ms)
  obtain k x where m: "m = (k, x)" by force
  with Cons obtain ns r where "map_res (\<lambda>(k, x). bind_res (FromJSON parse t x) (\<lambda>y. Inr (k, y))) ms = Inr ns"
    "list_all (\<lambda>(k, x). conforms valid t x) ns" "FromJSON parse t x = Inr r" "conforms valid t r"
    by (auto simp: reads_def)
  with m show ?case by (intro exI [of _ "(k, r) # ns"]) simp
qed simp

lemma fields_conform_append:
  "fields_conform valid (fs @ gs) v \<longleftrightarrow> fields_conform valid fs v \<and> fields_conform valid gs v"
  by (simp only: fields_conform_iff set_append ball_Un)

lemma derived_tag:
  assumes "fields_from parse base v = Inr ms" and "req ''inherit'' TString \<in> set base" and "distinct (map fst base)"
  shows "get_prop (VObj ms) ''inherit'' = get_prop v ''inherit''"
  using assms
proof (induction base arbitrary: ms)
  case (Cons f fs)
  obtain n optional t where f: "f = (n, optional, t)" by (cases f)
  with Cons.prems(1) obtain x ms' where ms: "ms = (n, x) # ms'" "fields_from parse fs v = Inr ms'"
    "(if optional \<and> \<not> exists_prop v n then Inr VUndef else FromJSON parse t (get_prop v n)) = Inr x"
    by (auto simp: bind_res_Inr_iff)
  show ?case
  proof (cases "n = ''inherit''")
    case True
    have "''inherit'' \<notin> fst ` set fs" using Cons.prems(3) f True by simp
    then have "req ''inherit'' TString \<notin> set fs" by force
    with Cons.prems(2) f True have "\<not> optional" "t = TString" by auto
    with ms True show ?thesis by (simp add: get_prop_def)
  next
    case False
    with Cons f ms show ?thesis by (auto simp: get_prop_def)
  qed
qed simp

lemma reads_unconverted: "unconverted t \<Longrightarrow> accepts parse valid t v \<Longrightarrow> reads parse valid t v"
  by (simp add: reads_def unconverted_identity accepted_plain)

lemma reads_accepted:
  shows "accepts parse valid t v \<Longrightarrow> wf_ty t \<Longrightarrow> reads parse valid t v"
    and "fields_accept parse valid fs v \<Longrightarrow> wf_fields fs \<Longrightarrow>
      \<forall>(n, optional, u)\<in>set fs. optional \<and> nullish (get_prop v n) \<or> reads parse valid u (get_prop v n)"
proof (induction parse valid t v and parse valid fs v rule: accepts_fields_accept.induct)
  case (1 parse valid v)
  then show ?case by (simp add: reads_def split: option.splits)
next
  case (2 parse valid t v)
  then obtain xs where v: "v = VArr xs" and xs: "\<forall>x\<in>set xs. reads parse valid t x"
    by (auto simp: list_all_iff split: jsval.splits)
  show ?case
  proof (cases "unconverted t")
    case True
    with 2 show ?thesis by (intro reads_unconverted) simp_all
  next
    case False
    with read_list [OF xs] v show ?thesis by (auto simp: reads_def)
  qed
next
  case (3 parse valid t v)
  then obtain ms where v: "v = VObj ms" and ms: "\<forall>(k, x)\<in>set ms. reads parse valid t x"
    by (fastforce simp: list_all_iff split: jsval.splits)
  show ?case
  proof (cases "unconverted t")
    case True
    with 3 show ?thesis by (intro reads_unconverted) simp_all
  next
    case False
    with read_members [OF ms] v show ?thesis by (auto simp: reads_def own_members_def)
  qed
next
  case (4 parse valid fs v)
  then obtain ms where v: "v = VObj ms" and acc: "fields_accept parse valid fs v" by (auto split: jsval.splits)
  have "wf_fields fs" "distinct (map fst fs)" using "4.prems"(2) by simp_all
  with read_model [OF "4.IH" [OF v acc]] v show ?case by (auto simp: reads_def nullish_def)
next
  case (5 parse valid base extra tag v)
  then obtain ms where v: "v = VObj ms" and acc: "fields_accept parse valid base v"
    "get_prop v ''inherit'' = VStr tag \<longrightarrow> fields_accept parse valid extra v" by (auto split: jsval.splits)
  have d: "distinct (map fst base)" "distinct (map fst (base @ extra))" "req ''inherit'' TString \<in> set base"
    and wf: "wf_fields base" "wf_fields extra" using "5.prems"(2) by simp_all
  note base = "5.IH"(1) [OF v acc(1) wf(1)]
  show ?case
  proof (cases "get_prop v ''inherit'' = VStr tag")
    case True
    have "\<forall>(n, optional, t)\<in>set (base @ extra). optional \<and> nullish (get_prop v n) \<or> reads parse valid t (get_prop v n)"
      using base "5.IH"(2) [OF v True mp [OF acc(2) True] wf(2)] unfolding set_append ball_Un by blast
    from read_model [OF this d(2)]
    obtain rs where "fields_from parse (base @ extra) v = Inr rs" "fields_conform valid (base @ extra) (VObj rs)" by blast
    with True v show ?thesis by (simp add: reads_def nullish_def fields_conform_append)
  next
    case False
    from read_model [OF base d(1)]
    obtain rs where rs: "fields_from parse base v = Inr rs" "fields_conform valid base (VObj rs)" by blast
    from derived_tag [OF rs(1) d(3,1)] False rs v show ?thesis by (simp add: reads_def nullish_def)
  qed
next
  case (14 parse valid n optional t fs v)
  then show ?case by auto
next
  case (12 parse valid es v)
  then show ?case by (simp add: reads_def)
qed (simp_all add: reads_unconverted)

end
