(* ===== verification/ApiEnums.thy ===== *)
theory ApiEnums
  imports ApiRuntime
begin

text \<open>
  The enumerations of the server's interface, \<open>generated-sources/models\<close>: for each the texts
  that stand for its values, in the order of the declaration.
\<close>

definition Action_model :: ty where
  "Action_model = TNamed [
     ''ALL'', ''VIEW'', ''EDIT'', ''CREATE'', ''DELETE'', ''RESET_OFFSETS'', ''EXECUTE'',
     ''MODIFY_GLOBAL_COMPATIBILITY'', ''ANALYSIS_VIEW'', ''ANALYSIS_RUN'', ''MESSAGES_READ'',
     ''MESSAGES_PRODUCE'', ''MESSAGES_DELETE'', ''OPERATE'', ''RESTART'']"

definition AuthType_model :: ty where
  "AuthType_model = TNamed [
     ''DISABLED'', ''OAUTH2'', ''LOGIN_FORM'', ''LDAP'']"

definition ResourceType_model :: ty where
  "ResourceType_model = TNamed [
     ''APPLICATIONCONFIG'', ''CLUSTERCONFIG'', ''TOPIC'', ''CONSUMER'', ''SCHEMA'', ''CONNECT'',
     ''CONNECTOR'', ''KSQL'', ''ACL'', ''AUDIT'', ''CLIENT_QUOTAS'']"

definition ConfigSource_model :: ty where
  "ConfigSource_model = TNamed [
     ''DYNAMIC_TOPIC_CONFIG'', ''DYNAMIC_BROKER_LOGGER_CONFIG'', ''DYNAMIC_BROKER_CONFIG'',
     ''DYNAMIC_DEFAULT_BROKER_CONFIG'', ''DYNAMIC_CLIENT_METRICS_CONFIG'', ''STATIC_BROKER_CONFIG'',
     ''DEFAULT_CONFIG'', ''UNKNOWN'']"

definition CleanUpPolicy_model :: ty where
  "CleanUpPolicy_model = TNamed [
     ''DELETE'', ''COMPACT'', ''COMPACT_DELETE'', ''UNKNOWN'']"

definition ControllerType_model :: ty where
  "ControllerType_model = TNamed [
     ''ZOOKEEPER'', ''KRAFT'']"

definition ServerStatus_model :: ty where
  "ServerStatus_model = TNamed [
     ''ONLINE'', ''OFFLINE'', ''INITIALIZING'']"

definition ConnectorState_model :: ty where
  "ConnectorState_model = TNamed [
     ''RUNNING'', ''FAILED'', ''PAUSED'', ''UNASSIGNED'', ''TASK_FAILED'', ''RESTARTING'', ''STOPPED'']"

definition ConnectorType_model :: ty where
  "ConnectorType_model = TNamed [
     ''SOURCE'', ''SINK'', ''UNKNOWN'']"

definition ConnectorAction_model :: ty where
  "ConnectorAction_model = TNamed [
     ''RESTART'', ''RESTART_ALL_TASKS'', ''RESTART_FAILED_TASKS'', ''PAUSE'', ''RESUME'', ''STOP'']"

definition ConnectorColumnsToSort_model :: ty where
  "ConnectorColumnsToSort_model = TNamed [
     ''NAME'', ''CONNECT'', ''TYPE'', ''STATUS'']"

definition ConnectorTaskStatus_model :: ty where
  "ConnectorTaskStatus_model = TNamed [
     ''RUNNING'', ''FAILED'', ''PAUSED'', ''RESTARTING'', ''UNASSIGNED'']"

definition ConsumerGroupState_model :: ty where
  "ConsumerGroupState_model = TNamed [
     ''UNKNOWN'', ''PREPARING_REBALANCE'', ''COMPLETING_REBALANCE'', ''STABLE'', ''DEAD'', ''EMPTY'']"

definition ConsumerGroupOffsetsResetType_model :: ty where
  "ConsumerGroupOffsetsResetType_model = TNamed [
     ''EARLIEST'', ''LATEST'', ''TIMESTAMP'', ''OFFSET'']"

definition ConsumerGroupOrdering_model :: ty where
  "ConsumerGroupOrdering_model = TNamed [
     ''NAME'', ''MEMBERS'', ''STATE'', ''MESSAGES_BEHIND'', ''TOPIC_NUM'']"

definition KafkaAclNamePatternType_model :: ty where
  "KafkaAclNamePatternType_model = TNamed [
     ''MATCH'', ''LITERAL'', ''PREFIXED'']"

definition KafkaAclResourceType_model :: ty where
  "KafkaAclResourceType_model = TNamed [
     ''UNKNOWN'', ''TOPIC'', ''GROUP'', ''CLUSTER'', ''TRANSACTIONAL_ID'', ''DELEGATION_TOKEN'',
     ''USER'']"

definition MessageFilterType_model :: ty where
  "MessageFilterType_model = TNamed [
     ''STRING_CONTAINS'', ''CEL_SCRIPT'']"

definition MessageFormat_model :: ty where
  "MessageFormat_model = TNamed [
     ''AVRO'', ''JSON'', ''PROTOBUF'', ''UNKNOWN'']"

definition SchemaType_model :: ty where
  "SchemaType_model = TNamed [
     ''AVRO'', ''JSON'', ''PROTOBUF'']"

definition PollingMode_model :: ty where
  "PollingMode_model = TNamed [
     ''FROM_OFFSET'', ''TO_OFFSET'', ''FROM_TIMESTAMP'', ''TO_TIMESTAMP'', ''LATEST'', ''EARLIEST'',
     ''TAILING'']"

definition SchemaColumnsToSort_model :: ty where
  "SchemaColumnsToSort_model = TNamed [
     ''SUBJECT'', ''ID'', ''TYPE'', ''COMPATIBILITY'', ''VERSION'']"

definition SeekDirection_model :: ty where
  "SeekDirection_model = TNamed [
     ''FORWARD'', ''BACKWARD'', ''TAILING'']"

definition SeekType_model :: ty where
  "SeekType_model = TNamed [
     ''BEGINNING'', ''OFFSET'', ''TIMESTAMP'', ''LATEST'']"

definition SerdeUsage_model :: ty where
  "SerdeUsage_model = TNamed [
     ''SERIALIZE'', ''DESERIALIZE'']"

definition SortOrder_model :: ty where
  "SortOrder_model = TNamed [
     ''ASC'', ''DESC'']"

definition TaskAction_model :: ty where
  "TaskAction_model = TNamed [
     ''restart'']"

definition TopicColumnsToSort_model :: ty where
  "TopicColumnsToSort_model = TNamed [
     ''NAME'', ''OUT_OF_SYNC_REPLICAS'', ''TOTAL_PARTITIONS'', ''REPLICATION_FACTOR'', ''SIZE'',
     ''MESSAGES_COUNT'']"

definition api_enums :: "(string \<times> ty) list" where
  "api_enums = [
     (''Action'', Action_model), (''AuthType'', AuthType_model), (''ResourceType'', ResourceType_model),
     (''ConfigSource'', ConfigSource_model), (''CleanUpPolicy'', CleanUpPolicy_model),
     (''ControllerType'', ControllerType_model), (''ServerStatus'', ServerStatus_model),
     (''ConnectorState'', ConnectorState_model), (''ConnectorType'', ConnectorType_model),
     (''ConnectorAction'', ConnectorAction_model),
     (''ConnectorColumnsToSort'', ConnectorColumnsToSort_model),
     (''ConnectorTaskStatus'', ConnectorTaskStatus_model),
     (''ConsumerGroupState'', ConsumerGroupState_model),
     (''ConsumerGroupOffsetsResetType'', ConsumerGroupOffsetsResetType_model),
     (''ConsumerGroupOrdering'', ConsumerGroupOrdering_model),
     (''KafkaAclNamePatternType'', KafkaAclNamePatternType_model),
     (''KafkaAclResourceType'', KafkaAclResourceType_model),
     (''MessageFilterType'', MessageFilterType_model), (''MessageFormat'', MessageFormat_model),
     (''SchemaType'', SchemaType_model), (''PollingMode'', PollingMode_model),
     (''SchemaColumnsToSort'', SchemaColumnsToSort_model), (''SeekDirection'', SeekDirection_model),
     (''SeekType'', SeekType_model), (''SerdeUsage'', SerdeUsage_model),
     (''SortOrder'', SortOrder_model), (''TaskAction'', TaskAction_model),
     (''TopicColumnsToSort'', TopicColumnsToSort_model)]"

end
