(* ===== verification/ApiConfigModels.thy ===== *)
theory ApiConfigModels
  imports ApiEnums
begin

text \<open>
  The models of the application's configuration, \<open>generated-sources/models/Application*.ts\<close>: the
  members each declares, in order, with the type that decides how \<open>FromJSON\<close> and \<open>ToJSON\<close>
  convert them.
\<close>

definition ApplicationConfigPropertiesAuthOauth2Client_model :: ty where
  "ApplicationConfigPropertiesAuthOauth2Client_model = TModel [
     req ''provider'' TString, req ''clientId'' TString, opt ''clientSecret'' TString,
     opt ''clientName'' TString, opt ''redirectUri'' TString, opt ''authorizationGrantType'' TString,
     opt ''issuerUri'' TString, opt ''authorizationUri'' TString, opt ''tokenUri'' TString,
     opt ''userInfoUri'' TString, opt ''jwkSetUri'' TString, opt ''userNameAttribute'' TString,
     opt ''scope'' (TArray TString), opt ''customParams'' (TDict TString)]"

definition ApplicationConfigPropertiesAuthOauth2ResourceServerJwt_model :: ty where
  "ApplicationConfigPropertiesAuthOauth2ResourceServerJwt_model = TModel [
     opt ''jwkSetUri'' TString, opt ''jwsAlgorithms'' (TArray TString), opt ''issuerUri'' TString,
     opt ''publicKeyLocation'' TString, opt ''audiences'' (TArray TString),
     opt ''authorityPrefix'' TString, opt ''authoritiesClaimDelimiter'' TString,
     opt ''authoritiesClaimName'' TString, opt ''principalClaimName'' TString]"

definition ApplicationConfigPropertiesAuthOauth2ResourceServerOpaquetoken_model :: ty where
  "ApplicationConfigPropertiesAuthOauth2ResourceServerOpaquetoken_model = TModel [
     opt ''clientId'' TString, opt ''clientSecret'' TString, opt ''introspectionUri'' TString]"

definition ApplicationConfigPropertiesAuthOauth2ResourceServer_model :: ty where
  "ApplicationConfigPropertiesAuthOauth2ResourceServer_model = TModel [
     opt ''jwt'' ApplicationConfigPropertiesAuthOauth2ResourceServerJwt_model,
     opt ''opaquetoken'' ApplicationConfigPropertiesAuthOauth2ResourceServerOpaquetoken_model]"

definition ApplicationConfigPropertiesAuthOauth2_model :: ty where
  "ApplicationConfigPropertiesAuthOauth2_model = TModel [
     opt ''client'' (TDict ApplicationConfigPropertiesAuthOauth2Client_model),
     opt ''resourceServer'' ApplicationConfigPropertiesAuthOauth2ResourceServer_model]"

definition ApplicationConfigPropertiesAuth_model :: ty where
  "ApplicationConfigPropertiesAuth_model = TModel [
     req ''type'' TString, opt ''oauth2'' ApplicationConfigPropertiesAuthOauth2_model]"

definition ApplicationConfigPropertiesKafkaCache_model :: ty where
  "ApplicationConfigPropertiesKafkaCache_model = TModel [
     opt ''enabled'' TBoolean, opt ''connectClusterCacheExpiry'' TString]"

definition ApplicationConfigPropertiesKafkaAudit_model :: ty where
  "ApplicationConfigPropertiesKafkaAudit_model = TModel [
     opt ''level'' (TEnum [''ALL'', ''ALTER_ONLY'']), opt ''topic'' TString,
     opt ''auditTopicsPartitions'' TNumber, opt ''topicAuditEnabled'' TBoolean,
     opt ''consoleAuditEnabled'' TBoolean, opt ''auditTopicProperties'' (TDict TString)]"

definition ApplicationConfigPropertiesKafkaKafkaConnect_model :: ty where
  "ApplicationConfigPropertiesKafkaKafkaConnect_model = TModel [
     opt ''name'' TString, opt ''address'' TString, opt ''username'' TString, opt ''password'' TString,
     opt ''keystoreLocation'' TString, opt ''keystorePassword'' TString]"

definition ApplicationConfigPropertiesKafkaKsqldbServerAuth_model :: ty where
  "ApplicationConfigPropertiesKafkaKsqldbServerAuth_model = TModel [
     opt ''username'' TString, opt ''password'' TString]"

definition ApplicationConfigPropertiesKafkaMasking_model :: ty where
  "ApplicationConfigPropertiesKafkaMasking_model = TModel [
     opt ''type'' (TEnum [''REMOVE'', ''MASK'', ''REPLACE'']), opt ''fields'' (TArray TString),
     opt ''fieldsNamePattern'' TString, opt ''maskingCharsReplacement'' (TArray TString),
     opt ''replacement'' TString, opt ''topicKeysPattern'' TString, opt ''topicValuesPattern'' TString]"

definition ApplicationConfigPropertiesKafkaSchemaRegistryAuthOauth_model :: ty where
  "ApplicationConfigPropertiesKafkaSchemaRegistryAuthOauth_model = TModel [
     opt ''tokenUrl'' TString, opt ''clientId'' TString, opt ''clientSecret'' TString,
     opt ''scopes'' (TArray TString), opt ''tokenCacheEnabled'' TBoolean,
     opt ''tokenRefreshBuffer'' TString, opt ''maxRetries'' TNumber]"

definition ApplicationConfigPropertiesKafkaSchemaRegistryAuth_model :: ty where
  "ApplicationConfigPropertiesKafkaSchemaRegistryAuth_model = TModel [
     opt ''username'' TString, opt ''password'' TString,
     opt ''oauth'' ApplicationConfigPropertiesKafkaSchemaRegistryAuthOauth_model]"

definition ApplicationConfigPropertiesKafkaSchemaRegistrySsl_model :: ty where
  "ApplicationConfigPropertiesKafkaSchemaRegistrySsl_model = TModel [
     opt ''keystoreLocation'' TString, opt ''keystorePassword'' TString]"

definition ApplicationConfigPropertiesKafkaSerde_model :: ty where
  "ApplicationConfigPropertiesKafkaSerde_model = TModel [
     opt ''name'' TString, opt ''className'' TString, opt ''filePath'' TString,
     opt ''properties'' (TDict TAny), opt ''topicKeysPattern'' TString,
     opt ''topicValuesPattern'' TString]"

definition ApplicationConfigPropertiesKafkaSsl_model :: ty where
  "ApplicationConfigPropertiesKafkaSsl_model = TModel [
     opt ''truststoreLocation'' TString, opt ''truststorePassword'' TString, opt ''verify'' TBoolean]"

definition ApplicationConfigPropertiesKafkaPolling_model :: ty where
  "ApplicationConfigPropertiesKafkaPolling_model = TModel [
     opt ''pollTimeoutMs'' TNumber, opt ''maxPageSize'' TNumber, opt ''defaultPageSize'' TNumber,
     opt ''responseTimeoutMs'' TNumber]"

definition ApplicationConfigPropertiesRbacSubjects_model :: ty where
  "ApplicationConfigPropertiesRbacSubjects_model = TModel [
     opt ''provider'' TString, opt ''type'' TString, opt ''value'' TString, opt ''regex'' TBoolean]"

definition ApplicationConfigPropertiesWebclient_model :: ty where
  "ApplicationConfigPropertiesWebclient_model = TModel [
     opt ''maxInMemoryBufferSize'' TString, opt ''responseTimeoutMs'' TNumber]"

definition api_config_models :: "(string \<times> ty) list" where
  "api_config_models = [
     (''ApplicationConfigPropertiesAuthOauth2Client'', ApplicationConfigPropertiesAuthOauth2Client_model),
     (''ApplicationConfigPropertiesAuthOauth2ResourceServerJwt'', ApplicationConfigPropertiesAuthOauth2ResourceServerJwt_model),
     (''ApplicationConfigPropertiesAuthOauth2ResourceServerOpaquetoken'', ApplicationConfigPropertiesAuthOauth2ResourceServerOpaquetoken_model),
     (''ApplicationConfigPropertiesAuthOauth2ResourceServer'', ApplicationConfigPropertiesAuthOauth2ResourceServer_model),
     (''ApplicationConfigPropertiesAuthOauth2'', ApplicationConfigPropertiesAuthOauth2_model),
     (''ApplicationConfigPropertiesAuth'', ApplicationConfigPropertiesAuth_model),
     (''ApplicationConfigPropertiesKafkaCache'', ApplicationConfigPropertiesKafkaCache_model),
     (''ApplicationConfigPropertiesKafkaAudit'', ApplicationConfigPropertiesKafkaAudit_model),
     (''ApplicationConfigPropertiesKafkaKafkaConnect'', ApplicationConfigPropertiesKafkaKafkaConnect_model),
     (''ApplicationConfigPropertiesKafkaKsqldbServerAuth'', ApplicationConfigPropertiesKafkaKsqldbServerAuth_model),
     (''ApplicationConfigPropertiesKafkaMasking'', ApplicationConfigPropertiesKafkaMasking_model),
     (''ApplicationConfigPropertiesKafkaSchemaRegistryAuthOauth'', ApplicationConfigPropertiesKafkaSchemaRegistryAuthOauth_model),
     (''ApplicationConfigPropertiesKafkaSchemaRegistryAuth'', ApplicationConfigPropertiesKafkaSchemaRegistryAuth_model),
     (''ApplicationConfigPropertiesKafkaSchemaRegistrySsl'', ApplicationConfigPropertiesKafkaSchemaRegistrySsl_model),
     (''ApplicationConfigPropertiesKafkaSerde'', ApplicationConfigPropertiesKafkaSerde_model),
     (''ApplicationConfigPropertiesKafkaSsl'', ApplicationConfigPropertiesKafkaSsl_model),
     (''ApplicationConfigPropertiesKafkaPolling'', ApplicationConfigPropertiesKafkaPolling_model),
     (''ApplicationConfigPropertiesRbacSubjects'', ApplicationConfigPropertiesRbacSubjects_model),
     (''ApplicationConfigPropertiesWebclient'', ApplicationConfigPropertiesWebclient_model)]"

end
