(* ===== verification/ApiModels.thy ===== *)
theory ApiModels
  imports ApiConfigModels
begin

text \<open>
  The other models of the server's interface, \<open>generated-sources/models\<close>. A consumer group
  whose member \<open>inherit\<close> is \<open>details\<close> has the partitions as well.
\<close>

definition ApiDuplicateResponse_model :: ty where
  "ApiDuplicateResponse_model = TModel [
     req ''message'' TString]"

definition ApiInvalidParametersResponse_model :: ty where
  "ApiInvalidParametersResponse_model = TModel [
     req ''message'' TString]"

definition ApiNotFoundResponse_model :: ty where
  "ApiNotFoundResponse_model = TModel [
     req ''message'' TString]"

definition ApiRebalanceInProgressResponse_model :: ty where
  "ApiRebalanceInProgressResponse_model = TModel [
     req ''message'' TString]"

definition ApiTimeoutResponse_model :: ty where
  "ApiTimeoutResponse_model = TModel [
     req ''message'' TString]"

definition ApiUnauthorized_model :: ty where
  "ApiUnauthorized_model = TModel [
     req ''message'' TString]"

definition OAuthProvider_model :: ty where
  "OAuthProvider_model = TModel [
     req ''clientName'' TString, req ''authorizationUri'' TString]"

definition AppAuthenticationSettings_model :: ty where
  "AppAuthenticationSettings_model = TModel [
     opt ''authType'' AuthType_model, opt ''oAuthProviders'' (TArray OAuthProvider_model)]"

definition PrometheusStorage_model :: ty where
  "PrometheusStorage_model = TModel [
     opt ''url'' TString, opt ''remoteWrite'' TBoolean, opt ''pushGatewayUrl'' TString,
     opt ''pushGatewayUsername'' TString, opt ''pushGatewayPassword'' TString,
     opt ''pushGatewayJobName'' TString]"

definition ClusterMetricsStoreConfig_model :: ty where
  "ClusterMetricsStoreConfig_model = TModel [
     opt ''prometheus'' PrometheusStorage_model]"

definition ApplicationConfigPropertiesKafkaMetrics_model :: ty where
  "ApplicationConfigPropertiesKafkaMetrics_model = TModel [
     opt ''type'' TString, opt ''port'' TNumber, opt ''ssl'' TBoolean, opt ''username'' TString,
     opt ''password'' TString, opt ''keystoreLocation'' TString, opt ''keystorePassword'' TString,
     opt ''prometheusExpose'' TBoolean, opt ''store'' ClusterMetricsStoreConfig_model]"

definition ApplicationConfigPropertiesKafkaClusters_model :: ty where
  "ApplicationConfigPropertiesKafkaClusters_model = TModel [
     opt ''name'' TString, opt ''bootstrapServers'' TString,
     opt ''ssl'' ApplicationConfigPropertiesKafkaSsl_model, opt ''schemaRegistry'' TString,
     opt ''schemaRegistryAuth'' ApplicationConfigPropertiesKafkaSchemaRegistryAuth_model,
     opt ''schemaRegistrySsl'' ApplicationConfigPropertiesKafkaSchemaRegistrySsl_model,
     opt ''ksqldbServer'' TString,
     opt ''ksqldbServerSsl'' ApplicationConfigPropertiesKafkaSchemaRegistrySsl_model,
     opt ''ksqldbServerAuth'' ApplicationConfigPropertiesKafkaKsqldbServerAuth_model,
     opt ''kafkaConnect'' (TArray ApplicationConfigPropertiesKafkaKafkaConnect_model),
     opt ''metrics'' ApplicationConfigPropertiesKafkaMetrics_model, opt ''properties'' (TDict TAny),
     opt ''consumerProperties'' (TDict TAny), opt ''producerProperties'' (TDict TAny),
     opt ''readOnly'' TBoolean, opt ''serde'' (TArray ApplicationConfigPropertiesKafkaSerde_model),
     opt ''defaultKeySerde'' TString, opt ''defaultValueSerde'' TString,
     opt ''masking'' (TArray ApplicationConfigPropertiesKafkaMasking_model),
     opt ''pollingThrottleRate'' TNumber, opt ''audit'' ApplicationConfigPropertiesKafkaAudit_model]"

definition ApplicationConfigPropertiesKafka_model :: ty where
  "ApplicationConfigPropertiesKafka_model = TModel [
     opt ''polling'' ApplicationConfigPropertiesKafkaPolling_model, opt ''adminClientTimeout'' TNumber,
     opt ''internalTopicPrefix'' TString, opt ''defaultMetricsStorage'' ClusterMetricsStoreConfig_model,
     opt ''cache'' ApplicationConfigPropertiesKafkaCache_model,
     opt ''clusters'' (TArray ApplicationConfigPropertiesKafkaClusters_model)]"

definition RbacPermission_model :: ty where
  "RbacPermission_model = TModel [
     opt ''resource'' ResourceType_model, opt ''value'' TString, opt ''actions'' (TArray Action_model)]"

definition ApplicationConfigPropertiesRbacDefaultRole_model :: ty where
  "ApplicationConfigPropertiesRbacDefaultRole_model = TModel [
     opt ''permissions'' (TArray RbacPermission_model)]"

definition ApplicationConfigPropertiesRbacRoles_model :: ty where
  "ApplicationConfigPropertiesRbacRoles_model = TModel [
     opt ''name'' TString, opt ''clusters'' (TArray TString),
     opt ''subjects'' (TArray ApplicationConfigPropertiesRbacSubjects_model),
     opt ''permissions'' (TArray RbacPermission_model)]"

definition ApplicationConfigPropertiesRbac_model :: ty where
  "ApplicationConfigPropertiesRbac_model = TModel [
     opt ''roles'' (TArray ApplicationConfigPropertiesRbacRoles_model),
     opt ''defaultRole'' ApplicationConfigPropertiesRbacDefaultRole_model]"

definition ApplicationConfigProperties_model :: ty where
  "ApplicationConfigProperties_model = TModel [
     opt ''auth'' ApplicationConfigPropertiesAuth_model,
     opt ''rbac'' ApplicationConfigPropertiesRbac_model,
     opt ''webclient'' ApplicationConfigPropertiesWebclient_model,
     opt ''kafka'' ApplicationConfigPropertiesKafka_model]"

definition ApplicationConfig_model :: ty where
  "ApplicationConfig_model = TModel [
     req ''properties'' ApplicationConfigProperties_model]"

definition ApplicationPropertyValidation_model :: ty where
  "ApplicationPropertyValidation_model = TModel [
     req ''error'' TBoolean, opt ''errorMessage'' TString]"

definition ClusterConfigValidation_model :: ty where
  "ClusterConfigValidation_model = TModel [
     req ''kafka'' ApplicationPropertyValidation_model,
     opt ''schemaRegistry'' ApplicationPropertyValidation_model,
     opt ''kafkaConnects'' (TDict ApplicationPropertyValidation_model),
     opt ''ksqldb'' ApplicationPropertyValidation_model,
     opt ''prometheusStorage'' ApplicationPropertyValidation_model]"

definition ApplicationConfigValidation_model :: ty where
  "ApplicationConfigValidation_model = TModel [
     opt ''clusters'' (TDict ClusterConfigValidation_model)]"

definition ApplicationInfoBuild_model :: ty where
  "ApplicationInfoBuild_model = TModel [
     opt ''commitId'' TString, opt ''version'' TString, opt ''buildTime'' TString,
     opt ''isLatestRelease'' TBoolean]"

definition ApplicationInfoLatestRelease_model :: ty where
  "ApplicationInfoLatestRelease_model = TModel [
     opt ''versionTag'' TString, opt ''publishedAt'' TString, opt ''htmlUrl'' TString]"

definition ApplicationInfo_model :: ty where
  "ApplicationInfo_model = TModel [
     opt ''enabledFeatures'' (TArray (TEnum [''DYNAMIC_CONFIG''])),
     opt ''build'' ApplicationInfoBuild_model, opt ''latestRelease'' ApplicationInfoLatestRelease_model]"

definition UserPermission_model :: ty where
  "UserPermission_model = TModel [
     req ''clusters'' (TArray TString), req ''resource'' ResourceType_model, opt ''value'' TString,
     req ''actions'' (TArray Action_model)]"

definition UserInfo_model :: ty where
  "UserInfo_model = TModel [
     req ''username'' TString, req ''permissions'' (TArray UserPermission_model)]"

definition AuthenticationInfo_model :: ty where
  "AuthenticationInfo_model = TModel [
     req ''rbacEnabled'' TBoolean, opt ''userInfo'' UserInfo_model]"

definition Broker_model :: ty where
  "Broker_model = TModel [
     req ''id'' TNumber, opt ''host'' TString, opt ''port'' TNumber, opt ''bytesInPerSec'' TNumber,
     opt ''bytesOutPerSec'' TNumber, opt ''partitionsLeader'' TNumber, opt ''partitions'' TNumber,
     opt ''inSyncPartitions'' TNumber, opt ''partitionsSkew'' TNumber, opt ''leadersSkew'' TNumber]"

definition ConfigSynonym_model :: ty where
  "ConfigSynonym_model = TModel [
     opt ''name'' TString, opt ''value'' TString, opt ''source'' ConfigSource_model]"

definition BrokerConfig_model :: ty where
  "BrokerConfig_model = TModel [
     req ''name'' TString, req ''value'' TString, req ''source'' ConfigSource_model,
     req ''isSensitive'' TBoolean, req ''isReadOnly'' TBoolean,
     opt ''synonyms'' (TArray ConfigSynonym_model)]"

definition BrokerConfigItem_model :: ty where
  "BrokerConfigItem_model = TModel [
     opt ''value'' TString]"

definition BrokerDiskUsage_model :: ty where
  "BrokerDiskUsage_model = TModel [
     req ''brokerId'' TNumber, opt ''segmentSize'' TNumber, opt ''segmentCount'' TNumber]"

definition BrokerLogdirUpdate_model :: ty where
  "BrokerLogdirUpdate_model = TModel [
     opt ''topic'' TString, opt ''partition'' TNumber, opt ''logDir'' TString]"

definition TopicPartitionLogdir_model :: ty where
  "TopicPartitionLogdir_model = TModel [
     opt ''partition'' TNumber, opt ''size'' TNumber, opt ''offsetLag'' TNumber]"

definition TopicLogdirs_model :: ty where
  "TopicLogdirs_model = TModel [
     opt ''name'' TString, opt ''partitions'' (TArray TopicPartitionLogdir_model)]"

definition BrokerLogdirs_model :: ty where
  "BrokerLogdirs_model = TModel [
     opt ''name'' TString, opt ''error'' TString, opt ''topics'' (TArray TopicLogdirs_model)]"

definition Metric_model :: ty where
  "Metric_model = TModel [
     opt ''name'' TString, opt ''labels'' (TDict TString), opt ''value'' TNumber]"

definition BrokerMetrics_model :: ty where
  "BrokerMetrics_model = TModel [
     opt ''segmentSize'' TNumber, opt ''segmentCount'' TNumber, opt ''metrics'' (TArray Metric_model)]"

definition BrokerTopicPartitionLogdir_model :: ty where
  "BrokerTopicPartitionLogdir_model = TModel [
     opt ''partition'' TNumber, opt ''size'' TNumber, opt ''offsetLag'' TNumber, opt ''broker'' TNumber]"

definition BrokerTopicLogdirs_model :: ty where
  "BrokerTopicLogdirs_model = TModel [
     opt ''name'' TString, opt ''partitions'' (TArray BrokerTopicPartitionLogdir_model)]"

definition BrokersLogdirs_model :: ty where
  "BrokersLogdirs_model = TModel [
     opt ''name'' TString, opt ''error'' TString, opt ''topics'' (TArray BrokerTopicLogdirs_model)]"

definition ClientQuotas_model :: ty where
  "ClientQuotas_model = TModel [
     opt ''user'' TString, opt ''clientId'' TString, opt ''ip'' TString, opt ''quotas'' (TDict TNumber)]"

definition MetricsCollectionError_model :: ty where
  "MetricsCollectionError_model = TModel [
     opt ''message'' TString, opt ''stackTrace'' TString]"

definition Cluster_model :: ty where
  "Cluster_model = TModel [
     req ''name'' TString, opt ''defaultCluster'' TBoolean, req ''status'' ServerStatus_model,
     opt ''lastError'' MetricsCollectionError_model, opt ''brokerCount'' TNumber,
     opt ''onlinePartitionCount'' TNumber, opt ''topicCount'' TNumber, opt ''bytesInPerSec'' TNumber,
     opt ''bytesOutPerSec'' TNumber, opt ''readOnly'' TBoolean, opt ''version'' TString,
     opt ''features'' (TArray (TEnum [''SCHEMA_REGISTRY'', ''KAFKA_CONNECT'', ''KSQL_DB'', ''TOPIC_DELETION'', ''KAFKA_ACL_VIEW'', ''KAFKA_ACL_EDIT'', ''CLIENT_QUOTA_MANAGEMENT'', ''GRAPHS_ENABLED'', ''FTS_ENABLED'', ''FTS_DEFAULT_ENABLED'', ''MESSAGE_RELATIVE_TIMESTAMP''])),
     opt ''controller'' ControllerType_model]"

definition ClusterMetrics_model :: ty where
  "ClusterMetrics_model = TModel [
     req ''items'' (TArray Metric_model)]"

definition ClusterStats_model :: ty where
  "ClusterStats_model = TModel [
     opt ''brokerCount'' TNumber, opt ''zooKeeperStatus'' TNumber, opt ''activeControllers'' TNumber,
     opt ''onlinePartitionCount'' TNumber, opt ''offlinePartitionCount'' TNumber,
     opt ''inSyncReplicasCount'' TNumber, opt ''outOfSyncReplicasCount'' TNumber,
     opt ''underReplicatedPartitionCount'' TNumber, opt ''diskUsage'' (TArray BrokerDiskUsage_model),
     opt ''version'' TString]"

definition CompatibilityCheckResponse_model :: ty where
  "CompatibilityCheckResponse_model = TModel [
     req ''isCompatible'' TBoolean]"

definition CompatibilityLevel_model :: ty where
  "CompatibilityLevel_model = TModel [
     req ''compatibility'' (TEnum [''BACKWARD'', ''BACKWARD_TRANSITIVE'', ''FORWARD'', ''FORWARD_TRANSITIVE'', ''FULL'', ''FULL_TRANSITIVE'', ''NONE''])]"

definition Connect_model :: ty where
  "Connect_model = TModel [
     req ''name'' TString, opt ''address'' TString, opt ''connectorsCount'' (TNullable TNumber),
     opt ''failedConnectorsCount'' (TNullable TNumber), opt ''tasksCount'' (TNullable TNumber),
     opt ''failedTasksCount'' (TNullable TNumber), opt ''version'' (TNullable TString),
     opt ''commit'' (TNullable TString), opt ''clusterId'' (TNullable TString),
     opt ''consumerNamePattern'' TString]"

definition ConnectorStatus_model :: ty where
  "ConnectorStatus_model = TModel [
     req ''state'' ConnectorState_model, opt ''workerId'' TString, opt ''trace'' TString]"

definition TaskId_model :: ty where
  "TaskId_model = TModel [
     opt ''connector'' TString, opt ''task'' TNumber]"

definition Connector_model :: ty where
  "Connector_model = TModel [
     req ''name'' TString, req ''config'' (TDict TAny), opt ''tasks'' (TArray TaskId_model),
     req ''type'' ConnectorType_model, req ''status'' ConnectorStatus_model, req ''connect'' TString,
     opt ''topics'' (TArray TString), opt ''consumer'' (TNullable TString)]"

definition ConnectorPlugin_model :: ty where
  "ConnectorPlugin_model = TModel [
     opt ''class'' TString]"

definition ConnectorPluginConfigDefinition_model :: ty where
  "ConnectorPluginConfigDefinition_model = TModel [
     opt ''name'' TString,
     opt ''type'' (TEnum [''BOOLEAN'', ''CLASS'', ''DOUBLE'', ''INT'', ''LIST'', ''LONG'', ''PASSWORD'', ''SHORT'', ''STRING'']),
     opt ''required'' TBoolean, opt ''defaultValue'' TString,
     opt ''importance'' (TEnum [''LOW'', ''MEDIUM'', ''HIGH'']), opt ''documentation'' TString,
     opt ''group'' TString, opt ''width'' (TEnum [''SHORT'', ''MEDIUM'', ''LONG'', ''NONE'']),
     opt ''displayName'' TString, opt ''dependents'' (TArray TString), opt ''order'' TNumber]"

definition ConnectorPluginConfigValue_model :: ty where
  "ConnectorPluginConfigValue_model = TModel [
     opt ''name'' TString, opt ''value'' TString, opt ''recommendedValues'' (TArray TString),
     opt ''errors'' (TArray TString), opt ''visible'' TBoolean]"

definition ConnectorPluginConfig_model :: ty where
  "ConnectorPluginConfig_model = TModel [
     opt ''definition'' ConnectorPluginConfigDefinition_model,
     opt ''value'' ConnectorPluginConfigValue_model]"

definition ConnectorPluginConfigValidationResponse_model :: ty where
  "ConnectorPluginConfigValidationResponse_model = TModel [
     opt ''name'' TString, opt ''errorCount'' TNumber, opt ''groups'' (TArray TString),
     opt ''configs'' (TArray ConnectorPluginConfig_model)]"

definition ConsumerGroupTopicPartition_model :: ty where
  "ConsumerGroupTopicPartition_model = TModel [
     req ''topic'' TString, req ''partition'' TNumber, opt ''currentOffset'' TNumber,
     opt ''endOffset'' TNumber, opt ''consumerLag'' TNumber, opt ''consumerId'' TString,
     opt ''host'' TString]"

definition ConsumerGroup_fields :: "(string \<times> bool \<times> ty) list" where
  "ConsumerGroup_fields = [
     req ''groupId'' TString, opt ''members'' TNumber, opt ''topics'' TNumber, opt ''simple'' TBoolean,
     opt ''partitionAssignor'' TString, opt ''state'' ConsumerGroupState_model,
     opt ''coordinator'' Broker_model, opt ''consumerLag'' TNumber, req ''inherit'' TString]"

definition ConsumerGroupDetails_fields :: "(string \<times> bool \<times> ty) list" where
  "ConsumerGroupDetails_fields = [opt ''partitions'' (TArray ConsumerGroupTopicPartition_model)]"

text \<open>
  A group is read as a group with details when it says so. A group with details is read as both
  in any case.
\<close>

definition ConsumerGroup_model :: ty where
  "ConsumerGroup_model = TDerived ConsumerGroup_fields ConsumerGroupDetails_fields ''details''"

definition ConsumerGroupDetails_model :: ty where
  "ConsumerGroupDetails_model = TModel (ConsumerGroup_fields @ ConsumerGroupDetails_fields)"

definition ConsumerGroupTopicLag_model :: ty where
  "ConsumerGroupTopicLag_model = TModel [
     opt ''partitions'' (TDict TNumber)]"

definition ConsumerGroupLag_model :: ty where
  "ConsumerGroupLag_model = TModel [
     req ''lag'' TNumber, req ''topics'' (TDict TNumber),
     opt ''topicPartitions'' (TDict ConsumerGroupTopicLag_model)]"

definition PartitionOffset_model :: ty where
  "PartitionOffset_model = TModel [
     req ''partition'' TNumber, opt ''offset'' TNumber]"

definition ConsumerGroupOffsetsReset_model :: ty where
  "ConsumerGroupOffsetsReset_model = TModel [
     req ''topic'' TString, req ''resetType'' ConsumerGroupOffsetsResetType_model,
     opt ''partitions'' (TArray TNumber), opt ''resetToTimestamp'' TNumber,
     opt ''partitionsOffsets'' (TArray PartitionOffset_model)]"

definition ConsumerGroupsLagResponse_model :: ty where
  "ConsumerGroupsLagResponse_model = TModel [
     req ''updateTimestamp'' TNumber, req ''consumerGroups'' (TDict ConsumerGroupLag_model)]"

definition ConsumerGroupsPageResponse_model :: ty where
  "ConsumerGroupsPageResponse_model = TModel [
     opt ''pageCount'' TNumber, opt ''consumerGroups'' (TArray ConsumerGroup_model)]"

definition CreateConsumerAcl_model :: ty where
  "CreateConsumerAcl_model = TModel [
     opt ''principal'' TString, opt ''host'' TString, opt ''topics'' (TArray TString),
     opt ''topicsPrefix'' TString, opt ''consumerGroups'' (TArray TString),
     opt ''consumerGroupsPrefix'' TString]"

definition CreateProducerAcl_model :: ty where
  "CreateProducerAcl_model = TModel [
     opt ''principal'' TString, opt ''host'' TString, opt ''topics'' (TArray TString),
     opt ''topicsPrefix'' TString, opt ''transactionalId'' TString,
     opt ''transactionsIdPrefix'' TString, opt ''idempotent'' TBoolean]"

definition CreateStreamAppAcl_model :: ty where
  "CreateStreamAppAcl_model = TModel [
     opt ''principal'' TString, opt ''host'' TString, opt ''inputTopics'' (TArray TString),
     opt ''outputTopics'' (TArray TString), opt ''applicationId'' TString]"

definition CreateTopicMessage_model :: ty where
  "CreateTopicMessage_model = TModel [
     req ''partition'' TNumber, opt ''key'' (TNullable TString), opt ''headers'' (TDict TString),
     opt ''value'' (TNullable TString), opt ''keySerde'' (TNullable TString),
     opt ''valueSerde'' (TNullable TString), opt ''keySerdeProperties'' (TDict TAny),
     opt ''valueSerdeProperties'' (TDict TAny)]"

definition FieldError_model :: ty where
  "FieldError_model = TModel [
     req ''fieldName'' TString, opt ''restrictions'' (TArray TString)]"

definition ErrorResponse_model :: ty where
  "ErrorResponse_model = TModel [
     req ''code'' TNumber, req ''message'' TString, req ''timestamp'' TNumber,
     req ''requestId'' TString, opt ''fieldsErrors'' (TArray FieldError_model),
     opt ''stackTrace'' TString]"

definition FullConnectorInfo_model :: ty where
  "FullConnectorInfo_model = TModel [
     req ''connect'' TString, req ''name'' TString, opt ''connectorClass'' TString,
     opt ''type'' ConnectorType_model, opt ''topics'' (TArray TString),
     req ''status'' ConnectorStatus_model, opt ''tasksCount'' TNumber, opt ''failedTasksCount'' TNumber,
     opt ''consumer'' (TNullable TString)]"

definition GraphDataRequest_model :: ty where
  "GraphDataRequest_model = TModel [
     opt ''id'' TString, opt ''parameters'' (TDict TString), opt ''from'' TDate, opt ''to'' TDate]"

definition GraphParameter_model :: ty where
  "GraphParameter_model = TModel [
     req ''name'' TString]"

definition GraphDescription_model :: ty where
  "GraphDescription_model = TModel [
     req ''id'' TString, opt ''type'' (TEnum [''range'', ''instant'']), opt ''defaultPeriod'' TString,
     opt ''parameters'' (TArray GraphParameter_model)]"

definition GraphDescriptions_model :: ty where
  "GraphDescriptions_model = TModel [
     opt ''graphs'' (TArray GraphDescription_model)]"

definition KafkaAcl_model :: ty where
  "KafkaAcl_model = TModel [
     req ''resourceType'' KafkaAclResourceType_model, req ''resourceName'' TString,
     req ''namePatternType'' KafkaAclNamePatternType_model, req ''principal'' TString,
     req ''host'' TString,
     req ''operation'' (TEnum [''UNKNOWN'', ''ALL'', ''READ'', ''WRITE'', ''CREATE'', ''DELETE'', ''ALTER'', ''DESCRIBE'', ''CLUSTER_ACTION'', ''DESCRIBE_CONFIGS'', ''ALTER_CONFIGS'', ''IDEMPOTENT_WRITE'', ''CREATE_TOKENS'', ''DESCRIBE_TOKENS'']),
     req ''permission'' (TEnum [''ALLOW'', ''DENY''])]"

definition KsqlCommandV2_model :: ty where
  "KsqlCommandV2_model = TModel [
     req ''ksql'' TString, opt ''streamsProperties'' (TDict TString)]"

definition KsqlCommandV2Response_model :: ty where
  "KsqlCommandV2Response_model = TModel [
     req ''pipeId'' TString]"

definition KsqlTableResponse_model :: ty where
  "KsqlTableResponse_model = TModel [
     opt ''header'' TString, opt ''columnNames'' (TArray TString), opt ''values'' (TArray (TArray TAny))]"

definition KsqlResponse_model :: ty where
  "KsqlResponse_model = TModel [
     opt ''table'' KsqlTableResponse_model]"

definition KsqlStreamDescription_model :: ty where
  "KsqlStreamDescription_model = TModel [
     opt ''name'' TString, opt ''topic'' TString, opt ''keyFormat'' TString, opt ''valueFormat'' TString]"

definition KsqlTableDescription_model :: ty where
  "KsqlTableDescription_model = TModel [
     opt ''name'' TString, opt ''topic'' TString, opt ''keyFormat'' TString,
     opt ''valueFormat'' TString, opt ''isWindowed'' TBoolean]"

definition MessageFilterId_model :: ty where
  "MessageFilterId_model = TModel [
     opt ''id'' TString]"

definition MessageFilterRegistration_model :: ty where
  "MessageFilterRegistration_model = TModel [
     opt ''filterCode'' TString]"

definition NewConnector_model :: ty where
  "NewConnector_model = TModel [
     req ''name'' TString, req ''config'' (TDict TAny)]"

definition SchemaReference_model :: ty where
  "SchemaReference_model = TModel [
     req ''name'' TString, req ''subject'' TString, req ''version'' TNumber]"

definition NewSchemaSubject_model :: ty where
  "NewSchemaSubject_model = TModel [
     req ''subject'' TString, req ''schema'' TString, req ''schemaType'' SchemaType_model,
     opt ''references'' (TArray SchemaReference_model)]"

definition Replica_model :: ty where
  "Replica_model = TModel [
     opt ''broker'' TNumber, opt ''leader'' TBoolean, opt ''inSync'' TBoolean]"

definition Partition_model :: ty where
  "Partition_model = TModel [
     req ''partition'' TNumber, opt ''leader'' TNumber, opt ''replicas'' (TArray Replica_model),
     req ''offsetMax'' TNumber, req ''offsetMin'' TNumber]"

definition PartitionsIncrease_model :: ty where
  "PartitionsIncrease_model = TModel [
     opt ''totalPartitionsCount'' TNumber]"

definition PartitionsIncreaseResponse_model :: ty where
  "PartitionsIncreaseResponse_model = TModel [
     req ''totalPartitionsCount'' TNumber, req ''topicName'' TString]"

definition PrometheusApiBaseResponse_model :: ty where
  "PrometheusApiBaseResponse_model = TModel [
     req ''status'' (TEnum [''success'', ''error'']), opt ''error'' TString, opt ''errorType'' TString,
     opt ''warnings'' (TArray TString)]"

definition PrometheusApiQueryResponseData_model :: ty where
  "PrometheusApiQueryResponseData_model = TModel [
     req ''resultType'' (TEnum [''matrix'', ''vector'', ''scalar'', ''string'']),
     opt ''result'' (TArray TAny)]"

definition PrometheusApiQueryResponse_model :: ty where
  "PrometheusApiQueryResponse_model = TModel [
     opt ''data'' PrometheusApiQueryResponseData_model, req ''status'' (TEnum [''success'', ''error'']),
     opt ''error'' TString, opt ''errorType'' TString, opt ''warnings'' (TArray TString)]"

definition ReplicationFactorChange_model :: ty where
  "ReplicationFactorChange_model = TModel [
     opt ''totalReplicationFactor'' TNumber]"

definition ReplicationFactorChangeResponse_model :: ty where
  "ReplicationFactorChangeResponse_model = TModel [
     req ''totalReplicationFactor'' TNumber, req ''topicName'' TString]"

definition RestartRequest_model :: ty where
  "RestartRequest_model = TModel [
     opt ''config'' ApplicationConfig_model]"

definition SchemaRegistryDeserializeProperties_model :: ty where
  "SchemaRegistryDeserializeProperties_model = TModel [
     req ''type'' TString, req ''id'' TNumber, opt ''subjects'' (TArray TString)]"

definition SchemaSubject_model :: ty where
  "SchemaSubject_model = TModel [
     req ''id'' TNumber, req ''subject'' TString, req ''version'' TString, req ''schema'' TString,
     req ''compatibilityLevel'' TString, req ''schemaType'' SchemaType_model,
     opt ''references'' (TArray SchemaReference_model), opt ''topic'' (TNullable TString)]"

definition SchemaSubjectsResponse_model :: ty where
  "SchemaSubjectsResponse_model = TModel [
     opt ''pageCount'' TNumber, opt ''schemas'' (TArray SchemaSubject_model)]"

definition SerdeParameter_model :: ty where
  "SerdeParameter_model = TModel [
     req ''name'' TString, opt ''visibleName'' TString, opt ''allowedValues'' (TArray TString)]"

definition SerdeDescription_model :: ty where
  "SerdeDescription_model = TModel [
     opt ''name'' TString, opt ''description'' TString, opt ''preferred'' TBoolean,
     opt ''schema'' TString, opt ''additionalProperties'' (TDict TAny),
     opt ''parameters'' (TArray SerdeParameter_model)]"

definition SmartFilterTestExecution_model :: ty where
  "SmartFilterTestExecution_model = TModel [
     req ''filterCode'' TString, opt ''key'' TString, opt ''value'' TString,
     opt ''headers'' (TDict TString), opt ''partition'' TNumber, opt ''offset'' TNumber,
     opt ''timestampMs'' TNumber]"

definition SmartFilterTestExecutionResult_model :: ty where
  "SmartFilterTestExecutionResult_model = TModel [
     opt ''result'' TBoolean, opt ''error'' TString]"

definition TaskStatus_model :: ty where
  "TaskStatus_model = TModel [
     req ''id'' TNumber, req ''state'' ConnectorTaskStatus_model, req ''workerId'' TString,
     opt ''trace'' TString]"

definition Task_model :: ty where
  "Task_model = TModel [
     opt ''id'' TaskId_model, req ''status'' TaskStatus_model, opt ''config'' (TDict TAny)]"

definition TimeStampFormat_model :: ty where
  "TimeStampFormat_model = TModel [
     opt ''timeStampFormat'' TString]"

definition Topic_model :: ty where
  "Topic_model = TModel [
     req ''name'' TString, opt ''internal'' TBoolean, opt ''partitionCount'' TNumber,
     opt ''replicationFactor'' TNumber, opt ''replicas'' TNumber, opt ''inSyncReplicas'' TNumber,
     opt ''segmentSize'' TNumber, opt ''segmentCount'' TNumber, opt ''bytesInPerSec'' TNumber,
     opt ''bytesOutPerSec'' TNumber, opt ''underReplicatedPartitions'' TNumber,
     opt ''messagesCount'' (TNullable TNumber), opt ''cleanUpPolicy'' CleanUpPolicy_model,
     opt ''partitions'' (TArray Partition_model)]"

definition TopicAnalysisProgress_model :: ty where
  "TopicAnalysisProgress_model = TModel [
     opt ''startedAt'' TNumber, opt ''completenessPercent'' TNumber, opt ''msgsScanned'' TNumber,
     opt ''bytesScanned'' TNumber]"

definition TopicAnalysisSizeStats_model :: ty where
  "TopicAnalysisSizeStats_model = TModel [
     opt ''sum'' TNumber, opt ''min'' TNumber, opt ''max'' TNumber, opt ''avg'' TNumber,
     opt ''prctl50'' TNumber, opt ''prctl75'' TNumber, opt ''prctl95'' TNumber, opt ''prctl99'' TNumber,
     opt ''prctl999'' TNumber]"

definition TopicAnalysisStatsHourlyMsgCounts_model :: ty where
  "TopicAnalysisStatsHourlyMsgCounts_model = TModel [
     opt ''hourStart'' TNumber, opt ''count'' TNumber]"

definition TopicAnalysisStats_model :: ty where
  "TopicAnalysisStats_model = TModel [
     opt ''partition'' TNumber, opt ''totalMsgs'' TNumber, opt ''minOffset'' TNumber,
     opt ''maxOffset'' TNumber, opt ''minTimestamp'' TNumber, opt ''maxTimestamp'' TNumber,
     opt ''nullKeys'' TNumber, opt ''nullValues'' TNumber, opt ''approxUniqKeys'' TNumber,
     opt ''approxUniqValues'' TNumber, opt ''keySize'' TopicAnalysisSizeStats_model,
     opt ''valueSize'' TopicAnalysisSizeStats_model,
     opt ''hourlyMsgCounts'' (TArray TopicAnalysisStatsHourlyMsgCounts_model)]"

definition TopicAnalysisResult_model :: ty where
  "TopicAnalysisResult_model = TModel [
     opt ''startedAt'' TNumber, opt ''finishedAt'' TNumber, opt ''error'' TString,
     opt ''totalStats'' TopicAnalysisStats_model,
     opt ''partitionStats'' (TArray TopicAnalysisStats_model)]"

definition TopicAnalysis_model :: ty where
  "TopicAnalysis_model = TModel [
     opt ''progress'' TopicAnalysisProgress_model, opt ''result'' TopicAnalysisResult_model]"

definition TopicConfig_model :: ty where
  "TopicConfig_model = TModel [
     req ''name'' TString, opt ''value'' TString, opt ''defaultValue'' TString,
     opt ''source'' ConfigSource_model, opt ''isSensitive'' TBoolean, opt ''isReadOnly'' TBoolean,
     opt ''synonyms'' (TArray ConfigSynonym_model), opt ''doc'' TString]"

definition TopicCreation_model :: ty where
  "TopicCreation_model = TModel [
     req ''name'' TString, req ''partitions'' TNumber, opt ''replicationFactor'' TNumber,
     opt ''configs'' (TDict TString)]"

definition TopicDetails_model :: ty where
  "TopicDetails_model = TModel [
     req ''name'' TString, opt ''internal'' TBoolean, opt ''partitions'' (TArray Partition_model),
     opt ''partitionCount'' TNumber, opt ''replicationFactor'' TNumber, opt ''replicas'' TNumber,
     opt ''inSyncReplicas'' TNumber, opt ''bytesInPerSec'' TNumber, opt ''bytesOutPerSec'' TNumber,
     opt ''segmentSize'' TNumber, opt ''segmentCount'' TNumber,
     opt ''underReplicatedPartitions'' TNumber, opt ''cleanUpPolicy'' CleanUpPolicy_model,
     opt ''keySerde'' TString, opt ''valueSerde'' TString]"

definition TopicMessage_model :: ty where
  "TopicMessage_model = TModel [
     req ''partition'' TNumber, req ''offset'' TNumber, req ''timestamp'' TDate,
     opt ''timestampType'' (TEnum [''NO_TIMESTAMP_TYPE'', ''CREATE_TIME'', ''LOG_APPEND_TIME'']),
     opt ''key'' TString, opt ''headers'' (TDict TString), opt ''value'' TString,
     opt ''keyFormat'' (TNullable MessageFormat_model),
     opt ''valueFormat'' (TNullable MessageFormat_model), opt ''keySize'' TNumber,
     opt ''valueSize'' TNumber, opt ''keySchemaId'' TString, opt ''valueSchemaId'' TString,
     opt ''headersSize'' TNumber, opt ''keySerde'' TString, opt ''valueSerde'' TString,
     opt ''keyDeserializeProperties'' (TDict TAny), opt ''valueDeserializeProperties'' (TDict TAny)]"

definition TopicMessageConsuming_model :: ty where
  "TopicMessageConsuming_model = TModel [
     opt ''bytesConsumed'' TNumber, opt ''elapsedMs'' TNumber, opt ''isCancelled'' TBoolean,
     opt ''messagesConsumed'' TNumber, opt ''filterApplyErrors'' TNumber]"

definition TopicMessageNextPageCursor_model :: ty where
  "TopicMessageNextPageCursor_model = TModel [
     opt ''id'' TString]"

definition TopicMessagePhase_model :: ty where
  "TopicMessagePhase_model = TModel [
     opt ''name'' TString]"

definition TopicMessageEvent_model :: ty where
  "TopicMessageEvent_model = TModel [
     opt ''type'' (TEnum [''PHASE'', ''MESSAGE'', ''CONSUMING'', ''DONE'']),
     opt ''message'' TopicMessage_model, opt ''phase'' TopicMessagePhase_model,
     opt ''consuming'' TopicMessageConsuming_model, opt ''cursor'' TopicMessageNextPageCursor_model]"

definition TopicProducerState_model :: ty where
  "TopicProducerState_model = TModel [
     opt ''partition'' TNumber, opt ''producerId'' TNumber, opt ''producerEpoch'' TNumber,
     opt ''lastSequence'' TNumber, opt ''lastTimestampMs'' TNumber, opt ''coordinatorEpoch'' TNumber,
     opt ''currentTransactionStartOffset'' TNumber]"

definition TopicSerdeSuggestion_model :: ty where
  "TopicSerdeSuggestion_model = TModel [
     opt ''key'' (TArray SerdeDescription_model), opt ''value'' (TArray SerdeDescription_model)]"

definition TopicUpdate_model :: ty where
  "TopicUpdate_model = TModel [
     opt ''configs'' (TDict TString)]"

definition TopicsResponse_model :: ty where
  "TopicsResponse_model = TModel [
     opt ''pageCount'' TNumber, opt ''topics'' (TArray Topic_model)]"

definition UploadedFileInfo_model :: ty where
  "UploadedFileInfo_model = TModel [
     req ''location'' TString]"

definition api_models :: "(string \<times> ty) list" where
  "api_models = [
     (''ApiDuplicateResponse'', ApiDuplicateResponse_model),
     (''ApiInvalidParametersResponse'', ApiInvalidParametersResponse_model),
     (''ApiNotFoundResponse'', ApiNotFoundResponse_model),
     (''ApiRebalanceInProgressResponse'', ApiRebalanceInProgressResponse_model),
     (''ApiTimeoutResponse'', ApiTimeoutResponse_model), (''ApiUnauthorized'', ApiUnauthorized_model),
     (''OAuthProvider'', OAuthProvider_model),
     (''AppAuthenticationSettings'', AppAuthenticationSettings_model),
     (''PrometheusStorage'', PrometheusStorage_model),
     (''ClusterMetricsStoreConfig'', ClusterMetricsStoreConfig_model),
     (''ApplicationConfigPropertiesKafkaMetrics'', ApplicationConfigPropertiesKafkaMetrics_model),
     (''ApplicationConfigPropertiesKafkaClusters'', ApplicationConfigPropertiesKafkaClusters_model),
     (''ApplicationConfigPropertiesKafka'', ApplicationConfigPropertiesKafka_model),
     (''RbacPermission'', RbacPermission_model),
     (''ApplicationConfigPropertiesRbacDefaultRole'', ApplicationConfigPropertiesRbacDefaultRole_model),
     (''ApplicationConfigPropertiesRbacRoles'', ApplicationConfigPropertiesRbacRoles_model),
     (''ApplicationConfigPropertiesRbac'', ApplicationConfigPropertiesRbac_model),
     (''ApplicationConfigProperties'', ApplicationConfigProperties_model),
     (''ApplicationConfig'', ApplicationConfig_model),
     (''ApplicationPropertyValidation'', ApplicationPropertyValidation_model),
     (''ClusterConfigValidation'', ClusterConfigValidation_model),
     (''ApplicationConfigValidation'', ApplicationConfigValidation_model),
     (''ApplicationInfoBuild'', ApplicationInfoBuild_model),
     (''ApplicationInfoLatestRelease'', ApplicationInfoLatestRelease_model),
     (''ApplicationInfo'', ApplicationInfo_model), (''UserPermission'', UserPermission_model),
     (''UserInfo'', UserInfo_model), (''AuthenticationInfo'', AuthenticationInfo_model),
     (''Broker'', Broker_model), (''ConfigSynonym'', ConfigSynonym_model),
     (''BrokerConfig'', BrokerConfig_model), (''BrokerConfigItem'', BrokerConfigItem_model),
     (''BrokerDiskUsage'', BrokerDiskUsage_model), (''BrokerLogdirUpdate'', BrokerLogdirUpdate_model),
     (''TopicPartitionLogdir'', TopicPartitionLogdir_model), (''TopicLogdirs'', TopicLogdirs_model),
     (''BrokerLogdirs'', BrokerLogdirs_model), (''Metric'', Metric_model),
     (''BrokerMetrics'', BrokerMetrics_model),
     (''BrokerTopicPartitionLogdir'', BrokerTopicPartitionLogdir_model),
     (''BrokerTopicLogdirs'', BrokerTopicLogdirs_model), (''BrokersLogdirs'', BrokersLogdirs_model),
     (''ClientQuotas'', ClientQuotas_model), (''MetricsCollectionError'', MetricsCollectionError_model),
     (''Cluster'', Cluster_model), (''ClusterMetrics'', ClusterMetrics_model),
     (''ClusterStats'', ClusterStats_model),
     (''CompatibilityCheckResponse'', CompatibilityCheckResponse_model),
     (''CompatibilityLevel'', CompatibilityLevel_model), (''Connect'', Connect_model),
     (''ConnectorStatus'', ConnectorStatus_model), (''TaskId'', TaskId_model),
     (''Connector'', Connector_model), (''ConnectorPlugin'', ConnectorPlugin_model),
     (''ConnectorPluginConfigDefinition'', ConnectorPluginConfigDefinition_model),
     (''ConnectorPluginConfigValue'', ConnectorPluginConfigValue_model),
     (''ConnectorPluginConfig'', ConnectorPluginConfig_model),
     (''ConnectorPluginConfigValidationResponse'', ConnectorPluginConfigValidationResponse_model),
     (''ConsumerGroupTopicPartition'', ConsumerGroupTopicPartition_model),
     (''ConsumerGroup'', ConsumerGroup_model), (''ConsumerGroupTopicLag'', ConsumerGroupTopicLag_model),
     (''ConsumerGroupLag'', ConsumerGroupLag_model), (''PartitionOffset'', PartitionOffset_model),
     (''ConsumerGroupOffsetsReset'', ConsumerGroupOffsetsReset_model),
     (''ConsumerGroupsLagResponse'', ConsumerGroupsLagResponse_model),
     (''ConsumerGroupsPageResponse'', ConsumerGroupsPageResponse_model),
     (''CreateConsumerAcl'', CreateConsumerAcl_model), (''CreateProducerAcl'', CreateProducerAcl_model),
     (''CreateStreamAppAcl'', CreateStreamAppAcl_model),
     (''CreateTopicMessage'', CreateTopicMessage_model), (''FieldError'', FieldError_model),
     (''ErrorResponse'', ErrorResponse_model), (''FullConnectorInfo'', FullConnectorInfo_model),
     (''GraphDataRequest'', GraphDataRequest_model), (''GraphParameter'', GraphParameter_model),
     (''GraphDescription'', GraphDescription_model), (''GraphDescriptions'', GraphDescriptions_model),
     (''KafkaAcl'', KafkaAcl_model), (''KsqlCommandV2'', KsqlCommandV2_model),
     (''KsqlCommandV2Response'', KsqlCommandV2Response_model),
     (''KsqlTableResponse'', KsqlTableResponse_model), (''KsqlResponse'', KsqlResponse_model),
     (''KsqlStreamDescription'', KsqlStreamDescription_model),
     (''KsqlTableDescription'', KsqlTableDescription_model),
     (''MessageFilterId'', MessageFilterId_model),
     (''MessageFilterRegistration'', MessageFilterRegistration_model),
     (''NewConnector'', NewConnector_model), (''SchemaReference'', SchemaReference_model),
     (''NewSchemaSubject'', NewSchemaSubject_model), (''Replica'', Replica_model),
     (''Partition'', Partition_model), (''PartitionsIncrease'', PartitionsIncrease_model),
     (''PartitionsIncreaseResponse'', PartitionsIncreaseResponse_model),
     (''PrometheusApiBaseResponse'', PrometheusApiBaseResponse_model),
     (''PrometheusApiQueryResponseData'', PrometheusApiQueryResponseData_model),
     (''PrometheusApiQueryResponse'', PrometheusApiQueryResponse_model),
     (''ReplicationFactorChange'', ReplicationFactorChange_model),
     (''ReplicationFactorChangeResponse'', ReplicationFactorChangeResponse_model),
     (''RestartRequest'', RestartRequest_model),
     (''SchemaRegistryDeserializeProperties'', SchemaRegistryDeserializeProperties_model),
     (''SchemaSubject'', SchemaSubject_model),
     (''SchemaSubjectsResponse'', SchemaSubjectsResponse_model),
     (''SerdeParameter'', SerdeParameter_model), (''SerdeDescription'', SerdeDescription_model),
     (''SmartFilterTestExecution'', SmartFilterTestExecution_model),
     (''SmartFilterTestExecutionResult'', SmartFilterTestExecutionResult_model),
     (''TaskStatus'', TaskStatus_model), (''Task'', Task_model),
     (''TimeStampFormat'', TimeStampFormat_model), (''Topic'', Topic_model),
     (''TopicAnalysisProgress'', TopicAnalysisProgress_model),
     (''TopicAnalysisSizeStats'', TopicAnalysisSizeStats_model),
     (''TopicAnalysisStatsHourlyMsgCounts'', TopicAnalysisStatsHourlyMsgCounts_model),
     (''TopicAnalysisStats'', TopicAnalysisStats_model),
     (''TopicAnalysisResult'', TopicAnalysisResult_model), (''TopicAnalysis'', TopicAnalysis_model),
     (''TopicConfig'', TopicConfig_model), (''TopicCreation'', TopicCreation_model),
     (''TopicDetails'', TopicDetails_model), (''TopicMessage'', TopicMessage_model),
     (''TopicMessageConsuming'', TopicMessageConsuming_model),
     (''TopicMessageNextPageCursor'', TopicMessageNextPageCursor_model),
     (''TopicMessagePhase'', TopicMessagePhase_model), (''TopicMessageEvent'', TopicMessageEvent_model),
     (''TopicProducerState'', TopicProducerState_model),
     (''TopicSerdeSuggestion'', TopicSerdeSuggestion_model), (''TopicUpdate'', TopicUpdate_model),
     (''TopicsResponse'', TopicsResponse_model), (''UploadedFileInfo'', UploadedFileInfo_model),
     (''ConsumerGroupDetails'', ConsumerGroupDetails_model)]"

end
