(* ===== verification/ApiClient.thy ===== *)
theory ApiClient
  imports ApiModels
begin

text \<open>
  The operations of the client, \<open>generated-sources/apis\<close>: for each the method and address of the
  request, the parameters it takes, its body, and how the answer is read.
\<close>

section \<open>AclsApi\<close>

definition createAcl :: endpoint where
  "createAcl = \<lparr>ep_method = POST, ep_path = ''/api/clusters/{clusterName}/acls'',
     ep_path_params = [''clusterName''], ep_required = [''clusterName'', ''kafkaAcl''], ep_query = [],
     ep_headers = [(''Content-Type'', ''application/json'')],
     ep_body = JsonBody ''kafkaAcl'' KafkaAcl_model, ep_response = VoidResponse\<rparr>"

definition createConsumerAcl :: endpoint where
  "createConsumerAcl = \<lparr>ep_method = POST, ep_path = ''/api/clusters/{clusterName}/acls/consumer'',
     ep_path_params = [''clusterName''], ep_required = [''clusterName'', ''createConsumerAcl''],
     ep_query = [], ep_headers = [(''Content-Type'', ''application/json'')],
     ep_body = JsonBody ''createConsumerAcl'' CreateConsumerAcl_model, ep_response = VoidResponse\<rparr>"

definition createProducerAcl :: endpoint where
  "createProducerAcl = \<lparr>ep_method = POST, ep_path = ''/api/clusters/{clusterName}/acls/producer'',
     ep_path_params = [''clusterName''], ep_required = [''clusterName'', ''createProducerAcl''],
     ep_query = [], ep_headers = [(''Content-Type'', ''application/json'')],
     ep_body = JsonBody ''createProducerAcl'' CreateProducerAcl_model, ep_response = VoidResponse\<rparr>"

definition createStreamAppAcl :: endpoint where
  "createStreamAppAcl = \<lparr>ep_method = POST, ep_path = ''/api/clusters/{clusterName}/acls/streamapp'',
     ep_path_params = [''clusterName''], ep_required = [''clusterName'', ''createStreamAppAcl''],
     ep_query = [], ep_headers = [(''Content-Type'', ''application/json'')],
     ep_body = JsonBody ''createStreamAppAcl'' CreateStreamAppAcl_model, ep_response = VoidResponse\<rparr>"

definition deleteAcl :: endpoint where
  "deleteAcl = \<lparr>ep_method = DELETE, ep_path = ''/api/clusters/{clusterName}/acls'',
     ep_path_params = [''clusterName''], ep_required = [''clusterName'', ''kafkaAcl''], ep_query = [],
     ep_headers = [(''Content-Type'', ''application/json'')],
     ep_body = JsonBody ''kafkaAcl'' KafkaAcl_model, ep_response = VoidResponse\<rparr>"

definition getAclAsCsv :: endpoint where
  "getAclAsCsv = \<lparr>ep_method = GET, ep_path = ''/api/clusters/{clusterName}/acls/csv'',
     ep_path_params = [''clusterName''], ep_required = [''clusterName''],
     ep_query = [Plain ''resourceType'', Plain ''resourceName'', Plain ''namePatternType'', Plain ''search'', Plain ''fts''],
     ep_headers = [], ep_body = NoBody, ep_response = TextResponse\<rparr>"

definition listAcls :: endpoint where
  "listAcls = \<lparr>ep_method = GET, ep_path = ''/api/clusters/{clusterName}/acls'',
     ep_path_params = [''clusterName''], ep_required = [''clusterName''],
     ep_query = [Plain ''resourceType'', Plain ''resourceName'', Plain ''namePatternType'', Plain ''search'', Plain ''fts''],
     ep_headers = [], ep_body = NoBody, ep_response = JsonListResponse KafkaAcl_model\<rparr>"

definition syncAclsCsv :: endpoint where
  "syncAclsCsv = \<lparr>ep_method = POST, ep_path = ''/api/clusters/{clusterName}/acls/csv'',
     ep_path_params = [''clusterName''], ep_required = [''clusterName'', ''body''], ep_query = [],
     ep_headers = [(''Content-Type'', ''text/plain'')], ep_body = RawBody ''body'',
     ep_response = VoidResponse\<rparr>"

section \<open>ApplicationConfigApi\<close>

definition getApplicationInfo :: endpoint where
  "getApplicationInfo = \<lparr>ep_method = GET, ep_path = ''/api/info'',
     ep_path_params = [], ep_required = [], ep_query = [], ep_headers = [], ep_body = NoBody,
     ep_response = JsonResponse ApplicationInfo_model\<rparr>"

definition getAuthenticationSettings :: endpoint where
  "getAuthenticationSettings = \<lparr>ep_method = GET, ep_path = ''/api/config/authentication'',
     ep_path_params = [], ep_required = [], ep_query = [], ep_headers = [], ep_body = NoBody,
     ep_response = JsonResponse AppAuthenticationSettings_model\<rparr>"

definition getCurrentConfig :: endpoint where
  "getCurrentConfig = \<lparr>ep_method = GET, ep_path = ''/api/config'',
     ep_path_params = [], ep_required = [], ep_query = [], ep_headers = [], ep_body = NoBody,
     ep_response = JsonResponse ApplicationConfig_model\<rparr>"

definition restartWithConfig :: endpoint where
  "restartWithConfig = \<lparr>ep_method = PUT, ep_path = ''/api/config'',
     ep_path_params = [], ep_required = [''restartRequest''], ep_query = [],
     ep_headers = [(''Content-Type'', ''application/json'')],
     ep_body = JsonBody ''restartRequest'' RestartRequest_model, ep_response = VoidResponse\<rparr>"

definition uploadConfigRelatedFile :: endpoint where
  "uploadConfigRelatedFile = \<lparr>ep_method = POST, ep_path = ''/api/config/relatedfiles'',
     ep_path_params = [], ep_required = [''file''], ep_query = [], ep_headers = [],
     ep_body = Multipart [''file''], ep_response = JsonResponse UploadedFileInfo_model\<rparr>"

definition validateConfig :: endpoint where
  "validateConfig = \<lparr>ep_method = PUT, ep_path = ''/api/config/validated'',
     ep_path_params = [], ep_required = [''applicationConfig''], ep_query = [],
     ep_headers = [(''Content-Type'', ''application/json'')],
     ep_body = JsonBody ''applicationConfig'' ApplicationConfig_model,
     ep_response = JsonResponse ApplicationConfigValidation_model\<rparr>"

section \<open>AuthorizationApi\<close>

definition getUserAuthInfo :: endpoint where
  "getUserAuthInfo = \<lparr>ep_method = GET, ep_path = ''/api/authorization'',
     ep_path_params = [], ep_required = [], ep_query = [], ep_headers = [], ep_body = NoBody,
     ep_response = JsonResponse AuthenticationInfo_model\<rparr>"

section \<open>BrokersApi\<close>

definition getAllBrokersLogdirs :: endpoint where
  "getAllBrokersLogdirs = \<lparr>ep_method = GET, ep_path = ''/api/clusters/{clusterName}/brokers/logdirs'',
     ep_path_params = [''clusterName''], ep_required = [''clusterName''], ep_query = [Csv ''broker''],
     ep_headers = [], ep_body = NoBody, ep_response = JsonListResponse BrokersLogdirs_model\<rparr>"

definition getBrokerConfig :: endpoint where
  "getBrokerConfig = \<lparr>ep_method = GET, ep_path = ''/api/clusters/{clusterName}/brokers/{id}/configs'',
     ep_path_params = [''clusterName'', ''id''], ep_required = [''clusterName'', ''id''], ep_query = [],
     ep_headers = [], ep_body = NoBody, ep_response = JsonListResponse BrokerConfig_model\<rparr>"

definition getBrokers :: endpoint where
  "getBrokers = \<lparr>ep_method = GET, ep_path = ''/api/clusters/{clusterName}/brokers'',
     ep_path_params = [''clusterName''], ep_required = [''clusterName''], ep_query = [],
     ep_headers = [], ep_body = NoBody, ep_response = JsonListResponse Broker_model\<rparr>"

definition getBrokersCsv :: endpoint where
  "getBrokersCsv = \<lparr>ep_method = GET, ep_path = ''/api/clusters/{clusterName}/brokers/csv'',
     ep_path_params = [''clusterName''], ep_required = [''clusterName''], ep_query = [],
     ep_headers = [], ep_body = NoBody, ep_response = TextResponse\<rparr>"

definition getBrokersMetrics :: endpoint where
  "getBrokersMetrics = \<lparr>ep_method = GET, ep_path = ''/api/clusters/{clusterName}/brokers/{id}/metrics'',
     ep_path_params = [''clusterName'', ''id''], ep_required = [''clusterName'', ''id''], ep_query = [],
     ep_headers = [], ep_body = NoBody, ep_response = JsonResponse BrokerMetrics_model\<rparr>"

definition updateBrokerConfigByName :: endpoint where
  "updateBrokerConfigByName = \<lparr>ep_method = PUT, ep_path = ''/api/clusters/{clusterName}/brokers/{id}/configs/{name}'',
     ep_path_params = [''clusterName'', ''id'', ''name''],
     ep_required = [''clusterName'', ''id'', ''name'', ''brokerConfigItem''], ep_query = [],
     ep_headers = [(''Content-Type'', ''application/json'')],
     ep_body = JsonBody ''brokerConfigItem'' BrokerConfigItem_model, ep_response = VoidResponse\<rparr>"

definition updateBrokerTopicPartitionLogDir :: endpoint where
  "updateBrokerTopicPartitionLogDir = \<lparr>ep_method = PATCH, ep_path = ''/api/clusters/{clusterName}/brokers/{id}/logdirs'',
     ep_path_params = [''clusterName'', ''id''],
     ep_required = [''clusterName'', ''id'', ''brokerLogdirUpdate''], ep_query = [],
     ep_headers = [(''Content-Type'', ''application/json'')],
     ep_body = JsonBody ''brokerLogdirUpdate'' BrokerLogdirUpdate_model, ep_response = VoidResponse\<rparr>"

section \<open>ClientQuotasApi\<close>

definition listQuotas :: endpoint where
  "listQuotas = \<lparr>ep_method = GET, ep_path = ''/api/clusters/{clusterName}/clientquotas'',
     ep_path_params = [''clusterName''], ep_required = [''clusterName''], ep_query = [],
     ep_headers = [], ep_body = NoBody, ep_response = JsonListResponse ClientQuotas_model\<rparr>"

definition upsertClientQuotas :: endpoint where
  "upsertClientQuotas = \<lparr>ep_method = POST, ep_path = ''/api/clusters/{clusterName}/clientquotas'',
     ep_path_params = [''clusterName''], ep_required = [''clusterName'', ''clientQuotas''],
     ep_query = [], ep_headers = [(''Content-Type'', ''application/json'')],
     ep_body = JsonBody ''clientQuotas'' ClientQuotas_model, ep_response = VoidResponse\<rparr>"

section \<open>ClustersApi\<close>

definition getClusterMetrics :: endpoint where
  "getClusterMetrics = \<lparr>ep_method = GET, ep_path = ''/api/clusters/{clusterName}/metrics'',
     ep_path_params = [''clusterName''], ep_required = [''clusterName''], ep_query = [],
     ep_headers = [], ep_body = NoBody, ep_response = JsonResponse ClusterMetrics_model\<rparr>"

definition getClusterStats :: endpoint where
  "getClusterStats = \<lparr>ep_method = GET, ep_path = ''/api/clusters/{clusterName}/stats'',
     ep_path_params = [''clusterName''], ep_required = [''clusterName''], ep_query = [],
     ep_headers = [], ep_body = NoBody, ep_response = JsonResponse ClusterStats_model\<rparr>"

definition getClusters :: endpoint where
  "getClusters = \<lparr>ep_method = GET, ep_path = ''/api/clusters'',
     ep_path_params = [], ep_required = [], ep_query = [], ep_headers = [], ep_body = NoBody,
     ep_response = JsonListResponse Cluster_model\<rparr>"

definition updateClusterInfo :: endpoint where
  "updateClusterInfo = \<lparr>ep_method = POST, ep_path = ''/api/clusters/{clusterName}/cache'',
     ep_path_params = [''clusterName''], ep_required = [''clusterName''], ep_query = [],
     ep_headers = [], ep_body = NoBody, ep_response = JsonResponse Cluster_model\<rparr>"

section \<open>ConsumerGroupsApi\<close>

definition deleteConsumerGroup :: endpoint where
  "deleteConsumerGroup = \<lparr>ep_method = DELETE, ep_path = ''/api/clusters/{clusterName}/consumer-groups/{id}'',
     ep_path_params = [''clusterName'', ''id''], ep_required = [''clusterName'', ''id''], ep_query = [],
     ep_headers = [], ep_body = NoBody, ep_response = VoidResponse\<rparr>"

definition deleteConsumerGroupOffsets :: endpoint where
  "deleteConsumerGroupOffsets = \<lparr>ep_method = DELETE, ep_path = ''/api/clusters/{clusterName}/consumer-groups/{id}/topics/{topicName}'',
     ep_path_params = [''clusterName'', ''id'', ''topicName''],
     ep_required = [''clusterName'', ''id'', ''topicName''], ep_query = [], ep_headers = [],
     ep_body = NoBody, ep_response = VoidResponse\<rparr>"

definition getConsumerGroup :: endpoint where
  "getConsumerGroup = \<lparr>ep_method = GET, ep_path = ''/api/clusters/{clusterName}/consumer-groups/{id}'',
     ep_path_params = [''clusterName'', ''id''], ep_required = [''clusterName'', ''id''], ep_query = [],
     ep_headers = [], ep_body = NoBody, ep_response = JsonResponse ConsumerGroupDetails_model\<rparr>"

definition getConsumerGroupsCsv :: endpoint where
  "getConsumerGroupsCsv = \<lparr>ep_method = GET, ep_path = ''/api/clusters/{clusterName}/consumer-groups/csv'',
     ep_path_params = [''clusterName''], ep_required = [''clusterName''],
     ep_query = [Plain ''page'', Plain ''perPage'', Plain ''search'', Plain ''orderBy'', Plain ''sortOrder'', Plain ''fts'', Csv ''state''],
     ep_headers = [], ep_body = NoBody, ep_response = TextResponse\<rparr>"

definition getConsumerGroupsLag :: endpoint where
  "getConsumerGroupsLag = \<lparr>ep_method = GET, ep_path = ''/api/clusters/{clusterName}/consumer-groups/lag'',
     ep_path_params = [''clusterName''], ep_required = [''clusterName'', ''ids''],
     ep_query = [Csv ''ids'', Plain ''lastUpdate'', Plain ''includePartitions''], ep_headers = [],
     ep_body = NoBody, ep_response = JsonResponse ConsumerGroupsLagResponse_model\<rparr>"

definition getConsumerGroupsPage :: endpoint where
  "getConsumerGroupsPage = \<lparr>ep_method = GET, ep_path = ''/api/clusters/{clusterName}/consumer-groups/paged'',
     ep_path_params = [''clusterName''], ep_required = [''clusterName''],
     ep_query = [Plain ''page'', Plain ''perPage'', Plain ''search'', Plain ''orderBy'', Plain ''sortOrder'', Plain ''fts'', Csv ''state''],
     ep_headers = [], ep_body = NoBody, ep_response = JsonResponse ConsumerGroupsPageResponse_model\<rparr>"

definition getTopicConsumerGroups :: endpoint where
  "getTopicConsumerGroups = \<lparr>ep_method = GET, ep_path = ''/api/clusters/{clusterName}/topics/{topicName}/consumer-groups'',
     ep_path_params = [''clusterName'', ''topicName''], ep_required = [''clusterName'', ''topicName''],
     ep_query = [], ep_headers = [], ep_body = NoBody,
     ep_response = JsonListResponse ConsumerGroup_model\<rparr>"

definition resetConsumerGroupOffsets :: endpoint where
  "resetConsumerGroupOffsets = \<lparr>ep_method = POST, ep_path = ''/api/clusters/{clusterName}/consumer-groups/{id}/offsets'',
     ep_path_params = [''clusterName'', ''id''],
     ep_required = [''clusterName'', ''id'', ''consumerGroupOffsetsReset''], ep_query = [],
     ep_headers = [(''Content-Type'', ''application/json'')],
     ep_body = JsonBody ''consumerGroupOffsetsReset'' ConsumerGroupOffsetsReset_model,
     ep_response = VoidResponse\<rparr>"

section \<open>GraphsApi\<close>

definition getGraphData :: endpoint where
  "getGraphData = \<lparr>ep_method = POST, ep_path = ''/api/clusters/{clusterName}/graphs'',
     ep_path_params = [''clusterName''], ep_required = [''clusterName'', ''graphDataRequest''],
     ep_query = [], ep_headers = [(''Content-Type'', ''application/json'')],
     ep_body = JsonBody ''graphDataRequest'' GraphDataRequest_model,
     ep_response = JsonResponse PrometheusApiQueryResponse_model\<rparr>"

definition getGraphsList :: endpoint where
  "getGraphsList = \<lparr>ep_method = GET, ep_path = ''/api/clusters/{clusterName}/graphs'',
     ep_path_params = [''clusterName''], ep_required = [''clusterName''], ep_query = [],
     ep_headers = [], ep_body = NoBody, ep_response = JsonResponse GraphDescriptions_model\<rparr>"

section \<open>KafkaConnectApi\<close>

definition createConnector :: endpoint where
  "createConnector = \<lparr>ep_method = POST, ep_path = ''/api/clusters/{clusterName}/connects/{connectName}/connectors'',
     ep_path_params = [''clusterName'', ''connectName''],
     ep_required = [''clusterName'', ''connectName'', ''newConnector''], ep_query = [],
     ep_headers = [(''Content-Type'', ''application/json'')],
     ep_body = JsonBody ''newConnector'' NewConnector_model, ep_response = JsonResponse Connector_model\<rparr>"

definition deleteConnector :: endpoint where
  "deleteConnector = \<lparr>ep_method = DELETE, ep_path = ''/api/clusters/{clusterName}/connects/{connectName}/connectors/{connectorName}'',
     ep_path_params = [''clusterName'', ''connectName'', ''connectorName''],
     ep_required = [''clusterName'', ''connectName'', ''connectorName''], ep_query = [],
     ep_headers = [], ep_body = NoBody, ep_response = VoidResponse\<rparr>"

definition getAllConnectors :: endpoint where
  "getAllConnectors = \<lparr>ep_method = GET, ep_path = ''/api/clusters/{clusterName}/connectors'',
     ep_path_params = [''clusterName''], ep_required = [''clusterName''],
     ep_query = [Plain ''search'', Plain ''orderBy'', Plain ''sortOrder'', Plain ''fts''],
     ep_headers = [], ep_body = NoBody, ep_response = JsonListResponse FullConnectorInfo_model\<rparr>"

definition getAllConnectorsCsv :: endpoint where
  "getAllConnectorsCsv = \<lparr>ep_method = GET, ep_path = ''/api/clusters/{clusterName}/connectors/csv'',
     ep_path_params = [''clusterName''], ep_required = [''clusterName''],
     ep_query = [Plain ''search'', Plain ''orderBy'', Plain ''sortOrder'', Plain ''fts''],
     ep_headers = [], ep_body = NoBody, ep_response = TextResponse\<rparr>"

definition getConnector :: endpoint where
  "getConnector = \<lparr>ep_method = GET, ep_path = ''/api/clusters/{clusterName}/connects/{connectName}/connectors/{connectorName}'',
     ep_path_params = [''clusterName'', ''connectName'', ''connectorName''],
     ep_required = [''clusterName'', ''connectName'', ''connectorName''], ep_query = [],
     ep_headers = [], ep_body = NoBody, ep_response = JsonResponse Connector_model\<rparr>"

definition getConnectorConfig :: endpoint where
  "getConnectorConfig = \<lparr>ep_method = GET, ep_path = ''/api/clusters/{clusterName}/connects/{connectName}/connectors/{connectorName}/config'',
     ep_path_params = [''clusterName'', ''connectName'', ''connectorName''],
     ep_required = [''clusterName'', ''connectName'', ''connectorName''], ep_query = [],
     ep_headers = [], ep_body = NoBody, ep_response = AnyResponse\<rparr>"

definition getConnectorPlugins :: endpoint where
  "getConnectorPlugins = \<lparr>ep_method = GET, ep_path = ''/api/clusters/{clusterName}/connects/{connectName}/plugins'',
     ep_path_params = [''clusterName'', ''connectName''],
     ep_required = [''clusterName'', ''connectName''], ep_query = [], ep_headers = [], ep_body = NoBody,
     ep_response = JsonListResponse ConnectorPlugin_model\<rparr>"

definition getConnectorTasks :: endpoint where
  "getConnectorTasks = \<lparr>ep_method = GET, ep_path = ''/api/clusters/{clusterName}/connects/{connectName}/connectors/{connectorName}/tasks'',
     ep_path_params = [''clusterName'', ''connectName'', ''connectorName''],
     ep_required = [''clusterName'', ''connectName'', ''connectorName''], ep_query = [],
     ep_headers = [], ep_body = NoBody, ep_response = JsonListResponse Task_model\<rparr>"

definition getConnectors :: endpoint where
  "getConnectors = \<lparr>ep_method = GET, ep_path = ''/api/clusters/{clusterName}/connects/{connectName}/connectors'',
     ep_path_params = [''clusterName'', ''connectName''],
     ep_required = [''clusterName'', ''connectName''], ep_query = [], ep_headers = [], ep_body = NoBody,
     ep_response = AnyResponse\<rparr>"

definition getConnects :: endpoint where
  "getConnects = \<lparr>ep_method = GET, ep_path = ''/api/clusters/{clusterName}/connects'',
     ep_path_params = [''clusterName''], ep_required = [''clusterName''],
     ep_query = [Plain ''withStats''], ep_headers = [], ep_body = NoBody,
     ep_response = JsonListResponse Connect_model\<rparr>"

definition getConnectsCsv :: endpoint where
  "getConnectsCsv = \<lparr>ep_method = GET, ep_path = ''/api/clusters/{clusterName}/connects/csv'',
     ep_path_params = [''clusterName''], ep_required = [''clusterName''],
     ep_query = [Plain ''withStats''], ep_headers = [], ep_body = NoBody, ep_response = TextResponse\<rparr>"

definition resetConnectorOffsets :: endpoint where
  "resetConnectorOffsets = \<lparr>ep_method = DELETE, ep_path = ''/api/clusters/{clusterName}/connects/{connectName}/connectors/{connectorName}/offsets'',
     ep_path_params = [''clusterName'', ''connectName'', ''connectorName''],
     ep_required = [''clusterName'', ''connectName'', ''connectorName''], ep_query = [],
     ep_headers = [], ep_body = NoBody, ep_response = VoidResponse\<rparr>"

definition restartConnectorTask :: endpoint where
  "restartConnectorTask = \<lparr>ep_method = POST, ep_path = ''/api/clusters/{clusterName}/connects/{connectName}/connectors/{connectorName}/tasks/{taskId}/action/restart'',
     ep_path_params = [''clusterName'', ''connectName'', ''connectorName'', ''taskId''],
     ep_required = [''clusterName'', ''connectName'', ''connectorName'', ''taskId''], ep_query = [],
     ep_headers = [], ep_body = NoBody, ep_response = VoidResponse\<rparr>"

definition setConnectorConfig :: endpoint where
  "setConnectorConfig = \<lparr>ep_method = PUT, ep_path = ''/api/clusters/{clusterName}/connects/{connectName}/connectors/{connectorName}/config'',
     ep_path_params = [''clusterName'', ''connectName'', ''connectorName''],
     ep_required = [''clusterName'', ''connectName'', ''connectorName'', ''requestBody''],
     ep_query = [], ep_headers = [(''Content-Type'', ''application/json'')],
     ep_body = RawBody ''requestBody'', ep_response = JsonResponse Connector_model\<rparr>"

definition updateConnectorState :: endpoint where
  "updateConnectorState = \<lparr>ep_method = POST, ep_path = ''/api/clusters/{clusterName}/connects/{connectName}/connectors/{connectorName}/action/{action}'',
     ep_path_params = [''clusterName'', ''connectName'', ''connectorName'', ''action''],
     ep_required = [''clusterName'', ''connectName'', ''connectorName'', ''action''], ep_query = [],
     ep_headers = [], ep_body = NoBody, ep_response = VoidResponse\<rparr>"

definition validateConnectorPluginConfig :: endpoint where
  "validateConnectorPluginConfig = \<lparr>ep_method = PUT, ep_path = ''/api/clusters/{clusterName}/connects/{connectName}/plugins/{pluginName}/config/validate'',
     ep_path_params = [''clusterName'', ''connectName'', ''pluginName''],
     ep_required = [''clusterName'', ''connectName'', ''pluginName'', ''requestBody''], ep_query = [],
     ep_headers = [(''Content-Type'', ''application/json'')], ep_body = RawBody ''requestBody'',
     ep_response = JsonResponse ConnectorPluginConfigValidationResponse_model\<rparr>"

section \<open>KsqlApi\<close>

definition executeKsql :: endpoint where
  "executeKsql = \<lparr>ep_method = POST, ep_path = ''/api/clusters/{clusterName}/ksql/v2'',
     ep_path_params = [''clusterName''], ep_required = [''clusterName'', ''ksqlCommandV2''],
     ep_query = [], ep_headers = [(''Content-Type'', ''application/json'')],
     ep_body = JsonBody ''ksqlCommandV2'' KsqlCommandV2_model,
     ep_response = JsonResponse KsqlCommandV2Response_model\<rparr>"

definition listStreams :: endpoint where
  "listStreams = \<lparr>ep_method = GET, ep_path = ''/api/clusters/{clusterName}/ksql/streams'',
     ep_path_params = [''clusterName''], ep_required = [''clusterName''], ep_query = [],
     ep_headers = [], ep_body = NoBody, ep_response = JsonListResponse KsqlStreamDescription_model\<rparr>"

definition listTables :: endpoint where
  "listTables = \<lparr>ep_method = GET, ep_path = ''/api/clusters/{clusterName}/ksql/tables'',
     ep_path_params = [''clusterName''], ep_required = [''clusterName''], ep_query = [],
     ep_headers = [], ep_body = NoBody, ep_response = JsonListResponse KsqlTableDescription_model\<rparr>"

definition openKsqlResponsePipe :: endpoint where
  "openKsqlResponsePipe = \<lparr>ep_method = GET, ep_path = ''/api/clusters/{clusterName}/ksql/response'',
     ep_path_params = [''clusterName''], ep_required = [''clusterName'', ''pipeId''],
     ep_query = [Plain ''pipeId''], ep_headers = [], ep_body = NoBody,
     ep_response = JsonListResponse KsqlResponse_model\<rparr>"

section \<open>MessagesApi\<close>

definition deleteTopicMessages :: endpoint where
  "deleteTopicMessages = \<lparr>ep_method = DELETE, ep_path = ''/api/clusters/{clusterName}/topics/{topicName}/messages'',
     ep_path_params = [''clusterName'', ''topicName''], ep_required = [''clusterName'', ''topicName''],
     ep_query = [Csv ''partitions''], ep_headers = [], ep_body = NoBody, ep_response = VoidResponse\<rparr>"

definition executeSmartFilterTest :: endpoint where
  "executeSmartFilterTest = \<lparr>ep_method = PUT, ep_path = ''/api/smartfilters/testexecutions'',
     ep_path_params = [], ep_required = [''smartFilterTestExecution''], ep_query = [],
     ep_headers = [(''Content-Type'', ''application/json'')],
     ep_body = JsonBody ''smartFilterTestExecution'' SmartFilterTestExecution_model,
     ep_response = JsonResponse SmartFilterTestExecutionResult_model\<rparr>"

definition getSerdes :: endpoint where
  "getSerdes = \<lparr>ep_method = GET, ep_path = ''/api/clusters/{clusterName}/topics/{topicName}/serdes'',
     ep_path_params = [''clusterName'', ''topicName''],
     ep_required = [''clusterName'', ''topicName'', ''use''], ep_query = [Plain ''use''],
     ep_headers = [], ep_body = NoBody, ep_response = JsonResponse TopicSerdeSuggestion_model\<rparr>"

definition getTopicMessages :: endpoint where
  "getTopicMessages = \<lparr>ep_method = GET, ep_path = ''/api/clusters/{clusterName}/topics/{topicName}/messages'',
     ep_path_params = [''clusterName'', ''topicName''], ep_required = [''clusterName'', ''topicName''],
     ep_query = [Plain ''seekType'', Csv ''seekTo'', Plain ''limit'', Plain ''q'', Plain ''filterQueryType'', Plain ''seekDirection'', Plain ''keySerde'', Plain ''valueSerde''],
     ep_headers = [], ep_body = NoBody, ep_response = JsonListResponse TopicMessageEvent_model\<rparr>"

definition getTopicMessagesV2 :: endpoint where
  "getTopicMessagesV2 = \<lparr>ep_method = GET, ep_path = ''/api/clusters/{clusterName}/topics/{topicName}/messages/v2'',
     ep_path_params = [''clusterName'', ''topicName''], ep_required = [''clusterName'', ''topicName''],
     ep_query = [Plain ''mode'', Csv ''partitions'', Plain ''limit'', Plain ''stringFilter'', Plain ''smartFilterId'', Plain ''offset'', Plain ''timestamp'', Plain ''keySerde'', Plain ''valueSerde'', Plain ''cursor''],
     ep_headers = [], ep_body = NoBody, ep_response = JsonListResponse TopicMessageEvent_model\<rparr>"

definition registerFilter :: endpoint where
  "registerFilter = \<lparr>ep_method = POST, ep_path = ''/api/clusters/{clusterName}/topics/{topicName}/smartfilters'',
     ep_path_params = [''clusterName'', ''topicName''],
     ep_required = [''clusterName'', ''topicName'', ''messageFilterRegistration''], ep_query = [],
     ep_headers = [(''Content-Type'', ''application/json'')],
     ep_body = JsonBody ''messageFilterRegistration'' MessageFilterRegistration_model,
     ep_response = JsonResponse MessageFilterId_model\<rparr>"

definition sendTopicMessages :: endpoint where
  "sendTopicMessages = \<lparr>ep_method = POST, ep_path = ''/api/clusters/{clusterName}/topics/{topicName}/messages'',
     ep_path_params = [''clusterName'', ''topicName''],
     ep_required = [''clusterName'', ''topicName'', ''createTopicMessage''], ep_query = [],
     ep_headers = [(''Content-Type'', ''application/json'')],
     ep_body = JsonBody ''createTopicMessage'' CreateTopicMessage_model, ep_response = VoidResponse\<rparr>"

section \<open>PrometheusExposeApi\<close>

definition exposeAllMetrics :: endpoint where
  "exposeAllMetrics = \<lparr>ep_method = GET, ep_path = ''/metrics'',
     ep_path_params = [], ep_required = [], ep_query = [], ep_headers = [], ep_body = NoBody,
     ep_response = TextResponse\<rparr>"

definition exposeClusterMetrics :: endpoint where
  "exposeClusterMetrics = \<lparr>ep_method = GET, ep_path = ''/metrics/{clusterName}'',
     ep_path_params = [''clusterName''], ep_required = [''clusterName''], ep_query = [],
     ep_headers = [], ep_body = NoBody, ep_response = TextResponse\<rparr>"

section \<open>SchemasApi\<close>

definition checkSchemaCompatibility :: endpoint where
  "checkSchemaCompatibility = \<lparr>ep_method = POST, ep_path = ''/api/clusters/{clusterName}/schemas/{subject}/check'',
     ep_path_params = [''clusterName'', ''subject''],
     ep_required = [''clusterName'', ''subject'', ''newSchemaSubject''], ep_query = [],
     ep_headers = [(''Content-Type'', ''application/json'')],
     ep_body = JsonBody ''newSchemaSubject'' NewSchemaSubject_model,
     ep_response = JsonResponse CompatibilityCheckResponse_model\<rparr>"

definition createNewSchema :: endpoint where
  "createNewSchema = \<lparr>ep_method = POST, ep_path = ''/api/clusters/{clusterName}/schemas'',
     ep_path_params = [''clusterName''], ep_required = [''clusterName'', ''newSchemaSubject''],
     ep_query = [], ep_headers = [(''Content-Type'', ''application/json'')],
     ep_body = JsonBody ''newSchemaSubject'' NewSchemaSubject_model,
     ep_response = JsonResponse SchemaSubject_model\<rparr>"

definition deleteLatestSchema :: endpoint where
  "deleteLatestSchema = \<lparr>ep_method = DELETE, ep_path = ''/api/clusters/{clusterName}/schemas/{subject}/latest'',
     ep_path_params = [''clusterName'', ''subject''], ep_required = [''clusterName'', ''subject''],
     ep_query = [], ep_headers = [], ep_body = NoBody, ep_response = VoidResponse\<rparr>"

definition deleteSchema :: endpoint where
  "deleteSchema = \<lparr>ep_method = DELETE, ep_path = ''/api/clusters/{clusterName}/schemas/{subject}'',
     ep_path_params = [''clusterName'', ''subject''], ep_required = [''clusterName'', ''subject''],
     ep_query = [], ep_headers = [], ep_body = NoBody, ep_response = VoidResponse\<rparr>"

definition deleteSchemaByVersion :: endpoint where
  "deleteSchemaByVersion = \<lparr>ep_method = DELETE, ep_path = ''/api/clusters/{clusterName}/schemas/{subject}/versions/{version}'',
     ep_path_params = [''clusterName'', ''subject'', ''version''],
     ep_required = [''clusterName'', ''subject'', ''version''], ep_query = [], ep_headers = [],
     ep_body = NoBody, ep_response = VoidResponse\<rparr>"

definition getAllVersionsBySubject :: endpoint where
  "getAllVersionsBySubject = \<lparr>ep_method = GET, ep_path = ''/api/clusters/{clusterName}/schemas/{subject}/versions'',
     ep_path_params = [''clusterName'', ''subject''], ep_required = [''clusterName'', ''subject''],
     ep_query = [], ep_headers = [], ep_body = NoBody,
     ep_response = JsonListResponse SchemaSubject_model\<rparr>"

definition getGlobalSchemaCompatibilityLevel :: endpoint where
  "getGlobalSchemaCompatibilityLevel = \<lparr>ep_method = GET, ep_path = ''/api/clusters/{clusterName}/schemas/compatibility'',
     ep_path_params = [''clusterName''], ep_required = [''clusterName''], ep_query = [],
     ep_headers = [], ep_body = NoBody, ep_response = JsonResponse CompatibilityLevel_model\<rparr>"

definition getLatestSchema :: endpoint where
  "getLatestSchema = \<lparr>ep_method = GET, ep_path = ''/api/clusters/{clusterName}/schemas/{subject}/latest'',
     ep_path_params = [''clusterName'', ''subject''], ep_required = [''clusterName'', ''subject''],
     ep_query = [], ep_headers = [], ep_body = NoBody, ep_response = JsonResponse SchemaSubject_model\<rparr>"

definition getSchemaByVersion :: endpoint where
  "getSchemaByVersion = \<lparr>ep_method = GET, ep_path = ''/api/clusters/{clusterName}/schemas/{subject}/versions/{version}'',
     ep_path_params = [''clusterName'', ''subject'', ''version''],
     ep_required = [''clusterName'', ''subject'', ''version''], ep_query = [], ep_headers = [],
     ep_body = NoBody, ep_response = JsonResponse SchemaSubject_model\<rparr>"

definition getSchemas :: endpoint where
  "getSchemas = \<lparr>ep_method = GET, ep_path = ''/api/clusters/{clusterName}/schemas'',
     ep_path_params = [''clusterName''], ep_required = [''clusterName''],
     ep_query = [Plain ''page'', Plain ''perPage'', Plain ''search'', Plain ''orderBy'', Plain ''sortOrder'', Plain ''fts''],
     ep_headers = [], ep_body = NoBody, ep_response = JsonResponse SchemaSubjectsResponse_model\<rparr>"

definition updateGlobalSchemaCompatibilityLevel :: endpoint where
  "updateGlobalSchemaCompatibilityLevel = \<lparr>ep_method = PUT, ep_path = ''/api/clusters/{clusterName}/schemas/compatibility'',
     ep_path_params = [''clusterName''], ep_required = [''clusterName'', ''compatibilityLevel''],
     ep_query = [], ep_headers = [(''Content-Type'', ''application/json'')],
     ep_body = JsonBody ''compatibilityLevel'' CompatibilityLevel_model, ep_response = VoidResponse\<rparr>"

definition updateSchemaCompatibilityLevel :: endpoint where
  "updateSchemaCompatibilityLevel = \<lparr>ep_method = PUT, ep_path = ''/api/clusters/{clusterName}/schemas/{subject}/compatibility'',
     ep_path_params = [''clusterName'', ''subject''],
     ep_required = [''clusterName'', ''subject'', ''compatibilityLevel''], ep_query = [],
     ep_headers = [(''Content-Type'', ''application/json'')],
     ep_body = JsonBody ''compatibilityLevel'' CompatibilityLevel_model, ep_response = VoidResponse\<rparr>"

section \<open>TopicsApi\<close>

definition analyzeTopic :: endpoint where
  "analyzeTopic = \<lparr>ep_method = POST, ep_path = ''/api/clusters/{clusterName}/topics/{topicName}/analysis'',
     ep_path_params = [''clusterName'', ''topicName''], ep_required = [''clusterName'', ''topicName''],
     ep_query = [], ep_headers = [], ep_body = NoBody, ep_response = VoidResponse\<rparr>"

definition cancelTopicAnalysis :: endpoint where
  "cancelTopicAnalysis = \<lparr>ep_method = DELETE, ep_path = ''/api/clusters/{clusterName}/topics/{topicName}/analysis'',
     ep_path_params = [''clusterName'', ''topicName''], ep_required = [''clusterName'', ''topicName''],
     ep_query = [], ep_headers = [], ep_body = NoBody, ep_response = VoidResponse\<rparr>"

definition changeReplicationFactor :: endpoint where
  "changeReplicationFactor = \<lparr>ep_method = PATCH, ep_path = ''/api/clusters/{clusterName}/topics/{topicName}/replications'',
     ep_path_params = [''clusterName'', ''topicName''],
     ep_required = [''clusterName'', ''topicName'', ''replicationFactorChange''], ep_query = [],
     ep_headers = [(''Content-Type'', ''application/json'')],
     ep_body = JsonBody ''replicationFactorChange'' ReplicationFactorChange_model,
     ep_response = JsonResponse ReplicationFactorChangeResponse_model\<rparr>"

definition cloneTopic :: endpoint where
  "cloneTopic = \<lparr>ep_method = POST, ep_path = ''/api/clusters/{clusterName}/topics/{topicName}/clone'',
     ep_path_params = [''clusterName'', ''topicName''],
     ep_required = [''clusterName'', ''topicName'', ''newTopicName''],
     ep_query = [Plain ''newTopicName''], ep_headers = [], ep_body = NoBody,
     ep_response = JsonResponse Topic_model\<rparr>"

definition createTopic :: endpoint where
  "createTopic = \<lparr>ep_method = POST, ep_path = ''/api/clusters/{clusterName}/topics'',
     ep_path_params = [''clusterName''], ep_required = [''clusterName'', ''topicCreation''],
     ep_query = [], ep_headers = [(''Content-Type'', ''application/json'')],
     ep_body = JsonBody ''topicCreation'' TopicCreation_model, ep_response = JsonResponse Topic_model\<rparr>"

definition deleteTopic :: endpoint where
  "deleteTopic = \<lparr>ep_method = DELETE, ep_path = ''/api/clusters/{clusterName}/topics/{topicName}'',
     ep_path_params = [''clusterName'', ''topicName''], ep_required = [''clusterName'', ''topicName''],
     ep_query = [], ep_headers = [], ep_body = NoBody, ep_response = VoidResponse\<rparr>"

definition getActiveProducerStates :: endpoint where
  "getActiveProducerStates = \<lparr>ep_method = GET, ep_path = ''/api/clusters/{clusterName}/topics/{topicName}/activeproducers'',
     ep_path_params = [''clusterName'', ''topicName''], ep_required = [''clusterName'', ''topicName''],
     ep_query = [], ep_headers = [], ep_body = NoBody,
     ep_response = JsonListResponse TopicProducerState_model\<rparr>"

definition getTopicAnalysis :: endpoint where
  "getTopicAnalysis = \<lparr>ep_method = GET, ep_path = ''/api/clusters/{clusterName}/topics/{topicName}/analysis'',
     ep_path_params = [''clusterName'', ''topicName''], ep_required = [''clusterName'', ''topicName''],
     ep_query = [], ep_headers = [], ep_body = NoBody, ep_response = JsonResponse TopicAnalysis_model\<rparr>"

definition getTopicConfigs :: endpoint where
  "getTopicConfigs = \<lparr>ep_method = GET, ep_path = ''/api/clusters/{clusterName}/topics/{topicName}/config'',
     ep_path_params = [''clusterName'', ''topicName''], ep_required = [''clusterName'', ''topicName''],
     ep_query = [], ep_headers = [], ep_body = NoBody, ep_response = JsonListResponse TopicConfig_model\<rparr>"

definition getTopicConnectors :: endpoint where
  "getTopicConnectors = \<lparr>ep_method = GET, ep_path = ''/api/clusters/{clusterName}/topics/{topicName}/connectors'',
     ep_path_params = [''clusterName'', ''topicName''], ep_required = [''clusterName'', ''topicName''],
     ep_query = [], ep_headers = [], ep_body = NoBody,
     ep_response = JsonListResponse FullConnectorInfo_model\<rparr>"

definition getTopicDetails :: endpoint where
  "getTopicDetails = \<lparr>ep_method = GET, ep_path = ''/api/clusters/{clusterName}/topics/{topicName}'',
     ep_path_params = [''clusterName'', ''topicName''], ep_required = [''clusterName'', ''topicName''],
     ep_query = [], ep_headers = [], ep_body = NoBody, ep_response = JsonResponse TopicDetails_model\<rparr>"

definition getTopics :: endpoint where
  "getTopics = \<lparr>ep_method = GET, ep_path = ''/api/clusters/{clusterName}/topics'',
     ep_path_params = [''clusterName''], ep_required = [''clusterName''],
     ep_query = [Plain ''page'', Plain ''perPage'', Plain ''showInternal'', Plain ''search'', Plain ''orderBy'', Plain ''sortOrder'', Plain ''fts''],
     ep_headers = [], ep_body = NoBody, ep_response = JsonResponse TopicsResponse_model\<rparr>"

definition getTopicsCsv :: endpoint where
  "getTopicsCsv = \<lparr>ep_method = GET, ep_path = ''/api/clusters/{clusterName}/topics/csv'',
     ep_path_params = [''clusterName''], ep_required = [''clusterName''],
     ep_query = [Plain ''showInternal'', Plain ''search'', Plain ''orderBy'', Plain ''sortOrder'', Plain ''fts''],
     ep_headers = [], ep_body = NoBody, ep_response = TextResponse\<rparr>"

definition increaseTopicPartitions :: endpoint where
  "increaseTopicPartitions = \<lparr>ep_method = PATCH, ep_path = ''/api/clusters/{clusterName}/topics/{topicName}/partitions'',
     ep_path_params = [''clusterName'', ''topicName''],
     ep_required = [''clusterName'', ''topicName'', ''partitionsIncrease''], ep_query = [],
     ep_headers = [(''Content-Type'', ''application/json'')],
     ep_body = JsonBody ''partitionsIncrease'' PartitionsIncrease_model,
     ep_response = JsonResponse PartitionsIncreaseResponse_model\<rparr>"

definition listTopicAcls :: endpoint where
  "listTopicAcls = \<lparr>ep_method = GET, ep_path = ''/api/clusters/{clusterName}/topics/{topicName}/acls'',
     ep_path_params = [''clusterName'', ''topicName''], ep_required = [''clusterName'', ''topicName''],
     ep_query = [], ep_headers = [], ep_body = NoBody, ep_response = JsonListResponse KafkaAcl_model\<rparr>"

definition recreateTopic :: endpoint where
  "recreateTopic = \<lparr>ep_method = POST, ep_path = ''/api/clusters/{clusterName}/topics/{topicName}'',
     ep_path_params = [''clusterName'', ''topicName''], ep_required = [''clusterName'', ''topicName''],
     ep_query = [], ep_headers = [], ep_body = NoBody, ep_response = JsonResponse Topic_model\<rparr>"

definition updateTopic :: endpoint where
  "updateTopic = \<lparr>ep_method = PATCH, ep_path = ''/api/clusters/{clusterName}/topics/{topicName}'',
     ep_path_params = [''clusterName'', ''topicName''],
     ep_required = [''clusterName'', ''topicName'', ''topicUpdate''], ep_query = [],
     ep_headers = [(''Content-Type'', ''application/json'')],
     ep_body = JsonBody ''topicUpdate'' TopicUpdate_model, ep_response = JsonResponse Topic_model\<rparr>"

section \<open>UnmappedApi\<close>

definition authenticate :: endpoint where
  "authenticate = \<lparr>ep_method = POST, ep_path = ''/login'',
     ep_path_params = [], ep_required = [], ep_query = [], ep_headers = [],
     ep_body = UrlEncoded [''username'', ''password''], ep_response = VoidResponse\<rparr>"

lemmas api_operation_defs =
  createAcl_def createConsumerAcl_def createProducerAcl_def createStreamAppAcl_def deleteAcl_def
  getAclAsCsv_def listAcls_def syncAclsCsv_def getApplicationInfo_def getAuthenticationSettings_def
  getCurrentConfig_def restartWithConfig_def uploadConfigRelatedFile_def validateConfig_def
  getUserAuthInfo_def getAllBrokersLogdirs_def getBrokerConfig_def getBrokers_def getBrokersCsv_def
  getBrokersMetrics_def updateBrokerConfigByName_def updateBrokerTopicPartitionLogDir_def
  listQuotas_def upsertClientQuotas_def getClusterMetrics_def getClusterStats_def getClusters_def
  updateClusterInfo_def deleteConsumerGroup_def deleteConsumerGroupOffsets_def getConsumerGroup_def
  getConsumerGroupsCsv_def getConsumerGroupsLag_def getConsumerGroupsPage_def
  getTopicConsumerGroups_def resetConsumerGroupOffsets_def getGraphData_def getGraphsList_def
  createConnector_def deleteConnector_def getAllConnectors_def getAllConnectorsCsv_def
  getConnector_def getConnectorConfig_def getConnectorPlugins_def getConnectorTasks_def
  getConnectors_def getConnects_def getConnectsCsv_def resetConnectorOffsets_def
  restartConnectorTask_def setConnectorConfig_def updateConnectorState_def
  validateConnectorPluginConfig_def executeKsql_def listStreams_def listTables_def
  openKsqlResponsePipe_def deleteTopicMessages_def executeSmartFilterTest_def getSerdes_def
  getTopicMessages_def getTopicMessagesV2_def registerFilter_def sendTopicMessages_def
  exposeAllMetrics_def exposeClusterMetrics_def checkSchemaCompatibility_def createNewSchema_def
  deleteLatestSchema_def deleteSchema_def deleteSchemaByVersion_def getAllVersionsBySubject_def
  getGlobalSchemaCompatibilityLevel_def getLatestSchema_def getSchemaByVersion_def getSchemas_def
  updateGlobalSchemaCompatibilityLevel_def updateSchemaCompatibilityLevel_def analyzeTopic_def
  cancelTopicAnalysis_def changeReplicationFactor_def cloneTopic_def createTopic_def
  deleteTopic_def getActiveProducerStates_def getTopicAnalysis_def getTopicConfigs_def
  getTopicConnectors_def getTopicDetails_def getTopics_def getTopicsCsv_def
  increaseTopicPartitions_def listTopicAcls_def recreateTopic_def updateTopic_def authenticate_def

section \<open>The interface\<close>

text \<open>All operations, ordered by method and number of path segments.\<close>

definition api_operations :: "(string \<times> endpoint) list" where
  "api_operations = [
     (''exposeAllMetrics'', exposeAllMetrics), (''getApplicationInfo'', getApplicationInfo),
     (''getCurrentConfig'', getCurrentConfig), (''getUserAuthInfo'', getUserAuthInfo),
     (''getClusters'', getClusters), (''exposeClusterMetrics'', exposeClusterMetrics),
     (''getAuthenticationSettings'', getAuthenticationSettings), (''listAcls'', listAcls),
     (''getBrokers'', getBrokers), (''listQuotas'', listQuotas),
     (''getClusterMetrics'', getClusterMetrics), (''getClusterStats'', getClusterStats),
     (''getGraphsList'', getGraphsList), (''getAllConnectors'', getAllConnectors),
     (''getConnects'', getConnects), (''getSchemas'', getSchemas), (''getTopics'', getTopics),
     (''getAclAsCsv'', getAclAsCsv), (''getAllBrokersLogdirs'', getAllBrokersLogdirs),
     (''getBrokersCsv'', getBrokersCsv), (''getConsumerGroup'', getConsumerGroup),
     (''getConsumerGroupsCsv'', getConsumerGroupsCsv), (''getConsumerGroupsLag'', getConsumerGroupsLag),
     (''getConsumerGroupsPage'', getConsumerGroupsPage), (''getAllConnectorsCsv'', getAllConnectorsCsv),
     (''getConnectsCsv'', getConnectsCsv), (''listStreams'', listStreams), (''listTables'', listTables),
     (''openKsqlResponsePipe'', openKsqlResponsePipe),
     (''getGlobalSchemaCompatibilityLevel'', getGlobalSchemaCompatibilityLevel),
     (''getTopicDetails'', getTopicDetails), (''getTopicsCsv'', getTopicsCsv),
     (''getBrokerConfig'', getBrokerConfig), (''getBrokersMetrics'', getBrokersMetrics),
     (''getTopicConsumerGroups'', getTopicConsumerGroups),
     (''getConnectorPlugins'', getConnectorPlugins), (''getConnectors'', getConnectors),
     (''getSerdes'', getSerdes), (''getTopicMessages'', getTopicMessages),
     (''getAllVersionsBySubject'', getAllVersionsBySubject), (''getLatestSchema'', getLatestSchema),
     (''getActiveProducerStates'', getActiveProducerStates), (''getTopicAnalysis'', getTopicAnalysis),
     (''getTopicConfigs'', getTopicConfigs), (''getTopicConnectors'', getTopicConnectors),
     (''listTopicAcls'', listTopicAcls), (''getConnector'', getConnector),
     (''getTopicMessagesV2'', getTopicMessagesV2), (''getSchemaByVersion'', getSchemaByVersion),
     (''getConnectorConfig'', getConnectorConfig), (''getConnectorTasks'', getConnectorTasks),
     (''authenticate'', authenticate), (''uploadConfigRelatedFile'', uploadConfigRelatedFile),
     (''createAcl'', createAcl), (''upsertClientQuotas'', upsertClientQuotas),
     (''updateClusterInfo'', updateClusterInfo), (''getGraphData'', getGraphData),
     (''createNewSchema'', createNewSchema), (''createTopic'', createTopic),
     (''createConsumerAcl'', createConsumerAcl), (''createProducerAcl'', createProducerAcl),
     (''createStreamAppAcl'', createStreamAppAcl), (''syncAclsCsv'', syncAclsCsv),
     (''executeKsql'', executeKsql), (''recreateTopic'', recreateTopic),
     (''resetConsumerGroupOffsets'', resetConsumerGroupOffsets), (''createConnector'', createConnector),
     (''registerFilter'', registerFilter), (''sendTopicMessages'', sendTopicMessages),
     (''checkSchemaCompatibility'', checkSchemaCompatibility), (''analyzeTopic'', analyzeTopic),
     (''cloneTopic'', cloneTopic), (''updateConnectorState'', updateConnectorState),
     (''restartConnectorTask'', restartConnectorTask), (''restartWithConfig'', restartWithConfig),
     (''validateConfig'', validateConfig), (''executeSmartFilterTest'', executeSmartFilterTest),
     (''updateGlobalSchemaCompatibilityLevel'', updateGlobalSchemaCompatibilityLevel),
     (''updateSchemaCompatibilityLevel'', updateSchemaCompatibilityLevel),
     (''updateBrokerConfigByName'', updateBrokerConfigByName),
     (''setConnectorConfig'', setConnectorConfig),
     (''validateConnectorPluginConfig'', validateConnectorPluginConfig), (''updateTopic'', updateTopic),
     (''updateBrokerTopicPartitionLogDir'', updateBrokerTopicPartitionLogDir),
     (''changeReplicationFactor'', changeReplicationFactor),
     (''increaseTopicPartitions'', increaseTopicPartitions), (''deleteAcl'', deleteAcl),
     (''deleteConsumerGroup'', deleteConsumerGroup), (''deleteSchema'', deleteSchema),
     (''deleteTopic'', deleteTopic), (''deleteTopicMessages'', deleteTopicMessages),
     (''deleteLatestSchema'', deleteLatestSchema), (''cancelTopicAnalysis'', cancelTopicAnalysis),
     (''deleteConsumerGroupOffsets'', deleteConsumerGroupOffsets),
     (''deleteConnector'', deleteConnector), (''deleteSchemaByVersion'', deleteSchemaByVersion),
     (''resetConnectorOffsets'', resetConnectorOffsets)]"

end
