(* ===== verification/ApiRoutes.thy ===== *)
theory ApiRoutes
  imports ApiClient
begin

text \<open>
  Where the requests of the client go: the address of an operation is its template with every
  placeholder replaced by one encoded path segment, and apart from four pairs no two operations
  share an address.
\<close>

section \<open>Templates as segments\<close>

datatype segment = Lit string | Hole string

fun render :: "segment \<Rightarrow> string" where
  "render (Lit s) = s"
| "render (Hole n) = ''{'' @ n @ ''}''"

fun filled :: "(int \<Rightarrow> string) \<Rightarrow> args \<Rightarrow> segment \<Rightarrow> string" where
  "filled fmt p (Lit s) = s"
| "filled fmt p (Hole n) = encodeURIComponent (js_text fmt (arg p n))"

fun holes :: "segment list \<Rightarrow> string list" where
  "holes [] = []"
| "holes (Lit s # ss) = holes ss"
| "holes (Hole n # ss) = n # holes ss"

definition path_text :: "string list \<Rightarrow> string" where
  "path_text ws = concat (map (\<lambda>w. ''/'' @ w) ws)"

text \<open>Placeholders are whole segments, and no name or fixed segment has a brace or a slash.\<close>

fun plain_segment :: "segment \<Rightarrow> bool" where
  "plain_segment (Lit s) = list_all (\<lambda>c. c \<notin> set ''{}/'') s"
| "plain_segment (Hole n) = list_all (\<lambda>c. c \<notin> set ''{}/'') n"

section \<open>The routes\<close>

text \<open>The operations by method and number of segments, each with the segments of its template.\<close>

definition route_table :: "((http_method \<times> nat) \<times> (string \<times> endpoint \<times> segment list) list) list" where
  "route_table = [
     ((GET, 1), [
       (''exposeAllMetrics'', exposeAllMetrics, [Lit ''metrics''])]),
     ((GET, 2), [
       (''getApplicationInfo'', getApplicationInfo, [Lit ''api'', Lit ''info'']),
       (''getCurrentConfig'', getCurrentConfig, [Lit ''api'', Lit ''config'']),
       (''getUserAuthInfo'', getUserAuthInfo, [Lit ''api'', Lit ''authorization'']),
       (''getClusters'', getClusters, [Lit ''api'', Lit ''clusters'']),
       (''exposeClusterMetrics'', exposeClusterMetrics, [Lit ''metrics'', Hole ''clusterName''])]),
     ((GET, 3), [
       (''getAuthenticationSettings'', getAuthenticationSettings, [Lit ''api'', Lit ''config'', Lit ''authentication''])]),
     ((GET, 4), [
       (''listAcls'', listAcls, [Lit ''api'', Lit ''clusters'', Hole ''clusterName'', Lit ''acls'']),
       (''getBrokers'', getBrokers, [Lit ''api'', Lit ''clusters'', Hole ''clusterName'', Lit ''brokers'']),
       (''listQuotas'', listQuotas, [Lit ''api'', Lit ''clusters'', Hole ''clusterName'', Lit ''clientquotas'']),
       (''getClusterMetrics'', getClusterMetrics, [Lit ''api'', Lit ''clusters'', Hole ''clusterName'', Lit ''metrics'']),
       (''getClusterStats'', getClusterStats, [Lit ''api'', Lit ''clusters'', Hole ''clusterName'', Lit ''stats'']),
       (''getGraphsList'', getGraphsList, [Lit ''api'', Lit ''clusters'', Hole ''clusterName'', Lit ''graphs'']),
       (''getAllConnectors'', getAllConnectors, [Lit ''api'', Lit ''clusters'', Hole ''clusterName'', Lit ''connectors'']),
       (''getConnects'', getConnects, [Lit ''api'', Lit ''clusters'', Hole ''clusterName'', Lit ''connects'']),
       (''getSchemas'', getSchemas, [Lit ''api'', Lit ''clusters'', Hole ''clusterName'', Lit ''schemas'']),
       (''getTopics'', getTopics, [Lit ''api'', Lit ''clusters'', Hole ''clusterName'', Lit ''topics''])]),
     ((GET, 5), [
       (''getAclAsCsv'', getAclAsCsv, [Lit ''api'', Lit ''clusters'', Hole ''clusterName'', Lit ''acls'', Lit ''csv'']),
       (''getAllBrokersLogdirs'', getAllBrokersLogdirs, [Lit ''api'', Lit ''clusters'', Hole ''clusterName'', Lit ''brokers'', Lit ''logdirs'']),
       (''getBrokersCsv'', getBrokersCsv, [Lit ''api'', Lit ''clusters'', Hole ''clusterName'', Lit ''brokers'', Lit ''csv'']),
       (''getConsumerGroup'', getConsumerGroup, [Lit ''api'', Lit ''clusters'', Hole ''clusterName'', Lit ''consumer-groups'', Hole ''id'']),
       (''getConsumerGroupsCsv'', getConsumerGroupsCsv, [Lit ''api'', Lit ''clusters'', Hole ''clusterName'', Lit ''consumer-groups'', Lit ''csv'']),
       (''getConsumerGroupsLag'', getConsumerGroupsLag, [Lit ''api'', Lit ''clusters'', Hole ''clusterName'', Lit ''consumer-groups'', Lit ''lag'']),
       (''getConsumerGroupsPage'', getConsumerGroupsPage, [Lit ''api'', Lit ''clusters'', Hole ''clusterName'', Lit ''consumer-groups'', Lit ''paged'']),
       (''getAllConnectorsCsv'', getAllConnectorsCsv, [Lit ''api'', Lit ''clusters'', Hole ''clusterName'', Lit ''connectors'', Lit ''csv'']),
       (''getConnectsCsv'', getConnectsCsv, [Lit ''api'', Lit ''clusters'', Hole ''clusterName'', Lit ''connects'', Lit ''csv'']),
       (''listStreams'', listStreams, [Lit ''api'', Lit ''clusters'', Hole ''clusterName'', Lit ''ksql'', Lit ''streams'']),
       (''listTables'', listTables, [Lit ''api'', Lit ''clusters'', Hole ''clusterName'', Lit ''ksql'', Lit ''tables'']),
       (''openKsqlResponsePipe'', openKsqlResponsePipe, [Lit ''api'', Lit ''clusters'', Hole ''clusterName'', Lit ''ksql'', Lit ''response'']),
       (''getGlobalSchemaCompatibilityLevel'', getGlobalSchemaCompatibilityLevel, [Lit ''api'', Lit ''clusters'', Hole ''clusterName'', Lit ''schemas'', Lit ''compatibility'']),
       (''getTopicDetails'', getTopicDetails, [Lit ''api'', Lit ''clusters'', Hole ''clusterName'', Lit ''topics'', Hole ''topicName'']),
       (''getTopicsCsv'', getTopicsCsv, [Lit ''api'', Lit ''clusters'', Hole ''clusterName'', Lit ''topics'', Lit ''csv''])]),
     ((GET, 6), [
       (''getBrokerConfig'', getBrokerConfig, [Lit ''api'', Lit ''clusters'', Hole ''clusterName'', Lit ''brokers'', Hole ''id'', Lit ''configs'']),
       (''getBrokersMetrics'', getBrokersMetrics, [Lit ''api'', Lit ''clusters'', Hole ''clusterName'', Lit ''brokers'', Hole ''id'', Lit ''metrics'']),
       (''getTopicConsumerGroups'', getTopicConsumerGroups, [Lit ''api'', Lit ''clusters'', Hole ''clusterName'', Lit ''topics'', Hole ''topicName'', Lit ''consumer-groups'']),
       (''getConnectorPlugins'', getConnectorPlugins, [Lit ''api'', Lit ''clusters'', Hole ''clusterName'', Lit ''connects'', Hole ''connectName'', Lit ''plugins'']),
       (''getConnectors'', getConnectors, [Lit ''api'', Lit ''clusters'', Hole ''clusterName'', Lit ''connects'', Hole ''connectName'', Lit ''connectors'']),
       (''getSerdes'', getSerdes, [Lit ''api'', Lit ''clusters'', Hole ''clusterName'', Lit ''topics'', Hole ''topicName'', Lit ''serdes'']),
       (''getTopicMessages'', getTopicMessages, [Lit ''api'', Lit ''clusters'', Hole ''clusterName'', Lit ''topics'', Hole ''topicName'', Lit ''messages'']),
       (''getAllVersionsBySubject'', getAllVersionsBySubject, [Lit ''api'', Lit ''clusters'', Hole ''clusterName'', Lit ''schemas'', Hole ''subject'', Lit ''versions'']),
       (''getLatestSchema'', getLatestSchema, [Lit ''api'', Lit ''clusters'', Hole ''clusterName'', Lit ''schemas'', Hole ''subject'', Lit ''latest'']),
       (''getActiveProducerStates'', getActiveProducerStates, [Lit ''api'', Lit ''clusters'', Hole ''clusterName'', Lit ''topics'', Hole ''topicName'', Lit ''activeproducers'']),
       (''getTopicAnalysis'', getTopicAnalysis, [Lit ''api'', Lit ''clusters'', Hole ''clusterName'', Lit ''topics'', Hole ''topicName'', Lit ''analysis'']),
       (''getTopicConfigs'', getTopicConfigs, [Lit ''api'', Lit ''clusters'', Hole ''clusterName'', Lit ''topics'', Hole ''topicName'', Lit ''config'']),
       (''getTopicConnectors'', getTopicConnectors, [Lit ''api'', Lit ''clusters'', Hole ''clusterName'', Lit ''topics'', Hole ''topicName'', Lit ''connectors'']),
       (''listTopicAcls'', listTopicAcls, [Lit ''api'', Lit ''clusters'', Hole ''clusterName'', Lit ''topics'', Hole ''topicName'', Lit ''acls''])]),
     ((GET, 7), [
       (''getConnector'', getConnector, [Lit ''api'', Lit ''clusters'', Hole ''clusterName'', Lit ''connects'', Hole ''connectName'', Lit ''connectors'', Hole ''connectorName'']),
       (''getTopicMessagesV2'', getTopicMessagesV2, [Lit ''api'', Lit ''clusters'', Hole ''clusterName'', Lit ''topics'', Hole ''topicName'', Lit ''messages'', Lit ''v2'']),
       (''getSchemaByVersion'', getSchemaByVersion, [Lit ''api'', Lit ''clusters'', Hole ''clusterName'', Lit ''schemas'', Hole ''subject'', Lit ''versions'', Hole ''version''])]),
     ((GET, 8), [
       (''getConnectorConfig'', getConnectorConfig, [Lit ''api'', Lit ''clusters'', Hole ''clusterName'', Lit ''connects'', Hole ''connectName'', Lit ''connectors'', Hole ''connectorName'', Lit ''config'']),
       (''getConnectorTasks'', getConnectorTasks, [Lit ''api'', Lit ''clusters'', Hole ''clusterName'', Lit ''connects'', Hole ''connectName'', Lit ''connectors'', Hole ''connectorName'', Lit ''tasks''])]),
     ((POST, 1), [
       (''authenticate'', authenticate, [Lit ''login''])]),
     ((POST, 3), [
       (''uploadConfigRelatedFile'', uploadConfigRelatedFile, [Lit ''api'', Lit ''config'', Lit ''relatedfiles''])]),
     ((POST, 4), [
       (''createAcl'', createAcl, [Lit ''api'', Lit ''clusters'', Hole ''clusterName'', Lit ''acls'']),
       (''upsertClientQuotas'', upsertClientQuotas, [Lit ''api'', Lit ''clusters'', Hole ''clusterName'', Lit ''clientquotas'']),
       (''updateClusterInfo'', updateClusterInfo, [Lit ''api'', Lit ''clusters'', Hole ''clusterName'', Lit ''cache'']),
       (''getGraphData'', getGraphData, [Lit ''api'', Lit ''clusters'', Hole ''clusterName'', Lit ''graphs'']),
       (''createNewSchema'', createNewSchema, [Lit ''api'', Lit ''clusters'', Hole ''clusterName'', Lit ''schemas'']),
       (''createTopic'', createTopic, [Lit ''api'', Lit ''clusters'', Hole ''clusterName'', Lit ''topics''])]),
     ((POST, 5), [
       (''createConsumerAcl'', createConsumerAcl, [Lit ''api'', Lit ''clusters'', Hole ''clusterName'', Lit ''acls'', Lit ''consumer'']),
       (''createProducerAcl'', createProducerAcl, [Lit ''api'', Lit ''clusters'', Hole ''clusterName'', Lit ''acls'', Lit ''producer'']),
       (''createStreamAppAcl'', createStreamAppAcl, [Lit ''api'', Lit ''clusters'', Hole ''clusterName'', Lit ''acls'', Lit ''streamapp'']),
       (''syncAclsCsv'', syncAclsCsv, [Lit ''api'', Lit ''clusters'', Hole ''clusterName'', Lit ''acls'', Lit ''csv'']),
       (''executeKsql'', executeKsql, [Lit ''api'', Lit ''clusters'', Hole ''clusterName'', Lit ''ksql'', Lit ''v2'']),
       (''recreateTopic'', recreateTopic, [Lit ''api'', Lit ''clusters'', Hole ''clusterName'', Lit ''topics'', Hole ''topicName''])]),
     ((POST, 6), [
       (''resetConsumerGroupOffsets'', resetConsumerGroupOffsets, [Lit ''api'', Lit ''clusters'', Hole ''clusterName'', Lit ''consumer-groups'', Hole ''id'', Lit ''offsets'']),
       (''createConnector'', createConnector, [Lit ''api'', Lit ''clusters'', Hole ''clusterName'', Lit ''connects'', Hole ''connectName'', Lit ''connectors'']),
       (''registerFilter'', registerFilter, [Lit ''api'', Lit ''clusters'', Hole ''clusterName'', Lit ''topics'', Hole ''topicName'', Lit ''smartfilters'']),
       (''sendTopicMessages'', sendTopicMessages, [Lit ''api'', Lit ''clusters'', Hole ''clusterName'', Lit ''topics'', Hole ''topicName'', Lit ''messages'']),
       (''checkSchemaCompatibility'', checkSchemaCompatibility, [Lit ''api'', Lit ''clusters'', Hole ''clusterName'', Lit ''schemas'', Hole ''subject'', Lit ''check'']),
       (''analyzeTopic'', analyzeTopic, [Lit ''api'', Lit ''clusters'', Hole ''clusterName'', Lit ''topics'', Hole ''topicName'', Lit ''analysis'']),
       (''cloneTopic'', cloneTopic, [Lit ''api'', Lit ''clusters'', Hole ''clusterName'', Lit ''topics'', Hole ''topicName'', Lit ''clone''])]),
     ((POST, 9), [
       (''updateConnectorState'', updateConnectorState, [Lit ''api'', Lit ''clusters'', Hole ''clusterName'', Lit ''connects'', Hole ''connectName'', Lit ''connectors'', Hole ''connectorName'', Lit ''action'', Hole ''action''])]),
     ((POST, 11), [
       (''restartConnectorTask'', restartConnectorTask, [Lit ''api'', Lit ''clusters'', Hole ''clusterName'', Lit ''connects'', Hole ''connectName'', Lit ''connectors'', Hole ''connectorName'', Lit ''tasks'', Hole ''taskId'', Lit ''action'', Lit ''restart''])]),
     ((PUT, 2), [
       (''restartWithConfig'', restartWithConfig, [Lit ''api'', Lit ''config''])]),
     ((PUT, 3), [
       (''validateConfig'', validateConfig, [Lit ''api'', Lit ''config'', Lit ''validated'']),
       (''executeSmartFilterTest'', executeSmartFilterTest, [Lit ''api'', Lit ''smartfilters'', Lit ''testexecutions''])]),
     ((PUT, 5), [
       (''updateGlobalSchemaCompatibilityLevel'', updateGlobalSchemaCompatibilityLevel, [Lit ''api'', Lit ''clusters'', Hole ''clusterName'', Lit ''schemas'', Lit ''compatibility''])]),
     ((PUT, 6), [
       (''updateSchemaCompatibilityLevel'', updateSchemaCompatibilityLevel, [Lit ''api'', Lit ''clusters'', Hole ''clusterName'', Lit ''schemas'', Hole ''subject'', Lit ''compatibility''])]),
     ((PUT, 7), [
       (''updateBrokerConfigByName'', updateBrokerConfigByName, [Lit ''api'', Lit ''clusters'', Hole ''clusterName'', Lit ''brokers'', Hole ''id'', Lit ''configs'', Hole ''name''])]),
     ((PUT, 8), [
       (''setConnectorConfig'', setConnectorConfig, [Lit ''api'', Lit ''clusters'', Hole ''clusterName'', Lit ''connects'', Hole ''connectName'', Lit ''connectors'', Hole ''connectorName'', Lit ''config''])]),
     ((PUT, 9), [
       (''validateConnectorPluginConfig'', validateConnectorPluginConfig, [Lit ''api'', Lit ''clusters'', Hole ''clusterName'', Lit ''connects'', Hole ''connectName'', Lit ''plugins'', Hole ''pluginName'', Lit ''config'', Lit ''validate''])]),
     ((PATCH, 5), [
       (''updateTopic'', updateTopic, [Lit ''api'', Lit ''clusters'', Hole ''clusterName'', Lit ''topics'', Hole ''topicName''])]),
     ((PATCH, 6), [
       (''updateBrokerTopicPartitionLogDir'', updateBrokerTopicPartitionLogDir, [Lit ''api'', Lit ''clusters'', Hole ''clusterName'', Lit ''brokers'', Hole ''id'', Lit ''logdirs'']),
       (''changeReplicationFactor'', changeReplicationFactor, [Lit ''api'', Lit ''clusters'', Hole ''clusterName'', Lit ''topics'', Hole ''topicName'', Lit ''replications'']),
       (''increaseTopicPartitions'', increaseTopicPartitions, [Lit ''api'', Lit ''clusters'', Hole ''clusterName'', Lit ''topics'', Hole ''topicName'', Lit ''partitions''])]),
     ((DELETE, 4), [
       (''deleteAcl'', deleteAcl, [Lit ''api'', Lit ''clusters'', Hole ''clusterName'', Lit ''acls''])]),
     ((DELETE, 5), [
       (''deleteConsumerGroup'', deleteConsumerGroup, [Lit ''api'', Lit ''clusters'', Hole ''clusterName'', Lit ''consumer-groups'', Hole ''id'']),
       (''deleteSchema'', deleteSchema, [Lit ''api'', Lit ''clusters'', Hole ''clusterName'', Lit ''schemas'', Hole ''subject'']),
       (''deleteTopic'', deleteTopic, [Lit ''api'', Lit ''clusters'', Hole ''clusterName'', Lit ''topics'', Hole ''topicName''])]),
     ((DELETE, 6), [
       (''deleteTopicMessages'', deleteTopicMessages, [Lit ''api'', Lit ''clusters'', Hole ''clusterName'', Lit ''topics'', Hole ''topicName'', Lit ''messages'']),
       (''deleteLatestSchema'', deleteLatestSchema, [Lit ''api'', Lit ''clusters'', Hole ''clusterName'', Lit ''schemas'', Hole ''subject'', Lit ''latest'']),
       (''cancelTopicAnalysis'', cancelTopicAnalysis, [Lit ''api'', Lit ''clusters'', Hole ''clusterName'', Lit ''topics'', Hole ''topicName'', Lit ''analysis''])]),
     ((DELETE, 7), [
       (''deleteConsumerGroupOffsets'', deleteConsumerGroupOffsets, [Lit ''api'', Lit ''clusters'', Hole ''clusterName'', Lit ''consumer-groups'', Hole ''id'', Lit ''topics'', Hole ''topicName'']),
       (''deleteConnector'', deleteConnector, [Lit ''api'', Lit ''clusters'', Hole ''clusterName'', Lit ''connects'', Hole ''connectName'', Lit ''connectors'', Hole ''connectorName'']),
       (''deleteSchemaByVersion'', deleteSchemaByVersion, [Lit ''api'', Lit ''clusters'', Hole ''clusterName'', Lit ''schemas'', Hole ''subject'', Lit ''versions'', Hole ''version''])]),
     ((DELETE, 8), [
       (''resetConnectorOffsets'', resetConnectorOffsets, [Lit ''api'', Lit ''clusters'', Hole ''clusterName'', Lit ''connects'', Hole ''connectName'', Lit ''connectors'', Hole ''connectorName'', Lit ''offsets''])])]"

lemma api_operations_table: "api_operations = concat (map (\<lambda>(k, rs). map (\<lambda>(n, e, s). (n, e)) rs) route_table)"
  by (simp add: route_table_def api_operations_def)

definition route_ok :: "http_method \<times> nat \<Rightarrow> string \<times> endpoint \<times> segment list \<Rightarrow> bool" where
  "route_ok k r = (case r of (n, e, s) \<Rightarrow>
     ep_method e = fst k \<and> length s = snd k \<and> ep_path e = path_text (map render s)
     \<and> holes s = ep_path_params e)"

definition route_plain :: "string \<times> endpoint \<times> segment list \<Rightarrow> bool" where
  "route_plain r = (case r of (n, e, s) \<Rightarrow> distinct (holes s) \<and> list_all plain_segment s)"

lemma routes_ok: "list_all (\<lambda>(k, rs). list_all (route_ok k) rs) route_table"
  by (simp add: route_table_def route_ok_def path_text_def api_operation_defs)

lemma routes_plain: "list_all (\<lambda>(k, rs). list_all route_plain rs) route_table"
  by (simp add: route_table_def route_plain_def)

text \<open>Two templates that some segments can both fill.\<close>

fun meets :: "segment list \<Rightarrow> segment list \<Rightarrow> bool" where
  "meets [] [] = True"
| "meets (Lit a # x) (Lit b # y) = (if a = b then meets x y else False)"
| "meets (_ # x) (_ # y) = meets x y"
| "meets _ _ = False"

fun clash :: "string \<times> endpoint \<times> segment list \<Rightarrow> (string \<times> endpoint \<times> segment list) list \<Rightarrow> (string \<times> string) list" where
  "clash (n, e, s) [] = []"
| "clash (n, e, s) ((n', e', s') # rs) =
     (if meets s s' then (n, n') # clash (n, e, s) rs else clash (n, e, s) rs)"

fun clashes :: "(string \<times> endpoint \<times> segment list) list \<Rightarrow> (string \<times> string) list" where
  "clashes [] = []"
| "clashes (r # rs) = clash r rs @ clashes rs"

definition ambiguous_routes :: "(string \<times> string) list" where
  "ambiguous_routes = [(''getConsumerGroup'', ''getConsumerGroupsCsv''), (''getConsumerGroup'', ''getConsumerGroupsLag''),
     (''getConsumerGroup'', ''getConsumerGroupsPage''), (''getTopicDetails'', ''getTopicsCsv'')]"

lemma route_clashes: "concat (map (\<lambda>(k, rs). clashes rs) route_table) = ambiguous_routes"
  by (simp add: route_table_def ambiguous_routes_def)

lemma route_keys: "distinct (map fst route_table)"
  by (simp add: route_table_def)

section \<open>Filling a template\<close>

lemma replace_first_skip: "p \<notin> set s \<Longrightarrow> replace_first (p # ps) rep (s @ t) = s @ replace_first (p # ps) rep t"
  by (induction s) auto

lemma replace_first_here: "replace_first (p # ps) rep ((p # ps) @ t) = rep @ t"
  by simp

lemma replace_first_absent: "p \<notin> set s \<Longrightarrow> replace_first (p # ps) rep s = s"
  using replace_first_skip [of p s ps rep "[]"] by simp

lemma other_hole:
  assumes "m \<noteq> n" and "CHR ''}'' \<notin> set m" and "CHR ''}'' \<notin> set n"
  shows "\<not> starts_with (n @ ''}'') (m @ ''}'' @ t)"
proof
  assume "starts_with (n @ ''}'') (m @ ''}'' @ t)"
  then obtain r where "m @ CHR ''}'' # t = n @ CHR ''}'' # r" by (auto simp: starts_with_iff)
  then have "takeWhile (\<lambda>c. c \<noteq> CHR ''}'') (m @ CHR ''}'' # t) = takeWhile (\<lambda>c. c \<noteq> CHR ''}'') (n @ CHR ''}'' # r)" by simp
  moreover have "takeWhile (\<lambda>c. c \<noteq> CHR ''}'') (w @ CHR ''}'' # u) = w" if "CHR ''}'' \<notin> set w" for w u
    using that by (induction w) auto
  ultimately show False using assms by simp
qed

text \<open>Replacing one placeholder, in the text and in the segments.\<close>

definition fill_hole :: "string \<Rightarrow> string \<Rightarrow> segment list \<Rightarrow> segment list" where
  "fill_hole n rep = map (\<lambda>s. if s = Hole n then Lit rep else s)"

definition braceless :: "segment \<Rightarrow> bool" where
  "braceless s = (case s of Lit w \<Rightarrow> CHR ''{'' \<notin> set w | Hole m \<Rightarrow> CHR ''{'' \<notin> set m \<and> CHR ''}'' \<notin> set m)"

lemma replace_hole_absent:
  assumes "n \<notin> set (holes ss)" and "list_all braceless ss" and "CHR ''}'' \<notin> set n"
  shows "replace_first (''{'' @ n @ ''}'') rep (path_text (map render ss)) = path_text (map render ss)"
  using assms(1,2)
proof (induction ss)
  case (Cons s ss)
  then show ?case
  proof (cases s)
    case (Lit w)
    with Cons replace_first_skip [of "CHR ''{''" "''/'' @ w" "n @ ''}''" rep] show ?thesis
      by (simp add: path_text_def braceless_def)
  next
    case (Hole m)
    with Cons.prems assms(3) have "\<not> starts_with (n @ ''}'') (m @ ''}'' @ path_text (map render ss))"
      by (intro other_hole) (auto simp: braceless_def)
    moreover have "CHR ''{'' \<notin> set (m @ ''}'')" using Cons.prems Hole by (simp add: braceless_def)
    from replace_first_skip [OF this, of "n @ ''}''" rep "path_text (map render ss)"] Cons Hole
    have "replace_first (CHR ''{'' # n @ ''}'') rep (m @ ''}'' @ path_text (map render ss)) = m @ ''}'' @ path_text (map render ss)"
      by simp
    ultimately show ?thesis using Hole by (simp add: path_text_def)
  qed
qed (simp add: path_text_def)

lemma fill_hole_absent: "n \<notin> set (holes ss) \<Longrightarrow> fill_hole n rep ss = ss"
  by (induction ss rule: holes.induct) (auto simp: fill_hole_def)

lemma replace_hole:
  assumes "distinct (holes ss)" and "list_all braceless ss" and "CHR ''}'' \<notin> set n"
  shows "replace_first (''{'' @ n @ ''}'') rep (path_text (map render ss)) = path_text (map render (fill_hole n rep ss))"
  using assms(1,2)
proof (induction ss)
  case (Cons s ss)
  then show ?case
  proof (cases s)
    case (Lit w)
    with Cons replace_first_skip [of "CHR ''{''" "''/'' @ w" "n @ ''}''" rep] show ?thesis
      by (simp add: path_text_def braceless_def fill_hole_def)
  next
    case (Hole m)
    show ?thesis
    proof (cases "m = n")
      case True
      with Cons.prems Hole have "fill_hole n rep ss = ss" by (intro fill_hole_absent) simp
      with True Hole show ?thesis
        using replace_first_here [of "CHR ''{''" "n @ ''}''" rep "path_text (map render ss)"]
        by (simp add: path_text_def fill_hole_def)
    next
      case False
      with Cons.prems Hole assms(3) have "\<not> starts_with (n @ ''}'') (m @ ''}'' @ path_text (map render ss))"
        by (intro other_hole) (auto simp: braceless_def)
      moreover have "CHR ''{'' \<notin> set (m @ ''}'')" using Cons.prems Hole by (simp add: braceless_def)
      from replace_first_skip [OF this, of "n @ ''}''" rep "path_text (map render ss)"] Cons Hole
      have "replace_first (CHR ''{'' # n @ ''}'') rep (m @ ''}'' @ path_text (map render ss))
          = m @ ''}'' @ path_text (map render (fill_hole n rep ss))" by simp
      ultimately show ?thesis using Hole False by (simp add: path_text_def fill_hole_def)
    qed
  qed
qed (simp add: path_text_def fill_hole_def)

lemma encodeURIComponent_plain: "c \<in> set ''{}$'' \<Longrightarrow> c \<notin> set (encodeURIComponent s)"
proof
  assume c: "c \<in> set ''{}$''" and "c \<in> set (encodeURIComponent s)"
  from encodeURIComponent_set [OF this(2)] have "uri_unreserved c \<or> c = CHR ''%''" .
  moreover have "list_all (\<lambda>c. \<not> uri_unreserved c \<and> c \<noteq> CHR ''%'') ''{}$''" by code_simp
  ultimately show False using c by (auto simp: list_all_iff)
qed

lemma holes_fill: "holes (fill_hole n rep ss) = filter (\<lambda>m. m \<noteq> n) (holes ss)"
  by (induction ss rule: holes.induct) (auto simp: fill_hole_def)

lemma filled_fill: "map (filled fmt p) (fill_hole n (encodeURIComponent (js_text fmt (arg p n))) ss) = map (filled fmt p) ss"
  by (induction ss) (auto simp: fill_hole_def)

lemma no_holes: "holes ss = [] \<Longrightarrow> map render ss = map (filled fmt p) ss"
  by (induction ss rule: holes.induct) auto

text \<open>\<open>replace\<close> after \<open>replace\<close>: one placeholder at a time, each left for its own turn.\<close>

lemma fill_path_segments:
  assumes "holes ss = names" and "distinct names" and "list_all braceless ss" and "\<forall>n\<in>set names. CHR ''}'' \<notin> set n"
  shows "fill_path fmt (path_text (map render ss)) names p = path_text (map (filled fmt p) ss)"
  using assms
proof (induction names arbitrary: ss)
  case Nil
  with no_holes [of ss fmt p] have "map render ss = map (filled fmt p) ss" by simp
  then show ?case by (simp only: fill_path_def fold_simps)
next
  case (Cons n names)
  let ?ss = "fill_hole n (encodeURIComponent (js_text fmt (arg p n))) ss"
  have "list_all braceless ?ss"
    using Cons.prems(3) encodeURIComponent_plain [of "CHR ''{''"]
    by (auto simp: list_all_iff fill_hole_def braceless_def)
  moreover have "holes ?ss = names" using Cons.prems(1,2) by (auto simp: holes_fill filter_id_conv)
  ultimately have "fill_path fmt (path_text (map render ?ss)) names p = path_text (map (filled fmt p) ?ss)"
    using Cons.IH [of ?ss] Cons.prems by simp
  then show ?case
    using replace_hole [of ss n "encodeURIComponent (js_text fmt (arg p n))"] Cons.prems
    by (simp add: fill_path_def filled_fill)
qed

lemma plain_braceless: "plain_segment s \<Longrightarrow> braceless s"
  by (cases s) (auto simp: braceless_def list_all_iff)

lemma plain_holes: "list_all plain_segment ss \<Longrightarrow> n \<in> set (holes ss) \<Longrightarrow> CHR ''}'' \<notin> set n"
  by (induction ss rule: holes.induct) (auto simp: list_all_iff)

text \<open>What the table says of an operation.\<close>

lemma operation_route:
  assumes "(n, e) \<in> set api_operations"
  obtains k rs s where "(k, rs) \<in> set route_table" and "(n, e, s) \<in> set rs" and "k = (ep_method e, length s)"
    and "ep_path e = path_text (map render s)" and "holes s = ep_path_params e"
    and "distinct (holes s)" and "list_all plain_segment s"
proof -
  from assms obtain k rs s where r: "(k, rs) \<in> set route_table" "(n, e, s) \<in> set rs"
    unfolding api_operations_table by force
  from r routes_ok have "route_ok k (n, e, s)" by (fastforce simp: list_all_iff)
  moreover from r routes_plain have "route_plain (n, e, s)" by (fastforce simp: list_all_iff)
  ultimately have ok: "k = (ep_method e, length s)" "ep_path e = path_text (map render s)" "holes s = ep_path_params e"
    "distinct (holes s)" "list_all plain_segment s" by (auto simp: route_ok_def route_plain_def)
  from that [OF r ok] show thesis .
qed

lemma route_filled:
  assumes "ep_path e = path_text (map render s)" and "holes s = ep_path_params e"
    and "distinct (holes s)" and "list_all plain_segment s"
  shows "fill_path fmt (ep_path e) (ep_path_params e) p = path_text (map (filled fmt p) s)"
  unfolding assms(1) assms(2) [symmetric]
  by (rule fill_path_segments) (use assms(3,4) plain_braceless plain_holes in \<open>auto simp: list_all_iff\<close>)

section \<open>No two operations share an address\<close>

lemma path_text_inj:
  assumes "\<forall>w\<in>set xs \<union> set ys. CHR ''/'' \<notin> set w" and "path_text xs = path_text ys"
  shows "xs = ys"
  using assms
proof (induction xs arbitrary: ys)
  case Nil
  then show ?case by (cases ys) (simp_all add: path_text_def)
next
  case (Cons x xs)
  then obtain y ys' where ys: "ys = y # ys'" by (cases ys) (simp_all add: path_text_def)
  have first: "takeWhile (\<lambda>c. c \<noteq> CHR ''/'') (w @ path_text ws) = w" if "CHR ''/'' \<notin> set w" for w ws
  proof -
    have "takeWhile (\<lambda>c. c \<noteq> CHR ''/'') (path_text ws) = []" by (cases ws) (simp_all add: path_text_def)
    with that show ?thesis by (subst takeWhile_append2) auto
  qed
  from Cons.prems(2) ys have eq: "x @ path_text xs = y @ path_text ys'" by (simp add: path_text_def)
  with Cons.prems(1) ys first [of x xs] first [of y ys'] have "x = y" by simp
  with eq Cons.IH [of ys'] Cons.prems(1) ys show ?case by simp
qed

lemma filled_no_slash: "plain_segment s \<Longrightarrow> CHR ''/'' \<notin> set (filled fmt p s)"
  by (cases s) (auto simp: list_all_iff)

lemma meets_filled: "map (filled fmt p) s = map (filled fmt p') s' \<Longrightarrow> meets s s'"
proof (induction s s' rule: meets.induct)
  case (2 a x b y)
  then show ?case by simp
qed auto

lemma filled_params:
  "map (filled fmt p) s = map (filled fmt p') s \<Longrightarrow> n \<in> set (holes s) \<Longrightarrow> js_text fmt (arg p n) = js_text fmt (arg p' n)"
  by (induction s rule: holes.induct) auto

lemma clash_member: "(n', e', s') \<in> set rs \<Longrightarrow> meets s s' \<Longrightarrow> (n, n') \<in> set (clash (n, e, s) rs)"
  by (induction rs) auto

lemma clashes_member:
  "(n, e, s) \<in> set rs \<Longrightarrow> (n', e', s') \<in> set rs \<Longrightarrow> meets s s' \<Longrightarrow> meets s' s \<Longrightarrow>
   (n, e, s) = (n', e', s') \<or> (n, n') \<in> set (clashes rs) \<or> (n', n) \<in> set (clashes rs)"
proof (induction rs)
  case (Cons r rs)
  then show ?case using clash_member [of n' e' s' rs s n e] clash_member [of n e s rs s' n' e'] by auto
qed simp

lemma clashes_ambiguous: "(k, rs) \<in> set route_table \<Longrightarrow> set (clashes rs) \<subseteq> set ambiguous_routes"
  unfolding route_clashes [symmetric] by (cases k) (auto intro!: bexI [of _ "(k, rs)"])


lemma operation_listed:
  "(''getTopicDetails'', getTopicDetails) \<in> set api_operations" "(''getTopicsCsv'', getTopicsCsv) \<in> set api_operations"
  by (simp_all add: api_operations_def)

text \<open>The details of a topic called \<open>csv\<close> are asked for where the table of topics is.\<close>

lemma topic_named_csv:
  "fill_path fmt (ep_path getTopicDetails) (ep_path_params getTopicDetails) [(''clusterName'', VStr c), (''topicName'', VStr ''csv'')]
   = fill_path fmt (ep_path getTopicsCsv) (ep_path_params getTopicsCsv) [(''clusterName'', VStr c)]"
proof -
  let ?s = "[Lit ''api'', Lit ''clusters'', Hole ''clusterName'', Lit ''topics'']"
  have "fill_path fmt (ep_path getTopicDetails) (ep_path_params getTopicDetails) p
      = path_text (map (filled fmt p) (?s @ [Hole ''topicName'']))" for p
    by (rule route_filled) (simp_all add: getTopicDetails_def path_text_def)
  moreover have "fill_path fmt (ep_path getTopicsCsv) (ep_path_params getTopicsCsv) p
      = path_text (map (filled fmt p) (?s @ [Lit ''csv'']))" for p
    by (rule route_filled) (simp_all add: getTopicsCsv_def path_text_def)
  moreover have "encodeURIComponent ''csv'' = ''csv''" by code_simp
  ultimately show ?thesis by (simp add: arg_def get_prop_def)
qed


end
