(* ===== verification/Dates.thy ===== *)
theory Dates
  imports Prelude
begin

text \<open>
  Dates of the language: a time is a number of milliseconds since 1970, written by
  \<open>toISOString\<close> and read by \<open>new Date(text)\<close>. The reader covers the date-time format of the
  language with an offset or \<open>Z\<close>; what a platform makes of other texts is an argument.
\<close>

section \<open>The calendar\<close>

definition year_start :: "int \<Rightarrow> int" where
  "year_start y = 365 * (y - 1970) + (y - 1969) div 4 - (y - 1901) div 100 + (y - 1601) div 400"

definition leap_year :: "int \<Rightarrow> bool" where
  "leap_year y \<longleftrightarrow> y mod 4 = 0 \<and> (y mod 100 \<noteq> 0 \<or> y mod 400 = 0)"

definition year_of_day :: "int \<Rightarrow> int" where
  "year_of_day d =
     (let y = 1970 + (400 * d) div 146097
      in if year_start (y + 1) \<le> d then y + 1 else if d < year_start y then y - 1 else y)"

text \<open>The days of a year before each month.\<close>

definition month_starts :: "bool \<Rightarrow> int list" where
  "month_starts leap =
     (let l = (if leap then 1 else 0)
      in [0, 31, 59 + l, 90 + l, 120 + l, 151 + l, 181 + l, 212 + l, 243 + l, 273 + l, 304 + l, 334 + l])"

text \<open>Year, month and day of month of a day.\<close>

definition civil_of_day :: "int \<Rightarrow> int \<times> nat \<times> nat" where
  "civil_of_day d =
     (let y = year_of_day d; starts = month_starts (leap_year y); doy = d - year_start y;
          m = length (filter (\<lambda>s. s \<le> doy) starts)
      in (y, m, nat (doy - starts ! (m - 1) + 1)))"

definition day_of_civil :: "int \<Rightarrow> nat \<Rightarrow> nat \<Rightarrow> int" where
  "day_of_civil y m d = year_start y + month_starts (leap_year y) ! (m - 1) + int d - 1"

definition month_days :: "bool \<Rightarrow> nat \<Rightarrow> nat" where
  "month_days leap m = (if m = 2 then (if leap then 29 else 28) else if m \<in> {4, 6, 9, 11} then 30 else 31)"

section \<open>Text\<close>

definition pad :: "nat \<Rightarrow> nat \<Rightarrow> string" where
  "pad n k = pad_left n CHR ''0'' (show_nat k)"

definition toISOString :: "int \<Rightarrow> string" where
  "toISOString t =
     (let (y, m, d) = civil_of_day (t div 86400000); ms = nat (t mod 86400000);
          year = (if 0 \<le> y \<and> y \<le> 9999 then pad 4 (nat y)
                  else (if y < 0 then ''-'' else ''+'') @ pad 6 (nat \<bar>y\<bar>))
      in year @ ''-'' @ pad 2 m @ ''-'' @ pad 2 d @ ''T'' @ pad 2 (ms div 3600000) @ '':''
         @ pad 2 (ms div 60000 mod 60) @ '':'' @ pad 2 (ms div 1000 mod 60) @ ''.'' @ pad 3 (ms mod 1000) @ ''Z'')"

definition number_at :: "nat \<Rightarrow> nat \<Rightarrow> string \<Rightarrow> nat option" where
  "number_at i n s =
     (let ds = take n (drop i s) in if length ds = n \<and> list_all is_digit ds then Some (read_nat ds) else None)"

definition separators_ok :: "string \<Rightarrow> bool" where
  "separators_ok s \<longleftrightarrow> 19 \<le> length s \<and> s ! 4 = CHR ''-'' \<and> s ! 7 = CHR ''-'' \<and> s ! 10 = CHR ''T''
     \<and> s ! 13 = CHR '':'' \<and> s ! 16 = CHR '':''"

text \<open>The fraction, in milliseconds with further digits cut off, and what follows it.\<close>

definition fraction :: "string \<Rightarrow> (nat \<times> string) option" where
  "fraction s =
     (case s of
        CHR ''.'' # ds \<Rightarrow>
          (let fs = takeWhile is_digit ds
           in if fs = [] then None else Some (read_nat (take 3 (fs @ ''00'')), dropWhile is_digit ds))
      | _ \<Rightarrow> Some (0, s))"

text \<open>The offset from universal time in minutes.\<close>

definition zone :: "string \<Rightarrow> int option" where
  "zone s =
     (if s = ''Z'' then Some 0
      else if length s = 6 \<and> hd s \<in> {CHR ''+'', CHR ''-''} \<and> s ! 3 = CHR '':''
      then (case (number_at 1 2 s, number_at 4 2 s) of
              (Some h, Some m) \<Rightarrow>
                if h < 24 \<and> m < 60 then Some ((if hd s = CHR ''-'' then - 1 else 1) * (60 * int h + int m)) else None
            | _ \<Rightarrow> None)
      else None)"

definition iso_parse :: "string \<Rightarrow> int option" where
  "iso_parse s =
     (if \<not> separators_ok s then None
      else case (number_at 0 4 s, number_at 5 2 s, number_at 8 2 s, number_at 11 2 s, number_at 14 2 s, number_at 17 2 s) of
        (Some y, Some m, Some d, Some h, Some mi, Some sec) \<Rightarrow>
          if 1 \<le> m \<and> m \<le> 12 \<and> 1 \<le> d \<and> d \<le> month_days (leap_year (int y)) m \<and> h < 24 \<and> mi < 60 \<and> sec < 60
          then Option.bind (fraction (drop 19 s)) (\<lambda>(ms, rest). map_option (\<lambda>off.
             86400000 * day_of_civil (int y) m d + int (3600000 * h + 60000 * mi + 1000 * sec + ms) - 60000 * off) (zone rest))
          else None
      | _ \<Rightarrow> None)"

text \<open>\<open>new Date(text)\<close>.\<close>

definition date_of_text :: "(string \<Rightarrow> int option) \<Rightarrow> string \<Rightarrow> int option" where
  "date_of_text platform s = (case iso_parse s of Some t \<Rightarrow> Some t | None \<Rightarrow> platform s)"

section \<open>The calendar is exact\<close>

lemma year_start_bounds:
  shows "146097 * (y - 1970) - 506 \<le> 400 * year_start y" and "400 * year_start y \<le> 146097 * (y - 1970) + 589"
proof -
  have "4 * ((y - 1969) div 4) + (y - 1969) mod 4 = y - 1969"
    "100 * ((y - 1901) div 100) + (y - 1901) mod 100 = y - 1901"
    "400 * ((y - 1601) div 400) + (y - 1601) mod 400 = y - 1601" by (rule mult_div_mod_eq)+
  moreover have "year_start y = 365 * (y - 1970) + (y - 1969) div 4 - (y - 1901) div 100 + (y - 1601) div 400"
    by (rule year_start_def)
  moreover have "0 \<le> (y - 1969) mod 4" "(y - 1969) mod 4 < 4" "0 \<le> (y - 1901) mod 100" "(y - 1901) mod 100 < 100"
    "0 \<le> (y - 1601) mod 400" "(y - 1601) mod 400 < 400" by simp_all
  ultimately show "146097 * (y - 1970) - 506 \<le> 400 * year_start y" "400 * year_start y \<le> 146097 * (y - 1970) + 589"
    by (smt (verit))+
qed

lemma year_of_day_spec: "year_start (year_of_day d) \<le> d \<and> d < year_start (year_of_day d + 1)"
proof -
  define q where "q = (400 * d) div 146097"
  have "146097 * q + (400 * d) mod 146097 = 400 * d" unfolding q_def by (rule mult_div_mod_eq)
  moreover have "0 \<le> (400 * d) mod 146097" "(400 * d) mod 146097 < 146097" by simp_all
  ultimately have q: "146097 * q \<le> 400 * d" "400 * d < 146097 * q + 146097" by linarith+
  have "400 * year_start (1969 + q) \<le> 146097 * q - 145508" using year_start_bounds(2) [of "1969 + q"] by simp
  then have lo: "year_start (1969 + q) \<le> d" using q(1) by linarith
  have "146097 * q + 291688 \<le> 400 * year_start (1972 + q)" using year_start_bounds(1) [of "1972 + q"] by simp
  then have hi: "d < year_start (1972 + q)" using q(2) by linarith
  have "year_of_day d = (if year_start (1970 + q + 1) \<le> d then 1970 + q + 1
      else if d < year_start (1970 + q) then 1970 + q - 1 else 1970 + q)"
    unfolding year_of_day_def Let_def q_def by (rule refl)
  moreover have "1970 + q + 1 = 1971 + q" "1970 + q - 1 = 1969 + q" "1971 + q + 1 = 1972 + q" "1969 + q + 1 = 1970 + q"
    by simp_all
  ultimately show ?thesis using lo hi by (auto simp only: split: if_splits)
qed

lemma div_step:
  fixes a n :: int
  assumes "1 < n"
  shows "(a + 1) div n = a div n + (if (a + 1) mod n = 0 then 1 else 0)"
proof -
  have a: "0 \<le> a mod n" "a mod n < n" using assms by simp_all
  have "(a + 1) div n = a div n + (a mod n + 1) div n"
    using assms by (simp add: div_add1_eq [of a 1 n])
  moreover have "(a + 1) mod n = (a mod n + 1) mod n" by (simp add: mod_add_left_eq)
  moreover have "(a mod n + 1) div n = (if (a mod n + 1) mod n = 0 then 1 else 0)"
  proof (cases "a mod n + 1 = n")
    case False
    with a show ?thesis by simp
  qed (use assms in simp)
  ultimately show ?thesis by simp
qed

lemma leap_steps:
  fixes y :: int
  shows "(y - 1968) div 4 = (y - 1969) div 4 + (if y mod 4 = 0 then 1 else 0)"
    and "(y - 1900) div 100 = (y - 1901) div 100 + (if y mod 100 = 0 then 1 else 0)"
    and "(y - 1600) div 400 = (y - 1601) div 400 + (if y mod 400 = 0 then 1 else 0)"
proof -
  have m: "(y - 1968) mod 4 = y mod 4" "(y - 1900) mod 100 = y mod 100" "(y - 1600) mod 400 = y mod 400"
    unfolding mod_eq_dvd_iff by simp_all
  have e: "y - 1969 + 1 = y - 1968" "y - 1901 + 1 = y - 1900" "y - 1601 + 1 = y - 1600" by simp_all
  have "1 < (4 :: int)" "1 < (100 :: int)" "1 < (400 :: int)" by simp_all
  note step = this [THEN div_step]
  show "(y - 1968) div 4 = (y - 1969) div 4 + (if y mod 4 = 0 then 1 else 0)"
    using step(1) [of "y - 1969"] unfolding e m .
  show "(y - 1900) div 100 = (y - 1901) div 100 + (if y mod 100 = 0 then 1 else 0)"
    using step(2) [of "y - 1901"] unfolding e m .
  show "(y - 1600) div 400 = (y - 1601) div 400 + (if y mod 400 = 0 then 1 else 0)"
    using step(3) [of "y - 1601"] unfolding e m .
qed

lemma leap_days:
  fixes Y Y' :: int
  assumes "Y' = Y + 365 + (if A then 1 else 0) - (if B then 1 else 0) + (if C then 1 else 0)"
    and "B \<Longrightarrow> A" and "C \<Longrightarrow> B"
  shows "Y' = Y + (if A \<and> (\<not> B \<or> C) then 366 else 365)"
  using assms by (cases A; cases B; cases C; simp)

lemma year_length: "year_start (y + 1) = year_start y + (if leap_year y then 366 else 365)"
proof -
  have s: "y + 1 - 1970 = y - 1970 + 1" "y + 1 - 1969 = y - 1968" "y + 1 - 1901 = y - 1900" "y + 1 - 1601 = y - 1600"
    by simp_all
  have "365 * (p + 1) + (a + i) - (b + j) + (c + k) = 365 * p + a - b + c + 365 + i - j + k" for p a b c i j k :: int
    by simp
  then have "year_start (y + 1) = year_start y + 365 + (if y mod 4 = 0 then 1 else 0) - (if y mod 100 = 0 then 1 else 0)
      + (if y mod 400 = 0 then 1 else 0)"
    unfolding year_start_def s leap_steps .
  then show ?thesis unfolding leap_year_def
  proof (rule leap_days)
    show "y mod 100 = 0 \<Longrightarrow> y mod 4 = 0" using mod_mod_cancel [of 4 100 y] by simp
    show "y mod 400 = 0 \<Longrightarrow> y mod 100 = 0" using mod_mod_cancel [of 100 400 y] by simp
  qed
qed

text \<open>The day of a year lies in one of its twelve months.\<close>

lemma count_below_sorted:
  fixes x :: int
  assumes "sorted xs"
  shows "i < length (filter (\<lambda>s. s \<le> x) xs) \<Longrightarrow> xs ! i \<le> x"
    and "length (filter (\<lambda>s. s \<le> x) xs) < length xs \<Longrightarrow> x < xs ! length (filter (\<lambda>s. s \<le> x) xs)"
  using assms
proof (induction xs arbitrary: i)
  case (Cons y ys)
  { case 1 with Cons show ?case
    proof (cases "y \<le> x")
      case False
      with 1(2) have "filter (\<lambda>s. s \<le> x) (y # ys) = []" by (auto simp: filter_empty_conv)
      with 1 show ?thesis by simp
    qed (cases i; simp)
  next
    case 2 with Cons show ?case
    proof (cases "y \<le> x")
      case False
      with 2(2) have "filter (\<lambda>s. s \<le> x) (y # ys) = []" by (auto simp: filter_empty_conv)
      with False show ?thesis by simp
    qed simp }
qed simp_all

lemma month_gap:
  assumes "1 \<le> m" and "m < 12"
  shows "month_starts leap ! m = month_starts leap ! (m - 1) + int (month_days leap m)"
proof -
  from assms have "m = 1 \<or> m = 2 \<or> m = 3 \<or> m = 4 \<or> m = 5 \<or> m = 6 \<or> m = 7 \<or> m = 8 \<or> m = 9 \<or> m = 10 \<or> m = 11"
    by presburger
  then show ?thesis by (elim disjE; simp add: month_starts_def month_days_def Let_def)
qed

lemma month_of_day:
  assumes "0 \<le> doy" and "doy < (if leap then 366 else 365)"
  defines "m \<equiv> length (filter (\<lambda>s. s \<le> doy) (month_starts leap))"
  shows "1 \<le> m" and "m \<le> 12" and "month_starts leap ! (m - 1) \<le> doy"
    and "doy < month_starts leap ! (m - 1) + int (month_days leap m)"
proof -
  have s: "sorted (month_starts leap)" by (cases leap) (simp_all add: month_starts_def)
  have len: "length (month_starts leap) = 12" by (simp add: month_starts_def Let_def)
  have "hd (month_starts leap) = 0" "month_starts leap \<noteq> []" by (simp_all add: month_starts_def Let_def)
  then show 1: "1 \<le> m" using assms(1) unfolding m_def by (cases "month_starts leap") auto
  show 12: "m \<le> 12" unfolding m_def len [symmetric] by (rule length_filter_le)
  from 1 have "m - 1 < m" by simp
  then show "month_starts leap ! (m - 1) \<le> doy" unfolding m_def by (rule count_below_sorted(1) [OF s])
  show "doy < month_starts leap ! (m - 1) + int (month_days leap m)"
  proof (cases "m < 12")
    case True
    then have "doy < month_starts leap ! m" unfolding m_def len [symmetric] by (rule count_below_sorted(2) [OF s])
    with month_gap [OF 1 True, of leap] show ?thesis by simp
  next
    case False
    with 12 have "m = 12" by simp
    with assms(2) show ?thesis by (cases leap) (simp_all add: month_starts_def month_days_def)
  qed
qed

lemma civil_of_day_spec:
  assumes "civil_of_day t = (y, m, d)"
  shows "day_of_civil y m d = t" and "1 \<le> m" and "m \<le> 12" and "1 \<le> d" and "d \<le> month_days (leap_year y) m" and "y = year_of_day t"
proof -
  let ?doy = "t - year_start (year_of_day t)" and ?leap = "leap_year (year_of_day t)"
  have doy: "0 \<le> ?doy" "?doy < (if ?leap then 366 else 365)"
    using year_of_day_spec [of t] year_length [of "year_of_day t"] by (auto split: if_splits)
  from assms have y: "y = year_of_day t" and m: "m = length (filter (\<lambda>s. s \<le> ?doy) (month_starts ?leap))"
    and d: "d = nat (?doy - month_starts ?leap ! (m - 1) + 1)" by (auto simp: civil_of_day_def Let_def)
  note month = month_of_day [OF doy, folded m]
  have d': "int d = ?doy - month_starts ?leap ! (m - 1) + 1" using month(3) d by simp
  show "y = year_of_day t" by (fact y)
  show "1 \<le> m" "m \<le> 12" by (fact month)+
  show "1 \<le> d" using d' month(3) by linarith
  show "day_of_civil y m d = t" using d' y by (simp add: day_of_civil_def)
  have "int d \<le> int (month_days (leap_year y) m)" using d' month(4) by (simp add: y)
  then show "d \<le> month_days (leap_year y) m" by simp
qed

section \<open>Written and read\<close>

lemma read_nat_zeros: "read_nat (replicate k CHR ''0'' @ s) = read_nat s"
  by (induction k) (simp_all add: read_nat_def digit_val_def)

lemma length_show_nat: "n < 10 ^ Suc k \<Longrightarrow> length (show_nat n) \<le> Suc k"
proof (induction k arbitrary: n)
  case (Suc k)
  then show ?case
  proof (cases "n < 10")
    case False
    from Suc.prems have "n div 10 < 10 ^ Suc k" by auto
    with Suc.IH False show ?thesis by (simp add: show_nat.simps [of n])
  qed (simp add: show_nat.simps [of n])
qed (simp add: show_nat.simps)

lemma pad_digits:
  assumes "n < 10 ^ k" and "0 < k"
  shows "length (pad k n) = k" and "list_all is_digit (pad k n)" and "read_nat (pad k n) = n"
proof -
  from assms length_show_nat [of n "k - 1"] have "length (show_nat n) \<le> k" by simp
  then show "length (pad k n) = k" by (simp add: pad_def pad_left_def)
  show "list_all is_digit (pad k n)"
    using show_nat_digits [of _ n] by (auto simp: pad_def pad_left_def list_all_iff is_digit_def [of "CHR ''0''"])
  show "read_nat (pad k n) = n" by (simp add: pad_def pad_left_def read_nat_zeros)
qed

lemma iso_parts:
  assumes "length Y = 4" "length M = 2" "length D = 2" "length H = 2" "length I = 2" "length S = 2"
    and "list_all is_digit Y" "list_all is_digit M" "list_all is_digit D" "list_all is_digit H" "list_all is_digit I" "list_all is_digit S"
    and "s = Y @ ''-'' @ M @ ''-'' @ D @ ''T'' @ H @ '':'' @ I @ '':'' @ S @ rest"
  shows "separators_ok s" and "number_at 0 4 s = Some (read_nat Y)" and "number_at 5 2 s = Some (read_nat M)"
    and "number_at 8 2 s = Some (read_nat D)" and "number_at 11 2 s = Some (read_nat H)"
    and "number_at 14 2 s = Some (read_nat I)" and "number_at 17 2 s = Some (read_nat S)" and "drop 19 s = rest"
  using assms by (simp_all add: separators_ok_def number_at_def nth_append drop_Cons')

lemma fraction_digits:
  assumes "length ms = 3" and "list_all is_digit ms"
  shows "fraction (''.'' @ ms @ ''Z'') = Some (read_nat ms, ''Z'')"
proof -
  have "takeWhile is_digit (ms @ ''Z'') = ms" "dropWhile is_digit (ms @ ''Z'') = ''Z''"
    using assms(2) by (simp_all add: list_all_iff is_digit_def takeWhile_append dropWhile_append)
  moreover have "ms \<noteq> []" using assms(1) by auto
  ultimately show ?thesis using assms(1) by (simp add: fraction_def)
qed

text \<open>The times with a year of four digits.\<close>

definition four_digit_year :: "int \<Rightarrow> bool" where
  "four_digit_year t \<longleftrightarrow> 0 \<le> year_of_day (t div 86400000) \<and> year_of_day (t div 86400000) \<le> 9999"

lemma time_of_day:
  assumes "(ms :: nat) < 86400000"
  shows "ms div 3600000 < 24" and "ms div 60000 mod 60 < 60" and "ms div 1000 mod 60 < 60"
    and "3600000 * (ms div 3600000) + 60000 * (ms div 60000 mod 60) + 1000 * (ms div 1000 mod 60) + ms mod 1000 = ms"
proof -
  have "ms = 1000 * (ms div 1000) + ms mod 1000" by simp
  moreover have "ms div 1000 = 60 * (ms div 60000) + ms div 1000 mod 60"
    using mult_div_mod_eq [of 60 "ms div 1000"] by (simp add: div_mult2_eq [of ms 1000 60, symmetric])
  moreover have "ms div 60000 = 60 * (ms div 3600000) + ms div 60000 mod 60"
    using mult_div_mod_eq [of 60 "ms div 60000"] by (simp add: div_mult2_eq [of ms 60000 60, symmetric])
  ultimately show "3600000 * (ms div 3600000) + 60000 * (ms div 60000 mod 60) + 1000 * (ms div 1000 mod 60) + ms mod 1000 = ms"
    by linarith
  show "ms div 3600000 < 24" using assms by (simp add: less_mult_imp_div_less)
qed simp_all

lemma iso_parse_toISOString:
  assumes "four_digit_year t"
  shows "iso_parse (toISOString t) = Some t"
proof -
  obtain y m d where c: "civil_of_day (t div 86400000) = (y, m, d)" by (cases "civil_of_day (t div 86400000)")
  note civil = civil_of_day_spec [OF c]
  from assms civil(6) have y: "0 \<le> y" "y \<le> 9999" by (simp_all add: four_digit_year_def)
  define ms where "ms = nat (t mod 86400000)"
  have ms: "ms < 86400000" "int ms = t mod 86400000" by (simp_all add: ms_def)
  note time = time_of_day [OF ms(1)]
  have "month_days (leap_year y) m \<le> 31" by (simp add: month_days_def)
  with civil(5) have d: "d \<le> 31" by (rule order_trans)
  have small: "nat y < 10 ^ 4" "m < 10 ^ 2" "d < 10 ^ 2" "ms div 3600000 < 10 ^ 2" "ms div 60000 mod 60 < 10 ^ 2"
    "ms div 1000 mod 60 < 10 ^ 2" "ms mod 1000 < 10 ^ 3" using y civil(3) d time(1-3) by simp_all
  have pos: "0 < (4 :: nat)" "0 < (2 :: nat)" "0 < (3 :: nat)" by simp_all
  note D = pad_digits [OF small(1) pos(1)] pad_digits [OF small(2) pos(2)] pad_digits [OF small(3) pos(2)]
    pad_digits [OF small(4) pos(2)] pad_digits [OF small(5) pos(2)] pad_digits [OF small(6) pos(2)]
    pad_digits [OF small(7) pos(3)]
  have s: "toISOString t = pad 4 (nat y) @ ''-'' @ pad 2 m @ ''-'' @ pad 2 d @ ''T'' @ pad 2 (ms div 3600000) @ '':''
      @ pad 2 (ms div 60000 mod 60) @ '':'' @ pad 2 (ms div 1000 mod 60) @ ''.'' @ pad 3 (ms mod 1000) @ ''Z''"
    using y by (simp add: toISOString_def c Let_def flip: ms_def)
  note parts = iso_parts [OF D(1) D(4) D(7) D(10) D(13) D(16) D(2) D(5) D(8) D(11) D(14) D(17) s]
  have "iso_parse (toISOString t) = Some (86400000 * day_of_civil y m d
      + int (3600000 * (ms div 3600000) + 60000 * (ms div 60000 mod 60) + 1000 * (ms div 1000 mod 60) + ms mod 1000))"
    unfolding iso_parse_def parts fraction_digits [OF D(19) D(20)]
    using y civil(2-5) time(1-3) by (simp add: D zone_def parts(1))
  also have "\<dots> = Some (86400000 * (t div 86400000) + t mod 86400000)" unfolding time(4) civil(1) ms(2) by (rule refl)
  finally show ?thesis by simp
qed

end
