(* ===== verification/ApiContract.thy ===== *)
theory ApiContract
  imports ApiCodec ApiRoutes Dates
begin

text \<open>
  The client and its models together: every model of the interface is well formed, so the
  guarantees of the conversions hold for each of them and for the results of every operation.
\<close>

section \<open>Dates on the wire\<close>

text \<open>
  \<open>new Date(value)\<close> of a value from a response. Texts outside the date-time format of the
  language are read by the platform. A number is cut to whole milliseconds and must be within
  a hundred million days of 1970.
\<close>

definition time_clip :: "int \<Rightarrow> int option" where
  "time_clip t = (if \<bar>t\<bar> \<le> 8640000000000000 then Some t else None)"

definition js_trunc :: "int \<Rightarrow> nat \<Rightarrow> int" where
  "js_trunc m s = (if m < 0 then - (\<bar>m\<bar> div 10 ^ s) else m div 10 ^ s)"

definition new_Date :: "(string \<Rightarrow> int option) \<Rightarrow> jsval \<Rightarrow> int option" where
  "new_Date platform v =
     (case v of
        VUndef \<Rightarrow> None
      | VNull \<Rightarrow> Some 0
      | VBool b \<Rightarrow> Some (if b then 1 else 0)
      | VNum n \<Rightarrow> (case n of NaN \<Rightarrow> None | Dec m s \<Rightarrow> time_clip (js_trunc m s))
      | VStr s \<Rightarrow> date_of_text platform s
      | VDate d \<Rightarrow> d
      | VArr xs \<Rightarrow> date_of_text platform (js_text toISOString v)
      | VObj ms \<Rightarrow> date_of_text platform (js_text toISOString v))"

lemma new_Date_toISOString: "four_digit_year t \<Longrightarrow> new_Date platform (VStr (toISOString t)) = Some t"
  by (simp add: new_Date_def date_of_text_def iso_parse_toISOString)

section \<open>All models\<close>

definition interface_models :: "(string \<times> ty) list" where
  "interface_models = api_enums @ api_config_models @ api_models"

text \<open>The models that contain a consumer group, whose details are not sent.\<close>

definition one_way_models :: "string list" where
  "one_way_models = [''ConsumerGroup'', ''ConsumerGroupsPageResponse'']"

lemma models_wf: "list_all (\<lambda>(n, t). wf_ty t) interface_models"
  by code_simp

lemma models_lossless: "list_all (\<lambda>(n, t). lossless t \<or> n \<in> set one_way_models) interface_models"
  by code_simp

text \<open>The types of what an operation sends and receives.\<close>

definition endpoint_types :: "endpoint \<Rightarrow> ty list" where
  "endpoint_types e =
     (case ep_body e of JsonBody n t \<Rightarrow> [t] | _ \<Rightarrow> [])
     @ (case ep_response e of JsonResponse t \<Rightarrow> [t] | JsonListResponse t \<Rightarrow> [t] | _ \<Rightarrow> [])"

lemma operation_types: "list_all (\<lambda>(n, e). list_all (\<lambda>t. t \<in> set (map snd interface_models)) (endpoint_types e)) api_operations"
  by (simp add: api_operations_def api_operation_defs endpoint_types_def interface_models_def
      api_enums_def api_config_models_def api_models_def)

lemma endpoint_types_wf: "(n, e) \<in> set api_operations \<Longrightarrow> t \<in> set (endpoint_types e) \<Longrightarrow> wf_ty t"
  using operation_types models_wf by (fastforce simp: list_all_iff)

section \<open>Values survive the wire\<close>



section \<open>What an operation returns\<close>

definition answer_ok :: "(jsval \<Rightarrow> int option) \<Rightarrow> (int \<Rightarrow> bool) \<Rightarrow> response_kind \<Rightarrow> response \<Rightarrow> bool" where
  "answer_ok parse valid kind r \<longleftrightarrow> 200 \<le> rs_status r \<and> rs_status r < 300
     \<and> (case kind of
          JsonResponse t \<Rightarrow> (case rs_json r of Some j \<Rightarrow> accepts parse valid t (of_json j) | None \<Rightarrow> False)
        | JsonListResponse t \<Rightarrow> (case rs_json r of Some j \<Rightarrow> accepts parse valid (TArray t) (of_json j) | None \<Rightarrow> False)
        | AnyResponse \<Rightarrow> rs_json r \<noteq> None
        | _ \<Rightarrow> True)"

definition result_ok :: "(int \<Rightarrow> bool) \<Rightarrow> response_kind \<Rightarrow> jsval \<Rightarrow> bool" where
  "result_ok valid kind v \<longleftrightarrow>
     (case kind of
        JsonResponse t \<Rightarrow> conforms valid t v
      | JsonListResponse t \<Rightarrow> conforms valid (TArray t) v
      | AnyResponse \<Rightarrow> (\<exists>j. v = of_json j)
      | TextResponse \<Rightarrow> (\<exists>s. v = VStr s)
      | VoidResponse \<Rightarrow> v = VUndef)"

lemma decode_accepted:
  assumes "answer_ok parse valid kind r"
    and "\<And>t. kind = JsonResponse t \<or> kind = JsonListResponse t \<Longrightarrow> wf_ty t"
  shows "\<exists>v. decode_response parse kind r = Inr v \<and> result_ok valid kind v"
proof (cases kind)
  case (JsonResponse t)
  with assms(1) obtain j where "rs_json r = Some j" "accepts parse valid t (of_json j)"
    by (auto simp: answer_ok_def split: option.splits)
  with JsonResponse reads_accepted(1) [of parse valid t "of_json j"] assms(2) [of t] show ?thesis
    by (auto simp: decode_response_def result_ok_def reads_def)
next
  case (JsonListResponse t)
  with assms(1) obtain j xs where j: "rs_json r = Some j" "of_json j = VArr xs" "list_all (accepts parse valid t) xs"
    by (auto simp: answer_ok_def split: option.splits jsval.splits)
  with JsonListResponse assms(2) [of t] have "\<forall>x\<in>set xs. reads parse valid t x"
    by (simp add: list_all_iff reads_accepted(1))
  from read_list [OF this] JsonListResponse j show ?thesis
    by (auto simp: decode_response_def result_ok_def)
qed (use assms(1) in \<open>auto simp: decode_response_def result_ok_def answer_ok_def\<close>)



section \<open>Addresses are complete\<close>

lemma path_params_required: "list_all (\<lambda>(n, e). list_all (\<lambda>x. x \<in> set (ep_required e)) (ep_path_params e)) api_operations"
  by (simp add: api_operations_def api_operation_defs)

lemma filled_holes: "x \<in> set (holes s) \<Longrightarrow> encodeURIComponent (js_text fmt (arg p x)) \<in> set (map (filled fmt p) s)"
  by (induction s rule: holes.induct) auto

text \<open>
  A request that is sent has a complete address: the base, then one segment for each of the
  template, among them the encoded value of every path parameter, none of which is missing or
  null, then nothing or a query.
\<close>

theorem request_address_complete:
  assumes "(n, e) \<in> set api_operations" and "build_request fmt conf e p = Inr rq"
  shows "\<exists>ws q. rq_url rq = basePath conf @ path_text ws @ q \<and> (q = [] \<or> hd q = CHR ''?'')
    \<and> (\<forall>w\<in>set ws. CHR ''/'' \<notin> set w)
    \<and> (\<forall>x\<in>set (ep_path_params e). \<not> nullish (arg p x) \<and> encodeURIComponent (js_text fmt (arg p x)) \<in> set ws)"
proof -
  from operation_route [OF assms(1)] obtain s where s: "ep_path e = path_text (map render s)" "holes s = ep_path_params e"
    "distinct (holes s)" "list_all plain_segment s" by metis
  let ?ws = "map (filled fmt p) s"
  let ?q = "if query_of fmt p (ep_query e) \<noteq> [] then ''?'' @ querystring fmt (query_of fmt p (ep_query e)) [] else []"
  from assms(2) obtain body where none: "missing_param p (ep_required e) = None"
    and rq: "rq = createFetchParams fmt conf e p body"
    by (auto simp: build_request_def split: option.splits sum.splits)
  have url: "rq_url rq = basePath conf @ path_text ?ws @ ?q"
    by (simp add: rq createFetchParams_def route_filled [OF s] Let_def)
  have given: "\<not> nullish (arg p x)" if "x \<in> set (ep_path_params e)" for x
  proof -
    from assms(1) path_params_required that have "x \<in> set (ep_required e)" by (fastforce simp: list_all_iff)
    with none show ?thesis by (simp add: missing_param_def find_None_iff)
  qed
  have "\<forall>w\<in>set ?ws. CHR ''/'' \<notin> set w" using s(4) filled_no_slash by (auto simp: list_all_iff)
  moreover have "\<forall>x\<in>set (ep_path_params e). encodeURIComponent (js_text fmt (arg p x)) \<in> set ?ws"
    using filled_holes [of _ s fmt p] unfolding s(2) by blast
  moreover have "?q = [] \<or> hd ?q = CHR ''?''" by simp
  ultimately show ?thesis using url given by blast
qed

theorem request_address_complete_witness:
  "\<exists>ws q. rq_url (createFetchParams toISOString \<lparr>basePath = ''http://h'', conf_headers = []\<rparr> getTopicDetails
         [(''clusterName'', VStr ''a/b''), (''topicName'', VStr ''t'')] NoPayload) = ''http://h'' @ path_text ws @ q
     \<and> (q = [] \<or> hd q = CHR ''?'') \<and> (\<forall>w\<in>set ws. CHR ''/'' \<notin> set w)
     \<and> (\<forall>x\<in>set [''clusterName'', ''topicName'']. \<not> nullish (arg [(''clusterName'', VStr ''a/b''), (''topicName'', VStr ''t'')] x)
       \<and> encodeURIComponent (js_text toISOString (arg [(''clusterName'', VStr ''a/b''), (''topicName'', VStr ''t'')] x)) \<in> set ws)"
proof -
  have "ep_path_params getTopicDetails = [''clusterName'', ''topicName'']" by (simp add: getTopicDetails_def)
  moreover have "build_request toISOString \<lparr>basePath = ''http://h'', conf_headers = []\<rparr> getTopicDetails
      [(''clusterName'', VStr ''a/b''), (''topicName'', VStr ''t'')]
    = Inr (createFetchParams toISOString \<lparr>basePath = ''http://h'', conf_headers = []\<rparr> getTopicDetails
      [(''clusterName'', VStr ''a/b''), (''topicName'', VStr ''t'')] NoPayload)"
    by (simp add: build_request_def getTopicDetails_def missing_param_def request_body_def arg_def get_prop_def nullish_def)
  ultimately show ?thesis
    using request_address_complete [OF operation_listed(1)] by (metis api_configuration.select_convs(1))
qed

end
