(* ===== verification/TopicForm.thy ===== *)
theory TopicForm
  imports ApiCodec ApiClient Dates "HOL-Library.Char_ord" "HOL-Library.List_Lexorder"
begin

text \<open>
  Creating and editing a topic: the validation of the form, the request each of the two pages
  sends, and what the server does to the settings of a topic that is edited
  (\<open>frontend/src/lib/yupExtended.ts\<close>, \<open>lib/hooks/api/topics.ts\<close>,
  \<open>components/Topics/Topic/Edit\<close>, and the difference of settings in
  \<open>internal/app/cluster/topic.go\<close>). The data of a form is an object whose members are texts,
  numbers and the list of custom parameters. There are no dates in it.
\<close>

section \<open>Validation\<close>

text \<open>
  The casts of the validation library: a text schema turns numbers and booleans into text, a
  number schema reads text without its white space. A missing value stays missing.
\<close>

definition yup_string :: "jsval \<Rightarrow> jsval option" where
  "yup_string v =
     (case v of
        VUndef \<Rightarrow> Some VUndef
      | VStr s \<Rightarrow> Some (VStr s)
      | VNum n \<Rightarrow> Some (VStr (show_num n))
      | VBool b \<Rightarrow> Some (VStr (if b then ''true'' else ''false''))
      | _ \<Rightarrow> None)"

definition yup_number :: "jsval \<Rightarrow> jsval option" where
  "yup_number v =
     (case v of
        VUndef \<Rightarrow> Some VUndef
      | VNum n \<Rightarrow> if n = NaN then None else Some (VNum n)
      | VStr s \<Rightarrow>
          (let t = filter (\<lambda>c. \<not> is_js_space c) s; n = js_Number t
           in if t = [] \<or> n = NaN then None else Some (VNum n))
      | _ \<Rightarrow> None)"

definition required_string :: "(string \<Rightarrow> bool) \<Rightarrow> jsval \<Rightarrow> jsval option" where
  "required_string ok v =
     (case yup_string v of
        Some (VStr s) \<Rightarrow> if s \<noteq> [] \<and> ok s then Some (VStr s) else None
      | _ \<Rightarrow> None)"

definition num_between :: "int \<Rightarrow> int \<Rightarrow> js_num \<Rightarrow> bool" where
  "num_between a b n = (case n of NaN \<Rightarrow> False | Dec m s \<Rightarrow> a * 10 ^ s \<le> m \<and> m \<le> b * 10 ^ s)"

definition required_number :: "(js_num \<Rightarrow> bool) \<Rightarrow> jsval \<Rightarrow> jsval option" where
  "required_number ok v =
     (case yup_number v of
        Some (VNum n) \<Rightarrow> if ok n then Some (VNum n) else None
      | _ \<Rightarrow> None)"

definition TOPIC_NAME_VALIDATION_PATTERN :: "string \<Rightarrow> bool" where
  "TOPIC_NAME_VALIDATION_PATTERN s \<longleftrightarrow> s \<noteq> [] \<and> list_all (\<lambda>c.
     let n = of_char c :: nat in 97 \<le> n \<and> n \<le> 122 \<or> 65 \<le> n \<and> n \<le> 90 \<or> is_digit c \<or> c \<in> set ''._-'') s"

definition custom_param :: "jsval \<Rightarrow> jsval option" where
  "custom_param v =
     (case v of
        VObj ms \<Rightarrow>
          (case (required_string (\<lambda>_. True) (get_prop v ''name''), required_string (\<lambda>_. True) (get_prop v ''value'')) of
             (Some n, Some x) \<Rightarrow> Some (VObj [(''name'', n), (''value'', x)])
           | _ \<Rightarrow> None)
      | _ \<Rightarrow> None)"

definition custom_params :: "jsval \<Rightarrow> jsval option" where
  "custom_params v =
     (case v of
        VUndef \<Rightarrow> Some VUndef
      | VArr xs \<Rightarrow>
          (case those (map custom_param xs) of
             Some ys \<Rightarrow> if distinct (map (\<lambda>y. get_prop y ''name'') ys) then Some (VArr ys) else None
           | None \<Rightarrow> None)
      | _ \<Rightarrow> None)"

definition topic_form_fields :: "(string \<times> (jsval \<Rightarrow> jsval option)) list" where
  "topic_form_fields =
     [(''name'', required_string (\<lambda>s. length s \<le> 249 \<and> TOPIC_NAME_VALIDATION_PATTERN s)),
      (''partitions'', required_number (num_between 1 2147483647)),
      (''replicationFactor'', yup_string), (''minInSyncReplicas'', yup_string),
      (''cleanupPolicy'', required_string (\<lambda>_. True)), (''retentionMs'', yup_string),
      (''retentionBytes'', yup_number), (''maxMessageBytes'', yup_string), (''customParams'', custom_params)]"

text \<open>The values the form hands to its submit handler, or \<open>None\<close> if a field is refused.\<close>

definition topicFormValidationSchema :: "args \<Rightarrow> args option" where
  "topicFormValidationSchema d = those (map (\<lambda>(n, check). map_option (Pair n) (check (arg d n))) topic_form_fields)"

section \<open>Creating a topic\<close>

text \<open>\<open>v.toString()\<close>.\<close>

definition to_string :: "jsval \<Rightarrow> string res" where
  "to_string v = (if nullish v then Inl TypeError else Inr (js_text toISOString v))"

definition topicReducer :: "jsval \<Rightarrow> (string \<times> jsval) list \<Rightarrow> (string \<times> jsval) list" where
  "topicReducer customParam result =
     AList.update (js_text toISOString (get_prop customParam ''name'')) (get_prop customParam ''value'') result"

text \<open>\<open>Object.values(customParams || {}).reduce(topicReducer, {})\<close>.\<close>

definition custom_configs :: "jsval \<Rightarrow> (string \<times> jsval) list" where
  "custom_configs v = fold topicReducer (case v of VArr xs \<Rightarrow> xs | VObj ms \<Rightarrow> map snd ms | _ \<Rightarrow> []) []"

definition formatTopicCreation :: "args \<Rightarrow> jsval res" where
  "formatTopicCreation form =
     bind_res (to_string (arg form ''retentionMs'')) (\<lambda>retentionMs.
     bind_res (to_string (arg form ''maxMessageBytes'')) (\<lambda>maxMessageBytes.
     bind_res (to_string (arg form ''minInSyncReplicas'')) (\<lambda>minInSyncReplicas.
       let configs = obj_spread
             [(''cleanup.policy'', arg form ''cleanupPolicy''), (''retention.ms'', VStr retentionMs),
              (''max.message.bytes'', VStr maxMessageBytes), (''min.insync.replicas'', VStr minInSyncReplicas)]
             (custom_configs (arg form ''customParams''));
           topicsvalue = [(''name'', arg form ''name''), (''partitions'', arg form ''partitions''),
             (''configs'', VObj (filter (\<lambda>(_, val). val \<noteq> VStr []) configs))]
       in bind_res (to_string (arg form ''replicationFactor'')) (\<lambda>t.
            Inr (VObj (if t \<noteq> [] then topicsvalue @ [(''replicationFactor'', arg form ''replicationFactor'')]
                       else topicsvalue))))))"

text \<open>The request of the page that creates topics.\<close>

definition useCreateTopicMutation :: "api_configuration \<Rightarrow> string \<Rightarrow> args \<Rightarrow> api_error + request" where
  "useCreateTopicMutation conf clusterName form =
     (case formatTopicCreation form of
        Inl e \<Rightarrow> Inl (Thrown e)
      | Inr v \<Rightarrow> build_request toISOString conf createTopic [(''clusterName'', VStr clusterName), (''topicCreation'', v)])"

section \<open>The validated form\<close>

lemma those_Cons_Some [simp]:
  "those (x # xs) = Some ys \<longleftrightarrow> (\<exists>z zs. x = Some z \<and> those xs = Some zs \<and> ys = z # zs)"
  by (auto split: option.splits)

declare those.simps(2) [simp del]

lemma those_map_Some: "those (map f xs) = Some ys \<longleftrightarrow> list_all2 (\<lambda>x y. f x = Some y) xs ys"
  by (induction xs arbitrary: ys) (auto simp: list_all2_Cons1)

text \<open>Every member of the validated data is the checked member of the form.\<close>

lemma validated_member:
  assumes "topicFormValidationSchema d = Some f" and "(n, check) \<in> set topic_form_fields"
  shows "check (arg d n) = Some (arg f n)"
proof -
  from assms(1) have l: "list_all2 (\<lambda>x y. (case x of (n, check) \<Rightarrow> map_option (Pair n) (check (arg d n))) = Some y) topic_form_fields f"
    by (simp only: topicFormValidationSchema_def those_map_Some)
  then have names: "map fst f = map fst topic_form_fields"
    by (induction rule: list_all2_induct) auto
  from assms(2) obtain i where i: "i < length topic_form_fields" "topic_form_fields ! i = (n, check)"
    by (metis in_set_conv_nth)
  with list_all2_nthD [OF l i(1)] obtain x where x: "check (arg d n) = Some x" "f ! i = (n, x)" by auto
  have "i < length f" using i(1) list_all2_lengthD [OF l] by simp
  with x have "(n, x) \<in> set f" by (metis nth_mem)
  moreover have "distinct (map fst f)" unfolding names by (simp add: topic_form_fields_def)
  ultimately have "arg f n = x" by (simp add: arg_def get_prop_def)
  with x show ?thesis by simp
qed

lemma validated_text:
  "topicFormValidationSchema d = Some f \<Longrightarrow> (n, yup_string) \<in> set topic_form_fields \<Longrightarrow> arg d n = VStr s \<Longrightarrow> arg f n = VStr s"
  using validated_member [of d f n yup_string] by (simp add: yup_string_def)

lemma required_stringD: "required_string ok v = Some w \<Longrightarrow> \<exists>s. w = VStr s \<and> s \<noteq> [] \<and> ok s"
  by (auto simp: required_string_def split: option.splits jsval.splits if_splits)

lemma required_numberD: "required_number ok v = Some w \<Longrightarrow> \<exists>n. w = VNum n \<and> ok n"
  by (auto simp: required_number_def split: option.splits jsval.splits if_splits)

text \<open>Validated custom parameters, as names with values.\<close>

fun param_of :: "string \<times> string \<Rightarrow> jsval" where
  "param_of (n, x) = VObj [(''name'', VStr n), (''value'', VStr x)]"

lemma custom_paramD: "custom_param v = Some w \<Longrightarrow> \<exists>p. w = param_of p \<and> fst p \<noteq> [] \<and> snd p \<noteq> []"
  by (force simp: custom_param_def split: jsval.splits option.splits dest: required_stringD)

lemma custom_params_list:
  "those (map custom_param xs) = Some ys \<Longrightarrow>
   \<exists>ps. ys = map param_of ps \<and> (\<forall>(n, x)\<in>set ps. n \<noteq> [] \<and> x \<noteq> [])"
proof (induction xs arbitrary: ys)
  case (Cons x xs)
  then obtain y ys' ps where "custom_param x = Some y" "ys = y # ys'" "ys' = map param_of ps"
    "\<forall>(n, x)\<in>set ps. n \<noteq> [] \<and> x \<noteq> []" by auto
  with custom_paramD [of x y] obtain p where "y = param_of p" "fst p \<noteq> []" "snd p \<noteq> []" by blast
  with \<open>ys = y # ys'\<close> \<open>ys' = map param_of ps\<close> \<open>\<forall>(n, x)\<in>set ps. n \<noteq> [] \<and> x \<noteq> []\<close> show ?case
    by (intro exI [of _ "p # ps"]) auto
qed simp

lemma custom_paramsD:
  assumes "custom_params v = Some w"
  shows "\<exists>ps. (w = VUndef \<and> ps = [] \<or> w = VArr (map param_of ps)) \<and> distinct (map fst ps)
    \<and> (\<forall>(n, x)\<in>set ps. n \<noteq> [] \<and> x \<noteq> [])"
proof (cases v)
  case (VArr xs)
  with assms obtain ys where ys: "those (map custom_param xs) = Some ys" "w = VArr ys"
    "distinct (map (\<lambda>y. get_prop y ''name'') ys)" by (auto simp: custom_params_def split: option.splits if_splits)
  from custom_params_list [OF ys(1)] obtain ps where ps: "ys = map param_of ps" "\<forall>(n, x)\<in>set ps. n \<noteq> [] \<and> x \<noteq> []" by blast
  have "map (\<lambda>y. get_prop y ''name'') ys = map VStr (map fst ps)" unfolding ps(1) by (auto simp: get_prop_def)
  with ys(3) have "distinct (map fst ps)" by (metis distinct_map)
  with ys(2) ps show ?thesis by blast
qed (use assms in \<open>auto simp: custom_params_def\<close>)

lemma custom_configs_params:
  assumes "w = VUndef \<and> ps = [] \<or> w = VArr (map param_of ps)" and "distinct (map fst ps)"
  shows "custom_configs w = map (\<lambda>(n, x). (n, VStr x)) ps"
proof -
  have "fold topicReducer (map param_of ps) acc = obj_spread acc (map (\<lambda>(n, x). (n, VStr x)) ps)" for acc
    unfolding obj_spread_def by (induction ps arbitrary: acc) (auto simp: topicReducer_def get_prop_def)
  moreover have "obj_spread [] (map (\<lambda>(n, x). (n, VStr x)) ps) = map (\<lambda>(n, x). (n, VStr x)) ps"
    using assms(2) by (simp add: obj_spread_fresh wf_obj_def split_def comp_def)
  ultimately show ?thesis using assms(1) by (auto simp: custom_configs_def)
qed

section \<open>What is created\<close>

text \<open>The custom parameters of a validated form.\<close>

definition form_params :: "args \<Rightarrow> (string \<times> string) list" where
  "form_params f =
     (case arg f ''customParams'' of
        VArr xs \<Rightarrow> map (\<lambda>y. (js_text toISOString (get_prop y ''name''), js_text toISOString (get_prop y ''value''))) xs
      | _ \<Rightarrow> [])"

lemma form_params_spec:
  assumes "topicFormValidationSchema d = Some f"
  shows "custom_configs (arg f ''customParams'') = map (\<lambda>(n, x). (n, VStr x)) (form_params f)"
    and "distinct (map fst (form_params f))" and "\<forall>(n, x)\<in>set (form_params f). n \<noteq> [] \<and> x \<noteq> []"
proof -
  have "custom_params (arg d ''customParams'') = Some (arg f ''customParams'')"
    by (rule validated_member [OF assms]) (simp add: topic_form_fields_def)
  from custom_paramsD [OF this] obtain ps
    where ps: "arg f ''customParams'' = VUndef \<and> ps = [] \<or> arg f ''customParams'' = VArr (map param_of ps)"
      and d: "distinct (map fst ps)" and ne: "\<forall>(n, x)\<in>set ps. n \<noteq> [] \<and> x \<noteq> []" by blast
  have "map (\<lambda>y. (js_text toISOString (get_prop y ''name''), js_text toISOString (get_prop y ''value''))) (map param_of ps) = ps"
    by (induction ps) (auto simp: get_prop_def)
  then have "form_params f = ps" using ps by (auto simp: form_params_def)
  with custom_configs_params [OF ps d] d ne
  show "custom_configs (arg f ''customParams'') = map (\<lambda>(n, x). (n, VStr x)) (form_params f)"
    and "distinct (map fst (form_params f))" and "\<forall>(n, x)\<in>set (form_params f). n \<noteq> [] \<and> x \<noteq> []" by simp_all
qed

definition creation_settings :: "string \<Rightarrow> string \<Rightarrow> string \<Rightarrow> string \<Rightarrow> (string \<times> string) list" where
  "creation_settings policy retention maxBytes minReplicas =
     [(''cleanup.policy'', policy), (''retention.ms'', retention), (''max.message.bytes'', maxBytes),
      (''min.insync.replicas'', minReplicas)]"

lemma creation_value:
  assumes "topicFormValidationSchema d = Some f" and "arg d ''retentionMs'' = VStr r" and "arg d ''maxMessageBytes'' = VStr m"
    and "arg d ''minInSyncReplicas'' = VStr i" and "arg d ''replicationFactor'' = VStr rf" and "arg f ''cleanupPolicy'' = VStr p"
  shows "formatTopicCreation f = Inr (VObj ([(''name'', arg f ''name''), (''partitions'', arg f ''partitions''),
      (''configs'', VObj (filter (\<lambda>(_, val). val \<noteq> VStr [])
         (map (\<lambda>(n, x). (n, VStr x)) (obj_spread (creation_settings p r m i) (form_params f)))))]
      @ (if rf \<noteq> [] then [(''replicationFactor'', VStr rf)] else [])))"
proof -
  have texts: "arg f ''retentionMs'' = VStr r" "arg f ''maxMessageBytes'' = VStr m" "arg f ''minInSyncReplicas'' = VStr i"
    "arg f ''replicationFactor'' = VStr rf"
    using assms by (auto intro!: validated_text [OF assms(1)] simp: topic_form_fields_def)
  have "obj_spread (map (\<lambda>(n, x). (n, VStr x)) a) (map (\<lambda>(n, x). (n, VStr x)) b) = map (\<lambda>(n, x). (n, VStr x)) (obj_spread a b)"
    for a b :: "(string \<times> string) list"
  proof -
    have "AList.update k (VStr v) (map (\<lambda>(n, x). (n, VStr x)) c) = map (\<lambda>(n, x). (n, VStr x)) (AList.update k v c)"
      for k :: string and v c by (induction c) auto
    then show ?thesis unfolding obj_spread_def by (induction b arbitrary: a) auto
  qed
  from this [of "creation_settings p r m i" "form_params f"]
  show ?thesis
    unfolding formatTopicCreation_def form_params_spec(1) [OF assms(1)] texts assms(6)
    by (simp add: to_string_def nullish_def creation_settings_def Let_def)
qed

lemma map_of_filter_values:
  "wf_obj ps \<Longrightarrow> map_of (filter (\<lambda>(_, v). P v) ps) k = (case map_of ps k of Some v \<Rightarrow> if P v then Some v else None | None \<Rightarrow> None)"
proof (induction ps)
  case (Cons p ps)
  obtain k' v where p: "p = (k', v)" by force
  with Cons.prems have "map_of ps k' = None" "wf_obj ps" by (auto simp: wf_obj_def map_of_eq_None_iff)
  with Cons.IH p show ?case by auto
qed simp

lemma map_of_texts: "map_of (map (\<lambda>(n, x). (n, VStr x)) ps) k = map_option VStr (map_of ps k)"
  by (induction ps) auto

lemma validated_policy:
  assumes "topicFormValidationSchema d = Some f"
  shows "\<exists>p. arg f ''cleanupPolicy'' = VStr p \<and> p \<noteq> []"
  using required_stringD [OF validated_member [OF assms, of "''cleanupPolicy''" "required_string (\<lambda>_. True)"]]
  by (auto simp: topic_form_fields_def)

text \<open>
  C16. The settings of a new topic. A validated form whose four text inputs are filled with texts
  becomes a request, and the settings in it are the custom parameters, where the form has any, and
  otherwise the policy, the retention time, the message size and the minimum of replicas, empty ones
  left out. Nothing else is sent; the maximal size of a partition the form asks for is not.
\<close>

theorem creation_settings_spec:
  assumes "topicFormValidationSchema d = Some f" and "arg d ''retentionMs'' = VStr r" and "arg d ''maxMessageBytes'' = VStr m"
    and "arg d ''minInSyncReplicas'' = VStr i" and "arg d ''replicationFactor'' = VStr rf"
  shows "\<exists>v p. formatTopicCreation f = Inr v \<and> arg f ''cleanupPolicy'' = VStr p
    \<and> (\<forall>k. get_prop (get_prop v ''configs'') k =
         (case map_of (form_params f) k of
            Some x \<Rightarrow> VStr x
          | None \<Rightarrow> (case map_of (creation_settings p r m i) k of
              Some s \<Rightarrow> if s = [] then VUndef else VStr s
            | None \<Rightarrow> VUndef)))"
proof -
  from validated_policy [OF assms(1)] obtain p where p: "arg f ''cleanupPolicy'' = VStr p" by blast
  let ?o = "obj_spread (creation_settings p r m i) (form_params f)"
  have "wf_obj (creation_settings p r m i)" by (simp add: wf_obj_def creation_settings_def)
  then have "wf_obj ?o" by (rule wf_obj_spread)
  moreover have "wf_obj (form_params f)" using form_params_spec(2) [OF assms(1)] by (simp add: wf_obj_def)
  ultimately have wf: "wf_obj ?o" "wf_obj (form_params f)" by simp_all
  from wf(1) have wf': "wf_obj (map (\<lambda>(n, x). (n, VStr x)) ?o)" by (simp add: wf_obj_def split_def comp_def)
  have ne: "x \<noteq> []" if "map_of (form_params f) k = Some x" for k x
    using form_params_spec(3) [OF assms(1)] map_of_SomeD [OF that] by auto
  have "get_prop (VObj (filter (\<lambda>(_, val). val \<noteq> VStr []) (map (\<lambda>(n, x). (n, VStr x)) ?o))) k =
         (case map_of (form_params f) k of
            Some x \<Rightarrow> VStr x
          | None \<Rightarrow> (case map_of (creation_settings p r m i) k of
              Some s \<Rightarrow> if s = [] then VUndef else VStr s
            | None \<Rightarrow> VUndef))" for k
    using ne [of k] by (simp add: get_prop_def map_of_filter_values [OF wf'] map_of_texts obj_get_spread [OF wf(2)] split: option.split)
  with creation_value [OF assms p] p show ?thesis by (simp add: get_prop_def [of "VObj (_ # _)"])
qed

text \<open>
  The form cannot ask for a replication factor: the request of a validated form has the type
  the interface declares exactly when the input of the replication factor was left empty. Otherwise
  the number is sent as a text, which the type does not allow.
\<close>

theorem creation_conforms:
  assumes "topicFormValidationSchema d = Some f" and "arg d ''retentionMs'' = VStr r" and "arg d ''maxMessageBytes'' = VStr m"
    and "arg d ''minInSyncReplicas'' = VStr i" and "arg d ''replicationFactor'' = VStr rf"
  shows "\<exists>v. formatTopicCreation f = Inr v \<and> (conforms valid TopicCreation_model v \<longleftrightarrow> rf = [])"
proof -
  from validated_policy [OF assms(1)] obtain p where p: "arg f ''cleanupPolicy'' = VStr p" by blast
  have checks: "(''name'', required_string (\<lambda>s. length s \<le> 249 \<and> TOPIC_NAME_VALIDATION_PATTERN s)) \<in> set topic_form_fields"
    "(''partitions'', required_number (num_between 1 2147483647)) \<in> set topic_form_fields"
    by (simp_all add: topic_form_fields_def)
  from required_stringD [OF validated_member [OF assms(1) checks(1)]] obtain s where name: "arg f ''name'' = VStr s" by blast
  from required_numberD [OF validated_member [OF assms(1) checks(2)]]
  obtain n where n: "arg f ''partitions'' = VNum n" "num_between 1 2147483647 n" by blast
  then have parts: "arg f ''partitions'' = VNum n" "n \<noteq> NaN" by (auto simp: num_between_def)
  have "list_all (\<lambda>(k, x). conforms valid TString x) (filter (\<lambda>(_, val). val \<noteq> VStr [])
      (map (\<lambda>(n, x). (n, VStr x)) (obj_spread (creation_settings p r m i) (form_params f))))"
    by (auto simp: list_all_iff)
  moreover have "conforms valid TString (VStr s)" by simp
  ultimately show ?thesis
    unfolding creation_value [OF assms p] name parts(1)
    using parts(2) by (cases "rf = []") (simp_all add: TopicCreation_model_def get_prop_def del: conforms.simps(1))
qed

text \<open>A form as it is filled in: a name, three partitions, two replicas.\<close>

definition filled_form :: args where
  "filled_form =
     [(''name'', VStr ''orders''), (''partitions'', VStr ''3''), (''replicationFactor'', VStr ''2''), (''minInSyncReplicas'', VStr ''''),
      (''cleanupPolicy'', VStr ''delete''), (''retentionMs'', VStr ''1000''), (''retentionBytes'', VNum (Dec 1073741824 0)),
      (''maxMessageBytes'', VStr ''''), (''customParams'', VArr [param_of (''preallocate'', ''true'')])]"

lemma filled_form_valid:
  "topicFormValidationSchema filled_form = Some (AList.update ''partitions'' (VNum (Dec 3 0)) filled_form)"
  by code_simp

lemma filled_form_texts:
  "arg filled_form ''retentionMs'' = VStr ''1000''" "arg filled_form ''maxMessageBytes'' = VStr ''''"
  "arg filled_form ''minInSyncReplicas'' = VStr ''''" "arg filled_form ''replicationFactor'' = VStr ''2''"
  by (simp_all add: filled_form_def arg_def get_prop_def)

theorem creation_settings_spec_witness:
  "\<exists>v p. formatTopicCreation (AList.update ''partitions'' (VNum (Dec 3 0)) filled_form) = Inr v \<and> p = ''delete''
    \<and> get_prop (get_prop v ''configs'') ''retention.ms'' = VStr ''1000''
    \<and> get_prop (get_prop v ''configs'') ''preallocate'' = VStr ''true''
    \<and> get_prop (get_prop v ''configs'') ''retention.bytes'' = VUndef"
proof -
  let ?f = "AList.update ''partitions'' (VNum (Dec 3 0)) filled_form"
  have policy: "arg ?f ''cleanupPolicy'' = VStr ''delete''" and params: "form_params ?f = [(''preallocate'', ''true'')]"
    by (simp_all add: filled_form_def arg_def get_prop_def form_params_def)
  from creation_settings_spec [OF filled_form_valid filled_form_texts] policy
  obtain v where v: "formatTopicCreation ?f = Inr v" and get: "\<And>k. get_prop (get_prop v ''configs'') k =
       (case map_of (form_params ?f) k of Some x \<Rightarrow> VStr x
        | None \<Rightarrow> (case map_of (creation_settings ''delete'' ''1000'' '''' '''') k of
            Some s \<Rightarrow> if s = [] then VUndef else VStr s | None \<Rightarrow> VUndef))" by auto
  show ?thesis by (intro exI [of _ v] exI [of _ "''delete''"]) (simp add: v get params creation_settings_def)
qed

theorem creation_conforms_witness:
  "\<exists>v. formatTopicCreation (AList.update ''partitions'' (VNum (Dec 3 0)) filled_form) = Inr v
    \<and> \<not> conforms four_digit_year TopicCreation_model v"
  using creation_conforms [OF filled_form_valid filled_form_texts, of four_digit_year] by auto

section \<open>Editing a topic\<close>

datatype ConfigSource = DYNAMIC_TOPIC_CONFIG | DYNAMIC_BROKER_LOGGER_CONFIG | DYNAMIC_BROKER_CONFIG
  | DYNAMIC_DEFAULT_BROKER_CONFIG | DYNAMIC_CLIENT_METRICS_CONFIG | STATIC_BROKER_CONFIG | DEFAULT_CONFIG | UNKNOWN_SOURCE

record TopicConfig =
  config_name :: string
  config_value :: "string option"
  defaultValue :: "string option"
  source :: "ConfigSource option"

record Topic =
  topic_name :: string
  partitionCount :: "int option"
  replicationFactor :: "int option"
  cleanUpPolicy :: "string option"

definition MILLISECONDS_IN_WEEK :: int where
  "MILLISECONDS_IN_WEEK = 604800000"

definition TOPIC_CUSTOM_PARAMS :: "(string \<times> string) list" where
  "TOPIC_CUSTOM_PARAMS =
     [(''compression.type'', ''producer''), (''leader.replication.throttled.replicas'', ''''),
      (''message.downconversion.enable'', ''true''), (''segment.jitter.ms'', ''0''),
      (''flush.ms'', ''9223372036854775807''), (''follower.replication.throttled.replicas'', ''''),
      (''segment.bytes'', ''1073741824''), (''flush.messages'', ''9223372036854775807''),
      (''message.format.version'', ''2.3-IV1''), (''file.delete.delay.ms'', ''60000''),
      (''max.compaction.lag.ms'', ''9223372036854775807''), (''min.compaction.lag.ms'', ''0''),
      (''message.timestamp.type'', ''CreateTime''), (''preallocate'', ''false''),
      (''min.cleanable.dirty.ratio'', ''0.5''), (''index.interval.bytes'', ''4096''),
      (''unclean.leader.election.enable'', ''true''), (''retention.bytes'', ''-1''),
      (''delete.retention.ms'', ''86400000''), (''segment.ms'', ''604800000''),
      (''message.timestamp.difference.max.ms'', ''9223372036854775807''), (''segment.index.bytes'', ''10485760'')]"

definition TOPIC_EDIT_FORM_DEFAULT_PROPS :: args where
  "TOPIC_EDIT_FORM_DEFAULT_PROPS =
     [(''partitions'', VNum (Dec 1 0)), (''replicationFactor'', VNum (Dec 1 0)), (''minInSyncReplicas'', VNum (Dec 1 0)),
      (''cleanupPolicy'', VStr ''delete''), (''retentionBytes'', VNum (Dec (- 1) 0)),
      (''retentionMs'', VNum (Dec MILLISECONDS_IN_WEEK 0)), (''maxMessageBytes'', VNum (Dec 1000012 0)),
      (''customParams'', VArr [])]"

definition lower_char :: "char \<Rightarrow> char" where
  "lower_char c = (let n = of_char c :: nat in if 65 \<le> n \<and> n \<le> 90 then char_of (n + 32) else c)"

definition CleanupPolicyOptions :: "string list" where
  "CleanupPolicyOptions = [''delete'', ''compact'', ''compact,delete'']"

definition getCleanUpPolicyValue :: "string option \<Rightarrow> string option" where
  "getCleanUpPolicyValue policy =
     (case policy of
        None \<Rightarrow> None
      | Some s \<Rightarrow> if s = [] then None
          else List.find (\<lambda>opt. replace_char (CHR '','') ''_'' opt = map lower_char s) CleanupPolicyOptions)"

text \<open>\<open>Number(config.find(...)?.value) || defaultValue\<close>.\<close>

definition getValue :: "TopicConfig list \<Rightarrow> string \<Rightarrow> int \<Rightarrow> js_num" where
  "getValue config fieldName fallback =
     (let n = (case List.find (\<lambda>c. config_name c = fieldName) config of
                 Some c \<Rightarrow> (case config_value c of Some s \<Rightarrow> js_Number s | None \<Rightarrow> NaN)
               | None \<Rightarrow> NaN)
      in if n = NaN \<or> n = Dec 0 0 then Dec fallback 0 else n)"

text \<open>
  The settings shown as custom parameters: those with a value other than their default, whose name
  has a default that is not empty in \<open>TOPIC_CUSTOM_PARAMS\<close>. No setting has the name of a member
  that objects inherit.
\<close>

definition shown_as_custom :: "TopicConfig \<Rightarrow> bool" where
  "shown_as_custom c \<longleftrightarrow> config_value c \<noteq> defaultValue c \<and> truthy (map_of TOPIC_CUSTOM_PARAMS (config_name c))"

definition opt_value :: "string option \<Rightarrow> jsval" where
  "opt_value x = (case x of Some s \<Rightarrow> VStr s | None \<Rightarrow> VUndef)"

definition topicParamsTransformer :: "Topic option \<Rightarrow> TopicConfig list option \<Rightarrow> args" where
  "topicParamsTransformer topic config =
     (case (topic, config) of
        (Some t, Some cs) \<Rightarrow>
          obj_spread TOPIC_EDIT_FORM_DEFAULT_PROPS
            [(''name'', VStr (topic_name t)),
             (''replicationFactor'', case replicationFactor t of Some r \<Rightarrow> VNum (Dec r 0) | None \<Rightarrow> VUndef),
             (''partitions'', VNum (Dec (case partitionCount t of Some p \<Rightarrow> if p = 0 then 1 else p | None \<Rightarrow> 1) 0)),
             (''cleanupPolicy'', VStr (or_default (getCleanUpPolicyValue (cleanUpPolicy t)) ''delete'')),
             (''maxMessageBytes'', VNum (getValue cs ''max.message.bytes'' 1000012)),
             (''minInSyncReplicas'', VNum (getValue cs ''min.insync.replicas'' 1)),
             (''retentionBytes'', VNum (getValue cs ''retention.bytes'' (- 1))),
             (''retentionMs'', VNum (getValue cs ''retention.ms'' MILLISECONDS_IN_WEEK)),
             (''customParams'', VArr (map (\<lambda>c. VObj [(''name'', VStr (config_name c)), (''value'', opt_value (config_value c))])
                (filter shown_as_custom cs)))]
      | _ \<Rightarrow> TOPIC_EDIT_FORM_DEFAULT_PROPS)"

text \<open>
  The submit handler of the page keeps the entries that differ from what was shown, or whose key is
  not the name of a setting with its default value.
\<close>

definition onSubmit :: "args \<Rightarrow> TopicConfig list \<Rightarrow> args \<Rightarrow> args" where
  "onSubmit defaultValues config data =
     filter (\<lambda>(key, val).
       let isDirty = js_text toISOString val \<noteq> js_text toISOString (arg defaultValues key);
           isDefaultConfig = Option.bind (map_of (rev (map (\<lambda>c. (config_name c, c)) config)) key) source = Some DEFAULT_CONFIG
       in isDirty \<or> \<not> isDefaultConfig) data"

definition formatTopicUpdate :: "args \<Rightarrow> jsval" where
  "formatTopicUpdate form =
     VObj [(''configs'', VObj (obj_spread (custom_configs (arg form ''customParams''))
       [(''cleanup.policy'', arg form ''cleanupPolicy''), (''retention.ms'', arg form ''retentionMs''),
        (''retention.bytes'', arg form ''retentionBytes''), (''max.message.bytes'', arg form ''maxMessageBytes''),
        (''min.insync.replicas'', arg form ''minInSyncReplicas'')]))]"

section \<open>The settings of an edited topic on the server\<close>

text \<open>
  The server turns scalar values into text and then compares the settings that were sent, as all
  the dynamic settings the topic shall have, with its current ones. \<open>None\<close> is a value to leave
  out; nested values are refused. The operations are ordered by name.
\<close>

definition coerceConfigValue :: "json \<Rightarrow> string option res" where
  "coerceConfigValue raw =
     (case raw of
        JNull \<Rightarrow> Inr None
      | JStr s \<Rightarrow> Inr (Some s)
      | JNum n \<Rightarrow> Inr (Some (show_num n))
      | JBool b \<Rightarrow> Inr (Some (if b then ''true'' else ''false''))
      | _ \<Rightarrow> Inl (ErrorMsg ''config value must be a string, number, or boolean, not an object/array''))"

primrec coerceConfigMap :: "(string \<times> json) list \<Rightarrow> (string \<times> string) list res" where
  "coerceConfigMap [] = Inr []"
| "coerceConfigMap (p # ps) =
     bind_res (coerceConfigValue (snd p)) (\<lambda>v. bind_res (coerceConfigMap ps) (\<lambda>out.
       Inr (case v of Some s \<Rightarrow> (fst p, s) # out | None \<Rightarrow> out)))"

datatype configOp = SetConfig string string | UnsetConfig string

fun op_name :: "configOp \<Rightarrow> string" where
  "op_name (SetConfig name value) = name"
| "op_name (UnsetConfig name) = name"

definition configOps :: "TopicConfig list \<Rightarrow> (string \<times> string) list \<Rightarrow> configOp list" where
  "configOps current desired = sort_key op_name (
     map (\<lambda>(name, value). SetConfig name value)
       (filter (\<lambda>(name, value). \<not> (\<exists>c\<in>set current. config_name c = name \<and> config_value c = Some value)) desired)
     @ map (\<lambda>c. UnsetConfig (config_name c))
       (filter (\<lambda>c. source c = Some DYNAMIC_TOPIC_CONFIG \<and> config_name c \<notin> fst ` set desired) current))"

definition UpdateTopic :: "TopicConfig list \<Rightarrow> jsval \<Rightarrow> configOp list res" where
  "UpdateTopic current topicUpdate =
     (case to_wire toISOString topicUpdate of
        Some (JObj ms) \<Rightarrow>
          (case map_of ms ''configs'' of
             Some (JObj cs) \<Rightarrow> bind_res (coerceConfigMap cs) (\<lambda>desired. Inr (configOps current desired))
           | None \<Rightarrow> Inr (configOps current [])
           | _ \<Rightarrow> Inl SyntaxError)
      | _ \<Rightarrow> Inl SyntaxError)"

text \<open>Opening the page and submitting it as it is.\<close>

definition unchanged_edit :: "Topic \<Rightarrow> TopicConfig list \<Rightarrow> args \<Rightarrow> configOp list res" where
  "unchanged_edit topic config data =
     UpdateTopic config (formatTopicUpdate (onSubmit (topicParamsTransformer (Some topic) (Some config)) config data))"

text \<open>The five settings the form always sends, with the texts it shows for them.\<close>

definition shown_settings :: "Topic \<Rightarrow> TopicConfig list \<Rightarrow> (string \<times> string) list" where
  "shown_settings topic config =
     [(''cleanup.policy'', or_default (getCleanUpPolicyValue (cleanUpPolicy topic)) ''delete''),
      (''retention.ms'', show_num (getValue config ''retention.ms'' MILLISECONDS_IN_WEEK)),
      (''retention.bytes'', show_num (getValue config ''retention.bytes'' (- 1))),
      (''max.message.bytes'', show_num (getValue config ''max.message.bytes'' 1000012)),
      (''min.insync.replicas'', show_num (getValue config ''min.insync.replicas'' 1))]"

lemma getValue_number: "getValue config n d \<noteq> NaN"
  by (simp add: getValue_def Let_def)

lemma edit_defaults:
  "arg (topicParamsTransformer (Some t) (Some cs)) ''cleanupPolicy''
     = VStr (or_default (getCleanUpPolicyValue (cleanUpPolicy t)) ''delete'')"
  "arg (topicParamsTransformer (Some t) (Some cs)) ''retentionMs'' = VNum (getValue cs ''retention.ms'' MILLISECONDS_IN_WEEK)"
  "arg (topicParamsTransformer (Some t) (Some cs)) ''retentionBytes'' = VNum (getValue cs ''retention.bytes'' (- 1))"
  "arg (topicParamsTransformer (Some t) (Some cs)) ''maxMessageBytes'' = VNum (getValue cs ''max.message.bytes'' 1000012)"
  "arg (topicParamsTransformer (Some t) (Some cs)) ''minInSyncReplicas'' = VNum (getValue cs ''min.insync.replicas'' 1)"
  "arg (topicParamsTransformer (Some t) (Some cs)) ''customParams''
     = VArr (map (\<lambda>c. VObj [(''name'', VStr (config_name c)), (''value'', opt_value (config_value c))]) (filter shown_as_custom cs))"
  by (simp_all add: topicParamsTransformer_def TOPIC_EDIT_FORM_DEFAULT_PROPS_def obj_spread_def arg_def get_prop_def)

lemma shown_params:
  "those (map custom_param (map (\<lambda>c. VObj [(''name'', VStr (config_name c)), (''value'', opt_value (config_value c))]) cs)) = Some ys \<Longrightarrow>
   ys = map (\<lambda>c. param_of (config_name c, the (config_value c))) cs \<and> (\<forall>c\<in>set cs. config_value c \<noteq> None)"
proof (induction cs arbitrary: ys)
  case (Cons c cs)
  then show ?case
    by (cases "config_value c")
      (auto simp: custom_param_def get_prop_def opt_value_def required_string_def yup_string_def split: option.splits if_splits)
qed simp

lemma validated_keys: "topicFormValidationSchema d = Some f \<Longrightarrow> fst ` set f = fst ` set topic_form_fields"
proof -
  assume "topicFormValidationSchema d = Some f"
  then have "list_all2 (\<lambda>x y. (case x of (n, check) \<Rightarrow> map_option (Pair n) (check (arg d n))) = Some y) topic_form_fields f"
    by (simp only: topicFormValidationSchema_def those_map_Some)
  then have "map fst f = map fst topic_form_fields" by (induction rule: list_all2_induct) auto
  then show ?thesis by (metis set_map)
qed

lemma shown_have_values:
  assumes "topicFormValidationSchema (topicParamsTransformer (Some t) (Some cs)) = Some f"
    and "c \<in> set cs" and "shown_as_custom c"
  shows "config_value c \<noteq> None"
proof -
  have "custom_params (arg (topicParamsTransformer (Some t) (Some cs)) ''customParams'') = Some (arg f ''customParams'')"
    by (rule validated_member [OF assms(1)]) (simp add: topic_form_fields_def)
  then show ?thesis
    using shown_params [of "filter shown_as_custom cs"] assms(2,3)
    by (auto simp: edit_defaults custom_params_def comp_def split: option.splits if_splits)
qed

text \<open>No setting has the name of a field, so nothing is filtered out.\<close>

lemma nothing_filtered:
  assumes "topicFormValidationSchema d = Some f" and "\<forall>c\<in>set cs. config_name c \<notin> fst ` set topic_form_fields"
  shows "onSubmit dv cs f = f"
proof -
  have "map_of (rev (map (\<lambda>c. (config_name c, c)) cs)) key = None" if "(key, b) \<in> set f" for key b
  proof -
    from that have "key \<in> fst ` set f" by force
    with assms(2) have "key \<notin> config_name ` set cs" unfolding validated_keys [OF assms(1)] by blast
    then show ?thesis by (simp add: map_of_eq_None_iff image_image)
  qed
  then show ?thesis by (simp add: onSubmit_def filter_id_conv Let_def split_def) force
qed

lemma coerced_texts: "coerceConfigMap (map (\<lambda>(n, x). (n, JStr x)) ps) = Inr ps"
  by (induction ps) (auto simp: coerceConfigValue_def)

definition wire_text :: "jsval \<Rightarrow> string \<Rightarrow> bool" where
  "wire_text v s \<longleftrightarrow> v = VStr s \<or> (\<exists>n. v = VNum n \<and> n \<noteq> NaN \<and> s = show_num n)"

definition sent_as :: "string \<times> jsval \<Rightarrow> string \<times> string \<Rightarrow> bool" where
  "sent_as p q \<longleftrightarrow> fst p = fst q \<and> wire_text (snd p) (snd q)"

lemma coerced_wire:
  assumes "list_all2 sent_as vs ps"
  shows "coerceConfigMap (concat (map (\<lambda>(k, v). case to_wire toISOString v of Some j \<Rightarrow> [(k, j)] | None \<Rightarrow> []) vs)) = Inr ps"
  using assms by (induction rule: list_all2_induct) (auto simp: sent_as_def wire_text_def coerceConfigValue_def)

lemma sent_as_pair [simp]: "sent_as (k, v) (k', s) \<longleftrightarrow> k = k' \<and> wire_text v s"
  by (simp add: sent_as_def)

lemma sent_as_update:
  "list_all2 sent_as a b \<Longrightarrow> wire_text v s \<Longrightarrow> list_all2 sent_as (AList.update k v a) (AList.update k s b)"
  by (induction rule: list_all2_induct) auto

lemma sent_as_spread:
  "list_all2 sent_as b b' \<Longrightarrow> list_all2 sent_as a a' \<Longrightarrow> list_all2 sent_as (obj_spread a b) (obj_spread a' b')"
  unfolding obj_spread_def
proof (induction arbitrary: a a' rule: list_all2_induct)
  case (Cons p ps q qs)
  then show ?case using sent_as_update [OF Cons.prems, of "snd p" "snd q" "fst p"]
    by (cases p; cases q) simp
qed simp

text \<open>What the server is asked for by a page that was not changed.\<close>

lemma unchanged_desired:
  assumes "topicFormValidationSchema (topicParamsTransformer (Some t) (Some cs)) = Some f"
    and "\<forall>c\<in>set cs. config_name c \<notin> fst ` set topic_form_fields"
  shows "unchanged_edit t cs f = Inr (configOps cs
    (obj_spread (map (\<lambda>c. (config_name c, the (config_value c))) (filter shown_as_custom cs)) (shown_settings t cs)))"
proof -
  let ?d = "topicParamsTransformer (Some t) (Some cs)"
  let ?ps = "map (\<lambda>c. (config_name c, the (config_value c))) (filter shown_as_custom cs)"
  have fields: "(''cleanupPolicy'', required_string (\<lambda>_. True)) \<in> set topic_form_fields"
    "(''retentionMs'', yup_string) \<in> set topic_form_fields" "(''retentionBytes'', yup_number) \<in> set topic_form_fields"
    "(''maxMessageBytes'', yup_string) \<in> set topic_form_fields" "(''minInSyncReplicas'', yup_string) \<in> set topic_form_fields"
    "(''customParams'', custom_params) \<in> set topic_form_fields" by (simp_all add: topic_form_fields_def)
  note checked = fields [THEN validated_member [OF assms(1)], unfolded edit_defaults]
  obtain p where p: "or_default (getCleanUpPolicyValue (cleanUpPolicy t)) ''delete'' = p" by blast
  have vals: "arg f ''cleanupPolicy'' = VStr p"
    "arg f ''retentionMs'' = VStr (show_num (getValue cs ''retention.ms'' MILLISECONDS_IN_WEEK))"
    "arg f ''retentionBytes'' = VNum (getValue cs ''retention.bytes'' (- 1))"
    "arg f ''maxMessageBytes'' = VStr (show_num (getValue cs ''max.message.bytes'' 1000012))"
    "arg f ''minInSyncReplicas'' = VStr (show_num (getValue cs ''min.insync.replicas'' 1))"
    using checked(1-5) unfolding p
    by (simp_all add: required_string_def yup_string_def yup_number_def getValue_number split: if_splits)
  have sent: "list_all2 sent_as
      [(''cleanup.policy'', arg f ''cleanupPolicy''), (''retention.ms'', arg f ''retentionMs''),
       (''retention.bytes'', arg f ''retentionBytes''), (''max.message.bytes'', arg f ''maxMessageBytes''),
       (''min.insync.replicas'', arg f ''minInSyncReplicas'')] (shown_settings t cs)"
    unfolding vals shown_settings_def p by (simp add: sent_as_def wire_text_def getValue_number)
  have "arg f ''customParams'' = VArr (map param_of ?ps)"
    using checked(6) shown_params [of "filter shown_as_custom cs"]
    by (auto simp: custom_params_def comp_def split: option.splits if_splits)
  then have "form_params f = ?ps" by (simp add: form_params_def get_prop_def comp_def)
  with form_params_spec [OF assms(1)] have custom: "custom_configs (arg f ''customParams'') = map (\<lambda>(n, x). (n, VStr x)) ?ps"
    and d: "distinct (map fst ?ps)" by simp_all
  have "list_all2 sent_as (map (\<lambda>(n, x). (n, VStr x)) ps) ps" for ps
    by (induction ps) (auto simp: sent_as_def wire_text_def)
  from coerced_wire [OF sent_as_spread [OF sent this [of ?ps]]] show ?thesis
    by (simp add: unchanged_edit_def nothing_filtered [OF assms] UpdateTopic_def formatTopicUpdate_def custom)
qed

lemma configOps_Unset:
  "UnsetConfig n \<in> set (configOps cs desired)
   \<longleftrightarrow> (\<exists>c\<in>set cs. config_name c = n \<and> source c = Some DYNAMIC_TOPIC_CONFIG) \<and> n \<notin> fst ` set desired"
  by (auto simp: configOps_def)

lemma configOps_Set:
  "SetConfig n v \<in> set (configOps cs desired)
   \<longleftrightarrow> (n, v) \<in> set desired \<and> \<not> (\<exists>c\<in>set cs. config_name c = n \<and> config_value c = Some v)"
  by (auto simp: configOps_def)

lemma wf_obj_in: "wf_obj ps \<Longrightarrow> (n, v) \<in> set ps \<longleftrightarrow> map_of ps n = Some v"
  by (simp add: wf_obj_def)


text \<open>A topic that keeps nothing, with a throttled replica.\<close>

definition edited_topic :: Topic where
  "edited_topic = \<lparr>topic_name = ''orders'', partitionCount = Some 3, replicationFactor = Some 2, cleanUpPolicy = Some ''DELETE''\<rparr>"

definition edited_configs :: "TopicConfig list" where
  "edited_configs =
     [\<lparr>config_name = ''retention.ms'', config_value = Some ''0'', defaultValue = Some ''604800000'', source = Some DYNAMIC_TOPIC_CONFIG\<rparr>,
      \<lparr>config_name = ''leader.replication.throttled.replicas'', config_value = Some ''1:2'', defaultValue = Some [],
       source = Some DYNAMIC_TOPIC_CONFIG\<rparr>]"


end
