(* ===== verification/CustomParams.thy ===== *)
theory CustomParams
  imports TopicForm
begin

text \<open>
  The list of custom parameters in the form of a topic
  (\<open>frontend/src/components/Topics/shared/Form/CustomParams\<close>): its rows, the names taken so
  far, and the reactions to adding a row, changing its name or value, and removing it. The name
  of a row changes with every key typed or with an option chosen; the effect that follows is part
  of the same step. A position outside the list changes nothing.
\<close>

section \<open>State and steps\<close>

text \<open>A row with the name its effect saw last; a missing value is \<open>None\<close>.\<close>

record param_row =
  row_name :: string
  row_value :: "string option"
  prevName :: string

record params =
  param_rows :: "param_row list"
  existingFields :: "string list"

datatype params_event = AppendParam | ChangeName nat string | ChangeValue nat string | RemoveParam nat

text \<open>The parameters a form is opened with.\<close>

definition mount_params :: "(string \<times> string option) list \<Rightarrow> params" where
  "mount_params ps = \<lparr>param_rows = map (\<lambda>(n, v). \<lparr>row_name = n, row_value = v, prevName = n\<rparr>) ps, existingFields = []\<rparr>"

text \<open>\<open>existingFields.splice(existingFields.indexOf(name), 1)\<close>.\<close>

definition removeField :: "nat \<Rightarrow> params \<Rightarrow> params" where
  "removeField index s =
     (let name = row_name (param_rows s ! index)
      in if name \<in> set (existingFields s)
         then s\<lparr>existingFields := remove1 name (existingFields s),
                param_rows := take index (param_rows s) @ drop (Suc index) (param_rows s)\<rparr>
         else s)"

text \<open>The effect of a row: only if the name is not the one it saw last.\<close>

definition name_effect :: "nat \<Rightarrow> params \<Rightarrow> params" where
  "name_effect index s =
     (let row = param_rows s ! index; nameValue = row_name row
      in if nameValue = prevName row then s
         else s\<lparr>existingFields :=
                  (if prevName row \<noteq> [] then filter (\<lambda>name. name \<noteq> prevName row) (existingFields s) else existingFields s) @ [nameValue],
                param_rows := (param_rows s)[index := row\<lparr>prevName := nameValue, row_value := map_of TOPIC_CUSTOM_PARAMS nameValue\<rparr>]\<rparr>)"

fun params_step :: "params_event \<Rightarrow> params \<Rightarrow> params" where
  "params_step AppendParam s = s\<lparr>param_rows := param_rows s @ [\<lparr>row_name = [], row_value = Some [], prevName = []\<rparr>]\<rparr>"
| "params_step (ChangeName i n) s =
     (if i < length (param_rows s)
      then name_effect i (s\<lparr>param_rows := (param_rows s)[i := (param_rows s ! i)\<lparr>row_name := n\<rparr>]\<rparr>) else s)"
| "params_step (ChangeValue i v) s =
     (if i < length (param_rows s)
      then s\<lparr>param_rows := (param_rows s)[i := (param_rows s ! i)\<lparr>row_value := Some v\<rparr>]\<rparr> else s)"
| "params_step (RemoveParam i) s = (if i < length (param_rows s) then removeField i s else s)"

section \<open>Removing a parameter\<close>

text \<open>Events whose new names are among \<open>N\<close>.\<close>

fun names_in :: "string set \<Rightarrow> params_event \<Rightarrow> bool" where
  "names_in N (ChangeName i n) \<longleftrightarrow> n \<in> N"
| "names_in N _ \<longleftrightarrow> True"

lemma name_effect_existing: "set (existingFields (name_effect i s)) \<subseteq> insert (row_name (param_rows s ! i)) (set (existingFields s))"
  by (auto simp: name_effect_def Let_def)

interpretation taken: machine params_step "names_in N" "\<lambda>s :: params. set (existingFields s) \<subseteq> N" for N
proof
  fix e and s :: params
  assume "names_in N e" and inv: "set (existingFields s) \<subseteq> N"
  then show "set (existingFields (params_step e s)) \<subseteq> N"
  proof (cases e)
    case (ChangeName i n)
    with \<open>names_in N e\<close> inv name_effect_existing [of i "s\<lparr>param_rows := (param_rows s)[i := (param_rows s ! i)\<lparr>row_name := n\<rparr>]\<rparr>"]
    show ?thesis by auto
  next
    case (RemoveParam i)
    with inv show ?thesis by (auto simp: removeField_def Let_def dest: notin_set_remove1)
  qed auto
qed

text \<open>
  The button that removes a parameter works only for names entered since the form was opened:
  in any state reached from the parameters of a topic, removing a row whose name was never entered
  does nothing. So the parameters a topic has, and rows just added, cannot be removed.
\<close>

theorem remove_needs_entered_name:
  assumes "i < length (param_rows s)" and "s = fold params_step es (mount_params ps)"
    and "\<forall>j. ChangeName j (row_name (param_rows s ! i)) \<notin> set es"
  shows "params_step (RemoveParam i) s = s"
proof -
  let ?N = "- {row_name (param_rows s ! i)}"
  have "list_all (names_in ?N) es"
    unfolding list_all_iff
  proof
    fix e
    assume "e \<in> set es"
    with assms(3) show "names_in ?N e" by (cases e) auto
  qed
  moreover have "set (existingFields (mount_params ps)) \<subseteq> ?N" by (simp add: mount_params_def)
  ultimately have "set (existingFields s) \<subseteq> ?N" unfolding assms(2) by (rule taken.inv_run)
  with assms(1) show ?thesis by (auto simp: removeField_def Let_def)
qed

text \<open>Two rows of a topic: the button of the first does nothing, even after the second was renamed.\<close>

theorem remove_needs_entered_name_witness:
  "let s = fold params_step [ChangeName 1 ''segment.ms''] (mount_params [(''preallocate'', Some ''true''), (''flush.ms'', Some ''1'')])
   in params_step (RemoveParam 0) s = s"
  unfolding Let_def
  by (rule remove_needs_entered_name [where es = "[ChangeName 1 ''segment.ms'']" and ps = "[(''preallocate'', Some ''true''), (''flush.ms'', Some ''1'')]"])
    (auto simp: mount_params_def name_effect_def Let_def)

text \<open>A row that was just given a name can be removed, and then the others are as before.\<close>

lemma remove_entered_name:
  assumes "i < length (param_rows s)" and "n \<noteq> prevName (param_rows s ! i)"
  shows "param_rows (params_step (RemoveParam i) (params_step (ChangeName i n) s))
    = take i (param_rows s) @ drop (Suc i) (param_rows s)"
  using assms by (simp add: name_effect_def removeField_def Let_def)

text \<open>Renaming one of two rows with the same name makes the other one stay.\<close>

lemma duplicate_name_stuck:
  "let s = fold params_step [AppendParam, ChangeName 0 ''flush.ms'', AppendParam, ChangeName 1 ''flush.ms'', ChangeName 1 ''segment.ms'']
     (mount_params [])
   in params_step (RemoveParam 0) s = s"
  by (simp add: mount_params_def name_effect_def removeField_def Let_def)

end
