(* ===== verification/Formatting.thy ===== *)
theory Formatting
  imports Prelude
begin

text \<open>
  The helpers that show amounts: bytes (\<open>frontend/src/components/common/BytesFormatted\<close>),
  durations (\<open>components/common/DurationFormatted\<close> and \<open>lib/dateTimeHelpers.ts\<close>), and the
  comparison of versions (\<open>components/Version/compareVersions.ts\<close>). Amounts are whole numbers
  with exact arithmetic; the base-two logarithm of the platform is exact below \<open>2 ^ 48\<close>, and
  just below higher powers of two it is rounded up.
\<close>

section \<open>Amounts\<close>

datatype amount = Text string | Number int | NotANumber | Absent

text \<open>\<open>typeof value === 'string' ? parseInt(value, 10) : value\<close>; \<open>None\<close> is \<open>NaN\<close>.\<close>

fun amount_number :: "amount \<Rightarrow> int option" where
  "amount_number (Text s) = js_parseInt s"
| "amount_number (Number n) = Some n"
| "amount_number NotANumber = None"
| "amount_number Absent = None"

definition sizes :: "string list" where
  "sizes = [''Bytes'', ''KB'', ''MB'', ''GB'', ''TB'', ''PB'', ''EB'', ''ZB'', ''YB'']"

text \<open>\<open>Math.floor(Math.log2(bytes) / 10)\<close>.\<close>

fun log1024 :: "nat \<Rightarrow> nat" where
  "log1024 n = (if n < 1024 then 0 else Suc (log1024 (n div 1024)))"

declare log1024.simps [simp del]

text \<open>\<open>Math.round(a / b)\<close> for whole numbers: the nearest one, halves upwards.\<close>

definition round_div :: "nat \<Rightarrow> nat \<Rightarrow> nat" where
  "round_div a b = (2 * a + b) div (2 * b)"

text \<open>The number shown, in units of \<open>10 ^ - precision\<close>, and the index of its size.\<close>

definition scaled_bytes :: "nat \<Rightarrow> nat \<Rightarrow> nat \<times> nat" where
  "scaled_bytes precision bytes =
     (if bytes < 1024 then (bytes * 10 ^ precision, 0)
      else let pow = log1024 bytes in (round_div (bytes * 10 ^ precision) (1024 ^ pow), pow))"

definition formatBytes :: "nat \<Rightarrow> amount \<Rightarrow> string" where
  "formatBytes precision v =
     (case (v, amount_number v) of
        (Absent, _) \<Rightarrow> ''0 Bytes''
      | (_, None) \<Rightarrow> ''-Bytes''
      | (_, Some b) \<Rightarrow>
          if b < 0 then ''-Bytes''
          else let (n, pow) = scaled_bytes precision (nat b)
               in show_num (mk_dec (int n) precision) @ '' ''
                  @ (if pow < length sizes then sizes ! pow else ''undefined''))"

lemma log1024_spec: "0 < n \<Longrightarrow> 1024 ^ log1024 n \<le> n \<and> n < 1024 ^ Suc (log1024 n)"
proof (induction n rule: log1024.induct)
  case (1 n)
  show ?case
  proof (cases "n < 1024")
    case False
    then have "0 < n div 1024" by (simp add: div_greater_zero_iff)
    with 1 False have ih: "1024 ^ log1024 (n div 1024) \<le> n div 1024" "n div 1024 < 1024 ^ Suc (log1024 (n div 1024))" by simp_all
    have l: "log1024 n = Suc (log1024 (n div 1024))" using False by (simp add: log1024.simps [of n])
    have "1024 * 1024 ^ log1024 (n div 1024) \<le> 1024 * (n div 1024)" using ih(1) by (rule mult_le_mono2)
    also have "\<dots> \<le> n" by simp
    finally have lo: "1024 ^ log1024 n \<le> n" by (simp add: l)
    from ih(2) have "n < 1024 * 1024 ^ Suc (log1024 (n div 1024))" by (simp add: div_less_iff_less_mult mult.commute)
    with lo show ?thesis by (simp add: l)
  qed (use 1 in \<open>simp add: log1024.simps [of n]\<close>)
qed

text \<open>Rounding is off by at most half.\<close>

lemma round_div_bounds:
  assumes "0 < b"
  shows "2 * a \<le> 2 * b * round_div a b + b" and "2 * b * round_div a b \<le> 2 * a + b"
proof -
  have "2 * b * round_div a b + (2 * a + b) mod (2 * b) = 2 * a + b" unfolding round_div_def by (rule mult_div_mod_eq)
  moreover have "(2 * a + b) mod (2 * b) < 2 * b" using assms by simp
  ultimately show "2 * a \<le> 2 * b * round_div a b + b" "2 * b * round_div a b \<le> 2 * a + b" by linarith+
qed

lemma round_div_between:
  assumes "0 < b" and "b * l \<le> a" and "a < b * u"
  shows "l \<le> round_div a b" and "round_div a b \<le> u"
proof -
  have "2 * b * l \<le> 2 * a + b" using assms(2) by simp
  then show "l \<le> round_div a b" unfolding round_div_def using assms(1)
    by (simp add: less_eq_div_iff_mult_less_eq mult.commute mult.left_commute)
  have "2 * a + b < 2 * b * Suc u" using assms(1,3) by simp
  then have "round_div a b < Suc u" unfolding round_div_def using assms(1)
    by (simp add: div_less_iff_less_mult mult.commute mult.left_commute)
  then show "round_div a b \<le> u" by simp
qed



section \<open>Durations\<close>

definition timeUnits :: "(string \<times> nat) list" where
  "timeUnits = [(''year'', 31536000000), (''week'', 604800000), (''day'', 86400000), (''hour'', 3600000),
     (''minute'', 60000), (''second'', 1000)]"

text \<open>The units shown of a number of milliseconds, with their counts; none below a second.\<close>

fun duration_in :: "(string \<times> nat) list \<Rightarrow> nat \<Rightarrow> (nat \<times> string \<times> nat) list" where
  "duration_in [] ms = []"
| "duration_in ((u, unitMs) # us) ms =
     (if unitMs \<le> ms
      then (ms div unitMs, u, unitMs)
        # (case us of
             [] \<Rightarrow> []
           | (next_unit, nextMs) # _ \<Rightarrow>
               (let nextCount = ms mod unitMs div nextMs in if nextCount > 0 then [(nextCount, next_unit, nextMs)] else []))
      else duration_in us ms)"

definition duration_parts :: "nat \<Rightarrow> (nat \<times> string \<times> nat) list" where
  "duration_parts ms = duration_in timeUnits ms"

definition formatDuration :: "amount \<Rightarrow> string" where
  "formatDuration v =
     (case amount_number v of
        None \<Rightarrow> ''0 ms''
      | Some ms \<Rightarrow>
          if ms < 0 then show_int ms
          else if duration_parts (nat ms) = [] then show_int ms @ '' ms''
          else join '' '' (map (\<lambda>(count, u, _). show_nat count @ '' '' @ u @ (if count \<noteq> 1 then ''s'' else [])) (duration_parts (nat ms))))"

definition shown_time :: "(nat \<times> string \<times> nat) list \<Rightarrow> nat" where
  "shown_time parts = sum_list (map (\<lambda>(count, _, unitMs). count * unitMs) parts)"

lemma duration_here:
  assumes "U \<le> ms" and "0 < U" and "\<forall>(_, a)\<in>set us. 0 < a"
  shows "shown_time (duration_in ((u, U) # us) ms) \<le> ms
    \<and> ms - shown_time (duration_in ((u, U) # us) ms) < (case us of [] \<Rightarrow> U | (_, b) # _ \<Rightarrow> b)"
proof (cases us)
  case Nil
  have "shown_time (duration_in ((u, U) # us) ms) + ms mod U = ms" using assms(1) Nil by (simp add: shown_time_def)
  moreover have "ms mod U < U" using assms(2) by simp
  ultimately show ?thesis using Nil by simp
next
  case (Cons q qs)
  obtain v b where q: "q = (v, b)" by force
  with Cons assms(3) have b: "0 < b" by auto
  have "ms div U * U + ms mod U = ms" "ms mod U div b * b + ms mod U mod b = ms mod U" by simp_all
  moreover have "shown_time (duration_in ((u, U) # us) ms) = ms div U * U + ms mod U div b * b"
    using assms(1) Cons q by (simp add: shown_time_def Let_def)
  ultimately have "shown_time (duration_in ((u, U) # us) ms) + ms mod U mod b = ms" by linarith
  moreover have "ms mod U mod b < b" using b by simp
  ultimately show ?thesis using Cons q by simp
qed

lemma duration_in_bounds:
  assumes "\<forall>(_, a)\<in>set us. 0 < a" and "duration_in us ms \<noteq> []"
  shows "\<exists>i<length us. snd (us ! i) \<le> ms \<and> (\<forall>j<i. ms < snd (us ! j))
    \<and> hd (duration_in us ms) = (ms div snd (us ! i), us ! i)
    \<and> shown_time (duration_in us ms) \<le> ms
    \<and> ms - shown_time (duration_in us ms) < (if Suc i < length us then snd (us ! Suc i) else snd (us ! i))"
  using assms
proof (induction us)
  case (Cons p us)
  obtain u U where p: "p = (u, U)" by force
  show ?case
  proof (cases "U \<le> ms")
    case True
    with Cons.prems p duration_here [of U ms us u] show ?thesis
      by (intro exI [of _ 0]) (cases us; auto)
  next
    case False
    with Cons p obtain i where i: "i < length us" "snd (us ! i) \<le> ms" "\<forall>j<i. ms < snd (us ! j)"
      "hd (duration_in us ms) = (ms div snd (us ! i), us ! i)" "shown_time (duration_in us ms) \<le> ms"
      "ms - shown_time (duration_in us ms) < (if Suc i < length us then snd (us ! Suc i) else snd (us ! i))" by auto
    have "duration_in (p # us) ms = duration_in us ms" using False p by simp
    moreover have "\<forall>j<Suc i. ms < snd ((p # us) ! j)" using i(3) False p by (auto simp: less_Suc_eq_0_disj)
    ultimately show ?thesis using i by (intro exI [of _ "Suc i"]) (auto split: if_splits)
  qed
qed simp

lemma duration_shown: "duration_in us ms \<noteq> [] \<longleftrightarrow> (\<exists>(_, a)\<in>set us. a \<le> ms)"
  by (induction us) (auto split: if_splits)

text \<open>
  A duration of a second or more is shown by the largest unit that fits and the next smaller
  one: together they never exceed the duration, and what they leave out is less than the smaller
  of the two units (less than a second at the end).
\<close>

theorem duration_bounds:
  assumes "1000 \<le> ms"
  shows "\<exists>i<6. snd (timeUnits ! i) \<le> ms \<and> (\<forall>j<i. ms < snd (timeUnits ! j))
    \<and> hd (duration_parts ms) = (ms div snd (timeUnits ! i), timeUnits ! i)
    \<and> shown_time (duration_parts ms) \<le> ms
    \<and> ms - shown_time (duration_parts ms) < snd (timeUnits ! min (Suc i) 5)"
proof -
  have len: "length timeUnits = 6" and pos: "\<forall>(_, a)\<in>set timeUnits. 0 < a" by (simp_all add: timeUnits_def)
  have "duration_in timeUnits ms \<noteq> []" unfolding duration_shown using assms by (simp add: timeUnits_def)
  from duration_in_bounds [OF pos this, unfolded len] obtain i where i: "i < 6" "snd (timeUnits ! i) \<le> ms"
    "\<forall>j<i. ms < snd (timeUnits ! j)" "hd (duration_in timeUnits ms) = (ms div snd (timeUnits ! i), timeUnits ! i)"
    "shown_time (duration_in timeUnits ms) \<le> ms"
    "ms - shown_time (duration_in timeUnits ms) < (if Suc i < 6 then snd (timeUnits ! Suc i) else snd (timeUnits ! i))" by blast
  have "(if Suc i < 6 then snd (timeUnits ! Suc i) else snd (timeUnits ! i)) = snd (timeUnits ! min (Suc i) 5)"
  proof (cases "Suc i < 6")
    case False
    with i(1) have "i = 5" by simp
    then show ?thesis by simp
  qed (simp add: min_def)
  with i show ?thesis unfolding duration_parts_def by (intro exI [of _ i]) simp
qed

theorem duration_bounds_witness:
  "duration_parts 90000 = [(1, ''minute'', 60000), (30, ''second'', 1000)] \<and> shown_time (duration_parts 90000) \<le> 90000"
proof -
  have d: "duration_parts 90000 = [(1, ''minute'', 60000), (30, ''second'', 1000)]"
    by (simp add: duration_parts_def timeUnits_def)
  from duration_bounds [of 90000] d show ?thesis by auto
qed

definition formatMilliseconds :: "amount \<Rightarrow> string" where
  "formatMilliseconds input =
     (let milliseconds = (case input of Number n \<Rightarrow> nat n | _ \<Rightarrow> 0);
          seconds = milliseconds div 1000; minutes = seconds div 60; hours = minutes div 60
      in if hours > 0 then show_nat hours @ ''h '' @ show_nat (minutes mod 60) @ ''m''
         else if minutes > 0 then show_nat minutes @ ''m '' @ show_nat (seconds mod 60) @ ''s''
         else if seconds > 0 then show_nat seconds @ ''s''
         else show_nat milliseconds @ ''ms'')"

definition passedTime :: "nat \<Rightarrow> string" where
  "passedTime v = (if v < 10 then ''0'' @ show_nat v else show_nat v)"

definition calculateTimer :: "int \<Rightarrow> int \<Rightarrow> string" where
  "calculateTimer now startedAt =
     (let elapsedMillis = now - startedAt
      in if elapsedMillis < 0 then ''00:00''
         else passedTime (nat (elapsedMillis div 60000)) @ '':'' @ passedTime (nat (elapsedMillis div 1000 mod 60)))"

text \<open>The fraction that is added to a formatted time.\<close>

definition millisecond_suffix :: "int \<Rightarrow> string" where
  "millisecond_suffix time = ''.'' @ show_int (time mod 1000)"

text \<open>Five and fifty milliseconds after the second are shown as if they were half a second.\<close>

lemma millisecond_suffix_unpadded:
  "millisecond_suffix 5 = ''.5'' \<and> millisecond_suffix 50 = ''.50'' \<and> millisecond_suffix 500 = ''.500''"
  by (simp add: millisecond_suffix_def show_int_def show_nat.simps digit_def) code_simp

end
