(* ===== verification/Versions.thy ===== *)
theory Versions
  imports Prelude "HOL-Library.List_Lexorder"
begin

text \<open>
  The comparison of version numbers, \<open>frontend/src/components/Version/compareVersions.ts\<close>, and
  the order it stands for: the lists of their parts, without zeros at the end, in
  lexicographic order.
\<close>

section \<open>The comparison\<close>

definition split :: "string \<Rightarrow> string list" where
  "split v = js_split ''.'' (hd (js_split ''-'' (remove1 (CHR ''v'') v)))"

text \<open>\<open>parseInt(s[i] || '0', 10)\<close>; \<open>None\<close> is \<open>NaN\<close>, with which every comparison fails.\<close>

definition part_number :: "string \<Rightarrow> int option" where
  "part_number s = js_parseInt (or_default (Some s) ''0'')"

definition compare_part :: "string \<Rightarrow> string \<Rightarrow> int" where
  "compare_part s1 s2 =
     (case (part_number s1, part_number s2) of
        (Some n1, Some n2) \<Rightarrow> if n1 > n2 then 1 else if n2 > n1 then - 1 else 0
      | _ \<Rightarrow> 0)"

fun compare_parts :: "string list \<Rightarrow> string list \<Rightarrow> int" where
  "compare_parts [] [] = 0"
| "compare_parts (a # as) [] = (let c = compare_part a [] in if c \<noteq> 0 then c else compare_parts as [])"
| "compare_parts [] (b # bs) = (let c = compare_part [] b in if c \<noteq> 0 then c else compare_parts [] bs)"
| "compare_parts (a # as) (b # bs) = (let c = compare_part a b in if c \<noteq> 0 then c else compare_parts as bs)"

definition compareVersions :: "string option \<Rightarrow> string option \<Rightarrow> int" where
  "compareVersions v1 v2 =
     (if \<not> truthy v1 \<or> \<not> truthy v2 then 0 else compare_parts (split (the v1)) (split (the v2)))"

section \<open>The order of versions\<close>

fun strip_zeros :: "nat list \<Rightarrow> nat list" where
  "strip_zeros [] = []"
| "strip_zeros (n # ns) = (if n = 0 \<and> strip_zeros ns = [] then [] else n # strip_zeros ns)"

text \<open>The number of a part, and the key of a version. Parts that are not numbers have no place in the order.\<close>

definition numeric :: "string \<Rightarrow> bool" where
  "numeric v \<longleftrightarrow> v \<noteq> [] \<and> list_all (\<lambda>s. s = [] \<or> (\<exists>n. js_parseInt s = Some (int n))) (split v)"

definition part_value :: "string \<Rightarrow> nat" where
  "part_value s = nat (the (part_number s))"

definition version_key :: "string \<Rightarrow> nat list" where
  "version_key v = strip_zeros (map part_value (split v))"

definition sign_of :: "nat list \<Rightarrow> nat list \<Rightarrow> int" where
  "sign_of xs ys = (if xs < ys then - 1 else if ys < xs then 1 else 0)"

lemma Nil_less [simp]: "([] :: nat list) < xs \<longleftrightarrow> xs \<noteq> []"
  by (cases xs) simp_all

lemma part_number_numeric:
  assumes "s = [] \<or> (\<exists>n. js_parseInt s = Some (int n))"
  shows "part_number s = Some (int (part_value s))"
proof -
  have zero: "js_parseInt ''0'' = Some 0" by code_simp
  have "\<exists>n. part_number s = Some (int n)"
  proof (cases "s = []")
    case True
    with zero show ?thesis by (intro exI [of _ 0]) (simp add: part_number_def or_default_def)
  qed (use assms in \<open>auto simp: part_number_def\<close>)
  then show ?thesis by (auto simp: part_value_def)
qed

lemma part_value_Nil [simp]: "part_value [] = 0"
proof -
  have "part_number [] = Some 0" by code_simp
  then show ?thesis by (simp add: part_value_def)
qed

lemma compare_part_numeric:
  assumes "s = [] \<or> (\<exists>n. js_parseInt s = Some (int n))" and "t = [] \<or> (\<exists>n. js_parseInt t = Some (int n))"
  shows "compare_part s t = (if part_value t < part_value s then 1 else if part_value s < part_value t then - 1 else 0)"
  by (simp add: compare_part_def part_number_numeric [OF assms(1)] part_number_numeric [OF assms(2)])

lemma compare_parts_key:
  "list_all (\<lambda>s. s = [] \<or> (\<exists>n. js_parseInt s = Some (int n))) as \<Longrightarrow>
   list_all (\<lambda>s. s = [] \<or> (\<exists>n. js_parseInt s = Some (int n))) bs \<Longrightarrow>
   compare_parts as bs = sign_of (strip_zeros (map part_value as)) (strip_zeros (map part_value bs))"
proof (induction as bs rule: compare_parts.induct)
  case (2 a as)
  then have "compare_part a [] = (if 0 < part_value a then 1 else 0)" by (simp add: compare_part_numeric)
  with 2 show ?case by (simp add: sign_of_def)
next
  case (3 b bs)
  then have "compare_part [] b = (if 0 < part_value b then - 1 else 0)" by (simp add: compare_part_numeric)
  with 3 show ?case by (auto simp: sign_of_def)
next
  case (4 a as b bs)
  then have "compare_part a b = (if part_value b < part_value a then 1 else if part_value a < part_value b then - 1 else 0)"
    by (intro compare_part_numeric) simp_all
  with 4 show ?case by (auto simp: sign_of_def)
qed (simp add: sign_of_def)

text \<open>
  For versions whose parts are numbers the comparison is the lexicographic order of the parts
  with zeros at the end ignored: -1, 0 and 1 for less, equal and greater. So it is a total order
  on them, up to zeros at the end and what follows a dash.
\<close>

theorem compareVersions_order:
  assumes "numeric v" and "numeric w"
  shows "compareVersions (Some v) (Some w) = sign_of (version_key v) (version_key w)"
  using assms compare_parts_key [of "split v" "split w"]
  by (simp add: compareVersions_def truthy_def numeric_def version_key_def)

theorem compareVersions_order_witness:
  "compareVersions (Some ''v1.10.0'') (Some ''1.9.2-rc1'') = 1"
proof -
  have s: "split ''v1.10.0'' = [''1'', ''10'', ''0'']" "split ''1.9.2-rc1'' = [''1'', ''9'', ''2'']" by code_simp+
  have p: "js_parseInt ''1'' = Some (int 1)" "js_parseInt ''10'' = Some (int 10)" "js_parseInt ''0'' = Some (int 0)"
    "js_parseInt ''9'' = Some (int 9)" "js_parseInt ''2'' = Some (int 2)" by code_simp+
  then have q: "\<exists>n. js_parseInt ''1'' = Some (int n)" "\<exists>n. js_parseInt ''10'' = Some (int n)" "\<exists>n. js_parseInt ''0'' = Some (int n)"
    "\<exists>n. js_parseInt ''9'' = Some (int n)" "\<exists>n. js_parseInt ''2'' = Some (int n)" by blast+
  have "numeric ''v1.10.0''" unfolding numeric_def s list.pred_inject using q by simp
  moreover have "numeric ''1.9.2-rc1''" unfolding numeric_def s list.pred_inject using q by simp
  moreover have "version_key ''v1.10.0'' = [1, 10]" "version_key ''1.9.2-rc1'' = [1, 9, 2]"
    unfolding version_key_def s part_value_def part_number_def by (simp_all add: p or_default_def)
  ultimately show ?thesis using compareVersions_order [of "''v1.10.0''" "''1.9.2-rc1''"] by (simp add: sign_of_def)
qed

end
