(* ===== verification/TableState.thy ===== *)
theory TableState
  imports SearchParams
begin

text \<open>
  The state of the tables, kept in the query of the page: page and page size, sorting, and the
  filters of columns (\<open>frontend/src/components/common/NewTable\<close>).
\<close>

section \<open>Pages\<close>

record PaginationState =
  pageIndex :: js_num
  pageSize :: js_num

definition PER_PAGE :: int where
  "PER_PAGE = 25"

fun num_add :: "js_num \<Rightarrow> int \<Rightarrow> js_num" where
  "num_add NaN k = NaN"
| "num_add (Dec m s) k = Dec (m + k * 10 ^ s) s"

definition getPaginationFromSearchParams :: "sparams \<Rightarrow> PaginationState" where
  "getPaginationFromSearchParams ps =
     \<lparr>pageIndex = (if truthy (sp_get ps ''page'') then num_add (js_Number (the (sp_get ps ''page''))) (- 1) else Dec 0 0),
      pageSize = (if truthy (sp_get ps ''perPage'') then js_Number (the (sp_get ps ''perPage'')) else Dec PER_PAGE 0)\<rparr>"

text \<open>The library passes a function from the previous state; the new query is returned as well.\<close>

definition updatePaginationState :: "(PaginationState \<Rightarrow> PaginationState) \<Rightarrow> sparams \<Rightarrow> PaginationState \<times> sparams" where
  "updatePaginationState updater ps =
     (let previousState = getPaginationFromSearchParams ps; newState = updater previousState
      in (previousState,
          sp_set ''perPage'' (show_num (pageSize newState)) (sp_set ''page'' (show_num (num_add (pageIndex newState) 1)) ps)))"

section \<open>Sorting\<close>

type_synonym SortingState = "(string \<times> bool) list"

definition getSortingFromSearchParams :: "sparams \<Rightarrow> SortingState" where
  "getSortingFromSearchParams ps =
     (if truthy (sp_get ps ''sortBy'') then [(the (sp_get ps ''sortBy''), sp_get ps ''sortDirection'' = Some ''desc'')] else [])"

definition updateSortingState :: "(SortingState \<Rightarrow> SortingState) \<Rightarrow> sparams \<Rightarrow> SortingState \<times> sparams" where
  "updateSortingState updater ps =
     (let newState = updater [(or_default (sp_get ps ''sortBy'') [], sp_get ps ''sortDirection'' = Some ''desc'')]
      in (newState,
          case newState of
            (column_id, desc) # _ \<Rightarrow> sp_set ''sortDirection'' (if desc then ''desc'' else ''asc'') (sp_set ''sortBy'' column_id ps)
          | [] \<Rightarrow> sp_delete ''sortDirection'' (sp_delete ''sortBy'' ps)))"

section \<open>Filters of columns\<close>

datatype filter_variant = MultiSelect | OtherVariant

datatype filter_value = FilterText string | FilterList "string list" | FilterUndefined

type_synonym ColumnFiltersState = "(string \<times> filter_value) list"

text \<open>The filterable columns: accessor or filter key and variant; dots become underscores.\<close>

definition normalizeAccessorKey :: "string \<Rightarrow> string" where
  "normalizeAccessorKey k = replace_char (CHR ''.'') ''_'' k"

record column =
  accessorKey :: "string option"
  filterKey :: "string option"
  filterVariant :: "filter_variant option"

definition getFilterableColumns :: "column list \<Rightarrow> column list" where
  "getFilterableColumns cs = filter (\<lambda>c. accessorKey c \<noteq> None \<and> filterVariant c \<noteq> None) cs"

definition mapColumnKeyToFilterVariant :: "column list \<Rightarrow> (string \<times> filter_variant) list" where
  "mapColumnKeyToFilterVariant cs =
     fold (\<lambda>c acc. case filterVariant c of
         Some v \<Rightarrow> AList.update (normalizeAccessorKey (case filterKey c of Some k \<Rightarrow> k | None \<Rightarrow> the (accessorKey c))) v acc
       | None \<Rightarrow> acc) cs []"

definition getParamsByKeys :: "sparams \<Rightarrow> (string \<times> filter_variant) list \<Rightarrow> ColumnFiltersState" where
  "getParamsByKeys params keyToFilterVariant =
     concat (map (\<lambda>(key, variant).
       if truthy (sp_get params key)
       then [(key, if variant = MultiSelect then FilterList (js_split '','' (the (sp_get params key)))
                   else FilterText (the (sp_get params key)))]
       else []) keyToFilterVariant)"

fun isEmptyFilterValue :: "filter_value \<Rightarrow> bool" where
  "isEmptyFilterValue (FilterList vs) \<longleftrightarrow> vs = []"
| "isEmptyFilterValue (FilterText s) \<longleftrightarrow> False"
| "isEmptyFilterValue FilterUndefined \<longleftrightarrow> True"

fun filter_string :: "filter_value \<Rightarrow> string" where
  "filter_string (FilterList vs) = join '','' vs"
| "filter_string (FilterText s) = s"
| "filter_string FilterUndefined = ''undefined''"

definition update_filters :: "(string \<times> filter_variant) list \<Rightarrow> ColumnFiltersState \<Rightarrow> bool \<Rightarrow> sparams \<Rightarrow> sparams" where
  "update_filters keyToFilterVariant nextState resetPage ps =
     (let prevState = getParamsByKeys ps keyToFilterVariant;
          kept = filter (\<lambda>(column_id, value). \<not> isEmptyFilterValue value) nextState;
          ps = fold (\<lambda>(column_id, value). sp_set column_id (filter_string value)) kept ps;
          ps = fold (\<lambda>(key, _) ps. if key \<in> fst ` set kept then ps else sp_delete key ps) prevState ps
      in if resetPage then sp_delete ''page'' ps else ps)"

section \<open>The query remembers the state\<close>

text \<open>
  The page shown is the page asked for: after a change of page the table reads back the state
  the change gave, for a whole page and page size from one on, and everything else in the query is as before.
\<close>

theorem pagination_roundtrip:
  assumes "updater (getPaginationFromSearchParams ps) = \<lparr>pageIndex = Dec (int i) 0, pageSize = Dec (int n) 0\<rparr>"
  shows "getPaginationFromSearchParams (snd (updatePaginationState updater ps)) = \<lparr>pageIndex = Dec (int i) 0, pageSize = Dec (int n) 0\<rparr>
    \<and> (\<forall>k. k \<noteq> ''page'' \<and> k \<noteq> ''perPage'' \<longrightarrow> sp_get (snd (updatePaginationState updater ps)) k = sp_get ps k)"
proof -
  have "show_num (num_add (Dec (int i) 0) 1) = show_nat (Suc i)" by (simp add: show_int_def)
  moreover have "show_num (Dec (int n) 0) = show_nat n" by (simp add: show_int_def)
  ultimately have q: "snd (updatePaginationState updater ps) = sp_set ''perPage'' (show_nat n) (sp_set ''page'' (show_nat (Suc i)) ps)"
    using assms by (simp add: updatePaginationState_def Let_def)
  show ?thesis unfolding q by (simp add: getPaginationFromSearchParams_def truthy_def)
qed

theorem pagination_roundtrip_witness:
  "getPaginationFromSearchParams (snd (updatePaginationState (\<lambda>s. s\<lparr>pageIndex := num_add (pageIndex s) 1\<rparr>) [(''page'', ''2''), (''q'', ''x'')]))
   = \<lparr>pageIndex = Dec (int 2) 0, pageSize = Dec (int 25) 0\<rparr>"
proof -
  let ?next = "\<lambda>s :: PaginationState. s\<lparr>pageIndex := num_add (pageIndex s) 1\<rparr>"
  have "?next (getPaginationFromSearchParams [(''page'', ''2''), (''q'', ''x'')])
      = \<lparr>pageIndex = Dec (int 2) 0, pageSize = Dec (int 25) 0\<rparr>" by code_simp
  from pagination_roundtrip [of ?next, OF this] show ?thesis by blast
qed

text \<open>Sorting is read back as it was set, for columns with a name.\<close>

lemma sorting_roundtrip:
  assumes "updater [(or_default (sp_get ps ''sortBy'') [], sp_get ps ''sortDirection'' = Some ''desc'')] = s"
    and "s = [] \<or> (\<exists>column_id desc. s = [(column_id, desc)] \<and> column_id \<noteq> [])"
  shows "getSortingFromSearchParams (snd (updateSortingState updater ps)) = s"
  using assms by (auto simp: updateSortingState_def getSortingFromSearchParams_def Let_def truthy_def)

section \<open>Filters are read back\<close>

lemma fold_sets:
  "distinct (map fst kept) \<Longrightarrow>
   sp_get (fold (\<lambda>(column_id, value). sp_set column_id (f value)) kept ps) k
     = (case map_of kept k of Some v \<Rightarrow> Some (f v) | None \<Rightarrow> sp_get ps k)"
proof (induction kept arbitrary: ps)
  case (Cons p kept)
  obtain c v where p: "p = (c, v)" by force
  with Cons.prems have "map_of kept c = None" by (simp add: map_of_eq_None_iff)
  with Cons p show ?case by (auto split: option.splits)
qed simp

lemma fold_deletes:
  "sp_get (fold (\<lambda>(key, _) ps. if key \<in> K then ps else sp_delete key ps) prev ps) k
     = (if k \<in> fst ` set prev \<and> k \<notin> K then None else sp_get ps k)"
  by (induction prev arbitrary: ps) auto

definition param_value :: "filter_variant \<Rightarrow> string \<Rightarrow> filter_value" where
  "param_value variant s = (if variant = MultiSelect then FilterList (js_split '','' s) else FilterText s)"

lemma getParams_Cons:
  "getParamsByKeys ps ((key, variant) # kv) =
     (if truthy (sp_get ps key) then [(key, param_value variant (the (sp_get ps key)))] else []) @ getParamsByKeys ps kv"
  by (simp add: getParamsByKeys_def param_value_def)

lemma getParams_keys: "k \<in> fst ` set (getParamsByKeys ps kv) \<longleftrightarrow> k \<in> fst ` set kv \<and> truthy (sp_get ps k)"
proof (induction kv)
  case (Cons p kv)
  obtain key variant where "p = (key, variant)" by force
  with Cons show ?case by (cases "truthy (sp_get ps key)") (auto simp: getParams_Cons)
qed (simp add: getParamsByKeys_def)

lemma getParams_get:
  "distinct (map fst kv) \<Longrightarrow> map_of (getParamsByKeys ps kv) k =
     (case map_of kv k of
        Some variant \<Rightarrow> if truthy (sp_get ps k) then Some (param_value variant (the (sp_get ps k))) else None
      | None \<Rightarrow> None)"
proof (induction kv)
  case (Cons p kv)
  obtain key variant where p: "p = (key, variant)" by force
  have rest: "map_of kv key = None" and d: "distinct (map fst kv)" using Cons.prems p by (simp_all add: map_of_eq_None_iff)
  note IH = Cons.IH [OF d]
  show ?case
  proof (cases "k = key")
    case True
    have "map_of (getParamsByKeys ps kv) key = None" using IH unfolding True rest by simp
    then show ?thesis unfolding p True getParams_Cons map_of_append map_add_def by (cases "truthy (sp_get ps key)") simp_all
  next
    case False
    then show ?thesis unfolding p getParams_Cons map_of_append map_add_def IH
      by (cases "truthy (sp_get ps key)") (auto split: option.split)
  qed
qed (simp add: getParamsByKeys_def)

text \<open>A value its column can hold: a text, or a list of options without commas.\<close>

fun storable :: "filter_variant \<Rightarrow> filter_value \<Rightarrow> bool" where
  "storable variant (FilterList vs) \<longleftrightarrow> variant = MultiSelect \<and> vs \<noteq> [[]] \<and> list_all (\<lambda>v. CHR '','' \<notin> set v) vs"
| "storable variant (FilterText s) \<longleftrightarrow> variant \<noteq> MultiSelect \<and> s \<noteq> []"
| "storable variant FilterUndefined \<longleftrightarrow> True"

lemma storable_text:
  assumes "storable variant v" and "\<not> isEmptyFilterValue v"
  shows "filter_string v \<noteq> []"
    and "param_value variant (filter_string v) = v"
proof -
  have "filter_string v \<noteq> []
    \<and> param_value variant (filter_string v) = v"
  proof (cases v)
    case (FilterList vs)
    with assms have vs: "vs \<noteq> []" "vs \<noteq> [[]]" "variant = MultiSelect" "\<And>w. w \<in> set vs \<Longrightarrow> CHR '','' \<notin> set w"
      by (auto simp: list_all_iff)
    then have "js_split '','' (join '','' vs) = vs" by (intro split_join) simp_all
    moreover from this vs(2) have "join '','' vs \<noteq> []" by auto
    ultimately show ?thesis using FilterList vs(3) by (simp add: param_value_def)
  qed (use assms in \<open>auto simp: param_value_def\<close>)
  then show "filter_string v \<noteq> []"
    "param_value variant (filter_string v) = v" by simp_all
qed

text \<open>
  The filters of a table are read back from the query as they were set: for filters on different
  filterable columns, each with a value its column can hold, the state read afterwards has exactly
  the filters that are not empty; filters that were set before are gone.
\<close>

theorem filters_roundtrip:
  assumes "distinct (map fst kv)" and "distinct (map fst nextState)"
    and "\<forall>(c, v)\<in>set nextState. \<exists>variant. map_of kv c = Some variant \<and> storable variant v"
    and "resetPage \<longrightarrow> ''page'' \<notin> fst ` set kv"
  shows "map_of (getParamsByKeys (update_filters kv nextState resetPage ps) kv) c
    = (case map_of nextState c of Some v \<Rightarrow> if isEmptyFilterValue v then None else Some v | None \<Rightarrow> None)"
proof -
  let ?kept = "filter (\<lambda>(column_id, value). \<not> isEmptyFilterValue value) nextState"
  let ?ps = "update_filters kv nextState resetPage ps"
  have d: "distinct (map fst ?kept)" using assms(2) by (simp add: distinct_map_filter)
  have kept: "map_of ?kept c = (case map_of nextState c of Some v \<Rightarrow> if isEmptyFilterValue v then None else Some v | None \<Rightarrow> None)"
    using assms(2)
  proof (induction nextState)
    case (Cons p qs)
    obtain k v where p: "p = (k, v)" by force
    with Cons.prems have "map_of qs k = None" by (simp add: map_of_eq_None_iff)
    with Cons p show ?case by auto
  qed simp
  show ?thesis
  proof (cases "map_of kv c")
    case None
    then have "map_of nextState c = None" using assms(3) map_of_SomeD [of nextState c] by (cases "map_of nextState c") fastforce+
    with None show ?thesis by (simp add: getParams_get [OF assms(1)])
  next
    case (Some variant)
    then have key: "c \<in> fst ` set kv" by (metis map_of_eq_None_iff option.distinct(1))
    with assms(4) have page: "resetPage \<Longrightarrow> c \<noteq> ''page''" by blast
    have member: "c \<in> fst ` set ?kept \<longleftrightarrow> map_of ?kept c \<noteq> None" by (simp add: map_of_eq_None_iff)
    have get: "sp_get ?ps c = (case map_of ?kept c of Some v \<Rightarrow> Some (filter_string v)
        | None \<Rightarrow> if truthy (sp_get ps c) then None else sp_get ps c)"
    proof -
      have "sp_get ?ps c = sp_get (fold (\<lambda>(key, _) ps. if key \<in> fst ` set ?kept then ps else sp_delete key ps)
          (getParamsByKeys ps kv) (fold (\<lambda>(column_id, value). sp_set column_id (filter_string value)) ?kept ps)) c"
        unfolding update_filters_def Let_def using page by (cases resetPage) simp_all
      then show ?thesis unfolding fold_deletes fold_sets [OF d] getParams_keys member using key
        by (simp split: option.split)
    qed
    show ?thesis
    proof (cases "map_of ?kept c")
      case None
      with get have "\<not> truthy (sp_get ?ps c)" by (simp add: truthy_def)
      with Some None kept show ?thesis by (simp add: getParams_get [OF assms(1)])
    next
      case (Some v)
      then have "(c, v) \<in> set ?kept" by (rule map_of_SomeD)
      with assms(3) \<open>map_of kv c = Some variant\<close> have "storable variant v" "\<not> isEmptyFilterValue v" by auto
      from storable_text [OF this] get Some \<open>map_of kv c = Some variant\<close> kept show ?thesis
        by (simp add: getParams_get [OF assms(1)] truthy_def)
    qed
  qed
qed

theorem filters_roundtrip_witness:
  "map_of (getParamsByKeys (update_filters [(''state'', MultiSelect), (''name'', OtherVariant)]
       [(''state'', FilterList [''RUNNING'', ''FAILED''])] True [(''name'', ''x''), (''page'', ''3'')])
     [(''state'', MultiSelect), (''name'', OtherVariant)]) ''state'' = Some (FilterList [''RUNNING'', ''FAILED''])"
  by (subst filters_roundtrip) simp_all

text \<open>An option with a comma comes back as two.\<close>

lemma comma_splits_option:
  "map_of (getParamsByKeys (update_filters [(''tags'', MultiSelect)] [(''tags'', FilterList [''a,b''])] False [])
     [(''tags'', MultiSelect)]) ''tags'' = Some (FilterList [''a'', ''b''])"
  by code_simp

end
