(* ===== verification/LocalStorage.thy ===== *)
theory LocalStorage
  imports Json
begin

text \<open>
  The hook that keeps a value in local storage (\<open>frontend/src/lib/hooks/useLocalStorage.ts\<close>):
  components that use the same key are notified of each other's writes. A stored text is
  represented by the value \<open>JSON.parse\<close> makes of it, \<open>None\<close> if it makes none; so writing a
  value and reading it back gives the value. Rendering, the initial read and the subscription of a
  component are one step.
\<close>

section \<open>State\<close>

record hook =
  hook_key :: string
  defaultValue :: json
  hook_value :: json

record local_storage =
  storage :: "string \<Rightarrow> json option option"
  subscribers :: "string \<Rightarrow> nat list option"
  hooks :: "nat \<Rightarrow> hook option"

definition LOCAL_STORAGE_KEY_PREFIX :: string where
  "LOCAL_STORAGE_KEY_PREFIX = ''kafbat-ui''"

definition storage_key :: "string \<Rightarrow> string" where
  "storage_key featureKey = LOCAL_STORAGE_KEY_PREFIX @ ''-'' @ featureKey"

definition getStorageValue :: "local_storage \<Rightarrow> string \<Rightarrow> json \<Rightarrow> json" where
  "getStorageValue s key dflt = (case storage s key of Some (Some v) \<Rightarrow> v | _ \<Rightarrow> dflt)"

section \<open>Subscriptions\<close>

definition subscribe :: "string \<Rightarrow> nat \<Rightarrow> local_storage \<Rightarrow> local_storage" where
  "subscribe key callback s =
     (let keySubscribers = (case subscribers s key of Some l \<Rightarrow> l | None \<Rightarrow> [])
      in s\<lparr>subscribers := (subscribers s)(key \<mapsto> List.insert callback keySubscribers)\<rparr>)"

definition unsubscribe :: "string \<Rightarrow> nat \<Rightarrow> local_storage \<Rightarrow> local_storage" where
  "unsubscribe key callback s =
     (case subscribers s key of
        Some l \<Rightarrow> s\<lparr>subscribers := (subscribers s)(key :=
          (if removeAll callback l = [] then None else Some (removeAll callback l)))\<rparr>
      | None \<Rightarrow> s)"

text \<open>What a component does when it is told of a change: read its key again.\<close>

definition handleStorageChange :: "nat \<Rightarrow> local_storage \<Rightarrow> local_storage" where
  "handleStorageChange i s =
     (case hooks s i of
        Some h \<Rightarrow> s\<lparr>hooks := (hooks s)(i \<mapsto> h\<lparr>hook_value := getStorageValue s (hook_key h) (defaultValue h)\<rparr>)\<rparr>
      | None \<Rightarrow> s)"

definition notifySubscribers :: "string \<Rightarrow> local_storage \<Rightarrow> local_storage" where
  "notifySubscribers key s = (case subscribers s key of Some l \<Rightarrow> fold handleStorageChange l s | None \<Rightarrow> s)"

text \<open>A write that the browser refuses changes nothing and notifies nobody.\<close>

definition setStorageValue :: "bool \<Rightarrow> string \<Rightarrow> json \<Rightarrow> local_storage \<Rightarrow> local_storage" where
  "setStorageValue accepted key v s =
     (if accepted then notifySubscribers key (s\<lparr>storage := (storage s)(key \<mapsto> Some v)\<rparr>) else s)"

section \<open>Events\<close>

text \<open>
  Components mount and unmount, set their value from the previous one, and are written to from
  outside; another window stores any text, or removes it, and the browser reports that to every
  component.
\<close>

datatype ls_event =
  Mount nat string json | Unmount nat | SetStored nat "json \<Rightarrow> json" bool
| WriteLocal string json bool | OtherWindow string "json option option"

definition setStoredValue :: "nat \<Rightarrow> (json \<Rightarrow> json) \<Rightarrow> bool \<Rightarrow> local_storage \<Rightarrow> local_storage" where
  "setStoredValue i newValue accepted s =
     (case hooks s i of
        Some h \<Rightarrow>
          (let valueToStore = newValue (hook_value h); s' = setStorageValue accepted (hook_key h) valueToStore s
           in s'\<lparr>hooks := (hooks s')(i \<mapsto> h\<lparr>hook_value := valueToStore\<rparr>)\<rparr>)
      | None \<Rightarrow> s)"

fun ls_step :: "ls_event \<Rightarrow> local_storage \<Rightarrow> local_storage" where
  "ls_step (Mount i featureKey dflt) s =
     (if hooks s i \<noteq> None then s
      else subscribe (storage_key featureKey) i (s\<lparr>hooks := (hooks s)(i \<mapsto>
             \<lparr>hook_key = storage_key featureKey, defaultValue = dflt,
              hook_value = getStorageValue s (storage_key featureKey) dflt\<rparr>)\<rparr>))"
| "ls_step (Unmount i) s =
     (case hooks s i of Some h \<Rightarrow> unsubscribe (hook_key h) i (s\<lparr>hooks := (hooks s)(i := None)\<rparr>) | None \<Rightarrow> s)"
| "ls_step (SetStored i newValue accepted) s = setStoredValue i newValue accepted s"
| "ls_step (WriteLocal featureKey v accepted) s = setStorageValue accepted (storage_key featureKey) v s"
| "ls_step (OtherWindow key t) s =
     (let s' = s\<lparr>storage := (storage s)(key := t)\<rparr>
      in s'\<lparr>hooks := (\<lambda>i. case hooks s i of
            Some h \<Rightarrow> if hook_key h = key then Some (h\<lparr>hook_value := getStorageValue s' key (defaultValue h)\<rparr>) else Some h
          | None \<Rightarrow> None)\<rparr>)"

definition no_hooks :: "(string \<Rightarrow> json option option) \<Rightarrow> local_storage" where
  "no_hooks st = \<lparr>storage = st, subscribers = (\<lambda>_. None), hooks = (\<lambda>_. None)\<rparr>"

section \<open>Every component shows what is stored\<close>

fun reliable :: "ls_event \<Rightarrow> bool" where
  "reliable (SetStored i f accepted) \<longleftrightarrow> accepted"
| "reliable (WriteLocal k v accepted) \<longleftrightarrow> accepted"
| "reliable _ \<longleftrightarrow> True"

definition subscribed :: "local_storage \<Rightarrow> string \<Rightarrow> nat \<Rightarrow> bool" where
  "subscribed s key i \<longleftrightarrow> (\<exists>l. subscribers s key = Some l \<and> i \<in> set l)"

definition registered :: "local_storage \<Rightarrow> bool" where
  "registered s \<longleftrightarrow> (\<forall>key i. subscribed s key i \<longleftrightarrow> (\<exists>h. hooks s i = Some h \<and> hook_key h = key))"

definition shows_stored :: "local_storage \<Rightarrow> bool" where
  "shows_stored s \<longleftrightarrow> (\<forall>i h. hooks s i = Some h \<longrightarrow> hook_value h = getStorageValue s (hook_key h) (defaultValue h))"

text \<open>Notification changes values only, and brings those of the notified up to date.\<close>

definition refreshed :: "local_storage \<Rightarrow> nat set \<Rightarrow> nat \<Rightarrow> hook option" where
  "refreshed s N i = (case hooks s i of
       Some h \<Rightarrow> Some (if i \<in> N then h\<lparr>hook_value := getStorageValue s (hook_key h) (defaultValue h)\<rparr> else h)
     | None \<Rightarrow> None)"

lemma getStorageValue_hooks [simp]: "getStorageValue (s\<lparr>hooks := H\<rparr>) = getStorageValue s"
  by (intro ext) (simp add: getStorageValue_def)

lemma handle_refreshed: "handleStorageChange i s = s\<lparr>hooks := refreshed s {i}\<rparr>"
  by (cases "hooks s i") (auto simp: handleStorageChange_def refreshed_def fun_eq_iff split: option.split
      intro!: local_storage.equality)

lemma fold_handle: "fold handleStorageChange l s = s\<lparr>hooks := refreshed s (set l)\<rparr>"
proof (induction l arbitrary: s)
  case Nil
  have "refreshed s {} = hooks s" by (auto simp: refreshed_def fun_eq_iff split: option.split)
  then show ?case by simp
next
  case (Cons i l)
  have "refreshed (s\<lparr>hooks := refreshed s {i}\<rparr>) (set l) = refreshed s (set (i # l))"
    by (auto simp: refreshed_def fun_eq_iff split: option.split)
  with Cons show ?case by (simp add: handle_refreshed)
qed

lemma notify_hooks: "hooks (notifySubscribers key s) i = refreshed s {i. subscribed s key i} i"
  by (auto simp: notifySubscribers_def subscribed_def refreshed_def fold_handle split: option.split)

lemma notify_frame: "storage (notifySubscribers key s) = storage s" "subscribers (notifySubscribers key s) = subscribers s"
  by (simp_all add: notifySubscribers_def fold_handle split: option.split)

definition ls_inv :: "local_storage \<Rightarrow> bool" where
  "ls_inv s \<longleftrightarrow> registered s \<and> shows_stored s"

lemma get_updated: "getStorageValue (s\<lparr>storage := (storage s)(key := t)\<rparr>) k d
    = (if k = key then (case t of Some (Some v) \<Rightarrow> v | _ \<Rightarrow> d) else getStorageValue s k d)"
  by (simp add: getStorageValue_def)

lemma subscribed_storage [simp]: "subscribed (s\<lparr>storage := st\<rparr>) = subscribed s"
  by (intro ext) (simp add: subscribed_def)

text \<open>After a write the value of every component is the stored one.\<close>

lemma hooks_after_write:
  assumes "ls_inv s"
  shows "hooks (setStorageValue True key v s) i =
    (case hooks s i of Some h \<Rightarrow> Some (if hook_key h = key then h\<lparr>hook_value := v\<rparr> else h) | None \<Rightarrow> None)"
proof (cases "hooks s i")
  case (Some h)
  with assms have "subscribed s key i \<longleftrightarrow> hook_key h = key" by (auto simp: ls_inv_def registered_def)
  with Some show ?thesis
    by (simp add: setStorageValue_def notify_hooks refreshed_def get_updated)
qed (simp add: setStorageValue_def notify_hooks refreshed_def)

lemma write_frame:
  "storage (setStorageValue True key v s) = (storage s)(key \<mapsto> Some v)"
  "subscribers (setStorageValue True key v s) = subscribers s"
  by (simp_all add: setStorageValue_def notify_frame)

lemma registered_iff: "registered s \<longleftrightarrow> (\<forall>key i. subscribed s key i \<longleftrightarrow> map_option hook_key (hooks s i) = Some key)"
  by (simp add: registered_def map_option_eq_Some)

lemma registeredI:
  assumes "registered s" and "subscribers s' = subscribers s"
    and "\<And>i. map_option hook_key (hooks s' i) = map_option hook_key (hooks s i)"
  shows "registered s'"
proof -
  have "subscribed s' = subscribed s" using assms(2) by (intro ext) (simp add: subscribed_def)
  then show ?thesis using assms(1) unfolding registered_iff assms(3) by simp
qed

lemma write_inv:
  assumes "ls_inv s"
  shows "ls_inv (setStorageValue True key v s)"
proof -
  have "registered (setStorageValue True key v s)"
  proof (rule registeredI)
    show "registered s" using assms by (simp add: ls_inv_def)
    show "map_option hook_key (hooks (setStorageValue True key v s) i) = map_option hook_key (hooks s i)" for i
      by (cases "hooks s i") (simp_all add: hooks_after_write [OF assms])
  qed (simp add: write_frame)
  moreover have "shows_stored (setStorageValue True key v s)"
    unfolding shows_stored_def
  proof (intro allI impI)
    fix i h
    assume "hooks (setStorageValue True key v s) i = Some h"
    then obtain h' where h': "hooks s i = Some h'" "h = (if hook_key h' = key then h'\<lparr>hook_value := v\<rparr> else h')"
      unfolding hooks_after_write [OF assms] by (auto split: option.splits)
    with assms have "hook_value h' = getStorageValue s (hook_key h') (defaultValue h')"
      by (simp add: ls_inv_def shows_stored_def)
    with h'(2) show "hook_value h = getStorageValue (setStorageValue True key v s) (hook_key h) (defaultValue h)"
      by (cases "hook_key h' = key") (simp_all add: getStorageValue_def write_frame)
  qed
  ultimately show ?thesis by (simp add: ls_inv_def)
qed

text \<open>Setting a value is a write: the component's own value is the one it was told of.\<close>

lemma set_is_write:
  assumes "ls_inv s" and "hooks s i = Some h"
  shows "setStoredValue i f True s = setStorageValue True (hook_key h) (f (hook_value h)) s"
proof -
  have "hooks (setStorageValue True (hook_key h) (f (hook_value h)) s) i = Some (h\<lparr>hook_value := f (hook_value h)\<rparr>)"
    by (simp add: hooks_after_write [OF assms(1)] assms(2))
  then show ?thesis using assms(2)
    by (simp add: setStoredValue_def Let_def fun_upd_idem)
qed

lemma hook_mount_inv:
  assumes "ls_inv s" and "hooks s i = None"
  shows "ls_inv (ls_step (Mount i featureKey d) s)"
proof -
  let ?k = "storage_key featureKey" and ?s = "ls_step (Mount i featureKey d) s"
  have sub: "subscribed ?s key j \<longleftrightarrow> subscribed s key j \<or> key = ?k \<and> j = i" for key j
    using assms(2) by (cases "subscribers s ?k") (auto simp: subscribe_def subscribed_def)
  have hk: "hooks ?s = (hooks s)(i \<mapsto> \<lparr>hook_key = ?k, defaultValue = d, hook_value = getStorageValue s ?k d\<rparr>)"
    using assms(2) by (simp add: subscribe_def Let_def)
  have st: "getStorageValue ?s = getStorageValue s" using assms(2) by (intro ext) (simp add: subscribe_def getStorageValue_def Let_def)
  from assms show ?thesis unfolding ls_inv_def registered_def shows_stored_def sub hk st by auto
qed

lemma removeAll_empty: "removeAll i l = [] \<longleftrightarrow> set l \<subseteq> {i}"
  by (induction l) auto

lemma unmount_inv:
  assumes "ls_inv s"
  shows "ls_inv (ls_step (Unmount i) s)"
proof (cases "hooks s i")
  case (Some h)
  let ?s = "ls_step (Unmount i) s"
  have sub: "subscribed ?s key j \<longleftrightarrow> subscribed s key j \<and> \<not> (key = hook_key h \<and> j = i)" for key j
    using Some by (cases "subscribers s (hook_key h)") (auto simp: unsubscribe_def subscribed_def removeAll_empty)
  have hk: "hooks ?s = (hooks s)(i := None)" using Some by (simp add: unsubscribe_def split: option.split)
  have st: "getStorageValue ?s = getStorageValue s"
    using Some by (intro ext) (simp add: unsubscribe_def getStorageValue_def split: option.split)
  from assms Some show ?thesis unfolding ls_inv_def registered_def shows_stored_def sub hk st by auto
qed (use assms in simp)

lemma other_window_inv:
  assumes "ls_inv s"
  shows "ls_inv (ls_step (OtherWindow key t) s)"
proof -
  let ?s = "ls_step (OtherWindow key t) s"
  have hk: "hooks ?s i = (case hooks s i of
      Some h \<Rightarrow> Some (if hook_key h = key then h\<lparr>hook_value := getStorageValue ?s key (defaultValue h)\<rparr> else h) | None \<Rightarrow> None)" for i
    by (cases "hooks s i") (simp_all add: Let_def getStorageValue_def)
  have "registered ?s"
  proof (rule registeredI)
    show "registered s" using assms by (simp add: ls_inv_def)
    show "map_option hook_key (hooks ?s i) = map_option hook_key (hooks s i)" for i
      by (cases "hooks s i") (simp_all only: hk, simp_all)
  qed (simp add: Let_def)
  moreover have "shows_stored ?s"
    unfolding shows_stored_def
  proof (intro allI impI)
    fix i h
    assume "hooks ?s i = Some h"
    then obtain h' where h': "hooks s i = Some h'"
      "h = (if hook_key h' = key then h'\<lparr>hook_value := getStorageValue ?s key (defaultValue h')\<rparr> else h')"
      unfolding hk by (cases "hooks s i") simp_all
    with assms have "hook_value h' = getStorageValue s (hook_key h') (defaultValue h')"
      by (simp add: ls_inv_def shows_stored_def)
    moreover have "hook_key h' \<noteq> key \<Longrightarrow> getStorageValue ?s (hook_key h') = getStorageValue s (hook_key h')"
      by (intro ext) (simp add: getStorageValue_def Let_def)
    ultimately show "hook_value h = getStorageValue ?s (hook_key h) (defaultValue h)"
      unfolding h'(2) by (cases "hook_key h' = key") simp_all
  qed
  ultimately show ?thesis by (simp add: ls_inv_def)
qed

interpretation stored: machine ls_step reliable ls_inv
proof
  fix e s
  assume e: "reliable e" and inv: "ls_inv s"
  show "ls_inv (ls_step e s)"
  proof (cases e)
    case (Mount i k d)
    with inv hook_mount_inv show ?thesis by (cases "hooks s i") simp_all
  next
    case (SetStored i f accepted)
    with e have e: "ls_step e s = setStoredValue i f True s" by simp
    show ?thesis
    proof (cases "hooks s i")
      case None
      with inv show ?thesis unfolding e by (simp add: setStoredValue_def)
    next
      case (Some h)
      show ?thesis unfolding e set_is_write [OF inv Some] by (rule write_inv [OF inv])
    qed
  next
    case (WriteLocal k v accepted)
    with e inv show ?thesis by (simp add: write_inv)
  qed (use inv unmount_inv other_window_inv in simp_all)
qed

text \<open>
  C17. Every mounted component shows what local storage holds for its key, or its default: in any run
  of mounting, unmounting, setting, writing from outside and writing in another window in
  which the browser accepts the writes. So components with the same key and default agree.
\<close>

theorem hooks_show_storage:
  assumes "list_all reliable es" and "s = fold ls_step es (no_hooks st)" and "hooks s i = Some h"
  shows "hook_value h = getStorageValue s (hook_key h) (defaultValue h)"
proof -
  have "ls_inv (no_hooks st)" by (simp add: ls_inv_def registered_def shows_stored_def subscribed_def no_hooks_def)
  from stored.inv_run [OF assms(1) this] assms(2,3) show ?thesis by (simp add: ls_inv_def shows_stored_def)
qed

text \<open>Two components of one key, the second of which sets the value.\<close>

theorem hooks_show_storage_witness:
  "\<exists>h. hooks (fold ls_step [Mount 0 ''x'' JNull, Mount 1 ''x'' JNull, SetStored 1 (\<lambda>_. JBool True) True] (no_hooks (\<lambda>_. None))) 0 = Some h
     \<and> hook_value h = JBool True"
proof -
  let ?es = "[Mount 0 ''x'' JNull, Mount 1 ''x'' JNull, SetStored 1 (\<lambda>_. JBool True) True]"
  let ?s = "fold ls_step ?es (no_hooks (\<lambda>_. None))"
  have r: "list_all reliable ?es" by simp
  have "\<exists>h. hooks ?s 0 = Some h \<and> hook_key h = storage_key ''x''" and g: "getStorageValue ?s (storage_key ''x'') = (\<lambda>_. JBool True)"
    by (simp_all add: no_hooks_def subscribe_def setStoredValue_def setStorageValue_def notifySubscribers_def handleStorageChange_def
        getStorageValue_def fun_eq_iff Let_def)
  then obtain h where h: "hooks ?s 0 = Some h" "hook_key h = storage_key ''x''" by blast
  from hooks_show_storage [OF r refl h(1)] h g show ?thesis by (intro exI [of _ h]) simp
qed

text \<open>A write the browser refuses leaves two components of one key with different values.\<close>

lemma refused_write_diverges:
  "let s = fold ls_step [Mount 0 ''x'' JNull, Mount 1 ''x'' JNull, SetStored 1 (\<lambda>_. JBool True) False] (no_hooks (\<lambda>_. None))
   in map_option hook_value (hooks s 0) = Some JNull \<and> map_option hook_value (hooks s 1) = Some (JBool True)"
  by (simp add: no_hooks_def subscribe_def setStoredValue_def setStorageValue_def getStorageValue_def Let_def)

end
