(* ===== verification/Errors.thy ===== *)
theory Errors
  imports Json
begin

text \<open>
  How failures are reported to the user (\<open>frontend/src/lib/errorHandling.tsx\<close> and the handlers of the
  query and mutation caches in \<open>components/App.tsx\<close>). The generated client throws the answer itself
  when its status is no success; a request that gets no answer throws an error object.
\<close>

section \<open>What is thrown\<close>

text \<open>An answer, with the value of its body if that is JSON.\<close>

record http_answer =
  ha_status :: nat
  ha_statusText :: string
  ha_url :: string
  ha_body :: "json option"

record ServerResponse =
  sr_status :: "nat option"
  sr_statusText :: string
  sr_url :: "string option"
  sr_message :: "json option"

datatype thrown = Answer http_answer | JsError string | Report ServerResponse | OtherObject

definition body_message :: "json option \<Rightarrow> json option" where
  "body_message body = Option.bind body (\<lambda>j. member j ''message'')"

fun getResponse :: "thrown \<Rightarrow> ServerResponse" where
  "getResponse (Answer r) =
     \<lparr>sr_status = Some (ha_status r), sr_statusText = ha_statusText r, sr_url = Some (ha_url r),
      sr_message = body_message (ha_body r)\<rparr>"
| "getResponse (JsError m) =
     \<lparr>sr_status = None, sr_statusText = ''Unknown error'', sr_url = None, sr_message = Some (JStr m)\<rparr>"
| "getResponse e =
     \<lparr>sr_status = None, sr_statusText = ''Unknown error'', sr_url = None, sr_message = Some (JStr ''Unknown error'')\<rparr>"

fun apiFetch :: "thrown + json \<Rightarrow> thrown + json" where
  "apiFetch (Inr x) = Inr x"
| "apiFetch (Inl e) = Inl (Report (getResponse e))"

section \<open>Alerts\<close>

record alert =
  al_type :: string
  al_id :: "string option"
  al_title :: string
  al_message :: json

text \<open>A toast with the id of one that is shown takes its place.\<close>

definition showAlert :: "alert \<Rightarrow> alert list \<Rightarrow> alert list" where
  "showAlert a toasts =
     (if al_id a \<noteq> None \<and> al_id a \<in> al_id ` set toasts
      then map (\<lambda>t. if al_id t = al_id a then a else t) toasts else toasts @ [a])"

definition success_alert :: "string option \<Rightarrow> string \<Rightarrow> alert" where
  "success_alert i msg = \<lparr>al_type = ''success'', al_id = i, al_title = ''Success'', al_message = JStr msg\<rparr>"

fun js_truthy :: "json \<Rightarrow> bool" where
  "js_truthy JNull = False"
| "js_truthy (JBool b) = b"
| "js_truthy (JNum n) = (n \<noteq> NaN \<and> n \<noteq> Dec 0 0)"
| "js_truthy (JStr s) = (s \<noteq> [])"
| "js_truthy (JArr xs) = True"
| "js_truthy (JObj ms) = True"

fun status_of :: "thrown \<Rightarrow> nat option" where
  "status_of (Answer r) = Some (ha_status r)"
| "status_of (Report r) = sr_status r"
| "status_of e = None"

text \<open>
  \<open>unread\<close> says that the body of an answer was not read before. Only an answer has a method
  \<open>json\<close>; for everything else, and for a body that is not JSON or was read, the call throws and the
  body stays the empty object.
\<close>

definition read_body :: "bool \<Rightarrow> thrown \<Rightarrow> json option" where
  "read_body unread e = (case e of Answer r \<Rightarrow> if unread then ha_body r else None | _ \<Rightarrow> None)"

definition shown_message :: "json option \<Rightarrow> json" where
  "shown_message body =
     (case body_message body of
        Some m \<Rightarrow> if js_truthy m then m else JStr ''An error occurred''
      | None \<Rightarrow> JStr ''An error occurred'')"

definition showServerError :: "bool \<Rightarrow> thrown \<Rightarrow> alert" where
  "showServerError unread e =
     (case status_of e of
        Some (Suc n) \<Rightarrow>
          \<lparr>al_type = ''error'', al_id = (case e of Answer r \<Rightarrow> Some (ha_url r) | Report r \<Rightarrow> sr_url r | _ \<Rightarrow> None),
           al_title = show_nat (Suc n) @ '' '' @ (case e of Answer r \<Rightarrow> ha_statusText r | Report r \<Rightarrow> sr_statusText r | _ \<Rightarrow> ''undefined''),
           al_message = shown_message (read_body unread e)\<rparr>
      | _ \<Rightarrow> \<lparr>al_type = ''error'', al_id = Some ''server-error'', al_title = ''Something went wrong'', al_message = JStr ''An error occurred''\<rparr>)"

text \<open>The handler of the query cache, with the statuses the query wants no alert for.\<close>

definition showGlobalQueryError :: "nat list \<Rightarrow> thrown \<Rightarrow> alert list \<Rightarrow> alert list" where
  "showGlobalQueryError suppressed e toasts =
     (case status_of e of
        Some n \<Rightarrow> if n \<in> set suppressed then toasts else showAlert (showServerError True e) toasts
      | None \<Rightarrow> showAlert (showServerError True e) toasts)"

definition query_failed :: "nat list \<Rightarrow> thrown + json \<Rightarrow> alert list \<Rightarrow> alert list" where
  "query_failed suppressed r toasts = (case r of Inl e \<Rightarrow> showGlobalQueryError suppressed e toasts | Inr x \<Rightarrow> toasts)"

text \<open>
  A mutation that fails runs the handler of the mutation cache and then the one of the mutation,
  which is the default one or (for sending a message) does the same. The first one reads the
  body, the second finds it read. \<open>first_last\<close> says that the first one shows its alert last,
  because it waits for the body.
\<close>

definition mutation_failed :: "bool \<Rightarrow> thrown \<Rightarrow> alert list \<Rightarrow> alert list" where
  "mutation_failed first_last e toasts =
     (let first = showServerError True e; second = showServerError False e
      in if first_last then showAlert first (showAlert second toasts) else showAlert second (showAlert first toasts))"

section \<open>Properties\<close>

lemma fallback_message: "shown_message None = JStr ''An error occurred''"
  by (simp add: shown_message_def body_message_def)

text \<open>At most one toast has an id.\<close>

definition with_id :: "string \<Rightarrow> alert list \<Rightarrow> alert list" where
  "with_id i ts = filter (\<lambda>a. al_id a = Some i) ts"

definition unique_ids :: "alert list \<Rightarrow> bool" where
  "unique_ids ts \<longleftrightarrow> (\<forall>i. length (with_id i ts) \<le> 1)"

lemma with_id_other: "al_id a \<noteq> Some i \<Longrightarrow> with_id i (showAlert a ts) = with_id i ts"
proof -
  assume other: "al_id a \<noteq> Some i"
  then have "with_id i (map (\<lambda>t. if al_id t = al_id a then a else t) ts) = with_id i ts"
    by (induction ts) (auto simp: with_id_def)
  with other show ?thesis by (simp add: showAlert_def) (simp add: with_id_def)
qed

lemma with_id_replaced:
  "al_id a = Some i \<Longrightarrow> with_id i (map (\<lambda>t. if al_id t = al_id a then a else t) ts) = map (\<lambda>t. a) (with_id i ts)"
  by (induction ts) (auto simp: with_id_def)

lemma with_id_shown:
  assumes "unique_ids ts" and "al_id a = Some i"
  shows "with_id i (showAlert a ts) = [a]"
proof (cases "al_id a \<in> al_id ` set ts")
  case True
  then obtain t where "t \<in> set (with_id i ts)" using assms(2) by (auto simp: with_id_def)
  moreover have "length (with_id i ts) \<le> 1" using assms(1) by (simp add: unique_ids_def)
  ultimately have "with_id i ts = [t]" by (cases "with_id i ts") auto
  with True assms(2) with_id_replaced [OF assms(2), of ts] show ?thesis by (simp add: showAlert_def)
next
  case False
  then have "with_id i ts = []" using assms(2) by (force simp: with_id_def filter_empty_conv)
  with False assms(2) show ?thesis by (simp add: showAlert_def with_id_def)
qed

interpretation toasts: machine showAlert "\<lambda>a. True" unique_ids
proof
  fix a :: alert and ts
  assume inv: "unique_ids ts"
  have "length (with_id i (showAlert a ts)) \<le> 1" for i
    using with_id_shown [OF inv, of a i] with_id_other [of a i ts] inv by (cases "al_id a = Some i") (auto simp: unique_ids_def)
  then show "unique_ids (showAlert a ts)" by (simp add: unique_ids_def)
qed

text \<open>
  A mutation that is refused reports itself twice under one id. Whatever alerts were shown
  before, afterwards exactly one toast has the address of the request as its id, and it has the
  message of the server exactly if the handler that reads the body shows its alert last; the
  toasts with other ids stay.
\<close>

theorem refused_mutation_toast:
  assumes "ts = fold showAlert before []" and "0 < ha_status r"
  shows "\<exists>a. with_id (ha_url r) (mutation_failed first_last (Answer r) ts) = [a]
    \<and> al_message a = (if first_last then shown_message (ha_body r) else JStr ''An error occurred'')
    \<and> al_title a = show_nat (ha_status r) @ '' '' @ ha_statusText r
    \<and> (\<forall>i. i \<noteq> ha_url r \<longrightarrow> with_id i (mutation_failed first_last (Answer r) ts) = with_id i ts)"
proof -
  have inv: "unique_ids ts" unfolding assms(1) by (rule toasts.inv_run) (simp_all add: list_all_iff unique_ids_def with_id_def)
  obtain n where n: "ha_status r = Suc n" using assms(2) by (cases "ha_status r") simp_all
  let ?a = "showServerError True (Answer r)" and ?b = "showServerError False (Answer r)"
  have ids: "al_id ?a = Some (ha_url r)" "al_id ?b = Some (ha_url r)" by (simp_all add: showServerError_def n)
  have "unique_ids (showAlert ?a ts)" "unique_ids (showAlert ?b ts)" using toasts.inv_step inv by blast+
  then have "with_id (ha_url r) (mutation_failed first_last (Answer r) ts) = [if first_last then ?a else ?b]"
    using ids by (simp add: mutation_failed_def with_id_shown)
  moreover have "with_id i (mutation_failed first_last (Answer r) ts) = with_id i ts" if "i \<noteq> ha_url r" for i
    using that ids by (simp add: mutation_failed_def with_id_other Let_def)
  ultimately show ?thesis by (auto simp: showServerError_def n read_body_def fallback_message)
qed

theorem refused_mutation_toast_witness:
  "\<exists>a. with_id ''/api/x'' (mutation_failed True (Answer \<lparr>ha_status = 403, ha_statusText = ''Forbidden'', ha_url = ''/api/x'',
        ha_body = Some (JObj [(''message'', JStr ''denied'')])\<rparr>) []) = [a] \<and> al_message a = JStr ''denied''"
  using refused_mutation_toast [of "[]" "[]" "\<lparr>ha_status = 403, ha_statusText = ''Forbidden'', ha_url = ''/api/x'',
        ha_body = Some (JObj [(''message'', JStr ''denied'')])\<rparr>" True]
  by (auto simp: shown_message_def body_message_def)

end
