(* ===== verification/Hooks.thy ===== *)
theory Hooks
  imports QueryCache ApiRoutes Errors
begin

text \<open>
  The hooks of \<open>frontend/src/lib/hooks/api\<close>: for every query its key in the cache, the operation of the
  generated client it calls with which parameters, and its options; for every change the operation,
  the alert that reports its success and the keys it invalidates. The callers may pass
  further options to some queries; they do not change the key or the request.
\<close>

section \<open>Parameters\<close>

fun part_value :: "key_part \<Rightarrow> jsval" where
  "part_value (KS s) = VStr s"
| "part_value (KN n) = VNum (Dec (int n) 0)"
| "part_value (KB b) = VBool b"
| "part_value KU = VUndef"
| "part_value (KO ms) = VObj (map (\<lambda>(k, v). (k, part_value v)) ms)"
| "part_value (KA xs) = VArr (map VStr xs)"

definition opt_jsval :: "('a \<Rightarrow> jsval) \<Rightarrow> 'a option \<Rightarrow> jsval" where
  "opt_jsval f v = (case v of Some x \<Rightarrow> f x | None \<Rightarrow> VUndef)"

abbreviation number :: "nat \<Rightarrow> jsval" where
  "number n \<equiv> VNum (Dec (int n) 0)"

definition in_cluster :: "string \<Rightarrow> args \<Rightarrow> args" where
  "in_cluster c p = (''clusterName'', VStr c) # p"

definition of_topic :: "string \<Rightarrow> string \<Rightarrow> args" where
  "of_topic c t = in_cluster c [(''topicName'', VStr t)]"

definition of_connector :: "string \<Rightarrow> string \<Rightarrow> string \<Rightarrow> args" where
  "of_connector c connect name = in_cluster c [(''connectName'', VStr connect), (''connectorName'', VStr name)]"

type_synonym api_call = "string \<times> endpoint \<times> args"

section \<open>Queries\<close>

text \<open>
  \<open>wrapped\<close>: the request goes through \<open>apiFetch\<close>. \<open>suppressed\<close>: the statuses in \<open>meta\<close> for which no
  alert is shown. \<open>keepsPrevious\<close>: the previous answer stays as placeholder.
\<close>

record query_hook =
  queryKey :: query_key
  queryFn :: api_call
  wrapped :: bool
  suspense :: bool
  keepsPrevious :: bool
  enabled :: bool
  refetchInterval :: "nat option"
  retries :: bool
  suppressed :: "nat list"

definition use_query :: "query_key \<Rightarrow> api_call \<Rightarrow> query_hook" where
  "use_query key q =
     \<lparr>queryKey = key, queryFn = q, wrapped = False, suspense = False, keepsPrevious = False, enabled = True,
      refetchInterval = None, retries = True, suppressed = []\<rparr>"

definition useClusters :: "query_hook" where
  "useClusters =
     use_query ([KS ''clusters''])
      (''getClusters'', getClusters, [])"

definition useClusterStats :: "string \<Rightarrow> query_hook" where
  "useClusterStats c =
     (use_query ([KS ''clusterStats'', KS c])
      (''getClusterStats'', getClusterStats, in_cluster c []))
     \<lparr>suspense := True, refetchInterval := Some 5000\<rparr>"

definition useTopics :: "string \<Rightarrow> (string \<times> key_part) list \<Rightarrow> query_hook" where
  "useTopics c filters =
     (use_query (topics_all c @ [KO filters])
      (''getTopics'', getTopics, in_cluster c (map (\<lambda>(k, v). (k, part_value v)) filters)))
     \<lparr>wrapped := True, keepsPrevious := True\<rparr>"

definition useTopicDetails :: "string \<Rightarrow> string \<Rightarrow> query_hook" where
  "useTopicDetails c t =
     (use_query (topic_details c t)
      (''getTopicDetails'', getTopicDetails, of_topic c t))
     \<lparr>wrapped := True\<rparr>"

definition useTopicConfig :: "string \<Rightarrow> string \<Rightarrow> query_hook" where
  "useTopicConfig c t =
     (use_query (topic_details c t @ [KS ''config''])
      (''getTopicConfigs'', getTopicConfigs, of_topic c t))
     \<lparr>suspense := True\<rparr>"

definition useTopicConsumerGroups :: "string \<Rightarrow> string \<Rightarrow> query_hook" where
  "useTopicConsumerGroups c t =
     (use_query (topic_details c t @ [KS ''consumerGroups''])
      (''getTopicConsumerGroups'', getTopicConsumerGroups, of_topic c t))
     \<lparr>suspense := True\<rparr>"

definition useTopicConnectors :: "string \<Rightarrow> string \<Rightarrow> query_hook" where
  "useTopicConnectors c t =
     (use_query (topic_details c t @ [KS ''connectors''])
      (''getTopicConnectors'', getTopicConnectors, of_topic c t))
     \<lparr>suspense := True\<rparr>"

definition useTopicAcls :: "string \<Rightarrow> string \<Rightarrow> query_hook" where
  "useTopicAcls c t =
     use_query (topic_details c t @ [KS ''acls''])
      (''listTopicAcls'', listTopicAcls, of_topic c t)"

definition useTopicAnalysis :: "string \<Rightarrow> string \<Rightarrow> bool \<Rightarrow> query_hook" where
  "useTopicAnalysis c t isEnabled =
     (use_query (topic_details c t @ [KS ''statistics''])
      (''getTopicAnalysis'', getTopicAnalysis, of_topic c t))
     \<lparr>enabled := isEnabled, refetchInterval := Some 1000, retries := False, suppressed := [404]\<rparr>"

definition useConsumerGroups :: "string \<Rightarrow> (string \<times> key_part) list \<Rightarrow> query_hook" where
  "useConsumerGroups c rest =
     (use_query ([KS ''clusters'', KS c, KS ''consumerGroups'', KO rest])
      (''getConsumerGroupsPage'', getConsumerGroupsPage, in_cluster c (map (\<lambda>(k, v). (k, part_value v)) rest)))
     \<lparr>wrapped := True, keepsPrevious := True\<rparr>"

definition useConsumerGroupDetails :: "string \<Rightarrow> string \<Rightarrow> query_hook" where
  "useConsumerGroupDetails c g =
     (use_query ([KS ''clusters'', KS c, KS ''consumerGroups'', KS g])
      (''getConsumerGroup'', getConsumerGroup, in_cluster c [(''id'', VStr g)]))
     \<lparr>wrapped := True\<rparr>"

definition useGetConsumerGroupsLag :: "string \<Rightarrow> nat \<Rightarrow> string list \<Rightarrow> bool option \<Rightarrow> int option \<Rightarrow> query_hook" where
  "useGetConsumerGroupsLag c polling ids incl lastUpdate =
     (use_query ([KS ''clusters'', KS c, KS ''consumerGroupsLag'', KA ids, opt_part (map_option KB incl)])
      (''getConsumerGroupsLag'', getConsumerGroupsLag, in_cluster c [(''ids'', VArr (map VStr ids)),
        (''lastUpdate'', opt_jsval (\<lambda>n. VNum (Dec n 0)) lastUpdate), (''includePartitions'', opt_jsval VBool incl)]))
     \<lparr>enabled := ids \<noteq> [], refetchInterval := if 0 < polling then Some (polling * 1000) else None\<rparr>"

definition useAcls :: "string \<Rightarrow> string option \<Rightarrow> bool option \<Rightarrow> query_hook" where
  "useAcls c search fts =
     (use_query ([KS ''clusters'', KS c, KS ''acls'',
       KO (opt_member ''search'' (map_option KS search) @ opt_member ''fts'' (map_option KB fts))])
      (''listAcls'', listAcls, in_cluster c [(''search'', opt_jsval VStr search), (''fts'', opt_jsval VBool fts)]))
     \<lparr>wrapped := True, keepsPrevious := True\<rparr>"

definition useConnects :: "string \<Rightarrow> bool option \<Rightarrow> query_hook" where
  "useConnects c withStats =
     (use_query (connectsKey c withStats)
      (''getConnects'', getConnects, in_cluster c [(''withStats'', opt_jsval VBool withStats)]))
     \<lparr>wrapped := True\<rparr>"

definition useConnectors :: "string \<Rightarrow> string option \<Rightarrow> bool option \<Rightarrow> query_hook" where
  "useConnectors c search fts =
     (use_query (connectorsKey c search fts)
      (''getAllConnectors'', getAllConnectors, in_cluster c [(''search'', opt_jsval VStr search), (''fts'', opt_jsval VBool fts)]))
     \<lparr>wrapped := True, keepsPrevious := True\<rparr>"

definition useConnector :: "string \<Rightarrow> string \<Rightarrow> string \<Rightarrow> query_hook" where
  "useConnector c connect name =
     (use_query (connectorKey c connect name)
      (''getConnector'', getConnector, of_connector c connect name))
     \<lparr>wrapped := True\<rparr>"

definition useConnectorTasks :: "string \<Rightarrow> string \<Rightarrow> string \<Rightarrow> query_hook" where
  "useConnectorTasks c connect name =
     (use_query (connectorKey c connect name @ [KS ''tasks''])
      (''getConnectorTasks'', getConnectorTasks, of_connector c connect name))
     \<lparr>wrapped := True\<rparr>"

definition useConnectorConfig :: "string \<Rightarrow> string \<Rightarrow> string \<Rightarrow> query_hook" where
  "useConnectorConfig c connect name =
     use_query (connectorKey c connect name @ [KS ''config''])
      (''getConnectorConfig'', getConnectorConfig, of_connector c connect name)"

definition useGetSchemas :: "string \<Rightarrow> schema_list \<Rightarrow> query_hook" where
  "useGetSchemas c p =
     (use_query (schemas_key c p)
      (''getSchemas'', getSchemas, in_cluster c
        [(''page'', opt_jsval number (sl_page p)), (''perPage'', opt_jsval number (sl_perPage p)),
         (''search'', opt_jsval VStr (search_key (sl_search p))), (''sortOrder'', opt_jsval VStr (sl_sortOrder p)),
         (''orderBy'', opt_jsval VStr (sl_orderBy p)), (''fts'', opt_jsval VBool (sl_fts p))]))
     \<lparr>wrapped := True, keepsPrevious := True\<rparr>"

definition useGetLatestSchema :: "string \<Rightarrow> string \<Rightarrow> query_hook" where
  "useGetLatestSchema c s =
     (use_query ([KS SCHEMA_QUERY_KEY, KS LATEST_SCHEMA_QUERY_KEY, KS c, KS s])
      (''getLatestSchema'', getLatestSchema, in_cluster c [(''subject'', VStr s)]))
     \<lparr>wrapped := True\<rparr>"

definition useGetSchemasVersions :: "string \<Rightarrow> string \<Rightarrow> query_hook" where
  "useGetSchemasVersions c s =
     (use_query ([KS SCHEMAS_VERSION_QUERY_KEY, KS c, KS s])
      (''getAllVersionsBySubject'', getAllVersionsBySubject, in_cluster c [(''subject'', VStr s)]))
     \<lparr>wrapped := True\<rparr>"

definition useGetGlobalCompatibilityLayer :: "string \<Rightarrow> query_hook" where
  "useGetGlobalCompatibilityLayer c =
     (use_query ([KS GLOBAL_COMPATIBILITY_SCHEMAS_QUERY_KEY, KS c])
      (''getGlobalSchemaCompatibilityLevel'', getGlobalSchemaCompatibilityLevel, in_cluster c []))
     \<lparr>wrapped := True\<rparr>"

definition useKsqlTables :: "string \<Rightarrow> query_hook" where
  "useKsqlTables c =
     (use_query ([KS ''clusters'', KS c, KS ''ksqlDb'', KS ''tables''])
      (''listTables'', listTables, in_cluster c []))
     \<lparr>wrapped := True\<rparr>"

definition useKsqlStreams :: "string \<Rightarrow> query_hook" where
  "useKsqlStreams c =
     (use_query ([KS ''clusters'', KS c, KS ''ksqlDb'', KS ''streams''])
      (''listStreams'', listStreams, in_cluster c []))
     \<lparr>wrapped := True\<rparr>"

definition useBrokers :: "string \<Rightarrow> query_hook" where
  "useBrokers c =
     (use_query ([KS ''clusters'', KS c, KS ''brokers''])
      (''getBrokers'', getBrokers, in_cluster c []))
     \<lparr>wrapped := True, refetchInterval := Some 5000\<rparr>"

definition useBrokerMetrics :: "string \<Rightarrow> nat \<Rightarrow> query_hook" where
  "useBrokerMetrics c b =
     (use_query ([KS ''clusters'', KS c, KS ''brokers'', KN b, KS ''metrics''])
      (''getBrokersMetrics'', getBrokersMetrics, in_cluster c [(''id'', number b)]))
     \<lparr>suspense := True\<rparr>"

definition useBrokerLogDirs :: "string \<Rightarrow> nat \<Rightarrow> query_hook" where
  "useBrokerLogDirs c b =
     (use_query ([KS ''clusters'', KS c, KS ''brokers'', KN b, KS ''logDirs''])
      (''getAllBrokersLogdirs'', getAllBrokersLogdirs, in_cluster c [(''broker'', VArr [number b])]))
     \<lparr>suspense := True\<rparr>"

definition useBrokerConfig :: "string \<Rightarrow> nat \<Rightarrow> query_hook" where
  "useBrokerConfig c b =
     (use_query ([KS ''clusters'', KS c, KS ''brokers'', KN b, KS ''settings''])
      (''getBrokerConfig'', getBrokerConfig, in_cluster c [(''id'', number b)]))
     \<lparr>suspense := True\<rparr>"

definition useAppConfig :: "query_hook" where
  "useAppConfig =
     (use_query ([KS ''app'', KS ''config''])
      (''getCurrentConfig'', getCurrentConfig, []))
     \<lparr>suspense := True\<rparr>"

definition useAppInfo :: "query_hook" where
  "useAppInfo =
     (use_query ([KS ''app'', KS ''info''])
      (''getApplicationInfo'', getApplicationInfo, []))
     \<lparr>suspense := True\<rparr>"

definition useAuthSettings :: "query_hook" where
  "useAuthSettings =
     (use_query ([KS ''app'', KS ''authSettings''])
      (''getAuthenticationSettings'', getAuthenticationSettings, []))
     \<lparr>suspense := True\<rparr>"

definition useGetUserInfo :: "query_hook" where
  "useGetUserInfo =
     (use_query ([KS ''userInfo''])
      (''getUserAuthInfo'', getUserAuthInfo, []))
     \<lparr>suspense := True\<rparr>"

section \<open>Changes\<close>

record mutation_hook =
  mutationFn :: api_call
  announced :: "alert option"
  invalidated :: "key_filter list"

definition use_mutation :: "api_call \<Rightarrow> alert option \<times> key_filter list \<Rightarrow> mutation_hook" where
  "use_mutation f after = \<lparr>mutationFn = f, announced = fst after, invalidated = snd after\<rparr>"

text \<open>What the creation of an access rule does on success.\<close>

definition onCreateAclSuccess :: "string \<Rightarrow> alert option \<times> key_filter list" where
  "onCreateAclSuccess c =
     (Some (success_alert None ''Your ACL was created successfully''), [Prefix [KS ''clusters'', KS c, KS ''acls'']])"

text \<open>The id of the alert that messages were cleared.\<close>

definition message_id :: "string \<Rightarrow> string \<Rightarrow> jsval \<Rightarrow> string" where
  "message_id c t partitions = ''message-'' @ t @ ''-'' @ c @ ''-'' @ js_text (\<lambda>_. []) partitions"

definition useCreateTopicMutation :: "string \<Rightarrow> jsval \<Rightarrow> mutation_hook" where
  "useCreateTopicMutation c x =
     use_mutation (''createTopic'', createTopic, in_cluster c [(''topicCreation'', x)])
       (None, [Prefix (topics_all c)])"

definition useUpdateTopic :: "string \<Rightarrow> string \<Rightarrow> jsval \<Rightarrow> mutation_hook" where
  "useUpdateTopic c t x =
     use_mutation (''updateTopic'', updateTopic, of_topic c t @ [(''topicUpdate'', x)])
       (Some (success_alert None (''Topic successfully updated.'')), [Prefix (topics_all c)])"

definition useIncreaseTopicPartitionsCount :: "string \<Rightarrow> string \<Rightarrow> jsval \<Rightarrow> mutation_hook" where
  "useIncreaseTopicPartitionsCount c t x =
     use_mutation (''increaseTopicPartitions'', increaseTopicPartitions, of_topic c t @ [(''partitionsIncrease'', VObj [(''totalPartitionsCount'', x)])])
       (Some (success_alert None (''Number of partitions successfully increased'')), [Prefix (topics_all c)])"

definition useUpdateTopicReplicationFactor :: "string \<Rightarrow> string \<Rightarrow> jsval \<Rightarrow> mutation_hook" where
  "useUpdateTopicReplicationFactor c t x =
     use_mutation (''changeReplicationFactor'', changeReplicationFactor, of_topic c t @ [(''replicationFactorChange'', VObj [(''totalReplicationFactor'', x)])])
       (Some (success_alert None (''Replication factor successfully updated'')), [Prefix (topics_all c)])"

definition useDeleteTopic :: "string \<Rightarrow> string \<Rightarrow> mutation_hook" where
  "useDeleteTopic c t =
     use_mutation (''deleteTopic'', deleteTopic, of_topic c t)
       (Some (success_alert None (''Topic '' @ t @ '' successfully deleted!'')), [Prefix (topics_all c)])"

definition useClearTopicMessages :: "string \<Rightarrow> jsval \<Rightarrow> string \<Rightarrow> mutation_hook" where
  "useClearTopicMessages c x t =
     use_mutation (''deleteTopicMessages'', deleteTopicMessages, in_cluster c [(''partitions'', x), (''topicName'', VStr t)])
       (Some (success_alert (Some (message_id c t x)) (t @ '' messages have been successfully cleared!'')), [Prefix (topics_all c)])"

definition useRecreateTopic :: "string \<Rightarrow> string \<Rightarrow> mutation_hook" where
  "useRecreateTopic c t =
     use_mutation (''recreateTopic'', recreateTopic, of_topic c t)
       (Some (success_alert None (''Topic '' @ t @ '' successfully recreated!'')), [Prefix (topics_all c)])"

definition useSendMessage :: "string \<Rightarrow> string \<Rightarrow> jsval \<Rightarrow> mutation_hook" where
  "useSendMessage c t x =
     use_mutation (''sendTopicMessages'', sendTopicMessages, of_topic c t @ [(''createTopicMessage'', x)])
       (Some (success_alert None (''Message successfully sent'')), [Prefix (topics_all c)])"

definition useAnalyzeTopic :: "string \<Rightarrow> string \<Rightarrow> mutation_hook" where
  "useAnalyzeTopic c t =
     use_mutation (''analyzeTopic'', analyzeTopic, of_topic c t)
       (None, [Prefix (topic_details c t @ [KS ''statistics''])])"

definition useCancelTopicAnalysis :: "string \<Rightarrow> string \<Rightarrow> mutation_hook" where
  "useCancelTopicAnalysis c t =
     use_mutation (''cancelTopicAnalysis'', cancelTopicAnalysis, of_topic c t)
       (Some (success_alert None (''Topic analysis canceled'')), [Prefix (topic_details c t @ [KS ''statistics''])])"

definition useDeleteConsumerGroupMutation :: "string \<Rightarrow> string \<Rightarrow> mutation_hook" where
  "useDeleteConsumerGroupMutation c g =
     use_mutation (''deleteConsumerGroup'', deleteConsumerGroup, in_cluster c [(''id'', VStr g)])
       (Some (success_alert None (''Consumer '' @ g @ '' group deleted'')), [Prefix [KS ''clusters'', KS c, KS ''consumerGroups'']])"

definition useResetConsumerGroupOffsetsMutation :: "string \<Rightarrow> string \<Rightarrow> jsval \<Rightarrow> mutation_hook" where
  "useResetConsumerGroupOffsetsMutation c g x =
     use_mutation (''resetConsumerGroupOffsets'', resetConsumerGroupOffsets, in_cluster c [(''id'', VStr g), (''consumerGroupOffsetsReset'', x)])
       (Some (success_alert None (''Consumer '' @ g @ '' group offsets reset'')), [Prefix [KS ''clusters'', KS c, KS ''consumerGroups'']])"

definition useDeleteConsumerGroupOffsetsMutation :: "string \<Rightarrow> string \<Rightarrow> jsval \<Rightarrow> mutation_hook" where
  "useDeleteConsumerGroupOffsetsMutation c g x =
     use_mutation (''deleteConsumerGroupOffsets'', deleteConsumerGroupOffsets, in_cluster c [(''id'', VStr g), (''topicName'', x)])
       (Some (success_alert None (''Consumer '' @ g @ '' group offsets in topic '' @ js_text (\<lambda>_. []) x @ '' deleted'')), [Prefix [KS ''clusters'', KS c, KS ''consumerGroups'']])"

definition useCreateCustomAcl :: "string \<Rightarrow> jsval \<Rightarrow> mutation_hook" where
  "useCreateCustomAcl c x =
     use_mutation (''createAcl'', createAcl, in_cluster c [(''kafkaAcl'', x)])
       (onCreateAclSuccess c)"

definition useCreateConsumersAcl :: "string \<Rightarrow> jsval \<Rightarrow> mutation_hook" where
  "useCreateConsumersAcl c x =
     use_mutation (''createConsumerAcl'', createConsumerAcl, in_cluster c [(''createConsumerAcl'', x)])
       (onCreateAclSuccess c)"

definition useCreateProducerAcl :: "string \<Rightarrow> jsval \<Rightarrow> mutation_hook" where
  "useCreateProducerAcl c x =
     use_mutation (''createProducerAcl'', createProducerAcl, in_cluster c [(''createProducerAcl'', x)])
       (onCreateAclSuccess c)"

definition useCreateStreamAppAcl :: "string \<Rightarrow> jsval \<Rightarrow> mutation_hook" where
  "useCreateStreamAppAcl c x =
     use_mutation (''createStreamAppAcl'', createStreamAppAcl, in_cluster c [(''createStreamAppAcl'', x)])
       (onCreateAclSuccess c)"

definition useDeleteAclMutation :: "string \<Rightarrow> jsval \<Rightarrow> mutation_hook" where
  "useDeleteAclMutation c x =
     use_mutation (''deleteAcl'', deleteAcl, in_cluster c [(''kafkaAcl'', x)])
       (Some (success_alert None (''ACL deleted'')), [Prefix [KS ''clusters'', KS c, KS ''acls'']])"

definition useUpdateConnectorState :: "string \<Rightarrow> string \<Rightarrow> string \<Rightarrow> string option \<Rightarrow> jsval \<Rightarrow> mutation_hook" where
  "useUpdateConnectorState c connect name topic x =
     use_mutation (''updateConnectorState'', updateConnectorState, of_connector c connect name @ [(''action'', x)])
       (None, [Prefix (connectorsKey c None None), Prefix (connectorKey c connect name)]
       @ (case topic of
            Some t \<Rightarrow> if t \<noteq> [] then [Prefix (topic_details c t @ [KS ''connectors''])] else []
          | None \<Rightarrow> []))"

definition useRestartConnectorTask :: "string \<Rightarrow> string \<Rightarrow> string \<Rightarrow> jsval \<Rightarrow> mutation_hook" where
  "useRestartConnectorTask c connect name x =
     use_mutation (''restartConnectorTask'', restartConnectorTask, of_connector c connect name @ [(''taskId'', x)])
       (None, [Prefix (connectorKey c connect name @ [KS ''tasks''])])"

definition useUpdateConnectorConfig :: "string \<Rightarrow> string \<Rightarrow> string \<Rightarrow> jsval \<Rightarrow> mutation_hook" where
  "useUpdateConnectorConfig c connect name x =
     use_mutation (''setConnectorConfig'', setConnectorConfig, of_connector c connect name @ [(''requestBody'', x)])
       (Some (success_alert None (''Config successfully updated.'')), [Prefix (connectorKey c connect name)])"

definition useCreateConnectorMutation :: "string \<Rightarrow> jsval \<Rightarrow> mutation_hook" where
  "useCreateConnectorMutation c x =
     use_mutation (''createConnector'', createConnector, in_cluster c [(''connectName'', get_prop x ''connectName''), (''newConnector'', get_prop x ''newConnector'')])
       (None, [Prefix (connectorsKey c None None)])"

definition useDeleteConnector :: "string \<Rightarrow> string \<Rightarrow> string \<Rightarrow> mutation_hook" where
  "useDeleteConnector c connect name =
     use_mutation (''deleteConnector'', deleteConnector, of_connector c connect name)
       (None, [Prefix (connectorsKey c None None)])"

definition useResetConnectorOffsets :: "string \<Rightarrow> string \<Rightarrow> string \<Rightarrow> mutation_hook" where
  "useResetConnectorOffsets c connect name =
     use_mutation (''resetConnectorOffsets'', resetConnectorOffsets, of_connector c connect name)
       (None, [Prefix (connectorKey c connect name)])"

definition useCreateSchema :: "string \<Rightarrow> jsval \<Rightarrow> mutation_hook" where
  "useCreateSchema c x =
     use_mutation (''createNewSchema'', createNewSchema, in_cluster c [(''newSchemaSubject'',
       VObj [(''subject'', get_prop x ''subject''), (''schema'', get_prop x ''schema''), (''schemaType'', get_prop x ''schemaType'')])])
       (None, [SchemaOf c])"

definition useUpdateSchemaCompatibilityLayer :: "string \<Rightarrow> string \<Rightarrow> jsval \<Rightarrow> mutation_hook" where
  "useUpdateSchemaCompatibilityLayer c s x =
     use_mutation (''updateSchemaCompatibilityLevel'', updateSchemaCompatibilityLevel, in_cluster c [(''subject'', VStr s), (''compatibilityLevel'', get_prop x ''compatibilityLevel'')])
       (None, [SchemaOf c])"

definition useUpdateGlobalSchemaCompatibilityLevel :: "string \<Rightarrow> jsval \<Rightarrow> mutation_hook" where
  "useUpdateGlobalSchemaCompatibilityLevel c x =
     use_mutation (''updateGlobalSchemaCompatibilityLevel'', updateGlobalSchemaCompatibilityLevel, in_cluster c [(''compatibilityLevel'', get_prop x ''compatibilityLevel'')])
       (None, [Prefix [KS GLOBAL_COMPATIBILITY_SCHEMAS_QUERY_KEY, KS c], SchemaOf c])"

definition useDeleteSchema :: "string \<Rightarrow> string \<Rightarrow> mutation_hook" where
  "useDeleteSchema c s =
     use_mutation (''deleteSchema'', deleteSchema, in_cluster c [(''subject'', VStr s)])
       (None, [SchemaOf c])"

definition useUpdateBrokerConfigByName :: "string \<Rightarrow> nat \<Rightarrow> jsval \<Rightarrow> mutation_hook" where
  "useUpdateBrokerConfigByName c b x =
     use_mutation (''updateBrokerConfigByName'', updateBrokerConfigByName, in_cluster c [(''id'', number b), (''name'', get_prop x ''name''), (''brokerConfigItem'', get_prop x ''brokerConfigItem'')])
       (None, [Prefix [KS ''clusters'', KS c, KS ''brokers'', KN b, KS ''settings'']])"

section \<open>The tables of hooks\<close>

text \<open>
  The hook of a query. The time of the previous answer, \<open>lastUpdate\<close>, is not part of the query; the
  statistics of a topic are enabled and the lag is not polled here. The version and the settings of agents are
  not asked for through the generated client.
\<close>

fun hook_of :: "int option \<Rightarrow> query \<Rightarrow> query_hook option" where
  "hook_of lastUpdate Clusters = Some useClusters"
| "hook_of lastUpdate (ClusterStats c) = Some (useClusterStats c)"
| "hook_of lastUpdate (Topics c filters) = Some (useTopics c filters)"
| "hook_of lastUpdate (TopicDetails c t) = Some (useTopicDetails c t)"
| "hook_of lastUpdate (TopicConfig c t) = Some (useTopicConfig c t)"
| "hook_of lastUpdate (TopicConsumerGroups c t) = Some (useTopicConsumerGroups c t)"
| "hook_of lastUpdate (TopicConnectors c t) = Some (useTopicConnectors c t)"
| "hook_of lastUpdate (TopicAcls c t) = Some (useTopicAcls c t)"
| "hook_of lastUpdate (TopicAnalysis c t) = Some (useTopicAnalysis c t True)"
| "hook_of lastUpdate (ConsumerGroups c params) = Some (useConsumerGroups c params)"
| "hook_of lastUpdate (ConsumerGroupDetails c g) = Some (useConsumerGroupDetails c g)"
| "hook_of lastUpdate (ConsumerGroupsLag c ids incl) = Some (useGetConsumerGroupsLag c 0 ids incl lastUpdate)"
| "hook_of lastUpdate (Acls c search fts) = Some (useAcls c search fts)"
| "hook_of lastUpdate (Connects c withStats) = Some (useConnects c withStats)"
| "hook_of lastUpdate (Connectors c search fts) = Some (useConnectors c search fts)"
| "hook_of lastUpdate (Connector c connect name) = Some (useConnector c connect name)"
| "hook_of lastUpdate (ConnectorTasks c connect name) = Some (useConnectorTasks c connect name)"
| "hook_of lastUpdate (ConnectorConfig c connect name) = Some (useConnectorConfig c connect name)"
| "hook_of lastUpdate (Schemas c p) = Some (useGetSchemas c p)"
| "hook_of lastUpdate (LatestSchema c s) = Some (useGetLatestSchema c s)"
| "hook_of lastUpdate (SchemaVersions c s) = Some (useGetSchemasVersions c s)"
| "hook_of lastUpdate (GlobalCompatibility c) = Some (useGetGlobalCompatibilityLayer c)"
| "hook_of lastUpdate (KsqlTables c) = Some (useKsqlTables c)"
| "hook_of lastUpdate (KsqlStreams c) = Some (useKsqlStreams c)"
| "hook_of lastUpdate (Brokers c) = Some (useBrokers c)"
| "hook_of lastUpdate (BrokerMetrics c b) = Some (useBrokerMetrics c b)"
| "hook_of lastUpdate (BrokerLogDirs c b) = Some (useBrokerLogDirs c b)"
| "hook_of lastUpdate (BrokerConfig c b) = Some (useBrokerConfig c b)"
| "hook_of lastUpdate AppConfigQuery = Some useAppConfig"
| "hook_of lastUpdate AppInfo = Some useAppInfo"
| "hook_of lastUpdate AuthSettings = Some useAuthSettings"
| "hook_of lastUpdate UserInfo = Some useGetUserInfo"
| "hook_of lastUpdate VersionInfo = None"
| "hook_of lastUpdate McpSettings = None"
| "hook_of lastUpdate McpIntegrations = None"

text \<open>
  The hooks for a change, with \<open>x\<close> as the argument of the mutation. An access rule is created by
  one of four hooks. Changes of the stored configuration read it first; the others go to
  addresses outside the generated client.
\<close>

fun mutations_of :: "jsval \<Rightarrow> change \<Rightarrow> mutation_hook list" where
  "mutations_of x (CreateTopic c) = [useCreateTopicMutation c x]"
| "mutations_of x (UpdateTopic c t) = [useUpdateTopic c t x]"
| "mutations_of x (IncreasePartitions c t) = [useIncreaseTopicPartitionsCount c t x]"
| "mutations_of x (ChangeReplication c t) = [useUpdateTopicReplicationFactor c t x]"
| "mutations_of x (DeleteTopic c t) = [useDeleteTopic c t]"
| "mutations_of x (ClearMessages c t) = [useClearTopicMessages c x t]"
| "mutations_of x (RecreateTopic c t) = [useRecreateTopic c t]"
| "mutations_of x (SendMessage c t) = [useSendMessage c t x]"
| "mutations_of x (AnalyzeTopic c t) = [useAnalyzeTopic c t]"
| "mutations_of x (CancelTopicAnalysis c t) = [useCancelTopicAnalysis c t]"
| "mutations_of x (DeleteConsumerGroup c g) = [useDeleteConsumerGroupMutation c g]"
| "mutations_of x (ResetOffsets c g) = [useResetConsumerGroupOffsetsMutation c g x]"
| "mutations_of x (DeleteOffsets c g) = [useDeleteConsumerGroupOffsetsMutation c g x]"
| "mutations_of x (CreateAcl c) = [useCreateCustomAcl c x, useCreateConsumersAcl c x, useCreateProducerAcl c x, useCreateStreamAppAcl c x]"
| "mutations_of x (DeleteAcl c) = [useDeleteAclMutation c x]"
| "mutations_of x (UpdateConnectorState c connect name topic) = [useUpdateConnectorState c connect name topic x]"
| "mutations_of x (RestartTask c connect name) = [useRestartConnectorTask c connect name x]"
| "mutations_of x (UpdateConnectorConfig c connect name) = [useUpdateConnectorConfig c connect name x]"
| "mutations_of x (CreateConnector c) = [useCreateConnectorMutation c x]"
| "mutations_of x (DeleteConnector c connect name) = [useDeleteConnector c connect name]"
| "mutations_of x (ResetConnectorOffsets c connect name) = [useResetConnectorOffsets c connect name]"
| "mutations_of x (CreateSchema c s) = [useCreateSchema c x]"
| "mutations_of x (UpdateSchemaCompatibility c s) = [useUpdateSchemaCompatibilityLayer c s x]"
| "mutations_of x (UpdateGlobalCompatibility c) = [useUpdateGlobalSchemaCompatibilityLevel c x]"
| "mutations_of x (DeleteSchema c s) = [useDeleteSchema c s]"
| "mutations_of x (UpdateBrokerConfig c b) = [useUpdateBrokerConfigByName c b x]"
| "mutations_of x m = []"

definition query_call :: "int option \<Rightarrow> query \<Rightarrow> api_call option" where
  "query_call lastUpdate q = map_option queryFn (hook_of lastUpdate q)"

definition change_calls :: "jsval \<Rightarrow> change \<Rightarrow> api_call list" where
  "change_calls x m = map mutationFn (mutations_of x m)"

lemmas query_hook_defs = use_query_def useClusters_def useClusterStats_def useTopics_def useTopicDetails_def useTopicConfig_def
  useTopicConsumerGroups_def useTopicConnectors_def useTopicAcls_def useTopicAnalysis_def
  useConsumerGroups_def useConsumerGroupDetails_def useGetConsumerGroupsLag_def useAcls_def useConnects_def
  useConnectors_def useConnector_def useConnectorTasks_def useConnectorConfig_def useGetSchemas_def
  useGetLatestSchema_def useGetSchemasVersions_def useGetGlobalCompatibilityLayer_def useKsqlTables_def
  useKsqlStreams_def useBrokers_def useBrokerMetrics_def useBrokerLogDirs_def useBrokerConfig_def
  useAppConfig_def useAppInfo_def useAuthSettings_def useGetUserInfo_def

lemmas mutation_hook_defs = use_mutation_def onCreateAclSuccess_def
  useCreateTopicMutation_def useUpdateTopic_def useIncreaseTopicPartitionsCount_def
  useUpdateTopicReplicationFactor_def useDeleteTopic_def useClearTopicMessages_def useRecreateTopic_def
  useSendMessage_def useAnalyzeTopic_def useCancelTopicAnalysis_def useDeleteConsumerGroupMutation_def
  useResetConsumerGroupOffsetsMutation_def useDeleteConsumerGroupOffsetsMutation_def useCreateCustomAcl_def
  useCreateConsumersAcl_def useCreateProducerAcl_def useCreateStreamAppAcl_def useDeleteAclMutation_def
  useUpdateConnectorState_def useRestartConnectorTask_def useUpdateConnectorConfig_def
  useCreateConnectorMutation_def useDeleteConnector_def useResetConnectorOffsets_def useCreateSchema_def
  useUpdateSchemaCompatibilityLayer_def useUpdateGlobalSchemaCompatibilityLevel_def useDeleteSchema_def
  useUpdateBrokerConfigByName_def

lemma query_calls [simp]:
  "query_call lastUpdate Clusters = Some (''getClusters'', getClusters, [])"
  "query_call lastUpdate (ClusterStats c) = Some (''getClusterStats'', getClusterStats, in_cluster c [])"
  "query_call lastUpdate (Topics c filters) = Some (''getTopics'', getTopics, in_cluster c (map (\<lambda>(k, v). (k, part_value v)) filters))"
  "query_call lastUpdate (TopicDetails c t) = Some (''getTopicDetails'', getTopicDetails, of_topic c t)"
  "query_call lastUpdate (TopicConfig c t) = Some (''getTopicConfigs'', getTopicConfigs, of_topic c t)"
  "query_call lastUpdate (TopicConsumerGroups c t) = Some (''getTopicConsumerGroups'', getTopicConsumerGroups, of_topic c t)"
  "query_call lastUpdate (TopicConnectors c t) = Some (''getTopicConnectors'', getTopicConnectors, of_topic c t)"
  "query_call lastUpdate (TopicAcls c t) = Some (''listTopicAcls'', listTopicAcls, of_topic c t)"
  "query_call lastUpdate (TopicAnalysis c t) = Some (''getTopicAnalysis'', getTopicAnalysis, of_topic c t)"
  "query_call lastUpdate (ConsumerGroups c params) = Some (''getConsumerGroupsPage'', getConsumerGroupsPage, in_cluster c (map (\<lambda>(k, v). (k, part_value v)) params))"
  "query_call lastUpdate (ConsumerGroupDetails c g) = Some (''getConsumerGroup'', getConsumerGroup, in_cluster c [(''id'', VStr g)])"
  "query_call lastUpdate (ConsumerGroupsLag c ids incl) = Some (''getConsumerGroupsLag'', getConsumerGroupsLag, in_cluster c [(''ids'', VArr (map VStr ids)), (''lastUpdate'', opt_jsval (\<lambda>n. VNum (Dec n 0)) lastUpdate), (''includePartitions'', opt_jsval VBool incl)])"
  "query_call lastUpdate (Acls c search fts) = Some (''listAcls'', listAcls, in_cluster c [(''search'', opt_jsval VStr search), (''fts'', opt_jsval VBool fts)])"
  "query_call lastUpdate (Connects c withStats) = Some (''getConnects'', getConnects, in_cluster c [(''withStats'', opt_jsval VBool withStats)])"
  "query_call lastUpdate (Connectors c search fts) = Some (''getAllConnectors'', getAllConnectors, in_cluster c [(''search'', opt_jsval VStr search), (''fts'', opt_jsval VBool fts)])"
  "query_call lastUpdate (Connector c connect name) = Some (''getConnector'', getConnector, of_connector c connect name)"
  "query_call lastUpdate (ConnectorTasks c connect name) = Some (''getConnectorTasks'', getConnectorTasks, of_connector c connect name)"
  "query_call lastUpdate (ConnectorConfig c connect name) = Some (''getConnectorConfig'', getConnectorConfig, of_connector c connect name)"
  "query_call lastUpdate (Schemas c p) = Some (''getSchemas'', getSchemas, in_cluster c [(''page'', opt_jsval number (sl_page p)), (''perPage'', opt_jsval number (sl_perPage p)), (''search'', opt_jsval VStr (search_key (sl_search p))), (''sortOrder'', opt_jsval VStr (sl_sortOrder p)), (''orderBy'', opt_jsval VStr (sl_orderBy p)), (''fts'', opt_jsval VBool (sl_fts p))])"
  "query_call lastUpdate (LatestSchema c s) = Some (''getLatestSchema'', getLatestSchema, in_cluster c [(''subject'', VStr s)])"
  "query_call lastUpdate (SchemaVersions c s) = Some (''getAllVersionsBySubject'', getAllVersionsBySubject, in_cluster c [(''subject'', VStr s)])"
  "query_call lastUpdate (GlobalCompatibility c) = Some (''getGlobalSchemaCompatibilityLevel'', getGlobalSchemaCompatibilityLevel, in_cluster c [])"
  "query_call lastUpdate (KsqlTables c) = Some (''listTables'', listTables, in_cluster c [])"
  "query_call lastUpdate (KsqlStreams c) = Some (''listStreams'', listStreams, in_cluster c [])"
  "query_call lastUpdate (Brokers c) = Some (''getBrokers'', getBrokers, in_cluster c [])"
  "query_call lastUpdate (BrokerMetrics c b) = Some (''getBrokersMetrics'', getBrokersMetrics, in_cluster c [(''id'', number b)])"
  "query_call lastUpdate (BrokerLogDirs c b) = Some (''getAllBrokersLogdirs'', getAllBrokersLogdirs, in_cluster c [(''broker'', VArr [number b])])"
  "query_call lastUpdate (BrokerConfig c b) = Some (''getBrokerConfig'', getBrokerConfig, in_cluster c [(''id'', number b)])"
  "query_call lastUpdate AppConfigQuery = Some (''getCurrentConfig'', getCurrentConfig, [])"
  "query_call lastUpdate AppInfo = Some (''getApplicationInfo'', getApplicationInfo, [])"
  "query_call lastUpdate AuthSettings = Some (''getAuthenticationSettings'', getAuthenticationSettings, [])"
  "query_call lastUpdate UserInfo = Some (''getUserAuthInfo'', getUserAuthInfo, [])"
  "query_call lastUpdate VersionInfo = None"
  "query_call lastUpdate McpSettings = None"
  "query_call lastUpdate McpIntegrations = None"
  by (simp_all add: query_call_def query_hook_defs)

lemma changes_calls [simp]:
  "change_calls x (CreateTopic c) = [(''createTopic'', createTopic, in_cluster c [(''topicCreation'', x)])]"
  "change_calls x (UpdateTopic c t) = [(''updateTopic'', updateTopic, of_topic c t @ [(''topicUpdate'', x)])]"
  "change_calls x (IncreasePartitions c t) = [(''increaseTopicPartitions'', increaseTopicPartitions, of_topic c t @ [(''partitionsIncrease'', VObj [(''totalPartitionsCount'', x)])])]"
  "change_calls x (ChangeReplication c t) = [(''changeReplicationFactor'', changeReplicationFactor, of_topic c t @ [(''replicationFactorChange'', VObj [(''totalReplicationFactor'', x)])])]"
  "change_calls x (DeleteTopic c t) = [(''deleteTopic'', deleteTopic, of_topic c t)]"
  "change_calls x (ClearMessages c t) = [(''deleteTopicMessages'', deleteTopicMessages, in_cluster c [(''partitions'', x), (''topicName'', VStr t)])]"
  "change_calls x (RecreateTopic c t) = [(''recreateTopic'', recreateTopic, of_topic c t)]"
  "change_calls x (SendMessage c t) = [(''sendTopicMessages'', sendTopicMessages, of_topic c t @ [(''createTopicMessage'', x)])]"
  "change_calls x (AnalyzeTopic c t) = [(''analyzeTopic'', analyzeTopic, of_topic c t)]"
  "change_calls x (CancelTopicAnalysis c t) = [(''cancelTopicAnalysis'', cancelTopicAnalysis, of_topic c t)]"
  "change_calls x (DeleteConsumerGroup c g) = [(''deleteConsumerGroup'', deleteConsumerGroup, in_cluster c [(''id'', VStr g)])]"
  "change_calls x (ResetOffsets c g) = [(''resetConsumerGroupOffsets'', resetConsumerGroupOffsets, in_cluster c [(''id'', VStr g), (''consumerGroupOffsetsReset'', x)])]"
  "change_calls x (DeleteOffsets c g) = [(''deleteConsumerGroupOffsets'', deleteConsumerGroupOffsets, in_cluster c [(''id'', VStr g), (''topicName'', x)])]"
  "change_calls x (CreateAcl c) = [(''createAcl'', createAcl, in_cluster c [(''kafkaAcl'', x)]), (''createConsumerAcl'', createConsumerAcl, in_cluster c [(''createConsumerAcl'', x)]), (''createProducerAcl'', createProducerAcl, in_cluster c [(''createProducerAcl'', x)]), (''createStreamAppAcl'', createStreamAppAcl, in_cluster c [(''createStreamAppAcl'', x)])]"
  "change_calls x (DeleteAcl c) = [(''deleteAcl'', deleteAcl, in_cluster c [(''kafkaAcl'', x)])]"
  "change_calls x (UpdateConnectorState c connect name topic) = [(''updateConnectorState'', updateConnectorState, of_connector c connect name @ [(''action'', x)])]"
  "change_calls x (RestartTask c connect name) = [(''restartConnectorTask'', restartConnectorTask, of_connector c connect name @ [(''taskId'', x)])]"
  "change_calls x (UpdateConnectorConfig c connect name) = [(''setConnectorConfig'', setConnectorConfig, of_connector c connect name @ [(''requestBody'', x)])]"
  "change_calls x (CreateConnector c) = [(''createConnector'', createConnector, in_cluster c [(''connectName'', get_prop x ''connectName''), (''newConnector'', get_prop x ''newConnector'')])]"
  "change_calls x (DeleteConnector c connect name) = [(''deleteConnector'', deleteConnector, of_connector c connect name)]"
  "change_calls x (ResetConnectorOffsets c connect name) = [(''resetConnectorOffsets'', resetConnectorOffsets, of_connector c connect name)]"
  "change_calls x (CreateSchema c s) = [(''createNewSchema'', createNewSchema, in_cluster c [(''newSchemaSubject'', VObj [(''subject'', get_prop x ''subject''), (''schema'', get_prop x ''schema''), (''schemaType'', get_prop x ''schemaType'')])])]"
  "change_calls x (UpdateSchemaCompatibility c s) = [(''updateSchemaCompatibilityLevel'', updateSchemaCompatibilityLevel, in_cluster c [(''subject'', VStr s), (''compatibilityLevel'', get_prop x ''compatibilityLevel'')])]"
  "change_calls x (UpdateGlobalCompatibility c) = [(''updateGlobalSchemaCompatibilityLevel'', updateGlobalSchemaCompatibilityLevel, in_cluster c [(''compatibilityLevel'', get_prop x ''compatibilityLevel'')])]"
  "change_calls x (DeleteSchema c s) = [(''deleteSchema'', deleteSchema, in_cluster c [(''subject'', VStr s)])]"
  "change_calls x (UpdateBrokerConfig c b) = [(''updateBrokerConfigByName'', updateBrokerConfigByName, in_cluster c [(''id'', number b), (''name'', get_prop x ''name''), (''brokerConfigItem'', get_prop x ''brokerConfigItem'')])]"
  "change_calls x UpdateAppConfig = []"
  "change_calls x DuplicateCluster = []"
  "change_calls x DeleteCluster = []"
  "change_calls x ImportConfig = []"
  "change_calls x UpdateMcpSettings = []"
  "change_calls x ConfigureMcpClient = []"
  by (simp_all add: change_calls_def mutation_hook_defs)

section \<open>Keys\<close>

text \<open>The hooks have the keys of the cache and invalidate what its changes do.\<close>

lemma hook_keys: "hook_of u q = Some h \<Longrightarrow> queryKey h = key_of q"
  by (cases q) (auto simp: query_hook_defs)

lemma mutation_invalidates: "h \<in> set (mutations_of x m) \<Longrightarrow> invalidated h = invalidates m"
  by (cases m) (auto simp: mutation_hook_defs)

section \<open>Failed queries\<close>

definition run_query :: "query_hook \<Rightarrow> thrown + json \<Rightarrow> alert list \<Rightarrow> alert list" where
  "run_query h answer toasts =
     query_failed (suppressed h) (if wrapped h then apiFetch answer else answer) toasts"

text \<open>The queries whose request goes through \<open>apiFetch\<close>.\<close>

fun fetched :: "query \<Rightarrow> bool" where
  "fetched (Topics c p) = True"
| "fetched (TopicDetails c t) = True"
| "fetched (ConsumerGroups c p) = True"
| "fetched (ConsumerGroupDetails c g) = True"
| "fetched (Acls c s f) = True"
| "fetched (Connects c w) = True"
| "fetched (Connectors c s f) = True"
| "fetched (Connector c n m) = True"
| "fetched (ConnectorTasks c n m) = True"
| "fetched (Schemas c p) = True"
| "fetched (LatestSchema c s) = True"
| "fetched (SchemaVersions c s) = True"
| "fetched (GlobalCompatibility c) = True"
| "fetched (KsqlTables c) = True"
| "fetched (KsqlStreams c) = True"
| "fetched (Brokers c) = True"
| "fetched q = False"

lemma hook_wrapped: "hook_of u q = Some h \<Longrightarrow> wrapped h = fetched q"
  by (cases q) (auto simp: query_hook_defs)

lemma hook_suppressed:
  "hook_of u q = Some h \<Longrightarrow> suppressed h = (case q of TopicAnalysis c t \<Rightarrow> [404] | _ \<Rightarrow> [])"
  by (cases q) (auto simp: query_hook_defs)

lemma answer_alert:
  assumes "0 < ha_status r" and "ha_status r \<notin> set (suppressed h)"
  shows "\<exists>a. run_query h (Inl (Answer r)) ts = showAlert a ts \<and> al_id a = Some (ha_url r)
    \<and> al_title a = show_nat (ha_status r) @ '' '' @ ha_statusText r
    \<and> al_message a = (if wrapped h then JStr ''An error occurred'' else shown_message (ha_body r))"
proof -
  obtain n where n: "ha_status r = Suc n" using assms(1) by (cases "ha_status r") simp_all
  show ?thesis
  proof (cases "wrapped h")
    case True
    show ?thesis
      by (rule exI [of _ "showServerError True (Report (getResponse (Answer r)))"])
        (use True assms(2) in \<open>simp add: run_query_def query_failed_def showGlobalQueryError_def showServerError_def
          read_body_def fallback_message n\<close>)
  next
    case False
    show ?thesis
      by (rule exI [of _ "showServerError True (Answer r)"])
        (use False assms(2) in \<open>simp add: run_query_def query_failed_def showGlobalQueryError_def showServerError_def
          read_body_def n\<close>)
  qed
qed

text \<open>
  What the user sees of a query that the server refuses. For every query of the hooks
  the alert has the address of the request as its id and the status in its title, but the message
  of the server is shown only for the queries whose request does not go through \<open>apiFetch\<close>: the
  others, among them the lists of topics, consumer groups, connectors, schemas and access rules,
  say no more than that an error occurred. Nothing is shown only for a topic without an analysis.
\<close>

theorem refused_query_alert:
  assumes "hook_of u q = Some h" and "0 < ha_status r"
  shows "(\<exists>c t. q = TopicAnalysis c t \<and> ha_status r = 404 \<and> run_query h (Inl (Answer r)) ts = ts)
    \<or> (\<exists>a. run_query h (Inl (Answer r)) ts = showAlert a ts \<and> al_id a = Some (ha_url r)
        \<and> al_title a = show_nat (ha_status r) @ '' '' @ ha_statusText r
        \<and> al_message a = (if fetched q then JStr ''An error occurred'' else shown_message (ha_body r)))"
proof (cases "ha_status r \<in> set (suppressed h)")
  case True
  then obtain c t where q: "q = TopicAnalysis c t" and "ha_status r = 404"
    using hook_suppressed [OF assms(1)] by (cases q) auto
  moreover have "run_query h (Inl (Answer r)) ts = ts"
    using True hook_wrapped [OF assms(1)] q by (simp add: run_query_def query_failed_def showGlobalQueryError_def)
  ultimately show ?thesis by blast
next
  case False
  from answer_alert [OF assms(2) False] show ?thesis unfolding hook_wrapped [OF assms(1)] by blast
qed

theorem refused_query_alert_witness:
  "\<exists>a. run_query (useTopicDetails ''local'' ''orders'') (Inl (Answer \<lparr>ha_status = 403, ha_statusText = ''Forbidden'',
       ha_url = ''/api/x'', ha_body = Some (JObj [(''message'', JStr ''denied'')])\<rparr>)) [] = showAlert a []
     \<and> al_message a = JStr ''An error occurred''"
  using refused_query_alert [of None "TopicDetails ''local'' ''orders''" "useTopicDetails ''local'' ''orders''"
      "\<lparr>ha_status = 403, ha_statusText = ''Forbidden'', ha_url = ''/api/x'',
        ha_body = Some (JObj [(''message'', JStr ''denied'')])\<rparr>" "[]"] by auto

end
