(* ===== verification/Queries.thy ===== *)
theory Queries
  imports Hooks
begin

text \<open>
  The requests of the hooks: queries only read, changes do not; and how the keys that a change invalidates
  relate to the addresses of the requests.
\<close>

section \<open>Addresses\<close>

text \<open>The segments of the path of an operation.\<close>

definition template :: "string \<Rightarrow> segment list" where
  "template p = map (\<lambda>w. if starts_with ''{'' w then Hole (butlast (tl w)) else Lit w) (tl (js_split ''/'' p))"

text \<open>The requests for the resources of one kind in one cluster.\<close>

definition in_collection :: "string \<Rightarrow> string \<Rightarrow> string \<Rightarrow> bool" where
  "in_collection c kind path \<longleftrightarrow> take 5 (js_split ''/'' path) = [[], ''api'', ''clusters'', encodeURIComponent c, kind]"

lemma split_segment:
  "CHR ''/'' \<notin> set w \<Longrightarrow> js_split ''/'' (w @ r) = (w @ hd (js_split ''/'' r)) # tl (js_split ''/'' r)"
  by (induction w) auto

lemma split_path: "\<forall>w\<in>set ws. CHR ''/'' \<notin> set w \<Longrightarrow> js_split ''/'' (path_text ws) = [] # ws"
proof (induction ws)
  case (Cons w ws)
  then show ?case using split_segment [of w "path_text ws"] by (simp add: path_text_def)
qed (simp add: path_text_def)

lemma template_segment:
  "plain_segment s \<Longrightarrow> (if starts_with ''{'' (render s) then Hole (butlast (tl (render s))) else Lit (render s)) = s"
proof (cases s)
  case (Lit w)
  then show "plain_segment s \<Longrightarrow> ?thesis" by (cases w) auto
qed simp

lemma render_no_slash: "plain_segment s \<Longrightarrow> CHR ''/'' \<notin> set (render s)"
  by (cases s) (auto simp: list_all_iff)

lemma template_render: "list_all plain_segment ss \<Longrightarrow> template (path_text (map render ss)) = ss"
proof -
  assume plain: "list_all plain_segment ss"
  then have "js_split ''/'' (path_text (map render ss)) = [] # map render ss"
    using render_no_slash by (intro split_path) (auto simp: list_all_iff)
  with plain template_segment show ?thesis by (simp add: template_def list_all_iff map_idI)
qed

lemma operation_address:
  assumes "(n, e) \<in> set api_operations"
  shows "js_split ''/'' (fill_path fmt (ep_path e) (ep_path_params e) p) = [] # map (filled fmt p) (template (ep_path e))"
proof -
  from operation_route [OF assms] obtain s where s: "ep_path e = path_text (map render s)" "holes s = ep_path_params e"
    "distinct (holes s)" "list_all plain_segment s" by metis
  have "template (ep_path e) = s" unfolding s(1) by (rule template_render [OF s(4)])
  moreover have "\<forall>w\<in>set (map (filled fmt p) s). CHR ''/'' \<notin> set w" using s(4) filled_no_slash by (auto simp: list_all_iff)
  ultimately show ?thesis unfolding route_filled [OF s] by (simp only: split_path)
qed

lemma operation_collection:
  assumes "(n, e) \<in> set api_operations"
  shows "in_collection c kind (fill_path fmt (ep_path e) (ep_path_params e) p)
    \<longleftrightarrow> map (filled fmt p) (take 4 (template (ep_path e))) = [''api'', ''clusters'', encodeURIComponent c, kind]"
  by (simp add: in_collection_def operation_address [OF assms] take_map)

lemma template_path: "p = path_text (map render ss) \<Longrightarrow> list_all plain_segment ss \<Longrightarrow> template p = ss"
  by (simp add: template_render)

text \<open>The paths of the operations called by the hooks.\<close>

lemma hook_templates:
  "template (ep_path getClusters) =
     [Lit ''api'', Lit ''clusters'']"
  "template (ep_path getClusterStats) =
     [Lit ''api'', Lit ''clusters'', Hole ''clusterName'', Lit ''stats'']"
  "template (ep_path getTopics) =
     [Lit ''api'', Lit ''clusters'', Hole ''clusterName'', Lit ''topics'']"
  "template (ep_path getTopicDetails) =
     [Lit ''api'', Lit ''clusters'', Hole ''clusterName'', Lit ''topics'', Hole ''topicName'']"
  "template (ep_path getTopicConfigs) =
     [Lit ''api'', Lit ''clusters'', Hole ''clusterName'', Lit ''topics'', Hole ''topicName'', Lit ''config'']"
  "template (ep_path getTopicConsumerGroups) =
     [Lit ''api'', Lit ''clusters'', Hole ''clusterName'', Lit ''topics'', Hole ''topicName'', Lit ''consumer-groups'']"
  "template (ep_path getTopicConnectors) =
     [Lit ''api'', Lit ''clusters'', Hole ''clusterName'', Lit ''topics'', Hole ''topicName'', Lit ''connectors'']"
  "template (ep_path listTopicAcls) =
     [Lit ''api'', Lit ''clusters'', Hole ''clusterName'', Lit ''topics'', Hole ''topicName'', Lit ''acls'']"
  "template (ep_path getTopicAnalysis) =
     [Lit ''api'', Lit ''clusters'', Hole ''clusterName'', Lit ''topics'', Hole ''topicName'', Lit ''analysis'']"
  "template (ep_path getConsumerGroupsPage) =
     [Lit ''api'', Lit ''clusters'', Hole ''clusterName'', Lit ''consumer-groups'', Lit ''paged'']"
  "template (ep_path getConsumerGroup) =
     [Lit ''api'', Lit ''clusters'', Hole ''clusterName'', Lit ''consumer-groups'', Hole ''id'']"
  "template (ep_path getConsumerGroupsLag) =
     [Lit ''api'', Lit ''clusters'', Hole ''clusterName'', Lit ''consumer-groups'', Lit ''lag'']"
  "template (ep_path listAcls) =
     [Lit ''api'', Lit ''clusters'', Hole ''clusterName'', Lit ''acls'']"
  "template (ep_path getConnects) =
     [Lit ''api'', Lit ''clusters'', Hole ''clusterName'', Lit ''connects'']"
  "template (ep_path getAllConnectors) =
     [Lit ''api'', Lit ''clusters'', Hole ''clusterName'', Lit ''connectors'']"
  "template (ep_path getConnector) =
     [Lit ''api'', Lit ''clusters'', Hole ''clusterName'', Lit ''connects'', Hole ''connectName'', Lit ''connectors'', Hole ''connectorName'']"
  "template (ep_path getConnectorTasks) =
     [Lit ''api'', Lit ''clusters'', Hole ''clusterName'', Lit ''connects'', Hole ''connectName'', Lit ''connectors'', Hole ''connectorName'', Lit ''tasks'']"
  "template (ep_path getConnectorConfig) =
     [Lit ''api'', Lit ''clusters'', Hole ''clusterName'', Lit ''connects'', Hole ''connectName'', Lit ''connectors'', Hole ''connectorName'', Lit ''config'']"
  "template (ep_path getSchemas) =
     [Lit ''api'', Lit ''clusters'', Hole ''clusterName'', Lit ''schemas'']"
  "template (ep_path getLatestSchema) =
     [Lit ''api'', Lit ''clusters'', Hole ''clusterName'', Lit ''schemas'', Hole ''subject'', Lit ''latest'']"
  "template (ep_path getAllVersionsBySubject) =
     [Lit ''api'', Lit ''clusters'', Hole ''clusterName'', Lit ''schemas'', Hole ''subject'', Lit ''versions'']"
  "template (ep_path getGlobalSchemaCompatibilityLevel) =
     [Lit ''api'', Lit ''clusters'', Hole ''clusterName'', Lit ''schemas'', Lit ''compatibility'']"
  "template (ep_path listTables) =
     [Lit ''api'', Lit ''clusters'', Hole ''clusterName'', Lit ''ksql'', Lit ''tables'']"
  "template (ep_path listStreams) =
     [Lit ''api'', Lit ''clusters'', Hole ''clusterName'', Lit ''ksql'', Lit ''streams'']"
  "template (ep_path getBrokers) =
     [Lit ''api'', Lit ''clusters'', Hole ''clusterName'', Lit ''brokers'']"
  "template (ep_path getBrokersMetrics) =
     [Lit ''api'', Lit ''clusters'', Hole ''clusterName'', Lit ''brokers'', Hole ''id'', Lit ''metrics'']"
  "template (ep_path getAllBrokersLogdirs) =
     [Lit ''api'', Lit ''clusters'', Hole ''clusterName'', Lit ''brokers'', Lit ''logdirs'']"
  "template (ep_path getBrokerConfig) =
     [Lit ''api'', Lit ''clusters'', Hole ''clusterName'', Lit ''brokers'', Hole ''id'', Lit ''configs'']"
  "template (ep_path getCurrentConfig) =
     [Lit ''api'', Lit ''config'']"
  "template (ep_path getApplicationInfo) =
     [Lit ''api'', Lit ''info'']"
  "template (ep_path getAuthenticationSettings) =
     [Lit ''api'', Lit ''config'', Lit ''authentication'']"
  "template (ep_path getUserAuthInfo) =
     [Lit ''api'', Lit ''authorization'']"
  "template (ep_path createTopic) =
     [Lit ''api'', Lit ''clusters'', Hole ''clusterName'', Lit ''topics'']"
  "template (ep_path updateTopic) =
     [Lit ''api'', Lit ''clusters'', Hole ''clusterName'', Lit ''topics'', Hole ''topicName'']"
  "template (ep_path increaseTopicPartitions) =
     [Lit ''api'', Lit ''clusters'', Hole ''clusterName'', Lit ''topics'', Hole ''topicName'', Lit ''partitions'']"
  "template (ep_path changeReplicationFactor) =
     [Lit ''api'', Lit ''clusters'', Hole ''clusterName'', Lit ''topics'', Hole ''topicName'', Lit ''replications'']"
  "template (ep_path deleteTopic) =
     [Lit ''api'', Lit ''clusters'', Hole ''clusterName'', Lit ''topics'', Hole ''topicName'']"
  "template (ep_path deleteTopicMessages) =
     [Lit ''api'', Lit ''clusters'', Hole ''clusterName'', Lit ''topics'', Hole ''topicName'', Lit ''messages'']"
  "template (ep_path recreateTopic) =
     [Lit ''api'', Lit ''clusters'', Hole ''clusterName'', Lit ''topics'', Hole ''topicName'']"
  "template (ep_path sendTopicMessages) =
     [Lit ''api'', Lit ''clusters'', Hole ''clusterName'', Lit ''topics'', Hole ''topicName'', Lit ''messages'']"
  "template (ep_path analyzeTopic) =
     [Lit ''api'', Lit ''clusters'', Hole ''clusterName'', Lit ''topics'', Hole ''topicName'', Lit ''analysis'']"
  "template (ep_path cancelTopicAnalysis) =
     [Lit ''api'', Lit ''clusters'', Hole ''clusterName'', Lit ''topics'', Hole ''topicName'', Lit ''analysis'']"
  "template (ep_path deleteConsumerGroup) =
     [Lit ''api'', Lit ''clusters'', Hole ''clusterName'', Lit ''consumer-groups'', Hole ''id'']"
  "template (ep_path resetConsumerGroupOffsets) =
     [Lit ''api'', Lit ''clusters'', Hole ''clusterName'', Lit ''consumer-groups'', Hole ''id'', Lit ''offsets'']"
  "template (ep_path deleteConsumerGroupOffsets) =
     [Lit ''api'', Lit ''clusters'', Hole ''clusterName'', Lit ''consumer-groups'', Hole ''id'', Lit ''topics'', Hole ''topicName'']"
  "template (ep_path createAcl) =
     [Lit ''api'', Lit ''clusters'', Hole ''clusterName'', Lit ''acls'']"
  "template (ep_path createConsumerAcl) =
     [Lit ''api'', Lit ''clusters'', Hole ''clusterName'', Lit ''acls'', Lit ''consumer'']"
  "template (ep_path createProducerAcl) =
     [Lit ''api'', Lit ''clusters'', Hole ''clusterName'', Lit ''acls'', Lit ''producer'']"
  "template (ep_path createStreamAppAcl) =
     [Lit ''api'', Lit ''clusters'', Hole ''clusterName'', Lit ''acls'', Lit ''streamapp'']"
  "template (ep_path deleteAcl) =
     [Lit ''api'', Lit ''clusters'', Hole ''clusterName'', Lit ''acls'']"
  "template (ep_path updateConnectorState) =
     [Lit ''api'', Lit ''clusters'', Hole ''clusterName'', Lit ''connects'', Hole ''connectName'', Lit ''connectors'', Hole ''connectorName'', Lit ''action'', Hole ''action'']"
  "template (ep_path restartConnectorTask) =
     [Lit ''api'', Lit ''clusters'', Hole ''clusterName'', Lit ''connects'', Hole ''connectName'', Lit ''connectors'', Hole ''connectorName'', Lit ''tasks'', Hole ''taskId'', Lit ''action'', Lit ''restart'']"
  "template (ep_path setConnectorConfig) =
     [Lit ''api'', Lit ''clusters'', Hole ''clusterName'', Lit ''connects'', Hole ''connectName'', Lit ''connectors'', Hole ''connectorName'', Lit ''config'']"
  "template (ep_path createConnector) =
     [Lit ''api'', Lit ''clusters'', Hole ''clusterName'', Lit ''connects'', Hole ''connectName'', Lit ''connectors'']"
  "template (ep_path deleteConnector) =
     [Lit ''api'', Lit ''clusters'', Hole ''clusterName'', Lit ''connects'', Hole ''connectName'', Lit ''connectors'', Hole ''connectorName'']"
  "template (ep_path resetConnectorOffsets) =
     [Lit ''api'', Lit ''clusters'', Hole ''clusterName'', Lit ''connects'', Hole ''connectName'', Lit ''connectors'', Hole ''connectorName'', Lit ''offsets'']"
  "template (ep_path createNewSchema) =
     [Lit ''api'', Lit ''clusters'', Hole ''clusterName'', Lit ''schemas'']"
  "template (ep_path updateSchemaCompatibilityLevel) =
     [Lit ''api'', Lit ''clusters'', Hole ''clusterName'', Lit ''schemas'', Hole ''subject'', Lit ''compatibility'']"
  "template (ep_path updateGlobalSchemaCompatibilityLevel) =
     [Lit ''api'', Lit ''clusters'', Hole ''clusterName'', Lit ''schemas'', Lit ''compatibility'']"
  "template (ep_path deleteSchema) =
     [Lit ''api'', Lit ''clusters'', Hole ''clusterName'', Lit ''schemas'', Hole ''subject'']"
  "template (ep_path updateBrokerConfigByName) =
     [Lit ''api'', Lit ''clusters'', Hole ''clusterName'', Lit ''brokers'', Hole ''id'', Lit ''configs'', Hole ''name'']"
  by (rule template_path, simp add: path_text_def api_operation_defs, simp)+

lemma hook_operations:
  "(''getClusters'', getClusters) \<in> set api_operations"
  "(''getClusterStats'', getClusterStats) \<in> set api_operations"
  "(''getTopics'', getTopics) \<in> set api_operations"
  "(''getTopicDetails'', getTopicDetails) \<in> set api_operations"
  "(''getTopicConfigs'', getTopicConfigs) \<in> set api_operations"
  "(''getTopicConsumerGroups'', getTopicConsumerGroups) \<in> set api_operations"
  "(''getTopicConnectors'', getTopicConnectors) \<in> set api_operations"
  "(''listTopicAcls'', listTopicAcls) \<in> set api_operations"
  "(''getTopicAnalysis'', getTopicAnalysis) \<in> set api_operations"
  "(''getConsumerGroupsPage'', getConsumerGroupsPage) \<in> set api_operations"
  "(''getConsumerGroup'', getConsumerGroup) \<in> set api_operations"
  "(''getConsumerGroupsLag'', getConsumerGroupsLag) \<in> set api_operations"
  "(''listAcls'', listAcls) \<in> set api_operations"
  "(''getConnects'', getConnects) \<in> set api_operations"
  "(''getAllConnectors'', getAllConnectors) \<in> set api_operations"
  "(''getConnector'', getConnector) \<in> set api_operations"
  "(''getConnectorTasks'', getConnectorTasks) \<in> set api_operations"
  "(''getConnectorConfig'', getConnectorConfig) \<in> set api_operations"
  "(''getSchemas'', getSchemas) \<in> set api_operations"
  "(''getLatestSchema'', getLatestSchema) \<in> set api_operations"
  "(''getAllVersionsBySubject'', getAllVersionsBySubject) \<in> set api_operations"
  "(''getGlobalSchemaCompatibilityLevel'', getGlobalSchemaCompatibilityLevel) \<in> set api_operations"
  "(''listTables'', listTables) \<in> set api_operations"
  "(''listStreams'', listStreams) \<in> set api_operations"
  "(''getBrokers'', getBrokers) \<in> set api_operations"
  "(''getBrokersMetrics'', getBrokersMetrics) \<in> set api_operations"
  "(''getAllBrokersLogdirs'', getAllBrokersLogdirs) \<in> set api_operations"
  "(''getBrokerConfig'', getBrokerConfig) \<in> set api_operations"
  "(''getCurrentConfig'', getCurrentConfig) \<in> set api_operations"
  "(''getApplicationInfo'', getApplicationInfo) \<in> set api_operations"
  "(''getAuthenticationSettings'', getAuthenticationSettings) \<in> set api_operations"
  "(''getUserAuthInfo'', getUserAuthInfo) \<in> set api_operations"
  "(''createTopic'', createTopic) \<in> set api_operations"
  "(''updateTopic'', updateTopic) \<in> set api_operations"
  "(''increaseTopicPartitions'', increaseTopicPartitions) \<in> set api_operations"
  "(''changeReplicationFactor'', changeReplicationFactor) \<in> set api_operations"
  "(''deleteTopic'', deleteTopic) \<in> set api_operations"
  "(''deleteTopicMessages'', deleteTopicMessages) \<in> set api_operations"
  "(''recreateTopic'', recreateTopic) \<in> set api_operations"
  "(''sendTopicMessages'', sendTopicMessages) \<in> set api_operations"
  "(''analyzeTopic'', analyzeTopic) \<in> set api_operations"
  "(''cancelTopicAnalysis'', cancelTopicAnalysis) \<in> set api_operations"
  "(''deleteConsumerGroup'', deleteConsumerGroup) \<in> set api_operations"
  "(''resetConsumerGroupOffsets'', resetConsumerGroupOffsets) \<in> set api_operations"
  "(''deleteConsumerGroupOffsets'', deleteConsumerGroupOffsets) \<in> set api_operations"
  "(''createAcl'', createAcl) \<in> set api_operations"
  "(''createConsumerAcl'', createConsumerAcl) \<in> set api_operations"
  "(''createProducerAcl'', createProducerAcl) \<in> set api_operations"
  "(''createStreamAppAcl'', createStreamAppAcl) \<in> set api_operations"
  "(''deleteAcl'', deleteAcl) \<in> set api_operations"
  "(''updateConnectorState'', updateConnectorState) \<in> set api_operations"
  "(''restartConnectorTask'', restartConnectorTask) \<in> set api_operations"
  "(''setConnectorConfig'', setConnectorConfig) \<in> set api_operations"
  "(''createConnector'', createConnector) \<in> set api_operations"
  "(''deleteConnector'', deleteConnector) \<in> set api_operations"
  "(''resetConnectorOffsets'', resetConnectorOffsets) \<in> set api_operations"
  "(''createNewSchema'', createNewSchema) \<in> set api_operations"
  "(''updateSchemaCompatibilityLevel'', updateSchemaCompatibilityLevel) \<in> set api_operations"
  "(''updateGlobalSchemaCompatibilityLevel'', updateGlobalSchemaCompatibilityLevel) \<in> set api_operations"
  "(''deleteSchema'', deleteSchema) \<in> set api_operations"
  "(''updateBrokerConfigByName'', updateBrokerConfigByName) \<in> set api_operations"
  by (simp_all add: api_operations_def)

section \<open>Reading and changing\<close>

lemma queries_listed: "query_call u q = Some (n, e, p) \<Longrightarrow> (n, e) \<in> set api_operations"
  by (cases q) (auto simp: hook_operations)

lemma changes_listed: "(n, e, p) \<in> set (change_calls x m) \<Longrightarrow> (n, e) \<in> set api_operations"
  by (cases m) (auto simp: hook_operations)

lemma query_is_get: "query_call u q = Some (n, e, p) \<Longrightarrow> ep_method e = GET \<and> ep_body e = NoBody \<and> missing_param p (ep_required e) = None"
  by (cases q)
    (auto simp: api_operation_defs missing_param_def arg_def get_prop_def nullish_def in_cluster_def of_topic_def of_connector_def)

lemma change_not_get: "(n, e, p) \<in> set (change_calls x m) \<Longrightarrow> ep_method e \<noteq> GET"
  by (cases m) (auto simp: api_operation_defs)

text \<open>
  Queries read and changes write. Every query of the hooks is a GET operation of the
  interface with all its parameters, so its request is always sent and has no body; every
  operation a change calls is one of the interface, and none of them is a GET.
\<close>

theorem queries_only_read:
  "(query_call u q = Some (n, e, p) \<longrightarrow> (n, e) \<in> set api_operations
      \<and> build_request fmt conf e p = Inr (createFetchParams fmt conf e p NoPayload)
      \<and> rq_method (createFetchParams fmt conf e p NoPayload) = GET)
   \<and> ((n, e, p) \<in> set (change_calls x m) \<longrightarrow> (n, e) \<in> set api_operations \<and> ep_method e \<noteq> GET)"
proof -
  have "build_request fmt conf e p = Inr (createFetchParams fmt conf e p NoPayload)
      \<and> rq_method (createFetchParams fmt conf e p NoPayload) = GET" if "query_call u q = Some (n, e, p)"
    using query_is_get [OF that] by (simp add: build_request_def request_body_def createFetchParams_def Let_def)
  then show ?thesis using queries_listed changes_listed change_not_get by blast
qed



theorem queries_only_read_witness:
  "query_call None (TopicAcls ''local'' ''orders'') = Some (''listTopicAcls'', listTopicAcls, of_topic ''local'' ''orders'')
   \<and> build_request (\<lambda>_. []) \<lparr>basePath = [], conf_headers = []\<rparr> listTopicAcls (of_topic ''local'' ''orders'')
      = Inr (createFetchParams (\<lambda>_. []) \<lparr>basePath = [], conf_headers = []\<rparr> listTopicAcls (of_topic ''local'' ''orders'') NoPayload)
   \<and> ep_method deleteTopic \<noteq> GET"
  using queries_only_read [of None "TopicAcls ''local'' ''orders''" "''listTopicAcls''" listTopicAcls "of_topic ''local'' ''orders''"
      "\<lambda>_. []" "\<lparr>basePath = [], conf_headers = []\<rparr>"]
    queries_only_read [of None Clusters "''deleteTopic''" deleteTopic "of_topic ''local'' ''orders''"
      "\<lambda>_. []" "\<lparr>basePath = [], conf_headers = []\<rparr>" VUndef "DeleteTopic ''local'' ''orders''"]
  by simp

section \<open>Changes refresh their collection\<close>

fun collection :: "change \<Rightarrow> (string \<times> string) option" where
  "collection (CreateTopic c) = Some (c, ''topics'')"
| "collection (UpdateTopic c t) = Some (c, ''topics'')"
| "collection (IncreasePartitions c t) = Some (c, ''topics'')"
| "collection (ChangeReplication c t) = Some (c, ''topics'')"
| "collection (DeleteTopic c t) = Some (c, ''topics'')"
| "collection (ClearMessages c t) = Some (c, ''topics'')"
| "collection (RecreateTopic c t) = Some (c, ''topics'')"
| "collection (SendMessage c t) = Some (c, ''topics'')"
| "collection (DeleteConsumerGroup c g) = Some (c, ''consumer-groups'')"
| "collection (ResetOffsets c g) = Some (c, ''consumer-groups'')"
| "collection (DeleteOffsets c g) = Some (c, ''consumer-groups'')"
| "collection (CreateAcl c) = Some (c, ''acls'')"
| "collection (DeleteAcl c) = Some (c, ''acls'')"
| "collection m = None"

definition address :: "(int \<Rightarrow> string) \<Rightarrow> endpoint \<Rightarrow> args \<Rightarrow> string" where
  "address fmt e p = fill_path fmt (ep_path e) (ep_path_params e) p"

text \<open>The collection that a query asks.\<close>

fun query_collection :: "query \<Rightarrow> (string \<times> string) option" where
  "query_collection (ClusterStats c) = Some (c, ''stats'')"
| "query_collection (Topics c p) = Some (c, ''topics'')"
| "query_collection (TopicDetails c t) = Some (c, ''topics'')"
| "query_collection (TopicConfig c t) = Some (c, ''topics'')"
| "query_collection (TopicConsumerGroups c t) = Some (c, ''topics'')"
| "query_collection (TopicConnectors c t) = Some (c, ''topics'')"
| "query_collection (TopicAcls c t) = Some (c, ''topics'')"
| "query_collection (TopicAnalysis c t) = Some (c, ''topics'')"
| "query_collection (ConsumerGroups c p) = Some (c, ''consumer-groups'')"
| "query_collection (ConsumerGroupDetails c g) = Some (c, ''consumer-groups'')"
| "query_collection (ConsumerGroupsLag c ids i) = Some (c, ''consumer-groups'')"
| "query_collection (Acls c s f) = Some (c, ''acls'')"
| "query_collection (Connects c w) = Some (c, ''connects'')"
| "query_collection (Connectors c s f) = Some (c, ''connectors'')"
| "query_collection (Connector c n m) = Some (c, ''connects'')"
| "query_collection (ConnectorTasks c n m) = Some (c, ''connects'')"
| "query_collection (ConnectorConfig c n m) = Some (c, ''connects'')"
| "query_collection (Schemas c p) = Some (c, ''schemas'')"
| "query_collection (LatestSchema c s) = Some (c, ''schemas'')"
| "query_collection (SchemaVersions c s) = Some (c, ''schemas'')"
| "query_collection (GlobalCompatibility c) = Some (c, ''schemas'')"
| "query_collection (KsqlTables c) = Some (c, ''ksql'')"
| "query_collection (KsqlStreams c) = Some (c, ''ksql'')"
| "query_collection (Brokers c) = Some (c, ''brokers'')"
| "query_collection (BrokerMetrics c b) = Some (c, ''brokers'')"
| "query_collection (BrokerLogDirs c b) = Some (c, ''brokers'')"
| "query_collection (BrokerConfig c b) = Some (c, ''brokers'')"
| "query_collection q = None"

lemma query_in_collection:
  assumes "query_call u q = Some (n, e, p)"
  shows "in_collection c kind (address fmt e p) \<longleftrightarrow> query_collection q = Some (c, kind)"
  using assms unfolding address_def operation_collection [OF queries_listed [OF assms]]
  by (cases q) (auto simp: hook_templates arg_def get_prop_def in_cluster_def of_topic_def of_connector_def encodeURIComponent_inj)

lemma change_in_collection:
  assumes "(n, e, p) \<in> set (change_calls x m)" and "collection m = Some (c, kind)"
  shows "in_collection c kind (address fmt e p)"
  using assms unfolding address_def operation_collection [OF changes_listed [OF assms(1)]]
  by (cases m) (auto simp: hook_templates arg_def get_prop_def in_cluster_def of_topic_def of_connector_def)

lemma refreshed_collection:
  assumes "collection m = Some (c, kind)"
  shows "refreshes m q \<longleftrightarrow> query_collection q = Some (c, kind) \<and> (\<forall>ids i. q \<noteq> ConsumerGroupsLag c ids i)"
  using assms by (cases m; cases q) (auto simp: refreshes_def matches_def key_defs opt_part_not)


text \<open>
  C20. What a change makes stale is what lies at its own address. A change of topics, consumer
  groups or access rules asks the collection of its kind in its cluster, and afterwards the cached
  answers that are stale are exactly those whose requests ask the same collection of the same
  cluster, but for the lag of consumer groups, which is never refreshed.
\<close>

theorem changes_refresh_their_collection:
  assumes "collection m = Some (c, kind)"
  shows "(\<forall>(n, e, p)\<in>set (change_calls x m). in_collection c kind (address fmt e p))
    \<and> (refreshes m q \<longleftrightarrow>
        (\<exists>n e p. query_call u q = Some (n, e, p) \<and> in_collection c kind (address fmt e p))
        \<and> (\<forall>ids i. q \<noteq> ConsumerGroupsLag c ids i))"
proof -
  have "query_call u q \<noteq> None" if "query_collection q \<noteq> None" using that by (cases q) auto
  then have "(\<exists>n e p. query_call u q = Some (n, e, p) \<and> in_collection c kind (address fmt e p)) \<longleftrightarrow> query_collection q = Some (c, kind)"
    using query_in_collection by (cases "query_call u q") auto
  then show ?thesis using change_in_collection [OF _ assms] refreshed_collection [OF assms] by auto
qed

theorem changes_refresh_their_collection_witness:
  "refreshes (DeleteTopic ''local'' ''orders'') (TopicAcls ''local'' ''orders'')
   \<and> in_collection ''local'' ''topics'' (address (\<lambda>_. []) listTopicAcls (of_topic ''local'' ''orders''))
   \<and> \<not> refreshes (DeleteAcl ''local'') (TopicAcls ''local'' ''orders'')"
proof -
  have call: "query_call None (TopicAcls ''local'' ''orders'') = Some (''listTopicAcls'', listTopicAcls, of_topic ''local'' ''orders'')"
    by simp
  have "collection (DeleteTopic ''local'' ''orders'') = Some (''local'', ''topics'')" "collection (DeleteAcl ''local'') = Some (''local'', ''acls'')"
    by simp_all
  note by_address = this [THEN changes_refresh_their_collection, of VUndef "\<lambda>_. []" "TopicAcls ''local'' ''orders''" None, THEN conjunct2]
  show ?thesis
    unfolding by_address using query_in_collection [OF call, of _ _ "\<lambda>_. []"] call by simp
qed


end
