(* ===== verification/ResetOffsets.thy ===== *)
theory ResetOffsets
  imports ApiCodec Hooks Dates
begin

text \<open>
  Resetting the offsets of a consumer group: the form
  (\<open>frontend/src/components/ConsumerGroups/Details/ResetOffsets\<close>), the request it sends, and what
  the server makes of it (\<open>internal/api/handlers_group.go\<close>, \<open>internal/app/cluster/group.go\<close>,
  \<open>internal/infra/kafka/groups.go\<close>). The answers of Kafka are arguments.
\<close>

section \<open>The form\<close>

datatype reset_type = EARLIEST | LATEST | TIMESTAMP | OFFSET

fun type_text :: "reset_type \<Rightarrow> string" where
  "type_text EARLIEST = ''EARLIEST''"
| "type_text LATEST = ''LATEST''"
| "type_text TIMESTAMP = ''TIMESTAMP''"
| "type_text OFFSET = ''OFFSET''"

text \<open>
  The values of the form. The offset of a partition is the text of its input; \<open>None\<close> when there is
  no input for it, or nothing was entered yet.
\<close>

record reset_form =
  rf_topic :: "string option"
  rf_type :: reset_type
  rf_partitions :: "int list"
  rf_offsets :: "(int \<times> string option) list"
  rf_timestamp :: "int option"

type_synonym group_partitions = "(string \<times> int) list"

definition partitionOptions :: "group_partitions \<Rightarrow> string option \<Rightarrow> int list" where
  "partitionOptions gp topic = map snd (filter (\<lambda>p. Some (fst p) = topic) gp)"

definition onSelectedPartitionsChange :: "int list \<Rightarrow> reset_form \<Rightarrow> reset_form" where
  "onSelectedPartitionsChange selected s =
     s\<lparr>rf_partitions := selected,
       rf_offsets := map (\<lambda>v. (v, Option.bind (List.find (\<lambda>p. fst p = v) (rf_offsets s)) snd)) selected\<rparr>"

definition open_reset :: "group_partitions \<Rightarrow> int \<Rightarrow> reset_form" where
  "open_reset gp now = onSelectedPartitionsChange []
     \<lparr>rf_topic = (case gp of [] \<Rightarrow> None | p # _ \<Rightarrow> Some (fst p)), rf_type = EARLIEST,
      rf_partitions = [], rf_offsets = [], rf_timestamp = Some now\<rparr>"

datatype reset_event = SelectTopic string | SelectType reset_type | SelectPartitions "int list"
  | EnterOffset nat string | EnterTimestamp "int option"

text \<open>
  The inputs of the offsets are there while the type is \<open>OFFSET\<close>, and lose their values when they
  are taken away (\<open>shouldUnregister\<close>); the date picker is there while the type is \<open>TIMESTAMP\<close>. The
  effect on a change of the topic follows it at once.
\<close>

fun reset_step :: "group_partitions \<Rightarrow> reset_event \<Rightarrow> reset_form \<Rightarrow> reset_form" where
  "reset_step gp (SelectTopic t) s =
     (if t \<in> fst ` set gp \<and> rf_topic s \<noteq> Some t then onSelectedPartitionsChange [] (s\<lparr>rf_topic := Some t\<rparr>) else s)"
| "reset_step gp (SelectType r) s =
     (if r = OFFSET then s\<lparr>rf_type := r\<rparr>
      else s\<lparr>rf_type := r, rf_offsets := map (\<lambda>p. (fst p, None)) (rf_offsets s)\<rparr>)"
| "reset_step gp (SelectPartitions ps) s =
     (if set ps \<subseteq> set (partitionOptions gp (rf_topic s)) then onSelectedPartitionsChange ps s else s)"
| "reset_step gp (EnterOffset i x) s =
     (if rf_type s = OFFSET \<and> i < length (rf_offsets s)
      then s\<lparr>rf_offsets := (rf_offsets s)[i := (fst (rf_offsets s ! i), Some x)]\<rparr> else s)"
| "reset_step gp (EnterTimestamp t) s =
     (if rf_type s = TIMESTAMP \<and> rf_partitions s \<noteq> [] then s\<lparr>rf_timestamp := t\<rparr> else s)"

text \<open>The rules of the inputs that are there: an offset is required and at least zero.\<close>

definition offset_ok :: "string option \<Rightarrow> bool" where
  "offset_ok x = (case x of
     None \<Rightarrow> False
   | Some t \<Rightarrow> t \<noteq> [] \<and> (case js_Number t of NaN \<Rightarrow> True | Dec m e \<Rightarrow> 0 \<le> m))"

definition can_submit :: "reset_form \<Rightarrow> bool" where
  "can_submit s \<longleftrightarrow> rf_partitions s \<noteq> []
     \<and> (rf_type s = TIMESTAMP \<longrightarrow> rf_timestamp s \<noteq> None)
     \<and> (rf_type s = OFFSET \<longrightarrow> list_all (\<lambda>p. offset_ok (snd p)) (rf_offsets s))"

fun offset_data :: "int \<times> string option \<Rightarrow> jsval" where
  "offset_data (p, x) = VObj [(''offset'', case x of Some t \<Rightarrow> VStr t | None \<Rightarrow> VUndef), (''partition'', VNum (Dec p 0))]"

definition reset_data :: "reset_form \<Rightarrow> jsval" where
  "reset_data s = VObj
     [(''resetType'', VStr (type_text (rf_type s))),
      (''topic'', case rf_topic s of Some t \<Rightarrow> VStr t | None \<Rightarrow> VUndef),
      (''partitionsOffsets'', VArr (map offset_data (rf_offsets s))),
      (''resetToTimestamp'', case rf_timestamp s of Some t \<Rightarrow> VNum (Dec t 0) | None \<Rightarrow> VUndef),
      (''partitions'', VArr (map (\<lambda>p. VNum (Dec p 0)) (rf_partitions s)))]"

text \<open>The request of the mutation, \<open>useResetConsumerGroupOffsetsMutation\<close>.\<close>

definition reset_sent ::
  "api_configuration \<Rightarrow> string \<Rightarrow> string \<Rightarrow> jsval \<Rightarrow> api_error + request" where
  "reset_sent conf clusterName consumerGroupID props =
     (case mutationFn (useResetConsumerGroupOffsetsMutation clusterName consumerGroupID props) of
        (name, e, p) \<Rightarrow> build_request toISOString conf e p)"

section \<open>The server\<close>

text \<open>
  Reading a request body into a structure: a missing or null member keeps its zero value, a number
  needs to be whole and to fit, and a value of another type is an error.
\<close>

definition fits :: "nat \<Rightarrow> int \<Rightarrow> bool" where
  "fits w i \<longleftrightarrow> - (2 ^ (w - 1)) \<le> i \<and> i < 2 ^ (w - 1)"

fun go_int :: "nat \<Rightarrow> json \<Rightarrow> int res" where
  "go_int w JNull = Inr 0"
| "go_int w (JNum (Dec m 0)) = (if fits w m then Inr m else Inl TypeError)"
| "go_int w _ = Inl TypeError"

fun go_string :: "json \<Rightarrow> string res" where
  "go_string JNull = Inr []"
| "go_string (JStr s) = Inr s"
| "go_string _ = Inl TypeError"

definition go_pointer :: "(json \<Rightarrow> 'a res) \<Rightarrow> json \<Rightarrow> 'a option res" where
  "go_pointer dec j = (if j = JNull then Inr None else bind_res (dec j) (\<lambda>x. Inr (Some x)))"

definition go_slice :: "(json \<Rightarrow> 'a res) \<Rightarrow> json \<Rightarrow> 'a list res" where
  "go_slice dec j = (case j of JNull \<Rightarrow> Inr [] | JArr xs \<Rightarrow> map_res dec xs | _ \<Rightarrow> Inl TypeError)"

definition go_member :: "(string \<times> json) list \<Rightarrow> string \<Rightarrow> (json \<Rightarrow> 'a res) \<Rightarrow> 'a res" where
  "go_member ms n dec = dec (case map_of ms n of Some j \<Rightarrow> j | None \<Rightarrow> JNull)"

definition PartitionOffset :: "json \<Rightarrow> (int \<times> int option) res" where
  "PartitionOffset j =
     (case j of
        JNull \<Rightarrow> Inr (0, None)
      | JObj ms \<Rightarrow> bind_res (go_member ms ''partition'' (go_int 32)) (\<lambda>p.
                  bind_res (go_member ms ''offset'' (go_pointer (go_int 64))) (\<lambda>x. Inr (p, x)))
      | _ \<Rightarrow> Inl TypeError)"

record ConsumerGroupOffsetsReset =
  cr_topic :: string
  cr_type :: string
  cr_partitions :: "int list option"
  cr_timestamp :: "int option"
  cr_offsets :: "(int \<times> int option) list option"

definition decode_reset :: "json \<Rightarrow> ConsumerGroupOffsetsReset res" where
  "decode_reset j =
     (case j of
        JNull \<Rightarrow> Inr \<lparr>cr_topic = [], cr_type = [], cr_partitions = None, cr_timestamp = None, cr_offsets = None\<rparr>
      | JObj ms \<Rightarrow>
          bind_res (go_member ms ''topic'' go_string) (\<lambda>t.
          bind_res (go_member ms ''resetType'' go_string) (\<lambda>r.
          bind_res (go_member ms ''partitions'' (go_pointer (go_slice (go_int 32)))) (\<lambda>ps.
          bind_res (go_member ms ''resetToTimestamp'' (go_pointer (go_int 64))) (\<lambda>ts.
          bind_res (go_member ms ''partitionsOffsets'' (go_pointer (go_slice PartitionOffset))) (\<lambda>os.
            Inr \<lparr>cr_topic = t, cr_type = r, cr_partitions = ps, cr_timestamp = ts, cr_offsets = os\<rparr>)))))
      | _ \<Rightarrow> Inl TypeError)"

record ResetSpec =
  spec_topic :: string
  spec_type :: string
  spec_partitions :: "int list"
  spec_offsets :: "int \<rightharpoonup> int"
  spec_timestamp :: int

definition resetSpecFromGenerated :: "ConsumerGroupOffsetsReset \<Rightarrow> ResetSpec" where
  "resetSpecFromGenerated b =
     \<lparr>spec_topic = cr_topic b, spec_type = cr_type b,
      spec_partitions = (case cr_partitions b of Some ps \<Rightarrow> ps | None \<Rightarrow> []),
      spec_offsets = fold (\<lambda>(p, x) m. case x of Some at \<Rightarrow> m(p \<mapsto> at) | None \<Rightarrow> m)
        (case cr_offsets b of Some os \<Rightarrow> os | None \<Rightarrow> []) Map.empty,
      spec_timestamp = (case cr_timestamp b of Some t \<Rightarrow> t | None \<Rightarrow> 0)\<rparr>"

text \<open>The offsets of the partitions of a topic, as Kafka lists them; \<open>None\<close> is an error.\<close>

record kadm =
  ListStartOffsets :: "string \<Rightarrow> (int \<rightharpoonup> int) option"
  ListEndOffsets :: "string \<Rightarrow> (int \<rightharpoonup> int) option"
  ListOffsetsAfterMilli :: "int \<Rightarrow> string \<Rightarrow> (int \<rightharpoonup> int) option"

definition filterOffsetsByPartitions :: "(int \<rightharpoonup> int) \<Rightarrow> int list \<Rightarrow> int \<rightharpoonup> int" where
  "filterOffsetsByPartitions all partitions = (if partitions = [] then all else all |` set partitions)"

definition resetOffsetsFor :: "kadm \<Rightarrow> ResetSpec \<Rightarrow> (int \<rightharpoonup> int) option" where
  "resetOffsetsFor adm spec =
     (let listed = (\<lambda>l. map_option (\<lambda>lo. filterOffsetsByPartitions lo (spec_partitions spec)) l)
      in if spec_type spec = ''EARLIEST'' then listed (ListStartOffsets adm (spec_topic spec))
         else if spec_type spec = ''LATEST'' then listed (ListEndOffsets adm (spec_topic spec))
         else if spec_type spec = ''TIMESTAMP'' then listed (ListOffsetsAfterMilli adm (spec_timestamp spec) (spec_topic spec))
         else if spec_type spec = ''OFFSET'' then Some (spec_offsets spec)
         else None)"

text \<open>
  The answer of the server, with the offsets it commits for the topic. The state of the group is
  \<open>None\<close> when the cluster cannot be asked; the cluster is known.
\<close>

datatype reset_answer = InvalidBody | GroupNotInactive | ServerError | Commits string "int \<rightharpoonup> int"

definition Reset :: "kadm \<Rightarrow> string option \<Rightarrow> ResetSpec \<Rightarrow> reset_answer" where
  "Reset adm state spec =
     (case state of
        None \<Rightarrow> ServerError
      | Some st \<Rightarrow>
          if st \<noteq> ''EMPTY'' \<and> st \<noteq> ''DEAD'' then GroupNotInactive
          else (case resetOffsetsFor adm spec of None \<Rightarrow> ServerError | Some os \<Rightarrow> Commits (spec_topic spec) os))"

definition ResetConsumerGroupOffsets :: "kadm \<Rightarrow> string option \<Rightarrow> payload \<Rightarrow> reset_answer" where
  "ResetConsumerGroupOffsets adm state body =
     (case body of
        JsonText j \<Rightarrow> (case decode_reset j of Inl _ \<Rightarrow> InvalidBody | Inr b \<Rightarrow> Reset adm state (resetSpecFromGenerated b))
      | _ \<Rightarrow> InvalidBody)"

section \<open>The states of the form\<close>

text \<open>
  The selected partitions are partitions of the topic, each with one entry among the offsets, which
  are empty unless offsets are entered.
\<close>

definition reset_inv :: "group_partitions \<Rightarrow> reset_form \<Rightarrow> bool" where
  "reset_inv gp s \<longleftrightarrow> set (rf_partitions s) \<subseteq> set (partitionOptions gp (rf_topic s))
     \<and> map fst (rf_offsets s) = rf_partitions s
     \<and> (rf_type s \<noteq> OFFSET \<longrightarrow> (\<forall>p\<in>set (rf_offsets s). snd p = None))
     \<and> (\<forall>t. rf_timestamp s = Some t \<longrightarrow> fits 64 t)"

text \<open>Times entered fit into 64 bits.\<close>

fun times_fit :: "reset_event \<Rightarrow> bool" where
  "times_fit (EnterTimestamp (Some t)) = fits 64 t"
| "times_fit _ = True"

lemma select_inv:
  assumes "set ps \<subseteq> set (partitionOptions gp (rf_topic s))" and "rf_type s \<noteq> OFFSET \<longrightarrow> (\<forall>p\<in>set (rf_offsets s). snd p = None)"
    and "\<forall>t. rf_timestamp s = Some t \<longrightarrow> fits 64 t"
  shows "reset_inv gp (onSelectedPartitionsChange ps s)"
proof -
  have "Option.bind (List.find (\<lambda>p. fst p = v) (rf_offsets s)) snd = None" if "rf_type s \<noteq> OFFSET" for v
  proof (cases "List.find (\<lambda>p. fst p = v) (rf_offsets s)")
    case (Some q)
    then have "q \<in> set (rf_offsets s)" by (auto simp: find_Some_iff)
    with assms(2) that Some show ?thesis by simp
  qed simp
  with assms show ?thesis by (auto simp: reset_inv_def onSelectedPartitionsChange_def comp_def)
qed

interpretation resetting: machine "reset_step gp" times_fit "reset_inv gp" for gp
proof
  fix e and s :: reset_form
  assume ok: "times_fit e" and inv: "reset_inv gp s"
  show "reset_inv gp (reset_step gp e s)"
  proof (cases e)
    case (SelectTopic t)
    with inv select_inv [of "[]" gp "s\<lparr>rf_topic := Some t\<rparr>"] show ?thesis by (simp add: reset_inv_def)
  next
    case (SelectType r)
    with inv show ?thesis by (auto simp: reset_inv_def comp_def)
  next
    case (SelectPartitions ps)
    with inv select_inv [of ps gp s] show ?thesis by (simp add: reset_inv_def)
  next
    case (EnterOffset i x)
    have "map fst ((rf_offsets s)[i := (fst (rf_offsets s ! i), Some x)]) = map fst (rf_offsets s)" if "i < length (rf_offsets s)"
      using that by (intro nth_equalityI) (auto simp: nth_list_update)
    with EnterOffset inv show ?thesis by (simp add: reset_inv_def)
  next
    case (EnterTimestamp t)
    with inv ok show ?thesis by (cases t) (auto simp: reset_inv_def)
  qed
qed

lemma open_inv: "fits 64 now \<Longrightarrow> reset_inv gp (open_reset gp now)"
  by (auto simp: open_reset_def intro!: select_inv)


section \<open>The request\<close>

fun offset_json :: "int \<times> string option \<Rightarrow> json" where
  "offset_json (p, x) = JObj ((''partition'', JNum (Dec p 0)) # (case x of Some t \<Rightarrow> [(''offset'', JStr t)] | None \<Rightarrow> []))"

definition reset_json :: "string \<Rightarrow> reset_form \<Rightarrow> json" where
  "reset_json topic s = JObj ([(''topic'', JStr topic), (''resetType'', JStr (type_text (rf_type s))),
     (''partitions'', JArr (map (\<lambda>p. JNum (Dec p 0)) (rf_partitions s)))]
     @ (case rf_timestamp s of Some t \<Rightarrow> [(''resetToTimestamp'', JNum (Dec t 0))] | None \<Rightarrow> [])
     @ [(''partitionsOffsets'', JArr (map offset_json (rf_offsets s)))])"

lemma offset_sent:
  "ToJSON fmt PartitionOffset_model (offset_data q) =
     Inr (VObj [(''partition'', VNum (Dec (fst q) 0)), (''offset'', case snd q of Some t \<Rightarrow> VStr t | None \<Rightarrow> VUndef)])"
  by (cases q; cases "snd q") (simp_all add: PartitionOffset_model_def get_prop_def nullish_def)

lemma offset_wire:
  "to_wire fmt (VObj [(''partition'', VNum (Dec (fst q) 0)), (''offset'', case snd q of Some t \<Rightarrow> VStr t | None \<Rightarrow> VUndef)])
   = Some (offset_json q)"
  by (cases q; cases "snd q") simp_all

lemma offsets_wire:
  "map (\<lambda>x. case to_wire fmt x of Some j \<Rightarrow> j | None \<Rightarrow> JNull) (map (\<lambda>q.
     VObj [(''partition'', VNum (Dec (fst q) 0)), (''offset'', case snd q of Some t \<Rightarrow> VStr t | None \<Rightarrow> VUndef)]) qs)
   = map offset_json qs"
  unfolding list.map_comp comp_def offset_wire option.case ..

lemma offsets_sent:
  "map_res (ToJSON fmt PartitionOffset_model) (map offset_data qs) = Inr (map (\<lambda>q.
     VObj [(''partition'', VNum (Dec (fst q) 0)), (''offset'', case snd q of Some t \<Rightarrow> VStr t | None \<Rightarrow> VUndef)]) qs)"
  by (induction qs) (simp_all add: offset_sent)

lemma not_unconverted: "\<not> unconverted PartitionOffset_model"
  by (simp add: PartitionOffset_model_def)

lemma body_request:
  assumes "ToJSON toISOString ConsumerGroupOffsetsReset_model v = Inr w" and "to_wire toISOString w = Some j" and "\<not> nullish v"
  shows "\<exists>r. reset_sent conf cluster gid v = Inr r \<and> rq_body r = JsonText j"
  using assms by (simp add: reset_sent_def mutation_hook_defs in_cluster_def build_request_def resetConsumerGroupOffsets_def
      missing_param_def arg_def get_prop_def nullish_def request_body_def createFetchParams_def Let_def)

lemma reset_request:
  assumes "rf_topic s = Some topic"
  shows "\<exists>r. reset_sent conf cluster gid (reset_data s) = Inr r
    \<and> rq_body r = JsonText (reset_json topic s)"
proof -
  let ?offsets = "VArr (map (\<lambda>q. VObj [(''partition'', VNum (Dec (fst q) 0)),
      (''offset'', case snd q of Some t \<Rightarrow> VStr t | None \<Rightarrow> VUndef)]) (rf_offsets s))"
  let ?sent = "VObj [(''topic'', VStr topic), (''resetType'', VStr (type_text (rf_type s))),
      (''partitions'', VArr (map (\<lambda>p. VNum (Dec p 0)) (rf_partitions s))),
      (''resetToTimestamp'', case rf_timestamp s of Some t \<Rightarrow> VNum (Dec t 0) | None \<Rightarrow> VUndef),
      (''partitionsOffsets'', ?offsets)]"
  have "ToJSON toISOString (TArray PartitionOffset_model) (VArr (map offset_data (rf_offsets s))) = Inr ?offsets"
    by (simp add: not_unconverted offsets_sent)
  then have sent: "ToJSON toISOString ConsumerGroupOffsetsReset_model (reset_data s) = Inr ?sent"
    by (simp add: ConsumerGroupOffsetsReset_model_def ConsumerGroupOffsetsResetType_model_def reset_data_def assms
        get_prop_def nullish_def del: ToJSON.simps(9)) (simp split: option.split)
  have "to_wire toISOString (VObj [(''topic'', VStr topic), (''resetType'', VStr (type_text (rf_type s))),
      (''partitions'', VArr (map (\<lambda>p. VNum (Dec p 0)) (rf_partitions s))),
      (''resetToTimestamp'', case rf_timestamp s of Some t \<Rightarrow> VNum (Dec t 0) | None \<Rightarrow> VUndef),
      (''partitionsOffsets'', v)]) = Some (reset_json topic s)"
    if "to_wire toISOString v = Some (JArr (map offset_json (rf_offsets s)))" for v
    using that by (cases "rf_timestamp s") (simp_all add: reset_json_def comp_def)
  moreover have "to_wire toISOString ?offsets = Some (JArr (map offset_json (rf_offsets s)))"
    unfolding to_wire.simps(7) offsets_wire ..
  ultimately have "to_wire toISOString ?sent = Some (reset_json topic s)" by blast
  from body_request [OF sent this] show ?thesis by (simp add: reset_data_def nullish_def)
qed


section \<open>What the server commits\<close>

lemma partitions_read:
  "list_all (fits 32) ps \<Longrightarrow> map_res (go_int 32) (map (\<lambda>p. JNum (Dec p 0)) ps) = Inr ps"
  by (induction ps) simp_all

lemma offsets_read:
  "list_all (fits 32) (map fst qs) \<Longrightarrow> \<forall>q\<in>set qs. snd q = None \<Longrightarrow>
   map_res PartitionOffset (map offset_json qs) = Inr (map (\<lambda>q. (fst q, None)) qs)"
  by (induction qs) (auto simp: PartitionOffset_def go_member_def go_pointer_def)

lemma offset_text_refused:
  assumes "(p, Some x) \<in> set qs"
  shows "\<exists>e. map_res PartitionOffset (map offset_json qs) = Inl e"
  using assms
proof (induction qs)
  case (Cons q qs)
  have "\<exists>e. PartitionOffset (offset_json (p, Some x)) = Inl e"
    by (cases "fits 32 p") (simp_all add: PartitionOffset_def go_member_def go_pointer_def)
  with Cons show ?case by (auto split: sum.split)
qed simp

definition whole_partitions :: "group_partitions \<Rightarrow> bool" where
  "whole_partitions gp \<longleftrightarrow> (\<forall>(t, p)\<in>set gp. fits 32 p)"

lemma selected_fit:
  assumes "reset_inv gp s" and "whole_partitions gp"
  shows "list_all (fits 32) (rf_partitions s)"
  using assms by (fastforce simp: reset_inv_def whole_partitions_def partitionOptions_def list_all_iff)

lemma selected_topic:
  assumes "reset_inv gp s" and "rf_partitions s \<noteq> []"
  shows "\<exists>t. rf_topic s = Some t \<and> (\<forall>p\<in>set (rf_partitions s). (t, p) \<in> set gp)"
proof -
  obtain p where "p \<in> set (rf_partitions s)" using assms(2) by (cases "rf_partitions s") auto
  then obtain t where "rf_topic s = Some t" using assms(1) by (fastforce simp: reset_inv_def partitionOptions_def)
  with assms(1) show ?thesis by (fastforce simp: reset_inv_def partitionOptions_def)
qed

lemma decoded_reset:
  assumes "reset_inv gp s" and "whole_partitions gp" and "rf_type s \<noteq> OFFSET"
  shows "decode_reset (reset_json topic s) = Inr \<lparr>cr_topic = topic, cr_type = type_text (rf_type s),
    cr_partitions = Some (rf_partitions s), cr_timestamp = rf_timestamp s,
    cr_offsets = Some (map (\<lambda>q. (fst q, None)) (rf_offsets s))\<rparr>"
proof -
  have ps: "list_all (fits 32) (rf_partitions s)" by (rule selected_fit [OF assms(1,2)])
  moreover have "list_all (fits 32) (map fst (rf_offsets s))" "\<forall>q\<in>set (rf_offsets s). snd q = None"
    using ps assms(1,3) by (auto simp: reset_inv_def)
  moreover have "rf_timestamp s = Some t \<Longrightarrow> fits 64 t" for t using assms(1) by (simp add: reset_inv_def)
  ultimately show ?thesis
    by (cases "rf_timestamp s")
      (simp_all add: decode_reset_def reset_json_def go_member_def go_pointer_def go_slice_def partitions_read offsets_read
        del: list.map)
qed

lemma no_offsets: "fold (\<lambda>(p, x) m. case x of Some at \<Rightarrow> m(p \<mapsto> at) | None \<Rightarrow> m) (map (\<lambda>q. (fst q, None)) qs) m = m"
  by (induction qs) simp_all

text \<open>What Kafka lists for a type of reset.\<close>

fun kafka_offsets :: "kadm \<Rightarrow> reset_type \<Rightarrow> int \<Rightarrow> string \<Rightarrow> (int \<rightharpoonup> int) option" where
  "kafka_offsets adm EARLIEST ts t = ListStartOffsets adm t"
| "kafka_offsets adm LATEST ts t = ListEndOffsets adm t"
| "kafka_offsets adm TIMESTAMP ts t = ListOffsetsAfterMilli adm ts t"
| "kafka_offsets adm OFFSET ts t = None"

text \<open>
  C18. A reset to the earliest or latest offsets or to a time does what the form shows. However the
  form was filled in, when it can be submitted the server accepts the request for an inactive
  group, and commits the offsets Kafka lists for the chosen topic and type, exactly for the
  partitions that are selected; these are partitions of the group, there is at least one, and a
  time has been entered if it is needed. The server never takes the request as one for every
  partition.
\<close>

theorem reset_commits_selection:
  assumes "list_all times_fit es" and "fits 64 now" and "whole_partitions gp"
    and "s = fold (reset_step gp) es (open_reset gp now)" and "can_submit s" and "rf_type s \<noteq> OFFSET"
  shows "\<exists>t r. rf_topic s = Some t \<and> rf_partitions s \<noteq> [] \<and> (\<forall>p\<in>set (rf_partitions s). (t, p) \<in> set gp)
    \<and> reset_sent conf cluster gid (reset_data s) = Inr r
    \<and> ResetConsumerGroupOffsets adm (Some ''EMPTY'') (rq_body r) =
        (case kafka_offsets adm (rf_type s) (case rf_timestamp s of Some ts \<Rightarrow> ts | None \<Rightarrow> 0) t of
           None \<Rightarrow> ServerError
         | Some listed \<Rightarrow> Commits t (listed |` set (rf_partitions s)))
    \<and> (rf_type s = TIMESTAMP \<longrightarrow> rf_timestamp s \<noteq> None)"
proof -
  have inv: "reset_inv gp s" unfolding assms(4) by (rule resetting.inv_run [OF assms(1) open_inv [OF assms(2)]])
  have ne: "rf_partitions s \<noteq> []" using assms(5) by (simp add: can_submit_def)
  obtain t where t: "rf_topic s = Some t" "\<forall>p\<in>set (rf_partitions s). (t, p) \<in> set gp"
    using selected_topic [OF inv ne] by blast
  obtain r where r: "reset_sent conf cluster gid (reset_data s) = Inr r"
    "rq_body r = JsonText (reset_json t s)" using reset_request [OF t(1)] by blast
  have "ResetConsumerGroupOffsets adm (Some ''EMPTY'') (rq_body r) =
      (case kafka_offsets adm (rf_type s) (case rf_timestamp s of Some ts \<Rightarrow> ts | None \<Rightarrow> 0) t of
         None \<Rightarrow> ServerError | Some listed \<Rightarrow> Commits t (listed |` set (rf_partitions s)))"
    using assms(6) ne
    by (cases "rf_type s") (simp_all add: ResetConsumerGroupOffsets_def r(2) decoded_reset [OF inv assms(3,6)] Reset_def
        resetSpecFromGenerated_def resetOffsetsFor_def filterOffsetsByPartitions_def no_offsets split: option.split)
  with t r ne assms(5) show ?thesis by (auto simp: can_submit_def)
qed

text \<open>
  C19. A reset to offsets that were entered never works: every form that can be submitted with this
  type is refused by the server as an invalid request body, because the offsets are sent as the
  texts of their inputs and the server reads them as numbers.
\<close>

theorem reset_to_offsets_refused:
  assumes "list_all times_fit es" and "fits 64 now"
    and "s = fold (reset_step gp) es (open_reset gp now)" and "can_submit s" and "rf_type s = OFFSET"
  shows "\<exists>r. reset_sent conf cluster gid (reset_data s) = Inr r
    \<and> ResetConsumerGroupOffsets adm state (rq_body r) = InvalidBody"
proof -
  have inv: "reset_inv gp s" unfolding assms(3) by (rule resetting.inv_run [OF assms(1) open_inv [OF assms(2)]])
  have ne: "rf_partitions s \<noteq> []" and ok: "list_all (\<lambda>p. offset_ok (snd p)) (rf_offsets s)"
    using assms(4,5) by (simp_all add: can_submit_def)
  obtain t where "rf_topic s = Some t" using selected_topic [OF inv ne] by blast
  from reset_request [OF this] obtain r where r: "reset_sent conf cluster gid (reset_data s) = Inr r"
    "rq_body r = JsonText (reset_json t s)" by blast
  have "rf_offsets s \<noteq> []" using inv ne by (auto simp: reset_inv_def)
  then obtain p x where q: "(p, x) \<in> set (rf_offsets s)" by (cases "rf_offsets s") force+
  with ok have "offset_ok x" by (auto simp: list_all_iff)
  with q obtain y where "(p, Some y) \<in> set (rf_offsets s)" by (cases x) (simp_all add: offset_ok_def)
  then obtain e where "map_res PartitionOffset (map offset_json (rf_offsets s)) = Inl e"
    using offset_text_refused by blast
  then have "decode_reset (reset_json t s) \<noteq> Inr b" for b
    by (auto simp: decode_reset_def reset_json_def go_member_def go_pointer_def go_slice_def bind_res_Inr_iff
        split: option.splits)
  with r show ?thesis by (auto simp: ResetConsumerGroupOffsets_def split: sum.split)
qed


text \<open>A group that reads two partitions of one topic and one of another.\<close>

definition sample_group :: group_partitions where
  "sample_group = [(''orders'', 0), (''orders'', 1), (''audit'', 0)]"

definition sample_kafka :: kadm where
  "sample_kafka = \<lparr>ListStartOffsets = (\<lambda>t. Some [0 \<mapsto> 5, 1 \<mapsto> 7]), ListEndOffsets = (\<lambda>t. Some [0 \<mapsto> 50, 1 \<mapsto> 70]),
     ListOffsetsAfterMilli = (\<lambda>ts t. None)\<rparr>"

lemma sample_whole: "whole_partitions sample_group"
  by (simp add: whole_partitions_def sample_group_def fits_def)

lemmas reset_eval = open_reset_def onSelectedPartitionsChange_def sample_group_def partitionOptions_def can_submit_def fits_def

theorem reset_commits_selection_witness:
  "\<exists>s r. s = fold (reset_step sample_group) [SelectType OFFSET, SelectPartitions [1], SelectType LATEST] (open_reset sample_group 0)
    \<and> reset_sent \<lparr>basePath = [], conf_headers = []\<rparr> ''local'' ''g'' (reset_data s) = Inr r
    \<and> ResetConsumerGroupOffsets sample_kafka (Some ''EMPTY'') (rq_body r) = Commits ''orders'' [1 \<mapsto> 70]"
proof -
  let ?es = "[SelectType OFFSET, SelectPartitions [1], SelectType LATEST]"
  define s where "s = fold (reset_step sample_group) ?es (open_reset sample_group 0)"
  have s: "s = \<lparr>rf_topic = Some ''orders'', rf_type = LATEST, rf_partitions = [1], rf_offsets = [(1, None)], rf_timestamp = Some 0\<rparr>"
    by (simp add: s_def reset_eval)
  have "can_submit s" "rf_type s \<noteq> OFFSET" "list_all times_fit ?es" "fits 64 0" by (simp_all add: s can_submit_def fits_def)
  from reset_commits_selection [OF this(3,4) sample_whole s_def this(1,2), where conf = "\<lparr>basePath = [], conf_headers = []\<rparr>"
      and cluster = "''local''" and gid = "''g''" and adm = sample_kafka]
  obtain r where "reset_sent \<lparr>basePath = [], conf_headers = []\<rparr> ''local'' ''g'' (reset_data s) = Inr r"
    "ResetConsumerGroupOffsets sample_kafka (Some ''EMPTY'') (rq_body r) = Commits ''orders'' ([0 \<mapsto> 50, 1 \<mapsto> 70] |` {1})"
    by (auto simp: s sample_kafka_def)
  moreover have "[0 \<mapsto> 50, 1 \<mapsto> 70] |` {1} = [1 \<mapsto> (70 :: int)]" by (auto simp: restrict_map_def)
  ultimately show ?thesis using s_def by auto
qed

theorem reset_to_offsets_refused_witness:
  "\<exists>s r. s = fold (reset_step sample_group) [SelectPartitions [0], SelectType OFFSET, EnterOffset 0 ''12''] (open_reset sample_group 0)
    \<and> rf_offsets s = [(0, Some ''12'')]
    \<and> reset_sent \<lparr>basePath = [], conf_headers = []\<rparr> ''local'' ''g'' (reset_data s) = Inr r
    \<and> ResetConsumerGroupOffsets sample_kafka (Some ''EMPTY'') (rq_body r) = InvalidBody"
proof -
  let ?es = "[SelectPartitions [0], SelectType OFFSET, EnterOffset 0 ''12'']"
  define s where "s = fold (reset_step sample_group) ?es (open_reset sample_group 0)"
  have s: "s = \<lparr>rf_topic = Some ''orders'', rf_type = OFFSET, rf_partitions = [0], rf_offsets = [(0, Some ''12'')], rf_timestamp = Some 0\<rparr>"
    by (simp add: s_def reset_eval)
  have "offset_ok (Some ''12'')" by code_simp
  then have "can_submit s" "rf_type s = OFFSET" "list_all times_fit ?es" "fits 64 0" by (simp_all add: s can_submit_def fits_def)
  from reset_to_offsets_refused [OF this(3,4) s_def this(1,2), where conf = "\<lparr>basePath = [], conf_headers = []\<rparr>"
      and cluster = "''local''" and gid = "''g''" and adm = sample_kafka and state = "Some ''EMPTY''"] s s_def
  show ?thesis by auto
qed

end
