(* ===== verification/Nanoid.thy ===== *)
theory Nanoid
  imports Prelude
begin

text \<open>
  Random identifiers (\<open>frontend/src/lib/functions/nanoid.ts\<close>). The argument \<open>rnd\<close> gives the value of
  \<open>(Math.random() * 64) | 0\<close> at each call. A loop that does not end is \<open>None\<close>.
\<close>

definition urlAlphabet :: string where
  "urlAlphabet = ''ModuleSymbhasOwnPr-0123456789ABCDEFGHNRVfgctiUvz_KqYTJkLxpZXIjQW''"

text \<open>The test \<open>i--\<close> compares the old value with zero, so a negative \<open>i\<close> is not the end.\<close>

partial_function (option) nanoid_loop :: "(nat \<Rightarrow> nat) \<Rightarrow> int \<Rightarrow> nat \<Rightarrow> string \<Rightarrow> string option" where
  "nanoid_loop rnd i k s =
     (if i = 0 then Some s else nanoid_loop rnd (i - 1) (k + 1) (s @ [urlAlphabet ! rnd k]))"

definition nanoid :: "(nat \<Rightarrow> nat) \<Rightarrow> int \<Rightarrow> string option" where
  "nanoid rnd sz = nanoid_loop rnd sz 0 []"

lemma nanoid_loop_length:
  "nanoid_loop rnd (int n) k s = Some (s @ map (\<lambda>j. urlAlphabet ! rnd j) [k..<k + n])"
proof (induction n arbitrary: k s)
  case (Suc n)
  have "[k..<k + Suc n] = k # [Suc k..<Suc k + n]" by (simp add: upt_conv_Cons del: upt_Suc)
  then show ?case by (subst nanoid_loop.simps) (simp add: Suc del: upt_Suc)
qed (simp add: nanoid_loop.simps)

lemma nanoid_loop_negative:
  assumes "nanoid_loop rnd i k s = Some t"
  shows "0 \<le> i"
proof (rule nanoid_loop.raw_induct [where P = "\<lambda>r i k s t. 0 \<le> i", OF _ assms])
  fix loop :: "(nat \<Rightarrow> nat) \<Rightarrow> int \<Rightarrow> nat \<Rightarrow> string \<Rightarrow> string option" and rnd i k s t
  assume ih: "\<And>rnd i k s t. loop rnd i k s = Some t \<Longrightarrow> 0 \<le> i"
    and "(if i = 0 then Some s else loop rnd (i - 1) (k + 1) (s @ [urlAlphabet ! rnd k])) = Some t"
  then show "0 \<le> i" using ih [of rnd "i - 1" "k + 1" "s @ [urlAlphabet ! rnd k]" t] by (cases "i = 0") auto
qed

lemma alphabet_size: "length urlAlphabet = 64" "distinct urlAlphabet"
  by (simp_all add: urlAlphabet_def)

definition id_char :: "char \<Rightarrow> bool" where
  "id_char c \<longleftrightarrow> (let n = of_char c :: nat in 48 \<le> n \<and> n \<le> 57 \<or> 65 \<le> n \<and> n \<le> 90 \<or> 97 \<le> n \<and> n \<le> 122) \<or> c = CHR ''_'' \<or> c = CHR ''-''"

lemma alphabet_chars: "list_all id_char urlAlphabet"
  by code_simp

text \<open>
  Making an identifier ends exactly for sizes that are not negative. It then has that many
  characters, each a letter, a digit, an underscore or a hyphen, and two runs that draw different
  numbers at some place make different identifiers.
\<close>

theorem nanoid_terminates:
  assumes "\<forall>j. rnd j < 64"
  shows "((\<exists>s. nanoid rnd sz = Some s) \<longleftrightarrow> 0 \<le> sz)
    \<and> (\<forall>s. nanoid rnd sz = Some s \<longrightarrow> length s = nat sz \<and> list_all id_char s
        \<and> (\<forall>rnd'. (\<forall>j. rnd' j < 64) \<and> nanoid rnd' sz = Some s \<longrightarrow> (\<forall>j<nat sz. rnd' j = rnd j)))"
proof -
  have eq: "nanoid r sz = Some (map (\<lambda>j. urlAlphabet ! r j) [0..<nat sz])" if "0 \<le> sz" for r
    using nanoid_loop_length [of r "nat sz" 0 "[]"] that by (simp add: nanoid_def)
  have ends: "(\<exists>s. nanoid rnd sz = Some s) \<longleftrightarrow> 0 \<le> sz"
    using eq [of rnd] nanoid_loop_negative [of rnd sz 0 "[]"] unfolding nanoid_def by blast
  have chars: "list_all id_char (map (\<lambda>j. urlAlphabet ! rnd j) [0..<nat sz])"
    using assms alphabet_chars alphabet_size(1) by (simp add: list_all_iff)
  have "rnd' j = rnd j"
    if "\<forall>j. rnd' j < 64" "map (\<lambda>j. urlAlphabet ! rnd' j) [0..<nat sz] = map (\<lambda>j. urlAlphabet ! rnd j) [0..<nat sz]" "j < nat sz"
    for rnd' j
  proof -
    from that(2,3) have "urlAlphabet ! rnd' j = urlAlphabet ! rnd j" by simp
    with assms that(1) alphabet_size show ?thesis by (simp add: nth_eq_iff_index_eq)
  qed
  with ends chars eq show ?thesis by (cases "0 \<le> sz") auto
qed

theorem nanoid_terminates_witness:
  "nanoid (\<lambda>j. j) 3 = Some ''Mod'' \<and> (\<exists>s. nanoid (\<lambda>j. j mod 64) 3 = Some s) \<and> \<not> (\<exists>s. nanoid (\<lambda>j. j mod 64) (- 1) = Some s)"
proof -
  have "nanoid (\<lambda>j. j) 3 = Some ''Mod''"
  proof -
    have "nanoid_loop (\<lambda>j. j) (int 3) 0 [] = Some (map (\<lambda>j. urlAlphabet ! j) [0, 1, 2])"
      unfolding nanoid_loop_length by (simp add: upt_rec numeral_2_eq_2)
    then show ?thesis by (simp add: nanoid_def urlAlphabet_def numeral_2_eq_2)
  qed
  moreover have "\<forall>j. j mod 64 < (64 :: nat)" by simp
  note nanoid_terminates [OF this, THEN conjunct1]
  ultimately show ?thesis by simp
qed

end
