(* ===== verification/NumberInput.thy ===== *)
theory NumberInput
  imports Prelude
begin

text \<open>
  The inputs for numbers (\<open>frontend/src/components/common/Input/Input.tsx\<close>): which keys are let
  through and what becomes of pasted text. The text in such an input is not its value: by the HTML standard
  the value is the text if that is a number and empty otherwise. Keys and native pastes add to the
  end of the text.
\<close>

section \<open>Keys\<close>

text \<open>The order of strings, by character codes.\<close>

fun str_le :: "string \<Rightarrow> string \<Rightarrow> bool" where
  "str_le [] t = True"
| "str_le (c # cs) [] = False"
| "str_le (c # cs) (d # ds) = (if c = d then str_le cs ds else (of_char c :: nat) < of_char d)"

definition inputNumberCheck :: "string \<Rightarrow> bool \<Rightarrow> bool \<Rightarrow> string \<Rightarrow> bool" where
  "inputNumberCheck key positiveOnly integerOnly val =
     (if \<not> ((str_le ''0'' key \<and> str_le key ''9'') \<or> key = ''-'' \<or> key = ''.'') then False
      else
        let ok = (if positiveOnly then key \<noteq> ''-'' else True);
            ok = (if ok \<and> integerOnly then key \<noteq> ''.'' else ok)
        in if ok \<and> (key = ''-'' \<or> key = ''.'')
           then (if \<not> positiveOnly \<and> key = ''-'' \<and> val \<noteq> '''' then False
                 else if \<not> integerOnly \<and> key = ''.'' \<and> (val = '''' \<or> CHR ''.'' \<in> set val) then False
                 else ok)
           else ok)"

section \<open>Pasted text\<close>

definition pasteNumberCheck :: "string \<Rightarrow> bool \<Rightarrow> bool \<Rightarrow> string" where
  "pasteNumberCheck pasted positiveOnly integerOnly =
     (let sign = (if \<not> positiveOnly \<and> take 1 pasted = ''-'' then ''-'' else '''');
          digits = filter (\<lambda>c. is_digit c \<or> \<not> integerOnly \<and> c = CHR ''.'') pasted;
          val = (if \<not> integerOnly \<and> 1 < count_list digits (CHR ''.'')
                 then let strs = js_split ''.'' digits in hd strs @ ''.'' @ concat (tl strs)
                 else digits)
      in sign @ val)"

section \<open>The input\<close>

text \<open>
  A number as HTML has it, but for an exponent, which no accepted key can write: an optional sign, then digits
  with at most one dot that is followed by a digit.
\<close>

definition html_number :: "string \<Rightarrow> bool" where
  "html_number s =
     (let u = (case s of c # cs \<Rightarrow> if c = CHR ''-'' then cs else s | [] \<Rightarrow> [])
      in u \<noteq> [] \<and> is_digit (last u) \<and> list_all (\<lambda>c. is_digit c \<or> c = CHR ''.'') u \<and> count_list u (CHR ''.'') \<le> 1)"

definition input_value :: "string \<Rightarrow> string" where
  "input_value s = (if html_number s then s else [])"

datatype input_event = KeyPress string | Paste string

fun input_step :: "bool \<Rightarrow> bool \<Rightarrow> input_event \<Rightarrow> string \<Rightarrow> string" where
  "input_step positiveOnly integerOnly (KeyPress key) s =
     (if inputNumberCheck key positiveOnly integerOnly (input_value s) then s @ key else s)"
| "input_step positiveOnly integerOnly (Paste pasted) s =
     (let v = pasteNumberCheck pasted positiveOnly integerOnly in if v \<noteq> pasted then v else s @ pasted)"

section \<open>Properties\<close>

text \<open>Texts a paste leaves as they are.\<close>

definition pasteable :: "bool \<Rightarrow> bool \<Rightarrow> string \<Rightarrow> bool" where
  "pasteable positiveOnly integerOnly s =
     (let u = (if \<not> positiveOnly \<and> take 1 s = ''-'' then tl s else s)
      in list_all (\<lambda>c. is_digit c \<or> \<not> integerOnly \<and> c = CHR ''.'') u \<and> count_list u (CHR ''.'') \<le> 1)"

lemma digit_not_sign [simp]: "\<not> is_digit (CHR ''-'')" "\<not> is_digit (CHR ''.'')"
  by (simp_all add: is_digit_def)

lemma split_dots: "set (concat (js_split ''.'' s)) = set s - {CHR ''.''}"
proof (induction s)
  case (Cons c s)
  obtain w ws where "js_split ''.'' s = w # ws" by (cases "js_split ''.'' s") auto
  with Cons show ?case by auto
qed simp

text \<open>The part after the sign.\<close>

definition number_part :: "bool \<Rightarrow> string \<Rightarrow> bool" where
  "number_part integerOnly u \<longleftrightarrow>
     list_all (\<lambda>c. is_digit c \<or> \<not> integerOnly \<and> c = CHR ''.'') u \<and> count_list u (CHR ''.'') \<le> 1"

definition paste_part :: "bool \<Rightarrow> string \<Rightarrow> string" where
  "paste_part integerOnly pasted =
     (let digits = filter (\<lambda>c. is_digit c \<or> \<not> integerOnly \<and> c = CHR ''.'') pasted
      in if \<not> integerOnly \<and> 1 < count_list digits (CHR ''.'')
         then let strs = js_split ''.'' digits in hd strs @ ''.'' @ concat (tl strs) else digits)"

lemma paste_sign_part:
  "pasteNumberCheck t p i = (if \<not> p \<and> take 1 t = ''-'' then ''-'' else []) @ paste_part i t"
  by (simp add: pasteNumberCheck_def paste_part_def Let_def)

lemma pasteable_part: "pasteable p i s \<longleftrightarrow> number_part i (if \<not> p \<and> take 1 s = ''-'' then tl s else s)"
  by (simp add: pasteable_def number_part_def Let_def)

lemma integer_dots: "list_all (\<lambda>c. is_digit c) u \<Longrightarrow> count_list u (CHR ''.'') = 0"
  by (induction u) auto

lemma paste_part_ok: "number_part i (paste_part i t)"
proof -
  let ?d = "filter (\<lambda>c. is_digit c \<or> \<not> i \<and> c = CHR ''.'') t"
  have all: "list_all (\<lambda>c. is_digit c \<or> \<not> i \<and> c = CHR ''.'') ?d" by (simp add: list_all_iff)
  show ?thesis
  proof (cases "\<not> i \<and> 1 < count_list ?d (CHR ''.'')")
    case True
    obtain w ws where s: "js_split ''.'' ?d = w # ws" by (cases "js_split ''.'' ?d") auto
    have "set (w @ concat ws) = set ?d - {CHR ''.''}" using split_dots [of ?d] s by simp
    then have no_dot: "CHR ''.'' \<notin> set (w @ concat ws)" and sub: "set (w @ concat ws) \<subseteq> set ?d" by auto
    then have count: "count_list w (CHR ''.'') = 0" "count_list (concat ws) (CHR ''.'') = 0"
      by (simp_all only: count_list_0_iff set_append Un_iff not_False_eq_True de_Morgan_disj)
    have part: "paste_part i t = w @ ''.'' @ concat ws"
      unfolding paste_part_def Let_def if_P [OF True] s by simp
    have "list_all (\<lambda>c. is_digit c \<or> \<not> i \<and> c = CHR ''.'') (w @ ''.'' @ concat ws)"
      using all sub True by (simp only: list_all_iff set_append) auto
    moreover have "count_list (w @ ''.'' @ concat ws) (CHR ''.'') \<le> 1" using count by simp
    ultimately show ?thesis unfolding part number_part_def by (rule conjI)
  next
    case False
    then show ?thesis
      using all integer_dots [of ?d] by (cases i) (simp_all add: paste_part_def Let_def number_part_def)
  qed
qed

lemma number_part_kept: "number_part i u \<Longrightarrow> paste_part i u = u"
  by (simp add: paste_part_def number_part_def Let_def list_all_iff filter_id_conv)

lemma part_no_sign: "number_part i u \<Longrightarrow> take 1 u \<noteq> ''-''"
  by (cases u) (auto simp: number_part_def)

text \<open>
  Pasting keeps exactly the texts of numbers. The text that a paste leaves has an optional
  sign, only if negative numbers are allowed, then digits with at most one dot, and no dot for
  integers; and it is the pasted text exactly if that had this form already. So pasting the
  result again changes nothing.
\<close>

theorem paste_keeps_numbers:
  "pasteable p i (pasteNumberCheck t p i) \<and> (pasteNumberCheck t p i = t \<longleftrightarrow> pasteable p i t)"
proof -
  let ?u = "paste_part i t"
  have ok: "number_part i ?u" by (rule paste_part_ok)
  then have result: "pasteable p i (pasteNumberCheck t p i)"
    using part_no_sign [OF ok] by (simp add: paste_sign_part pasteable_part)
  moreover have "pasteNumberCheck t p i = t" if "pasteable p i t"
  proof (cases "\<not> p \<and> take 1 t = ''-''")
    case True
    then obtain u where u: "t = CHR ''-'' # u" by (cases t) auto
    with that True have "number_part i u" by (simp add: pasteable_part)
    then have "paste_part i t = u" using number_part_kept [of i u] by (simp add: u paste_part_def)
    with True u show ?thesis by (simp add: paste_sign_part)
  next
    case False
    from that have "number_part i t" unfolding pasteable_part if_not_P [OF False] .
    then show ?thesis unfolding paste_sign_part if_not_P [OF False] by (simp add: number_part_kept)
  qed
  ultimately show ?thesis by metis
qed

lemma integer_key:
  assumes "inputNumberCheck key True True v"
  shows "str_le ''0'' key \<and> str_le key ''9''"
  using assms by (simp add: inputNumberCheck_def Let_def split: if_splits)

lemma digit_key: "str_le ''0'' [c] \<and> str_le [c] ''9'' \<longleftrightarrow> is_digit c"
proof -
  have "c = d \<longleftrightarrow> (of_char c :: nat) = of_char d" for d by (simp add: of_char_eq_iff)
  from this [of "CHR ''0''"] this [of "CHR ''9''"] show ?thesis by (auto simp: is_digit_def)
qed

text \<open>Keys that write one character.\<close>

fun single_key :: "input_event \<Rightarrow> bool" where
  "single_key (KeyPress key) = (length key = 1)"
| "single_key (Paste t) = True"

interpretation integers: machine "input_step True True" single_key "list_all is_digit"
proof
  fix e and s :: string
  assume "single_key e" and inv: "list_all is_digit s"
  then show "list_all is_digit (input_step True True e s)"
  proof (cases e)
    case (KeyPress key)
    with \<open>single_key e\<close> obtain c where c: "key = [c]" by (cases key) auto
    show ?thesis
    proof (cases "inputNumberCheck key True True (input_value s)")
      case True
      from integer_key [OF this] have "is_digit c" unfolding c digit_key .
      with KeyPress True inv c show ?thesis by simp
    qed (use KeyPress inv in simp)
  next
    case (Paste t)
    have "pasteable True True (pasteNumberCheck t True True)" using paste_keeps_numbers by blast
    then have "list_all is_digit (pasteNumberCheck t True True)" by (simp add: pasteable_part number_part_def)
    with Paste inv show ?thesis by (auto simp: Let_def)
  qed
qed

text \<open>
  An input for whole numbers that are not negative holds nothing but digits, whatever single
  keys are pressed and texts are pasted. Without these restrictions the check of the keys does not
  keep the text a number: the minus sign can be typed twice, because the value of an input
  that holds only a sign is empty.
\<close>

theorem integer_inputs_hold_digits:
  "(list_all single_key es \<longrightarrow> list_all is_digit (fold (input_step True True) es []))
   \<and> fold (input_step False i) [KeyPress ''-'', KeyPress ''-''] [] = ''--''
   \<and> \<not> pasteable False i ''--''"
proof -
  have "list_all single_key es \<longrightarrow> list_all is_digit (fold (input_step True True) es [])"
    using integers.inv_run [of es "[]"] by simp
  moreover have "inputNumberCheck ''-'' False i []" by (simp add: inputNumberCheck_def)
  moreover have "input_value ''-'' = []" by (simp add: input_value_def html_number_def)
  ultimately show ?thesis
    by (simp add: input_value_def html_number_def pasteable_part number_part_def)
qed

theorem integer_inputs_hold_digits_witness:
  "list_all is_digit (fold (input_step True True) [KeyPress ''1'', KeyPress ''-'', Paste ''2.5''] [])"
  using integer_inputs_hold_digits [of "[KeyPress ''1'', KeyPress ''-'', Paste ''2.5'']"] by simp

end
