(* ===== verification/Confirm.thy ===== *)
theory Confirm
  imports Prelude "HOL-Library.Sublist"
begin

text \<open>
  The dialog that asks before an action (\<open>frontend/src/components/contexts/ConfirmContext.tsx\<close>,
  \<open>lib/hooks/useConfirm.ts\<close>, \<open>components/common/ConfirmationModal/ConfirmationModal.tsx\<close>). There is one
  dialog for the whole application. An action is a value of the type of actions; running it
  is writing it to the log \<open>started\<close>, and it ends some time later.
\<close>

section \<open>The dialog\<close>

record 'a dialog =
  content :: "string option"
  confirm :: "'a option"
  dangerButton :: bool
  isConfirming :: bool
  started :: "'a list"
  running :: nat

definition ConfirmContextProvider :: "'a dialog" where
  "ConfirmContextProvider =
     \<lparr>content = None, confirm = None, dangerButton = False, isConfirming = False, started = [], running = 0\<rparr>"

definition cancel :: "'a dialog \<Rightarrow> 'a dialog" where
  "cancel s = s\<lparr>content := None, confirm := None\<rparr>"

definition useConfirm :: "bool \<Rightarrow> string \<Rightarrow> 'a \<Rightarrow> 'a dialog \<Rightarrow> 'a dialog" where
  "useConfirm danger message callback s =
     s\<lparr>dangerButton := danger, content := Some message, isConfirming := False, confirm := Some callback\<rparr>"

text \<open>The function that \<open>useConfirm\<close> stores: its start, and its end.\<close>

definition confirm_start :: "'a \<Rightarrow> 'a dialog \<Rightarrow> 'a dialog" where
  "confirm_start callback s = s\<lparr>isConfirming := True, started := started s @ [callback], running := running s + 1\<rparr>"

definition confirm_end :: "'a dialog \<Rightarrow> 'a dialog" where
  "confirm_end s = cancel (s\<lparr>isConfirming := False, running := running s - 1\<rparr>)"

text \<open>An empty text is falsy, so the dialog does not open for it.\<close>

definition isOpen :: "'a dialog \<Rightarrow> bool" where
  "isOpen s \<longleftrightarrow> truthy (content s) \<and> confirm s \<noteq> None"

datatype 'a dialog_event = Ask bool string 'a | PressConfirm | PressCancel | Settle

text \<open>The button is disabled while an action is in progress.\<close>

fun dialog_step :: "'a dialog_event \<Rightarrow> 'a dialog \<Rightarrow> 'a dialog" where
  "dialog_step (Ask danger message a) s = useConfirm danger message a s"
| "dialog_step PressConfirm s =
     (case confirm s of
        Some a \<Rightarrow> if isOpen s \<and> \<not> isConfirming s then confirm_start a s else s
      | None \<Rightarrow> s)"
| "dialog_step PressCancel s = (if isOpen s then cancel s else s)"
| "dialog_step Settle s = (if 0 < running s then confirm_end s else s)"

definition dialog_run :: "'a dialog_event list \<Rightarrow> 'a dialog" where
  "dialog_run es = fold dialog_step es ConfirmContextProvider"

section \<open>Requests and answers\<close>

fun asked_by :: "'a dialog_event \<Rightarrow> 'a list" where
  "asked_by (Ask d m a) = [a]"
| "asked_by e = []"

definition asked :: "'a dialog_event list \<Rightarrow> 'a list" where
  "asked es = concat (map asked_by es)"

text \<open>The events after which the dialog shows what it showed before.\<close>

fun leaves_dialog :: "'a dialog_event \<Rightarrow> bool" where
  "leaves_dialog (Ask d m a) = False"
| "leaves_dialog PressConfirm = False"
| "leaves_dialog PressCancel = False"
| "leaves_dialog Settle = True"

text \<open>
  The dialog together with what was asked so far: what was started is a subsequence of it, and an
  open dialog whose action has not been started shows the last request, which is not among the started.
\<close>

definition ask_inv :: "'a list \<times> 'a dialog \<Rightarrow> bool" where
  "ask_inv c \<longleftrightarrow> (case c of (as, s) \<Rightarrow>
     subseq (started s) as
     \<and> (\<forall>a. confirm s = Some a \<longrightarrow> \<not> isConfirming s \<longrightarrow> (\<exists>bs. as = bs @ [a] \<and> subseq (started s) bs)))"

definition ask_step :: "'a dialog_event \<Rightarrow> 'a list \<times> 'a dialog \<Rightarrow> 'a list \<times> 'a dialog" where
  "ask_step e c = (fst c @ asked_by e, dialog_step e (snd c))"

lemmas dialog_defs = useConfirm_def confirm_start_def confirm_end_def cancel_def isOpen_def

lemma subseq_snoc: "subseq xs ys \<Longrightarrow> subseq (xs @ [a]) (ys @ [a])"
  by (simp add: list_emb_append_mono)

lemma subseq_more: "subseq xs ys \<Longrightarrow> subseq xs (ys @ [a])"
  by (metis list_emb_Nil list_emb_append_mono append_Nil2)

interpretation asking: machine ask_step "\<lambda>e. True" ask_inv
proof
  fix e :: "'a dialog_event" and c :: "'a list \<times> 'a dialog"
  assume inv: "ask_inv c"
  obtain as s where c: "c = (as, s)" by (cases c)
  show "ask_inv (ask_step e c)"
  proof (cases e)
    case PressConfirm
    then show ?thesis using inv c
      by (auto simp: ask_inv_def ask_step_def dialog_defs subseq_snoc split: option.split)
  qed (use inv c in \<open>auto simp: ask_inv_def ask_step_def dialog_defs subseq_more\<close>)
qed

lemma ask_run: "fold ask_step es (as, s) = (as @ asked es, fold dialog_step es s)"
  by (induction es arbitrary: as s) (simp_all add: ask_step_def asked_def)

lemma started_asked: "subseq (started (dialog_run es)) (asked es)"
proof -
  have "ask_inv ([], ConfirmContextProvider)" by (simp add: ask_inv_def ConfirmContextProvider_def)
  then have "ask_inv (fold ask_step es ([], ConfirmContextProvider))" by (intro asking.inv_run) (simp_all add: list_all_iff)
  then show ?thesis by (simp add: ask_run ask_inv_def dialog_run_def)
qed

section \<open>What the dialog shows\<close>

fun has_text :: "'a dialog_event \<Rightarrow> bool" where
  "has_text (Ask d m a) = (m \<noteq> [])"
| "has_text e = True"

definition shown :: "'a dialog \<Rightarrow> bool" where
  "shown s \<longleftrightarrow> (confirm s \<noteq> None \<longrightarrow> truthy (content s))"

interpretation texts: machine dialog_step has_text shown
proof
  fix e :: "'a dialog_event" and s :: "'a dialog"
  assume "has_text e" and "shown s"
  then show "shown (dialog_step e s)"
    by (cases e) (auto simp: shown_def dialog_defs truthy_def split: option.splits)
qed

lemma pending_open: "list_all has_text es \<Longrightarrow> confirm (dialog_run es) = Some a \<Longrightarrow> isOpen (dialog_run es)"
  using texts.inv_run [of es ConfirmContextProvider] by (simp add: shown_def ConfirmContextProvider_def dialog_run_def isOpen_def)

text \<open>An action waits in the dialog only if it was asked for, and neither confirmed nor cancelled since.\<close>

lemma pending_was_asked:
  assumes "list_all has_text es" and "confirm (dialog_run es) = Some a" and "\<not> isConfirming (dialog_run es)"
  shows "\<exists>pre d m mid. es = pre @ Ask d m a # mid \<and> list_all leaves_dialog mid"
  using assms
proof (induction es rule: rev_induct)
  case Nil
  then show ?case by (simp add: dialog_run_def ConfirmContextProvider_def)
next
  case (snoc e es)
  let ?s = "dialog_run es"
  have step: "dialog_run (es @ [e]) = dialog_step e ?s" by (simp add: dialog_run_def)
  have now: "confirm (dialog_step e ?s) = Some a" "\<not> isConfirming (dialog_step e ?s)"
    using snoc.prems unfolding step by simp_all
  from snoc.prems have opens: "confirm ?s = Some b \<Longrightarrow> isOpen ?s" for b using pending_open [of es] by simp
  show ?case
  proof (cases e)
    case (Ask d m b)
    then have "b = a" using now by (simp add: dialog_defs)
    then show ?thesis using Ask by (intro exI [of _ es] exI [of _ d] exI [of _ m] exI [of _ "[]"]) simp
  next
    case Settle
    then have "confirm ?s = Some a" "\<not> isConfirming ?s" using now by (auto simp: dialog_defs split: if_splits)
    with snoc obtain pre d m mid where "es = pre @ Ask d m a # mid" "list_all leaves_dialog mid" by auto
    then have "es @ [e] = pre @ Ask d m a # (mid @ [e]) \<and> list_all leaves_dialog (mid @ [e])" using Settle by simp
    then show ?thesis by blast
  qed (use now opens in \<open>auto simp: confirm_start_def cancel_def split: option.splits if_splits\<close>)
qed

section \<open>Nothing runs unconfirmed\<close>

interpretation dialogs: logging_machine dialog_step has_text shown started
  "\<lambda>e s a. e = PressConfirm \<and> confirm s = Some a \<and> \<not> isConfirming s"
proof
  fix e :: "'a dialog_event" and s :: "'a dialog"
  assume "has_text e" and "shown s"
  show "\<exists>new. started (dialog_step e s) = started s @ new
      \<and> list_all (\<lambda>a. e = PressConfirm \<and> confirm s = Some a \<and> \<not> isConfirming s) new"
    by (cases e) (auto simp: dialog_defs split: option.split)
qed

lemma confirmed_first:
  assumes "list_all has_text es" and "a \<in> set (started (dialog_run es))"
  shows "\<exists>pre d m mid post. es = pre @ Ask d m a # mid @ PressConfirm # post \<and> list_all leaves_dialog mid"
proof -
  have "a \<in> set (started (fold dialog_step es ConfirmContextProvider))" using assms(2) by (simp add: dialog_run_def)
  moreover have "shown ConfirmContextProvider" by (simp add: shown_def ConfirmContextProvider_def)
  moreover have "a \<notin> set (started ConfirmContextProvider)" by (simp add: ConfirmContextProvider_def)
  ultimately obtain pre e post where run: "es = pre @ e # post"
    "e = PressConfirm \<and> confirm (fold dialog_step pre ConfirmContextProvider) = Some a
      \<and> \<not> isConfirming (fold dialog_step pre ConfirmContextProvider)"
    using dialogs.logged [OF assms(1), of ConfirmContextProvider a] by blast
  then have es: "es = pre @ PressConfirm # post" and pending: "confirm (dialog_run pre) = Some a" "\<not> isConfirming (dialog_run pre)"
    by (simp_all add: dialog_run_def)
  have "list_all has_text pre" using assms(1) es by simp
  from pending_was_asked [OF this pending] obtain p d m mid where "pre = p @ Ask d m a # mid" "list_all leaves_dialog mid"
    by blast
  with es have "es = p @ Ask d m a # mid @ PressConfirm # post" by simp
  with \<open>list_all leaves_dialog mid\<close> show ?thesis by blast
qed

text \<open>
  An action runs only when it was confirmed. Whatever is asked and pressed, and whenever the
  actions end, an action that ran was asked for, and then confirmed while the dialog still showed its
  question: between the two nothing else was asked, and neither button was pressed. The actions
  that ran are a subsequence of those asked for, so no question runs its action twice.
\<close>

theorem actions_are_confirmed:
  assumes "list_all has_text es"
  shows "subseq (started (dialog_run es)) (asked es)
    \<and> (a \<in> set (started (dialog_run es)) \<longrightarrow>
        (\<exists>pre d m mid post. es = pre @ Ask d m a # mid @ PressConfirm # post \<and> list_all leaves_dialog mid))"
  using confirmed_first [OF assms] started_asked by blast

theorem actions_are_confirmed_witness:
  "started (dialog_run [Ask True ''Remove?'' (1 :: nat), PressConfirm, PressConfirm, Settle]) = [1]
   \<and> (\<exists>pre d m mid post. [Ask True ''Remove?'' (1 :: nat), PressConfirm, PressConfirm, Settle]
        = pre @ Ask d m 1 # mid @ PressConfirm # post \<and> list_all leaves_dialog mid)"
proof -
  let ?es = "[Ask True ''Remove?'' (1 :: nat), PressConfirm, PressConfirm, Settle]"
  have "list_all has_text ?es" by simp
  moreover have "started (dialog_run ?es) = [1]"
    by (simp add: dialog_run_def ConfirmContextProvider_def dialog_defs truthy_def)
  moreover have "(1 :: nat) \<in> set (started (dialog_run ?es))" using calculation by simp
  ultimately show ?thesis using actions_are_confirmed [of ?es 1] by blast
qed

text \<open>
  An action that ends takes away the question of another one. If the dialog is closed while its
  action runs and then asks for a second action, the end of the first closes the dialog: the
  second action has not run, and pressing Confirm does nothing. This is how it is from every state with a running
  action.
\<close>

theorem ending_closes_the_next_question:
  assumes "0 < running s" and "m \<noteq> []"
  shows "let s' = dialog_step (Ask d m a) s; t = dialog_step Settle s'
    in isOpen s' \<and> confirm s' = Some a \<and> \<not> isOpen t \<and> started (dialog_step PressConfirm t) = started s"
  using assms by (simp add: dialog_defs truthy_def Let_def)

theorem ending_closes_the_next_question_witness:
  "let s = dialog_run [Ask False ''First?'' (1 :: nat), PressConfirm, PressCancel]
   in started (dialog_step PressConfirm (dialog_step Settle (dialog_step (Ask True ''Second?'' 2) s))) = [1]"
proof -
  let ?s = "dialog_run [Ask False ''First?'' (1 :: nat), PressConfirm, PressCancel]"
  have s: "0 < running ?s" "started ?s = [1]"
    by (simp_all add: dialog_run_def ConfirmContextProvider_def dialog_defs truthy_def)
  show ?thesis using ending_closes_the_next_question [OF s(1), of "''Second?''" True 2] s(2) by (simp add: Let_def)
qed

end
