(* ===== verification/Menus.thy ===== *)
theory Menus
  imports Permissions Hooks Confirm
begin

text \<open>
  The menus from which topics and connectors are changed: which items are enabled for whom, which ask
  before they act, and what they request (\<open>components/common/ActionComponent\<close>,
  \<open>components/common/Dropdown\<close>, the menus of a topic in the list and on its page, the menus of a connector in
  the list and on its page, and the bar for selected topics).
\<close>

section \<open>Items\<close>

text \<open>
  An item with its own \<open>disabled\<close> flag, the result of its permission check (which throws for a pattern that does
  not compile), the question it asks first, the mutations it starts and the page it opens when they have succeeded.
\<close>

record menu_item =
  label :: string
  disabled :: bool
  allowed :: "bool res"
  question :: "string option"
  onClick :: "mutation_hook list"
  leads_to :: "string option"

type_synonym permission = "ResourceType \<times> Action list \<times> string"

definition check_permission :: "regexp_engine \<Rightarrow> string \<Rightarrow> RolesAccess \<Rightarrow> permission \<Rightarrow> bool res" where
  "check_permission re c ctx p = (case p of (resource, actions, val) \<Rightarrow> usePermission re c ctx resource actions (Some val))"

definition ActionDropdownItem ::
  "regexp_engine \<Rightarrow> string \<Rightarrow> RolesAccess \<Rightarrow> permission \<Rightarrow> permission option \<Rightarrow> bool res" where
  "ActionDropdownItem re c ctx permission fallbackPermission =
     bind_res (check_permission re c ctx permission) (\<lambda>canDoAction.
     bind_res (check_permission re c ctx (case fallbackPermission of Some p \<Rightarrow> p | None \<Rightarrow> permission)) (\<lambda>canDoFallbackAction.
       Inr (canDoAction \<or> fallbackPermission \<noteq> None \<and> canDoFallbackAction)))"

definition clickable :: "menu_item \<Rightarrow> bool" where
  "clickable i \<longleftrightarrow> \<not> disabled i \<and> allowed i = Inr True"

text \<open>The button of a disabled menu does not open it.\<close>

definition Dropdown :: "bool \<Rightarrow> menu_item list \<Rightarrow> menu_item list" where
  "Dropdown off items = (if off then map (\<lambda>i. i\<lparr>disabled := True\<rparr>) items else items)"

section \<open>Clicking\<close>

text \<open>A click on an item of a menu as it is then, and the events of the dialog.\<close>

datatype page_event = Click "menu_item list" nat | Confirmed | Cancelled | Ended

record page =
  dialog :: "menu_item dialog"
  direct :: "menu_item list"

definition handleClick :: "menu_item \<Rightarrow> page \<Rightarrow> page" where
  "handleClick i s =
     (case question i of
        Some q \<Rightarrow> if q \<noteq> [] then s\<lparr>dialog := useConfirm False q i (dialog s)\<rparr> else s\<lparr>direct := direct s @ [i]\<rparr>
      | None \<Rightarrow> s\<lparr>direct := direct s @ [i]\<rparr>)"

fun page_step :: "page_event \<Rightarrow> page \<Rightarrow> page" where
  "page_step (Click menu n) s = (if n < length menu \<and> clickable (menu ! n) then handleClick (menu ! n) s else s)"
| "page_step Confirmed s = s\<lparr>dialog := dialog_step PressConfirm (dialog s)\<rparr>"
| "page_step Cancelled s = s\<lparr>dialog := dialog_step PressCancel (dialog s)\<rparr>"
| "page_step Ended s = s\<lparr>dialog := dialog_step Settle (dialog s)\<rparr>"

definition page_run :: "page_event list \<Rightarrow> page" where
  "page_run es = fold page_step es \<lparr>dialog = ConfirmContextProvider, direct = []\<rparr>"

text \<open>The items whose mutations were started.\<close>

definition performed :: "page_event list \<Rightarrow> menu_item set" where
  "performed es = set (direct (page_run es)) \<union> set (started (dialog (page_run es)))"

section \<open>The menus\<close>

definition topic_permission :: "Action list \<Rightarrow> string \<Rightarrow> permission" where
  "topic_permission as t = (TOPIC, as, t)"

text \<open>The menu of a topic in the list.\<close>

definition topic_row_menu ::
  "regexp_engine \<Rightarrow> RolesAccess \<Rightarrow> string \<Rightarrow> string \<Rightarrow> bool \<Rightarrow> bool \<Rightarrow> bool \<Rightarrow> string option \<Rightarrow> menu_item list" where
  "topic_row_menu re ctx c name internal isReadOnly isTopicDeletionAllowed policy =
     Dropdown (internal \<or> isReadOnly)
       [\<lparr>label = ''Clear Messages'', disabled = policy \<noteq> Some ''DELETE'',
         allowed = ActionDropdownItem re c ctx (topic_permission [MESSAGES_DELETE] name) None,
         question = Some ''Are you sure want to clear topic messages?'',
         onClick = [useClearTopicMessages c VUndef name], leads_to = None\<rparr>,
        \<lparr>label = ''Recreate Topic'', disabled = \<not> isTopicDeletionAllowed,
         allowed = ActionDropdownItem re c ctx (topic_permission [VIEW, CREATE, Action.DELETE] name) None,
         question = Some (''Are you sure to recreate '' @ name @ '' topic?''),
         onClick = [useRecreateTopic c name], leads_to = None\<rparr>,
        \<lparr>label = ''Remove Topic'', disabled = \<not> isTopicDeletionAllowed,
         allowed = ActionDropdownItem re c ctx (topic_permission [Action.DELETE] name) None,
         question = Some (''Are you sure want to remove '' @ name @ '' topic?''),
         onClick = [useDeleteTopic c name], leads_to = None\<rparr>]"

text \<open>The menu on the page of a topic; the first item opens the page that edits it.\<close>

definition topic_page_menu ::
  "regexp_engine \<Rightarrow> RolesAccess \<Rightarrow> string \<Rightarrow> string \<Rightarrow> bool \<Rightarrow> bool \<Rightarrow> bool \<Rightarrow> string option \<Rightarrow> menu_item list" where
  "topic_page_menu re ctx c topicName internal isReadOnly isTopicDeletionAllowed policy =
     Dropdown (isReadOnly \<or> internal)
       [\<lparr>label = ''Edit settings'', disabled = False,
         allowed = ActionDropdownItem re c ctx (topic_permission [EDIT] topicName) None,
         question = None, onClick = [], leads_to = Some clusterTopicEditRelativePath\<rparr>,
        \<lparr>label = ''Clear messages'', disabled = policy \<noteq> Some ''DELETE'',
         allowed = ActionDropdownItem re c ctx (topic_permission [MESSAGES_DELETE] topicName) None,
         question = Some ''Are you sure want to clear topic messages?'',
         onClick = [useClearTopicMessages c VUndef topicName], leads_to = None\<rparr>,
        \<lparr>label = ''Recreate Topic'', disabled = False,
         allowed = ActionDropdownItem re c ctx (topic_permission [MESSAGES_READ, CREATE, Action.DELETE] topicName) None,
         question = Some (''Are you sure want to recreate '' @ topicName @ '' topic?''),
         onClick = [useRecreateTopic c topicName], leads_to = None\<rparr>,
        \<lparr>label = ''Remove Topic'', disabled = \<not> isTopicDeletionAllowed,
         allowed = ActionDropdownItem re c ctx (topic_permission [Action.DELETE] topicName) None,
         question = Some (''Are you sure want to remove '' @ topicName @ '' topic?''),
         onClick = [useDeleteTopic c topicName], leads_to = Some (clusterTopicsPath (Some c))\<rparr>]"

text \<open>Items for a connector: its own permission, or the one for the connect cluster.\<close>

definition connector_allowed :: "regexp_engine \<Rightarrow> RolesAccess \<Rightarrow> string \<Rightarrow> string \<Rightarrow> string \<Rightarrow> Action \<Rightarrow> bool res" where
  "connector_allowed re ctx c connect name a =
     ActionDropdownItem re c ctx (CONNECTOR, [a], connect @ ''/'' @ name) (Some (CONNECT, [a], connect))"

text \<open>An item that changes the state of a connector, without asking.\<close>

definition state_item ::
  "regexp_engine \<Rightarrow> RolesAccess \<Rightarrow> string \<Rightarrow> string \<Rightarrow> string \<Rightarrow> string option \<Rightarrow> bool \<Rightarrow> string \<Rightarrow> string \<Rightarrow> menu_item" where
  "state_item re ctx c connect name topic off caption action =
     \<lparr>label = caption, disabled = off, allowed = connector_allowed re ctx c connect name OPERATE,
      question = None, onClick = [useUpdateConnectorState c connect name topic (VStr action)], leads_to = None\<rparr>"

text \<open>The menu of a connector in the list.\<close>

definition connector_row_menu ::
  "regexp_engine \<Rightarrow> RolesAccess \<Rightarrow> string \<Rightarrow> string \<Rightarrow> string \<Rightarrow> string option \<Rightarrow> string \<Rightarrow> bool \<Rightarrow> bool \<Rightarrow> menu_item list" where
  "connector_row_menu re ctx c connect name topic state isMutating isReadOnly =
     (let item = state_item re ctx c connect name topic
      in (if state = ''PAUSED'' \<or> state = ''STOPPED'' then [item isMutating ''Resume'' ''RESUME''] else [])
       @ (if state = ''RUNNING'' then [item isMutating ''Pause'' ''PAUSE'', item isMutating ''Stop'' ''STOP''] else [])
       @ [item (isMutating \<or> isReadOnly) ''Restart Connector'' ''RESTART'',
          item isMutating ''Restart All Tasks'' ''RESTART_ALL_TASKS'',
          item isMutating ''Restart Failed Tasks'' ''RESTART_FAILED_TASKS'',
          \<lparr>label = ''Reset Offsets'', disabled = isMutating \<or> state \<noteq> ''STOPPED'',
           allowed = connector_allowed re ctx c connect name RESET_OFFSETS,
           question = Some (''Are you sure you want to reset the '' @ name @ '' connector offsets?''),
           onClick = [useResetConnectorOffsets c connect name], leads_to = None\<rparr>,
          \<lparr>label = ''Delete'', disabled = False,
           allowed = connector_allowed re ctx c connect name Action.DELETE,
           question = Some (''Are you sure you want to remove the '' @ name @ '' connector?''),
           onClick = [useDeleteConnector c connect name], leads_to = None\<rparr>])"

text \<open>The two menus on the page of a connector; its state is unknown until it has been read.\<close>

definition connector_page_menu ::
  "regexp_engine \<Rightarrow> RolesAccess \<Rightarrow> string \<Rightarrow> string \<Rightarrow> string \<Rightarrow> string option \<Rightarrow> bool \<Rightarrow> menu_item list" where
  "connector_page_menu re ctx c connect name state isMutating =
     (let item = state_item re ctx c connect name None False
      in Dropdown isMutating
           ((if state = Some ''RUNNING'' then [item ''Pause'' ''PAUSE'', item ''Stop'' ''STOP''] else [])
            @ (if state = Some ''PAUSED'' \<or> state = Some ''STOPPED'' then [item ''Resume'' ''RESUME''] else [])
            @ [item ''Restart Connector'' ''RESTART'', item ''Restart All Tasks'' ''RESTART_ALL_TASKS'',
               item ''Restart Failed Tasks'' ''RESTART_FAILED_TASKS''])
         @ [\<lparr>label = ''Reset Offsets'', disabled = isMutating \<or> state \<noteq> Some ''STOPPED'',
             allowed = connector_allowed re ctx c connect name RESET_OFFSETS,
             question = Some (''Are you sure you want to reset the '' @ name @ '' connector offsets?''),
             onClick = [useResetConnectorOffsets c connect name], leads_to = None\<rparr>,
            \<lparr>label = ''Delete'', disabled = False,
             allowed = connector_allowed re ctx c connect name Action.DELETE,
             question = Some (''Are you sure you want to remove the '' @ name @ '' connector?''),
             onClick = [useDeleteConnector c connect name], leads_to = Some (clusterConnectorsPath (Some c))\<rparr>])"

text \<open>The buttons for the selected topics; each needs its permission for all of them.\<close>

definition all_permitted :: "regexp_engine \<Rightarrow> RolesAccess \<Rightarrow> string \<Rightarrow> Action \<Rightarrow> string list \<Rightarrow> bool res" where
  "all_permitted re ctx c a selectedTopics =
     js_every (\<lambda>t. isPermitted re (ra_roles ctx) TOPIC [a] c (Some t) (ra_rbacFlag ctx)) selectedTopics"

definition BatchActionsbar :: "regexp_engine \<Rightarrow> RolesAccess \<Rightarrow> string \<Rightarrow> string list \<Rightarrow> menu_item list" where
  "BatchActionsbar re ctx c selectedTopics =
     [\<lparr>label = ''Delete selected topics'', disabled = selectedTopics = [],
       allowed = all_permitted re ctx c Action.DELETE selectedTopics,
       question = Some ''Are you sure you want to remove selected topics?'',
       onClick = map (useDeleteTopic c) selectedTopics, leads_to = None\<rparr>,
      \<lparr>label = ''Copy selected topic'', disabled = length selectedTopics \<noteq> 1,
       allowed = all_permitted re ctx c CREATE selectedTopics,
       question = None, onClick = [], leads_to = Some clusterTopicCopyRelativePath\<rparr>,
      \<lparr>label = ''Purge messages of selected topics'', disabled = selectedTopics = [],
       allowed = all_permitted re ctx c MESSAGES_DELETE selectedTopics,
       question = Some ''Are you sure you want to purge messages of selected topics?'',
       onClick = map (useClearTopicMessages c VUndef) selectedTopics, leads_to = None\<rparr>]"

section \<open>What was clicked\<close>

fun as_dialog :: "page_event \<Rightarrow> menu_item dialog_event list" where
  "as_dialog (Click menu n) =
     (if n < length menu \<and> clickable (menu ! n) \<and> truthy (question (menu ! n))
      then [Ask False (the (question (menu ! n))) (menu ! n)] else [])"
| "as_dialog Confirmed = [PressConfirm]"
| "as_dialog Cancelled = [PressCancel]"
| "as_dialog Ended = [Settle]"

text \<open>Events that neither ask anything nor press a button of the dialog.\<close>

definition quiet :: "page_event \<Rightarrow> bool" where
  "quiet e \<longleftrightarrow> list_all leaves_dialog (as_dialog e)"

lemma page_dialog: "dialog (page_run es) = dialog_run (concat (map as_dialog es))"
proof -
  have "dialog (fold page_step es s) = fold dialog_step (concat (map as_dialog es)) (dialog s)" for s
  proof (induction es arbitrary: s)
    case (Cons e es)
    have "dialog (page_step e s) = fold dialog_step (as_dialog e) (dialog s)"
      by (cases e) (auto simp: handleClick_def truthy_def split: option.split)
    with Cons show ?case by simp
  qed simp
  then show ?thesis by (simp add: page_run_def dialog_run_def)
qed

lemma page_asks_text: "list_all has_text (concat (map as_dialog es))"
proof (induction es)
  case (Cons e es)
  have "list_all has_text (as_dialog e)" by (cases e) (auto simp: truthy_def split: option.splits)
  with Cons show ?case by simp
qed simp

definition clicked :: "menu_item \<Rightarrow> page_event \<Rightarrow> bool" where
  "clicked i e \<longleftrightarrow> (\<exists>menu n. e = Click menu n \<and> n < length menu \<and> menu ! n = i \<and> clickable i)"

lemma direct_clicked:
  "i \<in> set (direct (page_run es)) \<Longrightarrow> \<not> truthy (question i) \<and> (\<exists>pre e post. es = pre @ e # post \<and> clicked i e)"
proof (induction es rule: rev_induct)
  case Nil
  then show ?case by (simp add: page_run_def)
next
  case (snoc e es)
  let ?s = "page_run es"
  have step: "page_run (es @ [e]) = page_step e ?s" by (simp add: page_run_def)
  show ?case
  proof (cases "i \<in> set (direct ?s)")
    case True
    then obtain pre e' post where "es = pre @ e' # post" "clicked i e'" "\<not> truthy (question i)" using snoc.IH by blast
    then have "es @ [e] = pre @ e' # (post @ [e]) \<and> clicked i e'" by simp
    with \<open>\<not> truthy (question i)\<close> show ?thesis by blast
  next
    case False
    with snoc.prems have "clicked i e \<and> \<not> truthy (question i)"
      unfolding step by (cases e) (auto simp: handleClick_def clicked_def truthy_def split: if_splits option.splits)
    then show ?thesis by blast
  qed
qed

lemma concat_single_split:
  "\<forall>e\<in>set es. length (f e) \<le> 1 \<Longrightarrow> concat (map f es) = xs @ y # zs \<Longrightarrow>
   \<exists>pre e post. es = pre @ e # post \<and> concat (map f pre) = xs \<and> f e = [y] \<and> concat (map f post) = zs"
proof (induction es arbitrary: xs)
  case (Cons e es)
  show ?case
  proof (cases "f e")
    case Nil
    with Cons.prems Cons.IH [of xs] obtain pre e' post where
      "es = pre @ e' # post" "concat (map f pre) = xs" "f e' = [y]" "concat (map f post) = zs" by auto
    with Nil show ?thesis by (intro exI [of _ "e # pre"] exI [of _ e'] exI [of _ post]) simp
  next
    case (Cons a as)
    with Cons.prems have fe: "f e = [a]" by simp
    show ?thesis
    proof (cases xs)
      case Nil
      with Cons.prems fe show ?thesis by (intro exI [of _ "[]"] exI [of _ e] exI [of _ es]) simp
    next
      case (Cons b bs)
      with Cons.prems fe Cons.IH [of bs] obtain pre e' post where
        "es = pre @ e' # post" "concat (map f pre) = bs" "f e' = [y]" "concat (map f post) = zs" by auto
      with fe Cons Cons.prems show ?thesis by (intro exI [of _ "e # pre"] exI [of _ e'] exI [of _ post]) simp
    qed
  qed
qed simp

text \<open>Whatever was started had been clicked while it was enabled; and if it has a question, confirmed while that was shown.\<close>

lemma performed_clicked:
  assumes "i \<in> performed es"
  shows "\<exists>pre e post. es = pre @ e # post \<and> clicked i e
    \<and> (truthy (question i) \<longrightarrow> (\<exists>mid post'. post = mid @ Confirmed # post' \<and> list_all quiet mid))"
proof (cases "i \<in> set (direct (page_run es))")
  case True
  then show ?thesis using direct_clicked by blast
next
  case False
  with assms have "i \<in> set (started (dialog_run (concat (map as_dialog es))))" by (simp add: performed_def page_dialog)
  from confirmed_first [OF page_asks_text this] obtain xs d m ys zs where
    ask: "concat (map as_dialog es) = xs @ Ask d m i # (ys @ PressConfirm # zs)" and ys: "list_all leaves_dialog ys" by auto
  have single: "length (as_dialog e) \<le> 1" for e by (cases e) simp_all
  from concat_single_split [OF _ ask] single obtain pre e post where es: "es = pre @ e # post" "as_dialog e = [Ask d m i]"
    and rest: "concat (map as_dialog post) = ys @ PressConfirm # zs" by blast
  from concat_single_split [OF _ rest] single obtain mid e' post' where post: "post = mid @ e' # post'"
    "concat (map as_dialog mid) = ys" "as_dialog e' = [PressConfirm]" by blast
  have "clicked i e" using es(2) by (cases e) (auto simp: clicked_def split: if_splits)
  moreover have "e' = Confirmed" using post(3) by (cases e') (auto split: if_splits)
  moreover have "list_all quiet mid" using ys unfolding post(2) [symmetric] by (induction mid) (auto simp: quiet_def)
  ultimately show ?thesis using es post by blast
qed

section \<open>Permissions of the items\<close>

text \<open>The access of a user whose permissions are \<open>items\<close>, with access control on or off.\<close>

definition UserInfoRolesAccessProvider :: "RolesType \<Rightarrow> bool \<Rightarrow> RolesAccess" where
  "UserInfoRolesAccessProvider items rbac = \<lparr>ra_roles = Some (modifyRolesData (Some items)), ra_rbacFlag = rbac\<rparr>"

definition may :: "regexp_engine \<Rightarrow> RolesType \<Rightarrow> bool \<Rightarrow> string \<Rightarrow> permission \<Rightarrow> bool" where
  "may re items rbac c p \<longleftrightarrow> (rbac \<longrightarrow> (case p of (resource, actions, val) \<Rightarrow> role_grants re items c resource actions (Some val)))"

lemma permission_checked:
  assumes "patterns_compile re items"
  shows "check_permission re c (UserInfoRolesAccessProvider items rbac) p = Inr (may re items rbac c p)"
  by (cases p) (simp add: check_permission_def usePermission_def UserInfoRolesAccessProvider_def may_def isPermitted_flat [OF assms])

lemma item_allowed:
  assumes "patterns_compile re items"
  shows "ActionDropdownItem re c (UserInfoRolesAccessProvider items rbac) p f
    = Inr (may re items rbac c p \<or> (\<exists>q. f = Some q \<and> may re items rbac c q))"
  by (auto simp: ActionDropdownItem_def permission_checked [OF assms] split: option.split)

lemma all_allowed:
  assumes "patterns_compile re items"
  shows "all_permitted re (UserInfoRolesAccessProvider items rbac) c a ts = Inr (\<forall>t\<in>set ts. may re items rbac c (topic_permission [a] t))"
  unfolding all_permitted_def
  by (rule js_every_total) (simp add: UserInfoRolesAccessProvider_def may_def topic_permission_def isPermitted_flat [OF assms])

lemma clickable_Dropdown:
  "i \<in> set (Dropdown off items) \<and> clickable i \<longleftrightarrow> \<not> off \<and> i \<in> set items \<and> clickable i"
  by (auto simp: Dropdown_def clickable_def)

text \<open>The click on a shown menu that started an item, with the confirmation after it.\<close>

lemma performed_from_menu:
  assumes "i \<in> performed es" and "\<And>m n. Click m n \<in> set es \<Longrightarrow> shown_menu m"
  obtains pre m n post where "es = pre @ Click m n # post" "shown_menu m" "i \<in> set m" "clickable i"
    "truthy (question i) \<Longrightarrow> \<exists>mid post'. post = mid @ Confirmed # post' \<and> list_all quiet mid"
proof -
  from performed_clicked [OF assms(1)] obtain pre e post where es: "es = pre @ e # post" "clicked i e"
    "truthy (question i) \<longrightarrow> (\<exists>mid post'. post = mid @ Confirmed # post' \<and> list_all quiet mid)" by blast
  from es(2) obtain m n where e: "e = Click m n" "n < length m" "m ! n = i" "clickable i" by (auto simp: clicked_def)
  have "i \<in> set m" using e(2,3) nth_mem by blast
  moreover have "shown_menu m" using assms(2) [of m n] es(1) e(1) by simp
  ultimately show ?thesis using that es e by blast
qed

section \<open>Topics\<close>

lemma topic_row_item:
  assumes "patterns_compile re items"
    and "i \<in> set (topic_row_menu re (UserInfoRolesAccessProvider items rbac) c t internal readOnly deletable policy)"
    and "clickable i"
  shows "\<not> internal \<and> \<not> readOnly \<and> truthy (question i)
    \<and> (onClick i = [useClearTopicMessages c VUndef t] \<and> policy = Some ''DELETE''
         \<and> may re items rbac c (TOPIC, [MESSAGES_DELETE], t)
       \<or> onClick i = [useRecreateTopic c t] \<and> deletable \<and> may re items rbac c (TOPIC, [VIEW, CREATE, Action.DELETE], t)
       \<or> onClick i = [useDeleteTopic c t] \<and> deletable \<and> may re items rbac c (TOPIC, [Action.DELETE], t))"
  using assms(2,3) unfolding topic_row_menu_def clickable_Dropdown [unfolded conj_assoc]
  by (auto simp: clickable_def Dropdown_def item_allowed [OF assms(1)] topic_permission_def truthy_def split: if_splits)

text \<open>
  C22. A topic is changed from the list only by someone who may, and who was asked. Whatever the user clicks while
  the menu of a topic is shown in any state of that topic, every request it starts was clicked and then
  confirmed while its question was shown, on a topic that is not internal in a cluster that is not read-only.
  Messages are cleared only with the policy to delete and the permission for it; a topic is recreated or
  removed only where topics may be deleted, with the permission to delete it (and to create it).
\<close>

theorem topic_changes_are_guarded:
  assumes "patterns_compile re items"
    and "\<forall>m n. Click m n \<in> set es \<longrightarrow> (\<exists>internal readOnly deletable policy.
      m = topic_row_menu re (UserInfoRolesAccessProvider items rbac) c t internal readOnly deletable policy)"
    and "i \<in> performed es"
  shows "\<exists>pre internal readOnly deletable policy n mid post.
    es = pre @ Click (topic_row_menu re (UserInfoRolesAccessProvider items rbac) c t internal readOnly deletable policy) n
           # mid @ Confirmed # post
    \<and> list_all quiet mid \<and> \<not> internal \<and> \<not> readOnly
    \<and> (onClick i = [useClearTopicMessages c VUndef t] \<and> policy = Some ''DELETE''
         \<and> may re items rbac c (TOPIC, [MESSAGES_DELETE], t)
       \<or> onClick i = [useRecreateTopic c t] \<and> deletable \<and> may re items rbac c (TOPIC, [VIEW, CREATE, Action.DELETE], t)
       \<or> onClick i = [useDeleteTopic c t] \<and> deletable \<and> may re items rbac c (TOPIC, [Action.DELETE], t))"
proof -
  from performed_from_menu [OF assms(3), of "\<lambda>m. \<exists>internal readOnly deletable policy.
      m = topic_row_menu re (UserInfoRolesAccessProvider items rbac) c t internal readOnly deletable policy"] assms(2)
  obtain pre m n post internal readOnly deletable policy where es: "es = pre @ Click m n # post"
    and m: "m = topic_row_menu re (UserInfoRolesAccessProvider items rbac) c t internal readOnly deletable policy"
    and i: "i \<in> set m" "clickable i"
    and asked: "truthy (question i) \<Longrightarrow> \<exists>mid post'. post = mid @ Confirmed # post' \<and> list_all quiet mid" by metis
  note guard = topic_row_item [OF assms(1) i(1) [unfolded m] i(2)]
  with asked obtain mid post' where "post = mid @ Confirmed # post'" "list_all quiet mid" by blast
  with es m have "es = pre @ Click (topic_row_menu re (UserInfoRolesAccessProvider items rbac) c t internal readOnly deletable policy) n
      # mid @ Confirmed # post'" by simp
  with guard \<open>list_all quiet mid\<close> show ?thesis by blast
qed

definition topic_admin :: RolesType where
  "topic_admin = [\<lparr>up_clusters = [''local''], up_resource = TOPIC, up_value = None,
     up_actions = [VIEW, CREATE, Action.DELETE, MESSAGES_READ, MESSAGES_DELETE]\<rparr>]"

lemma topic_admin_compiles: "patterns_compile re topic_admin"
  by (simp add: patterns_compile_def topic_admin_def)

lemma topic_admin_may:
  assumes "set actions \<subseteq> {VIEW, CREATE, Action.DELETE, MESSAGES_READ, MESSAGES_DELETE}" and "t \<noteq> []"
  shows "may re topic_admin rbac ''local'' (TOPIC, actions, t)"
  using assms by (auto simp: may_def role_grants_def topic_admin_def valueMatches_def)

lemma topic_admin_allowed:
  assumes "set actions \<subseteq> {VIEW, CREATE, Action.DELETE, MESSAGES_READ, MESSAGES_DELETE}" and "t \<noteq> []"
  shows "ActionDropdownItem re ''local'' (UserInfoRolesAccessProvider topic_admin rbac) (TOPIC, actions, t) f = Inr True"
  using topic_admin_may [OF assms] by (simp add: item_allowed [OF topic_admin_compiles])

theorem topic_changes_are_guarded_witness:
  "let m = topic_row_menu (\<lambda>r. None) (UserInfoRolesAccessProvider topic_admin True) ''local'' ''orders'' False False True None
   in \<exists>i. i \<in> performed [Click m 2, Confirmed] \<and> onClick i = [useDeleteTopic ''local'' ''orders'']
     \<and> may (\<lambda>r. None) topic_admin True ''local'' (TOPIC, [Action.DELETE], ''orders'')"
proof -
  let ?m = "topic_row_menu (\<lambda>r. None) (UserInfoRolesAccessProvider topic_admin True) ''local'' ''orders'' False False True None"
  have del: "clickable (?m ! 2)" "onClick (?m ! 2) = [useDeleteTopic ''local'' ''orders'']" "truthy (question (?m ! 2))" "2 < length ?m"
    by (simp_all add: topic_row_menu_def Dropdown_def clickable_def topic_permission_def topic_admin_allowed truthy_def)
  then have run: "?m ! 2 \<in> performed [Click ?m 2, Confirmed]"
    by (auto simp: performed_def page_run_def handleClick_def dialog_defs ConfirmContextProvider_def truthy_def split: option.split)
  have menus: "\<forall>m n. Click m n \<in> set [Click ?m 2, Confirmed] \<longrightarrow> (\<exists>internal readOnly deletable policy.
      m = topic_row_menu (\<lambda>r. None) (UserInfoRolesAccessProvider topic_admin True) ''local'' ''orders'' internal readOnly deletable policy)"
    by auto
  from topic_changes_are_guarded [OF topic_admin_compiles menus run]
  have "may (\<lambda>r. None) topic_admin True ''local'' (TOPIC, [Action.DELETE], ''orders'')"
    unfolding del(2) by (auto simp: mutation_hook_defs)
  with run del(2) show ?thesis unfolding Let_def by blast
qed

text \<open>
  Where topics may not be deleted, the client offers it all the same. With a cluster that does not allow
  topics to be deleted, the list disables both items that delete a topic (removing and recreating it), and the page of the topic
  disables the one that removes it; but recreating is enabled on that page, and so is the button that
  deletes selected topics, for everyone with the permissions.
\<close>

theorem deletion_flag_not_everywhere:
  assumes "patterns_compile re items" and "may re items rbac c (TOPIC, [MESSAGES_READ, CREATE, Action.DELETE], t)"
    and "may re items rbac c (TOPIC, [Action.DELETE], t)"
  shows "let ctx = UserInfoRolesAccessProvider items rbac;
      row = topic_row_menu re ctx c t False False False policy;
      page = topic_page_menu re ctx c t False False False policy
    in \<not> clickable (row ! 1) \<and> \<not> clickable (row ! 2) \<and> \<not> clickable (page ! 3)
      \<and> clickable (page ! 2) \<and> onClick (page ! 2) = [useRecreateTopic c t]
      \<and> clickable (BatchActionsbar re ctx c [t] ! 0) \<and> onClick (BatchActionsbar re ctx c [t] ! 0) = [useDeleteTopic c t]"
  using assms(2,3)
  by (simp add: topic_row_menu_def topic_page_menu_def BatchActionsbar_def Dropdown_def clickable_def
      item_allowed [OF assms(1)] all_allowed [OF assms(1)] topic_permission_def Let_def)

theorem deletion_flag_not_everywhere_witness:
  "clickable (BatchActionsbar (\<lambda>r. None) (UserInfoRolesAccessProvider topic_admin True) ''local'' [''orders''] ! 0)"
proof -
  have "may (\<lambda>r. None) topic_admin True ''local'' (TOPIC, [MESSAGES_READ, CREATE, Action.DELETE], ''orders'')"
    "may (\<lambda>r. None) topic_admin True ''local'' (TOPIC, [Action.DELETE], ''orders'')" by (simp_all add: topic_admin_may)
  from deletion_flag_not_everywhere [OF topic_admin_compiles this] show ?thesis by (simp add: Let_def)
qed

text \<open>
  The buttons for selected topics send one request for each of them, after the question, and only if the
  user may do it to every one.
\<close>

theorem batch_changes_are_guarded:
  assumes "patterns_compile re items"
    and "\<forall>m n. Click m n \<in> set es \<longrightarrow> (\<exists>ts. m = BatchActionsbar re (UserInfoRolesAccessProvider items rbac) c ts)"
    and "i \<in> performed es" and "onClick i \<noteq> []"
  shows "\<exists>pre ts n mid post.
    es = pre @ Click (BatchActionsbar re (UserInfoRolesAccessProvider items rbac) c ts) n # mid @ Confirmed # post
    \<and> list_all quiet mid \<and> ts \<noteq> []
    \<and> (onClick i = map (useDeleteTopic c) ts \<and> (\<forall>t\<in>set ts. may re items rbac c (TOPIC, [Action.DELETE], t))
       \<or> onClick i = map (useClearTopicMessages c VUndef) ts \<and> (\<forall>t\<in>set ts. may re items rbac c (TOPIC, [MESSAGES_DELETE], t)))"
proof -
  from performed_from_menu [OF assms(3), of "\<lambda>m. \<exists>ts. m = BatchActionsbar re (UserInfoRolesAccessProvider items rbac) c ts"] assms(2)
  obtain pre m n post ts where es: "es = pre @ Click m n # post"
    and m: "m = BatchActionsbar re (UserInfoRolesAccessProvider items rbac) c ts" and i: "i \<in> set m" "clickable i"
    and asked: "truthy (question i) \<Longrightarrow> \<exists>mid post'. post = mid @ Confirmed # post' \<and> list_all quiet mid" by metis
  have guard: "truthy (question i) \<and> ts \<noteq> []
    \<and> (onClick i = map (useDeleteTopic c) ts \<and> (\<forall>t\<in>set ts. may re items rbac c (TOPIC, [Action.DELETE], t))
       \<or> onClick i = map (useClearTopicMessages c VUndef) ts \<and> (\<forall>t\<in>set ts. may re items rbac c (TOPIC, [MESSAGES_DELETE], t)))"
    using i assms(4) unfolding m BatchActionsbar_def
    by (auto simp: clickable_def all_allowed [OF assms(1)] topic_permission_def truthy_def)
  with asked obtain mid post' where "post = mid @ Confirmed # post'" "list_all quiet mid" by blast
  with es m have "es = pre @ Click (BatchActionsbar re (UserInfoRolesAccessProvider items rbac) c ts) n # mid @ Confirmed # post'" by simp
  with guard \<open>list_all quiet mid\<close> show ?thesis by blast
qed

theorem batch_changes_are_guarded_witness:
  "let m = BatchActionsbar (\<lambda>r. None) (UserInfoRolesAccessProvider topic_admin True) ''local'' [''a'', ''b'']
   in \<exists>i. i \<in> performed [Click m 2, Confirmed]
     \<and> onClick i = [useClearTopicMessages ''local'' VUndef ''a'', useClearTopicMessages ''local'' VUndef ''b'']"
proof -
  let ?m = "BatchActionsbar (\<lambda>r. None) (UserInfoRolesAccessProvider topic_admin True) ''local'' [''a'', ''b'']"
  have item: "clickable (?m ! 2)" "truthy (question (?m ! 2))" "2 < length ?m"
    "onClick (?m ! 2) = [useClearTopicMessages ''local'' VUndef ''a'', useClearTopicMessages ''local'' VUndef ''b'']"
    using topic_admin_may [of "[MESSAGES_DELETE]"]
    by (simp_all add: BatchActionsbar_def clickable_def all_allowed [OF topic_admin_compiles] topic_permission_def truthy_def)
  then have run: "?m ! 2 \<in> performed [Click ?m 2, Confirmed]"
    by (auto simp: performed_def page_run_def handleClick_def dialog_defs ConfirmContextProvider_def truthy_def split: option.split)
  have "onClick (?m ! 2) \<noteq> []" unfolding item by simp
  moreover have "\<forall>m n. Click m n \<in> set [Click ?m 2, Confirmed] \<longrightarrow>
      (\<exists>ts. m = BatchActionsbar (\<lambda>r. None) (UserInfoRolesAccessProvider topic_admin True) ''local'' ts)" by auto
  ultimately have "\<exists>pre ts n mid post. [Click ?m 2, Confirmed]
      = pre @ Click (BatchActionsbar (\<lambda>r. None) (UserInfoRolesAccessProvider topic_admin True) ''local'' ts) n # mid @ Confirmed # post"
    using batch_changes_are_guarded [OF topic_admin_compiles _ run] by blast
  with run item(4) show ?thesis unfolding Let_def by blast
qed

section \<open>Connectors\<close>

text \<open>The menus that may be shown for a connector in a state.\<close>

definition shown_connector :: "regexp_engine \<Rightarrow> RolesAccess \<Rightarrow> string \<Rightarrow> string \<Rightarrow> string \<Rightarrow> string option \<Rightarrow> menu_item list \<Rightarrow> bool" where
  "shown_connector re ctx c connect name state m \<longleftrightarrow>
     (\<exists>topic s isMutating isReadOnly. state = Some s \<and> m = connector_row_menu re ctx c connect name topic s isMutating isReadOnly)
     \<or> (\<exists>isMutating. m = connector_page_menu re ctx c connect name state isMutating)"

text \<open>The permission for the connector or for its connect cluster.\<close>

definition may_connector :: "regexp_engine \<Rightarrow> RolesType \<Rightarrow> bool \<Rightarrow> string \<Rightarrow> string \<Rightarrow> string \<Rightarrow> Action \<Rightarrow> bool" where
  "may_connector re items rbac c connect name a \<longleftrightarrow>
     may re items rbac c (CONNECTOR, [a], connect @ ''/'' @ name) \<or> may re items rbac c (CONNECT, [a], connect)"

definition state_allows :: "string option \<Rightarrow> string \<Rightarrow> bool" where
  "state_allows state action \<longleftrightarrow>
     (action \<in> {''PAUSE'', ''STOP''} \<longrightarrow> state = Some ''RUNNING'')
     \<and> (action = ''RESUME'' \<longrightarrow> state \<in> {Some ''PAUSED'', Some ''STOPPED''})
     \<and> action \<in> {''RESTART'', ''RESTART_ALL_TASKS'', ''RESTART_FAILED_TASKS'', ''PAUSE'', ''RESUME'', ''STOP''}"

lemma connector_item_allowed:
  assumes "patterns_compile re items"
  shows "connector_allowed re (UserInfoRolesAccessProvider items rbac) c connect name a = Inr (may_connector re items rbac c connect name a)"
  by (simp add: connector_allowed_def item_allowed [OF assms] may_connector_def)

text \<open>What a change of a connector needs.\<close>

definition connector_guard ::
  "regexp_engine \<Rightarrow> RolesType \<Rightarrow> bool \<Rightarrow> string \<Rightarrow> string \<Rightarrow> string \<Rightarrow> string option \<Rightarrow> menu_item \<Rightarrow> bool" where
  "connector_guard re items rbac c connect name state i \<longleftrightarrow>
     (\<exists>topic action. onClick i = [useUpdateConnectorState c connect name topic (VStr action)]
        \<and> state_allows state action \<and> may_connector re items rbac c connect name OPERATE)
     \<or> (onClick i = [useResetConnectorOffsets c connect name] \<and> truthy (question i)
        \<and> state = Some ''STOPPED'' \<and> may_connector re items rbac c connect name RESET_OFFSETS)
     \<or> (onClick i = [useDeleteConnector c connect name] \<and> truthy (question i)
        \<and> may_connector re items rbac c connect name Action.DELETE)"

text \<open>A guard for the items as they are listed, before the permissions are read.\<close>

definition connector_item_ok :: "regexp_engine \<Rightarrow> RolesAccess \<Rightarrow> string \<Rightarrow> string \<Rightarrow> string \<Rightarrow> string option \<Rightarrow> menu_item \<Rightarrow> bool" where
  "connector_item_ok re ctx c connect name state i \<longleftrightarrow>
     (\<exists>topic action. onClick i = [useUpdateConnectorState c connect name topic (VStr action)]
        \<and> state_allows state action \<and> allowed i = connector_allowed re ctx c connect name OPERATE)
     \<or> (onClick i = [useResetConnectorOffsets c connect name] \<and> truthy (question i)
        \<and> (disabled i \<or> state = Some ''STOPPED'') \<and> allowed i = connector_allowed re ctx c connect name RESET_OFFSETS)
     \<or> (onClick i = [useDeleteConnector c connect name] \<and> truthy (question i)
        \<and> allowed i = connector_allowed re ctx c connect name Action.DELETE)"

lemma listed_state_item:
  "state_allows state action \<Longrightarrow>
   connector_item_ok re ctx c connect name state (state_item re ctx c connect name topic off cap action)"
  unfolding connector_item_ok_def by (intro disjI1 exI [of _ topic] exI [of _ action]) (simp add: state_item_def)

lemma listed_other_item:
  "truthy q \<Longrightarrow> off \<or> state = Some ''STOPPED'' \<Longrightarrow> connector_item_ok re ctx c connect name state
     \<lparr>label = l, disabled = off, allowed = connector_allowed re ctx c connect name RESET_OFFSETS, question = q,
      onClick = [useResetConnectorOffsets c connect name], leads_to = next_page\<rparr>"
  "truthy q \<Longrightarrow> connector_item_ok re ctx c connect name state
     \<lparr>label = l, disabled = off, allowed = connector_allowed re ctx c connect name Action.DELETE, question = q,
      onClick = [useDeleteConnector c connect name], leads_to = next_page\<rparr>"
  by (simp_all add: connector_item_ok_def)

lemma listed_row:
  "list_all (connector_item_ok re ctx c connect name (Some s)) (connector_row_menu re ctx c connect name topic s isMutating isReadOnly)"
  unfolding connector_row_menu_def Let_def
  by (simp add: listed_state_item listed_other_item state_allows_def truthy_def)

lemma listed_page:
  "i \<in> set (connector_page_menu re ctx c connect name state isMutating) \<Longrightarrow> \<not> disabled i \<Longrightarrow>
   connector_item_ok re ctx c connect name state i"
proof -
  have "list_all (\<lambda>i. \<not> disabled i \<longrightarrow> connector_item_ok re ctx c connect name state i)
      (connector_page_menu re ctx c connect name state isMutating)"
    unfolding connector_page_menu_def Let_def Dropdown_def
    by (simp add: listed_state_item listed_other_item state_allows_def truthy_def)
  then show "i \<in> set (connector_page_menu re ctx c connect name state isMutating) \<Longrightarrow> \<not> disabled i \<Longrightarrow> ?thesis"
    by (simp add: list_all_iff)
qed

lemma connector_item:
  assumes "patterns_compile re items" and "shown_connector re (UserInfoRolesAccessProvider items rbac) c connect name state m"
    and "i \<in> set m" and "clickable i"
  shows "connector_guard re items rbac c connect name state i"
proof -
  have "\<not> disabled i" using assms(4) by (simp add: clickable_def)
  then have "connector_item_ok re (UserInfoRolesAccessProvider items rbac) c connect name state i"
    using assms(2,3) listed_row listed_page unfolding shown_connector_def list_all_iff by blast
  then show ?thesis using assms(4)
    by (auto simp: connector_item_ok_def connector_guard_def clickable_def connector_item_allowed [OF assms(1)])
qed

text \<open>
  Every change of a connector is permitted and fits its state. Whatever is clicked while menus of a connector
  are shown in any of its states, a request is started only with the permission for the connector
  or for its connect cluster: pausing and stopping only while it runs, resuming only while it is paused or stopped,
  and resetting its offsets only while it is stopped. Resetting and deleting are confirmed first;
  changes of the state are not.
\<close>

theorem connector_changes_are_guarded:
  assumes "patterns_compile re items"
    and "\<forall>m n. Click m n \<in> set es \<longrightarrow> (\<exists>state. shown_connector re (UserInfoRolesAccessProvider items rbac) c connect name state m)"
    and "i \<in> performed es"
  shows "\<exists>pre m n post state. es = pre @ Click m n # post \<and> i \<in> set m
    \<and> shown_connector re (UserInfoRolesAccessProvider items rbac) c connect name state m
    \<and> connector_guard re items rbac c connect name state i
    \<and> (truthy (question i) \<longrightarrow> (\<exists>mid post'. post = mid @ Confirmed # post' \<and> list_all quiet mid))"
proof -
  from performed_from_menu [OF assms(3),
      of "\<lambda>m. \<exists>state. shown_connector re (UserInfoRolesAccessProvider items rbac) c connect name state m"] assms(2)
  obtain pre m n post state where "es = pre @ Click m n # post" "i \<in> set m" "clickable i"
    and state: "shown_connector re (UserInfoRolesAccessProvider items rbac) c connect name state m"
    and "truthy (question i) \<Longrightarrow> \<exists>mid post'. post = mid @ Confirmed # post' \<and> list_all quiet mid" by metis
  then show ?thesis using connector_item [OF assms(1) state] by blast
qed

theorem connector_changes_are_guarded_witness:
  "let m = connector_page_menu (\<lambda>r. None) (UserInfoRolesAccessProvider [] False) ''local'' ''connect'' ''sink'' (Some ''STOPPED'') False;
     i = m ! 4 in i \<in> performed [Click m 4, Confirmed] \<and> onClick i = [useResetConnectorOffsets ''local'' ''connect'' ''sink'']
       \<and> (\<exists>state. connector_guard (\<lambda>r. None) [] False ''local'' ''connect'' ''sink'' state i)"
proof -
  let ?m = "connector_page_menu (\<lambda>r. None) (UserInfoRolesAccessProvider [] False) ''local'' ''connect'' ''sink'' (Some ''STOPPED'') False"
  have compile: "patterns_compile (\<lambda>r. None) []" by (simp add: patterns_compile_def)
  have item: "clickable (?m ! 4)" "truthy (question (?m ! 4))" "4 < length ?m"
    "onClick (?m ! 4) = [useResetConnectorOffsets ''local'' ''connect'' ''sink'']"
    by (simp_all add: connector_page_menu_def Dropdown_def Let_def clickable_def connector_item_allowed [OF compile]
        may_connector_def may_def truthy_def)
  then have run: "?m ! 4 \<in> performed [Click ?m 4, Confirmed]"
    by (auto simp: performed_def page_run_def handleClick_def dialog_defs ConfirmContextProvider_def truthy_def split: option.split)
  have "\<forall>m n. Click m n \<in> set [Click ?m 4, Confirmed] \<longrightarrow>
      (\<exists>state. shown_connector (\<lambda>r. None) (UserInfoRolesAccessProvider [] False) ''local'' ''connect'' ''sink'' state m)"
    by (auto simp: shown_connector_def)
  from connector_changes_are_guarded [OF compile this run] obtain state where
    guard: "connector_guard (\<lambda>r. None) [] False ''local'' ''connect'' ''sink'' state (?m ! 4)" by (elim exE conjE)
  show ?thesis unfolding Let_def by (intro conjI exI [of _ state] run item(4) guard)
qed

end
