(* ===== verification/TopicCopy.thy ===== *)
theory TopicCopy
  imports TopicForm SearchParams Paths
begin

text \<open>
  Copying a topic: the link that the bar for selected topics makes from the topic
  (\<open>components/Topics/List/BatchActionsBar.tsx\<close>), the page that reads it (\<open>components/Topics/New/New.tsx\<close>), the
  form it shows (\<open>components/Topics/shared/Form/TopicForm.tsx\<close>), and the request that the form sends.
\<close>

section \<open>Reading a query string\<close>

text \<open>
  The standard parser of \<open>URLSearchParams\<close>: a plus is a space, and a percent sign that is not followed by two
  hexadecimal digits stays. Strings are their bytes.
\<close>

fun form_decode :: "string \<Rightarrow> string" where
  "form_decode [] = []"
| "form_decode (c # s) =
     (if c = CHR ''+'' then CHR '' '' # form_decode s
      else if c = CHR ''%'' then
        (case s of
           h # l # t \<Rightarrow>
             (case (hex_val h, hex_val l) of
                (Some a, Some b) \<Rightarrow> char_of (16 * a + b) # form_decode t
              | _ \<Rightarrow> c # form_decode s)
         | _ \<Rightarrow> c # form_decode s)
      else c # form_decode s)"

definition parse_pair :: "string \<Rightarrow> string \<times> string" where
  "parse_pair w =
     (form_decode (takeWhile (\<lambda>c. c \<noteq> CHR ''='') w), form_decode (tl (dropWhile (\<lambda>c. c \<noteq> CHR ''='') w)))"

definition sp_parse :: "string \<Rightarrow> sparams" where
  "sp_parse s =
     (let q = (case s of c # t \<Rightarrow> if c = CHR ''?'' then t else s | [] \<Rightarrow> [])
      in map parse_pair (filter (\<lambda>w. w \<noteq> []) (js_split ''&'' q)))"

section \<open>The link\<close>

fun js_true :: "jsval \<Rightarrow> bool" where
  "js_true VUndef = False"
| "js_true VNull = False"
| "js_true (VBool b) = b"
| "js_true (VNum n) = (n \<noteq> NaN \<and> n \<noteq> Dec 0 0)"
| "js_true (VStr s) = (s \<noteq> [])"
| "js_true v = True"

definition copied_member :: "string \<times> jsval \<Rightarrow> bool" where
  "copied_member m \<longleftrightarrow> js_true (snd m) \<and> fst m \<noteq> ''partitions'' \<and> fst m \<noteq> ''internal''"

definition getCopyTopicPath :: "args list \<Rightarrow> string \<times> string" where
  "getCopyTopicPath rows =
     (case rows of
        [] \<Rightarrow> ([], [])
      | topic # _ \<Rightarrow>
          (clusterTopicCopyRelativePath,
           sp_toString (map (\<lambda>(key, val). (key, js_text toISOString val)) (filter copied_member topic))))"

section \<open>The page\<close>

text \<open>The properties the page passes to the form.\<close>

record topic_form_props =
  tf_topicName :: string
  tf_cleanUpPolicy :: string
  tf_partitionCount :: js_num
  tf_replicationFactor :: js_num
  tf_inSyncReplicas :: js_num

definition New :: "string \<Rightarrow> topic_form_props" where
  "New search =
     (let params = sp_parse search
      in \<lparr>tf_topicName = or_default (sp_get params ''name'') [],
          tf_cleanUpPolicy = or_default (sp_get params ''cleanUpPolicy'') ''Delete'',
          tf_partitionCount = js_Number (or_default (sp_get params ''partitionCount'') ''1''),
          tf_replicationFactor = js_Number (or_default (sp_get params ''replicationFactor'') ''1''),
          tf_inSyncReplicas = js_Number (or_default (sp_get params ''inSyncReplicas'') ''1'')\<rparr>)"

text \<open>
  The data of the form when it is shown for a new topic: the default of each input, or its
  empty text. The policy that the select shows is computed from the properties.
\<close>

definition TopicForm_data :: "topic_form_props \<Rightarrow> args" where
  "TopicForm_data props =
     [(''name'', VStr (tf_topicName props)), (''partitions'', VStr ''1''),
      (''cleanupPolicy'', VStr (hd CleanupPolicyOptions)), (''minInSyncReplicas'', VStr []),
      (''replicationFactor'', VStr []), (''retentionMs'', VStr []), (''retentionBytes'', VNum (Dec (- 1) 0)),
      (''maxMessageBytes'', VStr []), (''customParams'', VArr [])]"

definition shown_policy :: "topic_form_props \<Rightarrow> string" where
  "shown_policy props = or_default (getCleanUpPolicyValue (Some (tf_cleanUpPolicy props))) (hd CleanupPolicyOptions)"

text \<open>The form is submitted only after a change, here of the name; the data is validated first.\<close>

definition renamed :: "string \<Rightarrow> args \<Rightarrow> args" where
  "renamed n d = AList.update ''name'' (VStr n) d"

definition submit_new :: "api_configuration \<Rightarrow> string \<Rightarrow> args \<Rightarrow> (api_error + request) option" where
  "submit_new conf c d = map_option (useCreateTopicMutation conf c) (topicFormValidationSchema d)"

section \<open>Links are read back\<close>

lemma form_decode_char: "form_decode (form_encode_char c @ s) = c # form_decode s"
proof -
  have "form_plain c \<Longrightarrow> c \<noteq> CHR ''+'' \<and> c \<noteq> CHR ''%''" by (auto simp: form_plain_def)
  then show ?thesis using of_char_nibbles [of c]
    by (auto simp: form_encode_char_def Let_def hex_digit_def [symmetric])
qed

lemma form_decode_encode: "form_decode (form_encode s) = s"
  by (induction s) (simp_all add: form_encode_def form_decode_char)

lemma form_encode_chars: "c \<in> set (form_encode s) \<Longrightarrow> c \<noteq> CHR ''&'' \<and> c \<noteq> CHR ''='' \<and> c \<noteq> CHR ''?''"
proof -
  have "list_all (\<lambda>n. hex_digit n \<notin> set ''&=?'') [0..<16]" by code_simp
  then have hex: "n < 16 \<Longrightarrow> hex_digit n \<notin> set ''&=?''" for n by (simp add: list_all_iff)
  have "c \<notin> set ''&=?''" if "c \<in> set (form_encode_char d)" for d
    using that hex of_char_nibbles [of d]
    by (auto simp: form_encode_char_def Let_def hex_digit_def [symmetric] form_plain_def split: if_splits)
  then show "c \<in> set (form_encode s) \<Longrightarrow> ?thesis" by (auto simp: form_encode_def)
qed

lemma parse_pair_text: "parse_pair (form_encode k @ ''='' @ form_encode v) = (k, v)"
proof -
  have "takeWhile (\<lambda>c. c \<noteq> CHR ''='') (form_encode k @ ''='' @ form_encode v) = form_encode k"
    "dropWhile (\<lambda>c. c \<noteq> CHR ''='') (form_encode k @ ''='' @ form_encode v) = ''='' @ form_encode v"
    using form_encode_chars by (force simp: takeWhile_append dropWhile_append)+
  then show ?thesis by (simp add: parse_pair_def form_decode_encode)
qed

lemma join_chars: "set (join sep ws) \<subseteq> set sep \<union> \<Union> (set ` set ws)"
  by (induction sep ws rule: join.induct) auto

lemma sp_parse_toString: "sp_parse (sp_toString ps) = ps"
proof (cases ps)
  case Nil
  then show ?thesis by (simp add: sp_parse_def sp_toString_def)
next
  case (Cons q qs)
  let ?ws = "map (\<lambda>(k, v). form_encode k @ ''='' @ form_encode v) ps"
  have chars: "CHR ''&'' \<notin> set w \<and> CHR ''?'' \<notin> set w \<and> w \<noteq> []" if "w \<in> set ?ws" for w
    using that form_encode_chars by fastforce
  then have split: "js_split ''&'' (join ''&'' ?ws) = ?ws" using Cons by (intro split_join) auto
  have "CHR ''?'' \<notin> \<Union> (set ` set ?ws)" using chars by blast
  moreover have "CHR ''?'' \<notin> set ''&''" by simp
  ultimately have "CHR ''?'' \<notin> set (sp_toString ps)" unfolding sp_toString_def using join_chars by blast
  then have start: "(case sp_toString ps of c # t \<Rightarrow> if c = CHR ''?'' then t else sp_toString ps | [] \<Rightarrow> []) = sp_toString ps"
    by (cases "sp_toString ps") (simp_all only: list.case, auto)
  have "filter (\<lambda>w. w \<noteq> []) ?ws = ?ws" using chars by (simp add: filter_id_conv)
  moreover have "map parse_pair ?ws = ps" by (induction ps) (auto simp: parse_pair_text [simplified])
  ultimately show ?thesis unfolding sp_parse_def Let_def start by (simp only: sp_toString_def split)
qed

interpretation query_strings: codec sp_toString sp_parse "\<lambda>ps. ps" "\<lambda>_. True"
  by unfold_locales (simp_all add: sp_parse_toString)

section \<open>The link of a topic\<close>

lemma copied_params:
  assumes "distinct (map fst topic)"
  shows "sp_get (sp_parse (snd (getCopyTopicPath [topic]))) k =
    (case map_of topic k of
       Some v \<Rightarrow> if copied_member (k, v) then Some (js_text toISOString v) else None
     | None \<Rightarrow> None)"
proof -
  have "map_of (map (\<lambda>(key, val). (key, js_text toISOString val)) (filter copied_member topic)) k =
    (case map_of topic k of
       Some v \<Rightarrow> if copied_member (k, v) then Some (js_text toISOString v) else None
     | None \<Rightarrow> None)"
    using assms
  proof (induction topic)
    case (Cons m topic)
    then have "map_of topic (fst m) = None" by (simp add: map_of_eq_None_iff)
    with Cons show ?case by (cases m) (auto split: option.split)
  qed simp
  then show ?thesis by (simp add: getCopyTopicPath_def sp_parse_toString)
qed

text \<open>The request of the form for a new topic when only its name was changed.\<close>

lemma blank_form_valid:
  assumes "n \<noteq> []" and "length n \<le> 249" and "TOPIC_NAME_VALIDATION_PATTERN n"
  shows "topicFormValidationSchema (renamed n (TopicForm_data props)) = Some
    [(''name'', VStr n), (''partitions'', VNum (Dec 1 0)), (''replicationFactor'', VStr []), (''minInSyncReplicas'', VStr []),
     (''cleanupPolicy'', VStr ''delete''), (''retentionMs'', VStr []), (''retentionBytes'', VNum (Dec (- 1) 0)),
     (''maxMessageBytes'', VStr []), (''customParams'', VArr [])]"
proof -
  have one: "required_number (num_between 1 2147483647) (VStr ''1'') = Some (VNum (Dec 1 0))" by code_simp
  show ?thesis using assms
    by (simp add: topicFormValidationSchema_def topic_form_fields_def renamed_def TopicForm_data_def CleanupPolicyOptions_def
        arg_def get_prop_def required_string_def yup_string_def yup_number_def custom_params_def one)
qed

lemma blank_form_body:
  "\<exists>r. useCreateTopicMutation conf c
     [(''name'', VStr n), (''partitions'', VNum (Dec 1 0)), (''replicationFactor'', VStr []), (''minInSyncReplicas'', VStr []),
      (''cleanupPolicy'', VStr ''delete''), (''retentionMs'', VStr []), (''retentionBytes'', VNum (Dec (- 1) 0)),
      (''maxMessageBytes'', VStr []), (''customParams'', VArr [])] = Inr r
   \<and> rq_body r = JsonText (JObj [(''name'', JStr n), (''partitions'', JNum (Dec 1 0)),
       (''configs'', JObj [(''cleanup.policy'', JStr ''delete'')])])"
  by (simp add: useCreateTopicMutation_def formatTopicCreation_def arg_def get_prop_def to_string_def nullish_def
      custom_configs_def obj_spread_def build_request_def createTopic_def missing_param_def request_body_def createFetchParams_def
      Let_def TopicCreation_model_def)

lemma policies_read:
  "getCleanUpPolicyValue (Some ''DELETE'') = Some ''delete''"
  "getCleanUpPolicyValue (Some ''COMPACT'') = Some ''compact''"
  "getCleanUpPolicyValue (Some ''COMPACT_DELETE'') = Some ''compact,delete''"
  by code_simp+

text \<open>
  A copy of a topic takes over nothing but what the user types. The link made for a selected topic is read back by the
  page, which shows the clean-up policy of that topic and computes its number of partitions; but after
  the user has entered a name, the request that creates the copy has one partition and
  the policy to delete, whatever the topic had. So a compacted topic is shown as compacted and its copy deletes.
\<close>

theorem copy_takes_over_nothing:
  assumes "distinct (map fst topic)" and "map_of topic ''cleanUpPolicy'' = Some (VStr p)"
    and "(p, shown) \<in> {(''DELETE'', ''delete''), (''COMPACT'', ''compact''), (''COMPACT_DELETE'', ''compact,delete'')}"
    and "map_of topic ''partitionCount'' = Some (VNum (Dec (int k) 0))" and "0 < k"
    and "n \<noteq> []" and "length n \<le> 249" and "TOPIC_NAME_VALIDATION_PATTERN n"
  shows "let props = New (snd (getCopyTopicPath [topic]))
    in shown_policy props = shown \<and> tf_partitionCount props = Dec (int k) 0
      \<and> (\<exists>r. submit_new conf c (renamed n (TopicForm_data props)) = Some (Inr r)
          \<and> rq_body r = JsonText (JObj [(''name'', JStr n), (''partitions'', JNum (Dec 1 0)),
              (''configs'', JObj [(''cleanup.policy'', JStr ''delete'')])]))"
proof -
  let ?props = "New (snd (getCopyTopicPath [topic]))"
  note read = copied_params [OF assms(1)]
  have "p \<noteq> []" using assms(3) by auto
  then have "tf_cleanUpPolicy ?props = p"
    by (simp add: New_def Let_def read assms(2) copied_member_def)
  then have "shown_policy ?props = or_default (getCleanUpPolicyValue (Some p)) ''delete''"
    by (simp add: shown_policy_def CleanupPolicyOptions_def)
  moreover have "or_default (getCleanUpPolicyValue (Some p)) ''delete'' = shown"
    using assms(3) policies_read by auto
  moreover have "tf_partitionCount ?props = Dec (int k) 0"
    using assms(4,5) show_nat_nonempty [of k]
    by (simp add: New_def Let_def read copied_member_def show_int_def)
  moreover have "\<exists>r. submit_new conf c (renamed n (TopicForm_data ?props)) = Some (Inr r)
          \<and> rq_body r = JsonText (JObj [(''name'', JStr n), (''partitions'', JNum (Dec 1 0)),
              (''configs'', JObj [(''cleanup.policy'', JStr ''delete'')])])"
    using blank_form_body [of conf c n] by (simp add: submit_new_def blank_form_valid [OF assms(6-8)])
  ultimately show ?thesis by (simp add: Let_def)
qed

theorem copy_takes_over_nothing_witness:
  "let props = New (snd (getCopyTopicPath [[(''name'', VStr ''orders''), (''partitionCount'', VNum (Dec 12 0)),
      (''cleanUpPolicy'', VStr ''COMPACT'')]]))
   in shown_policy props = ''compact'' \<and> tf_partitionCount props = Dec 12 0"
  using copy_takes_over_nothing [of "[(''name'', VStr ''orders''), (''partitionCount'', VNum (Dec 12 0)),
      (''cleanUpPolicy'', VStr ''COMPACT'')]" "''COMPACT''" "''compact''" 12 "''copy''"]
  by (simp add: Let_def TOPIC_NAME_VALIDATION_PATTERN_def is_digit_def)

end
