(* ===== verification/JsonText.thy ===== *)
theory JsonText
  imports Json
begin

text \<open>
  JSON as text: \<open>JSON.parse\<close>, and \<open>JSON.stringify\<close> with and without indentation. Strings are the bytes of their
  UTF-8 form. The parser has fuel, which its caller sets to more than twice the length of the text: more fuel
  never changes the result. Members are kept in the order of the text, and of
  members with the same name the last one wins.
\<close>

section \<open>Parsing\<close>

definition is_json_space :: "char \<Rightarrow> bool" where
  "is_json_space c \<longleftrightarrow> (of_char c :: nat) \<in> {9, 10, 13, 32}"

abbreviation skip :: "string \<Rightarrow> string" where
  "skip s \<equiv> dropWhile is_json_space s"

definition hex_digit_val :: "char \<Rightarrow> nat option" where
  "hex_digit_val c =
     (let n = of_char c :: nat
      in if 48 \<le> n \<and> n \<le> 57 then Some (n - 48)
         else if 65 \<le> n \<and> n \<le> 70 then Some (n - 55)
         else if 97 \<le> n \<and> n \<le> 102 then Some (n - 87)
         else None)"

definition hex4 :: "char \<Rightarrow> char \<Rightarrow> char \<Rightarrow> char \<Rightarrow> nat option" where
  "hex4 a b c d =
     (case (hex_digit_val a, hex_digit_val b, hex_digit_val c, hex_digit_val d) of
        (Some w, Some x, Some y, Some z) \<Rightarrow> Some (((w * 16 + x) * 16 + y) * 16 + z)
      | _ \<Rightarrow> None)"

text \<open>The bytes of a code point.\<close>

definition utf8 :: "nat \<Rightarrow> string" where
  "utf8 n =
     (if n < 128 then [char_of n]
      else if n < 2048 then [char_of (192 + n div 64), char_of (128 + n mod 64)]
      else if n < 65536 then [char_of (224 + n div 4096), char_of (128 + n div 64 mod 64), char_of (128 + n mod 64)]
      else [char_of (240 + n div 262144), char_of (128 + n div 4096 mod 64), char_of (128 + n div 64 mod 64), char_of (128 + n mod 64)])"

definition simple_escape :: "char \<Rightarrow> char option" where
  "simple_escape e = map_of
     [(CHR 0x22, CHR 0x22), (CHR 0x5C, CHR 0x5C), (CHR ''/'', CHR ''/''), (CHR ''b'', char_of (8 :: nat)),
      (CHR ''t'', char_of (9 :: nat)), (CHR ''n'', char_of (10 :: nat)), (CHR ''f'', char_of (12 :: nat)),
      (CHR ''r'', char_of (13 :: nat))] e"

text \<open>
  The code point after \<open>\u\<close>, as its bytes, and the number of characters read. A pair of escaped surrogates is one code
  point; a single one is written as if it were a code point.
\<close>

definition low_surrogate :: "string \<Rightarrow> nat option" where
  "low_surrogate r =
     (case r of
        b # u # l1 # l2 # l3 # l4 # q \<Rightarrow>
          (case hex4 l1 l2 l3 l4 of
             Some m \<Rightarrow> if b = CHR 0x5C \<and> u = CHR ''u'' \<and> 56320 \<le> m \<and> m < 57344 then Some m else None
           | None \<Rightarrow> None)
      | _ \<Rightarrow> None)"

definition unicode_escape :: "string \<Rightarrow> (string \<times> nat) option" where
  "unicode_escape t =
     (case t of
        h1 # h2 # h3 # h4 # r \<Rightarrow>
          (case hex4 h1 h2 h3 h4 of
             None \<Rightarrow> None
           | Some n \<Rightarrow>
               (case (if 55296 \<le> n \<and> n < 56320 then low_surrogate r else None) of
                  Some m \<Rightarrow> Some (utf8 (65536 + (n - 55296) * 1024 + (m - 56320)), 10)
                | None \<Rightarrow> Some (utf8 n, 4)))
      | _ \<Rightarrow> None)"

text \<open>The rest of a string after its quotation mark.\<close>

fun parse_string :: "string \<Rightarrow> (string \<times> string) option" where
  "parse_string [] = None"
| "parse_string (c # s) =
     (if c = CHR 0x22 then Some ([], s)
      else if c = CHR 0x5C then
        (case s of
           [] \<Rightarrow> None
         | e # t \<Rightarrow>
             if e = CHR ''u'' then
               (case unicode_escape t of
                  None \<Rightarrow> None
                | Some (x, n) \<Rightarrow> map_option (\<lambda>(w, q). (x @ w, q)) (parse_string (drop n t)))
             else (case simple_escape e of
                     Some x \<Rightarrow> map_option (\<lambda>(w, q). (x # w, q)) (parse_string t)
                   | None \<Rightarrow> None))
      else if (of_char c :: nat) < 32 then None
      else map_option (\<lambda>(w, q). (c # w, q)) (parse_string s))"

text \<open>A number: sign, digits without a leading zero, fraction, exponent.\<close>

definition scaled :: "int \<Rightarrow> nat \<Rightarrow> int \<Rightarrow> js_num" where
  "scaled m s e = (if int s \<le> e then Dec (m * 10 ^ nat (e - int s)) 0 else mk_dec m (nat (int s - e)))"

definition parse_exponent :: "string \<Rightarrow> (int \<times> string) option" where
  "parse_exponent s =
     (case s of
        c # t \<Rightarrow>
          if c = CHR ''e'' \<or> c = CHR ''E'' then
            (let neg = (case t of d # u \<Rightarrow> d = CHR ''-'' | [] \<Rightarrow> False);
                 u = (case t of d # u \<Rightarrow> if d = CHR ''-'' \<or> d = CHR ''+'' then u else t | [] \<Rightarrow> []);
                 ds = takeWhile is_digit u
             in if ds = [] then None else Some ((if neg then - 1 else 1) * int (read_nat ds), dropWhile is_digit u))
          else Some (0, s)
      | [] \<Rightarrow> Some (0, s))"

definition parse_fraction :: "string \<Rightarrow> (string \<times> string) option" where
  "parse_fraction s =
     (case s of
        c # t \<Rightarrow>
          if c = CHR ''.''
          then (let ds = takeWhile is_digit t in if ds = [] then None else Some (ds, dropWhile is_digit t))
          else Some ([], s)
      | [] \<Rightarrow> Some ([], s))"

definition parse_number :: "string \<Rightarrow> (json \<times> string) option" where
  "parse_number s =
     (let neg = (case s of c # t \<Rightarrow> c = CHR ''-'' | [] \<Rightarrow> False);
          t = (if neg then tl s else s);
          ip = takeWhile is_digit t
      in if ip = [] \<or> (hd ip = CHR ''0'' \<and> tl ip \<noteq> []) then None
         else case parse_fraction (dropWhile is_digit t) of
                None \<Rightarrow> None
              | Some (fp, u) \<Rightarrow>
                  (case parse_exponent u of
                     None \<Rightarrow> None
                   | Some (e, r) \<Rightarrow>
                       Some (JNum (scaled ((if neg then - 1 else 1) * int (read_nat (ip @ fp))) (length fp) e), r)))"

fun parse_value :: "nat \<Rightarrow> string \<Rightarrow> (json \<times> string) option"
  and parse_elements :: "nat \<Rightarrow> string \<Rightarrow> (json list \<times> string) option"
  and parse_members :: "nat \<Rightarrow> string \<Rightarrow> ((string \<times> json) list \<times> string) option" where
  "parse_value 0 s = None"
| "parse_value (Suc k) s =
     (if s = [] then None
      else if hd s = CHR ''{'' then
        (if take 1 (skip (tl s)) = ''}'' then Some (JObj [], tl (skip (tl s)))
         else map_option (\<lambda>(ms, r). (JObj (fold (\<lambda>(n, v) acc. AList.update n v acc) ms []), r)) (parse_members k (tl s)))
      else if hd s = CHR ''['' then
        (if take 1 (skip (tl s)) = '']'' then Some (JArr [], tl (skip (tl s)))
         else map_option (\<lambda>(xs, r). (JArr xs, r)) (parse_elements k (tl s)))
      else if hd s = CHR 0x22 then map_option (\<lambda>(w, r). (JStr w, r)) (parse_string (tl s))
      else if starts_with ''null'' s then Some (JNull, drop 4 s)
      else if starts_with ''true'' s then Some (JBool True, drop 4 s)
      else if starts_with ''false'' s then Some (JBool False, drop 5 s)
      else parse_number s)"
| "parse_elements 0 s = None"
| "parse_elements (Suc k) s =
     (case parse_value k (skip s) of
        None \<Rightarrow> None
      | Some (v, r) \<Rightarrow>
          (case skip r of
             c # t \<Rightarrow>
               if c = CHR '','' then map_option (\<lambda>(vs, q). (v # vs, q)) (parse_elements k t)
               else if c = CHR '']'' then Some ([v], t) else None
           | [] \<Rightarrow> None))"
| "parse_members 0 s = None"
| "parse_members (Suc k) s =
     (if take 1 (skip s) \<noteq> [CHR 0x22] then None
      else case parse_string (tl (skip s)) of
        None \<Rightarrow> None
      | Some (n, r) \<Rightarrow>
          (if take 1 (skip r) \<noteq> '':'' then None
           else case parse_value k (skip (tl (skip r))) of
             None \<Rightarrow> None
           | Some (v, q) \<Rightarrow>
               (case skip q of
                  c # t \<Rightarrow>
                    if c = CHR '','' then map_option (\<lambda>(ms, p). ((n, v) # ms, p)) (parse_members k t)
                    else if c = CHR ''}'' then Some ([(n, v)], t) else None
                | [] \<Rightarrow> None)))"

definition JSON_parse :: "string \<Rightarrow> json option" where
  "JSON_parse s =
     (case parse_value (2 * length s + 1) (skip s) of
        Some (v, r) \<Rightarrow> if skip r = [] then Some v else None
      | None \<Rightarrow> None)"

section \<open>Printing\<close>

text \<open>
  \<open>JSON.stringify(value, null, gap)\<close>: \<open>nl d\<close> is what is written before an element at depth \<open>d\<close>, nothing without
  a gap, else a line break and the indentation; and \<open>sp\<close> is what follows a colon.
\<close>

fun print_json :: "(nat \<Rightarrow> string) \<Rightarrow> string \<Rightarrow> nat \<Rightarrow> json \<Rightarrow> string" where
  "print_json nl sp d JNull = ''null''"
| "print_json nl sp d (JBool b) = (if b then ''true'' else ''false'')"
| "print_json nl sp d (JNum n) = (if n = NaN then ''null'' else show_num n)"
| "print_json nl sp d (JStr s) = json_quote s"
| "print_json nl sp d (JArr xs) =
     (if xs = [] then ''[]''
      else ''['' @ nl (d + 1) @ join ('','' @ nl (d + 1)) (map (print_json nl sp (d + 1)) xs) @ nl d @ '']'')"
| "print_json nl sp d (JObj ms) =
     (if ms = [] then ''{}''
      else ''{'' @ nl (d + 1)
        @ join ('','' @ nl (d + 1)) (map (\<lambda>(k, v). json_quote k @ '':'' @ sp @ print_json nl sp (d + 1) v) ms) @ nl d @ ''}'')"

definition js_stringify_indent :: "nat \<Rightarrow> json \<Rightarrow> string" where
  "js_stringify_indent gap v = print_json (\<lambda>d. CHR 0x0A # replicate (gap * d) (CHR '' '')) '' '' 0 v"

lemma js_stringify_print: "js_stringify v = print_json (\<lambda>d. []) [] d v"
  by (induction v arbitrary: d) (auto split: js_num.split intro!: arg_cong [where f = "join _"])

section \<open>The fuel is enough\<close>

lemma parse_string_shorter: "parse_string s = Some (w, r) \<Longrightarrow> length r < length s"
proof (induction s arbitrary: w rule: parse_string.induct)
  case (2 c s)
  show ?case
  proof (cases "c = CHR 0x5C")
    case True
    then obtain e t where s: "s = e # t" using "2.prems" by (cases s) auto
    show ?thesis
    proof (cases "e = CHR ''u''")
      case u: True
      with True s "2.prems" obtain x n w' where "unicode_escape t = Some (x, n)" "parse_string (drop n t) = Some (w', r)"
        by (auto split: option.splits)
      with "2.IH"(1) [of e t "(x, n)" x n] True s u have "length r < length (drop n t)" by simp
      then show ?thesis using s by simp
    next
      case False
      with True s "2.prems" obtain x w' where "simple_escape e = Some x" "parse_string t = Some (w', r)"
        by (auto split: option.splits)
      with "2.IH"(2) [of e t x] True s False show ?thesis by simp
    qed
  next
    case False
    with 2 show ?thesis by (auto split: if_splits)
  qed
qed simp

lemma parse_fraction_shorter: "parse_fraction s = Some (w, r) \<Longrightarrow> length r \<le> length s"
proof (cases s)
  case (Cons c t)
  then show "parse_fraction s = Some (w, r) \<Longrightarrow> ?thesis"
    using length_dropWhile_le [of is_digit t] by (auto simp: parse_fraction_def Let_def split: if_splits)
qed (simp add: parse_fraction_def)

lemma parse_exponent_shorter: "parse_exponent s = Some (e, r) \<Longrightarrow> length r \<le> length s"
proof (cases s)
  case (Cons c t)
  define u where "u = (case t of d # u \<Rightarrow> if d = CHR ''-'' \<or> d = CHR ''+'' then u else t | [] \<Rightarrow> [])"
  have "length u \<le> length t" by (simp add: u_def split: list.split)
  then have "length (dropWhile is_digit u) \<le> length t" using length_dropWhile_le [of is_digit u] by simp
  then show "parse_exponent s = Some (e, r) \<Longrightarrow> ?thesis"
    unfolding parse_exponent_def Cons list.case u_def [symmetric] Let_def by (auto split: if_splits)
qed (simp add: parse_exponent_def)

lemma parse_number_shorter:
  assumes "parse_number s = Some (v, r)"
  shows "length r < length s"
proof -
  define t where "t = (if (case s of c # t \<Rightarrow> c = CHR ''-'' | [] \<Rightarrow> False) then tl s else s)"
  obtain fp u e where ip: "takeWhile is_digit t \<noteq> []" and "parse_fraction (dropWhile is_digit t) = Some (fp, u)"
    "parse_exponent u = Some (e, r)"
    using assms unfolding parse_number_def Let_def t_def [symmetric] by (auto split: if_splits option.splits prod.splits)
  then have "length r \<le> length (dropWhile is_digit t)"
    using parse_fraction_shorter parse_exponent_shorter le_trans by blast
  moreover have "length (takeWhile is_digit t) + length (dropWhile is_digit t) = length t"
    by (metis length_append takeWhile_dropWhile_id)
  moreover have "length t \<le> length s" by (simp add: t_def)
  moreover have "0 < length (takeWhile is_digit t)" using ip by simp
  ultimately show ?thesis by linarith
qed

declare dropWhile_eq_Nil_conv [simp del]

lemma skip_shorter: "length (skip s) \<le> length s"
  by (rule length_dropWhile_le)

lemma skip_cons: "skip s = c # t \<Longrightarrow> length t < length s"
  using skip_shorter [of s] by simp

lemma take_skip: "take 1 (skip s) = [c] \<Longrightarrow> skip s = c # tl (skip s)"
  by (cases "skip s") auto

lemma parse_value_object:
  "parse_value (Suc k) (CHR ''{'' # s) =
     (if take 1 (skip s) = ''}'' then Some (JObj [], tl (skip s))
      else map_option (\<lambda>(ms, r). (JObj (fold (\<lambda>(n, v) acc. AList.update n v acc) ms []), r)) (parse_members k s))"
  "parse_value (Suc k) (CHR ''['' # s) =
     (if take 1 (skip s) = '']'' then Some (JArr [], tl (skip s))
      else map_option (\<lambda>(xs, r). (JArr xs, r)) (parse_elements k s))"
  by simp_all

text \<open>The three parsers consume text.\<close>

lemma parsers_shorter:
  "(\<forall>s v r. parse_value k s = Some (v, r) \<longrightarrow> length r < length s)
   \<and> (\<forall>s xs r. parse_elements k s = Some (xs, r) \<longrightarrow> length r < length s)
   \<and> (\<forall>s ms r. parse_members k s = Some (ms, r) \<longrightarrow> length r < length s)"
proof (induction k)
  case (Suc k)
  then have V: "parse_value k s = Some (v, r) \<Longrightarrow> length r < length s"
    and E: "parse_elements k s = Some (xs, r) \<Longrightarrow> length r < length s"
    and M: "parse_members k s = Some (ms, r) \<Longrightarrow> length r < length s" for s v r xs ms by blast+
  have "length r < length s" if v: "parse_value (Suc k) s = Some (v, r)" for s v r
  proof (cases s)
    case Nil
    with v show ?thesis by simp
  next
    case (Cons c t)
    consider "c = CHR ''{''" | "c = CHR ''[''" | "c = CHR 0x22" | "c \<noteq> CHR ''{'' \<and> c \<noteq> CHR ''['' \<and> c \<noteq> CHR 0x22" by blast
    then show ?thesis
    proof cases
      case 1
      with v Cons M [of t] skip_shorter [of t] show ?thesis
        by (auto split: if_splits dest!: take_skip)
    next
      case 2
      with v Cons E [of t] skip_shorter [of t] show ?thesis
        by (auto split: if_splits dest!: take_skip)
    next
      case 3
      with v Cons parse_string_shorter [of t] show ?thesis by (auto simp: less_SucI)
    next
      case 4
      then have "s \<noteq> []" "hd s \<noteq> CHR ''{''" "hd s \<noteq> CHR ''[''" "hd s \<noteq> CHR 0x22" using Cons by simp_all
      then have "r = drop 4 s \<or> r = drop 5 s \<or> parse_number s = Some (v, r)"
        using v by (simp only: parse_value.simps if_False) (auto simp del: starts_with_iff split: if_splits)
      then show ?thesis using parse_number_shorter [of s v r] \<open>s \<noteq> []\<close> by auto
    qed
  qed
  moreover have "length r < length s" if e: "parse_elements (Suc k) s = Some (xs, r)" for s xs r
  proof -
    obtain v q where q: "parse_value k (skip s) = Some (v, q)" using e by (auto split: option.splits)
    with e obtain c t where t: "skip q = c # t" by (cases "skip q") auto
    have "length t < length s" using V [OF q] skip_shorter [of s] skip_cons [OF t] by simp
    then show ?thesis using e q t E [of t] by (auto split: if_splits)
  qed
  moreover have "length r < length s" if m: "parse_members (Suc k) s = Some (ms, r)" for s ms r
  proof -
    have "take 1 (skip s) = [CHR 0x22]" using m by (auto split: if_splits)
    from take_skip [OF this] have a: "length (tl (skip s)) < length s" by (rule skip_cons)
    obtain n p where n: "parse_string (tl (skip s)) = Some (n, p)" using m by (auto split: if_splits option.splits)
    have "take 1 (skip p) = '':''" using m n by (auto split: if_splits option.splits)
    from take_skip [OF this] have b: "length (tl (skip p)) < length p" by (rule skip_cons)
    obtain v q where v: "parse_value k (skip (tl (skip p))) = Some (v, q)"
      using m n by (auto split: if_splits option.splits)
    with m n obtain c t where t: "skip q = c # t" by (cases "skip q") (auto split: if_splits)
    have "length t < length s"
      using V [OF v] a b parse_string_shorter [OF n] skip_shorter [of "tl (skip p)"] skip_cons [OF t] by linarith
    then show ?thesis using m n v t M [of t] by (auto split: if_splits)
  qed
  ultimately show ?case by blast
qed simp

text \<open>More fuel than twice the length of the text does not change the result.\<close>

lemma fuel_enough:
  "(\<forall>s k'. 2 * length s < k \<longrightarrow> 2 * length s < k' \<longrightarrow> parse_value k s = parse_value k' s)
   \<and> (\<forall>s k'. 2 * length s + 1 < k \<longrightarrow> 2 * length s + 1 < k' \<longrightarrow> parse_elements k s = parse_elements k' s)
   \<and> (\<forall>s k'. 2 * length s + 1 < k \<longrightarrow> 2 * length s + 1 < k' \<longrightarrow> parse_members k s = parse_members k' s)"
proof (induction k)
  case (Suc k)
  then have V: "2 * length s < k \<Longrightarrow> 2 * length s < k' \<Longrightarrow> parse_value k s = parse_value k' s"
    and E: "2 * length s + 1 < k \<Longrightarrow> 2 * length s + 1 < k' \<Longrightarrow> parse_elements k s = parse_elements k' s"
    and M: "2 * length s + 1 < k \<Longrightarrow> 2 * length s + 1 < k' \<Longrightarrow> parse_members k s = parse_members k' s" for s k' by blast+
  have "parse_value (Suc k) s = parse_value k' s" if less: "2 * length s < Suc k" "2 * length s < k'" for s k'
  proof -
    obtain j where j: "k' = Suc j" using less by (cases k') auto
    show ?thesis
    proof (cases s)
      case (Cons c t)
      then have "2 * length t + 1 < k" "2 * length t + 1 < j" using less j by simp_all
      from E [OF this] M [OF this] show ?thesis unfolding j Cons by simp
    qed (simp add: j)
  qed
  moreover have "parse_elements (Suc k) s = parse_elements k' s"
    if less: "2 * length s + 1 < Suc k" "2 * length s + 1 < k'" for s k'
  proof -
    obtain j where j: "k' = Suc j" using less by (cases k') auto
    have v: "parse_value k (skip s) = parse_value j (skip s)"
      using V [of "skip s" j] skip_shorter [of s] less j by simp
    show ?thesis
    proof (cases "parse_value j (skip s)")
      case (Some vq)
      obtain v q where vq: "vq = (v, q)" by (cases vq)
      show ?thesis
      proof (cases "skip q")
        case (Cons c t)
        have "length q < length (skip s)" using parsers_shorter [of j] Some vq by blast
        then have "length t < length s" using skip_cons [OF Cons] skip_shorter [of s] by linarith
        then have "parse_elements k t = parse_elements j t" using E [of t j] less j by simp
        with v Some vq Cons show ?thesis unfolding j by simp
      qed (use v Some vq in \<open>simp add: j\<close>)
    qed (simp add: j v)
  qed
  moreover have "parse_members (Suc k) s = parse_members k' s"
    if less: "2 * length s + 1 < Suc k" "2 * length s + 1 < k'" for s k'
  proof -
    obtain j where j: "k' = Suc j" using less by (cases k') auto
    show ?thesis
    proof (cases "take 1 (skip s) = [CHR 0x22]")
      case True
      note a = skip_cons [OF take_skip [OF True]]
      show ?thesis
      proof (cases "parse_string (tl (skip s))")
        case (Some np)
        obtain n p where np: "np = (n, p)" by (cases np)
        with Some have p: "length p < length (tl (skip s))" using parse_string_shorter by blast
        show ?thesis
        proof (cases "take 1 (skip p) = '':''")
          case colon: True
          note b = skip_cons [OF take_skip [OF colon]]
          have shorter: "length (skip (tl (skip p))) < length s" using a b p skip_shorter [of "tl (skip p)"] by linarith
          then have v: "parse_value k (skip (tl (skip p))) = parse_value j (skip (tl (skip p)))"
            using V [of "skip (tl (skip p))" j] less j by simp
          show ?thesis
          proof (cases "parse_value j (skip (tl (skip p)))")
            case None
            with v True Some np colon show ?thesis unfolding j by simp
          next
            case val: (Some vq)
            obtain v q where vq: "vq = (v, q)" by (cases vq)
            have "length q < length (skip (tl (skip p)))" using parsers_shorter [of j] val vq by blast
            then have "length t < length s" if "skip q = c # t" for c t using shorter skip_cons [OF that] by linarith
            then have "parse_members k t = parse_members j t" if "skip q = c # t" for c t
              using M [of t j] that less j by fastforce
            with v val vq True Some np colon show ?thesis unfolding j by (cases "skip q") simp_all
          qed
        next
          case False
          with True Some np show ?thesis unfolding j by simp
        qed
      qed (use True in \<open>simp add: j\<close>)
    qed (simp add: j)
  qed
  ultimately show ?case by blast
qed simp

lemma JSON_parse_fuel:
  assumes "2 * length s < k"
  shows "JSON_parse s =
     (case parse_value k (skip s) of Some (v, r) \<Rightarrow> if skip r = [] then Some v else None | None \<Rightarrow> None)"
proof -
  have "2 * length (skip s) < k" "2 * length (skip s) < 2 * length s + 1" using assms skip_shorter [of s] by linarith+
  then have "parse_value k (skip s) = parse_value (2 * length s + 1) (skip s)" using fuel_enough [of k] by blast
  then show ?thesis by (simp add: JSON_parse_def)
qed

section \<open>What is printed is read back\<close>

text \<open>Values as the parser makes them: numbers in lowest terms, no two members with one name.\<close>

fun wf_num :: "js_num \<Rightarrow> bool" where
  "wf_num NaN = False"
| "wf_num (Dec m 0) = True"
| "wf_num (Dec m (Suc s)) = (m mod 10 \<noteq> 0)"

fun wf_json :: "json \<Rightarrow> bool" where
  "wf_json (JNum n) = wf_num n"
| "wf_json (JArr xs) = list_all wf_json xs"
| "wf_json (JObj ms) = (distinct (map fst ms) \<and> list_all (\<lambda>m. wf_json (snd m)) ms)"
| "wf_json v = True"

lemma json_char_read:
  "parse_string (json_char c @ s) = map_option (\<lambda>(w, q). (c # w, q)) (parse_string s)"
proof -
  let ?n = "of_char c :: nat"
  have eqs: "?n = k \<Longrightarrow> c = char_of k" for k by (metis char_of_char)
  have hex: "hex_digit_val (hex_digit k) = Some k" if "k < 16" for k
  proof -
    have "list_all (\<lambda>k. hex_digit_val (hex_digit k) = Some k) [0..<16]" by code_simp
    with that show ?thesis by (simp add: list_all_iff)
  qed
  have zero: "hex_digit_val (CHR ''0'') = Some 0" by code_simp
  consider "c = CHR 0x22 \<or> c = CHR 0x5C" | "?n \<in> {8, 9, 10, 12, 13}" | "?n < 32" "?n \<notin> {8, 9, 10, 12, 13}"
    | "32 \<le> ?n" "c \<noteq> CHR 0x22" "c \<noteq> CHR 0x5C" by fastforce
  then show ?thesis
  proof cases
    case 1
    then show ?thesis by (auto simp: json_char_def Let_def simple_escape_def)
  next
    case 2
    then show ?thesis using eqs
      by (elim insertE emptyE) (auto simp: json_char_def Let_def simple_escape_def)
  next
    case 3
    then have "c \<noteq> CHR 0x22" "c \<noteq> CHR 0x5C" by auto
    moreover have "?n mod 16 + 16 * (?n div 16) = ?n" by simp
    moreover have "unicode_escape (CHR ''0'' # CHR ''0'' # hex_digit (?n div 16) # hex_digit (?n mod 16) # s) = Some ([c], 4)"
      using 3(1) by (simp add: unicode_escape_def hex4_def hex zero utf8_def mult.commute)
    ultimately show ?thesis using 3 by (simp add: json_char_def Let_def)
  next
    case 4
    then show ?thesis by (auto simp: json_char_def Let_def)
  qed
qed

lemma quoted_text_read: "parse_string (concat (map json_char s) @ CHR 0x22 # r) = Some (s, r)"
  by (induction s) (simp_all add: json_char_read)

text \<open>What may follow a number.\<close>

definition follows :: "string \<Rightarrow> bool" where
  "follows r \<longleftrightarrow> (case r of c # t \<Rightarrow> \<not> is_digit c \<and> c \<notin> set ''.eE'' | [] \<Rightarrow> True)"

lemma digits_end:
  "list_all is_digit ds \<Longrightarrow> (\<And>c t. r = c # t \<Longrightarrow> \<not> is_digit c) \<Longrightarrow>
   takeWhile is_digit (ds @ r) = ds \<and> dropWhile is_digit (ds @ r) = r"
  by (induction ds) (cases r; simp)+

lemma follows_digit: "follows (c # t) \<Longrightarrow> \<not> is_digit c"
  by (simp add: follows_def)

lemma no_exponent: "follows r \<Longrightarrow> parse_exponent r = Some (0, r)"
  by (cases r) (auto simp: follows_def parse_exponent_def)

lemma no_fraction: "follows r \<Longrightarrow> parse_fraction r = Some ([], r)"
  by (cases r) (auto simp: follows_def parse_fraction_def)

lemma show_nat_plain: "\<not> (hd (show_nat n) = CHR ''0'' \<and> tl (show_nat n) \<noteq> [])"
proof (induction n rule: show_nat.induct)
  case (1 n)
  show ?case
  proof (cases "n < 10")
    case True
    then show ?thesis by (simp add: show_nat.simps [of n])
  next
    case False
    have s: "show_nat n = show_nat (n div 10) @ [digit (n mod 10)]" using False by (simp add: show_nat.simps [of n])
    show ?thesis
    proof (cases "tl (show_nat (n div 10)) = []")
      case True
      then have "n div 10 < 10" using show_nat.simps [of "n div 10"] by (auto split: if_splits simp: tl_append split: list.splits)
      moreover have "0 < n div 10" using False by simp
      ultimately have "hd (show_nat n) = digit (n div 10)" by (simp add: s show_nat.simps [of "n div 10"])
      moreover have "digit (n div 10) \<noteq> digit 0" using digit_val_digit [of "n div 10"] digit_val_digit [of 0] \<open>n div 10 < 10\<close> \<open>0 < n div 10\<close>
        by (metis less_numeral_extra(3) zero_less_numeral)
      ultimately show ?thesis by simp
    next
      case False
      with 1 \<open>\<not> n < 10\<close> show ?thesis by (simp add: s)
    qed
  qed
qed

lemma read_nat_append: "read_nat (a @ b) = read_nat a * 10 ^ length b + read_nat b"
proof (induction b rule: rev_induct)
  case (snoc c b)
  then show ?case by (simp add: read_nat_def algebra_simps)
qed (simp add: read_nat_def)

lemma decimal_read:
  assumes "list_all is_digit ip" "ip \<noteq> []" "\<not> (hd ip = CHR ''0'' \<and> tl ip \<noteq> [])" "list_all is_digit fp" "follows r"
  shows "parse_number ((if neg then ''-'' else []) @ ip @ (if fp = [] then [] else CHR ''.'' # fp) @ r)
    = Some (JNum (scaled ((if neg then - 1 else 1) * int (read_nat (ip @ fp))) (length fp) 0), r)"
    (is "parse_number (_ @ ip @ ?fr @ r) = _")
proof -
  have dot: "\<not> is_digit CHR ''.''" by (simp add: is_digit_def)
  have rest: "\<not> is_digit c" if "?fr @ r = c # t" for c t
    using that assms(5) dot follows_digit [of c t] by (cases "fp = []") auto
  have ip: "takeWhile is_digit (ip @ ?fr @ r) = ip" "dropWhile is_digit (ip @ ?fr @ r) = ?fr @ r"
    by (rule digits_end [OF assms(1) rest, THEN conjunct1], assumption) (rule digits_end [OF assms(1) rest, THEN conjunct2], assumption)
  have "takeWhile is_digit (fp @ r) = fp \<and> dropWhile is_digit (fp @ r) = r"
    by (rule digits_end [OF assms(4)]) (use assms(5) follows_digit in simp)
  then have fp: "takeWhile is_digit (fp @ r) = fp" "dropWhile is_digit (fp @ r) = r" by blast+
  have fr: "parse_fraction (?fr @ r) = Some (fp, r)"
  proof (cases "fp = []")
    case False
    then show ?thesis by (simp add: parse_fraction_def fp Let_def)
  qed (use no_fraction [OF assms(5)] in simp)
  obtain c cs where c: "ip = c # cs" using assms(2) by (cases ip) auto
  then have "c \<noteq> CHR ''-''" using assms(1) is_digit_not_sign by auto
  then have "parse_number ((if neg then ''-'' else []) @ ip @ ?fr @ r) =
    (let t = ip @ ?fr @ r; ip = takeWhile is_digit t
      in if ip = [] \<or> (hd ip = CHR ''0'' \<and> tl ip \<noteq> []) then None
         else case parse_fraction (dropWhile is_digit t) of
                None \<Rightarrow> None
              | Some (fp, u) \<Rightarrow>
                  (case parse_exponent u of
                     None \<Rightarrow> None
                   | Some (e, r) \<Rightarrow>
                       Some (JNum (scaled ((if neg then - 1 else 1) * int (read_nat (ip @ fp))) (length fp) e), r)))"
    using c by (cases neg) (simp_all add: parse_number_def)
  then show ?thesis using assms(2,3) by (simp only: Let_def ip fr) (simp add: no_exponent [OF assms(5)])
qed

lemma mk_dec_wf: "wf_num (Dec m s) \<Longrightarrow> mk_dec m s = Dec m s"
  by (cases s) simp_all

lemma pad_left_digits:
  "list_all is_digit (pad_left n CHR ''0'' (show_nat k))"
proof -
  have "is_digit CHR ''0''" by (simp add: is_digit_def)
  then show ?thesis using show_nat_digits [of _ k] by (auto simp: pad_left_def list_all_iff)
qed

lemma read_zeros: "read_nat (replicate n CHR ''0'') = 0"
  by (induction n) (simp_all add: read_nat_def digit_val_def)

lemma read_pad_left: "read_nat (pad_left n CHR ''0'' (show_nat k)) = k"
  by (simp add: pad_left_def read_nat_append read_zeros)

lemma digits_fit: "k < 10 ^ Suc n \<Longrightarrow> length (show_nat k) \<le> Suc n"
proof (induction n arbitrary: k)
  case (Suc n)
  then show ?case using Suc.IH [of "k div 10"] by (simp add: show_nat.simps [of k] less_mult_imp_div_less)
qed (simp add: show_nat.simps)

lemma number_read:
  assumes "wf_num n" "follows r"
  shows "parse_number (show_num n @ r) = Some (JNum n, r)"
proof (cases n)
  case (Dec m s)
  let ?a = "nat \<bar>m\<bar>" and ?sg = "if m < 0 then - 1 else 1 :: int"
  have sg: "?sg * int ?a = m" by simp
  have digits: "list_all is_digit (show_nat k)" for k by (simp add: list_all_iff show_nat_digits)
  show ?thesis
  proof (cases s)
    case 0
    from decimal_read [OF digits show_nat_nonempty show_nat_plain _ assms(2), of "[]" "m < 0" ?a] sg
    have "parse_number (show_int m @ r) = Some (JNum (Dec m 0), r)"
      by (cases "m < 0") (simp_all add: show_int_def scaled_def)
    then show ?thesis by (simp add: Dec 0)
  next
    case (Suc k)
    let ?f = "pad_left s CHR ''0'' (show_nat (?a mod 10 ^ s))"
    have len: "length ?f = s" using digits_fit [of "?a mod 10 ^ s" k] by (simp add: pad_left_def Suc)
    then have "?f \<noteq> []" using Suc by auto
    moreover have "read_nat (show_nat (?a div 10 ^ s) @ ?f) = ?a"
      by (simp add: read_nat_append read_pad_left len del: mult_numeral_left) (rule div_mult_mod_eq)
    moreover have "scaled m s 0 = Dec m s"
      using assms(1) mk_dec_wf [of m s] by (simp add: scaled_def Dec Suc nat_add_distrib del: mk_dec.simps)
    ultimately have "parse_number ((if m < 0 then ''-'' else []) @ show_nat (?a div 10 ^ s) @ (CHR ''.'' # ?f) @ r)
      = Some (JNum (Dec m s), r)"
      using decimal_read [where ip = "show_nat (?a div 10 ^ s)" and fp = "?f" and neg = "m < 0",
        OF digits show_nat_nonempty show_nat_plain pad_left_digits assms(2)] sg by (simp add: len)
    then show ?thesis by (simp add: Dec Suc)
  qed
qed (use assms in simp)

text \<open>The first character of a printed value says how to read it.\<close>

definition white :: "string \<Rightarrow> bool" where
  "white s \<longleftrightarrow> list_all is_json_space s"

lemma skip_white: "white w \<Longrightarrow> skip (w @ s) = skip s"
  by (induction w) (simp_all add: white_def)

lemma show_num_head: "n \<noteq> NaN \<Longrightarrow> \<exists>c t. show_num n = c # t \<and> (c = CHR ''-'' \<or> is_digit c)"
proof -
  have d: "\<exists>c t. show_nat k = c # t \<and> is_digit c" for k
    using show_nat_digits [of "hd (show_nat k)" k] show_nat_nonempty [of k] by (cases "show_nat k") auto
  show "n \<noteq> NaN \<Longrightarrow> ?thesis"
  proof (induction n rule: show_num.induct)
    case (2 m)
    then show ?case using d [of "nat m"] by (auto simp: show_int_def)
  next
    case (3 m s)
    then show ?case using d [of "nat \<bar>m\<bar> div 10 ^ Suc s"] by (cases "m < 0") (auto simp del: power_Suc)
  qed simp
qed

lemma print_head: "wf_json v \<Longrightarrow> \<exists>c t. print_json nl sp d v = c # t \<and> \<not> is_json_space c \<and> c \<notin> {CHR '']'', CHR ''}''}"
proof (cases v)
  case (JNum n)
  assume "wf_json v"
  with JNum have "n \<noteq> NaN" by auto
  with JNum show_num_head [of n] show ?thesis by (auto simp: is_digit_def is_json_space_def)
qed (auto simp: is_json_space_def json_quote_def)

lemma follows_sep [simp]:
  "follows []" "follows (CHR '','' # t)" "follows (CHR '']'' # t)" "follows (CHR ''}'' # t)"
  by (simp_all add: follows_def is_digit_def)

lemma follows_white: "white w \<Longrightarrow> w \<noteq> [] \<or> follows t \<Longrightarrow> follows (w @ t)"
  by (cases w) (auto simp: white_def follows_def is_json_space_def is_digit_def)

lemma elements_read:
  assumes nl: "\<And>d. white (nl d)"
    and each: "\<And>x r k. x \<in> set xs \<Longrightarrow> wf_json x \<Longrightarrow> follows r \<Longrightarrow> 2 * length (print_json nl sp d x @ r) < k \<Longrightarrow>
      parse_value k (print_json nl sp d x @ r) = Some (x, r)"
  shows "xs \<noteq> [] \<Longrightarrow> list_all wf_json xs \<Longrightarrow> white w \<Longrightarrow>
    2 * length (w @ join ('','' @ nl d) (map (print_json nl sp d) xs) @ nl e @ CHR '']'' # r) + 1 < k \<Longrightarrow>
    parse_elements k (w @ join ('','' @ nl d) (map (print_json nl sp d) xs) @ nl e @ CHR '']'' # r) = Some (xs, r)"
  using each
proof (induction xs arbitrary: w k)
  case (Cons x xs)
  obtain j where j: "k = Suc j" using Cons.prems(4) by (cases k) auto
  let ?p = "print_json nl sp d x"
  define rest where "rest = (if xs = [] then nl e @ CHR '']'' # r
    else CHR '','' # nl d @ join ('','' @ nl d) (map (print_json nl sp d) xs) @ nl e @ CHR '']'' # r)"
  have s: "join ('','' @ nl d) (map (print_json nl sp d) (x # xs)) @ nl e @ CHR '']'' # r = ?p @ rest"
    by (simp add: rest_def join_Cons)
  have len: "2 * length w + 2 * length (?p @ rest) + 1 < k" using Cons.prems(4) unfolding s by simp
  have wf: "wf_json x" using Cons.prems(2) by simp
  have skip: "skip (w @ ?p @ rest) = ?p @ rest"
    using print_head [OF wf, of nl sp d] by (auto simp: skip_white [OF Cons.prems(3)])
  have "follows rest" using follows_white [OF nl] by (simp add: rest_def)
  then have x: "parse_value j (?p @ rest) = Some (x, rest)" using Cons.prems(5) [of x rest j] wf len j by simp
  show ?case
  proof (cases "xs = []")
    case True
    then have "skip rest = CHR '']'' # r" by (simp add: rest_def skip_white [OF nl] is_json_space_def)
    with True x skip show ?thesis unfolding s j by simp
  next
    case False
    define t where "t = nl d @ join ('','' @ nl d) (map (print_json nl sp d) xs) @ nl e @ CHR '']'' # r"
    have rest: "rest = CHR '','' # t" using False by (simp add: rest_def t_def)
    have "parse_elements j t = Some (xs, r)"
      unfolding t_def by (rule Cons.IH [OF False _ nl]) (use Cons.prems(2,5) len j rest t_def in simp_all)
    moreover have "skip rest = CHR '','' # t" by (simp add: rest is_json_space_def)
    ultimately show ?thesis using x skip unfolding s j by simp
  qed
qed simp

lemma members_read:
  assumes nl: "\<And>d. white (nl d)" and sp: "white sp"
    and each: "\<And>m r k. m \<in> set ms \<Longrightarrow> wf_json (snd m) \<Longrightarrow> follows r \<Longrightarrow> 2 * length (print_json nl sp d (snd m) @ r) < k \<Longrightarrow>
      parse_value k (print_json nl sp d (snd m) @ r) = Some (snd m, r)"
  shows "ms \<noteq> [] \<Longrightarrow> list_all (\<lambda>m. wf_json (snd m)) ms \<Longrightarrow> white w \<Longrightarrow>
    2 * length (w @ join ('','' @ nl d) (map (\<lambda>(k, v). json_quote k @ '':'' @ sp @ print_json nl sp d v) ms) @ nl e @ CHR ''}'' # r) + 1 < k \<Longrightarrow>
    parse_members k (w @ join ('','' @ nl d) (map (\<lambda>(k, v). json_quote k @ '':'' @ sp @ print_json nl sp d v) ms) @ nl e @ CHR ''}'' # r)
      = Some (ms, r)"
  using each
proof (induction ms arbitrary: w k)
  case (Cons m ms)
  obtain n v where m: "m = (n, v)" by (cases m)
  obtain j where j: "k = Suc j" using Cons.prems(4) by (cases k) auto
  let ?f = "\<lambda>(k, v). json_quote k @ '':'' @ sp @ print_json nl sp d v" and ?p = "print_json nl sp d v"
  define rest where "rest = (if ms = [] then nl e @ CHR ''}'' # r
    else CHR '','' # nl d @ join ('','' @ nl d) (map ?f ms) @ nl e @ CHR ''}'' # r)"
  define tail where "tail = CHR '':'' # sp @ ?p @ rest"
  have s: "join ('','' @ nl d) (map ?f (m # ms)) @ nl e @ CHR ''}'' # r = json_quote n @ tail"
    by (simp add: rest_def tail_def join_Cons m)
  have len: "2 * length w + 2 * length (json_quote n) + 2 * length sp + 2 * length (?p @ rest) + 3 < k"
    using Cons.prems(4) unfolding s by (simp add: tail_def)
  have wf: "wf_json v" using Cons.prems(2) by (simp add: m)
  have skip: "skip (w @ json_quote n @ tail) = CHR 0x22 # concat (map json_char n) @ CHR 0x22 # tail"
    by (simp add: skip_white [OF Cons.prems(3)] json_quote_def is_json_space_def)
  have colon: "skip tail = tail" by (simp add: tail_def is_json_space_def)
  have before: "skip (sp @ ?p @ rest) = ?p @ rest"
    using print_head [OF wf, of nl sp d] by (auto simp: skip_white [OF sp])
  have "follows rest" using follows_white [OF nl] by (simp add: rest_def)
  then have x: "parse_value j (?p @ rest) = Some (v, rest)" using Cons.prems(5) [of m rest j] wf len j by (simp add: m)
  show ?case
  proof (cases "ms = []")
    case True
    then have "skip rest = CHR ''}'' # r" by (simp add: rest_def skip_white [OF nl] is_json_space_def)
    with True x show ?thesis unfolding s j by (simp add: skip quoted_text_read colon m) (simp add: tail_def before)
  next
    case False
    define t where "t = nl d @ join ('','' @ nl d) (map ?f ms) @ nl e @ CHR ''}'' # r"
    have rest: "rest = CHR '','' # t" using False by (simp add: rest_def t_def)
    have "parse_members j t = Some (ms, r)"
      unfolding t_def by (rule Cons.IH [OF False _ nl]) (use Cons.prems(2,5) len j rest t_def in simp_all)
    moreover have "skip rest = CHR '','' # t" by (simp add: rest is_json_space_def)
    ultimately show ?thesis using x unfolding s j by (simp add: skip quoted_text_read colon m) (simp add: tail_def before)
  qed
qed simp

lemma updates_fresh:
  "distinct (map fst (acc @ ms)) \<Longrightarrow> fold (\<lambda>(n, v) acc. AList.update n v acc) ms acc = acc @ ms"
proof (induction ms arbitrary: acc)
  case (Cons m ms)
  obtain n v where m: "m = (n, v)" by (cases m)
  have fresh: "n \<notin> fst ` set acc" using Cons.prems by (auto simp: m)
  have "AList.update n v acc = acc @ [(n, v)]" using fresh by (induction acc) auto
  with Cons.IH [of "acc @ [(n, v)]"] Cons.prems show ?case by (simp add: m)
qed simp

lemma parse_value_number:
  assumes "s = c # t" "c = CHR ''-'' \<or> is_digit c"
  shows "parse_value (Suc k) s = parse_number s"
proof -
  have "c \<noteq> CHR ''{''" "c \<noteq> CHR ''[''" "c \<noteq> CHR 0x22" "c \<noteq> CHR ''n''" "c \<noteq> CHR ''t''" "c \<noteq> CHR ''f''"
    using assms(2) by (auto simp: is_digit_def)
  then show ?thesis by (simp add: assms(1))
qed

text \<open>A printed value is read back from the front of any text that may follow it.\<close>

lemma json_read:
  assumes nl: "\<And>d. white (nl d)" and sp: "white sp"
  shows "wf_json v \<Longrightarrow> follows r \<Longrightarrow> 2 * length (print_json nl sp d v @ r) < k \<Longrightarrow>
    parse_value k (print_json nl sp d v @ r) = Some (v, r)"
proof (induction v arbitrary: d r k)
  case (JNum n)
  then have "n \<noteq> NaN" by auto
  obtain j where j: "k = Suc j" using JNum by (cases k) auto
  from show_num_head [OF \<open>n \<noteq> NaN\<close>] obtain c t where c: "show_num n = c # t" "c = CHR ''-'' \<or> is_digit c" by blast
  have "parse_value k (show_num n @ r) = parse_number (show_num n @ r)"
    unfolding j by (rule parse_value_number [where c = c and t = "t @ r"]) (use c in simp_all)
  then show ?case using number_read [of n r] JNum \<open>n \<noteq> NaN\<close> by simp
next
  case (JStr s)
  then obtain j where j: "k = Suc j" by (cases k) auto
  show ?case by (simp add: j json_quote_def quoted_text_read)
next
  case (JArr xs)
  then obtain j where j: "k = Suc j" by (cases k) auto
  show ?case
  proof (cases "xs = []")
    case False
    let ?t = "nl (d + 1) @ join ('','' @ nl (d + 1)) (map (print_json nl sp (d + 1)) xs) @ nl d @ CHR '']'' # r"
    have "2 * length ?t + 1 < j" using JArr.prems(3) False by (simp add: j)
    then have "parse_elements j ?t = Some (xs, r)"
      by (intro elements_read [OF nl _ False _ nl]) (use JArr in simp_all)
    moreover have "take 1 (skip ?t) \<noteq> '']''"
    proof -
      obtain x ys where xs: "xs = x # ys" using False by (cases xs) auto
      then have "wf_json x" using JArr.prems by simp
      from print_head [OF this, of nl sp "d + 1"] show ?thesis
        by (cases "ys = []") (auto simp: xs skip_white [OF nl] join_Cons)
    qed
    ultimately show ?thesis using False by (simp add: j)
  qed (simp add: j is_json_space_def)
next
  case (JObj ms)
  then obtain j where j: "k = Suc j" by (cases k) auto
  show ?case
  proof (cases "ms = []")
    case False
    let ?f = "\<lambda>(k, v). json_quote k @ '':'' @ sp @ print_json nl sp (d + 1) v"
    let ?t = "nl (d + 1) @ join ('','' @ nl (d + 1)) (map ?f ms) @ nl d @ CHR ''}'' # r"
    have "2 * length ?t + 1 < j" using JObj.prems(3) False by (simp add: j)
    then have "parse_members j ?t = Some (ms, r)"
      by (intro members_read [OF nl sp _ False _ nl]) (use JObj in \<open>auto\<close>)
    moreover have "take 1 (skip ?t) \<noteq> ''}''"
    proof -
      obtain n v ys where ms: "ms = (n, v) # ys" using False by (cases ms) auto
      then show ?thesis
        by (cases "ys = []") (auto simp: ms skip_white [OF nl] join_Cons json_quote_def is_json_space_def)
    qed
    moreover have "fold (\<lambda>(n, v) acc. AList.update n v acc) ms [] = ms" using updates_fresh [of "[]" ms] JObj.prems by simp
    ultimately show ?thesis using False by (simp add: j)
  qed (simp add: j is_json_space_def)
next
  case (JBool b)
  then obtain j where "k = Suc j" by (cases k) auto
  then show ?case by simp
next
  case JNull
  then obtain j where "k = Suc j" by (cases k) auto
  then show ?case by simp
qed

lemma JSON_parse_print:
  assumes "\<And>d. white (nl d)" "white sp" "wf_json v"
  shows "JSON_parse (print_json nl sp d v) = Some v"
proof -
  let ?s = "print_json nl sp d v"
  have "skip ?s = ?s" using print_head [OF assms(3), of nl sp d] by auto
  moreover have "parse_value (2 * length ?s + 1) (?s @ []) = Some (v, [])"
    by (rule json_read [OF assms]) simp_all
  ultimately show ?thesis by (simp add: JSON_parse_def)
qed

lemma JSON_parse_stringify: "wf_json v \<Longrightarrow> JSON_parse (js_stringify v) = Some v"
  by (simp add: js_stringify_print [of v 0] JSON_parse_print white_def)

lemma JSON_parse_indent: "wf_json v \<Longrightarrow> JSON_parse (js_stringify_indent gap v) = Some v"
  unfolding js_stringify_indent_def
  by (rule JSON_parse_print) (simp_all add: white_def is_json_space_def list_all_iff)

interpretation json_text: codec js_stringify JSON_parse Some wf_json
  by unfold_locales (simp_all add: JSON_parse_stringify)

interpretation json_pretty: codec "js_stringify_indent gap" JSON_parse Some wf_json for gap
  by unfold_locales (simp_all add: JSON_parse_indent)

section \<open>Texts in editors\<close>

text \<open>\<open>JSON.stringify(value, null, '\\t')\<close>, the form in which editors and saved files have it.\<close>

definition js_stringify_tabs :: "json \<Rightarrow> string" where
  "js_stringify_tabs v = print_json (\<lambda>d. CHR 0x0A # replicate d (CHR 0x09)) '' '' 0 v"

lemma JSON_parse_tabs: "wf_json v \<Longrightarrow> JSON_parse (js_stringify_tabs v) = Some v"
  unfolding js_stringify_tabs_def
  by (rule JSON_parse_print) (simp_all add: white_def is_json_space_def list_all_iff)

interpretation json_tabs: codec js_stringify_tabs JSON_parse Some wf_json
  by unfold_locales (simp_all add: JSON_parse_tabs)

text \<open>The test of \<open>isJsonObject\<close> in \<open>frontend/src/lib/yupExtended.ts\<close>.\<close>

definition isValidJsonObject :: "string \<Rightarrow> bool" where
  "isValidJsonObject t \<longleftrightarrow>
     t \<noteq> []
     \<and> (let trimmed = js_trim t
        in take 1 trimmed = [CHR ''{''] \<and> last trimmed = CHR ''}'' \<and> JSON_parse trimmed \<noteq> None)"

lemma js_trim_head:
  assumes "\<not> is_js_space c"
  shows "\<exists>u. js_trim (c # t) = c # u"
proof (cases "\<exists>x\<in>set t. \<not> is_js_space x")
  case True
  then have "js_trim (c # t) = c # rev (dropWhile is_js_space (rev t))"
    using assms by (auto simp: js_trim_def dropWhile_append)
  then show ?thesis by blast
next
  case False
  then show ?thesis using assms by (auto simp: js_trim_def dropWhile_append)
qed

lemma print_not_object:
  assumes "\<And>ms. v \<noteq> JObj ms" and "wf_json v"
  shows "\<not> isValidJsonObject (print_json nl sp d v)"
proof -
  have "\<exists>c t. print_json nl sp d v = c # t \<and> \<not> is_js_space c \<and> c \<noteq> CHR ''{''"
  proof (cases v)
    case (JNum n)
    then have "n \<noteq> NaN" using assms(2) by auto
    with show_num_head [of n] JNum show ?thesis by (auto simp: is_js_space_def is_digit_def)
  qed (use assms(1) in \<open>auto simp: is_js_space_def json_quote_def\<close>)
  then obtain c t where p: "print_json nl sp d v = c # t" "\<not> is_js_space c" "c \<noteq> CHR ''{''" by blast
  obtain u where "js_trim (c # t) = c # u" using js_trim_head [OF p(2)] by blast
  then show ?thesis using p by (simp add: isValidJsonObject_def Let_def)
qed

end
