(* ===== verification/Produce.thy ===== *)
theory Produce
  imports Hooks JsonText
begin

text \<open>
  Producing a message to a topic (\<open>frontend/src/components/Topics/Topic/SendMessage\<close>,
  \<open>lib/hooks/useProduceMessage.ts\<close> and the side bar of \<open>Topic.tsx\<close>): the defaults of the form, the validation of
  what is typed, the request, and reproducing a message that was consumed. The generator of
  example values (\<open>json-schema-faker\<close>) and the validator of JSON schemas (\<open>ajv\<close>) are parameters: \<open>gen\<close> gives an example
  for a schema or fails, \<open>chk\<close> gives the errors of a value, or the text of the error that it throws.
\<close>

section \<open>Serdes and schemas\<close>

record SerdeParameter =
  sp_name :: string
  sp_visibleName :: "string option"
  sp_allowedValues :: "string list option"

record SerdeDescription =
  sd_name :: "string option"
  sd_preferred :: "bool option"
  sd_schema :: "string option"
  sd_parameters :: "SerdeParameter list option"

record TopicSerdeSuggestion =
  ss_key :: "SerdeDescription list option"
  ss_value :: "SerdeDescription list option"

type_synonym generator = "json \<Rightarrow> json option"

datatype ajv_version = Ajv | Ajv2019 | Ajv2020 | AjvDraft6 | AjvDraft4

type_synonym validator = "ajv_version \<Rightarrow> json \<Rightarrow> json \<Rightarrow> string + (string \<times> string) list"

definition or_empty :: "'a list option \<Rightarrow> 'a list" where
  "or_empty v = (case v of Some xs \<Rightarrow> xs | None \<Rightarrow> [])"

text \<open>The outer option is \<open>None\<close> when the generator or the parser of the schema throws.\<close>

definition generateValueFromSchema :: "generator \<Rightarrow> SerdeDescription option \<Rightarrow> string option option" where
  "generateValueFromSchema gen preferred =
     (case Option.bind preferred sd_schema of
        None \<Rightarrow> Some None
      | Some schema \<Rightarrow>
          if schema = [] then Some None
          else Option.bind (JSON_parse schema) (\<lambda>j. map_option (\<lambda>v. Some (js_stringify v)) (gen j)))"

definition getPreferredDescription :: "SerdeDescription list \<Rightarrow> SerdeDescription option" where
  "getPreferredDescription serdes = find (\<lambda>s. sd_preferred s = Some True) serdes"

definition find_serde :: "string \<Rightarrow> SerdeDescription list option \<Rightarrow> SerdeDescription option" where
  "find_serde n serdes = find (\<lambda>s. sd_name s = Some n) (or_empty serdes)"

definition getSerdeParameters :: "string option \<Rightarrow> SerdeDescription list option \<Rightarrow> SerdeParameter list" where
  "getSerdeParameters serdeName serdeList =
     (if \<not> truthy serdeName then []
      else or_empty (Option.bind (find_serde (the serdeName) serdeList) sd_parameters))"

definition getPartitionOptions :: "int list \<Rightarrow> (string \<times> int) list" where
  "getPartitionOptions partitions = map (\<lambda>p. (''Partition #'' @ show_int p, p)) partitions"

definition getSerdeOptions :: "SerdeDescription list \<Rightarrow> (string \<times> string) list" where
  "getSerdeOptions items =
     fold (\<lambda>s acc. if truthy (sd_name s) then acc @ [(the (sd_name s), the (sd_name s))] else acc) items []"

definition js_upper :: "char \<Rightarrow> char" where
  "js_upper c = (let n = of_char c :: nat in if 97 \<le> n \<and> n \<le> 122 then char_of (n - 32) else c)"

definition upperFirst :: "string \<Rightarrow> string" where
  "upperFirst str = map js_upper (take 1 str) @ drop 1 str"

definition getAjvVersionForSchemaRef :: "json option \<Rightarrow> ajv_version" where
  "getAjvVersionForSchemaRef schemaRef =
     (if schemaRef = Some (JStr ''https://json-schema.org/draft/2019-09/schema'') then Ajv2019
      else if schemaRef = Some (JStr ''https://json-schema.org/draft/2020-12/schema'') then Ajv2020
      else if schemaRef = Some (JStr ''http://json-schema.org/draft-06/schema#'') then AjvDraft6
      else if schemaRef = Some (JStr ''http://json-schema.org/draft-04/schema#'') then AjvDraft4
      else Ajv)"

text \<open>\<open>None\<close>: the schema is \<open>null\<close>, whose member is read outside every \<open>try\<close>.\<close>

definition validateBySchema :: "validator \<Rightarrow> string option \<Rightarrow> string option \<Rightarrow> string \<Rightarrow> string list option" where
  "validateBySchema chk v schema type =
     (if \<not> truthy v \<or> \<not> truthy schema then Some []
      else case JSON_parse (the schema) of
        None \<Rightarrow> Some [''Error in parsing the \"'' @ type @ ''\" field schema'']
      | Some parsedSchema \<Rightarrow>
          if parsedSchema = JNull then None
          else if member parsedSchema ''type'' = Some (JStr ''string'') then Some []
          else (case JSON_parse (the v) of
            None \<Rightarrow> Some [''Error in parsing the \"'' @ type @ ''\" field value'']
          | Some parsedValue \<Rightarrow>
              (case chk (getAjvVersionForSchemaRef (member parsedSchema ''$schema'')) parsedSchema parsedValue of
                 Inl message \<Rightarrow> Some [upperFirst type @ '' '' @ message]
               | Inr errors \<Rightarrow>
                   Some (map (\<lambda>(schemaPath, message). replace_first ''#'' (upperFirst type) schemaPath @ '' - '' @ message) errors))))"

section \<open>The form\<close>

record MessageFormData =
  fm_key :: "string option"
  fm_content :: "string option"
  fm_headers :: "string option"
  fm_partition :: int
  fm_keySerde :: "string option"
  fm_valueSerde :: "string option"
  fm_keySerdeParams :: "(string \<times> string) list option"
  fm_valueSerdeParams :: "(string \<times> string) list option"
  fm_keepContents :: bool

text \<open>A partial form: a missing member keeps what it is spread over.\<close>

record message_draft =
  md_content :: string
  md_key :: "string option"
  md_headers :: "string option"
  md_partition :: "int option"
  md_valueSerde :: "string option"
  md_keySerde :: "string option"
  md_keySerdeParams :: "(string \<times> string) list option"
  md_valueSerdeParams :: "(string \<times> string) list option"

text \<open>The members of a consumed message that the form takes over.\<close>

record TopicMessage =
  tm_value :: "string option"
  tm_key :: "string option"
  tm_headers :: "(string \<times> json) list option"
  tm_partition :: "int option"
  tm_valueSerde :: "string option"
  tm_keySerde :: "string option"
  tm_keyDeserializeProperties :: "json option"
  tm_valueDeserializeProperties :: "json option"

text \<open>\<open>properties?.subjects?.[0]\<close>, if it is truthy, as a text.\<close>

definition first_subject :: "json option \<Rightarrow> string option" where
  "first_subject properties =
     (case Option.bind (Option.bind properties (\<lambda>p. member p ''subjects''))
        (\<lambda>s. case s of
               JArr xs \<Rightarrow> (if xs = [] then None else Some (hd xs))
             | JStr w \<Rightarrow> (if w = [] then None else Some (JStr [hd w]))
             | x \<Rightarrow> member x ''0'') of
        Some x \<Rightarrow> if js_truthy x then Some (js_String x) else None
      | None \<Rightarrow> None)"

definition non_empty :: "string option \<Rightarrow> string option" where
  "non_empty v = (if truthy v then v else None)"

definition setMessage :: "TopicMessage \<Rightarrow> message_draft" where
  "setMessage message =
     \<lparr>md_content = (case tm_value message of Some v \<Rightarrow> v | None \<Rightarrow> []),
      md_key = non_empty (tm_key message),
      md_headers = (case tm_headers message of
          Some hs \<Rightarrow> if hs \<noteq> [] then Some (js_stringify_indent 2 (JObj hs)) else None
        | None \<Rightarrow> None),
      md_partition = tm_partition message,
      md_valueSerde = non_empty (tm_valueSerde message),
      md_keySerde = non_empty (tm_keySerde message),
      md_keySerdeParams = map_option (\<lambda>s. [(''subject'', s)]) (first_subject (tm_keyDeserializeProperties message)),
      md_valueSerdeParams = map_option (\<lambda>s. [(''subject'', s)]) (first_subject (tm_valueDeserializeProperties message))\<rparr>"

text \<open>What the form reads from queries and from the address.\<close>

record form_env =
  fe_serdes :: TopicSerdeSuggestion
  fe_partitions :: "int list"
  fe_urlKeySerde :: "string option"
  fe_urlValueSerde :: "string option"

text \<open>The example values and names of the preferred serdes; headers and partition are undefined.\<close>

record default_values =
  dv_key :: "string option"
  dv_content :: "string option"
  dv_keySerde :: "string option"
  dv_valueSerde :: "string option"

definition getDefaultValues :: "generator \<Rightarrow> TopicSerdeSuggestion \<Rightarrow> default_values option" where
  "getDefaultValues gen serdes =
     (let keySerde = getPreferredDescription (or_empty (ss_key serdes));
          valueSerde = getPreferredDescription (or_empty (ss_value serdes))
      in Option.bind (generateValueFromSchema gen keySerde) (\<lambda>k.
         map_option (\<lambda>v. \<lparr>dv_key = k, dv_content = v, dv_keySerde = Option.bind keySerde sd_name,
           dv_valueSerde = Option.bind valueSerde sd_name\<rparr>) (generateValueFromSchema gen valueSerde)))"

definition over :: "'a option \<Rightarrow> 'a option \<Rightarrow> 'a option" where
  "over new old = (if new = None then old else new)"

definition formDefaults :: "default_values \<Rightarrow> form_env \<Rightarrow> message_draft option \<Rightarrow> MessageFormData" where
  "formDefaults d e messageData =
     \<lparr>fm_key = over (Option.bind messageData md_key) (dv_key d),
      fm_content = over (map_option md_content messageData) (dv_content d),
      fm_headers = Option.bind messageData md_headers,
      fm_partition = (case Option.bind messageData md_partition of Some p \<Rightarrow> p | None \<Rightarrow> if fe_partitions e = [] then 0 else hd (fe_partitions e)),
      fm_keySerde = over (Option.bind messageData md_keySerde) (over (non_empty (fe_urlKeySerde e)) (dv_keySerde d)),
      fm_valueSerde = over (Option.bind messageData md_valueSerde) (over (non_empty (fe_urlValueSerde e)) (dv_valueSerde d)),
      fm_keySerdeParams = Option.bind messageData md_keySerdeParams,
      fm_valueSerdeParams = Option.bind messageData md_valueSerdeParams,
      fm_keepContents = False\<rparr>"

section \<open>Submission\<close>

text \<open>The body of the request; a missing member of a model is undefined.\<close>

definition null_or :: "string option \<Rightarrow> jsval" where
  "null_or v = (if truthy v then VStr (the v) else VNull)"

definition serde_properties :: "string \<Rightarrow> (string \<times> string) list option \<Rightarrow> (string \<times> jsval) list" where
  "serde_properties n params =
     (if or_empty params = [] then [] else [(n, VObj (map (\<lambda>(k, v). (k, VStr v)) (or_empty params)))])"

definition message_body :: "MessageFormData \<Rightarrow> jsval \<Rightarrow> jsval" where
  "message_body f parsedHeaders = VObj (
     [(''key'', null_or (fm_key f)), (''value'', null_or (fm_content f)), (''headers'', parsedHeaders),
      (''partition'', VNum (Dec (fm_partition f) 0)),
      (''keySerde'', opt_jsval VStr (fm_keySerde f)), (''valueSerde'', opt_jsval VStr (fm_valueSerde f))]
     @ serde_properties ''keySerdeProperties'' (fm_keySerdeParams f)
     @ serde_properties ''valueSerdeProperties'' (fm_valueSerdeParams f))"

definition serde_errors :: "validator \<Rightarrow> string option \<Rightarrow> SerdeDescription list option \<Rightarrow> string option \<Rightarrow> string \<Rightarrow> string list option" where
  "serde_errors chk serde serdes v type =
     (if truthy serde then validateBySchema chk v (Option.bind (find_serde (the serde) serdes) sd_schema) type else Some [])"

datatype submission = Throws | Invalid "string list" | Send jsval

definition submit :: "validator \<Rightarrow> TopicSerdeSuggestion \<Rightarrow> MessageFormData \<Rightarrow> submission" where
  "submit chk serdes f =
     (case serde_errors chk (fm_keySerde f) (ss_key serdes) (fm_key f) ''key'' of
        None \<Rightarrow> Throws
      | Some errors \<Rightarrow>
          (case serde_errors chk (fm_valueSerde f) (ss_value serdes) (fm_content f) ''content'' of
             None \<Rightarrow> Throws
           | Some content_errors \<Rightarrow>
               (let parsed = (if truthy (fm_headers f) then map_option of_json (JSON_parse (the (fm_headers f))) else Some VUndef);
                    all = errors @ content_errors @ (if parsed = None then [''Wrong header format''] else [])
                in if all \<noteq> [] then Invalid all else Send (message_body f (the parsed)))))"

definition validation_alert :: "string \<Rightarrow> string \<Rightarrow> string list \<Rightarrow> alert" where
  "validation_alert clusterName topicName errors =
     \<lparr>al_type = ''error'', al_id = Some (clusterName @ ''-'' @ topicName @ ''-createTopicMessageError''),
      al_title = ''Validation Error'', al_message = JArr (map JStr errors)\<rparr>"

section \<open>The side bar of the topic page\<close>

text \<open>
  The form reads its defaults when it is mounted and not again, and it is mounted anew only when its React key
  changes, which says whether there is a message to reproduce. The bar is hidden by style, with
  the form still mounted. A request in flight remembers the form that it came from; the button is
  disabled while this form has one.
\<close>

record in_flight =
  if_mount :: nat
  if_keep :: bool
  if_key :: string
  if_content :: string

record topic_sidebar =
  messageData :: "message_draft option"
  isSidebarOpen :: bool
  mount_count :: nat
  shown_form :: "MessageFormData option"
  form_source :: form_env
  requests :: "jsval list"
  in_flights :: "in_flight list"
  shown_toasts :: "alert list"

definition mount_form :: "generator \<Rightarrow> topic_sidebar \<Rightarrow> topic_sidebar" where
  "mount_form gen s =
     s\<lparr>mount_count := mount_count s + 1,
       shown_form := map_option (\<lambda>d. formDefaults d (form_source s) (messageData s)) (getDefaultValues gen (fe_serdes (form_source s)))\<rparr>"

definition set_message_data :: "generator \<Rightarrow> message_draft option \<Rightarrow> topic_sidebar \<Rightarrow> topic_sidebar" where
  "set_message_data gen d s =
     (let s' = s\<lparr>messageData := d\<rparr>
      in if (d = None) = (messageData s = None) then s' else mount_form gen s')"

definition openSidebarWithMessage :: "generator \<Rightarrow> TopicMessage \<Rightarrow> topic_sidebar \<Rightarrow> topic_sidebar" where
  "openSidebarWithMessage gen message s = (set_message_data gen (Some (setMessage message)) s)\<lparr>isSidebarOpen := True\<rparr>"

definition handleCloseSidebar :: "generator \<Rightarrow> topic_sidebar \<Rightarrow> topic_sidebar" where
  "handleCloseSidebar gen s = (set_message_data gen None s)\<lparr>isSidebarOpen := False\<rparr>"

datatype form_edit =
  EKey string | EContent string | EHeaders string | EPartition int | EKeySerde string | EValueSerde string
  | EKeyParam string string | EValueParam string string | EKeep bool

definition set_param :: "string \<Rightarrow> string \<Rightarrow> (string \<times> string) list option \<Rightarrow> (string \<times> string) list option" where
  "set_param n v params = Some (AList.update n v (or_empty params))"

text \<open>Another serde drops the parameters of the one before.\<close>

fun edit_form :: "form_edit \<Rightarrow> MessageFormData \<Rightarrow> MessageFormData" where
  "edit_form (EKey v) f = f\<lparr>fm_key := Some v\<rparr>"
| "edit_form (EContent v) f = f\<lparr>fm_content := Some v\<rparr>"
| "edit_form (EHeaders v) f = f\<lparr>fm_headers := Some v\<rparr>"
| "edit_form (EPartition p) f = f\<lparr>fm_partition := p\<rparr>"
| "edit_form (EKeySerde n) f =
     (if fm_keySerde f = Some n then f else f\<lparr>fm_keySerde := Some n, fm_keySerdeParams := None\<rparr>)"
| "edit_form (EValueSerde n) f =
     (if fm_valueSerde f = Some n then f else f\<lparr>fm_valueSerde := Some n, fm_valueSerdeParams := None\<rparr>)"
| "edit_form (EKeyParam n v) f = f\<lparr>fm_keySerdeParams := set_param n v (fm_keySerdeParams f)\<rparr>"
| "edit_form (EValueParam n v) f = f\<lparr>fm_valueSerdeParams := set_param n v (fm_valueSerdeParams f)\<rparr>"
| "edit_form (EKeep b) f = f\<lparr>fm_keepContents := b\<rparr>"

text \<open>The parameters that get an input, with their labels and options.\<close>

definition renderParameters :: "SerdeParameter list \<Rightarrow> (string \<times> string \<times> string list) list" where
  "renderParameters parameters =
     map (\<lambda>p. (sp_name p, if truthy (sp_visibleName p) then the (sp_visibleName p) else sp_name p, or_empty (sp_allowedValues p)))
       (filter (\<lambda>p. or_empty (sp_allowedValues p) \<noteq> []) parameters)"

definition isSubmitting :: "topic_sidebar \<Rightarrow> bool" where
  "isSubmitting s \<longleftrightarrow> list_ex (\<lambda>r. if_mount r = mount_count s) (in_flights s)"

definition offered :: "topic_sidebar \<Rightarrow> MessageFormData \<Rightarrow> form_edit \<Rightarrow> bool" where
  "offered s f e =
     (let serdes = fe_serdes (form_source s)
      in case e of
           EPartition p \<Rightarrow> p \<in> snd ` set (getPartitionOptions (fe_partitions (form_source s)))
         | EKeySerde n \<Rightarrow> n \<in> snd ` set (getSerdeOptions (or_empty (ss_key serdes)))
         | EValueSerde n \<Rightarrow> n \<in> snd ` set (getSerdeOptions (or_empty (ss_value serdes)))
         | EKeyParam n v \<Rightarrow> n \<in> fst ` set (renderParameters (getSerdeParameters (fm_keySerde f) (ss_key serdes)))
         | EValueParam n v \<Rightarrow> n \<in> fst ` set (renderParameters (getSerdeParameters (fm_valueSerde f) (ss_value serdes)))
         | EKeep b \<Rightarrow> True
         | _ \<Rightarrow> \<not> isSubmitting s)"

definition default_text :: "string option \<Rightarrow> string" where
  "default_text v = (if truthy v then the v else [])"

definition press_submit :: "generator \<Rightarrow> validator \<Rightarrow> string \<Rightarrow> string \<Rightarrow> topic_sidebar \<Rightarrow> topic_sidebar" where
  "press_submit gen chk clusterName topicName s =
     (case (shown_form s, getDefaultValues gen (fe_serdes (form_source s))) of
        (Some f, Some d) \<Rightarrow>
          if isSubmitting s then s
          else (case submit chk (fe_serdes (form_source s)) f of
             Throws \<Rightarrow> s
           | Invalid errors \<Rightarrow> s\<lparr>shown_toasts := showAlert (validation_alert clusterName topicName errors) (shown_toasts s)\<rparr>
           | Send x \<Rightarrow>
               s\<lparr>requests := requests s @ [x],
                 in_flights := in_flights s @ [\<lparr>if_mount = mount_count s, if_keep = fm_keepContents f,
                   if_key = default_text (dv_key d), if_content = default_text (dv_content d)\<rparr>]\<rparr>)
      | _ \<Rightarrow> s)"

text \<open>The request number \<open>i\<close> in flight is answered. The form it came from may be gone.\<close>

definition settle :: "string \<Rightarrow> string \<Rightarrow> nat \<Rightarrow> bool \<Rightarrow> thrown option \<Rightarrow> topic_sidebar \<Rightarrow> topic_sidebar" where
  "settle clusterName topicName i first_last failure s =
     (if length (in_flights s) \<le> i then s
      else
        let r = in_flights s ! i;
            s1 = s\<lparr>in_flights := take i (in_flights s) @ drop (Suc i) (in_flights s)\<rparr>
        in case failure of
             Some e \<Rightarrow> s1\<lparr>shown_toasts := mutation_failed first_last e (shown_toasts s)\<rparr>
           | None \<Rightarrow>
               (let s2 = s1\<lparr>shown_toasts := (case announced (useSendMessage clusterName topicName VUndef) of
                                Some a \<Rightarrow> showAlert a (shown_toasts s) | None \<Rightarrow> shown_toasts s)\<rparr>
                in if if_keep r then s2
                   else s2\<lparr>isSidebarOpen := False,
                           shown_form := (if if_mount r = mount_count s
                             then map_option (\<lambda>f. f\<lparr>fm_key := Some (if_key r), fm_content := Some (if_content r)\<rparr>) (shown_form s)
                             else shown_form s)\<rparr>))"

datatype sidebar_event =
  ProduceMessage | Reproduce TopicMessage | CloseIcon | Edit form_edit | PressSubmit
  | Settled nat bool "thrown option" | Loaded form_env

text \<open>New results of the queries do not reach the form, but an example that cannot be made breaks it.\<close>

fun sidebar_step :: "generator \<Rightarrow> validator \<Rightarrow> string \<Rightarrow> string \<Rightarrow> sidebar_event \<Rightarrow> topic_sidebar \<Rightarrow> topic_sidebar" where
  "sidebar_step gen chk c t ProduceMessage s = s\<lparr>isSidebarOpen := True\<rparr>"
| "sidebar_step gen chk c t (Reproduce m) s = openSidebarWithMessage gen m s"
| "sidebar_step gen chk c t CloseIcon s = handleCloseSidebar gen s"
| "sidebar_step gen chk c t (Edit e) s =
     (case shown_form s of
        Some f \<Rightarrow> if isSidebarOpen s \<and> offered s f e then s\<lparr>shown_form := Some (edit_form e f)\<rparr> else s
      | None \<Rightarrow> s)"
| "sidebar_step gen chk c t PressSubmit s = (if isSidebarOpen s then press_submit gen chk c t s else s)"
| "sidebar_step gen chk c t (Settled i first_last failure) s = settle c t i first_last failure s"
| "sidebar_step gen chk c t (Loaded e) s =
     s\<lparr>form_source := e, shown_form := (if getDefaultValues gen (fe_serdes e) = None then None else shown_form s)\<rparr>"

definition sidebar_start :: "generator \<Rightarrow> form_env \<Rightarrow> topic_sidebar" where
  "sidebar_start gen e =
     mount_form gen \<lparr>messageData = None, isSidebarOpen = False, mount_count = 0, shown_form = None, form_source = e,
       requests = [], in_flights = [], shown_toasts = []\<rparr>"

section \<open>What is promised\<close>

text \<open>
  A text is acceptable for the serde of this name: a serde with a schema asks that the schema can be read and that the text
  is JSON on which the validator reports no error; schemas of strings ask nothing.
\<close>

definition acceptable :: "validator \<Rightarrow> SerdeDescription list option \<Rightarrow> string option \<Rightarrow> string option \<Rightarrow> bool" where
  "acceptable chk serdes serde v \<longleftrightarrow>
     \<not> truthy serde \<or> \<not> truthy v \<or>
     (case Option.bind (find_serde (the serde) serdes) sd_schema of
        None \<Rightarrow> True
      | Some schema \<Rightarrow> schema = [] \<or>
          (case JSON_parse schema of
             None \<Rightarrow> False
           | Some j \<Rightarrow> j \<noteq> JNull \<and>
               (member j ''type'' = Some (JStr ''string'') \<or>
                (case JSON_parse (the v) of
                   None \<Rightarrow> False
                 | Some w \<Rightarrow> chk (getAjvVersionForSchemaRef (member j ''$schema'')) j w = Inr []))))"

definition headers_of :: "string option \<Rightarrow> jsval option" where
  "headers_of headers = (if truthy headers then map_option of_json (JSON_parse (the headers)) else Some VUndef)"

lemma serde_errors_empty: "serde_errors chk serde serdes v type = Some [] \<longleftrightarrow> acceptable chk serdes serde v"
  unfolding serde_errors_def acceptable_def validateBySchema_def
  by (cases "Option.bind (find_serde (the serde) serdes) sd_schema")
    (auto simp: truthy_def split: option.splits sum.splits)

lemma submit_Send:
  "submit chk serdes f = Send x \<longleftrightarrow>
     acceptable chk (ss_key serdes) (fm_keySerde f) (fm_key f)
     \<and> acceptable chk (ss_value serdes) (fm_valueSerde f) (fm_content f)
     \<and> (\<exists>h. headers_of (fm_headers f) = Some h \<and> x = message_body f h)"
  unfolding serde_errors_empty [of chk "fm_keySerde f" "ss_key serdes" "fm_key f" "''key''", symmetric]
    serde_errors_empty [of chk "fm_valueSerde f" "ss_value serdes" "fm_content f" "''content''", symmetric] submit_def headers_of_def [symmetric]
  by (auto simp: Let_def split: option.splits)

section \<open>One request per form, and only for acceptable messages\<close>

definition one_request_per_form :: "topic_sidebar \<Rightarrow> bool" where
  "one_request_per_form s \<longleftrightarrow>
     distinct (map if_mount (in_flights s)) \<and> list_all (\<lambda>r. if_mount r \<le> mount_count s) (in_flights s)"

definition sent_because :: "validator \<Rightarrow> sidebar_event \<Rightarrow> topic_sidebar \<Rightarrow> jsval \<Rightarrow> bool" where
  "sent_because chk e s x \<longleftrightarrow>
     e = PressSubmit \<and> (\<exists>f. shown_form s = Some f \<and> submit chk (fe_serdes (form_source s)) f = Send x)"

lemma set_message_data_frame:
  "requests (set_message_data gen d s) = requests s" "in_flights (set_message_data gen d s) = in_flights s"
  "mount_count s \<le> mount_count (set_message_data gen d s)"
  by (simp_all add: set_message_data_def mount_form_def Let_def)

lemma settle_frame:
  "requests (settle c t i first_last failure s) = requests s" "mount_count (settle c t i first_last failure s) = mount_count s"
  by (simp_all add: settle_def Let_def split: option.splits)

lemma settle_flights:
  "in_flights (settle c t i first_last failure s) =
    (if length (in_flights s) \<le> i then in_flights s else take i (in_flights s) @ drop (Suc i) (in_flights s))"
  by (simp add: settle_def Let_def split: option.splits)

lemma distinct_removed: "distinct (map f xs) \<Longrightarrow> distinct (map f (take i xs @ drop (Suc i) xs))"
proof -
  assume d: "distinct (map f xs)"
  show ?thesis
  proof (cases "i < length xs")
    case True
    then have "map f xs = map f (take i xs) @ f (xs ! i) # map f (drop (Suc i) xs)"
      by (metis id_take_nth_drop list.simps(9) map_append)
    with d show ?thesis by simp
  qed (use d in simp)
qed

lemma one_request_submitted:
  "one_request_per_form s \<Longrightarrow> one_request_per_form (press_submit gen chk c t s)"
  by (auto simp: press_submit_def one_request_per_form_def isSubmitting_def list_all_iff list_ex_iff
      split: option.splits submission.splits)

lemma one_request_step:
  assumes "one_request_per_form s"
  shows "one_request_per_form (sidebar_step gen chk c t e s)"
proof (cases e)
  case PressSubmit
  with assms one_request_submitted show ?thesis by simp
next
  case (Settled i first_last failure)
  have "set (take i (in_flights s) @ drop (Suc i) (in_flights s)) \<subseteq> set (in_flights s)"
    by (auto dest: in_set_takeD in_set_dropD)
  with assms Settled show ?thesis
    by (auto simp: one_request_per_form_def settle_frame settle_flights list_all_iff simp del: map_append
        intro: distinct_removed dest: in_set_takeD in_set_dropD)
qed (use assms set_message_data_frame in \<open>auto simp: one_request_per_form_def openSidebarWithMessage_def
  handleCloseSidebar_def list_all_iff intro: le_trans split: option.split\<close>)

lemma request_step:
  "\<exists>new. requests (sidebar_step gen chk c t e s) = requests s @ new \<and> list_all (sent_because chk e s) new"
proof (cases e)
  case PressSubmit
  then show ?thesis
    by (auto simp: press_submit_def sent_because_def split: option.splits submission.splits)
qed (auto simp: openSidebarWithMessage_def handleCloseSidebar_def set_message_data_frame settle_frame split: option.split)

interpretation sidebar: logging_machine "sidebar_step gen chk c t" "\<lambda>e. True" one_request_per_form requests "sent_because chk"
  for gen chk c t
  by unfold_locales (simp_all add: one_request_step request_step)

lemma one_request_start: "one_request_per_form (sidebar_start gen e)"
  by (simp add: one_request_per_form_def sidebar_start_def mount_form_def)

lemma one_request_run: "one_request_per_form (fold (sidebar_step gen chk c t) es (sidebar_start gen e))"
  by (rule sidebar.inv_run [OF _ one_request_start]) (simp add: list_all_iff)

section \<open>Reproduced messages\<close>

text \<open>A complete message whose texts are acceptable.\<close>

definition complete_message :: "TopicMessage \<Rightarrow> bool" where
  "complete_message m \<longleftrightarrow>
     truthy (tm_key m) \<and> truthy (tm_value m) \<and> tm_partition m \<noteq> None \<and> truthy (tm_keySerde m) \<and> truthy (tm_valueSerde m)
     \<and> wf_json (JObj (or_empty (tm_headers m)))"

definition acceptable_message :: "validator \<Rightarrow> TopicSerdeSuggestion \<Rightarrow> TopicMessage \<Rightarrow> bool" where
  "acceptable_message chk serdes m \<longleftrightarrow>
     acceptable chk (ss_key serdes) (tm_keySerde m) (tm_key m) \<and> acceptable chk (ss_value serdes) (tm_valueSerde m) (tm_value m)"

definition subject_params :: "string \<Rightarrow> json option \<Rightarrow> (string \<times> jsval) list" where
  "subject_params n properties =
     (case first_subject properties of Some s \<Rightarrow> [(n, VObj [(''subject'', VStr s)])] | None \<Rightarrow> [])"

text \<open>The request that says what the message says.\<close>

definition same_message :: "TopicMessage \<Rightarrow> jsval" where
  "same_message m = VObj (
     [(''key'', VStr (the (tm_key m))), (''value'', VStr (the (tm_value m))),
      (''headers'', if or_empty (tm_headers m) = [] then VUndef else of_json (JObj (or_empty (tm_headers m)))),
      (''partition'', VNum (Dec (the (tm_partition m)) 0)),
      (''keySerde'', VStr (the (tm_keySerde m))), (''valueSerde'', VStr (the (tm_valueSerde m)))]
     @ subject_params ''keySerdeProperties'' (tm_keyDeserializeProperties m)
     @ subject_params ''valueSerdeProperties'' (tm_valueDeserializeProperties m))"

lemma truthy_Some: "truthy v \<Longrightarrow> \<exists>c w. v = Some (c # w)"
  by (cases v) (auto simp: truthy_def neq_Nil_conv)

lemma stringify_indent_nonempty [simp]: "js_stringify_indent gap (JObj hs) \<noteq> []"
  by (simp add: js_stringify_indent_def)

lemma headers_of_message:
  "wf_json (JObj (or_empty hs)) \<Longrightarrow>
   headers_of (case hs of Some hs \<Rightarrow> if hs \<noteq> [] then Some (js_stringify_indent 2 (JObj hs)) else None | None \<Rightarrow> None)
     = Some (if or_empty hs = [] then VUndef else of_json (JObj (or_empty hs)))"
proof (cases hs)
  case (Some ms)
  assume "wf_json (JObj (or_empty hs))"
  with Some have "JSON_parse (js_stringify_indent 2 (JObj ms)) = Some (JObj ms)"
    by (intro json_pretty.dec_enc) (simp add: or_empty_def)
  with Some show ?thesis by (simp add: headers_of_def truthy_def or_empty_def)
qed (simp add: headers_of_def truthy_def or_empty_def)

lemma subject_body:
  "serde_properties n (map_option (\<lambda>s. [(''subject'', s)]) (first_subject p)) = subject_params n p"
  by (simp add: serde_properties_def subject_params_def or_empty_def split: option.split)

lemma reproduced_form:
  assumes "complete_message m" and "acceptable_message chk serdes m"
  shows "submit chk serdes (formDefaults d e (Some (setMessage m))) = Send (same_message m)"
proof -
  let ?f = "formDefaults d e (Some (setMessage m))"
  have c: "truthy (tm_key m)" "truthy (tm_value m)" "tm_partition m \<noteq> None" "truthy (tm_keySerde m)" "truthy (tm_valueSerde m)"
    "wf_json (JObj (or_empty (tm_headers m)))" using assms(1) by (auto simp: complete_message_def)
  then have f: "fm_key ?f = tm_key m" "fm_content ?f = tm_value m" "fm_keySerde ?f = tm_keySerde m"
    "fm_valueSerde ?f = tm_valueSerde m" "fm_partition ?f = the (tm_partition m)"
    by (auto simp: formDefaults_def setMessage_def over_def non_empty_def dest!: truthy_Some)
  have h: "headers_of (fm_headers ?f) = Some (if or_empty (tm_headers m) = [] then VUndef else of_json (JObj (or_empty (tm_headers m))))"
    using headers_of_message [OF c(6)] by (simp add: formDefaults_def setMessage_def)
  have p: "fm_keySerdeParams ?f = map_option (\<lambda>s. [(''subject'', s)]) (first_subject (tm_keyDeserializeProperties m))"
    "fm_valueSerdeParams ?f = map_option (\<lambda>s. [(''subject'', s)]) (first_subject (tm_valueDeserializeProperties m))"
    by (simp_all add: formDefaults_def setMessage_def)
  have "message_body ?f (the (headers_of (fm_headers ?f))) = same_message m"
    using c by (simp only: message_body_def same_message_def f h p subject_body null_or_def opt_jsval_def if_True option.sel)
      (auto dest!: truthy_Some)
  with h assms(2) f show ?thesis by (simp add: submit_Send acceptable_message_def del: of_json.simps)
qed

text \<open>What a page shows after the first reproduction.\<close>

lemma first_reproduction:
  assumes "messageData s = None" "getDefaultValues gen (fe_serdes (form_source s)) = Some d"
  shows "sidebar_step gen chk c t (Reproduce m) s =
    s\<lparr>messageData := Some (setMessage m), mount_count := mount_count s + 1,
      shown_form := Some (formDefaults d (form_source s) (Some (setMessage m))), isSidebarOpen := True\<rparr>"
  using assms by (simp add: openSidebarWithMessage_def set_message_data_def mount_form_def)

lemma submit_after_reproduction:
  assumes "one_request_per_form s" "messageData s = None" "getDefaultValues gen (fe_serdes (form_source s)) = Some d"
    and "complete_message m" "acceptable_message chk (fe_serdes (form_source s)) m"
  shows "fold (sidebar_step gen chk c t) [Reproduce m, PressSubmit] s =
    (sidebar_step gen chk c t (Reproduce m) s)\<lparr>requests := requests s @ [same_message m],
      in_flights := in_flights s @ [\<lparr>if_mount = mount_count s + 1, if_keep = False,
        if_key = default_text (dv_key d), if_content = default_text (dv_content d)\<rparr>]\<rparr>"
proof -
  have "\<not> list_ex (\<lambda>r. if_mount r = mount_count s + 1) (in_flights s)"
    using assms(1) by (auto simp: one_request_per_form_def list_all_iff list_ex_iff)
  moreover have "\<not> fm_keepContents (formDefaults d e dr)" for e dr by (simp add: formDefaults_def)
  ultimately show ?thesis
    by (simp add: first_reproduction [OF assms(2,3)] press_submit_def isSubmitting_def assms(3) reproduced_form [OF assms(4,5)]
        del: sidebar_step.simps(2))
qed

text \<open>A second reproduction does not reach the form while there is a message.\<close>

lemma later_reproduction:
  "messageData s \<noteq> None \<Longrightarrow>
   sidebar_step gen chk c t (Reproduce m) s = s\<lparr>messageData := Some (setMessage m), isSidebarOpen := True\<rparr>"
  by (simp add: openSidebarWithMessage_def set_message_data_def)

section \<open>Properties\<close>

text \<open>
  C24. Whatever is done on the topic page, a message is only sent by a press of the button on a form whose key and
  value are acceptable for the serdes that it names and whose headers are empty or JSON; and the request
  has exactly the form's contents.
\<close>

theorem produced_messages_are_acceptable:
  assumes "x \<in> set (requests (fold (sidebar_step gen chk c t) es (sidebar_start gen e)))"
  shows "\<exists>pre post s f h. es = pre @ PressSubmit # post
    \<and> s = fold (sidebar_step gen chk c t) pre (sidebar_start gen e)
    \<and> shown_form s = Some f
    \<and> acceptable chk (ss_key (fe_serdes (form_source s))) (fm_keySerde f) (fm_key f)
    \<and> acceptable chk (ss_value (fe_serdes (form_source s))) (fm_valueSerde f) (fm_content f)
    \<and> headers_of (fm_headers f) = Some h
    \<and> x = message_body f h"
proof -
  have "x \<notin> set (requests (sidebar_start gen e))" by (simp add: sidebar_start_def mount_form_def)
  with sidebar.logged [OF _ one_request_start assms] obtain pre ev post
    where "es = pre @ ev # post" "sent_because chk ev (fold (sidebar_step gen chk c t) pre (sidebar_start gen e)) x"
    by (auto simp: list_all_iff)
  then show ?thesis unfolding sent_because_def submit_Send by blast
qed


text \<open>
  After a reproduced message has been sent, another message cannot be reproduced: the bar opens, with the headers,
  partition and serdes of the first message and the example values for key and value, whatever the second message is. The
  closing of the bar after the request keeps the first message, and the form is only mounted anew when there is none.
\<close>

theorem second_reproduction_is_lost:
  assumes "s = fold (sidebar_step gen chk c t) es (sidebar_start gen e)"
    and "messageData s = None"
    and "getDefaultValues gen (fe_serdes (form_source s)) = Some d"
    and "complete_message m"
    and "acceptable_message chk (fe_serdes (form_source s)) m"
    and "s' = fold (sidebar_step gen chk c t)
      [Reproduce m, PressSubmit, Settled (length (in_flights s)) first_last None, Reproduce m'] s"
  shows "isSidebarOpen s' \<and> shown_form s' = Some ((formDefaults d (form_source s) (Some (setMessage m)))
    \<lparr>fm_key := Some (default_text (dv_key d)), fm_content := Some (default_text (dv_content d))\<rparr>)"
proof -
  have inv: "one_request_per_form s" unfolding assms(1) by (rule one_request_run)
  define s1 where "s1 = fold (sidebar_step gen chk c t) [Reproduce m, PressSubmit] s"
  have s1: "s1 = (sidebar_step gen chk c t (Reproduce m) s)\<lparr>requests := requests s @ [same_message m],
      in_flights := in_flights s @ [\<lparr>if_mount = mount_count s + 1, if_keep = False,
        if_key = default_text (dv_key d), if_content = default_text (dv_content d)\<rparr>]\<rparr>"
    unfolding s1_def by (rule submit_after_reproduction [OF inv assms(2-5)])
  have s': "s' = sidebar_step gen chk c t (Reproduce m') (settle c t (length (in_flights s)) first_last None s1)"
    unfolding assms(6) s1_def by simp
  show ?thesis unfolding s' s1 first_reproduction [OF assms(2,3)]
    by (simp add: settle_def Let_def later_reproduction del: sidebar_step.simps(2))
qed

text \<open>
  A message without a key is not reproduced as it is: if the preferred serde of the topic has a schema, the form gets
  the example key that is made from it, and unless it is cleared by hand the request has this key.
\<close>

theorem keyless_message_gets_example_key:
  assumes "messageData s = None"
    and "getDefaultValues gen (fe_serdes (form_source s)) = Some d"
    and "\<not> truthy (tm_key m)"
    and "dv_key d = Some k"
  shows "\<exists>f. shown_form (sidebar_step gen chk c t (Reproduce m) s) = Some f \<and> fm_key f = Some k
    \<and> (k \<noteq> [] \<longrightarrow> (\<forall>h. get_prop (message_body f h) ''key'' = VStr k))"
  using assms(3,4)
  by (simp add: first_reproduction [OF assms(1,2)] formDefaults_def setMessage_def over_def non_empty_def message_body_def
      get_prop_def null_or_def truthy_def del: sidebar_step.simps(2))

section \<open>Witnesses\<close>

definition example_env :: form_env where
  "example_env = \<lparr>fe_serdes = \<lparr>ss_key = Some [\<lparr>sd_name = Some ''K'', sd_preferred = Some True, sd_schema = Some ''{}'', sd_parameters = None\<rparr>],
     ss_value = Some [\<lparr>sd_name = Some ''V'', sd_preferred = None, sd_schema = Some ''[]'', sd_parameters = None\<rparr>]\<rparr>,
     fe_partitions = [3], fe_urlKeySerde = None, fe_urlValueSerde = None\<rparr>"

definition example_message :: "string option \<Rightarrow> TopicMessage" where
  "example_message k = \<lparr>tm_value = Some ''true'', tm_key = k, tm_headers = Some [(''h'', JStr ''x'')], tm_partition = Some 2,
     tm_valueSerde = Some ''V'', tm_keySerde = Some ''K'',
     tm_keyDeserializeProperties = None, tm_valueDeserializeProperties = Some (JObj [(''subjects'', JArr [JStr ''s''])])\<rparr>"

abbreviation example_gen :: generator where
  "example_gen \<equiv> \<lambda>j. Some (JStr ''x'')"

abbreviation example_chk :: validator where
  "example_chk \<equiv> \<lambda>v j w. if w = JBool True then Inr [] else Inr [(''#/type'', ''must be true'')]"

abbreviation example_page :: topic_sidebar where
  "example_page \<equiv> sidebar_start example_gen example_env"

lemma example_parses:
  "JSON_parse ''{}'' = Some (JObj [])" "JSON_parse ''[]'' = Some (JArr [])" "JSON_parse ''true'' = Some (JBool True)"
  by code_simp+

lemma example_defaults: "getDefaultValues example_gen (fe_serdes (form_source example_page)) =
  Some \<lparr>dv_key = Some (json_quote ''x''), dv_content = None, dv_keySerde = Some ''K'', dv_valueSerde = None\<rparr>"
  by (simp add: sidebar_start_def mount_form_def example_env_def getDefaultValues_def getPreferredDescription_def
      generateValueFromSchema_def or_empty_def example_parses)

lemma example_acceptable:
  "complete_message (example_message (Some ''true''))"
  "acceptable_message example_chk (fe_serdes (form_source example_page)) (example_message (Some ''true''))"
  by (simp_all add: complete_message_def example_message_def truthy_def or_empty_def acceptable_message_def acceptable_def
      sidebar_start_def mount_form_def example_env_def find_serde_def example_parses)

lemma example_sent:
  "requests (fold (sidebar_step example_gen example_chk ''c'' ''t'') [Reproduce (example_message (Some ''true'')), PressSubmit] example_page)
    = [same_message (example_message (Some ''true''))]"
  using submit_after_reproduction [OF one_request_start _ example_defaults example_acceptable]
  by (simp add: sidebar_start_def mount_form_def)

lemma produced_messages_are_acceptable_witness:
  "\<exists>pre post s f h. [Reproduce (example_message (Some ''true'')), PressSubmit] = pre @ PressSubmit # post
    \<and> s = fold (sidebar_step example_gen example_chk ''c'' ''t'') pre example_page
    \<and> shown_form s = Some f
    \<and> acceptable example_chk (ss_key (fe_serdes (form_source s))) (fm_keySerde f) (fm_key f)
    \<and> acceptable example_chk (ss_value (fe_serdes (form_source s))) (fm_valueSerde f) (fm_content f)
    \<and> headers_of (fm_headers f) = Some h
    \<and> same_message (example_message (Some ''true'')) = message_body f h"
  by (rule produced_messages_are_acceptable) (simp only: example_sent, simp)


lemma second_reproduction_is_lost_witness:
  "fm_content (the (shown_form (fold (sidebar_step example_gen example_chk ''c'' ''t'')
     [Reproduce (example_message (Some ''true'')), PressSubmit, Settled 0 True None,
      Reproduce ((example_message None)\<lparr>tm_value := Some ''false''\<rparr>)] example_page))) = Some []"
proof -
  have "messageData example_page = None" "in_flights example_page = []" by (simp_all add: sidebar_start_def mount_form_def)
  with second_reproduction_is_lost [OF _ _ example_defaults example_acceptable refl, where es = "[]" and e = example_env
      and c = "''c''" and t = "''t''" and first_last = True and m' = "(example_message None)\<lparr>tm_value := Some ''false''\<rparr>"]
  show ?thesis by (simp add: default_text_def truthy_def del: sidebar_step.simps)
qed

lemma keyless_message_gets_example_key_witness:
  "\<exists>f. shown_form (sidebar_step example_gen example_chk ''c'' ''t'' (Reproduce (example_message None)) example_page) = Some f
    \<and> fm_key f = Some (json_quote ''x'')
    \<and> (json_quote ''x'' \<noteq> [] \<longrightarrow> (\<forall>h. get_prop (message_body f h) ''key'' = VStr (json_quote ''x'')))"
  by (rule keyless_message_gets_example_key [OF _ example_defaults])
    (simp_all add: sidebar_start_def mount_form_def example_message_def truthy_def)

end
