(* ===== verification/Ksql.thy ===== *)
theory Ksql
  imports Hooks SearchParams JsonText
begin

text \<open>
  The page that executes ksqlDB queries: the form and its stream properties
  (\<open>frontend/src/components/KsqlDb/Query\<close>), the request, the stream of result tables
  (\<open>lib/hooks/api/ksqlDb.tsx\<close>) and the table that shows them. \<open>fetchEventSource\<close> is read by its
  documented behaviour: a connection whose signal is aborted delivers nothing more, and a handler that
  throws, like a failure of the connection, leads to \<open>onerror\<close>, after which it tries again.
  The toast that offers to abort is not modelled, but its button is an event.
\<close>

section \<open>The form\<close>

record stream_property =
  sp_key :: string
  sp_value :: string

record FormValues =
  ksql :: string
  streamsProperties :: "stream_property list"

definition ksql_defaults :: FormValues where
  "ksql_defaults = \<lparr>ksql = [], streamsProperties = [\<lparr>sp_key = [], sp_value = []\<rparr>]\<rparr>"

definition appendProperty :: "FormValues \<Rightarrow> FormValues" where
  "appendProperty f = f\<lparr>streamsProperties := streamsProperties f @ [\<lparr>sp_key = [], sp_value = []\<rparr>]\<rparr>"

definition removeProperty :: "nat \<Rightarrow> FormValues \<Rightarrow> FormValues" where
  "removeProperty i f =
     (if length (streamsProperties f) = 1 then f\<lparr>streamsProperties := (streamsProperties f)[i := \<lparr>sp_key = [], sp_value = []\<rparr>]\<rparr>
      else f\<lparr>streamsProperties := take i (streamsProperties f) @ drop (Suc i) (streamsProperties f)\<rparr>)"

definition isAppendDisabled :: "bool \<Rightarrow> FormValues \<Rightarrow> bool" where
  "isAppendDisabled fetching f \<longleftrightarrow> fetching \<or> list_ex (\<lambda>p. sp_key p = []) (streamsProperties f)"

text \<open>Validation gives the trimmed values, or refuses a blank query.\<close>

definition validationSchema :: "FormValues \<Rightarrow> FormValues option" where
  "validationSchema f =
     (if js_trim (ksql f) = [] then None
      else Some \<lparr>ksql = js_trim (ksql f),
        streamsProperties = map (\<lambda>p. \<lparr>sp_key = js_trim (sp_key p), sp_value = js_trim (sp_value p)\<rparr>) (streamsProperties f)\<rparr>)"

section \<open>The request\<close>

text \<open>The properties as an object: of two with one name the later value counts. No name is \<open>null\<close>.\<close>

definition properties_object :: "stream_property list \<Rightarrow> (string \<times> jsval) list" where
  "properties_object ps = fold (\<lambda>p acc. AList.update (sp_key p) (VStr (sp_value p)) acc) ps []"

text \<open>An empty list of properties makes the handler throw.\<close>

definition submitHandler :: "FormValues \<Rightarrow> jsval res" where
  "submitHandler values =
     (case streamsProperties values of
        [] \<Rightarrow> Inl TypeError
      | p # ps \<Rightarrow> Inr (VObj [(''ksql'', VStr (ksql values)),
          (''streamsProperties'', if sp_key p \<noteq> [] then VObj (properties_object (p # ps)) else VUndef)]))"

definition useExecuteKsqlkDbQueryMutation :: "string \<Rightarrow> jsval \<Rightarrow> mutation_hook" where
  "useExecuteKsqlkDbQueryMutation c command =
     use_mutation (''executeKsql'', executeKsql, in_cluster c [(''ksqlCommandV2'', command)]) (None, [])"

section \<open>The stream of results\<close>

text \<open>A table, with the members that are missing undefined.\<close>

record KsqlTableResponse =
  tb_header :: "json option"
  tb_columnNames :: "json option"
  tb_values :: "json option"

definition table_of :: "json \<Rightarrow> KsqlTableResponse" where
  "table_of j = \<lparr>tb_header = member j ''header'', tb_columnNames = member j ''columnNames'', tb_values = member j ''values''\<rparr>"

text \<open>The elements of an array; the interface declares nothing else here.\<close>

definition elements :: "json option \<Rightarrow> json list" where
  "elements v = (case v of Some (JArr xs) \<Rightarrow> xs | _ \<Rightarrow> [])"

definition js_template :: "json option \<Rightarrow> string" where
  "js_template v = (case v of Some x \<Rightarrow> js_String x | None \<Rightarrow> ''undefined'')"

definition nth_opt :: "'a list \<Rightarrow> nat \<Rightarrow> 'a option" where
  "nth_opt xs i = (if i < length xs then Some (xs ! i) else None)"

text \<open>Title and text of an error; joining something that is not an array throws.\<close>

definition getFormattedErrorFromTableData :: "json option \<Rightarrow> (string \<times> string) res" where
  "getFormattedErrorFromTableData responseValues =
     (if elements responseValues = [] then Inr (''Unknown error'', ''Received empty response'')
      else
        let row = elements (Some (hd (elements responseValues)))
        in if length row < 2 then Inr (case row of [] \<Rightarrow> [] | m # _ \<Rightarrow> js_String m, [])
           else
             let title = ''[Error #'' @ js_template (nth_opt row 1) @ ''] '' @ js_template (nth_opt row 0);
                 statementText = nth_opt row 3;
                 rest = (case statementText of Some t \<Rightarrow> if js_truthy t then CHR 0x22 # js_String t @ [CHR 0x22, CHR '' ''] else [] | None \<Rightarrow> [])
                   @ js_template (nth_opt row 2)
             in (case nth_opt row 4 of
                   Some (JArr es) \<Rightarrow> Inr (title,
                     (if es = [] then [] else ''['' @ join '', '' (map (\<lambda>x. if x = JNull then [] else js_String x) es) @ ''] '') @ rest)
                 | Some (JStr s) \<Rightarrow> if s = [] then Inr (title, rest) else Inl TypeError
                 | _ \<Rightarrow> Inr (title, rest)))"

definition ksql_response_url :: "string \<Rightarrow> string \<Rightarrow> string" where
  "ksql_response_url bp clusterName =
     bp @ ''/api/clusters/'' @ encodeURIComponent clusterName @ ''/ksql/response''"

definition ksql_stream_url :: "string \<Rightarrow> string \<Rightarrow> string \<Rightarrow> string" where
  "ksql_stream_url bp clusterName pipe =
     ksql_response_url bp clusterName @ ''?'' @ sp_toString [(''pipeId'', pipe)]"

text \<open>What the hook keeps, and the connection that is open, by its number and address.\<close>

record ksql_sse =
  sse_data :: "KsqlTableResponse option"
  isFetching :: bool
  connection :: "(nat \<times> string) option"
  connections :: nat
  sse_alerts :: "alert list"

definition execution_alert :: "string \<Rightarrow> string \<times> string \<Rightarrow> alert" where
  "execution_alert url e =
     \<lparr>al_type = ''error'', al_id = Some (url @ ''-executionError''), al_title = fst e, al_message = JStr (snd e)\<rparr>"

definition success_of_query :: "string \<Rightarrow> alert" where
  "success_of_query url =
     \<lparr>al_type = ''success'', al_id = Some (url @ ''-querySuccess''), al_title = ''Query succeed'', al_message = JStr []\<rparr>"

definition onopen :: "http_answer \<Rightarrow> ksql_sse \<Rightarrow> ksql_sse" where
  "onopen response s =
     (let status = ha_status response;
          s = (if 200 \<le> status \<and> status < 300 then s\<lparr>sse_data := None\<rparr> else s)
      in if 400 \<le> status \<and> status < 500 \<and> status \<noteq> 429
         then s\<lparr>sse_alerts := showAlert (showServerError True (Answer response)) (sse_alerts s)\<rparr> else s)"

definition onclose :: "ksql_sse \<Rightarrow> ksql_sse" where
  "onclose s = s\<lparr>isFetching := False\<rparr>"

definition onerror :: "thrown \<Rightarrow> ksql_sse \<Rightarrow> ksql_sse" where
  "onerror err s = s\<lparr>isFetching := False, sse_alerts := showAlert (showServerError True err) (sse_alerts s)\<rparr>"

definition add_rows :: "KsqlTableResponse \<Rightarrow> KsqlTableResponse option \<Rightarrow> KsqlTableResponse" where
  "add_rows table state =
     \<lparr>tb_header = Option.bind state tb_header, tb_columnNames = Option.bind state tb_columnNames,
      tb_values = Some (JArr (elements (Option.bind state tb_values) @ elements (tb_values table)))\<rparr>"

definition on_table :: "string \<Rightarrow> KsqlTableResponse \<Rightarrow> ksql_sse \<Rightarrow> ksql_sse res" where
  "on_table url table s =
     (if tb_header table = Some (JStr ''Execution error'')
      then bind_res (getFormattedErrorFromTableData (tb_values table))
             (\<lambda>e. Inr (s\<lparr>sse_alerts := showAlert (execution_alert url e) (sse_alerts s)\<rparr>))
      else if tb_header table = Some (JStr ''Row'') then Inr (s\<lparr>sse_data := Some (add_rows table (sse_data s))\<rparr>)
      else if tb_header table = Some (JStr ''Query Result'')
      then Inr (s\<lparr>sse_alerts := showAlert (success_of_query url) (sse_alerts s)\<rparr>)
      else Inr (s\<lparr>sse_data := Some table\<rparr>))"

text \<open>Text that is not JSON and \<open>null\<close> throw; an event without a table is ignored.\<close>

definition onmessage :: "string \<Rightarrow> string \<Rightarrow> ksql_sse \<Rightarrow> ksql_sse res" where
  "onmessage url text_data s =
     (case JSON_parse text_data of
        None \<Rightarrow> Inl SyntaxError
      | Some j \<Rightarrow>
          if j = JNull then Inl TypeError
          else (case member j ''table'' of
                  None \<Rightarrow> Inr s
                | Some t \<Rightarrow> if js_truthy t then on_table url (table_of t) s else Inr s))"

definition abortFetchData :: "ksql_sse \<Rightarrow> ksql_sse" where
  "abortFetchData s = s\<lparr>isFetching := False, connection := None\<rparr>"

definition fetchData :: "string \<Rightarrow> string \<Rightarrow> string \<Rightarrow> ksql_sse \<Rightarrow> ksql_sse" where
  "fetchData bp clusterName pipe s =
     s\<lparr>connection := Some (connections s, ksql_stream_url bp clusterName pipe), connections := Suc (connections s)\<rparr>"

text \<open>The effect of a change of the pipe: the cleanup of the old one, then the new connection.\<close>

definition pipe_effect :: "string \<Rightarrow> string \<Rightarrow> string option \<Rightarrow> ksql_sse \<Rightarrow> ksql_sse" where
  "pipe_effect bp clusterName pipeId s =
     (let s = abortFetchData s in if truthy pipeId then fetchData bp clusterName (the pipeId) s else s)"

section \<open>The page\<close>

record ksql_page =
  form :: FormValues
  pipeId :: "string option"
  pending :: nat
  sent_commands :: "jsval list"
  sse :: ksql_sse

definition fetching :: "ksql_page \<Rightarrow> bool" where
  "fetching s \<longleftrightarrow> 0 < pending s \<or> isFetching (sse s)"

definition hasResults :: "ksql_page \<Rightarrow> bool" where
  "hasResults s \<longleftrightarrow> sse_data (sse s) \<noteq> None \<and> truthy (pipeId s)"

text \<open>The table under the form.\<close>

definition shown_table :: "ksql_page \<Rightarrow> KsqlTableResponse option" where
  "shown_table s = (if truthy (pipeId s) then sse_data (sse s) else None)"

definition setPipeId :: "string \<Rightarrow> string \<Rightarrow> string option \<Rightarrow> ksql_page \<Rightarrow> ksql_page" where
  "setPipeId bp clusterName p s =
     (if p = pipeId s then s else s\<lparr>pipeId := p, sse := pipe_effect bp clusterName p (sse s)\<rparr>)"

datatype ksql_event =
  SetKsql string | SetKey nat string | SetValue nat string | AddProperty | RemoveProperty nat | Execute
| Executed bool "thrown + string" | Opened nat http_answer | Message nat string | Closed nat | Errored nat thrown
| AbortPressed | ClearResults

definition to_connection :: "nat \<Rightarrow> (ksql_sse \<Rightarrow> ksql_sse) \<Rightarrow> ksql_page \<Rightarrow> ksql_page" where
  "to_connection n f s = (if map_option fst (connection (sse s)) = Some n then s\<lparr>sse := f (sse s)\<rparr> else s)"

definition set_row :: "nat \<Rightarrow> (stream_property \<Rightarrow> stream_property) \<Rightarrow> ksql_page \<Rightarrow> ksql_page" where
  "set_row i f s =
     (if i < length (streamsProperties (form s))
      then s\<lparr>form := (form s)\<lparr>streamsProperties := (streamsProperties (form s))[i := f (streamsProperties (form s) ! i)]\<rparr>\<rparr> else s)"

text \<open>The error of a handler that throws.\<close>

definition handler_error :: "js_error \<Rightarrow> thrown" where
  "handler_error e = JsError (case e of SyntaxError \<Rightarrow> ''SyntaxError'' | _ \<Rightarrow> ''TypeError'')"

definition handle_message :: "string \<Rightarrow> string \<Rightarrow> ksql_sse \<Rightarrow> ksql_sse" where
  "handle_message url d s = (case onmessage url d s of Inr s' \<Rightarrow> s' | Inl e \<Rightarrow> onerror (handler_error e) s)"

definition press_execute :: "ksql_page \<Rightarrow> ksql_page" where
  "press_execute s =
     (if fetching s then s
      else case validationSchema (form s) of
             None \<Rightarrow> s
           | Some values \<Rightarrow>
               (case submitHandler values of
                  Inl e \<Rightarrow> s
                | Inr command \<Rightarrow> s\<lparr>pending := pending s + 1, sent_commands := sent_commands s @ [command]\<rparr>))"

fun ksql_step :: "string \<Rightarrow> string \<Rightarrow> ksql_event \<Rightarrow> ksql_page \<Rightarrow> ksql_page" where
  "ksql_step bp c (SetKsql t) s = (if fetching s then s else s\<lparr>form := (form s)\<lparr>ksql := t\<rparr>\<rparr>)"
| "ksql_step bp c (SetKey i k) s = set_row i (\<lambda>p. p\<lparr>sp_key := k\<rparr>) s"
| "ksql_step bp c (SetValue i v) s = set_row i (\<lambda>p. p\<lparr>sp_value := v\<rparr>) s"
| "ksql_step bp c AddProperty s = (if isAppendDisabled (fetching s) (form s) then s else s\<lparr>form := appendProperty (form s)\<rparr>)"
| "ksql_step bp c (RemoveProperty i) s =
     (if i < length (streamsProperties (form s)) then s\<lparr>form := removeProperty i (form s)\<rparr> else s)"
| "ksql_step bp c Execute s = press_execute s"
| "ksql_step bp c (Executed first_last r) s =
     (if pending s = 0 then s
      else let s = s\<lparr>pending := pending s - 1\<rparr>
           in case r of
                Inr p \<Rightarrow> setPipeId bp c (Some p) s
              | Inl e \<Rightarrow> s\<lparr>sse := (sse s)\<lparr>sse_alerts := mutation_failed first_last e (sse_alerts (sse s))\<rparr>\<rparr>)"
| "ksql_step bp c (Opened n response) s = to_connection n (onopen response) s"
| "ksql_step bp c (Message n d) s = to_connection n (handle_message (ksql_response_url bp c) d) s"
| "ksql_step bp c (Closed n) s = to_connection n (\<lambda>x. (onclose x)\<lparr>connection := None\<rparr>) s"
| "ksql_step bp c (Errored n e) s = to_connection n (onerror e) s"
| "ksql_step bp c AbortPressed s = (if truthy (pipeId s) then s\<lparr>sse := abortFetchData (sse s)\<rparr> else s)"
| "ksql_step bp c ClearResults s = (if \<not> fetching s \<and> hasResults s then setPipeId bp c None s else s)"

definition ksql_start :: ksql_page where
  "ksql_start = \<lparr>form = ksql_defaults, pipeId = None, pending = 0, sent_commands = [],
     sse = \<lparr>sse_data = None, isFetching = False, connection = None, connections = 0, sse_alerts = []\<rparr>\<rparr>"

section \<open>The table\<close>

definition hasJsonStructure :: "json \<Rightarrow> bool" where
  "hasJsonStructure cell =
     (case cell of
        JNull \<Rightarrow> True | JArr _ \<Rightarrow> True | JObj _ \<Rightarrow> True
      | JStr w \<Rightarrow> (case JSON_parse w of Some (JArr _) \<Rightarrow> True | Some (JObj _) \<Rightarrow> True | _ \<Rightarrow> False)
      | _ \<Rightarrow> False)"

definition cell_text :: "json \<Rightarrow> string" where
  "cell_text cell = (if hasJsonStructure cell then js_stringify_indent 2 cell else js_String cell)"

definition TableRenderer :: "KsqlTableResponse \<Rightarrow> string list list" where
  "TableRenderer table =
     (if elements (tb_columnNames table) = [] then [[''No tables or streams found'']]
      else map (\<lambda>row. map cell_text (elements (Some row))) (elements (tb_values table)))"

section \<open>What the page keeps\<close>

text \<open>There is always a first property, and the flag of the stream is never set.\<close>

definition ksql_inv :: "ksql_page \<Rightarrow> bool" where
  "ksql_inv s \<longleftrightarrow> streamsProperties (form s) \<noteq> [] \<and> \<not> isFetching (sse s)"

definition executed_with :: "ksql_event \<Rightarrow> ksql_page \<Rightarrow> jsval \<Rightarrow> bool" where
  "executed_with e s x \<longleftrightarrow> e = Execute \<and> (\<exists>values. validationSchema (form s) = Some values \<and> submitHandler values = Inr x)"

lemma on_table_flag: "on_table url t s = Inr s' \<Longrightarrow> isFetching s' = isFetching s"
  by (auto simp: on_table_def bind_res_Inr_iff split: if_splits)

lemma handlers_keep_flag:
  "\<not> isFetching s \<Longrightarrow> \<not> isFetching (onopen r s)" "\<not> isFetching (onclose s)" "\<not> isFetching (onerror e s)"
  "\<not> isFetching (abortFetchData s)" "\<not> isFetching (pipe_effect bp c p s)"
  by (auto simp: onopen_def onclose_def onerror_def abortFetchData_def pipe_effect_def fetchData_def Let_def)

lemma message_keeps_flag: "\<not> isFetching s \<Longrightarrow> \<not> isFetching (handle_message url d s)"
  by (auto simp: handle_message_def onmessage_def handlers_keep_flag split: sum.splits option.splits if_splits dest: on_table_flag)

lemma setPipeId_frame [simp]:
  "form (setPipeId bp c p s) = form s" "sent_commands (setPipeId bp c p s) = sent_commands s" "pending (setPipeId bp c p s) = pending s"
  by (simp_all add: setPipeId_def)

lemma to_connection_frame [simp]:
  "form (to_connection n f s) = form s" "sent_commands (to_connection n f s) = sent_commands s" "pending (to_connection n f s) = pending s"
  by (simp_all add: to_connection_def)

lemma set_row_frame [simp]:
  "sse (set_row i f s) = sse s" "sent_commands (set_row i f s) = sent_commands s" "pending (set_row i f s) = pending s"
  "streamsProperties (form (set_row i f s)) = [] \<longleftrightarrow> streamsProperties (form s) = []"
  by (auto simp: set_row_def)

lemma removeProperty_nonempty:
  "i < length (streamsProperties f) \<Longrightarrow> streamsProperties (removeProperty i f) \<noteq> []"
  by (auto simp: removeProperty_def)

lemma press_execute_frame:
  "form (press_execute s) = form s" "sse (press_execute s) = sse s"
  by (simp_all add: press_execute_def split: option.split sum.split)

lemma ksql_inv_step: "ksql_inv s \<Longrightarrow> ksql_inv (ksql_step bp c e s)"
proof (cases e)
  case (RemoveProperty i)
  then show "ksql_inv s \<Longrightarrow> ?thesis" by (simp add: ksql_inv_def removeProperty_nonempty)
next
  case (Executed fl r)
  then show "ksql_inv s \<Longrightarrow> ?thesis"
    by (auto simp: ksql_inv_def setPipeId_def handlers_keep_flag Let_def split: sum.split)
qed (auto simp: ksql_inv_def press_execute_frame appendProperty_def to_connection_def setPipeId_def handlers_keep_flag
    message_keeps_flag)

lemma ksql_log_step:
  "\<exists>new. sent_commands (ksql_step bp c e s) = sent_commands s @ new \<and> list_all (executed_with e s) new"
proof (cases e)
  case Execute
  then show ?thesis by (auto simp: press_execute_def executed_with_def split: option.split sum.split)
qed (auto simp: Let_def split: sum.split)

interpretation ksql: logging_machine "ksql_step bp c" "\<lambda>e. True" ksql_inv sent_commands executed_with
  for bp c
  by unfold_locales (simp_all add: ksql_inv_step ksql_log_step)

lemma ksql_inv_start: "ksql_inv ksql_start"
  by (simp add: ksql_inv_def ksql_start_def ksql_defaults_def)

lemma ksql_inv_run: "ksql_inv (fold (ksql_step bp c) es ksql_start)"
  by (rule ksql.inv_run [OF _ ksql_inv_start]) (simp add: list_all_iff)

text \<open>The page is busy only until the query is accepted, not while its results are read.\<close>

lemma busy_only_while_pending:
  "fetching (fold (ksql_step bp c) es ksql_start) \<longleftrightarrow> 0 < pending (fold (ksql_step bp c) es ksql_start)"
  using ksql_inv_run [of bp c es] by (simp add: fetching_def ksql_inv_def)

lemma properties_lookup:
  "map_of (properties_object ps) k = map_of (rev (map (\<lambda>p. (sp_key p, VStr (sp_value p))) ps)) k"
proof -
  have "map_of (fold (\<lambda>p acc. AList.update (sp_key p) (VStr (sp_value p)) acc) ps acc) k =
    (map_of acc ++ map_of (rev (map (\<lambda>p. (sp_key p, VStr (sp_value p))) ps))) k" for acc
    by (induction ps arbitrary: acc) (auto simp: update_conv' map_add_def split: option.split)
  then show ?thesis by (simp add: properties_object_def)
qed

section \<open>Results\<close>

text \<open>The text of an event with a table.\<close>

definition table_event :: "nat \<Rightarrow> (string \<times> json) list \<Rightarrow> ksql_event" where
  "table_event n t = Message n (js_stringify (JObj [(''table'', JObj t)]))"

abbreviation schema_table :: "json \<Rightarrow> json list \<Rightarrow> (string \<times> json) list" where
  "schema_table columns vs \<equiv> [(''header'', JStr ''Schema''), (''columnNames'', columns), (''values'', JArr vs)]"

abbreviation row_table :: "json list \<Rightarrow> (string \<times> json) list" where
  "row_table vs \<equiv> [(''header'', JStr ''Row''), (''values'', JArr vs)]"

lemma table_step:
  assumes "map_option fst (connection (sse s)) = Some n" "wf_json (JObj t)"
  shows "ksql_step bp c (table_event n t) s = s\<lparr>sse := (case on_table (ksql_response_url bp c) (table_of (JObj t)) (sse s) of
    Inr x \<Rightarrow> x | Inl e \<Rightarrow> onerror (handler_error e) (sse s))\<rparr>"
proof -
  have "JSON_parse (js_stringify (JObj [(''table'', JObj t)])) = Some (JObj [(''table'', JObj t)])"
    by (rule json_text.dec_enc) (use assms(2) in simp)
  then show ?thesis using assms(1)
    by (simp add: table_event_def to_connection_def handle_message_def onmessage_def del: js_stringify.simps)
qed

lemma schema_step:
  assumes "map_option fst (connection (sse s)) = Some n" "wf_json (JObj (schema_table columns vs))"
  shows "ksql_step bp c (table_event n (schema_table columns vs)) s = s\<lparr>sse := (sse s)\<lparr>sse_data :=
    Some \<lparr>tb_header = Some (JStr ''Schema''), tb_columnNames = Some columns, tb_values = Some (JArr vs)\<rparr>\<rparr>\<rparr>"
  unfolding table_step [OF assms] by (simp add: on_table_def table_of_def)

lemma row_step:
  assumes "map_option fst (connection (sse s)) = Some n" "wf_json (JObj (row_table ws))"
    and "sse_data (sse s) = Some \<lparr>tb_header = h, tb_columnNames = cs, tb_values = Some (JArr vs)\<rparr>"
  shows "ksql_step bp c (table_event n (row_table ws)) s = s\<lparr>sse := (sse s)\<lparr>sse_data :=
    Some \<lparr>tb_header = h, tb_columnNames = cs, tb_values = Some (JArr (vs @ ws))\<rparr>\<rparr>\<rparr>"
  unfolding table_step [OF assms(1,2)] by (simp add: on_table_def table_of_def add_rows_def elements_def assms(3))

lemma rows_run:
  assumes "map_option fst (connection (sse s)) = Some n" "list_all (\<lambda>ws. wf_json (JObj (row_table ws))) wss"
    and "sse_data (sse s) = Some \<lparr>tb_header = h, tb_columnNames = cs, tb_values = Some (JArr vs)\<rparr>"
  shows "fold (ksql_step bp c) (map (\<lambda>ws. table_event n (row_table ws)) wss) s = s\<lparr>sse := (sse s)\<lparr>sse_data :=
    Some \<lparr>tb_header = h, tb_columnNames = cs, tb_values = Some (JArr (vs @ concat wss))\<rparr>\<rparr>\<rparr>"
  using assms
proof (induction wss arbitrary: s vs)
  case (Cons ws wss)
  from Cons.prems(2) have wf: "wf_json (JObj (row_table ws))" by simp
  have rec: "fold (ksql_step bp c) (map (\<lambda>ws. table_event n (row_table ws)) wss)
      (s\<lparr>sse := (sse s)\<lparr>sse_data := Some \<lparr>tb_header = h, tb_columnNames = cs, tb_values = Some (JArr (vs @ ws))\<rparr>\<rparr>\<rparr>)
    = s\<lparr>sse := (sse s)\<lparr>sse_data := Some \<lparr>tb_header = h, tb_columnNames = cs, tb_values = Some (JArr ((vs @ ws) @ concat wss))\<rparr>\<rparr>\<rparr>"
    by (subst Cons.IH) (use Cons.prems in \<open>simp_all del: append_assoc\<close>)
  show ?case unfolding list.map fold.simps comp_def row_step [OF Cons.prems(1) wf Cons.prems(3)] rec append_assoc concat.simps
    by (rule refl)
next
  case Nil
  then show ?case by (cases s; cases "sse s") simp
qed

section \<open>Properties\<close>



text \<open>
  If the server refuses to stream the results of a query, the table of the query before stays on the page as if it were
  the answer.
\<close>

theorem refused_pipe_shows_old_results:
  assumes "0 < pending s" and "q \<noteq> []" and "pipeId s \<noteq> Some q"
    and "400 \<le> ha_status response"
  shows "shown_table (fold (ksql_step bp c) [Executed first_last (Inr q), Opened (connections (sse s)) response] s) = sse_data (sse s)"
  using assms
  by (simp add: setPipeId_def pipe_effect_def truthy_def Let_def fetchData_def abortFetchData_def to_connection_def onopen_def
      shown_table_def)

text \<open>A cell whose text is JSON is printed as the JSON of that text: in quotation marks and escaped.\<close>

lemma json_text_cell: "hasJsonStructure (JStr w) \<Longrightarrow> cell_text (JStr w) = json_quote w"
  by (simp add: cell_text_def js_stringify_indent_def)

section \<open>Witnesses\<close>

definition ok_answer :: http_answer where
  "ok_answer = \<lparr>ha_status = 200, ha_statusText = ''OK'', ha_url = ''/api/clusters/c/ksql/response'', ha_body = None\<rparr>"

definition streaming_page :: ksql_page where
  "streaming_page = ksql_start\<lparr>pipeId := Some ''p'', pending := 1, sse := (sse ksql_start)\<lparr>connection := Some (0, ''u''), connections := 1,
     sse_data := Some \<lparr>tb_header = None, tb_columnNames = None, tb_values = None\<rparr>\<rparr>\<rparr>"


abbreviation two_rows :: "ksql_event list" where
  "two_rows \<equiv> [SetKsql ''LIST'', SetKey 0 ''a'', SetValue 0 ''1'', AddProperty, SetKey 1 ''b'', SetValue 1 ''2'', SetKey 0 [], Execute]"

lemma js_trim_plain: "js_trim ''LIST'' = ''LIST''" "js_trim ''b'' = ''b''" "js_trim ''1'' = ''1''" "js_trim ''2'' = ''2''" "js_trim [] = []"
  by (simp_all add: js_trim_def is_js_space_def)

lemma two_rows_sent: "sent_commands (fold (ksql_step [] ''c'') two_rows ksql_start) = [VObj [(''ksql'', VStr ''LIST''), (''streamsProperties'', VUndef)]]"
  by (simp add: ksql_start_def ksql_defaults_def fetching_def set_row_def isAppendDisabled_def appendProperty_def press_execute_def
      validationSchema_def submitHandler_def js_trim_plain)


lemma refused_pipe_shows_old_results_witness:
  "shown_table (fold (ksql_step [] ''c'') [Executed True (Inr ''q''), Opened 1 (ok_answer\<lparr>ha_status := 404\<rparr>)] streaming_page)
    = Some \<lparr>tb_header = None, tb_columnNames = None, tb_values = None\<rparr>"
  using refused_pipe_shows_old_results [of streaming_page "''q''" "ok_answer\<lparr>ha_status := 404\<rparr>" "[]" "''c''" True]
  by (simp add: streaming_page_def ok_answer_def)

end
