(* ===== verification/Acls.thy ===== *)
theory Acls
  imports Hooks Confirm
begin

text \<open>
  The forms that create access rules (\<open>frontend/src/components/ACLPage/Form\<close>), their validation and
  requests, the deletion of a rule, and what the server makes of the requests
  (\<open>internal/api/handlers_acl.go\<close> and \<open>internal/app/cluster/acl.go\<close>). The validation library (yup 1.7) is read
  by its documented behaviour; how it turns an option object into a text is a parameter.
\<close>

section \<open>Selectors\<close>

text \<open>
  A field that is matched either exactly or by a prefix. Only the input of the chosen kind is shown, and the choice
  clears the other one; the radio buttons report their value after every render, so it is also
  cleared at the start.
\<close>

datatype MatchType = EXACT | PREFIXED

record 'a selector =
  matchType :: MatchType
  exact_value :: "'a option"
  prefix_value :: "string option"

definition onTypeChange :: "MatchType \<Rightarrow> 'a selector \<Rightarrow> 'a selector" where
  "onTypeChange m s = (if m = EXACT then s\<lparr>prefix_value := None\<rparr> else s\<lparr>exact_value := None\<rparr>)"

definition MatchTypeSelector :: "MatchType \<Rightarrow> 'a selector \<Rightarrow> 'a selector" where
  "MatchTypeSelector m s = onTypeChange m (s\<lparr>matchType := m\<rparr>)"

definition new_selector :: "'a selector" where
  "new_selector = MatchTypeSelector EXACT \<lparr>matchType = EXACT, exact_value = None, prefix_value = None\<rparr>"

datatype 'a selector_event = Choose MatchType | SetExact 'a | SetPrefix string

fun selector_step :: "'a selector_event \<Rightarrow> 'a selector \<Rightarrow> 'a selector" where
  "selector_step (Choose m) s = MatchTypeSelector m s"
| "selector_step (SetExact x) s = (if matchType s = EXACT then s\<lparr>exact_value := Some x\<rparr> else s)"
| "selector_step (SetPrefix p) s = (if matchType s = PREFIXED then s\<lparr>prefix_value := Some p\<rparr> else s)"

definition hidden_cleared :: "'a selector \<Rightarrow> bool" where
  "hidden_cleared s \<longleftrightarrow> (case matchType s of EXACT \<Rightarrow> prefix_value s = None | PREFIXED \<Rightarrow> exact_value s = None)"

lemma hidden_step: "hidden_cleared s \<Longrightarrow> hidden_cleared (selector_step e s)"
  by (cases e) (auto simp: hidden_cleared_def MatchTypeSelector_def onTypeChange_def split: MatchType.splits)

lemma hidden_new: "hidden_cleared new_selector"
  by (simp add: hidden_cleared_def new_selector_def MatchTypeSelector_def onTypeChange_def)

interpretation selectors: machine selector_step "\<lambda>e. True" hidden_cleared
  by unfold_locales (rule hidden_step)

section \<open>Requests\<close>

record Option =
  op_label :: string
  op_value :: string

definition texts :: "string list \<Rightarrow> jsval" where
  "texts xs = VArr (map VStr xs)"

definition option_values :: "Option list option \<Rightarrow> jsval" where
  "option_values xs = opt_jsval (\<lambda>os. texts (map op_value os)) xs"

abbreviation opt_text :: "string option \<Rightarrow> jsval" where
  "opt_text v \<equiv> opt_jsval VStr v"

text \<open>A required text is neither missing nor empty; an option needs a label and a value.\<close>

definition option_ok :: "Option \<Rightarrow> bool" where
  "option_ok x \<longleftrightarrow> op_label x \<noteq> [] \<and> op_value x \<noteq> []"

definition options_ok :: "Option list option \<Rightarrow> bool" where
  "options_ok v \<longleftrightarrow> (case v of Some xs \<Rightarrow> list_all option_ok xs | None \<Rightarrow> True)"

subsection \<open>Consumers\<close>

record consumer_form =
  cf_principal :: "string option"
  cf_host :: "string option"
  cf_topics :: "Option list selector"
  cf_groups :: "Option list selector"

datatype consumer_event = CPrincipal string | CHost string | CTopics "Option list selector_event" | CGroups "Option list selector_event"

definition ForConsumersForm :: consumer_form where
  "ForConsumersForm = \<lparr>cf_principal = None, cf_host = None, cf_topics = new_selector, cf_groups = new_selector\<rparr>"

fun consumer_step :: "consumer_event \<Rightarrow> consumer_form \<Rightarrow> consumer_form" where
  "consumer_step (CPrincipal p) s = s\<lparr>cf_principal := Some p\<rparr>"
| "consumer_step (CHost h) s = s\<lparr>cf_host := Some h\<rparr>"
| "consumer_step (CTopics e) s = s\<lparr>cf_topics := selector_step e (cf_topics s)\<rparr>"
| "consumer_step (CGroups e) s = s\<lparr>cf_groups := selector_step e (cf_groups s)\<rparr>"

definition consumer_schema :: "consumer_form \<Rightarrow> bool" where
  "consumer_schema s \<longleftrightarrow>
     truthy (cf_principal s) \<and> truthy (cf_host s)
     \<and> options_ok (exact_value (cf_topics s)) \<and> options_ok (exact_value (cf_groups s))"

definition consumer_request :: "consumer_form \<Rightarrow> jsval" where
  "consumer_request s = VObj
     [(''principal'', opt_text (cf_principal s)), (''host'', opt_text (cf_host s)),
      (''consumerGroups'', option_values (exact_value (cf_groups s))),
      (''consumerGroupsPrefix'', opt_text (prefix_value (cf_groups s))),
      (''topics'', option_values (exact_value (cf_topics s))), (''topicsPrefix'', opt_text (prefix_value (cf_topics s)))]"

subsection \<open>Producers\<close>

record producer_form =
  pf_principal :: "string option"
  pf_host :: "string option"
  pf_topics :: "Option list selector"
  pf_transaction :: "string selector"
  pf_idempotent :: "bool option"

datatype producer_event =
  PPrincipal string | PHost string | PTopics "Option list selector_event" | PTransaction "string selector_event" | PIdempotent bool

definition ForProducersForm :: producer_form where
  "ForProducersForm = \<lparr>pf_principal = None, pf_host = None, pf_topics = new_selector, pf_transaction = new_selector, pf_idempotent = None\<rparr>"

fun producer_step :: "producer_event \<Rightarrow> producer_form \<Rightarrow> producer_form" where
  "producer_step (PPrincipal p) s = s\<lparr>pf_principal := Some p\<rparr>"
| "producer_step (PHost h) s = s\<lparr>pf_host := Some h\<rparr>"
| "producer_step (PTopics e) s = s\<lparr>pf_topics := selector_step e (pf_topics s)\<rparr>"
| "producer_step (PTransaction e) s = s\<lparr>pf_transaction := selector_step e (pf_transaction s)\<rparr>"
| "producer_step (PIdempotent b) s = s\<lparr>pf_idempotent := Some b\<rparr>"

definition producer_schema :: "producer_form \<Rightarrow> bool" where
  "producer_schema s \<longleftrightarrow> truthy (pf_principal s) \<and> truthy (pf_host s) \<and> options_ok (exact_value (pf_topics s))"

definition producer_request :: "producer_form \<Rightarrow> jsval" where
  "producer_request s = VObj
     [(''principal'', opt_text (pf_principal s)), (''host'', opt_text (pf_host s)),
      (''topics'', option_values (exact_value (pf_topics s))), (''topicsPrefix'', opt_text (prefix_value (pf_topics s))),
      (''transactionalId'', opt_text (exact_value (pf_transaction s))),
      (''transactionsIdPrefix'', opt_text (prefix_value (pf_transaction s))),
      (''idempotent'', opt_jsval VBool (pf_idempotent s))]"

subsection \<open>Streams applications\<close>

record stream_form =
  sf_principal :: "string option"
  sf_host :: "string option"
  sf_inputTopics :: "Option list option"
  sf_outputTopics :: "Option list option"
  sf_applicationId :: "string option"

text \<open>
  The schema declares the topics as texts, but the multi-select gives option objects: the library makes each a text
  by \<open>cast\<close>, or refuses it (\<open>None\<close>). Reading the value of a text gives an undefined value.
\<close>

definition cast_topics :: "(Option \<Rightarrow> string option) \<Rightarrow> Option list option \<Rightarrow> string list option" where
  "cast_topics cast v = Option.bind v (\<lambda>os. those (map cast os))"

definition value_of_text :: "string \<Rightarrow> jsval" where
  "value_of_text s = VUndef"

definition stream_request :: "(Option \<Rightarrow> string option) \<Rightarrow> stream_form \<Rightarrow> jsval option" where
  "stream_request cast s =
     (case (cast_topics cast (sf_inputTopics s), cast_topics cast (sf_outputTopics s)) of
        (Some inputs, Some outputs) \<Rightarrow>
          if truthy (sf_principal s) \<and> truthy (sf_host s) \<and> truthy (sf_applicationId s)
          then Some (VObj [(''principal'', opt_text (sf_principal s)), (''host'', opt_text (sf_host s)),
            (''inputTopics'', VArr (map value_of_text inputs)), (''outputTopics'', VArr (map value_of_text outputs)),
            (''applicationId'', opt_text (sf_applicationId s))])
          else None
      | _ \<Rightarrow> None)"

subsection \<open>Custom rules\<close>

record custom_form =
  uf_resourceType :: "string option"
  uf_resourceName :: "string option"
  uf_namePatternType :: "MatchType option"
  uf_principal :: "string option"
  uf_host :: "string option"
  uf_operation :: "string option"
  uf_permission :: "string option"

definition toOptionsArray :: "string list \<Rightarrow> string \<Rightarrow> string list" where
  "toOptionsArray xs unknown = fold (\<lambda>cur acc. if cur \<noteq> unknown then acc @ [cur] else acc) xs []"

definition resourceTypes :: "string list" where
  "resourceTypes = toOptionsArray
     [''UNKNOWN'', ''TOPIC'', ''GROUP'', ''CLUSTER'', ''TRANSACTIONAL_ID'', ''DELEGATION_TOKEN'', ''USER''] ''UNKNOWN''"

definition operations :: "string list" where
  "operations = toOptionsArray
     [''UNKNOWN'', ''ALL'', ''READ'', ''WRITE'', ''CREATE'', ''DELETE'', ''ALTER'', ''DESCRIBE'', ''CLUSTER_ACTION'', ''DESCRIBE_CONFIGS'',
      ''ALTER_CONFIGS'', ''IDEMPOTENT_WRITE'', ''CREATE_TOKENS'', ''DESCRIBE_TOKENS''] ''UNKNOWN''"

definition custom_defaults :: custom_form where
  "custom_defaults = \<lparr>uf_resourceType = Some (hd resourceTypes), uf_resourceName = None, uf_namePatternType = None,
     uf_principal = None, uf_host = None, uf_operation = Some (hd operations), uf_permission = None\<rparr>"

definition custom_schema :: "custom_form \<Rightarrow> bool" where
  "custom_schema s \<longleftrightarrow>
     truthy (uf_resourceType s) \<and> truthy (uf_resourceName s) \<and> uf_namePatternType s \<noteq> None \<and> truthy (uf_principal s)
     \<and> truthy (uf_host s) \<and> truthy (uf_operation s) \<and> truthy (uf_permission s)"

definition custom_request :: "custom_form \<Rightarrow> jsval" where
  "custom_request s = VObj
     [(''resourceType'', opt_text (uf_resourceType s)), (''resourceName'', opt_text (uf_resourceName s)),
      (''namePatternType'', VStr (if uf_namePatternType s = Some PREFIXED then ''PREFIXED'' else ''LITERAL'')),
      (''principal'', opt_text (uf_principal s)), (''host'', opt_text (uf_host s)),
      (''operation'', opt_text (uf_operation s)), (''permission'', opt_text (uf_permission s))]"

text \<open>Deleting a rule asks first; the confirmed action is the mutation.\<close>

definition deleteKafkaAcl :: "string \<Rightarrow> jsval option \<Rightarrow> mutation_hook dialog \<Rightarrow> mutation_hook dialog" where
  "deleteKafkaAcl c acl s =
     (case acl of
        Some a \<Rightarrow> useConfirm True ''Are you sure want to delete this ACL record?'' (useDeleteAclMutation c a) s
      | None \<Rightarrow> s)"

section \<open>The server\<close>

text \<open>The zero value stands for a missing member, and for a missing element of a list.\<close>

fun go_text :: "jsval \<Rightarrow> string option" where
  "go_text (VStr s) = Some s"
| "go_text VUndef = Some []"
| "go_text VNull = Some []"
| "go_text _ = None"

fun go_texts :: "jsval \<Rightarrow> string list option" where
  "go_texts (VArr xs) = those (map go_text xs)"
| "go_texts VUndef = Some []"
| "go_texts VNull = Some []"
| "go_texts _ = None"

fun go_flag :: "jsval \<Rightarrow> bool option" where
  "go_flag (VBool b) = Some b"
| "go_flag VUndef = Some False"
| "go_flag VNull = Some False"
| "go_flag _ = None"

definition hostOrWildcard :: "jsval \<Rightarrow> string option" where
  "hostOrWildcard v = (if v = VUndef \<or> v = VNull then Some ''*'' else go_text v)"

definition go_space :: "char \<Rightarrow> bool" where
  "go_space c \<longleftrightarrow> (of_char c :: nat) \<in> {9, 10, 11, 12, 13, 32, 133, 160}"

definition go_trim :: "string \<Rightarrow> string" where
  "go_trim s = rev (dropWhile go_space (rev (dropWhile go_space s)))"

record AclBinding =
  ab_principal :: string
  ab_host :: string
  ab_type :: string
  ab_name :: string
  ab_pattern :: string
  ab_operation :: string
  ab_permission :: string

definition allow :: "string \<Rightarrow> string \<Rightarrow> string \<Rightarrow> string \<Rightarrow> string \<Rightarrow> string \<Rightarrow> AclBinding" where
  "allow actor host resourceType resourceName pattern op =
     \<lparr>ab_principal = actor, ab_host = host, ab_type = resourceType, ab_name = resourceName, ab_pattern = pattern,
      ab_operation = op, ab_permission = ''ALLOW''\<rparr>"

definition add_new :: "'a \<Rightarrow> 'a list \<Rightarrow> 'a list" where
  "add_new x acc = (if x \<in> set acc then acc else acc @ [x])"

definition resourcesFor :: "string list \<Rightarrow> string \<Rightarrow> (string \<times> string) list" where
  "resourcesFor names pre =
     (let out = fold (\<lambda>rawName acc. let n = go_trim rawName in if n = [] then acc else add_new (n, ''LITERAL'') acc) names [];
          p = go_trim pre
      in if p \<noteq> [] then add_new (p, ''PREFIXED'') out else out)"

definition expand :: "string \<Rightarrow> string \<Rightarrow> string \<Rightarrow> string list \<Rightarrow> (string \<times> string) list \<Rightarrow> AclBinding list" where
  "expand actor host resourceType ops rs =
     concat (map (\<lambda>(n, pattern). map (allow actor host resourceType n pattern) ops) rs)"

definition validateAclActor :: "string \<Rightarrow> string \<Rightarrow> bool" where
  "validateAclActor actor host \<longleftrightarrow>
     go_trim actor \<noteq> []
     \<and> (let before = takeWhile (\<lambda>c. c \<noteq> CHR '':'') actor; after = drop (Suc (length before)) actor
        in CHR '':'' \<in> set actor \<and> before \<noteq> [] \<and> after \<noteq> [] \<and> go_trim before \<noteq> [] \<and> go_trim after \<noteq> [])
     \<and> go_trim host \<noteq> []"

definition supportedAclResourceType :: "string list" where
  "supportedAclResourceType = [''TOPIC'', ''GROUP'', ''CLUSTER'', ''TRANSACTIONAL_ID'', ''DELEGATION_TOKEN'']"

definition validateAclBinding :: "AclBinding \<Rightarrow> bool \<Rightarrow> bool" where
  "validateAclBinding b allowMatch \<longleftrightarrow>
     validateAclActor (ab_principal b) (ab_host b)
     \<and> go_trim (ab_name b) \<noteq> []
     \<and> ab_type b \<in> set supportedAclResourceType
     \<and> ab_operation b \<in> set operations
     \<and> ab_permission b \<in> {''ALLOW'', ''DENY''}
     \<and> (ab_pattern b = ''LITERAL'' \<or> ab_pattern b = ''PREFIXED'' \<or> allowMatch \<and> ab_pattern b = ''MATCH'')
     \<and> \<not> (ab_type b = ''CLUSTER'' \<and> (ab_name b \<noteq> ''kafka-cluster'' \<or> ab_pattern b \<noteq> ''LITERAL''))"

text \<open>\<open>None\<close>: the request is refused with status 400.\<close>

definition validateHelperBindings :: "string \<Rightarrow> string \<Rightarrow> AclBinding list \<Rightarrow> AclBinding list option" where
  "validateHelperBindings actor host bindings =
     (let actor = go_trim actor; host = go_trim host;
          bs = map (\<lambda>b. b\<lparr>ab_principal := actor, ab_host := host\<rparr>) bindings
      in if \<not> validateAclActor actor host \<or> \<not> list_all (\<lambda>b. validateAclBinding b False) bs then None
         else if bs = [] then None else Some (fold add_new bs []))"

definition CreateConsumerAcl :: "jsval \<Rightarrow> AclBinding list option" where
  "CreateConsumerAcl body =
     (if get_prop body ''principal'' = VUndef \<or> get_prop body ''principal'' = VNull then None
      else case (go_text (get_prop body ''principal''), hostOrWildcard (get_prop body ''host''),
                 go_texts (get_prop body ''topics''), go_text (get_prop body ''topicsPrefix''),
                 go_texts (get_prop body ''consumerGroups''), go_text (get_prop body ''consumerGroupsPrefix'')) of
             (Some p, Some h, Some ts, Some tp, Some gs, Some gp) \<Rightarrow>
               validateHelperBindings p h
                 (expand p h ''TOPIC'' [''READ'', ''DESCRIBE''] (resourcesFor ts tp)
                  @ expand p h ''GROUP'' [''READ'', ''DESCRIBE''] (resourcesFor gs gp))
           | _ \<Rightarrow> None)"

definition txnNames :: "string \<Rightarrow> string list" where
  "txnNames i = (if i = [] then [] else [i])"

definition CreateProducerAcl :: "jsval \<Rightarrow> AclBinding list option" where
  "CreateProducerAcl body =
     (if get_prop body ''principal'' = VUndef \<or> get_prop body ''principal'' = VNull then None
      else case (go_text (get_prop body ''principal''), hostOrWildcard (get_prop body ''host''),
                 go_texts (get_prop body ''topics''), go_text (get_prop body ''topicsPrefix''),
                 go_text (get_prop body ''transactionalId''), go_text (get_prop body ''transactionsIdPrefix''),
                 go_flag (get_prop body ''idempotent'')) of
             (Some p, Some h, Some ts, Some tp, Some i, Some ip, Some idem) \<Rightarrow>
               validateHelperBindings p h
                 (expand p h ''TOPIC'' [''WRITE'', ''DESCRIBE'', ''CREATE''] (resourcesFor ts tp)
                  @ expand p h ''TRANSACTIONAL_ID'' [''WRITE'', ''DESCRIBE''] (resourcesFor (txnNames i) ip)
                  @ (if idem then [allow p h ''CLUSTER'' ''kafka-cluster'' ''LITERAL'' ''IDEMPOTENT_WRITE''] else []))
           | _ \<Rightarrow> None)"

definition CreateStreamAppAcl :: "jsval \<Rightarrow> AclBinding list option" where
  "CreateStreamAppAcl body =
     (if get_prop body ''principal'' = VUndef \<or> get_prop body ''principal'' = VNull then None
      else case (go_text (get_prop body ''principal''), hostOrWildcard (get_prop body ''host''),
                 go_texts (get_prop body ''inputTopics''), go_texts (get_prop body ''outputTopics''),
                 go_text (get_prop body ''applicationId'')) of
             (Some p, Some h, Some ins, Some outs, Some i) \<Rightarrow>
               validateHelperBindings p h
                 (expand p h ''TOPIC'' [''READ''] (resourcesFor ins [])
                  @ expand p h ''TOPIC'' [''WRITE''] (resourcesFor outs [])
                  @ (if go_trim i = [] then []
                     else [allow p h ''GROUP'' (go_trim i) ''PREFIXED'' ''ALL'', allow p h ''TOPIC'' (go_trim i) ''PREFIXED'' ''ALL'']))
           | _ \<Rightarrow> None)"

section \<open>The rules of a request\<close>

lemma add_new_fold: "set (fold add_new xs acc) = set acc \<union> set xs \<and> (distinct acc \<longrightarrow> distinct (fold add_new xs acc))"
  by (induction xs arbitrary: acc) (auto simp: add_new_def)

lemma go_trim_Nil [simp]: "go_trim [] = []"
  by (simp add: go_trim_def)

lemma resources_set:
  "set (resourcesFor names pre) = {(go_trim n, ''LITERAL'') |n. n \<in> set names \<and> go_trim n \<noteq> []}
    \<union> (if go_trim pre \<noteq> [] then {(go_trim pre, ''PREFIXED'')} else {})"
proof -
  have "set (fold (\<lambda>rawName acc. let n = go_trim rawName in if n = [] then acc else add_new (n, ''LITERAL'') acc) names acc)
    = set acc \<union> {(go_trim n, ''LITERAL'') |n. n \<in> set names \<and> go_trim n \<noteq> []}" for acc
    by (induction names arbitrary: acc) (auto simp: add_new_def Let_def)
  then show ?thesis by (auto simp: resourcesFor_def Let_def add_new_def)
qed

text \<open>The names and patterns that the shown input of a selector stands for.\<close>

definition granted :: "('a \<Rightarrow> string list) \<Rightarrow> 'a selector \<Rightarrow> (string \<times> string) set" where
  "granted names s =
     (case matchType s of
        EXACT \<Rightarrow> {(go_trim n, ''LITERAL'') |n x. exact_value s = Some x \<and> n \<in> set (names x) \<and> go_trim n \<noteq> []}
      | PREFIXED \<Rightarrow> {(go_trim p, ''PREFIXED'') |p. prefix_value s = Some p \<and> go_trim p \<noteq> []})"

definition or_nil :: "'a list option \<Rightarrow> 'a list" where
  "or_nil v = (case v of Some xs \<Rightarrow> xs | None \<Rightarrow> [])"

lemma or_nil_simps [simp]: "or_nil None = []" "or_nil (Some xs) = xs"
  by (simp_all add: or_nil_def)

lemma resources_granted:
  assumes "hidden_cleared s"
  shows "set (resourcesFor (or_nil (map_option names (exact_value s))) (or_nil (prefix_value s))) = granted names s"
  using assms unfolding resources_set granted_def hidden_cleared_def
  by (cases "matchType s"; cases "exact_value s"; cases "prefix_value s") auto

lemma go_text_opt [simp]: "go_text (opt_text v) = Some (or_nil v)"
  by (cases v) (simp_all add: opt_jsval_def)

lemma those_texts [simp]: "those (map (go_text \<circ> VStr) xs) = Some xs"
  by (induction xs) simp_all

lemma go_texts_values [simp]: "go_texts (option_values v) = Some (or_nil (map_option (map op_value) v))"
proof (cases v)
  case (Some os)
  have "those (map (go_text \<circ> VStr) (map op_value os)) = Some (map op_value os)" by (rule those_texts)
  with Some show ?thesis by (simp add: option_values_def opt_jsval_def texts_def comp_assoc)
qed (simp add: option_values_def opt_jsval_def)

lemma go_flag_opt [simp]: "go_flag (opt_jsval VBool v) = Some (v = Some True)"
  by (auto simp: opt_jsval_def split: option.split)

text \<open>The rules that allow these operations on these resources.\<close>

definition rules :: "string \<Rightarrow> string \<Rightarrow> string \<Rightarrow> string set \<Rightarrow> (string \<times> string) set \<Rightarrow> AclBinding set" where
  "rules p h t ops rs = {allow p h t n pat op |n pat op. (n, pat) \<in> rs \<and> op \<in> ops}"

lemma expand_set: "set (expand p h t ops rs) = rules p h t (set ops) (set rs)"
  by (force simp: expand_def rules_def)

lemma allow_actor [simp]: "(allow p h t n pat op)\<lparr>ab_principal := p', ab_host := h'\<rparr> = allow p' h' t n pat op"
  by (simp add: allow_def)

lemma rules_actor: "(\<lambda>b. b\<lparr>ab_principal := p', ab_host := h'\<rparr>) ` rules p h t ops rs = rules p' h' t ops rs"
  by (force simp: rules_def image_iff)

lemma helper_bindings:
  assumes "validateHelperBindings p h bindings = Some bs"
  shows "distinct bs \<and> set bs = (\<lambda>b. b\<lparr>ab_principal := go_trim p, ab_host := go_trim h\<rparr>) ` set bindings"
  using assms add_new_fold [of "map (\<lambda>b. b\<lparr>ab_principal := go_trim p, ab_host := go_trim h\<rparr>) bindings" "[]"]
  by (simp add: validateHelperBindings_def Let_def split: if_splits)

lemma opt_text_some [simp]: "truthy v \<Longrightarrow> opt_text v = VStr (the v)" "truthy v \<Longrightarrow> or_nil v = the v"
  by (auto simp: truthy_def opt_jsval_def split: option.splits)

section \<open>Properties\<close>

text \<open>The selectors of the forms keep what is not shown empty.\<close>

lemma consumer_hidden: "hidden_cleared (cf_topics (fold consumer_step es ForConsumersForm))
  \<and> hidden_cleared (cf_groups (fold consumer_step es ForConsumersForm))"
proof -
  have "hidden_cleared (cf_topics s) \<and> hidden_cleared (cf_groups s) \<Longrightarrow>
    hidden_cleared (cf_topics (fold consumer_step es s)) \<and> hidden_cleared (cf_groups (fold consumer_step es s))" for s
  proof (induction es arbitrary: s)
    case (Cons e es)
    then show ?case by (cases e) (simp_all add: hidden_step)
  qed simp
  then show ?thesis by (simp add: ForConsumersForm_def hidden_new)
qed

lemma producer_hidden: "hidden_cleared (pf_topics (fold producer_step es ForProducersForm))
  \<and> hidden_cleared (pf_transaction (fold producer_step es ForProducersForm))"
proof -
  have "hidden_cleared (pf_topics s) \<and> hidden_cleared (pf_transaction s) \<Longrightarrow>
    hidden_cleared (pf_topics (fold producer_step es s)) \<and> hidden_cleared (pf_transaction (fold producer_step es s))" for s
  proof (induction es arbitrary: s)
    case (Cons e es)
    then show ?case by (cases e) (simp_all add: hidden_step)
  qed simp
  then show ?thesis by (simp add: ForProducersForm_def hidden_new)
qed

text \<open>
  C27. The rules that the server creates for consumers are those the form shows: after any use of the form, reading and
  describing exactly the selected topics or those with the prefix, and likewise for the groups, each once, for the
  principal and host of the form. Nothing that was entered for the other kind of match is granted.
\<close>

theorem consumer_rules_match_form:
  assumes "s = fold consumer_step es ForConsumersForm" and "consumer_schema s"
    and "CreateConsumerAcl (consumer_request s) = Some bs"
  shows "distinct bs \<and> set bs =
    rules (go_trim (the (cf_principal s))) (go_trim (the (cf_host s))) ''TOPIC'' {''READ'', ''DESCRIBE''} (granted (map op_value) (cf_topics s))
    \<union> rules (go_trim (the (cf_principal s))) (go_trim (the (cf_host s))) ''GROUP'' {''READ'', ''DESCRIBE''} (granted (map op_value) (cf_groups s))"
proof -
  have hidden: "hidden_cleared (cf_topics s)" "hidden_cleared (cf_groups s)" using consumer_hidden [of es] by (simp_all add: assms(1))
  let ?p = "the (cf_principal s)" and ?h = "the (cf_host s)"
  let ?ts = "resourcesFor (or_nil (map_option (map op_value) (exact_value (cf_topics s)))) (or_nil (prefix_value (cf_topics s)))"
  let ?gs = "resourcesFor (or_nil (map_option (map op_value) (exact_value (cf_groups s)))) (or_nil (prefix_value (cf_groups s)))"
  have "truthy (cf_principal s)" "truthy (cf_host s)" using assms(2) by (simp_all add: consumer_schema_def)
  with assms(3) have bs: "validateHelperBindings ?p ?h (expand ?p ?h ''TOPIC'' [''READ'', ''DESCRIBE''] ?ts @ expand ?p ?h ''GROUP'' [''READ'', ''DESCRIBE''] ?gs) = Some bs"
    by (simp add: CreateConsumerAcl_def consumer_request_def get_prop_def hostOrWildcard_def)
  from helper_bindings [OF bs] show ?thesis
    by (simp add: image_Un expand_set rules_actor resources_granted [OF hidden(1)] resources_granted [OF hidden(2)])
qed

text \<open>
  The rules that the server creates for producers are those the form shows: writing, describing and creating the
  topics, writing and describing the transactional id or those with the prefix, and idempotent writes to the cluster if they are ticked.
\<close>

theorem producer_rules_match_form:
  assumes "s = fold producer_step es ForProducersForm" and "producer_schema s"
    and "CreateProducerAcl (producer_request s) = Some bs"
  shows "distinct bs \<and> set bs =
    rules (go_trim (the (pf_principal s))) (go_trim (the (pf_host s))) ''TOPIC'' {''WRITE'', ''DESCRIBE'', ''CREATE''} (granted (map op_value) (pf_topics s))
    \<union> rules (go_trim (the (pf_principal s))) (go_trim (the (pf_host s))) ''TRANSACTIONAL_ID'' {''WRITE'', ''DESCRIBE''} (granted txnNames (pf_transaction s))
    \<union> (if pf_idempotent s = Some True
       then {allow (go_trim (the (pf_principal s))) (go_trim (the (pf_host s))) ''CLUSTER'' ''kafka-cluster'' ''LITERAL'' ''IDEMPOTENT_WRITE''} else {})"
proof -
  have hidden: "hidden_cleared (pf_topics s)" "hidden_cleared (pf_transaction s)" using producer_hidden [of es] by (simp_all add: assms(1))
  let ?p = "the (pf_principal s)" and ?h = "the (pf_host s)"
  let ?ts = "resourcesFor (or_nil (map_option (map op_value) (exact_value (pf_topics s)))) (or_nil (prefix_value (pf_topics s)))"
  have ids: "txnNames (or_nil (exact_value (pf_transaction s))) = or_nil (map_option txnNames (exact_value (pf_transaction s)))"
    by (cases "exact_value (pf_transaction s)") (simp_all add: txnNames_def)
  let ?is = "resourcesFor (txnNames (or_nil (exact_value (pf_transaction s)))) (or_nil (prefix_value (pf_transaction s)))"
  have "truthy (pf_principal s)" "truthy (pf_host s)" using assms(2) by (simp_all add: producer_schema_def)
  with assms(3) have bs: "validateHelperBindings ?p ?h (expand ?p ?h ''TOPIC'' [''WRITE'', ''DESCRIBE'', ''CREATE''] ?ts
      @ expand ?p ?h ''TRANSACTIONAL_ID'' [''WRITE'', ''DESCRIBE''] ?is
      @ (if pf_idempotent s = Some True then [allow ?p ?h ''CLUSTER'' ''kafka-cluster'' ''LITERAL'' ''IDEMPOTENT_WRITE''] else [])) = Some bs"
    by (simp add: CreateProducerAcl_def producer_request_def get_prop_def hostOrWildcard_def)
  from helper_bindings [OF bs] show ?thesis
    by (simp add: image_Un expand_set rules_actor ids resources_granted [OF hidden(1)] resources_granted [OF hidden(2)] Un_assoc)
qed


text \<open>With the library's own conversion, which leaves an object as it is, no form with a selected topic passes.\<close>

lemma stream_form_refused:
  "sf_inputTopics s = Some (t # ts) \<Longrightarrow> stream_request (\<lambda>_. None) s = None"
  by (simp add: stream_request_def cast_topics_def)

section \<open>Witnesses\<close>

abbreviation topic_option :: Option where
  "topic_option \<equiv> \<lparr>op_label = ''t'', op_value = ''t''\<rparr>"

lemma trim_examples: "go_trim ''t'' = ''t''" "go_trim ''g-'' = ''g-''" "go_trim ''U:a'' = ''U:a''" "go_trim ''U'' = ''U''" "go_trim ''a'' = ''a''" "go_trim ''*'' = ''*''"
  by (simp_all add: go_trim_def go_space_def)

lemmas rule_checks = validateHelperBindings_def validateAclActor_def validateAclBinding_def supportedAclResourceType_def
  operations_def toOptionsArray_def expand_def resourcesFor_def add_new_def allow_def Let_def trim_examples

abbreviation consumer_events :: "consumer_event list" where
  "consumer_events \<equiv> [CPrincipal ''U:a'', CHost ''*'', CTopics (SetExact [topic_option]), CGroups (Choose PREFIXED), CGroups (SetPrefix ''g-'')]"

lemma consumer_example:
  "consumer_schema (fold consumer_step consumer_events ForConsumersForm)"
  "CreateConsumerAcl (consumer_request (fold consumer_step consumer_events ForConsumersForm)) =
    Some [allow ''U:a'' ''*'' ''TOPIC'' ''t'' ''LITERAL'' ''READ'', allow ''U:a'' ''*'' ''TOPIC'' ''t'' ''LITERAL'' ''DESCRIBE'',
      allow ''U:a'' ''*'' ''GROUP'' ''g-'' ''PREFIXED'' ''READ'', allow ''U:a'' ''*'' ''GROUP'' ''g-'' ''PREFIXED'' ''DESCRIBE'']"
  by (simp_all add: consumer_schema_def truthy_def options_ok_def option_ok_def ForConsumersForm_def new_selector_def
      MatchTypeSelector_def onTypeChange_def CreateConsumerAcl_def consumer_request_def get_prop_def opt_jsval_def
      option_values_def texts_def hostOrWildcard_def rule_checks)

lemma consumer_rules_match_form_witness:
  "distinct [allow ''U:a'' ''*'' ''TOPIC'' ''t'' ''LITERAL'' ''READ'', allow ''U:a'' ''*'' ''TOPIC'' ''t'' ''LITERAL'' ''DESCRIBE'',
      allow ''U:a'' ''*'' ''GROUP'' ''g-'' ''PREFIXED'' ''READ'', allow ''U:a'' ''*'' ''GROUP'' ''g-'' ''PREFIXED'' ''DESCRIBE'']"
  using consumer_rules_match_form [OF refl consumer_example] by blast

abbreviation producer_events :: "producer_event list" where
  "producer_events \<equiv> [PPrincipal ''U:a'', PHost ''*'', PTopics (SetExact [topic_option]), PTransaction (Choose PREFIXED), PTransaction (SetPrefix ''g-''), PIdempotent True]"

lemma producer_example:
  "producer_schema (fold producer_step producer_events ForProducersForm)"
  "CreateProducerAcl (producer_request (fold producer_step producer_events ForProducersForm)) =
    Some [allow ''U:a'' ''*'' ''TOPIC'' ''t'' ''LITERAL'' ''WRITE'', allow ''U:a'' ''*'' ''TOPIC'' ''t'' ''LITERAL'' ''DESCRIBE'',
      allow ''U:a'' ''*'' ''TOPIC'' ''t'' ''LITERAL'' ''CREATE'', allow ''U:a'' ''*'' ''TRANSACTIONAL_ID'' ''g-'' ''PREFIXED'' ''WRITE'',
      allow ''U:a'' ''*'' ''TRANSACTIONAL_ID'' ''g-'' ''PREFIXED'' ''DESCRIBE'', allow ''U:a'' ''*'' ''CLUSTER'' ''kafka-cluster'' ''LITERAL'' ''IDEMPOTENT_WRITE'']"
  by (simp_all add: producer_schema_def truthy_def options_ok_def option_ok_def ForProducersForm_def new_selector_def
      MatchTypeSelector_def onTypeChange_def CreateProducerAcl_def producer_request_def get_prop_def opt_jsval_def
      option_values_def texts_def hostOrWildcard_def txnNames_def rule_checks go_trim_def go_space_def)

lemma producer_rules_match_form_witness:
  "distinct [allow ''U:a'' ''*'' ''TOPIC'' ''t'' ''LITERAL'' ''WRITE'', allow ''U:a'' ''*'' ''TOPIC'' ''t'' ''LITERAL'' ''DESCRIBE'',
      allow ''U:a'' ''*'' ''TOPIC'' ''t'' ''LITERAL'' ''CREATE'', allow ''U:a'' ''*'' ''TRANSACTIONAL_ID'' ''g-'' ''PREFIXED'' ''WRITE'',
      allow ''U:a'' ''*'' ''TRANSACTIONAL_ID'' ''g-'' ''PREFIXED'' ''DESCRIBE'', allow ''U:a'' ''*'' ''CLUSTER'' ''kafka-cluster'' ''LITERAL'' ''IDEMPOTENT_WRITE'']"
  using producer_rules_match_form [OF refl producer_example] by blast

definition stream_example :: stream_form where
  "stream_example = \<lparr>sf_principal = Some ''U:a'', sf_host = Some ''*'', sf_inputTopics = Some [topic_option], sf_outputTopics = Some [],
     sf_applicationId = Some ''g-''\<rparr>"


end
