(* ===== verification/DangerZone.thy ===== *)
theory DangerZone
  imports ResetOffsets Confirm
begin

text \<open>
  The forms that change the number of partitions and the replication factor of a topic
  (\<open>frontend/src/components/Topics/Topic/Edit/DangerZone/DangerZone.tsx\<close>), on the dialog that asks for
  confirmation, the mutations and the two handlers of the server (\<open>internal/api/handlers_topic.go\<close>) up to
  reading the request. The form library is read by its documented behaviour: a registered input without
  \<open>valueAsNumber\<close> has the text of the input as its value once it was changed.
\<close>

section \<open>The forms\<close>

datatype field = Default int | Typed string

datatype change = Partitions | Factor

record danger_zone =
  dz_partitions :: field
  dz_factor :: field
  dz_error :: "string option"
  dz_dialog :: "change dialog"
  dz_sent :: "(change \<times> jsval) list"

fun field_value :: "field \<Rightarrow> jsval" where
  "field_value (Default n) = VNum (Dec n 0)"
| "field_value (Typed t) = VStr t"

text \<open>The value as a number, as the comparison reads it.\<close>

fun field_number :: "field \<Rightarrow> js_num" where
  "field_number (Default n) = Dec n 0"
| "field_number (Typed t) = js_Number t"

fun num_below :: "js_num \<Rightarrow> int \<Rightarrow> bool" where
  "num_below NaN n = False"
| "num_below (Dec m s) n = (m < n * 10 ^ s)"

definition getValues :: "change \<Rightarrow> danger_zone \<Rightarrow> field" where
  "getValues c s = (case c of Partitions \<Rightarrow> dz_partitions s | Factor \<Rightarrow> dz_factor s)"

text \<open>The button is enabled by a change, and an empty input is refused.\<close>

fun submittable :: "field \<Rightarrow> bool" where
  "submittable (Default n) = False"
| "submittable (Typed t) = (t \<noteq> [])"

definition confirmPartitionsChange :: "danger_zone \<Rightarrow> danger_zone" where
  "confirmPartitionsChange s = s\<lparr>dz_dialog := useConfirm False
     ''Are you sure you want to increase the number of partitions? Do it only if you 100% know what you are doing!'' Partitions (dz_dialog s)\<rparr>"

definition confirmReplicationFactorChange :: "danger_zone \<Rightarrow> danger_zone" where
  "confirmReplicationFactorChange s =
     s\<lparr>dz_dialog := useConfirm False ''Are you sure you want to update the replication factor?'' Factor (dz_dialog s)\<rparr>"

definition validatePartitions :: "int \<Rightarrow> danger_zone \<Rightarrow> danger_zone" where
  "validatePartitions defaultPartitions s =
     (if num_below (field_number (dz_partitions s)) defaultPartitions
      then s\<lparr>dz_error := Some ''You can only increase the number of partitions!''\<rparr>
      else confirmPartitionsChange s)"

definition validateReplicationFactor :: "danger_zone \<Rightarrow> danger_zone" where
  "validateReplicationFactor s = confirmReplicationFactorChange s"

text \<open>A confirmed change reads the value of its form when it starts.\<close>

definition press_confirm :: "danger_zone \<Rightarrow> danger_zone" where
  "press_confirm s =
     (let d = dialog_step PressConfirm (dz_dialog s);
          new = drop (length (started (dz_dialog s))) (started d)
      in s\<lparr>dz_dialog := d, dz_sent := dz_sent s @ map (\<lambda>c. (c, field_value (getValues c s))) new\<rparr>)"

datatype danger_event =
  TypePartitions string | TypeFactor string | SubmitPartitions | SubmitFactor | PressedConfirm | PressedCancel | Ended

fun danger_step :: "int \<Rightarrow> danger_event \<Rightarrow> danger_zone \<Rightarrow> danger_zone" where
  "danger_step n (TypePartitions t) s = s\<lparr>dz_partitions := Typed t\<rparr>"
| "danger_step n (TypeFactor t) s = s\<lparr>dz_factor := Typed t\<rparr>"
| "danger_step n SubmitPartitions s = (if submittable (dz_partitions s) then validatePartitions n (s\<lparr>dz_error := None\<rparr>) else s)"
| "danger_step n SubmitFactor s = (if submittable (dz_factor s) then validateReplicationFactor s else s)"
| "danger_step n PressedConfirm s = press_confirm s"
| "danger_step n PressedCancel s = s\<lparr>dz_dialog := dialog_step PressCancel (dz_dialog s)\<rparr>"
| "danger_step n Ended s = s\<lparr>dz_dialog := dialog_step Settle (dz_dialog s)\<rparr>"

definition DangerZone_start :: "int \<Rightarrow> int \<Rightarrow> danger_zone" where
  "DangerZone_start defaultPartitions defaultReplicationFactor =
     \<lparr>dz_partitions = Default defaultPartitions, dz_factor = Default defaultReplicationFactor, dz_error = None,
      dz_dialog = ConfirmContextProvider, dz_sent = []\<rparr>"

section \<open>The requests and the server\<close>

definition change_request :: "api_configuration \<Rightarrow> string \<Rightarrow> string \<Rightarrow> change \<times> jsval \<Rightarrow> api_error + request" where
  "change_request conf clusterName topicName x =
     (case mutationFn ((case fst x of Partitions \<Rightarrow> useIncreaseTopicPartitionsCount | Factor \<Rightarrow> useUpdateTopicReplicationFactor)
        clusterName topicName (snd x)) of
        (name, e, p) \<Rightarrow> build_request toISOString conf e p)"

text \<open>\<open>Inl\<close> is the answer with status 400; the number of a body without the member is zero.\<close>

definition decode_total :: "nat \<Rightarrow> string \<Rightarrow> payload \<Rightarrow> int res" where
  "decode_total w n body =
     (case body of
        JsonText (JObj ms) \<Rightarrow> bind_res (go_member ms n (go_pointer (go_int 64)))
          (\<lambda>v. Inr (case v of Some i \<Rightarrow> (i + 2 ^ (w - 1)) mod 2 ^ w - 2 ^ (w - 1) | None \<Rightarrow> 0))
      | JsonText JNull \<Rightarrow> Inr 0
      | _ \<Rightarrow> Inl TypeError)"

definition IncreaseTopicPartitions :: "payload \<Rightarrow> int res" where
  "IncreaseTopicPartitions body = decode_total 32 ''totalPartitionsCount'' body"

definition ChangeReplicationFactor :: "payload \<Rightarrow> int res" where
  "ChangeReplicationFactor body = decode_total 16 ''totalReplicationFactor'' body"

definition answered :: "change \<Rightarrow> payload \<Rightarrow> int res" where
  "answered c body = (case c of Partitions \<Rightarrow> IncreaseTopicPartitions body | Factor \<Rightarrow> ChangeReplicationFactor body)"

section \<open>Only texts are sent\<close>

definition is_typed :: "field \<Rightarrow> bool" where
  "is_typed f \<longleftrightarrow> (case f of Typed _ \<Rightarrow> True | Default _ \<Rightarrow> False)"

definition asks_typed :: "danger_zone \<Rightarrow> bool" where
  "asks_typed s \<longleftrightarrow> (\<forall>c. confirm (dz_dialog s) = Some c \<longrightarrow> is_typed (getValues c s))"

definition sends_text :: "danger_event \<Rightarrow> danger_zone \<Rightarrow> change \<times> jsval \<Rightarrow> bool" where
  "sends_text e s x \<longleftrightarrow> (\<exists>t. snd x = VStr t)"

lemma submittable_typed: "submittable f \<Longrightarrow> is_typed f"
  by (cases f) (simp_all add: is_typed_def)

lemma typed_text: "is_typed f \<Longrightarrow> \<exists>t. field_value f = VStr t"
  by (cases f) (simp_all add: is_typed_def)

lemma confirm_step: "confirm (dialog_step PressConfirm d) = confirm d"
  by (auto simp: confirm_start_def split: option.split)

lemma confirm_less: "e = PressCancel \<or> e = Settle \<Longrightarrow> confirm (dialog_step e d) = Some c \<Longrightarrow> confirm d = Some c"
  by (auto simp: dialog_defs split: if_splits)

lemma new_started: "drop (length (started d)) (started (dialog_step PressConfirm d)) = [] \<or>
  (\<exists>c. confirm d = Some c \<and> drop (length (started d)) (started (dialog_step PressConfirm d)) = [c])"
  by (auto simp: confirm_start_def split: option.split)

interpretation danger: logging_machine "danger_step n" "\<lambda>e. True" asks_typed dz_sent sends_text for n
proof
  fix e :: danger_event and s :: danger_zone
  assume inv: "asks_typed s"
  show "asks_typed (danger_step n e s)"
  proof (cases e)
    case PressedConfirm
    with inv show ?thesis by (auto simp: asks_typed_def press_confirm_def Let_def confirm_step getValues_def simp del: dialog_step.simps split: change.split)
  next
    case PressedCancel
    with inv confirm_less [of PressCancel "dz_dialog s"] show ?thesis
      by (auto simp: asks_typed_def getValues_def simp del: dialog_step.simps split: change.split)
  next
    case Ended
    with inv confirm_less [of Settle "dz_dialog s"] show ?thesis
      by (auto simp: asks_typed_def getValues_def simp del: dialog_step.simps split: change.split)
  qed (use inv submittable_typed in \<open>auto simp: asks_typed_def getValues_def validatePartitions_def validateReplicationFactor_def
      confirmPartitionsChange_def confirmReplicationFactorChange_def useConfirm_def is_typed_def split: change.splits\<close>)
  show "\<exists>new. dz_sent (danger_step n e s) = dz_sent s @ new \<and> list_all (sends_text e s) new"
  proof (cases e)
    case PressedConfirm
    with inv new_started [of "dz_dialog s"] typed_text show ?thesis
      by (auto simp: press_confirm_def Let_def sends_text_def asks_typed_def simp del: dialog_step.simps)
  qed (auto simp: validatePartitions_def validateReplicationFactor_def confirmPartitionsChange_def confirmReplicationFactorChange_def)
qed

lemma change_sent:
  "\<exists>r. change_request conf cluster topic (c, VStr t) = Inr r \<and> rq_body r =
    JsonText (JObj [(case c of Partitions \<Rightarrow> ''totalPartitionsCount'' | Factor \<Rightarrow> ''totalReplicationFactor'', JStr t)])"
  by (cases c) (simp_all add: change_request_def mutation_hook_defs of_topic_def in_cluster_def build_request_def
      increaseTopicPartitions_def changeReplicationFactor_def missing_param_def arg_def get_prop_def nullish_def
      request_body_def createFetchParams_def Let_def PartitionsIncrease_model_def ReplicationFactorChange_model_def)

section \<open>Property\<close>

text \<open>
  The number of partitions and the replication factor of a topic cannot be changed with these forms. Whatever is
  typed, submitted and confirmed, every request that is sent carries the number as text, and the server, which
  reads an integer, answers it with status 400.
\<close>

theorem danger_zone_is_refused:
  assumes "(c, v) \<in> set (dz_sent (fold (danger_step n) es (DangerZone_start n factor)))"
  shows "\<exists>r e. change_request conf cluster topic (c, v) = Inr r \<and> answered c (rq_body r) = Inl e"
proof -
  have start: "asks_typed (DangerZone_start n factor)" "(c, v) \<notin> set (dz_sent (DangerZone_start n factor))"
    by (simp_all add: asks_typed_def DangerZone_start_def ConfirmContextProvider_def)
  from danger.logged [OF _ start(1) assms] start(2) obtain t where v: "v = VStr t"
    by (auto simp: list_all_iff sends_text_def)
  obtain r where "change_request conf cluster topic (c, v) = Inr r"
    "rq_body r = JsonText (JObj [(case c of Partitions \<Rightarrow> ''totalPartitionsCount'' | Factor \<Rightarrow> ''totalReplicationFactor'', JStr t)])"
    using change_sent v by blast
  then show ?thesis
    by (cases c) (simp_all add: answered_def IncreaseTopicPartitions_def ChangeReplicationFactor_def decode_total_def go_member_def go_pointer_def)
qed

lemma danger_zone_is_refused_witness:
  "\<exists>r e. change_request \<lparr>basePath = [], conf_headers = []\<rparr> ''c'' ''t'' (Partitions, VStr ''6'') = Inr r
    \<and> answered Partitions (rq_body r) = Inl e"
proof (rule danger_zone_is_refused)
  have six: "js_Number ''6'' = Dec 6 0"
    by (simp add: js_Number_def js_trim_def is_js_space_def unsigned_decimal_def is_digit_def read_nat_def digit_val_def)
  show "(Partitions, VStr ''6'') \<in> set (dz_sent (fold (danger_step 3) [TypePartitions ''6'', SubmitPartitions, PressedConfirm] (DangerZone_start 3 1)))"
    by (simp add: DangerZone_start_def validatePartitions_def six confirmPartitionsChange_def press_confirm_def Let_def
        ConfirmContextProvider_def dialog_defs truthy_def getValues_def)
qed

end
