(* ===== verification/Preview.thy ===== *)
theory Preview
  imports JsonText
begin

text \<open>
  The previews of the messages of a topic: which members of keys and values are shown
  (\<open>frontend/src/components/Topics/Topic/Messages/PreviewModal.tsx\<close> and \<open>MessagesTable.tsx\<close>). The library that
  evaluates paths is a parameter: \<open>valid\<close> says for which paths it does not throw. The dialog exists
  while it is shown and starts empty; the stored previews are the value of the local storage hook. Below it, a
  message as the table shows, opens and saves it (\<open>Message.tsx\<close>, \<open>MessageContent/MessageContent.tsx\<close>); here the
  library is a parameter \<open>jsonpath\<close>, which gives the value at a path, if any.
\<close>

section \<open>The dialog\<close>

record PreviewFilter =
  pf_field :: string
  pf_path :: string

record PreviewModal =
  pm_field :: string
  pm_path :: string
  pm_errors :: "string list"
  pm_editIndex :: "nat option"

definition new_modal :: PreviewModal where
  "new_modal = \<lparr>pm_field = [], pm_path = [], pm_errors = [], pm_editIndex = None\<rparr>"

definition new_errors :: "(string \<Rightarrow> bool) \<Rightarrow> PreviewModal \<Rightarrow> string list" where
  "new_errors valid m =
     (if pm_field m = [] then [''field''] else [])
     @ (if js_trim (pm_path m) = [] then [''path''] else if valid (pm_path m) then [] else [''invalidPath''])"

text \<open>\<open>splice(i, 1, x)\<close>: past the end it appends.\<close>

definition splice1 :: "nat \<Rightarrow> 'a \<Rightarrow> 'a list \<Rightarrow> 'a list" where
  "splice1 i x xs = take i xs @ [x] @ drop (Suc i) xs"

text \<open>The new list, or the errors.\<close>

definition handleOk :: "(string \<Rightarrow> bool) \<Rightarrow> PreviewFilter list \<Rightarrow> PreviewModal \<Rightarrow> string list + PreviewFilter list" where
  "handleOk valid values m =
     (let errors = new_errors valid m; f = \<lparr>pf_field = pm_field m, pf_path = pm_path m\<rparr>
      in if errors \<noteq> [] then Inl errors
         else Inr (case pm_editIndex m of Some i \<Rightarrow> splice1 i f values | None \<Rightarrow> values @ [f]))"

definition handleRemove :: "PreviewFilter \<Rightarrow> PreviewFilter list \<Rightarrow> PreviewFilter list" where
  "handleRemove f values = filter (\<lambda>item. pf_field item \<noteq> pf_field f \<and> pf_path item \<noteq> pf_path f) values"

text \<open>Choosing a row to edit; the fields are filled when the index changes.\<close>

definition setEditIndex :: "PreviewFilter list \<Rightarrow> nat \<Rightarrow> PreviewModal \<Rightarrow> PreviewModal" where
  "setEditIndex values i m =
     (if pm_editIndex m = Some i then m
      else m\<lparr>pm_editIndex := Some i, pm_field := pf_field (values ! i), pm_path := pf_path (values ! i)\<rparr>)"

section \<open>The table\<close>

datatype preview_side = KeyPreview | ContentPreview

record topic_preview =
  tp_keyFilters :: "PreviewFilter list option"
  tp_contentFilters :: "PreviewFilter list option"

record MessagesTable =
  previewFor :: "preview_side option"
  keyFilters :: "PreviewFilter list"
  contentFilters :: "PreviewFilter list"
  messagesPreview :: "(string \<times> topic_preview) list"
  modal :: PreviewModal

definition or_none :: "'a list option \<Rightarrow> 'a list" where
  "or_none v = (case v of Some xs \<Rightarrow> xs | None \<Rightarrow> [])"

definition stored_filters :: "preview_side \<Rightarrow> string \<Rightarrow> (string \<times> topic_preview) list \<Rightarrow> PreviewFilter list" where
  "stored_filters side topic store =
     or_none (Option.bind (map_of store topic) (case side of KeyPreview \<Rightarrow> tp_keyFilters | ContentPreview \<Rightarrow> tp_contentFilters))"

text \<open>The table as it is mounted, with the stored previews or the initial ones.\<close>

definition mount_table :: "string \<Rightarrow> (string \<times> topic_preview) list option \<Rightarrow> MessagesTable" where
  "mount_table topic stored =
     (let store = (case stored of Some st \<Rightarrow> st | None \<Rightarrow> [(topic, \<lparr>tp_keyFilters = Some [], tp_contentFilters = Some []\<rparr>)])
      in \<lparr>previewFor = None, keyFilters = stored_filters KeyPreview topic store,
          contentFilters = stored_filters ContentPreview topic store, messagesPreview = store, modal = new_modal\<rparr>)"

definition topic_entry :: "string \<Rightarrow> (string \<times> topic_preview) list \<Rightarrow> topic_preview" where
  "topic_entry topic store = (case map_of store topic of Some p \<Rightarrow> p | None \<Rightarrow> \<lparr>tp_keyFilters = None, tp_contentFilters = None\<rparr>)"

definition setFilters :: "string \<Rightarrow> PreviewFilter list \<Rightarrow> MessagesTable \<Rightarrow> MessagesTable" where
  "setFilters topic payload s =
     (let e = topic_entry topic (messagesPreview s)
      in if previewFor s = Some KeyPreview
         then s\<lparr>keyFilters := payload, messagesPreview := AList.update topic (e\<lparr>tp_keyFilters := Some payload\<rparr>) (messagesPreview s)\<rparr>
         else s\<lparr>contentFilters := payload, messagesPreview := AList.update topic (e\<lparr>tp_contentFilters := Some payload\<rparr>) (messagesPreview s)\<rparr>)"

definition modal_values :: "MessagesTable \<Rightarrow> PreviewFilter list" where
  "modal_values s = (if previewFor s = Some KeyPreview then keyFilters s else contentFilters s)"

datatype preview_event = OpenPreview preview_side | ClosePreview | SetField string | SetPath string | EditRow nat | RemoveRow nat | PressSave

text \<open>Everything but opening happens in the dialog.\<close>

definition modal_step :: "(string \<Rightarrow> bool) \<Rightarrow> string \<Rightarrow> preview_event \<Rightarrow> MessagesTable \<Rightarrow> MessagesTable" where
  "modal_step valid topic e s =
     (let values = modal_values s
      in case e of
           OpenPreview side \<Rightarrow> s\<lparr>previewFor := Some side\<rparr>
         | ClosePreview \<Rightarrow> s\<lparr>previewFor := None, modal := new_modal\<rparr>
         | SetField t \<Rightarrow> s\<lparr>modal := (modal s)\<lparr>pm_field := t\<rparr>\<rparr>
         | SetPath t \<Rightarrow> s\<lparr>modal := (modal s)\<lparr>pm_path := t\<rparr>\<rparr>
         | EditRow i \<Rightarrow> (if i < length values then s\<lparr>modal := setEditIndex values i (modal s)\<rparr> else s)
         | RemoveRow i \<Rightarrow> (if i < length values then setFilters topic (handleRemove (values ! i) values) s else s)
         | PressSave \<Rightarrow>
             (case handleOk valid values (modal s) of
                Inl errors \<Rightarrow> s\<lparr>modal := (modal s)\<lparr>pm_errors := errors\<rparr>\<rparr>
              | Inr new \<Rightarrow> (setFilters topic new s)\<lparr>previewFor := None, modal := new_modal\<rparr>))"

definition preview_step :: "(string \<Rightarrow> bool) \<Rightarrow> string \<Rightarrow> preview_event \<Rightarrow> MessagesTable \<Rightarrow> MessagesTable" where
  "preview_step valid topic e s =
     (case (e, previewFor s) of
        (OpenPreview side, _) \<Rightarrow> s\<lparr>previewFor := Some side\<rparr>
      | (_, None) \<Rightarrow> s
      | _ \<Rightarrow> modal_step valid topic e s)"

section \<open>Valid and stored\<close>

definition filter_ok :: "(string \<Rightarrow> bool) \<Rightarrow> PreviewFilter \<Rightarrow> bool" where
  "filter_ok valid f \<longleftrightarrow> pf_field f \<noteq> [] \<and> js_trim (pf_path f) \<noteq> [] \<and> valid (pf_path f)"

definition preview_inv :: "(string \<Rightarrow> bool) \<Rightarrow> string \<Rightarrow> MessagesTable \<Rightarrow> bool" where
  "preview_inv valid topic s \<longleftrightarrow>
     keyFilters s = stored_filters KeyPreview topic (messagesPreview s)
     \<and> contentFilters s = stored_filters ContentPreview topic (messagesPreview s)
     \<and> list_all (filter_ok valid) (keyFilters s) \<and> list_all (filter_ok valid) (contentFilters s)"

lemma splice1_valid: "list_all P vs \<Longrightarrow> P x \<Longrightarrow> list_all P (splice1 i x vs)"
  using set_take_subset [of i vs] set_drop_subset [of "Suc i" vs] by (auto simp: splice1_def list_all_iff)

lemma handleOk_new_errors:
  "handleOk valid vs m = Inr ws \<Longrightarrow> new_errors valid m = []
     \<and> ws = (case pm_editIndex m of Some i \<Rightarrow> splice1 i \<lparr>pf_field = pm_field m, pf_path = pm_path m\<rparr> vs
                                   | None \<Rightarrow> vs @ [\<lparr>pf_field = pm_field m, pf_path = pm_path m\<rparr>])"
  by (auto simp: handleOk_def Let_def split: if_splits)

lemma no_errors_ok: "new_errors valid m = [] \<Longrightarrow> filter_ok valid \<lparr>pf_field = pm_field m, pf_path = pm_path m\<rparr>"
  by (auto simp: new_errors_def filter_ok_def split: if_splits)

lemma handleOk_valid:
  assumes "handleOk valid vs m = Inr ws" and "list_all (filter_ok valid) vs"
  shows "list_all (filter_ok valid) ws"
  using handleOk_new_errors [OF assms(1)] assms(2)
  by (cases "pm_editIndex m") (simp_all add: no_errors_ok splice1_valid)

lemma handleRemove_valid: "list_all P vs \<Longrightarrow> list_all P (handleRemove f vs)"
  by (simp add: handleRemove_def list_all_iff)

lemma setFilters_inv:
  assumes "preview_inv valid topic s" and "list_all (filter_ok valid) ws"
  shows "preview_inv valid topic (setFilters topic ws s)"
  using assms by (cases "map_of (messagesPreview s) topic")
    (auto simp: preview_inv_def setFilters_def stored_filters_def topic_entry_def or_none_def update_conv' Let_def)

lemma values_valid: "preview_inv valid topic s \<Longrightarrow> list_all (filter_ok valid) (modal_values s)"
  by (metis preview_inv_def modal_values_def)

lemma preview_inv_modal [simp]:
  "preview_inv valid topic (s\<lparr>modal := m\<rparr>) = preview_inv valid topic s"
  "preview_inv valid topic (s\<lparr>previewFor := p\<rparr>) = preview_inv valid topic s"
  by (simp_all add: preview_inv_def)

lemma modal_inv: "preview_inv valid topic s \<Longrightarrow> preview_inv valid topic (modal_step valid topic e s)"
  using values_valid [of valid topic s]
  by (cases e) (auto simp: modal_step_def Let_def handleRemove_valid setFilters_inv handleOk_valid split: sum.split)

interpretation previews: machine "preview_step valid topic" "\<lambda>e. True" "preview_inv valid topic" for valid topic
  by unfold_locales (auto simp: preview_step_def modal_inv split: preview_event.split option.split)

text \<open>The stored previews of a topic are usable.\<close>

definition store_ok :: "(string \<Rightarrow> bool) \<Rightarrow> string \<Rightarrow> (string \<times> topic_preview) list option \<Rightarrow> bool" where
  "store_ok valid topic stored \<longleftrightarrow>
     (case stored of
        Some store \<Rightarrow> list_all (filter_ok valid) (stored_filters KeyPreview topic store @ stored_filters ContentPreview topic store)
      | None \<Rightarrow> True)"

lemma mount_preview_inv: "store_ok valid topic stored \<Longrightarrow> preview_inv valid topic (mount_table topic stored)"
  by (auto simp: store_ok_def preview_inv_def mount_table_def stored_filters_def or_none_def split: option.splits)

section \<open>A message in the table\<close>

definition getParsedJson :: "string \<Rightarrow> json" where
  "getParsedJson jsonValue = (case JSON_parse jsonValue of Some v \<Rightarrow> v | None \<Rightarrow> JObj [])"

text \<open>The text as it is, or one line for each preview; \<open>JSON.stringify(undefined)\<close> shows nothing.\<close>

definition renderFilteredJson :: "(string \<Rightarrow> json \<Rightarrow> json option) \<Rightarrow> string option \<Rightarrow> PreviewFilter list \<Rightarrow> string option + string list" where
  "renderFilteredJson jsonpath jsonValue filters =
     (case jsonValue of
        None \<Rightarrow> Inl None
      | Some t \<Rightarrow>
          if filters = [] \<or> t = [] then Inl (Some t)
          else Inr (map (\<lambda>item. pf_field item @ '': ''
                 @ (case jsonpath (pf_path item) (getParsedJson t) of Some v \<Rightarrow> js_stringify v | None \<Rightarrow> [])) filters))"

record saved_message =
  sm_value :: "string option"
  sm_offset :: int
  sm_key :: "string option"
  sm_partition :: int
  sm_headers :: "(string \<times> string option) list option"
  sm_timestamp :: string

definition optional_member :: "string \<Rightarrow> json option \<Rightarrow> (string \<times> json) list" where
  "optional_member k v = (case v of Some x \<Rightarrow> [(k, x)] | None \<Rightarrow> [])"

text \<open>The headers of a message as an object; a header may be null.\<close>

definition headers_object :: "(string \<times> string option) list \<Rightarrow> json" where
  "headers_object hs = JObj (map (\<lambda>(k, v). (k, case v of Some x \<Rightarrow> JStr x | None \<Rightarrow> JNull)) hs)"

definition saved_object :: "saved_message \<Rightarrow> json" where
  "saved_object m = JObj
     (optional_member ''Value'' (map_option JStr (sm_value m))
      @ [(''Offset'', JNum (Dec (sm_offset m) 0))]
      @ optional_member ''Key'' (map_option JStr (sm_key m))
      @ [(''Partition'', JNum (Dec (sm_partition m) 0))]
      @ optional_member ''Headers'' (map_option headers_object (sm_headers m))
      @ [(''Timestamp'', JStr (sm_timestamp m))])"

text \<open>The text that is copied or saved, indented by tabs.\<close>

definition savedMessage :: "saved_message \<Rightarrow> string" where
  "savedMessage m = js_stringify_tabs (saved_object m)"

datatype message_tab = KeyTab | ContentTab | HeadersTab

definition activeTabContent :: "message_tab \<Rightarrow> string option \<Rightarrow> string option \<Rightarrow> (string \<times> string option) list option \<Rightarrow> string" where
  "activeTabContent tab messageKey messageContent headers =
     or_default (case tab of
        ContentTab \<Rightarrow> messageContent
      | KeyTab \<Rightarrow> messageKey
      | HeadersTab \<Rightarrow> map_option (\<lambda>hs. js_stringify (headers_object hs)) headers) []"

datatype viewer_type = JsonType | ProtobufType

definition contentType :: "string option \<Rightarrow> viewer_type" where
  "contentType messageContent =
     (case messageContent of
        Some c \<Rightarrow> (case js_trim c of
                     x # _ \<Rightarrow> if x = CHR ''{'' \<or> x = CHR ''['' then JsonType else ProtobufType
                   | [] \<Rightarrow> ProtobufType)
      | None \<Rightarrow> ProtobufType)"

lemma saved_object_wf: "distinct (map fst (case sm_headers m of Some hs \<Rightarrow> hs | None \<Rightarrow> [])) \<Longrightarrow> wf_json (saved_object m)"
  by (auto simp: saved_object_def headers_object_def optional_member_def list_all_iff split_def comp_def split: option.splits)

section \<open>Properties\<close>


text \<open>
  C29. Every preview that is shown or stored has a name and a path that the library evaluates, after any use of the
  dialog; and a table that is mounted later from the stored previews shows the same ones.
\<close>

theorem previews_are_valid_and_stored:
  assumes "store_ok valid topic stored"
    and "s = fold (preview_step valid topic) es (mount_table topic stored)"
  shows "list_all (filter_ok valid) (keyFilters s @ contentFilters s)
    \<and> keyFilters (mount_table topic (Some (messagesPreview s))) = keyFilters s
    \<and> contentFilters (mount_table topic (Some (messagesPreview s))) = contentFilters s"
proof -
  have "preview_inv valid topic s" unfolding assms(2)
    by (rule previews.inv_run [OF _ mount_preview_inv [OF assms(1)]]) (simp add: list_all_iff)
  then show ?thesis by (auto simp: preview_inv_def mount_table_def Let_def)
qed

text \<open>
  Removing one preview removes every preview that shares its name or its path: of the others only those stay
  that differ in both.
\<close>

theorem removal_drops_lookalikes:
  assumes "previewFor s = Some side" and "i < length (modal_values s)" and "j < length (modal_values s)"
    and "pf_field (modal_values s ! j) = pf_field (modal_values s ! i) \<or> pf_path (modal_values s ! j) = pf_path (modal_values s ! i)"
  shows "modal_values s ! j \<notin> set (modal_values (preview_step valid topic (RemoveRow i) s))"
  using assms by (cases side)
    (auto simp: preview_step_def modal_step_def modal_values_def setFilters_def handleRemove_def Let_def)

section \<open>Witnesses\<close>

abbreviation example_previews :: "(string \<times> topic_preview) list" where
  "example_previews \<equiv> [(''t'', \<lparr>tp_keyFilters = None, tp_contentFilters = Some [\<lparr>pf_field = ''a'', pf_path = ''p''\<rparr>, \<lparr>pf_field = ''b'', pf_path = ''p''\<rparr>]\<rparr>)]"

lemma path_not_blank: "js_trim ''p'' = ''p''" "js_trim ''q'' = ''q''"
  by (simp_all add: js_trim_def is_js_space_def)

lemma previews_are_valid_and_stored_witness:
  "keyFilters (mount_table ''t'' (Some (messagesPreview (fold (preview_step (\<lambda>p. True) ''t'')
      [OpenPreview KeyPreview, SetField ''c'', SetPath ''q'', PressSave] (mount_table ''t'' (Some example_previews))))))
    = [\<lparr>pf_field = ''c'', pf_path = ''q''\<rparr>]"
proof -
  have "store_ok (\<lambda>p. True) ''t'' (Some example_previews)"
    by (simp add: store_ok_def stored_filters_def or_none_def filter_ok_def path_not_blank)
  from previews_are_valid_and_stored [OF this refl, of "[OpenPreview KeyPreview, SetField ''c'', SetPath ''q'', PressSave]"]
  show ?thesis
    by (simp add: mount_table_def stored_filters_def or_none_def preview_step_def modal_step_def modal_values_def handleOk_def
        new_errors_def path_not_blank setFilters_def new_modal_def Let_def)
qed

lemma removal_drops_lookalikes_witness:
  "\<lparr>pf_field = ''b'', pf_path = ''p''\<rparr> \<notin> set (modal_values (preview_step (\<lambda>p. True) ''t'' (RemoveRow 0)
     ((mount_table ''t'' (Some example_previews))\<lparr>previewFor := Some ContentPreview\<rparr>)))"
  using removal_drops_lookalikes [of "(mount_table ''t'' (Some example_previews))\<lparr>previewFor := Some ContentPreview\<rparr>" ContentPreview 0 1 "\<lambda>p. True" "''t''"]
  by (simp add: mount_table_def modal_values_def stored_filters_def or_none_def)


end
