(* ===== verification/Schemas.thy ===== *)
theory Schemas
  imports Hooks Confirm Paths SearchParams JsonText
begin

text \<open>
  The pages of the schema registry (\<open>frontend/src/components/Schemas\<close>): the form that edits a schema, the form for a
  new one, the comparison of two versions, and the selector of the global compatibility level.
  Schema types and compatibility levels are the texts of their enumerations. A press of a button is one event that carries
  whether the server accepts each request.
\<close>

section \<open>Editing a schema\<close>

record SchemaSubject =
  ss_subject :: string
  ss_version :: string
  ss_schema :: string
  ss_schemaType :: string
  ss_compatibilityLevel :: string
  ss_references :: jsval

record NewSchemaSubjectRaw =
  sf_schemaType :: string
  sf_compatibilityLevel :: string
  sf_newSchema :: string

text \<open>\<open>None\<close> when \<open>JSON.parse\<close> throws.\<close>

definition formatedSchema :: "SchemaSubject \<Rightarrow> string option" where
  "formatedSchema s =
     (if ss_schemaType s = ''PROTOBUF'' then Some (ss_schema s)
      else map_option js_stringify_tabs (JSON_parse (if ss_schema s = [] then ''{}'' else ss_schema s)))"

definition Edit_defaults :: "SchemaSubject \<Rightarrow> string \<Rightarrow> NewSchemaSubjectRaw" where
  "Edit_defaults s d = \<lparr>sf_schemaType = ss_schemaType s, sf_compatibilityLevel = ss_compatibilityLevel s, sf_newSchema = d\<rparr>"

definition Edit_validationSchema :: "SchemaSubject \<Rightarrow> NewSchemaSubjectRaw \<Rightarrow> bool" where
  "Edit_validationSchema s f \<longleftrightarrow>
     sf_newSchema f \<noteq> [] \<and> (ss_schemaType s = ''PROTOBUF'' \<or> isValidJsonObject (sf_newSchema f))"

text \<open>The schema as an object, spread into the arguments of both mutations.\<close>

definition schema_members :: "SchemaSubject \<Rightarrow> (string \<times> jsval) list" where
  "schema_members s =
     [(''subject'', VStr (ss_subject s)), (''version'', VStr (ss_version s)), (''schema'', VStr (ss_schema s)),
      (''schemaType'', VStr (ss_schemaType s)), (''compatibilityLevel'', VStr (ss_compatibilityLevel s)),
      (''references'', ss_references s)]"

definition compatibility_change :: "string \<Rightarrow> string \<Rightarrow> SchemaSubject \<Rightarrow> string \<Rightarrow> mutation_hook" where
  "compatibility_change c subject s level =
     useUpdateSchemaCompatibilityLayer c subject
       (VObj (AList.update ''compatibilityLevel'' (VObj [(''compatibility'', VStr level)]) (schema_members s)))"

definition schema_creation :: "string \<Rightarrow> SchemaSubject \<Rightarrow> NewSchemaSubjectRaw \<Rightarrow> mutation_hook" where
  "schema_creation c s f =
     useCreateSchema c
       (VObj (AList.update ''schema'' (VStr (if sf_newSchema f = [] then ss_schema s else sf_newSchema f))
         (AList.update ''schemaType'' (VStr (if sf_schemaType f = [] then ss_schemaType s else sf_schemaType f)) (schema_members s))))"

text \<open>The requests that are sent, and whether all were accepted; the first that is refused ends the submission.\<close>

definition Edit_onSubmit ::
  "string \<Rightarrow> string \<Rightarrow> SchemaSubject \<Rightarrow> string \<Rightarrow> bool \<times> bool \<Rightarrow> NewSchemaSubjectRaw \<Rightarrow> mutation_hook list \<times> bool" where
  "Edit_onSubmit c subject s d accepted f =
     (let dirtyLevel = sf_compatibilityLevel f \<noteq> ss_compatibilityLevel s;
          dirtySchema = sf_newSchema f \<noteq> d \<or> sf_schemaType f \<noteq> ss_schemaType s;
          first = (if dirtyLevel then [compatibility_change c subject s (sf_compatibilityLevel f)] else []);
          second = (if dirtySchema then [schema_creation c s f] else [])
      in if dirtyLevel \<and> \<not> fst accepted then (first, False) else (first @ second, \<not> dirtySchema \<or> snd accepted))"

record schema_editor =
  se_form :: NewSchemaSubjectRaw
  se_sent :: "mutation_hook list"
  se_left_for :: "string option"

datatype edit_event = ChooseLevel string | TypeSchema string | PressSubmit "bool \<times> bool"

definition edit_start :: "SchemaSubject \<Rightarrow> string \<Rightarrow> schema_editor" where
  "edit_start s d = \<lparr>se_form = Edit_defaults s d, se_sent = [], se_left_for = None\<rparr>"

text \<open>The type cannot be changed. The button needs a changed form, and the submission a valid one.\<close>

fun edit_page_step :: "string \<Rightarrow> string \<Rightarrow> SchemaSubject \<Rightarrow> string \<Rightarrow> edit_event \<Rightarrow> schema_editor \<Rightarrow> schema_editor" where
  "edit_page_step c subject s d (ChooseLevel level) p = p\<lparr>se_form := (se_form p)\<lparr>sf_compatibilityLevel := level\<rparr>\<rparr>"
| "edit_page_step c subject s d (TypeSchema t) p = p\<lparr>se_form := (se_form p)\<lparr>sf_newSchema := t\<rparr>\<rparr>"
| "edit_page_step c subject s d (PressSubmit accepted) p =
     (if se_form p = Edit_defaults s d \<or> \<not> Edit_validationSchema s (se_form p) \<or> se_left_for p \<noteq> None then p
      else case Edit_onSubmit c subject s d accepted (se_form p) of
        (sent, ok) \<Rightarrow> p\<lparr>se_sent := se_sent p @ sent,
                        se_left_for := if ok then Some (clusterSchemaPath (Some c) (Some subject)) else None\<rparr>)"

section \<open>A new schema\<close>

definition SchemaTypeOptions :: "string list" where
  "SchemaTypeOptions = [''AVRO'', ''JSON'', ''PROTOBUF'']"

definition SCHEMA_NAME_VALIDATION_PATTERN :: "string \<Rightarrow> bool" where
  "SCHEMA_NAME_VALIDATION_PATTERN s \<longleftrightarrow>
     s \<noteq> [] \<and> list_all (\<lambda>c.
       let n = of_char c :: nat in 97 \<le> n \<and> n \<le> 122 \<or> 65 \<le> n \<and> n \<le> 90 \<or> is_digit c \<or> c \<in> set ''.,_/-'') s"

definition New_validationSchema :: "string \<Rightarrow> string \<Rightarrow> string \<Rightarrow> bool" where
  "New_validationSchema subject schema schemaType \<longleftrightarrow>
     SCHEMA_NAME_VALIDATION_PATTERN subject \<and> schema \<noteq> [] \<and> schemaType \<noteq> []"

text \<open>The request, and the page that is opened when it is accepted.\<close>

definition New_onSubmit :: "string \<Rightarrow> string \<Rightarrow> string \<Rightarrow> string \<Rightarrow> mutation_hook \<times> string" where
  "New_onSubmit c subject schema schemaType =
     (useCreateSchema c (VObj [(''subject'', VStr subject), (''schema'', VStr schema), (''schemaType'', VStr schemaType)]),
      clusterSchemaPath (Some c) (Some subject))"

section \<open>Comparing two versions\<close>

record diff_page =
  leftVersion :: string
  rightVersion :: string
  locations :: "(string \<times> sparams) list"

text \<open>The history of the browser, the current location first.\<close>

definition Diff :: "(string \<times> sparams) list \<Rightarrow> diff_page" where
  "Diff history =
     \<lparr>leftVersion = or_default (sp_get (snd (hd history)) ''leftVersion'') [],
      rightVersion = or_default (sp_get (snd (hd history)) ''rightVersion'') [], locations = history\<rparr>"

text \<open>What the selects show; an empty list of versions makes the page throw.\<close>

definition shown_version :: "SchemaSubject list \<Rightarrow> string \<Rightarrow> string" where
  "shown_version versions v = (if v = [] then ss_version (hd versions) else v)"

definition shown_versions :: "SchemaSubject list \<Rightarrow> diff_page \<Rightarrow> string \<times> string" where
  "shown_versions versions s = (shown_version versions (leftVersion s), shown_version versions (rightVersion s))"

text \<open>Each choice goes to the page without a query and then to the page with both versions in the query.\<close>

definition choose_left :: "string \<Rightarrow> SchemaSubject list \<Rightarrow> string \<Rightarrow> diff_page \<Rightarrow> diff_page" where
  "choose_left path versions v s =
     (let q = sp_set ''rightVersion'' (shown_version versions (rightVersion s)) (sp_set ''leftVersion'' v (snd (hd (locations s))))
      in s\<lparr>leftVersion := v, locations := (path, q) # (path, []) # locations s\<rparr>)"

definition choose_right :: "string \<Rightarrow> SchemaSubject list \<Rightarrow> string \<Rightarrow> diff_page \<Rightarrow> diff_page" where
  "choose_right path versions v s =
     (let q = sp_set ''rightVersion'' v (sp_set ''leftVersion'' (shown_version versions (leftVersion s)) (snd (hd (locations s))))
      in s\<lparr>rightVersion := v, locations := (path, q) # (path, []) # locations s\<rparr>)"

text \<open>The state of the page does not follow the location.\<close>

definition press_back :: "diff_page \<Rightarrow> diff_page" where
  "press_back s = s\<lparr>locations := tl (locations s)\<rparr>"

definition getSchemaContent :: "SchemaSubject list \<Rightarrow> string \<Rightarrow> string option" where
  "getSchemaContent allVersions version =
     (let first = (case allVersions of s # _ \<Rightarrow> ss_schema s | [] \<Rightarrow> []);
          selectedSchema = or_default (map_option ss_schema (find (\<lambda>s. ss_version s = version) allVersions)) first
      in if take 1 (js_trim selectedSchema) = [CHR ''{''] then map_option js_stringify_tabs (JSON_parse selectedSchema)
         else Some selectedSchema)"

section \<open>The global compatibility level\<close>

definition CompatibilityLevelCompatibilityEnum :: "string list" where
  "CompatibilityLevelCompatibilityEnum =
     [''BACKWARD'', ''BACKWARD_TRANSITIVE'', ''FORWARD'', ''FORWARD_TRANSITIVE'', ''FULL'', ''FULL_TRANSITIVE'', ''NONE'']"

definition handleChangeCompatibilityLevel :: "string \<Rightarrow> string \<Rightarrow> mutation_hook dialog \<Rightarrow> mutation_hook dialog" where
  "handleChangeCompatibilityLevel c level s =
     (if level \<notin> set CompatibilityLevelCompatibilityEnum then s
      else useConfirm False (''Are you sure you want to update the global compatibility level and set it to '' @ level
             @ ''? This may affect the compatibility levels of the schemas.'')
             (useUpdateGlobalSchemaCompatibilityLevel c (VObj [(''compatibilityLevel'', VObj [(''compatibility'', VStr level)])])) s)"

section \<open>What the editor sends\<close>

definition editor_inv :: "SchemaSubject \<Rightarrow> schema_editor \<Rightarrow> bool" where
  "editor_inv s p \<longleftrightarrow> sf_schemaType (se_form p) = ss_schemaType s"

text \<open>The request of an event.\<close>

definition sent_by :: "string \<Rightarrow> string \<Rightarrow> SchemaSubject \<Rightarrow> string \<Rightarrow> schema_editor \<Rightarrow> mutation_hook \<Rightarrow> bool" where
  "sent_by c subject s d p m \<longleftrightarrow>
     Edit_validationSchema s (se_form p)
     \<and> (sf_compatibilityLevel (se_form p) \<noteq> ss_compatibilityLevel s
          \<and> m = compatibility_change c subject s (sf_compatibilityLevel (se_form p))
        \<or> sf_newSchema (se_form p) \<noteq> d \<and> m = schema_creation c s (se_form p))"

interpretation editors: logging_machine "edit_page_step c subject s d" "\<lambda>e. True" "editor_inv s" se_sent
    "\<lambda>e p m. sent_by c subject s d p m" for c subject s d
proof
  fix e p assume inv: "editor_inv s p"
  show "editor_inv s (edit_page_step c subject s d e p)"
    using inv by (cases e) (auto simp: editor_inv_def split: prod.split)
  show "\<exists>new. se_sent (edit_page_step c subject s d e p) = se_sent p @ new \<and> list_all (sent_by c subject s d p) new"
  proof (cases e)
    case (PressSubmit accepted)
    then show ?thesis using inv
      by (auto simp: editor_inv_def Edit_onSubmit_def sent_by_def Let_def split: prod.split)
  qed auto
qed

lemma editor_form:
  "sf_compatibilityLevel (se_form (fold (edit_page_step c subject s d) es p)) \<in>
     insert (sf_compatibilityLevel (se_form p)) {l. ChooseLevel l \<in> set es}"
  "sf_newSchema (se_form (fold (edit_page_step c subject s d) es p)) \<in>
     insert (sf_newSchema (se_form p)) {t. TypeSchema t \<in> set es}"
proof (induction es arbitrary: p)
  case (Cons e es)
  { case 1 show ?case using Cons(1) [of "edit_page_step c subject s d e p"] by (cases e) (auto split: prod.splits if_splits) }
  { case 2 show ?case using Cons(2) [of "edit_page_step c subject s d e p"] by (cases e) (auto split: prod.splits if_splits) }
qed simp_all

lemma edit_sent:
  assumes "m \<in> set (se_sent (fold (edit_page_step c subject s d) es (edit_start s d)))"
  obtains pre post where "es = pre @ post" and "sent_by c subject s d (fold (edit_page_step c subject s d) pre (edit_start s d)) m"
proof -
  have start: "editor_inv s (edit_start s d)" by (simp add: editor_inv_def edit_start_def Edit_defaults_def)
  have "list_all (\<lambda>e. True) es" by (simp add: list_all_iff)
  from editors.logged [OF this start assms] show thesis
    by (auto simp: edit_start_def intro: that)
qed

lemma creation_request:
  "Edit_validationSchema s f \<Longrightarrow> sf_schemaType f = ss_schemaType s \<Longrightarrow>
   mutationFn (schema_creation c s f) = (''createNewSchema'', createNewSchema, in_cluster c
     [(''newSchemaSubject'', VObj [(''subject'', VStr (ss_subject s)), (''schema'', VStr (sf_newSchema f)), (''schemaType'', VStr (ss_schemaType s))])])"
  by (simp add: schema_creation_def useCreateSchema_def use_mutation_def schema_members_def get_prop_def Edit_validationSchema_def)

text \<open>What the editor shows is the stored value.\<close>

lemma formatted_value:
  assumes "formatedSchema s = Some d" "ss_schemaType s \<noteq> ''PROTOBUF''" "JSON_parse (ss_schema s) = Some v" "wf_json v"
  shows "JSON_parse d = Some v"
proof -
  have "ss_schema s \<noteq> []" using assms(3) by (auto simp: JSON_parse_def)
  then show ?thesis using assms by (auto simp: formatedSchema_def JSON_parse_tabs split: if_splits)
qed

section \<open>Properties\<close>

text \<open>
  C31. Whatever is done in the editor of a schema, each request that is sent either sets a compatibility level that was
  chosen and differs from the stored one, or registers a text that was typed, differs from the shown one and,
  but for PROTOBUF, is a JSON object. What is registered is the subject, the text and the type: the references of the schema are
  not sent.
\<close>

theorem edits_send_what_changed:
  assumes "m \<in> set (se_sent (fold (edit_page_step c subject s d) es (edit_start s d)))"
  shows "(\<exists>level. ChooseLevel level \<in> set es \<and> level \<noteq> ss_compatibilityLevel s \<and> m = compatibility_change c subject s level)
    \<or> (\<exists>t. TypeSchema t \<in> set es \<and> t \<noteq> d \<and> (ss_schemaType s = ''PROTOBUF'' \<or> isValidJsonObject t)
         \<and> mutationFn m = (''createNewSchema'', createNewSchema, in_cluster c
             [(''newSchemaSubject'', VObj [(''subject'', VStr (ss_subject s)), (''schema'', VStr t), (''schemaType'', VStr (ss_schemaType s))])]))"
proof -
  obtain pre post where es: "es = pre @ post"
    and sent: "sent_by c subject s d (fold (edit_page_step c subject s d) pre (edit_start s d)) m"
    using assms by (rule edit_sent)
  let ?f = "se_form (fold (edit_page_step c subject s d) pre (edit_start s d))"
  have "editor_inv s (edit_start s d)" by (simp add: editor_inv_def edit_start_def Edit_defaults_def)
  then have "editor_inv s (fold (edit_page_step c subject s d) pre (edit_start s d))"
    by (intro editors.inv_run) (simp_all add: list_all_iff)
  then have type: "sf_schemaType ?f = ss_schemaType s" by (simp add: editor_inv_def)
  note form = editor_form [of c subject s d pre "edit_start s d"]
  from sent have valid: "Edit_validationSchema s ?f" by (simp add: sent_by_def)
  from sent consider
      "sf_compatibilityLevel ?f \<noteq> ss_compatibilityLevel s" "m = compatibility_change c subject s (sf_compatibilityLevel ?f)"
    | "sf_newSchema ?f \<noteq> d" "m = schema_creation c s ?f" by (auto simp: sent_by_def)
  then show ?thesis
  proof cases
    case 1
    with form(1) es show ?thesis by (auto simp: edit_start_def Edit_defaults_def)
  next
    case 2
    with form(2) es have "TypeSchema (sf_newSchema ?f) \<in> set es" by (auto simp: edit_start_def Edit_defaults_def)
    with 2 creation_request [OF valid type, of c] valid show ?thesis by (auto simp: Edit_validationSchema_def)
  qed
qed

text \<open>
  A schema that is not an object, such as a union or a primitive type of AVRO, cannot be given another compatibility level: until
  its text is replaced, nothing that is done in the editor sends a request.
\<close>

theorem non_object_schema_is_stuck:
  assumes "ss_schemaType s \<noteq> ''PROTOBUF''" "JSON_parse (ss_schema s) = Some v" "wf_json v" "\<And>ms. v \<noteq> JObj ms"
    and "formatedSchema s = Some d" "\<And>t. TypeSchema t \<notin> set es"
  shows "se_sent (fold (edit_page_step c subject s d) es (edit_start s d)) = []"
proof (rule ccontr)
  assume "se_sent (fold (edit_page_step c subject s d) es (edit_start s d)) \<noteq> []"
  then obtain m where "m \<in> set (se_sent (fold (edit_page_step c subject s d) es (edit_start s d)))"
    by (meson last_in_set)
  then obtain pre post where es: "es = pre @ post"
    and sent: "sent_by c subject s d (fold (edit_page_step c subject s d) pre (edit_start s d)) m" by (rule edit_sent)
  have "ss_schema s \<noteq> []" using assms(2) by (auto simp: JSON_parse_def)
  then have "d = js_stringify_tabs v" using assms(1,2,5) by (simp add: formatedSchema_def)
  then have "\<not> isValidJsonObject d" using print_not_object [OF assms(4,3)] by (simp add: js_stringify_tabs_def)
  moreover have "sf_newSchema (se_form (fold (edit_page_step c subject s d) pre (edit_start s d))) = d"
    using editor_form(2) [of c subject s d pre "edit_start s d"] assms(6) es by (auto simp: edit_start_def Edit_defaults_def)
  ultimately show False using sent assms(1) by (simp add: sent_by_def Edit_validationSchema_def)
qed

section \<open>The comparison and its address\<close>

datatype diff_event = ChooseLeft string | ChooseRight string

fun diff_step :: "string \<Rightarrow> SchemaSubject list \<Rightarrow> diff_event \<Rightarrow> diff_page \<Rightarrow> diff_page" where
  "diff_step path versions (ChooseLeft v) s = choose_left path versions v s"
| "diff_step path versions (ChooseRight v) s = choose_right path versions v s"

fun chosen :: "diff_event \<Rightarrow> string" where
  "chosen (ChooseLeft v) = v"
| "chosen (ChooseRight v) = v"

text \<open>The selects offer the versions, whose names are not empty.\<close>

definition offered :: "SchemaSubject list \<Rightarrow> diff_event \<Rightarrow> bool" where
  "offered versions e \<longleftrightarrow> chosen e \<in> set (map ss_version versions) \<and> chosen e \<noteq> []"

definition diff_inv :: "SchemaSubject list \<Rightarrow> diff_page \<Rightarrow> bool" where
  "diff_inv versions s \<longleftrightarrow> shown_versions versions (Diff (locations s)) = shown_versions versions s"

lemmas diff_defs = shown_versions_def shown_version_def choose_left_def choose_right_def Diff_def

lemma shown_again: "ss_version (hd versions) \<noteq> [] \<Longrightarrow>
  shown_version versions (or_default (Some (shown_version versions v)) []) = shown_version versions v"
  by (simp add: shown_version_def)

interpretation diffs: machine "diff_step path versions" "offered versions"
    "\<lambda>s. ss_version (hd versions) \<noteq> [] \<and> diff_inv versions s" for path versions
proof
  fix e s assume e: "offered versions e" and s: "ss_version (hd versions) \<noteq> [] \<and> diff_inv versions s"
  show "ss_version (hd versions) \<noteq> [] \<and> diff_inv versions (diff_step path versions e s)"
    using e s shown_again [of versions]
    by (cases e) (auto simp: diff_inv_def offered_def shown_versions_def choose_left_def choose_right_def Diff_def Let_def)
qed

lemma diff_history:
  "\<exists>new. locations (fold (diff_step path versions) es s) = new @ locations s
     \<and> length new = 2 * length es \<and> list_all (\<lambda>l. fst l = path) new"
proof (induction es arbitrary: s)
  case (Cons e es)
  obtain new where new: "locations (fold (diff_step path versions) es (diff_step path versions e s)) = new @ locations (diff_step path versions e s)"
      "length new = 2 * length es" "list_all (\<lambda>l. fst l = path) new"
    using Cons.IH by blast
  obtain q where "locations (diff_step path versions e s) = (path, q) # (path, []) # locations s"
    by (cases e) (auto simp: choose_left_def choose_right_def Let_def)
  then have "locations (fold (diff_step path versions) (e # es) s) = (new @ [(path, q), (path, [])]) @ locations s"
    using new(1) by simp
  moreover have "length (new @ [(path, q), (path, [])]) = 2 * length (e # es)" using new(2) by simp
  moreover have "list_all (\<lambda>l. fst l = path) (new @ [(path, q), (path, [])])" using new(3) by simp
  ultimately show ?case by blast
qed simp

lemma back_presses: "(press_back ^^ k) s = s\<lparr>locations := drop k (locations s)\<rparr>"
  by (induction k) (simp_all add: press_back_def drop_Suc tl_drop)

text \<open>
  After any choices in the two selects the address of the page names the two versions that are shown: a page that is
  opened at this address shows the same comparison.
\<close>

theorem comparison_survives_reload:
  assumes "ss_version (hd versions) \<noteq> []" and "list_all (offered versions) es"
    and "s = fold (diff_step path versions) es (Diff history)"
  shows "shown_versions versions (Diff (locations s)) = shown_versions versions s"
proof -
  have "diff_inv versions (Diff history)" by (simp add: diff_inv_def Diff_def)
  with assms(1) have "ss_version (hd versions) \<noteq> [] \<and> diff_inv versions (Diff history)" by blast
  from diffs.inv_run [OF assms(2) this] show ?thesis by (simp add: diff_inv_def assms(3))
qed

text \<open>
  Each choice costs two presses of the back button: after some choices the first presses, two for each choice,
  stay on the comparison, and the page goes on showing the last choice, whatever the address says.
\<close>

theorem back_button_is_stuck:
  assumes "k \<le> 2 * length es" and "fst (hd history) = path" and "history \<noteq> []"
    and "s = fold (diff_step path versions) es (Diff history)"
  shows "fst (hd (locations ((press_back ^^ k) s))) = path
    \<and> shown_versions versions ((press_back ^^ k) s) = shown_versions versions s"
proof -
  obtain new where new: "locations s = new @ history" "length new = 2 * length es" "list_all (\<lambda>l. fst l = path) new"
    using diff_history [of path versions es "Diff history"] assms(4) by (auto simp: Diff_def)
  have "fst (hd (drop k (new @ history))) = path"
  proof (cases "drop k new")
    case Nil
    then show ?thesis using assms(1,2) new(2) by simp
  next
    case (Cons l ls)
    then have "l \<in> set new" by (metis in_set_dropD list.set_intros(1))
    with Cons new(3) show ?thesis by (auto simp: list_all_iff)
  qed
  then show ?thesis by (simp add: back_presses new(1) shown_versions_def)
qed

section \<open>Witnesses\<close>

abbreviation example_schema :: "string \<Rightarrow> SchemaSubject" where
  "example_schema t \<equiv> \<lparr>ss_subject = ''s'', ss_version = ''1'', ss_schema = t, ss_schemaType = ''AVRO'',
     ss_compatibilityLevel = ''FULL'', ss_references = VArr []\<rparr>"

lemma example_valid: "isValidJsonObject ''{}''"
  by code_simp

lemma edits_send_what_changed_witness:
  "useUpdateSchemaCompatibilityLayer ''c'' ''s'' (VObj [(''compatibilityLevel'', VObj [(''compatibility'', VStr ''NONE'')])])
     \<in> set (se_sent (fold (edit_page_step ''c'' ''s'' (example_schema ''{}'') ''{}'')
         [ChooseLevel ''NONE'', PressSubmit (True, True)] (edit_start (example_schema ''{}'') ''{}'')))
   \<and> ''NONE'' \<noteq> ss_compatibilityLevel (example_schema ''{}'')"
proof -
  let ?m = "compatibility_change ''c'' ''s'' (example_schema ''{}'') ''NONE''"
  have m: "?m = useUpdateSchemaCompatibilityLayer ''c'' ''s'' (VObj [(''compatibilityLevel'', VObj [(''compatibility'', VStr ''NONE'')])])"
    by (simp add: compatibility_change_def useUpdateSchemaCompatibilityLayer_def schema_members_def get_prop_def)
  have sent: "?m \<in> set (se_sent (fold (edit_page_step ''c'' ''s'' (example_schema ''{}'') ''{}'')
         [ChooseLevel ''NONE'', PressSubmit (True, True)] (edit_start (example_schema ''{}'') ''{}'')))"
    by (simp add: edit_start_def Edit_defaults_def Edit_validationSchema_def example_valid Edit_onSubmit_def Let_def)
  from edits_send_what_changed [OF sent] have "''NONE'' \<noteq> ss_compatibilityLevel (example_schema ''{}'')" by simp
  with sent m show ?thesis by simp
qed

lemma non_object_schema_is_stuck_witness:
  "se_sent (fold (edit_page_step ''c'' ''s'' (example_schema ''[]'') ''[]'')
     [ChooseLevel ''NONE'', PressSubmit (True, True)] (edit_start (example_schema ''[]'') ''[]'')) = []"
proof -
  have p: "JSON_parse ''[]'' = Some (JArr [])" by code_simp
  then have "formatedSchema (example_schema ''[]'') = Some ''[]''"
    by (simp add: formatedSchema_def js_stringify_tabs_def)
  with p show ?thesis
    by (intro non_object_schema_is_stuck [where v = "JArr []"]) simp_all
qed

lemma comparison_survives_reload_witness:
  "shown_versions [example_schema [], (example_schema [])\<lparr>ss_version := ''2''\<rparr>]
     (Diff (locations (fold (diff_step ''p'' [example_schema [], (example_schema [])\<lparr>ss_version := ''2''\<rparr>]) [ChooseRight ''2''] (Diff [(''p'', [])]))))
   = (''1'', ''2'')"
  using comparison_survives_reload [of "[example_schema [], (example_schema [])\<lparr>ss_version := ''2''\<rparr>]" "[ChooseRight ''2'']" _ "''p''" "[(''p'', [])]", OF _ _ refl]
  by (simp add: offered_def diff_defs Let_def)

lemma back_button_is_stuck_witness:
  "fst (hd (locations ((press_back ^^ 2) (fold (diff_step ''p'' [example_schema []]) [ChooseRight ''1''] (Diff [(''p'', []), (''q'', [])]))))) = ''p''"
  using back_button_is_stuck [of 2 "[ChooseRight ''1'']" "[(''p'', []), (''q'', [])]" "''p''", OF _ _ _ refl, of "[example_schema []]"]
  by simp

end
