(* ===== verification/ArraySort.thy ===== *)
theory ArraySort
  imports Prelude "HOL-Library.Multiset"
begin

text \<open>
  \<open>Array.prototype.sort\<close> with a comparison function. The sort is stable and only asks whether a comparison is
  negative; \<open>NaN\<close> is not. A comparison function is modelled by the relation \<open>before\<close>: \<open>before x y\<close> says that comparing \<open>x\<close> with
  \<open>y\<close> gives a negative number. For a consistent comparison the result is the only stable order.
\<close>

fun js_insert :: "('a \<Rightarrow> 'a \<Rightarrow> bool) \<Rightarrow> 'a \<Rightarrow> 'a list \<Rightarrow> 'a list" where
  "js_insert before x [] = [x]"
| "js_insert before x (y # ys) = (if before y x then y # js_insert before x ys else x # y # ys)"

definition js_sort :: "('a \<Rightarrow> 'a \<Rightarrow> bool) \<Rightarrow> 'a list \<Rightarrow> 'a list" where
  "js_sort before xs = foldr (js_insert before) xs []"

lemma mset_js_insert [simp]: "mset (js_insert before x ys) = add_mset x (mset ys)"
  by (induction ys) auto

lemma mset_js_sort [simp]: "mset (js_sort before xs) = mset xs"
  by (induction xs) (simp_all add: js_sort_def)

lemma set_js_sort [simp]: "set (js_sort before xs) = set xs"
  by (metis mset_js_sort set_mset_mset)

lemma js_sort_unmoved: "(\<And>x y. x \<in> set xs \<Longrightarrow> y \<in> set xs \<Longrightarrow> \<not> before x y) \<Longrightarrow> js_sort before xs = xs"
proof (induction xs)
  case (Cons x xs)
  then have "js_sort before xs = xs" by simp
  moreover have "js_insert before x xs = x # xs" using Cons.prems by (cases xs) auto
  ultimately show ?case by (simp add: js_sort_def)
qed (simp add: js_sort_def)

text \<open>A comparison that respects a key: it may also tell elements with the same key apart.\<close>

locale keyed_comparison =
  fixes before :: "'a \<Rightarrow> 'a \<Rightarrow> bool" and key :: "'a \<Rightarrow> 'k::linorder" and ok :: "'a \<Rightarrow> bool"
  assumes before_le: "ok x \<Longrightarrow> ok y \<Longrightarrow> before x y \<Longrightarrow> key x \<le> key y"
    and less_before: "ok x \<Longrightarrow> ok y \<Longrightarrow> key x < key y \<Longrightarrow> before x y"
begin

lemma insert_sorted:
  "ok x \<Longrightarrow> list_all ok ys \<Longrightarrow> sorted (map key ys) \<Longrightarrow> sorted (map key (js_insert before x ys))"
proof (induction ys)
  case (Cons y ys)
  show ?case
  proof (cases "before y x")
    case True
    moreover have "set (js_insert before x ys) = insert x (set ys)"
      by (metis mset_js_insert set_mset_add_mset_insert set_mset_mset)
    ultimately show ?thesis using Cons before_le [of y x] by auto
  next
    case False
    moreover have "ok y" using Cons.prems by simp
    ultimately have "key x \<le> key y" using less_before [of y x] Cons.prems(1) by (meson not_le_imp_less)
    then show ?thesis using False Cons.prems by auto
  qed
qed simp

lemma sort_sorted: "list_all ok xs \<Longrightarrow> sorted (map key (js_sort before xs))"
proof (induction xs)
  case (Cons x xs)
  moreover have "list_all ok (js_sort before xs)" using Cons.prems by (simp add: list_all_iff)
  ultimately show ?case by (simp add: js_sort_def insert_sorted)
qed (simp add: js_sort_def)

end

text \<open>A comparison that is nothing but the order of a key: the result is the stable sort.\<close>

locale comparator =
  fixes before :: "'a \<Rightarrow> 'a \<Rightarrow> bool" and key :: "'a \<Rightarrow> 'k::linorder" and ok :: "'a \<Rightarrow> bool"
  assumes before_key: "ok x \<Longrightarrow> ok y \<Longrightarrow> before x y \<longleftrightarrow> key x < key y"
begin

lemma insert_key: "ok x \<Longrightarrow> list_all ok ys \<Longrightarrow> js_insert before x ys = insort_key key x ys"
  by (induction ys) (auto simp: before_key not_less)

lemma sort_is_sort_key: "list_all ok xs \<Longrightarrow> js_sort before xs = sort_key key xs"
proof (induction xs)
  case (Cons x xs)
  then have "list_all ok (sort_key key xs)" by (simp add: list_all_iff)
  with Cons show ?case by (simp add: js_sort_def insert_key)
qed (simp add: js_sort_def)

lemma sort_stable: "list_all ok xs \<Longrightarrow> filter (\<lambda>x. key x = k) (js_sort before xs) = filter (\<lambda>x. key x = k) xs"
  by (simp add: sort_is_sort_key sort_key_stable)

end

sublocale comparator \<subseteq> keyed_comparison
  by unfold_locales (auto simp: before_key)

text \<open>Numbers: \<open>a - b < 0\<close>.\<close>

fun num_before :: "js_num \<Rightarrow> js_num \<Rightarrow> bool" where
  "num_before (Dec m s) (Dec n t) \<longleftrightarrow> m * 10 ^ t < n * 10 ^ s"
| "num_before _ _ \<longleftrightarrow> False"

lemma num_before_ints [simp]: "num_before (Dec m 0) (Dec n 0) \<longleftrightarrow> m < n"
  by simp

lemma num_before_NaN [simp]: "\<not> num_before a NaN"
  by (cases a) simp_all

end
