(* ===== verification/PartitionTable.thy ===== *)
theory PartitionTable
  imports ArraySort "HOL-Library.Char_ord" "HOL-Library.List_Lexorder" "HOL-Library.Product_Lexorder"
begin

text \<open>
  The partitions of a topic in the page of a consumer group
  (\<open>frontend/src/components/ConsumerGroups/Details/TopicContents/TopicContents.tsx\<close>): the comparison functions of
  its columns and the order of its rows. The rows are sorted in place, so that each click sorts what the click before left.
\<close>

section \<open>Comparisons\<close>

datatype SortOrder = ASC | DESC

datatype OrderByKey = ByPartition | ByConsumerId | ByHost | ByConsumerLag | ByCurrentOffset | ByEndOffset

record ConsumerGroupTopicPartition =
  tp_partition :: int
  consumerId :: "string option"
  host :: "string option"
  consumerLag :: "int option"
  currentOffset :: "int option"
  endOffset :: "int option"

text \<open>\<open>Number(undefined)\<close> is not a number.\<close>

definition optional_number :: "int option \<Rightarrow> js_num" where
  "optional_number v = (case v of Some n \<Rightarrow> Dec n 0 | None \<Rightarrow> NaN)"

fun number_of :: "OrderByKey \<Rightarrow> ConsumerGroupTopicPartition \<Rightarrow> js_num" where
  "number_of ByPartition p = Dec (tp_partition p) 0"
| "number_of ByConsumerLag p = optional_number (consumerLag p)"
| "number_of ByCurrentOffset p = optional_number (currentOffset p)"
| "number_of ByEndOffset p = optional_number (endOffset p)"
| "number_of _ p = NaN"

definition pad_octet :: "string \<Rightarrow> string" where
  "pad_octet t = (let s = ''000'' @ t in drop (length s - 3) s)"

definition ipV4ToNum :: "string option \<Rightarrow> js_num" where
  "ipV4ToNum ip =
     (case ip of
        Some t \<Rightarrow>
          if t = [] then Dec 0 0
          else js_Number (concat (map pad_octet (js_split ''.'' (if CHR ''/'' \<in> set t then tl t else t))))
      | None \<Rightarrow> Dec 0 0)"

text \<open>Whether the comparison of two rows is negative.\<close>

definition numberComparator :: "OrderByKey \<Rightarrow> SortOrder \<Rightarrow> ConsumerGroupTopicPartition \<Rightarrow> ConsumerGroupTopicPartition \<Rightarrow> bool" where
  "numberComparator k order a b =
     (case order of ASC \<Rightarrow> num_before (number_of k a) (number_of k b) | DESC \<Rightarrow> num_before (number_of k b) (number_of k a))"

definition ipComparator :: "SortOrder \<Rightarrow> ConsumerGroupTopicPartition \<Rightarrow> ConsumerGroupTopicPartition \<Rightarrow> bool" where
  "ipComparator order a b =
     (case order of ASC \<Rightarrow> num_before (ipV4ToNum (host a)) (ipV4ToNum (host b))
                  | DESC \<Rightarrow> num_before (ipV4ToNum (host b)) (ipV4ToNum (host a)))"

definition lower :: "string \<Rightarrow> string" where
  "lower s = map (\<lambda>c. let n = of_char c :: nat in if 65 \<le> n \<and> n \<le> 90 then char_of (n + 32) else c) s"

text \<open>The code units of both texts are compared from the left.\<close>

fun text_greater :: "string \<Rightarrow> string \<Rightarrow> bool" where
  "text_greater [] t = False"
| "text_greater (c # s) [] = True"
| "text_greater (c # s) (d # t) \<longleftrightarrow> d < c \<or> (c = d \<and> text_greater s t)"

text \<open>The comparison itself: 1 only in ascending order, -1 only in descending order.\<close>

definition consumerIdComparator :: "SortOrder \<Rightarrow> ConsumerGroupTopicPartition \<Rightarrow> ConsumerGroupTopicPartition \<Rightarrow> int" where
  "consumerIdComparator order a b =
     (if truthy (consumerId a) \<and> truthy (consumerId b)
      then (let x = lower (the (consumerId a)); y = lower (the (consumerId b))
            in if order = ASC \<and> text_greater x y then 1 else if order = DESC \<and> text_greater y x then -1 else 0)
      else 0)"

fun comparison :: "OrderByKey \<Rightarrow> SortOrder \<Rightarrow> ConsumerGroupTopicPartition \<Rightarrow> ConsumerGroupTopicPartition \<Rightarrow> bool" where
  "comparison ByHost order = ipComparator order"
| "comparison ByConsumerId order = (\<lambda>a b. consumerIdComparator order a b < 0)"
| "comparison k order = numberComparator k order"

section \<open>The table\<close>

record TopicContents =
  orderBy :: OrderByKey
  sortOrder :: SortOrder
  topicPartitions :: "ConsumerGroupTopicPartition list"

definition sortedConsumers :: "TopicContents \<Rightarrow> TopicContents" where
  "sortedConsumers s = s\<lparr>topicPartitions := js_sort (comparison (orderBy s) (sortOrder s)) (topicPartitions s)\<rparr>"

definition TopicContents_start :: "ConsumerGroupTopicPartition list \<Rightarrow> TopicContents" where
  "TopicContents_start rows = sortedConsumers \<lparr>orderBy = ByPartition, sortOrder = DESC, topicPartitions = rows\<rparr>"

text \<open>A click on a header: the order is turned over, whichever column was sorted before.\<close>

definition handleOrder :: "OrderByKey \<Rightarrow> TopicContents \<Rightarrow> TopicContents" where
  "handleOrder k s = sortedConsumers (s\<lparr>orderBy := k, sortOrder := (if sortOrder s = DESC then ASC else DESC)\<rparr>)"

definition table_after :: "OrderByKey list \<Rightarrow> ConsumerGroupTopicPartition list \<Rightarrow> TopicContents" where
  "table_after clicks rows = fold handleOrder clicks (TopicContents_start rows)"

section \<open>Addresses\<close>

definition address :: "nat \<times> nat \<times> nat \<times> nat \<Rightarrow> string" where
  "address ip = (case ip of (a, b, c, d) \<Rightarrow> show_nat a @ ''.'' @ show_nat b @ ''.'' @ show_nat c @ ''.'' @ show_nat d)"

definition octets_ok :: "nat \<times> nat \<times> nat \<times> nat \<Rightarrow> bool" where
  "octets_ok ip = (case ip of (a, b, c, d) \<Rightarrow> a < 256 \<and> b < 256 \<and> c < 256 \<and> d < 256)"

definition octets_number :: "nat \<times> nat \<times> nat \<times> nat \<Rightarrow> nat" where
  "octets_number ip = (case ip of (a, b, c, d) \<Rightarrow> ((a * 1000 + b) * 1000 + c) * 1000 + d)"

lemma pad_octet_digits:
  assumes "a < 1000"
  shows "pad_octet (show_nat a) = [digit (a div 100), digit (a div 10 mod 10), digit (a mod 10)]"
proof -
  consider "a < 10" | "10 \<le> a" "a < 100" | "100 \<le> a" by linarith
  then show ?thesis
  proof cases
    case 1
    then show ?thesis by (simp add: show_nat.simps [of a] pad_octet_def)
  next
    case 2
    then have "a div 10 < 10" by simp
    with 2 show ?thesis by (simp add: show_nat.simps [of a] show_nat.simps [of "a div 10"] pad_octet_def)
  next
    case 3
    then have "\<not> a < 10" "\<not> a div 10 < 10" "a div 10 div 10 < 10" using assms by simp_all
    then have "show_nat a = [digit (a div 10 div 10), digit (a div 10 mod 10), digit (a mod 10)]"
      by (simp add: show_nat.simps [of a] show_nat.simps [of "a div 10"] show_nat.simps [of "a div 10 div 10"])
    moreover have "a div 10 div 10 = a div 100" by (simp flip: div_mult2_eq)
    ultimately show ?thesis by (simp add: pad_octet_def)
  qed
qed

lemma pad_octet_value:
  assumes "a < 1000"
  shows "length (pad_octet (show_nat a)) = 3" "list_all is_digit (pad_octet (show_nat a))"
    "foldl (\<lambda>n c. 10 * n + digit_val c) k (pad_octet (show_nat a)) = 1000 * k + a"
proof -
  have d: "a div 100 < 10" using assms by simp
  have "100 * (a div 100) + 10 * (a div 10 mod 10) + a mod 10 = a"
  proof -
    have "a div 10 = 10 * (a div 100) + a div 10 mod 10" by (simp add: div_mult2_eq [of a 10 10, simplified])
    moreover have "a = 10 * (a div 10) + a mod 10" by simp
    ultimately show ?thesis by linarith
  qed
  then show "foldl (\<lambda>n c. 10 * n + digit_val c) k (pad_octet (show_nat a)) = 1000 * k + a"
    using d by (simp add: pad_octet_digits [OF assms])
qed (use assms in \<open>simp_all add: pad_octet_digits\<close>)

lemma js_Number_digits:
  assumes "list_all is_digit s" "s \<noteq> []"
  shows "js_Number s = Dec (int (read_nat s)) 0"
proof -
  obtain c cs where s: "s = c # cs" using assms(2) by (cases s) auto
  have tw: "takeWhile is_digit s = s" "dropWhile is_digit s = []"
    using assms(1) by (simp_all add: takeWhile_eq_all_conv dropWhile_eq_Nil_conv list_all_iff)
  have "unsigned_decimal 1 s = Dec (int (read_nat s)) 0"
    unfolding unsigned_decimal_def Let_def tw using assms(2) by simp
  moreover have "js_Number s = unsigned_decimal 1 s"
    using assms(1) s is_digit_not_sign [of c] js_trim_digits [OF assms(1)] by (simp add: js_Number_def)
  ultimately show ?thesis by simp
qed

lemma no_dot: "CHR ''.'' \<notin> set (show_nat a)" "CHR ''/'' \<notin> set (show_nat a)"
  using show_nat_digits [of "CHR ''.''" a] show_nat_digits [of "CHR ''/''" a] by (auto simp: is_digit_def)

lemma split_address:
  "js_split ''.'' (address (a, b, c, d)) = [show_nat a, show_nat b, show_nat c, show_nat d]"
  by (simp add: address_def split_char_append no_dot split_no_sep)

lemma ipV4ToNum_address:
  assumes "octets_ok ip" and "h = address ip \<or> h = CHR ''/'' # address ip"
  shows "ipV4ToNum (Some h) = Dec (int (octets_number ip)) 0"
proof -
  obtain a b c d where ip: "ip = (a, b, c, d)" by (cases ip)
  have "CHR ''/'' \<notin> set (address ip)" by (simp add: ip address_def no_dot)
  moreover have "address ip \<noteq> []" by (simp add: ip address_def)
  ultimately have "ipV4ToNum (Some h) = js_Number (concat (map pad_octet (js_split ''.'' (address ip))))"
    using assms(2) by (auto simp: ipV4ToNum_def)
  also have "\<dots> = js_Number (pad_octet (show_nat a) @ pad_octet (show_nat b) @ pad_octet (show_nat c) @ pad_octet (show_nat d))"
    by (simp add: ip split_address)
  also have "\<dots> = Dec (int (octets_number ip)) 0"
  proof -
    have "a < 1000" "b < 1000" "c < 1000" "d < 1000" using assms(1) by (simp_all add: ip octets_ok_def)
    note vs = pad_octet_value [OF this(1)] pad_octet_value [OF this(2)] pad_octet_value [OF this(3)] pad_octet_value [OF this(4)]
    have "pad_octet (show_nat a) \<noteq> []" using vs(1) by auto
    then show ?thesis using vs by (subst js_Number_digits) (simp_all add: read_nat_def ip octets_number_def)
  qed
  finally show ?thesis .
qed

lemma octets_order:
  "octets_ok x \<Longrightarrow> octets_ok y \<Longrightarrow> octets_number x \<le> octets_number y \<longleftrightarrow> x \<le> y"
  by (cases x, cases y) (auto simp: octets_ok_def octets_number_def less_eq_prod_def)

section \<open>Sorted rows\<close>

fun is_number_column :: "OrderByKey \<Rightarrow> bool" where
  "is_number_column ByHost = False"
| "is_number_column ByConsumerId = False"
| "is_number_column k = True"

lemma comparison_number: "is_number_column k \<Longrightarrow> comparison k order = numberComparator k order"
  by (cases k) simp_all

definition directed :: "SortOrder \<Rightarrow> int \<Rightarrow> int" where
  "directed order n = (case order of ASC \<Rightarrow> n | DESC \<Rightarrow> - n)"

text \<open>The rows for which the column has a number, and those whose host is an address.\<close>

definition has_number :: "OrderByKey \<Rightarrow> (ConsumerGroupTopicPartition \<Rightarrow> int) \<Rightarrow> ConsumerGroupTopicPartition \<Rightarrow> bool" where
  "has_number k n p \<longleftrightarrow> number_of k p = Dec (n p) 0"

definition has_address :: "(ConsumerGroupTopicPartition \<Rightarrow> nat \<times> nat \<times> nat \<times> nat) \<Rightarrow> ConsumerGroupTopicPartition \<Rightarrow> bool" where
  "has_address ip p \<longleftrightarrow> octets_ok (ip p) \<and> (host p = Some (address (ip p)) \<or> host p = Some (CHR ''/'' # address (ip p)))"

interpretation numbers: comparator "numberComparator k order" "\<lambda>p. directed order (n p)" "has_number k n" for k order n
  by unfold_locales (auto simp: numberComparator_def has_number_def directed_def split: SortOrder.split)

interpretation addresses: comparator "ipComparator order" "\<lambda>p. directed order (int (octets_number (ip p)))" "has_address ip" for order ip
  by unfold_locales (auto simp: ipComparator_def has_address_def directed_def ipV4ToNum_address split: SortOrder.split)

text \<open>Consumer ids are compared in ascending order whenever the comparison says anything.\<close>

lemma text_greater_less: "text_greater s t \<longleftrightarrow> t < s"
  by (induction s t rule: text_greater.induct) auto

interpretation ids: comparator "\<lambda>a b. consumerIdComparator DESC a b < 0" "\<lambda>p. lower (the (consumerId p))" "\<lambda>p. truthy (consumerId p)"
  by unfold_locales (auto simp: consumerIdComparator_def text_greater_less Let_def)

lemma ids_ascending_never_negative: "\<not> consumerIdComparator ASC a b < 0"
  by (simp add: consumerIdComparator_def Let_def)

lemma rows_permuted: "mset (topicPartitions (table_after clicks rows)) = mset rows"
proof -
  have "mset (topicPartitions (fold handleOrder clicks s)) = mset (topicPartitions s)" for s
    by (induction clicks arbitrary: s) (simp_all add: handleOrder_def sortedConsumers_def)
  then show ?thesis by (simp add: table_after_def TopicContents_start_def sortedConsumers_def)
qed

lemma after_click:
  "table_after (clicks @ [k]) rows = handleOrder k (table_after clicks rows)"
  by (simp add: table_after_def)

lemma rows_all: "list_all P rows \<Longrightarrow> list_all P (topicPartitions (table_after clicks rows))"
  by (metis list_all_iff mset_eq_setD rows_permuted)

section \<open>Properties\<close>

text \<open>
  C32. After any clicks on the headers, a click on the hosts orders the rows by the octets of their addresses, with or without
  the slash that brokers put in front of them, downwards or upwards as the table says, and loses no row.
\<close>

theorem hosts_sorted_as_addresses:
  assumes "list_all (has_address ip) rows" and "s = table_after (clicks @ [ByHost]) rows"
  shows "mset (topicPartitions s) = mset rows
    \<and> (if sortOrder s = ASC then sorted (map ip (topicPartitions s)) else sorted (rev (map ip (topicPartitions s))))"
proof (intro conjI)
  show "mset (topicPartitions s) = mset rows" by (simp add: assms(2) rows_permuted)
  let ?before = "topicPartitions (table_after clicks rows)"
  have s: "topicPartitions s = js_sort (ipComparator (sortOrder s)) ?before"
    by (simp add: assms(2) after_click handleOrder_def sortedConsumers_def)
  have ok: "list_all (has_address ip) ?before" using assms(1) by (rule rows_all)
  then have octets: "\<forall>p\<in>set (topicPartitions s). octets_ok (ip p)" by (simp add: s list_all_iff has_address_def)
  have "sorted (map (\<lambda>p. directed (sortOrder s) (int (octets_number (ip p)))) (topicPartitions s))"
    using addresses.sort_sorted [OF ok] by (simp add: s)
  then show "if sortOrder s = ASC then sorted (map ip (topicPartitions s)) else sorted (rev (map ip (topicPartitions s)))"
    using octets
    by (cases "sortOrder s")
      (auto simp: directed_def sorted_wrt_map sorted_map sorted_wrt_rev rev_map octets_order elim!: sorted_wrt_mono_rel [rotated])
qed

text \<open>
  The rows are never ordered downwards by consumer id: when the table says descending, a click on the ids orders them
  upwards, and when it says ascending, the click leaves every row where it was.
\<close>

theorem consumer_ids_never_descend:
  assumes "s = table_after (clicks @ [ByConsumerId]) rows"
  shows "if sortOrder s = ASC then topicPartitions s = topicPartitions (table_after clicks rows)
    else list_all (\<lambda>p. truthy (consumerId p)) rows \<longrightarrow> sorted (map (\<lambda>p. lower (the (consumerId p))) (topicPartitions s))"
proof -
  let ?before = "topicPartitions (table_after clicks rows)"
  have s: "topicPartitions s = js_sort (\<lambda>a b. consumerIdComparator (sortOrder s) a b < 0) ?before"
    by (simp add: assms after_click handleOrder_def sortedConsumers_def)
  show ?thesis
  proof (cases "sortOrder s")
    case ASC
    then show ?thesis using s by (simp add: js_sort_unmoved ids_ascending_never_negative)
  next
    case DESC
    then show ?thesis using s ids.sort_sorted [OF rows_all] by simp
  qed
qed

section \<open>Witnesses\<close>

abbreviation example_row :: "int \<Rightarrow> string \<Rightarrow> string \<Rightarrow> ConsumerGroupTopicPartition" where
  "example_row n i h \<equiv> \<lparr>tp_partition = n, consumerId = Some i, host = Some h, consumerLag = None, currentOffset = None, endOffset = None\<rparr>"

abbreviation example_ip :: "ConsumerGroupTopicPartition \<Rightarrow> nat \<times> nat \<times> nat \<times> nat" where
  "example_ip p \<equiv> (if tp_partition p = 0 then (10, 0, 0, 9) else (9, 0, 0, 10))"

lemma hosts_sorted_as_addresses_witness:
  "mset (topicPartitions (table_after [ByHost] [example_row 0 ''a'' ''/10.0.0.9'', example_row 1 ''b'' ''9.0.0.10'']))
     = mset [example_row 0 ''a'' ''/10.0.0.9'', example_row 1 ''b'' ''9.0.0.10'']"
proof -
  have "show_nat 10 = ''10''" by (simp add: show_nat.simps)
  moreover have "show_nat 9 = ''9''" "show_nat 0 = ''0''" by (simp_all add: show_nat.simps)
  ultimately have "list_all (has_address example_ip) [example_row 0 ''a'' ''/10.0.0.9'', example_row 1 ''b'' ''9.0.0.10'']"
    by (simp add: has_address_def octets_ok_def address_def)
  from hosts_sorted_as_addresses [OF this refl, of "[]"] show ?thesis by simp
qed

lemma consumer_ids_never_descend_witness:
  "topicPartitions (table_after [ByConsumerId] [example_row 0 ''a'' ''h'', example_row 1 ''b'' ''h'']) =
   topicPartitions (table_after [] [example_row 0 ''a'' ''h'', example_row 1 ''b'' ''h''])"
  using consumer_ids_never_descend [OF refl, of "[]" "[example_row 0 ''a'' ''h'', example_row 1 ''b'' ''h'']"]
  by (simp add: table_after_def TopicContents_start_def handleOrder_def sortedConsumers_def)

end
