(* ===== verification/Timezones.thy ===== *)
theory Timezones
  imports ArraySort
begin

text \<open>
  The list of time zones (\<open>frontend/src/lib/hooks/useTimezones.ts\<close>). The internationalisation library of the
  browser is a parameter: the names of the zones, and for each one the text of its short offset, if it does not throw; so
  are the comparison of names by the locale and the zone of the system.
\<close>

section \<open>Texts of offsets\<close>

record Timezone =
  tz_value :: string
  tz_label :: string
  tz_offset :: string
  tz_UTCOffset :: string

definition UTCPlain :: Timezone where
  "UTCPlain = \<lparr>tz_value = ''UTC'', tz_label = ''Plain UTC'', tz_offset = ''UTC+00:00'', tz_UTCOffset = ''UTC+00:00''\<rparr>"

text \<open>\<open>s.replace(pat, new)\<close>: the first occurrence.\<close>

fun replace_once :: "string \<Rightarrow> string \<Rightarrow> string \<Rightarrow> string" where
  "replace_once pat new [] = []"
| "replace_once pat new (c # s) = (if starts_with pat (c # s) then new @ drop (length pat) (c # s) else c # replace_once pat new s)"

definition gmt_offset :: "string \<Rightarrow> string" where
  "gmt_offset offsetPart =
     (if js_trim offsetPart = [] then ''GMT+00:00''
      else if starts_with ''GMT'' offsetPart then
        (let gmtPart = js_trim (replace_once ''GMT'' [] offsetPart)
         in if gmtPart = [] then ''GMT+00:00''
            else if CHR '':'' \<in> set gmtPart then offsetPart
            else ''GMT'' @ (if hd gmtPart = CHR ''+'' \<or> hd gmtPart = CHR ''-'' then [] else ''+'') @ gmtPart @ '':00'')
      else if hd offsetPart = CHR ''+'' \<or> hd offsetPart = CHR ''-'' then
        (if CHR '':'' \<in> set offsetPart then ''GMT'' @ offsetPart else ''GMT'' @ offsetPart @ '':00'')
      else ''GMT+00:00'')"

text \<open>One zone; \<open>None\<close> when formatting throws, \<open>Some None\<close> when there is no offset in the result.\<close>

definition generate_timezone :: "(string \<Rightarrow> string option option) \<Rightarrow> string \<Rightarrow> Timezone" where
  "generate_timezone intl timeZone =
     (case intl timeZone of
        Some part \<Rightarrow>
          (let offset = gmt_offset (or_default part ''+00:00'')
           in \<lparr>tz_value = timeZone, tz_label = replace_once ''GMT'' ''UTC'' offset @ '' '' @ replace_char (CHR ''_'') '' '' timeZone,
               tz_offset = offset, tz_UTCOffset = replace_once ''GMT'' ''UTC'' offset\<rparr>)
      | None \<Rightarrow> \<lparr>tz_value = timeZone, tz_label = replace_char (CHR ''_'') '' '' timeZone,
                 tz_offset = ''GMT+00:00'', tz_UTCOffset = ''UTC+00:00''\<rparr>)"

definition fallback_zone :: "string \<times> string \<Rightarrow> Timezone" where
  "fallback_zone z = \<lparr>tz_value = fst z, tz_label = fst z, tz_offset = snd z, tz_UTCOffset = snd z\<rparr>"

definition generateTimezones :: "string list option \<Rightarrow> (string \<Rightarrow> string option option) \<Rightarrow> Timezone list" where
  "generateTimezones supported intl =
     (case supported of
        Some names \<Rightarrow> map (generate_timezone intl) names @ [UTCPlain]
      | None \<Rightarrow> map fallback_zone [(''UTC'', ''GMT+00:00''), (''America/New York'', ''GMT-05:00''),
                                  (''Europe/London'', ''GMT+00:00''), (''Asia/Tokyo'', ''GMT+09:00'')] @ [UTCPlain])"

section \<open>Minutes\<close>

text \<open>The match of \<open>([+-])(\d{1,2}):?(\d{0,2})\<close> after the sign: hours and minutes.\<close>

definition offset_digits :: "string \<Rightarrow> nat \<times> nat" where
  "offset_digits s =
     (let h = take 2 (takeWhile is_digit s); rest = drop (length h) s;
          rest' = (if take 1 rest = '':'' then tl rest else rest); m = take 2 (takeWhile is_digit rest')
      in (read_nat h, if m = [] then 0 else read_nat m))"

fun find_offset :: "string \<Rightarrow> int option" where
  "find_offset [] = None"
| "find_offset (c # s) =
     (if (c = CHR ''+'' \<or> c = CHR ''-'') \<and> s \<noteq> [] \<and> is_digit (hd s)
      then Some (case offset_digits s of (h, m) \<Rightarrow> (if c = CHR ''+'' then 1 else - 1) * (int h * 60 + int m))
      else find_offset s)"

definition parseOffset :: "string \<Rightarrow> int" where
  "parseOffset offset = (case find_offset (replace_once ''GMT'' [] offset) of Some m \<Rightarrow> m | None \<Rightarrow> 0)"

definition timezone_before :: "(string \<Rightarrow> string \<Rightarrow> int) \<Rightarrow> Timezone \<Rightarrow> Timezone \<Rightarrow> bool" where
  "timezone_before localeCompare a b \<longleftrightarrow>
     (let offsetA = parseOffset (tz_offset a); offsetB = parseOffset (tz_offset b)
      in if offsetA \<noteq> offsetB then offsetA - offsetB < 0 else localeCompare (tz_value a) (tz_value b) < 0)"

definition TIMEZONES :: "string list option \<Rightarrow> (string \<Rightarrow> string option option) \<Rightarrow> (string \<Rightarrow> string \<Rightarrow> int) \<Rightarrow> Timezone list" where
  "TIMEZONES supported intl localeCompare = js_sort (timezone_before localeCompare) (generateTimezones supported intl)"

section \<open>The zone of the system\<close>

text \<open>
  Hours as a decimal fraction; the minutes are divisible by three, as those of all zones are today, so the fraction has two digits.
\<close>

definition hours_of :: "int \<Rightarrow> js_num" where
  "hours_of minutes = mk_dec (minutes * 5 div 3) 2"

definition system_offset :: "int \<Rightarrow> string" where
  "system_offset minutes =
     ''GMT'' @ (if 0 \<le> minutes then ''+'' else []) @ pad_left 2 (CHR ''0'') (show_num (hours_of minutes)) @ '':00''"

text \<open>The name of the zone and its offset in minutes east of UTC.\<close>

definition getSystemTimezone :: "Timezone list \<Rightarrow> string \<Rightarrow> int \<Rightarrow> Timezone" where
  "getSystemTimezone zones systemTimezone minutes =
     (case find (\<lambda>tz. tz_value tz = systemTimezone) zones of
        Some tz \<Rightarrow> tz
      | None \<Rightarrow> \<lparr>tz_value = systemTimezone, tz_label = systemTimezone, tz_offset = system_offset minutes,
                 tz_UTCOffset = replace_once ''GMT'' ''UTC'' (system_offset minutes)\<rparr>)"

definition useTimezone :: "Timezone option \<Rightarrow> Timezone list \<Rightarrow> string \<Rightarrow> int \<Rightarrow> Timezone" where
  "useTimezone stored zones systemTimezone minutes =
     (case stored of Some tz \<Rightarrow> tz | None \<Rightarrow> getSystemTimezone zones systemTimezone minutes)"

section \<open>The offsets of the browser\<close>

text \<open>The texts of the short offset: sign, hours, and minutes after a colon when there are any.\<close>

definition two_digits :: "nat \<Rightarrow> string" where
  "two_digits n = [digit (n div 10), digit (n mod 10)]"

definition short_offset :: "bool \<Rightarrow> nat \<Rightarrow> nat \<Rightarrow> string" where
  "short_offset east h m =
     ''GMT'' @ (if h = 0 \<and> m = 0 then []
       else (if east then ''+'' else ''-'') @ show_nat h @ (if m = 0 then [] else '':'' @ two_digits m))"

definition signed_minutes :: "bool \<Rightarrow> nat \<Rightarrow> nat \<Rightarrow> int" where
  "signed_minutes east h m = (if east then 1 else - 1) * (int h * 60 + int m)"

lemma hour_digits:
  assumes "h < 100"
  shows "list_all is_digit (show_nat h)" "length (show_nat h) \<le> 2" "show_nat h \<noteq> []"
proof -
  show "list_all is_digit (show_nat h)" by (simp add: list_all_iff show_nat_digits)
  show "length (show_nat h) \<le> 2" using assms by (cases "h < 10") (simp_all add: show_nat.simps [of h] show_nat.simps [of "h div 10"])
qed simp

lemma offset_digits_hours:
  assumes "list_all is_digit d" "length d \<le> 2" and "r = [] \<or> \<not> is_digit (hd r)"
  shows "offset_digits (d @ r) = (read_nat d, snd (offset_digits (d @ r)))"
    and "take 1 r = '':'' \<Longrightarrow> snd (offset_digits (d @ r)) =
      (let m = take 2 (takeWhile is_digit (tl r)) in if m = [] then 0 else read_nat m)"
    and "take 1 r \<noteq> '':'' \<Longrightarrow> snd (offset_digits (d @ r)) = 0"
proof -
  have "takeWhile is_digit (d @ r) = d"
    using assms(1,3) by (cases r) (auto simp: takeWhile_append list_all_iff)
  then have tw: "take 2 (takeWhile is_digit (d @ r)) = d" using assms(2) by simp
  then show "offset_digits (d @ r) = (read_nat d, snd (offset_digits (d @ r)))"
    and "take 1 r = '':'' \<Longrightarrow> snd (offset_digits (d @ r)) =
      (let m = take 2 (takeWhile is_digit (tl r)) in if m = [] then 0 else read_nat m)"
    by (simp_all add: offset_digits_def Let_def)
  show "snd (offset_digits (d @ r)) = 0" if "take 1 r \<noteq> '':''"
    using tw that assms(3) by (cases r) (simp_all add: offset_digits_def Let_def)
qed

lemma hour_plain: "c \<in> set (show_nat h) \<Longrightarrow> \<not> is_js_space c \<and> c \<noteq> CHR '':''"
  using is_digit_not_sign [of c] show_nat_digits [of c h] by (auto simp: is_digit_def)

lemma js_trim_no_space: "list_all (\<lambda>c. \<not> is_js_space c) s \<Longrightarrow> js_trim s = s"
proof -
  assume s: "list_all (\<lambda>c. \<not> is_js_space c) s"
  have "dropWhile is_js_space xs = xs" if "list_all (\<lambda>c. \<not> is_js_space c) xs" for xs
    using that by (cases xs) simp_all
  from this [OF s] this [of "rev s"] s show ?thesis by (simp add: js_trim_def)
qed

lemma replace_gmt: "replace_once ''GMT'' new (''GMT'' @ s) = new @ s"
  by simp

text \<open>The offset after normalisation, of a sign, hours and what follows them.\<close>

lemma parseOffset_hours:
  assumes d: "list_all is_digit d" "d \<noteq> []" "length d \<le> 2"
    and "c = CHR ''+'' \<or> c = CHR ''-''" and "r = [] \<or> \<not> is_digit (hd r)"
  shows "parseOffset (''GMT'' @ c # d @ r) =
    (if c = CHR ''+'' then 1 else - 1) * (int (read_nat d) * 60 + int (snd (offset_digits (d @ r))))"
proof -
  have "is_digit (hd (d @ r))" using d(1,2) by (cases d) simp_all
  moreover have "replace_once ''GMT'' [] (''GMT'' @ c # d @ r) = c # d @ r" by simp
  moreover obtain m where "offset_digits (d @ r) = (read_nat d, m)" using offset_digits_hours(1) [OF d(1,3) assms(5)] by blast
  ultimately show ?thesis using assms(4) d(2) by (auto simp: parseOffset_def simp del: replace_once.simps)
qed

lemma two_digits_read: "m < 100 \<Longrightarrow> take 2 (takeWhile is_digit (two_digits m)) = two_digits m \<and> read_nat (two_digits m) = m"
  by (simp add: two_digits_def read_nat_def)

lemma gmt_hours:
  assumes "0 < h" "h < 100"
  shows "gmt_offset (short_offset east h 0) = ''GMT'' @ (if east then CHR ''+'' else CHR ''-'') # show_nat h @ '':00''"
proof -
  let ?g = "(if east then CHR ''+'' else CHR ''-'') # show_nat h"
  have plain: "list_all (\<lambda>c. \<not> is_js_space c) ?g" "CHR '':'' \<notin> set ?g"
    using hour_plain [of _ h] by (auto simp: list_all_iff) (simp_all add: is_js_space_def)
  have s: "short_offset east h 0 = ''GMT'' @ ?g" using assms by (simp add: short_offset_def)
  have "js_trim (''GMT'' @ ?g) = ''GMT'' @ ?g" by (rule js_trim_no_space) (use plain in \<open>simp add: is_js_space_def\<close>)
  moreover have "js_trim (replace_once ''GMT'' [] (''GMT'' @ ?g)) = ?g" unfolding replace_gmt using plain(1) by (simp add: js_trim_no_space)
  ultimately show ?thesis unfolding s gmt_offset_def using plain(2) by (simp add: Let_def del: replace_once.simps)
qed

lemma gmt_minutes:
  assumes "0 < m" "m < 60" "h < 100"
  shows "gmt_offset (short_offset east h m) = ''GMT'' @ (if east then CHR ''+'' else CHR ''-'') # show_nat h @ '':'' @ two_digits m"
proof -
  let ?g = "(if east then CHR ''+'' else CHR ''-'') # show_nat h @ '':'' @ two_digits m"
  have "\<not> is_js_space c" if "c \<in> set (two_digits m)" for c
    using that assms is_digit_not_sign [of c] by (auto simp: two_digits_def)
  then have plain: "list_all (\<lambda>c. \<not> is_js_space c) ?g"
    using hour_plain [of _ h] by (auto simp: list_all_iff) (simp_all add: is_js_space_def)
  have s: "short_offset east h m = ''GMT'' @ ?g" using assms by (simp add: short_offset_def)
  have "js_trim (''GMT'' @ ?g) = ''GMT'' @ ?g" by (rule js_trim_no_space) (use plain in \<open>simp add: is_js_space_def\<close>)
  moreover have "js_trim (replace_once ''GMT'' [] (''GMT'' @ ?g)) = ?g" unfolding replace_gmt using plain by (simp add: js_trim_no_space)
  ultimately show ?thesis unfolding s gmt_offset_def by (simp add: Let_def del: replace_once.simps)
qed

section \<open>Properties\<close>

text \<open>
  C33. The offset that the list gives a zone, whose minutes order the list, is the one that the browser says, for every
  offset of whole minutes: the normalisation of the text loses nothing.
\<close>

theorem offset_of_zone_is_read_back:
  assumes "intl z = Some (Some (short_offset east h m))" and "h < 100" and "m < 60"
  shows "parseOffset (tz_offset (generate_timezone intl z)) = signed_minutes east h m"
proof -
  have "short_offset east h m \<noteq> []" by (simp add: short_offset_def)
  then have z: "tz_offset (generate_timezone intl z) = gmt_offset (short_offset east h m)"
    by (simp add: generate_timezone_def assms(1) Let_def)
  have sign: "(if east then CHR ''+'' else CHR ''-'') = CHR ''+'' \<or> (if east then CHR ''+'' else CHR ''-'') = CHR ''-''" by simp
  note digits = hour_digits(1) [OF assms(2)] hour_digits(3) [OF assms(2)] hour_digits(2) [OF assms(2)]
  have colon: "'':'' @ s = [] \<or> \<not> is_digit (hd ('':'' @ s))" for s by (simp add: is_digit_def)
  consider "h = 0" "m = 0" | "0 < h" "m = 0" | "0 < m" by blast
  then show ?thesis
  proof cases
    case 1
    have "parseOffset (gmt_offset ''GMT'') = 0" by code_simp
    with 1 z show ?thesis by (simp add: short_offset_def signed_minutes_def)
  next
    case 2
    have "snd (offset_digits (show_nat h @ '':'' @ ''00'')) = 0"
      using offset_digits_hours(2) [OF digits(1,3) colon, of "''00''"] by (simp add: is_digit_def read_nat_def digit_val_def)
    with parseOffset_hours [OF digits sign colon, of "''00''"] gmt_hours [OF 2(1) assms(2)] z 2 show ?thesis
      by (simp add: signed_minutes_def)
  next
    case 3
    have "two_digits m \<noteq> []" by (simp add: two_digits_def)
    then have "snd (offset_digits (show_nat h @ '':'' @ two_digits m)) = m"
      using offset_digits_hours(2) [OF digits(1,3) colon, of "two_digits m"] two_digits_read [of m] assms(3) by simp
    with parseOffset_hours [OF digits sign colon, of "two_digits m"] gmt_minutes [OF 3 assms(3,2)] z show ?thesis
      by (simp add: signed_minutes_def)
  qed
qed

interpretation zones: keyed_comparison "timezone_before localeCompare" "\<lambda>tz. parseOffset (tz_offset tz)" "\<lambda>_. True" for localeCompare
  by unfold_locales (auto simp: timezone_before_def Let_def split: if_splits)

text \<open>
  The list of zones has every zone of the browser and plain UTC, and goes from west to east, however names are compared.
\<close>

theorem timezones_go_east:
  "sorted (map (\<lambda>tz. parseOffset (tz_offset tz)) (TIMEZONES (Some names) intl localeCompare))
   \<and> mset (TIMEZONES (Some names) intl localeCompare) = add_mset UTCPlain (image_mset (generate_timezone intl) (mset names))"
proof
  have "list_all (\<lambda>_. True) (generateTimezones (Some names) intl)" by (simp add: list_all_iff)
  then show "sorted (map (\<lambda>tz. parseOffset (tz_offset tz)) (TIMEZONES (Some names) intl localeCompare))"
    unfolding TIMEZONES_def by (rule zones.sort_sorted)
qed (simp add: TIMEZONES_def generateTimezones_def)

lemma read_pad: "read_nat (replicate n (CHR ''0'') @ s) = read_nat s"
proof -
  have "foldl (\<lambda>n c. 10 * n + digit_val c) 0 (replicate n (CHR ''0'')) = 0" by (induction n) (simp_all add: digit_val_def)
  then show ?thesis by (simp add: read_nat_def)
qed

lemma show_half: "show_num (Dec (10 * int h + 5) 1) = show_nat h @ ''.5''"
proof -
  have n: "nat (10 * int h + 5) = 10 * h + 5" by simp
  show ?thesis by (simp add: n pad_left_def show_nat.simps [of 5])
qed

text \<open>
  A zone of the system that is not in the list is shown by its whole hours: the text of its offset is right for whole
  hours, and for half hours it is a decimal fraction of which only the hours are read.
\<close>

theorem system_offset_drops_minutes:
  assumes "name \<notin> set (map tz_value zones)" and "h < 100"
  shows "parseOffset (tz_offset (getSystemTimezone zones name (60 * int h))) = 60 * int h
    \<and> parseOffset (tz_offset (getSystemTimezone zones name (60 * int h + 30))) = 60 * int h"
proof -
  have "find (\<lambda>tz. tz_value tz = name) zones = None" using assms(1) by (auto simp: find_None_iff)
  then have z: "tz_offset (getSystemTimezone zones name n) = system_offset n" for n by (simp add: getSystemTimezone_def)
  have whole: "hours_of (60 * int h) = Dec (int h) 0"
    by (simp add: hours_of_def numeral_2_eq_2)
  have half: "hours_of (60 * int h + 30) = Dec (10 * int h + 5) 1"
    by (simp add: hours_of_def numeral_2_eq_2)
  let ?p = "pad_left 2 (CHR ''0'') (show_nat h)"
  have p: "list_all is_digit ?p" "?p \<noteq> []" "length ?p \<le> 2" "read_nat ?p = h"
    using hour_digits [OF assms(2)] by (auto simp: pad_left_def read_pad list_all_iff is_digit_def)
  have colon: "'':00'' = [] \<or> \<not> is_digit (hd '':00'')" by (simp add: is_digit_def)
  have "snd (offset_digits (?p @ '':00'')) = 0"
    using offset_digits_hours(2) [OF p(1,3) colon] by (simp add: is_digit_def read_nat_def digit_val_def)
  with parseOffset_hours [OF p(1-3) disjI1 colon, OF refl] p(4) z [of "60 * int h"] whole
  have "parseOffset (tz_offset (getSystemTimezone zones name (60 * int h))) = 60 * int h"
    by (simp add: system_offset_def show_int_def)
  moreover
  have dot: "''.5:00'' = [] \<or> \<not> is_digit (hd ''.5:00'')" by (simp add: is_digit_def)
  note d = hour_digits [OF assms(2)]
  have "system_offset (60 * int h + 30) = ''GMT'' @ CHR ''+'' # show_nat h @ ''.5:00''"
    using d(3) by (simp add: system_offset_def half show_half [simplified One_nat_def] pad_left_def Suc_leI del: show_num.simps)
  with parseOffset_hours [OF d(1,3,2) disjI1 dot, OF refl] z [of "60 * int h + 30"] offset_digits_hours(3) [OF d(1,2) dot]
  have "parseOffset (tz_offset (getSystemTimezone zones name (60 * int h + 30))) = 60 * int h" by simp
  ultimately show ?thesis by blast
qed

section \<open>Witnesses\<close>

lemma offset_of_zone_is_read_back_witness:
  "parseOffset (tz_offset (generate_timezone (\<lambda>z. Some (Some (short_offset False 3 30))) ''America/St_Johns'')) = - 210"
  using offset_of_zone_is_read_back [of "\<lambda>z. Some (Some (short_offset False 3 30))" "''America/St_Johns''" False 3 30]
  by (simp add: signed_minutes_def)

lemma system_offset_drops_minutes_witness:
  "parseOffset (tz_offset (getSystemTimezone [UTCPlain] ''Asia/Calcutta'' 330)) = 300"
  using system_offset_drops_minutes [of "''Asia/Calcutta''" "[UTCPlain]" 5] by (simp add: UTCPlain_def)

end
