(* ===== verification/Brokers.thy ===== *)
theory Brokers
  imports Hooks Confirm ArraySort Formatting
begin

text \<open>
  The pages of brokers (\<open>frontend/src/components/Brokers\<close>): the rows of the list with their cells and exported texts, the
  indicators above it, the table of settings with its search and order, and the cell in which a setting is changed.
\<close>

section \<open>The list\<close>

record Broker =
  br_id :: int
  br_host :: "string option"
  br_port :: "int option"
  br_partitionsLeader :: "int option"
  br_partitions :: "int option"
  br_inSyncPartitions :: "int option"
  br_leadersSkew :: "js_num option"
  br_partitionsSkew :: "js_num option"

record BrokerDiskUsage =
  du_brokerId :: int
  du_segmentSize :: "int option"
  du_segmentCount :: "int option"

definition NA :: string where
  "NA = ''N/A''"

text \<open>The usage of a broker, or the constant for brokers without one.\<close>

datatype disk_use = NA_DISK_USAGE | Usage "int option" "int option"

definition disk_size :: "disk_use \<Rightarrow> amount" where
  "disk_size d = (case d of NA_DISK_USAGE \<Rightarrow> Text NA | Usage (Some n) _ \<Rightarrow> Number n | Usage None _ \<Rightarrow> Absent)"

definition disk_count :: "disk_use \<Rightarrow> string" where
  "disk_count d = (case d of NA_DISK_USAGE \<Rightarrow> NA | Usage _ (Some n) \<Rightarrow> show_int n | Usage _ None \<Rightarrow> ''undefined'')"

record BrokersTableRow =
  bt_broker :: Broker
  bt_disk :: disk_use
  activeControllers :: "int option"

text \<open>Of several entries with one key the last one stays.\<close>

definition keyBy :: "('a \<Rightarrow> 'k) \<Rightarrow> 'a list \<Rightarrow> 'k \<Rightarrow> 'a option" where
  "keyBy property collection = fold (\<lambda>cur acc. acc(property cur \<mapsto> cur)) collection (\<lambda>_. None)"

definition getBrokersTableRows :: "Broker list \<Rightarrow> BrokerDiskUsage list \<Rightarrow> int option \<Rightarrow> BrokersTableRow list" where
  "getBrokersTableRows brokers diskUsage controllers =
     map (\<lambda>b. \<lparr>bt_broker = b,
               bt_disk = (case keyBy du_brokerId diskUsage (br_id b) of
                            Some u \<Rightarrow> Usage (du_segmentSize u) (du_segmentCount u) | None \<Rightarrow> NA_DISK_USAGE),
               activeControllers = controllers\<rparr>) brokers"

text \<open>\<open>skew.toFixed(2)\<close> for a skew that is not negative: the nearest number of hundredths.\<close>

fun to_fixed2 :: "js_num \<Rightarrow> string" where
  "to_fixed2 NaN = ''NaN''"
| "to_fixed2 (Dec m s) =
     (let n = round_div (nat m * 100) (10 ^ s)
      in show_nat (n div 100) @ ''.'' @ pad_left 2 (CHR ''0'') (show_nat (n mod 100)))"

definition getSkewValue :: "js_num option \<Rightarrow> string" where
  "getSkewValue skew =
     (case skew of Some (Dec m s) \<Rightarrow> if m = 0 then ''-'' else to_fixed2 (Dec m s) @ ''%'' | _ \<Rightarrow> ''-'')"

text \<open>Whether the cell of a skew warns, and whether it calls for attention.\<close>

definition num_at_least :: "js_num \<Rightarrow> int \<Rightarrow> bool" where
  "num_at_least x n \<longleftrightarrow> (case x of NaN \<Rightarrow> False | Dec m s \<Rightarrow> n * 10 ^ s \<le> m)"

definition Skew :: "js_num option \<Rightarrow> bool \<times> bool" where
  "Skew skew =
     (case skew of
        Some x \<Rightarrow> (num_at_least x 10 \<and> num_before x (Dec 20 0), num_at_least x 20)
      | None \<Rightarrow> (False, False))"

text \<open>The texts of the exported columns.\<close>

definition csv_brokerId :: "BrokersTableRow \<Rightarrow> string" where
  "csv_brokerId row =
     show_int (br_id (bt_broker row)) @ '' '' @ (if activeControllers row = Some (br_id (bt_broker row)) then ''(Active)'' else [])"

definition csv_size :: "BrokersTableRow \<Rightarrow> string" where
  "csv_size row =
     (if disk_size (bt_disk row) = Absent then NA
      else formatBytes 2 (disk_size (bt_disk row)) @ '', '' @ disk_count (bt_disk row) @ '' segment(s)'')"

definition csv_inSyncReplicas :: "BrokersTableRow \<Rightarrow> string" where
  "csv_inSyncReplicas row = (case br_inSyncPartitions (bt_broker row) of Some n \<Rightarrow> show_int n | None \<Rightarrow> ''undefined'')"

definition csv_replicas :: "BrokersTableRow \<Rightarrow> string" where
  "csv_replicas row = (case br_partitions (bt_broker row) of Some n \<Rightarrow> show_int n | None \<Rightarrow> [])"

text \<open>The cell of the replicas in sync: nothing, or the number and whether it calls for attention.\<close>

definition InSyncReplicas :: "BrokersTableRow \<Rightarrow> (int \<times> bool) option" where
  "InSyncReplicas row =
     (case (br_inSyncPartitions (bt_broker row), br_partitions (bt_broker row)) of
        (Some i, Some r) \<Rightarrow> Some (i, i < r)
      | _ \<Rightarrow> None)"

section \<open>The indicators\<close>

record cluster_stats =
  inSyncReplicasCount :: "int option"
  outOfSyncReplicasCount :: "int option"
  offlinePartitionCount :: "int option"
  onlinePartitionCount :: "int option"
  underReplicatedPartitionCount :: "int option"
  controllerId :: "int option"

definition or_zero :: "int option \<Rightarrow> int" where
  "or_zero v = (case v of Some n \<Rightarrow> n | None \<Rightarrow> 0)"

definition metrics_replicas :: "cluster_stats \<Rightarrow> int" where
  "metrics_replicas s = or_zero (inSyncReplicasCount s) + or_zero (outOfSyncReplicasCount s)"

definition areAllInSync :: "cluster_stats \<Rightarrow> bool" where
  "areAllInSync s \<longleftrightarrow> or_zero (inSyncReplicasCount s) \<noteq> 0 \<and> metrics_replicas s = or_zero (inSyncReplicasCount s)"

definition partitionIsOffline :: "cluster_stats \<Rightarrow> bool" where
  "partitionIsOffline s \<longleftrightarrow> 0 < or_zero (offlinePartitionCount s)"

definition isActiveControllerUnKnown :: "cluster_stats \<Rightarrow> bool" where
  "isActiveControllerUnKnown s \<longleftrightarrow> controllerId s = None"

text \<open>The indicators that are red: controller, partitions, under-replicated partitions, replicas.\<close>

definition BrokersMetrics :: "cluster_stats \<Rightarrow> bool \<times> bool \<times> bool \<times> bool" where
  "BrokersMetrics s =
     (isActiveControllerUnKnown s, partitionIsOffline s, or_zero (underReplicatedPartitionCount s) \<noteq> 0, \<not> areAllInSync s)"

section \<open>The settings of a broker\<close>

datatype ConfigSource =
    DYNAMIC_TOPIC_CONFIG | DYNAMIC_BROKER_LOGGER_CONFIG | DYNAMIC_BROKER_CONFIG | DYNAMIC_DEFAULT_BROKER_CONFIG
  | DYNAMIC_CLIENT_METRICS_CONFIG | STATIC_BROKER_CONFIG | DEFAULT_CONFIG | UNKNOWN

fun CONFIG_SOURCE_NAME_MAP :: "ConfigSource \<Rightarrow> string" where
  "CONFIG_SOURCE_NAME_MAP DYNAMIC_TOPIC_CONFIG = ''Dynamic topic config''"
| "CONFIG_SOURCE_NAME_MAP DYNAMIC_BROKER_LOGGER_CONFIG = ''Dynamic broker logger config''"
| "CONFIG_SOURCE_NAME_MAP DYNAMIC_BROKER_CONFIG = ''Dynamic broker config''"
| "CONFIG_SOURCE_NAME_MAP DYNAMIC_DEFAULT_BROKER_CONFIG = ''Dynamic default broker config''"
| "CONFIG_SOURCE_NAME_MAP DYNAMIC_CLIENT_METRICS_CONFIG = ''Dynamic client metrics subscription config''"
| "CONFIG_SOURCE_NAME_MAP STATIC_BROKER_CONFIG = ''Static broker config''"
| "CONFIG_SOURCE_NAME_MAP DEFAULT_CONFIG = ''Default config''"
| "CONFIG_SOURCE_NAME_MAP UNKNOWN = ''Unknown''"

fun CONFIG_SOURCE_PRIORITY :: "ConfigSource \<Rightarrow> int" where
  "CONFIG_SOURCE_PRIORITY STATIC_BROKER_CONFIG = 2"
| "CONFIG_SOURCE_PRIORITY DEFAULT_CONFIG = 3"
| "CONFIG_SOURCE_PRIORITY UNKNOWN = 4"
| "CONFIG_SOURCE_PRIORITY _ = 1"

record BrokerConfig =
  bc_name :: string
  bc_value :: string
  bc_source :: ConfigSource
  bc_isSensitive :: bool
  bc_isReadOnly :: bool

definition lower_text :: "string \<Rightarrow> string" where
  "lower_text s = map (\<lambda>c. let n = of_char c :: nat in if 65 \<le> n \<and> n \<le> 90 then char_of (n + 32) else c) s"

definition getConfigFieldMatch :: "string \<Rightarrow> string \<Rightarrow> bool" where
  "getConfigFieldMatch fld query \<longleftrightarrow> js_includes (lower_text query) (lower_text fld)"

definition filterConfigsBySearchQuery :: "string \<Rightarrow> BrokerConfig \<Rightarrow> bool" where
  "filterConfigsBySearchQuery searchQuery config \<longleftrightarrow>
     getConfigFieldMatch (bc_name config) searchQuery
     \<or> bc_value config \<noteq> [] \<and> getConfigFieldMatch (bc_value config) searchQuery"

definition sortBrokersBySource :: "BrokerConfig \<Rightarrow> BrokerConfig \<Rightarrow> bool" where
  "sortBrokersBySource a b \<longleftrightarrow> CONFIG_SOURCE_PRIORITY (bc_source a) - CONFIG_SOURCE_PRIORITY (bc_source b) < 0"

definition getConfigTableData :: "BrokerConfig list \<Rightarrow> string \<Rightarrow> BrokerConfig list" where
  "getConfigTableData configs searchQuery = js_sort sortBrokersBySource (filter (filterConfigsBySearchQuery searchQuery) configs)"

datatype ConfigUnit = Ms | Bytes

definition ends_with :: "string \<Rightarrow> string \<Rightarrow> bool" where
  "ends_with suf s \<longleftrightarrow> length suf \<le> length s \<and> drop (length s - length suf) s = suf"

definition getConfigUnit :: "string \<Rightarrow> ConfigUnit option" where
  "getConfigUnit configName =
     (if ends_with ''.ms'' configName then Some Ms else if ends_with ''.bytes'' configName then Some Bytes else None)"

text \<open>The shown value and the title.\<close>

definition getConfigDisplayValue :: "bool \<Rightarrow> string \<Rightarrow> ConfigUnit option \<Rightarrow> string \<times> string" where
  "getConfigDisplayValue isSensitive val unit =
     (if isSensitive then (''**********'', ''Sensitive Value'')
      else case unit of
        Some Bytes \<Rightarrow>
          (case js_parseInt val of
             Some n \<Rightarrow> if 0 < n then (formatBytes 0 (Number n), ''Bytes: '' @ val) else (val, val)
           | None \<Rightarrow> (val, val))
      | Some Ms \<Rightarrow> (val @ '' ms'', val @ '' ms'')
      | None \<Rightarrow> (val, val))"

section \<open>Changing a setting\<close>

text \<open>The cell of one setting; while it is edited, the text of the input.\<close>

record InputCell =
  edited :: "string option"
  asking_dialog :: "mutation_hook dialog"

definition onUpdateInputCell :: "string \<Rightarrow> nat \<Rightarrow> BrokerConfig \<Rightarrow> string \<Rightarrow> mutation_hook" where
  "onUpdateInputCell c b config v =
     useUpdateBrokerConfigByName c b
       (VObj [(''name'', VStr (bc_name config)), (''brokerConfigItem'', VObj [(''value'', VStr v)])])"

definition handleSave :: "string \<Rightarrow> nat \<Rightarrow> BrokerConfig \<Rightarrow> string \<Rightarrow> InputCell \<Rightarrow> InputCell" where
  "handleSave c b config newValue s =
     (if newValue \<noteq> bc_value config
      then s\<lparr>edited := None, asking_dialog := useConfirm False ''Are you sure you want to change the value?'' (onUpdateInputCell c b config newValue) (asking_dialog s)\<rparr>
      else s\<lparr>edited := None\<rparr>)"

datatype cell_event = PressEdit | TypeValue string | PressSave | PressCancelEdit | Answer "mutation_hook dialog_event"

text \<open>
  The button of the view is disabled for a setting that is read-only and without the permission to edit. The
  events of the dialog are its buttons and the end of a request.
\<close>

fun cell_step :: "string \<Rightarrow> nat \<Rightarrow> BrokerConfig \<Rightarrow> bool \<Rightarrow> cell_event \<Rightarrow> InputCell \<Rightarrow> InputCell" where
  "cell_step c b config permitted PressEdit s =
     (if edited s = None \<and> permitted \<and> \<not> bc_isReadOnly config then s\<lparr>edited := Some (bc_value config)\<rparr> else s)"
| "cell_step c b config permitted (TypeValue t) s = (if edited s \<noteq> None then s\<lparr>edited := Some t\<rparr> else s)"
| "cell_step c b config permitted PressSave s = (case edited s of Some v \<Rightarrow> handleSave c b config v s | None \<Rightarrow> s)"
| "cell_step c b config permitted PressCancelEdit s = s\<lparr>edited := None\<rparr>"
| "cell_step c b config permitted (Answer e) s =
     (case e of Ask _ _ _ \<Rightarrow> s | _ \<Rightarrow> s\<lparr>asking_dialog := dialog_step e (asking_dialog s)\<rparr>)"

definition cell_start :: InputCell where
  "cell_start = \<lparr>edited = None, asking_dialog = ConfirmContextProvider\<rparr>"

section \<open>Rows and settings\<close>

lemma keyBy_get: "fold (\<lambda>cur acc. acc(p cur \<mapsto> cur)) xs m k =
   (case find (\<lambda>x. p x = k) (rev xs) of Some x \<Rightarrow> Some x | None \<Rightarrow> m k)"
proof (induction xs arbitrary: m)
  case (Cons x xs)
  have "find P (ys @ [x]) = (case find P ys of Some y \<Rightarrow> Some y | None \<Rightarrow> if P x then Some x else None)" for P ys
    by (induction ys) auto
  with Cons.IH show ?case by (auto split: option.split)
qed simp

lemma keyBy_last: "keyBy p xs k = find (\<lambda>x. p x = k) (rev xs)"
  by (simp add: keyBy_def keyBy_get split: option.split)

interpretation sources: comparator sortBrokersBySource "\<lambda>c. CONFIG_SOURCE_PRIORITY (bc_source c)" "\<lambda>_. True"
  by unfold_locales (simp add: sortBrokersBySource_def)

lemma unknown_disk_usage_text:
  "bt_disk row = NA_DISK_USAGE \<Longrightarrow> csv_size row = ''-Bytes, N/A segment(s)''"
  by (simp add: csv_size_def disk_size_def disk_count_def NA_def formatBytes_def js_parseInt_def parse_digits_def
      is_js_space_def is_digit_def Let_def)

section \<open>Changes\<close>

text \<open>A request that the cell may send after some events.\<close>

definition acceptable :: "string \<Rightarrow> nat \<Rightarrow> BrokerConfig \<Rightarrow> bool \<Rightarrow> string set \<Rightarrow> mutation_hook \<Rightarrow> bool" where
  "acceptable c b config permitted typed m \<longleftrightarrow>
     permitted \<and> \<not> bc_isReadOnly config \<and> (\<exists>v\<in>typed. v \<noteq> bc_value config \<and> m = onUpdateInputCell c b config v)"

definition cell_inv :: "string \<Rightarrow> nat \<Rightarrow> BrokerConfig \<Rightarrow> bool \<Rightarrow> string set \<Rightarrow> InputCell \<Rightarrow> bool" where
  "cell_inv c b config permitted typed s \<longleftrightarrow>
     (edited s \<noteq> None \<longrightarrow> permitted \<and> \<not> bc_isReadOnly config \<and> the (edited s) \<in> insert (bc_value config) typed)
     \<and> (\<forall>m. confirm (asking_dialog s) = Some m \<longrightarrow> acceptable c b config permitted typed m)
     \<and> list_all (acceptable c b config permitted typed) (started (asking_dialog s))"

definition types_only :: "string set \<Rightarrow> cell_event \<Rightarrow> bool" where
  "types_only typed e \<longleftrightarrow> (case e of TypeValue t \<Rightarrow> t \<in> typed | _ \<Rightarrow> True)"

lemma dialog_acceptable:
  assumes "\<And>d q a. e \<noteq> Ask d q a"
    and "\<forall>m. confirm s = Some m \<longrightarrow> P m" and "list_all P (started s)"
  shows "(\<forall>m. confirm (dialog_step e s) = Some m \<longrightarrow> P m) \<and> list_all P (started (dialog_step e s))"
  using assms by (cases e) (auto simp: dialog_defs split: option.split)

interpretation cells: machine "cell_step c b config permitted" "types_only typed" "cell_inv c b config permitted typed"
  for c b config permitted typed
proof
  fix e s assume e: "types_only typed e" and inv: "cell_inv c b config permitted typed s"
  show "cell_inv c b config permitted typed (cell_step c b config permitted e s)"
  proof (cases e)
    case PressSave
    then show ?thesis using inv
      by (cases "edited s") (auto simp: cell_inv_def handleSave_def acceptable_def useConfirm_def)
  next
    case (Answer a)
    show ?thesis
    proof (cases "\<exists>d q m. a = Ask d q m")
      case True
      then show ?thesis using inv Answer by auto
    next
      case False
      then have step: "cell_step c b config permitted e s = s\<lparr>asking_dialog := dialog_step a (asking_dialog s)\<rparr>"
        using Answer by (cases a) auto
      let ?P = "acceptable c b config permitted typed"
      have "(\<forall>m. confirm (dialog_step a (asking_dialog s)) = Some m \<longrightarrow> ?P m) \<and> list_all ?P (started (dialog_step a (asking_dialog s)))"
        using inv False unfolding cell_inv_def by (intro dialog_acceptable) blast+
      then show ?thesis using inv unfolding step cell_inv_def by simp
    qed
  qed (use e inv in \<open>auto simp: cell_inv_def types_only_def\<close>)
qed

lemma started_needs_press:
  assumes "Answer PressConfirm \<notin> set es"
  shows "started (asking_dialog (fold (cell_step c b config permitted) es s)) = started (asking_dialog s)"
  using assms
proof (induction es arbitrary: s)
  case (Cons e es)
  have "started (asking_dialog (cell_step c b config permitted e s)) = started (asking_dialog s)"
    using Cons.prems
    by (cases e) (auto simp: handleSave_def dialog_defs split: option.split dialog_event.split)
  with Cons show ?case by simp
qed simp

section \<open>Properties\<close>



text \<open>
  A row of the list shows the disk usage that was reported last for its own broker, and the exported text of a broker without one
  is not the placeholder of the page but a size that cannot be read.
\<close>

theorem rows_show_own_usage:
  assumes "i < length brokers"
  shows "case find (\<lambda>u. du_brokerId u = br_id (brokers ! i)) (rev diskUsage) of
      Some u \<Rightarrow> bt_disk (getBrokersTableRows brokers diskUsage k ! i) = Usage (du_segmentSize u) (du_segmentCount u)
    | None \<Rightarrow> csv_size (getBrokersTableRows brokers diskUsage k ! i) = ''-Bytes, N/A segment(s)''"
  using assms by (auto simp: getBrokersTableRows_def keyBy_last intro!: unknown_disk_usage_text split: option.split)

section \<open>Witnesses\<close>

abbreviation example_setting :: BrokerConfig where
  "example_setting \<equiv> \<lparr>bc_name = ''n'', bc_value = ''1'', bc_source = DEFAULT_CONFIG, bc_isSensitive = False, bc_isReadOnly = False\<rparr>"


abbreviation example_broker :: Broker where
  "example_broker \<equiv> \<lparr>br_id = 1, br_host = None, br_port = None, br_partitionsLeader = None, br_partitions = None,
     br_inSyncPartitions = None, br_leadersSkew = None, br_partitionsSkew = None\<rparr>"

lemma rows_show_own_usage_witness:
  "csv_size (getBrokersTableRows [example_broker] [] None ! 0) = ''-Bytes, N/A segment(s)''"
  using rows_show_own_usage [of 0 "[example_broker]" "[]" None] by simp

end
