(* ===== verification/ConnectorForms.thy ===== *)
theory ConnectorForms
  imports Hooks JsonText
begin

text \<open>
  The forms of connectors: the page that creates one (\<open>frontend/src/components/Connect/New/New.tsx\<close>), whose select
  (\<open>components/common/Select/Select.tsx\<close>) keeps its own choice, and the editor of a configuration
  (\<open>components/Connect/Details/Config/Config.tsx\<close>). A press of the button carries whether the server accepts.
\<close>

section \<open>The select\<close>

text \<open>The value that the select shows is a state of its own, which follows the property only when the property changes.\<close>

definition Select_effect :: "string option \<Rightarrow> string option \<Rightarrow> string option \<Rightarrow> string option" where
  "Select_effect before after selected = (if after \<noteq> before then after else selected)"

definition displayedOption :: "string list \<Rightarrow> string option \<Rightarrow> string option" where
  "displayedOption options selected = find (\<lambda>opt. Some opt = selected) options"

section \<open>Creating a connector\<close>

record FormValues =
  cf_connectName :: string
  cf_name :: string
  cf_config :: string

definition validationSchema :: "FormValues \<Rightarrow> bool" where
  "validationSchema f \<longleftrightarrow> cf_name f \<noteq> [] \<and> cf_config f \<noteq> [] \<and> isValidJsonObject (cf_config f)"

record new_connector =
  connects :: "string list"
  form :: FormValues
  default_form :: FormValues
  selectedOption :: "string option"
  sent :: "mutation_hook list"

definition first_connect :: "string list \<Rightarrow> string option" where
  "first_connect l = (case l of c # _ \<Rightarrow> Some c | [] \<Rightarrow> None)"

definition New_start :: "string list \<Rightarrow> new_connector" where
  "New_start l =
     (let f = \<lparr>cf_connectName = (case first_connect l of Some c \<Rightarrow> c | None \<Rightarrow> []), cf_name = [], cf_config = []\<rparr>
      in \<lparr>connects = l, form = f, default_form = f, selectedOption = first_connect l, sent = []\<rparr>)"

text \<open>A new list of connect clusters: the select follows its first element, the form only while it has no name.\<close>

definition connects_arrive :: "string list \<Rightarrow> new_connector \<Rightarrow> new_connector" where
  "connects_arrive l p =
     p\<lparr>connects := l, selectedOption := Select_effect (first_connect (connects p)) (first_connect l) (selectedOption p),
       form := (case first_connect l of
                  Some c \<Rightarrow> if cf_connectName (form p) = [] then (form p)\<lparr>cf_connectName := c\<rparr> else form p
                | None \<Rightarrow> form p)\<rparr>"

definition shown_connect :: "new_connector \<Rightarrow> string option" where
  "shown_connect p = displayedOption (connects p) (selectedOption p)"

text \<open>The request; the text has passed validation.\<close>

definition onSubmit :: "string \<Rightarrow> FormValues \<Rightarrow> mutation_hook option" where
  "onSubmit c f =
     map_option (\<lambda>v. useCreateConnectorMutation c (VObj [(''connectName'', VStr (cf_connectName f)),
         (''newConnector'', VObj [(''name'', VStr (cf_name f)), (''config'', of_json v)])]))
       (JSON_parse (js_trim (cf_config f)))"

datatype new_event = ConnectsArrive "string list" | ChooseConnect string | TypeName string | TypeConfig string | PressSubmit

fun new_step :: "string \<Rightarrow> new_event \<Rightarrow> new_connector \<Rightarrow> new_connector" where
  "new_step c (ConnectsArrive l) p = connects_arrive l p"
| "new_step c (ChooseConnect n) p =
     (if n \<in> set (connects p) then p\<lparr>selectedOption := Some n, form := (form p)\<lparr>cf_connectName := n\<rparr>\<rparr> else p)"
| "new_step c (TypeName t) p = p\<lparr>form := (form p)\<lparr>cf_name := t\<rparr>\<rparr>"
| "new_step c (TypeConfig t) p = p\<lparr>form := (form p)\<lparr>cf_config := t\<rparr>\<rparr>"
| "new_step c PressSubmit p =
     (if validationSchema (form p) \<and> form p \<noteq> default_form p
      then (case onSubmit c (form p) of Some m \<Rightarrow> p\<lparr>sent := sent p @ [m]\<rparr> | None \<Rightarrow> p) else p)"

section \<open>Editing a configuration\<close>

record config_editor =
  stored_config :: "json option"
  config_text :: string
  default_text :: string
  isDirty :: bool
  config_sent :: "mutation_hook list"

definition shown_config :: "json option \<Rightarrow> string" where
  "shown_config config = (case config of Some v \<Rightarrow> js_stringify_tabs v | None \<Rightarrow> [])"

definition Config_start :: "json option \<Rightarrow> config_editor" where
  "Config_start config =
     \<lparr>stored_config = config, config_text = shown_config config, default_text = shown_config config, isDirty = False, config_sent = []\<rparr>"

definition config_arrives :: "json \<Rightarrow> config_editor \<Rightarrow> config_editor" where
  "config_arrives v p = (if stored_config p = Some v then p else p\<lparr>stored_config := Some v, config_text := shown_config (Some v)\<rparr>)"

definition config_valid :: "string \<Rightarrow> bool" where
  "config_valid t \<longleftrightarrow> t \<noteq> [] \<and> isValidJsonObject t"

definition onSubmit_config :: "string \<Rightarrow> string \<Rightarrow> string \<Rightarrow> bool \<Rightarrow> config_editor \<Rightarrow> config_editor" where
  "onSubmit_config c connect name accepted p =
     (case JSON_parse (js_trim (config_text p)) of
        Some v \<Rightarrow>
          (let q = p\<lparr>config_sent := config_sent p @ [useUpdateConnectorConfig c connect name (of_json v)]\<rparr>
           in if accepted then q\<lparr>default_text := config_text p, isDirty := False\<rparr> else q)
      | None \<Rightarrow> p)"

datatype config_event = ConfigArrives json | TypeText string | SubmitConfig bool

fun config_step :: "string \<Rightarrow> string \<Rightarrow> string \<Rightarrow> config_event \<Rightarrow> config_editor \<Rightarrow> config_editor" where
  "config_step c connect name (ConfigArrives v) p = config_arrives v p"
| "config_step c connect name (TypeText t) p = p\<lparr>config_text := t, isDirty := (t \<noteq> default_text p)\<rparr>"
| "config_step c connect name (SubmitConfig accepted) p =
     (if config_valid (config_text p) \<and> isDirty p then onSubmit_config c connect name accepted p else p)"

definition hasCredentials :: "json option \<Rightarrow> bool" where
  "hasCredentials config =
     (case config of Some v \<Rightarrow> js_includes (CHR 0x22 # ''******'' @ [CHR 0x22]) (js_stringify_tabs v) | None \<Rightarrow> False)"

section \<open>Objects as text\<close>

lemma JSON_parse_value:
  assumes "JSON_parse s = Some v"
  shows "\<exists>k r. parse_value (Suc k) (skip s) = Some (v, r)"
proof -
  define q where "q = parse_value (2 * length s + 1) (skip s)"
  have "\<exists>r. q = Some (v, r)" using assms unfolding JSON_parse_def q_def [symmetric] by (auto split: option.splits if_splits)
  moreover have "q = parse_value (Suc (2 * length s)) (skip s)" by (simp only: q_def Suc_eq_plus1)
  ultimately show ?thesis by metis
qed

lemma valid_object:
  assumes "isValidJsonObject t"
  shows "\<exists>ms. JSON_parse (js_trim t) = Some (JObj ms)"
proof -
  obtain s where s: "js_trim t = CHR ''{'' # s"
    using assms by (cases "js_trim t") (auto simp: isValidJsonObject_def Let_def)
  obtain v where v: "JSON_parse (js_trim t) = Some v" using assms by (auto simp: isValidJsonObject_def Let_def)
  have "skip (CHR ''{'' # s) = CHR ''{'' # s" by (simp add: is_json_space_def)
  with v s obtain k r where "parse_value (Suc k) (CHR ''{'' # s) = Some (v, r)"
    using JSON_parse_value by metis
  then have "\<exists>ms. v = JObj ms"
    unfolding parse_value_object by (cases "take 1 (skip s) = ''}''") auto
  with v show ?thesis by blast
qed

section \<open>Where a connector is created\<close>

text \<open>The lists that arrive keep the first connect cluster, once there is one.\<close>

definition keeps_first :: "string option \<Rightarrow> new_event \<Rightarrow> bool" where
  "keeps_first c e \<longleftrightarrow> (case e of ConnectsArrive l \<Rightarrow> first_connect l = c | _ \<Rightarrow> True)"

definition chosen_inv :: "string \<Rightarrow> new_connector \<Rightarrow> bool" where
  "chosen_inv c p \<longleftrightarrow> first_connect (connects p) = Some c \<and> selectedOption p = Some (cf_connectName (form p)) \<and> cf_connectName (form p) \<noteq> []"

lemma first_member: "first_connect l = Some c \<Longrightarrow> c \<in> set l"
  by (cases l) (simp_all add: first_connect_def)

interpretation choosing: machine "new_step cl" "\<lambda>e. keeps_first (Some c) e \<and> (\<forall>n. e = ChooseConnect n \<longrightarrow> n \<noteq> [])" "chosen_inv c" for cl c
proof
  fix e p assume e: "keeps_first (Some c) e \<and> (\<forall>n. e = ChooseConnect n \<longrightarrow> n \<noteq> [])" and inv: "chosen_inv c p"
  show "chosen_inv c (new_step cl e p)"
    using e inv
    by (cases e) (auto simp: chosen_inv_def keeps_first_def connects_arrive_def Select_effect_def split: option.split)
qed

lemma sent_unless_submit: "e \<noteq> PressSubmit \<Longrightarrow> sent (new_step c e p) = sent p"
  by (cases e) (simp_all add: connects_arrive_def)

lemma sent_from:
  "m \<in> set (sent (fold (new_step c) es p)) \<Longrightarrow>
   m \<in> set (sent p) \<or> (\<exists>pre post. es = pre @ PressSubmit # post
      \<and> validationSchema (form (fold (new_step c) pre p)) \<and> onSubmit c (form (fold (new_step c) pre p)) = Some m)"
proof (induction es rule: rev_induct)
  case (snoc e es)
  let ?p = "fold (new_step c) es p"
  consider "m \<in> set (sent ?p)" | "m \<notin> set (sent ?p)" by blast
  then show ?case
  proof cases
    case 1
    then show ?thesis using snoc.IH by fastforce
  next
    case 2
    with snoc.prems have e: "e = PressSubmit" using sent_unless_submit [of e c ?p] by fastforce
    with 2 snoc.prems have "validationSchema (form ?p)" "onSubmit c (form ?p) = Some m"
      by (auto split: if_splits option.splits)
    with e show ?thesis by blast
  qed
qed simp

section \<open>Masked values\<close>

fun holds_text :: "string \<Rightarrow> json \<Rightarrow> bool" where
  "holds_text t (JStr s) \<longleftrightarrow> s = t"
| "holds_text t (JArr xs) \<longleftrightarrow> list_ex (holds_text t) xs"
| "holds_text t (JObj ms) \<longleftrightarrow> list_ex (\<lambda>m. holds_text t (snd m)) ms"
| "holds_text t v \<longleftrightarrow> False"

lemma includes_refl: "js_includes s s"
  unfolding js_includes_iff by (metis append_Nil append_Nil2)

lemma includes_inside: "js_includes sub s \<Longrightarrow> js_includes sub (a @ s @ b)"
  unfolding js_includes_iff by (metis append_assoc)

lemma includes_join: "w \<in> set ws \<Longrightarrow> js_includes sub w \<Longrightarrow> js_includes sub (join sep ws)"
proof (induction ws)
  case (Cons v ws)
  show ?case
  proof (cases "w = v")
    case True
    then show ?thesis using Cons.prems(2) includes_inside [of sub v "[]"] by (cases ws) simp_all
  next
    case False
    then have w: "w \<in> set ws" "ws \<noteq> []" using Cons.prems(1) by auto
    then show ?thesis using Cons.IH [OF w(1) Cons.prems(2)] includes_inside [of sub "join sep ws" "v @ sep" "[]"]
      by (simp add: join_Cons)
  qed
qed simp

lemma includes_quoted: "holds_text t v \<Longrightarrow> js_includes (json_quote t) (print_json nl sp d v)"
proof (induction v arbitrary: d)
  case (JStr s)
  then show ?case by (simp add: includes_refl)
next
  case (JArr xs)
  then obtain x where x: "x \<in> set xs" "js_includes (json_quote t) (print_json nl sp (d + 1) x)" by (auto simp: list_ex_iff)
  then have "js_includes (json_quote t) (join ('','' @ nl (d + 1)) (map (print_json nl sp (d + 1)) xs))"
    by (intro includes_join [of "print_json nl sp (d + 1) x"]) simp_all
  then show ?case using x includes_inside [of _ _ "''['' @ nl (d + 1)" "nl d @ '']''"] by auto
next
  case (JObj ms)
  then obtain k v where m: "(k, v) \<in> set ms" "holds_text t v" by (auto simp: list_ex_iff)
  with JObj.IH [OF m(1), of v] have v: "js_includes (json_quote t) (print_json nl sp (d + 1) v)" by simp
  let ?f = "\<lambda>(k, v). json_quote k @ '':'' @ sp @ print_json nl sp (d + 1) v"
  have "js_includes (json_quote t) (?f (k, v))" using includes_inside [OF v, of "json_quote k @ '':'' @ sp" "[]"] by simp
  then have "js_includes (json_quote t) (join ('','' @ nl (d + 1)) (map ?f ms))"
    using m(1) by (intro includes_join [of "?f (k, v)"]) (auto intro: rev_image_eqI)
  then show ?case using m includes_inside [of _ _ "''{'' @ nl (d + 1)" "nl d @ ''}''"] by auto
qed auto

section \<open>Properties\<close>


text \<open>
  When a list with another first cluster arrives after a cluster was chosen, the select shows the new first one, and the connector is
  still created in the one that was chosen.
\<close>

theorem new_list_hides_the_choice:
  assumes "selectedOption p = Some (cf_connectName (form p))" and "cf_connectName (form p) \<noteq> []"
    and "first_connect l = Some c" and "first_connect (connects p) \<noteq> Some c" and "c \<noteq> cf_connectName (form p)"
  shows "shown_connect (new_step cl (ConnectsArrive l) p) = Some c
    \<and> cf_connectName (form (new_step cl (ConnectsArrive l) p)) = cf_connectName (form p)"
proof -
  have "find (\<lambda>opt. opt = c) l = Some c" using assms(3) by (cases l) (simp_all add: first_connect_def)
  then show ?thesis using assms
    by (simp add: connects_arrive_def Select_effect_def shown_connect_def displayedOption_def)
qed

text \<open>
  The editor of a configuration shows the stored value and nothing else, and warns whenever a masked value is
  anywhere in it.
\<close>

theorem stored_config_is_shown:
  assumes "wf_json v"
  shows "JSON_parse (config_text (Config_start (Some v))) = Some v
    \<and> (holds_text ''******'' v \<longrightarrow> hasCredentials (Some v))"
proof
  show "JSON_parse (config_text (Config_start (Some v))) = Some v"
    using JSON_parse_tabs [OF assms] by (simp add: Config_start_def shown_config_def)
  have "json_quote ''******'' = CHR 0x22 # ''******'' @ [CHR 0x22]" by code_simp
  then show "holds_text ''******'' v \<longrightarrow> hasCredentials (Some v)"
    using includes_quoted [of "''******''" v] by (simp add: hasCredentials_def js_stringify_tabs_def)
qed

section \<open>Witnesses\<close>

lemma braces_valid: "isValidJsonObject ''{}''" "js_trim ''{}'' = ''{}''" "JSON_parse ''{}'' = Some (JObj [])"
  by code_simp+


lemma new_list_hides_the_choice_witness:
  "shown_connect (fold (new_step ''k'') [ChooseConnect ''b'', ConnectsArrive [''c'', ''b'']] (New_start [''a'', ''b''])) = Some ''c''"
  using new_list_hides_the_choice [of "new_step ''k'' (ChooseConnect ''b'') (New_start [''a'', ''b''])" "[''c'', ''b'']" "''c''" "''k''"]
  by (simp add: New_start_def Let_def first_connect_def)

lemma stored_config_is_shown_witness:
  "hasCredentials (Some (JObj [(''password'', JStr ''******'')]))"
  using stored_config_is_shown [of "JObj [(''password'', JStr ''******'')]"] by simp

end
