(* ===== verification/Navigation.thy ===== *)
theory Navigation
  imports Paths
begin

text \<open>
  The menu of a cluster (\<open>frontend/src/components/Nav/ClusterMenu/ClusterMenu.tsx\<close>) and the routes of its page
  (\<open>components/ClusterPage/ClusterPage.tsx\<close>), both of which depend on the features of the cluster. The router matches the
  segments of an address below the page of the cluster with the patterns of the routes; an address that no route matches goes to the
  brokers.
\<close>

section \<open>Features\<close>

datatype ClusterFeature =
    SCHEMA_REGISTRY | KAFKA_CONNECT | KSQL_DB | TOPIC_DELETION | KAFKA_ACL_VIEW | KAFKA_ACL_EDIT | CLIENT_QUOTA_MANAGEMENT
  | GRAPHS_ENABLED | FTS_ENABLED | FTS_DEFAULT_ENABLED | MESSAGE_RELATIVE_TIMESTAMP

record Cluster =
  cl_name :: string
  cl_readOnly :: "bool option"
  cl_features :: "ClusterFeature list option"

record ClusterContext =
  isReadOnly :: bool
  hasKafkaConnectConfigured :: bool
  hasSchemaRegistryConfigured :: bool
  isTopicDeletionAllowed :: bool
  hasKsqlDbConfigured :: bool
  hasAclViewConfigured :: bool
  ftsEnabled :: bool
  ftsDefaultEnabled :: bool
  messageRelativeTimestamp :: bool

definition contextValue :: "Cluster list option \<Rightarrow> string \<Rightarrow> ClusterContext" where
  "contextValue data clusterName =
     (let cluster = Option.bind data (find (\<lambda>c. cl_name c = clusterName));
          features = (case Option.bind cluster cl_features of Some fs \<Rightarrow> fs | None \<Rightarrow> []);
          has = (\<lambda>f. f \<in> set features)
      in \<lparr>isReadOnly = (case Option.bind cluster cl_readOnly of Some b \<Rightarrow> b | None \<Rightarrow> False),
          hasKafkaConnectConfigured = has KAFKA_CONNECT, hasSchemaRegistryConfigured = has SCHEMA_REGISTRY,
          isTopicDeletionAllowed = has TOPIC_DELETION, hasKsqlDbConfigured = has KSQL_DB,
          hasAclViewConfigured = (has KAFKA_ACL_VIEW \<or> has KAFKA_ACL_EDIT),
          ftsEnabled = has FTS_ENABLED, ftsDefaultEnabled = has FTS_DEFAULT_ENABLED,
          messageRelativeTimestamp = has MESSAGE_RELATIVE_TIMESTAMP\<rparr>)"

section \<open>The routes\<close>

text \<open>The patterns of the named routes; the other two lead to the brokers.\<close>

definition ClusterPage_routes :: "ClusterContext \<Rightarrow> bool \<Rightarrow> string list" where
  "ClusterPage_routes ctx hasDynamicConfig =
     [getNonExactPath clusterBrokerRelativePath, getNonExactPath clusterTopicsRelativePath,
      getNonExactPath clusterConsumerGroupsRelativePath]
     @ (if hasSchemaRegistryConfigured ctx then [getNonExactPath clusterSchemasRelativePath] else [])
     @ (if hasKafkaConnectConfigured ctx
        then [clusterConnectorNewRelativePath, getNonExactPath clusterConnectConnectorRelativePath, getNonExactPath kafkaConnectRelativePath]
        else [])
     @ (if hasKsqlDbConfigured ctx then [getNonExactPath clusterKsqlDbRelativePath] else [])
     @ (if hasAclViewConfigured ctx then [getNonExactPath clusterAclRelativePath] else [])
     @ (if hasDynamicConfig then [getNonExactPath clusterConfigRelativePath] else [])"

fun match_segments :: "string list \<Rightarrow> string list \<Rightarrow> bool" where
  "match_segments [] ss = (ss = [])"
| "match_segments (p # ps) ss =
     (if p = ''*'' \<and> ps = [] then True
      else case ss of
        s # ss' \<Rightarrow> (take 1 p = '':'' \<and> s \<noteq> [] \<or> p = s) \<and> match_segments ps ss'
      | [] \<Rightarrow> False)"

definition route_matches :: "string \<Rightarrow> string \<Rightarrow> bool" where
  "route_matches route rest \<longleftrightarrow> match_segments (js_split ''/'' route) (js_split ''/'' rest)"

text \<open>Whether an address below the page of the cluster has a page of its own.\<close>

definition has_page :: "ClusterContext \<Rightarrow> bool \<Rightarrow> string \<Rightarrow> bool" where
  "has_page ctx hasDynamicConfig rest \<longleftrightarrow> list_ex (\<lambda>r. route_matches r rest) (ClusterPage_routes ctx hasDynamicConfig)"

section \<open>The menu\<close>

record MenuItem =
  mi_title :: string
  mi_to :: string
  mi_paths :: "string list"

definition hasFeatureConfigured :: "ClusterFeature list option \<Rightarrow> ClusterFeature \<Rightarrow> bool" where
  "hasFeatureConfigured features key \<longleftrightarrow> (case features of Some fs \<Rightarrow> key \<in> set fs | None \<Rightarrow> False)"

definition simple_item :: "string \<Rightarrow> string \<Rightarrow> MenuItem" where
  "simple_item title to = \<lparr>mi_title = title, mi_to = to, mi_paths = [to]\<rparr>"

text \<open>Each item with the feature that it needs, if any.\<close>

definition all_items :: "string \<Rightarrow> (MenuItem \<times> ClusterFeature list) list" where
  "all_items name =
     [(simple_item ''Brokers'' (clusterBrokersPath (Some name)), []),
      (simple_item ''Topics'' (clusterTopicsPath (Some name)), []),
      (simple_item ''Consumers'' (clusterConsumerGroupsPath (Some name)), []),
      (simple_item ''Schema Registry'' (clusterSchemasPath (Some name)), [SCHEMA_REGISTRY]),
      (\<lparr>mi_title = ''Kafka Connect'', mi_to = kafkaConnectPath (Some name),
        mi_paths = [kafkaConnectPath (Some name), clusterConnectorsPath (Some name), clusterConnectsPath (Some name)]\<rparr>, [KAFKA_CONNECT]),
      (simple_item ''KSQL DB'' (clusterKsqlDbPath (Some name)), [KSQL_DB]),
      (simple_item ''ACL'' (clusterACLPath (Some name)), [KAFKA_ACL_VIEW, KAFKA_ACL_EDIT])]"

definition ClusterMenu :: "string \<Rightarrow> ClusterFeature list option \<Rightarrow> bool \<Rightarrow> MenuItem list" where
  "ClusterMenu name features isOpen =
     (if isOpen then map fst (filter (\<lambda>(i, needs). needs = [] \<or> list_ex (hasFeatureConfigured features) needs) (all_items name))
      else [])"

definition getIsMenuItemActive :: "string \<Rightarrow> MenuItem \<Rightarrow> bool" where
  "getIsMenuItemActive pathname i \<longleftrightarrow> list_ex (\<lambda>path. js_includes path pathname) (mi_paths i)"

text \<open>The name of the cluster opens its menu and goes to the brokers; the arrow toggles the menu.\<close>

definition handleClusterNameClick :: "string \<Rightarrow> bool \<Rightarrow> bool \<times> string" where
  "handleClusterNameClick name isOpen = (if \<not> isOpen then True else isOpen, clusterBrokersPath (Some name))"

definition handleToggleMenu :: "bool \<Rightarrow> bool" where
  "handleToggleMenu prev = (\<not> prev)"

section \<open>Active items\<close>

text \<open>Below the page of one cluster the text of an address occurs in another one only at its start.\<close>

lemma clusterPath_slashes: "count_list (clusterPath (Some c)) (CHR ''/'') = 3"
proof -
  have "CHR ''/'' \<notin> set (route_segment RouteParams_clusterName c)"
    by (rule route_segment_no_slash) (simp add: RouteParams_clusterName_def)
  then show ?thesis by (simp add: clusterPath_Some)
qed

lemma path_inside:
  assumes "count_list r (CHR ''/'') \<le> count_list r' (CHR ''/'')"
  shows "js_includes (clusterPath (Some c) @ r') (clusterPath (Some c) @ r) \<longleftrightarrow> starts_with r' r"
proof
  assume "js_includes (clusterPath (Some c) @ r') (clusterPath (Some c) @ r)"
  then obtain a b where split: "clusterPath (Some c) @ r = a @ (clusterPath (Some c) @ r') @ b"
    unfolding js_includes_iff by blast
  then have "count_list (clusterPath (Some c) @ r) (CHR ''/'') = count_list (a @ (clusterPath (Some c) @ r') @ b) (CHR ''/'')" by simp
  with assms have "count_list a (CHR ''/'') = 0" by simp
  then have "CHR ''/'' \<notin> set a" by (simp add: count_list_0_iff)
  moreover have "a = [] \<or> hd a = CHR ''/''" using split by (cases a) (simp_all add: clusterPath_Some)
  ultimately have "a = []" by (cases a) auto
  with split show "starts_with r' r" by (auto simp: starts_with_iff)
next
  assume "starts_with r' r"
  then show "js_includes (clusterPath (Some c) @ r') (clusterPath (Some c) @ r)"
    unfolding js_includes_iff starts_with_iff by (metis append_Nil append_assoc)
qed

lemmas menu_paths =
  clusterBrokersPath_def clusterTopicsPath_def clusterConsumerGroupsPath_def clusterSchemasPath_def kafkaConnectPath_def
  clusterConnectorsPath_def clusterConnectsPath_def clusterKsqlDbPath_def clusterACLPath_def dflt_def
  clusterBrokerRelativePath_def clusterTopicsRelativePath_def clusterConsumerGroupsRelativePath_def clusterSchemasRelativePath_def
  clusterKsqlDbRelativePath_def clusterAclRelativePath_def

lemma page_occurs:
  "CHR ''/'' \<notin> set p \<Longrightarrow>
   js_includes (clusterPath (Some c) @ CHR ''/'' # q) (clusterPath (Some c) @ CHR ''/'' # p) \<longleftrightarrow> starts_with q p"
  using path_inside [of "CHR ''/'' # p" "CHR ''/'' # q" c] by (simp add: count_list_0_iff)

lemma single_item_active:
  assumes "i \<in> set (map fst (all_items c))" and "j \<in> set (map fst (all_items c))"
  shows "getIsMenuItemActive (mi_to i) j \<longleftrightarrow> j = i"
proof -
  have "\<forall>i\<in>set (map fst (all_items c)). \<forall>j\<in>set (map fst (all_items c)). getIsMenuItemActive (mi_to i) j \<longleftrightarrow> j = i"
    by (simp add: all_items_def simple_item_def menu_paths getIsMenuItemActive_def page_occurs)
  with assms show ?thesis by blast
qed

lemmas route_texts =
  ClusterPage_routes_def route_matches_def menu_paths getNonExactPath_def js_split.simps kafkaConnectRelativePath_def
  clusterConnectorNewRelativePath_def clusterConnectConnectorRelativePath_def clusterConnectsRelativePath_def
  clusterConnectConnectorsRelativePath_def RouteParams_connectName_def RouteParams_connectorName_def clusterConfigRelativePath_def

lemma routes_of_pages:
  "has_page ctx dyn ''brokers''" "has_page ctx dyn ''all-topics''" "has_page ctx dyn ''consumer-groups''"
  "has_page ctx dyn ''schemas'' \<longleftrightarrow> hasSchemaRegistryConfigured ctx"
  "has_page ctx dyn ''kafka-connect'' \<longleftrightarrow> hasKafkaConnectConfigured ctx"
  "has_page ctx dyn ''ksqldb'' \<longleftrightarrow> hasKsqlDbConfigured ctx"
  "has_page ctx dyn ''acl'' \<longleftrightarrow> hasAclViewConfigured ctx"
  by (simp_all add: has_page_def route_texts)

definition feature_pages :: "(ClusterFeature list \<times> string) list" where
  "feature_pages =
     [([], ''brokers''), ([], ''all-topics''), ([], ''consumer-groups''), ([SCHEMA_REGISTRY], ''schemas''),
      ([KAFKA_CONNECT], ''kafka-connect''), ([KSQL_DB], ''ksqldb''), ([KAFKA_ACL_VIEW, KAFKA_ACL_EDIT], ''acl'')]"

lemma item_page:
  "(i, needs) \<in> set (all_items c) \<Longrightarrow>
   \<exists>page. mi_to i = clusterPath (Some c) @ ''/'' @ page \<and> (needs, page) \<in> set feature_pages"
proof -
  assume "(i, needs) \<in> set (all_items c)"
  then have "(mi_to i, needs) \<in> set (map (\<lambda>(i, n). (mi_to i, n)) (all_items c))" by force
  also have "map (\<lambda>(i, n). (mi_to i, n)) (all_items c) = map (\<lambda>(n, p). (clusterPath (Some c) @ ''/'' @ p, n)) feature_pages"
    by (simp add: all_items_def simple_item_def menu_paths feature_pages_def)
  finally show ?thesis by auto
qed

lemma feature_has_page:
  assumes "find (\<lambda>x. cl_name x = c) data = Some cluster" and "(needs, page) \<in> set feature_pages"
  shows "needs = [] \<or> list_ex (hasFeatureConfigured (cl_features cluster)) needs \<longleftrightarrow> has_page (contextValue (Some data) c) dyn page"
proof -
  have features: "hasFeatureConfigured (cl_features cluster) f \<longleftrightarrow> f \<in> set (case cl_features cluster of Some fs \<Rightarrow> fs | None \<Rightarrow> [])" for f
    by (simp add: hasFeatureConfigured_def split: option.split)
  have "Option.bind (Some data) (find (\<lambda>x. cl_name x = c)) = Some cluster" using assms(1) by simp
  then have context_features:
    "hasSchemaRegistryConfigured (contextValue (Some data) c) = hasFeatureConfigured (cl_features cluster) SCHEMA_REGISTRY"
    "hasKafkaConnectConfigured (contextValue (Some data) c) = hasFeatureConfigured (cl_features cluster) KAFKA_CONNECT"
    "hasKsqlDbConfigured (contextValue (Some data) c) = hasFeatureConfigured (cl_features cluster) KSQL_DB"
    "hasAclViewConfigured (contextValue (Some data) c)
     = (hasFeatureConfigured (cl_features cluster) KAFKA_ACL_VIEW \<or> hasFeatureConfigured (cl_features cluster) KAFKA_ACL_EDIT)"
    unfolding features by (simp_all add: contextValue_def Let_def)
  show ?thesis using assms(2) by (auto simp: feature_pages_def routes_of_pages context_features)
qed

lemma item_shown:
  assumes "(i, needs) \<in> set (all_items c)"
  shows "i \<in> set (ClusterMenu c features True) \<longleftrightarrow> needs = [] \<or> list_ex (hasFeatureConfigured features) needs"
proof -
  have "distinct (map fst (all_items c))" by (simp add: all_items_def simple_item_def)
  then have "\<forall>n. (i, n) \<in> set (all_items c) \<longrightarrow> n = needs" using assms by (meson eq_key_imp_eq_value)
  moreover have "i \<in> set (ClusterMenu c features True)
    \<longleftrightarrow> (\<exists>n. (i, n) \<in> set (all_items c) \<and> (n = [] \<or> list_ex (hasFeatureConfigured features) n))"
    unfolding ClusterMenu_def by (auto simp: image_iff)
  ultimately show ?thesis using assms by blast
qed

section \<open>Properties\<close>

text \<open>
  C37. After a click on the name of a cluster its menu shows an item exactly if the address it leads to has a page of its own among the routes of that cluster, and on that
  address this item and no other is active.
\<close>

theorem menu_matches_routes:
  assumes "find (\<lambda>x. cl_name x = c) data = Some cluster" and "i \<in> set (map fst (all_items c))"
  shows "(\<exists>page. mi_to i = clusterPath (Some c) @ ''/'' @ page
      \<and> (i \<in> set (ClusterMenu c (cl_features cluster) (fst (handleClusterNameClick c isOpen))) \<longleftrightarrow> has_page (contextValue (Some data) c) hasDynamicConfig page))
    \<and> {j \<in> set (map fst (all_items c)). getIsMenuItemActive (mi_to i) j} = {i}"
proof
  have click: "fst (handleClusterNameClick c isOpen)" by (simp add: handleClusterNameClick_def)
  obtain needs where needs: "(i, needs) \<in> set (all_items c)" using assms(2) by auto
  show "\<exists>page. mi_to i = clusterPath (Some c) @ ''/'' @ page
      \<and> (i \<in> set (ClusterMenu c (cl_features cluster) (fst (handleClusterNameClick c isOpen))) \<longleftrightarrow> has_page (contextValue (Some data) c) hasDynamicConfig page)"
    unfolding eqTrueI [OF click] item_shown [OF needs] using item_page [OF needs] feature_has_page [OF assms(1)] by blast
  show "{j \<in> set (map fst (all_items c)). getIsMenuItemActive (mi_to i) j} = {i}"
    using assms(2) single_item_active by blast
qed

section \<open>Witnesses\<close>

lemma menu_matches_routes_witness:
  "has_page (contextValue (Some [\<lparr>cl_name = ''k'', cl_readOnly = None, cl_features = Some [KSQL_DB]\<rparr>]) ''k'') False ''ksqldb''
   \<and> getIsMenuItemActive (clusterKsqlDbPath (Some ''k'')) (simple_item ''KSQL DB'' (clusterKsqlDbPath (Some ''k'')))"
proof -
  let ?c = "\<lparr>cl_name = ''k'', cl_readOnly = None, cl_features = Some [KSQL_DB]\<rparr>"
  let ?i = "simple_item ''KSQL DB'' (clusterKsqlDbPath (Some ''k''))"
  have "find (\<lambda>x. cl_name x = ''k'') [?c] = Some ?c" by simp
  moreover have i: "?i \<in> set (map fst (all_items ''k''))" by (simp add: all_items_def)
  ultimately have both: "(\<exists>page. mi_to ?i = clusterPath (Some ''k'') @ ''/'' @ page
      \<and> (?i \<in> set (ClusterMenu ''k'' (cl_features ?c) (fst (handleClusterNameClick ''k'' False))) \<longleftrightarrow> has_page (contextValue (Some [?c]) ''k'') False page))
    \<and> {j \<in> set (map fst (all_items ''k'')). getIsMenuItemActive (mi_to ?i) j} = {?i}"
    by (rule menu_matches_routes)
  moreover have "?i \<in> set (ClusterMenu ''k'' (cl_features ?c) (fst (handleClusterNameClick ''k'' False)))"
    by (simp add: ClusterMenu_def handleClusterNameClick_def all_items_def hasFeatureConfigured_def)
  moreover have "mi_to ?i = clusterPath (Some ''k'') @ ''/'' @ ''ksqldb''" by (simp add: simple_item_def menu_paths)
  ultimately show ?thesis by (auto simp: simple_item_def)
qed

end
