(* ===== verification/ListControls.thy ===== *)
theory ListControls
  imports Navigation SearchParams
begin

text \<open>
  The two controls above the lists of a cluster: the search (\<open>frontend/src/components/common/Search/Search.tsx\<close>, when it
  writes to the address) and the switch of the full-text search (\<open>components/common/Fts/useFts.ts\<close>). Both write to the address of the page
  with \<open>setSearchParams\<close>, which adds an entry to the history; the effect of the switch runs whenever the address has changed. The pages use the hook
  twice, for the icon and for themselves; the second use writes the same address, and its entry is left out here.
\<close>

section \<open>The page\<close>

record list_page =
  past :: "sparams list"
  address :: sparams
  stored :: "string \<Rightarrow> string option"
  input :: string
  showIcon :: bool
  pending :: bool

definition setSearchParams :: "sparams \<Rightarrow> list_page \<Rightarrow> list_page" where
  "setSearchParams ps s = s\<lparr>past := address s # past s, address := ps\<rparr>"

section \<open>The switch\<close>

definition storageKey :: "string \<Rightarrow> string" where
  "storageKey resourceName = ''kafbat-ui_fts:'' @ resourceName"

definition fts_effect :: "ClusterContext \<Rightarrow> string \<Rightarrow> list_page \<Rightarrow> list_page" where
  "fts_effect ctx resourceName s =
     (if \<not> ftsEnabled ctx
      then setSearchParams (sp_delete ''fts'' (address s)) (s\<lparr>stored := (stored s)(storageKey resourceName := None)\<rparr>)
      else if \<not> sp_has (address s) ''fts''
      then setSearchParams
             (sp_set ''fts''
               (case stored s (storageKey resourceName) of
                  None \<Rightarrow> if ftsDefaultEnabled ctx then ''true'' else ''false''
                | Some v \<Rightarrow> v) (address s)) s
      else s)"

text \<open>The effect after a change of the address, and again after its own change; \<open>effect_settles\<close> shows that this is enough.\<close>

definition settle :: "ClusterContext \<Rightarrow> string \<Rightarrow> list_page \<Rightarrow> list_page" where
  "settle ctx resourceName s =
     (let s' = fts_effect ctx resourceName s
      in if address s' \<noteq> address s then fts_effect ctx resourceName s' else s')"

definition handleSwitch :: "ClusterContext \<Rightarrow> string \<Rightarrow> list_page \<Rightarrow> list_page" where
  "handleSwitch ctx resourceName s =
     (if \<not> ftsEnabled ctx then s
      else
        let choice = (if sp_get (address s) ''fts'' = Some ''true'' then ''false'' else ''true'')
        in setSearchParams (sp_set ''page'' ''1'' (sp_set ''fts'' choice (address s)))
             (s\<lparr>stored := (stored s)(storageKey resourceName \<mapsto> choice)\<rparr>))"

definition isFtsEnabled :: "ClusterContext \<Rightarrow> string \<Rightarrow> list_page \<Rightarrow> bool" where
  "isFtsEnabled ctx resourceName s \<longleftrightarrow>
     (if \<not> ftsEnabled ctx then False
      else if sp_has (address s) ''fts'' then sp_get (address s) ''fts'' = Some ''true''
      else case stored s (storageKey resourceName) of
        Some v \<Rightarrow> if v \<noteq> [] then v = ''true'' else ftsDefaultEnabled ctx
      | None \<Rightarrow> ftsDefaultEnabled ctx)"

section \<open>The search\<close>

definition search_text :: "sparams \<Rightarrow> string" where
  "search_text ps = (case sp_get ps ''q'' of Some q \<Rightarrow> q | None \<Rightarrow> [])"

text \<open>Typing changes the input at once; the address follows when no key was pressed for half a second.\<close>

definition handleChange :: "list_page \<Rightarrow> list_page" where
  "handleChange s =
     (let ps = sp_set ''q'' (input s) (address s);
          ps' = (case sp_get ps ''page'' of Some p \<Rightarrow> if p \<noteq> [] then sp_set ''page'' ''1'' ps else ps | None \<Rightarrow> ps)
      in setSearchParams ps' (s\<lparr>showIcon := (input s \<noteq> []), pending := False\<rparr>))"

definition clearSearchValue :: "list_page \<Rightarrow> list_page" where
  "clearSearchValue s =
     (let s' = (if search_text (address s) \<noteq> [] then setSearchParams (sp_set ''q'' [] (address s)) s else s)
      in s'\<lparr>input := [], showIcon := False\<rparr>)"

section \<open>Events\<close>

datatype list_event = TypeSearch string | SearchTimer | ClearSearch | SwitchFts | TurnPage string | GoBack

fun list_action :: "ClusterContext \<Rightarrow> string \<Rightarrow> list_event \<Rightarrow> list_page \<Rightarrow> list_page" where
  "list_action ctx r (TypeSearch t) s = s\<lparr>input := t, pending := True\<rparr>"
| "list_action ctx r SearchTimer s = (if pending s then handleChange s else s)"
| "list_action ctx r ClearSearch s = (if showIcon s then clearSearchValue s else s)"
| "list_action ctx r SwitchFts s = handleSwitch ctx r s"
| "list_action ctx r (TurnPage p) s = setSearchParams (sp_set ''page'' p (address s)) s"
| "list_action ctx r GoBack s = (case past s of a # l \<Rightarrow> s\<lparr>past := l, address := a\<rparr> | [] \<Rightarrow> s)"

definition list_step :: "ClusterContext \<Rightarrow> string \<Rightarrow> list_event \<Rightarrow> list_page \<Rightarrow> list_page" where
  "list_step ctx r e s =
     (let s' = list_action ctx r e s in if address s' \<noteq> address s then settle ctx r s' else s')"

definition open_list :: "ClusterContext \<Rightarrow> string \<Rightarrow> sparams list \<Rightarrow> sparams \<Rightarrow> (string \<Rightarrow> string option) \<Rightarrow> list_page" where
  "open_list ctx r earlier ps st =
     settle ctx r \<lparr>past = earlier, address = ps, stored = st, input = search_text ps, showIcon = (search_text ps \<noteq> []), pending = False\<rparr>"

section \<open>The effect\<close>

lemma sp_delete_twice [simp]: "sp_delete k (sp_delete k ps) = sp_delete k ps"
  by (simp add: sp_delete_def delete_idem)

lemma sp_has_set [simp]: "sp_has (sp_set k v ps) k' \<longleftrightarrow> k' = k \<or> sp_has ps k'"
  by (simp add: sp_has_def)

lemma effect_settles: "address (fts_effect ctx r (fts_effect ctx r s)) = address (fts_effect ctx r s)"
  by (simp add: fts_effect_def setSearchParams_def)

lemma settle_simp:
  "settle ctx r s = (if \<not> ftsEnabled ctx \<and> address (fts_effect ctx r s) \<noteq> address s
     then fts_effect ctx r (fts_effect ctx r s) else fts_effect ctx r s)"
  by (simp add: settle_def Let_def fts_effect_def setSearchParams_def)

lemma url_settle_frame:
  "input (settle ctx r s) = input s" "pending (settle ctx r s) = pending s"
  "search_text (address (settle ctx r s)) = search_text (address s)"
  by (simp_all add: settle_simp fts_effect_def setSearchParams_def search_text_def)

lemma settle_page: "sp_get (address (settle ctx r s)) ''page'' = sp_get (address s) ''page''"
  by (simp add: settle_simp fts_effect_def setSearchParams_def)


section \<open>The search and the address\<close>

definition search_inv :: "list_page \<Rightarrow> bool" where
  "search_inv s \<longleftrightarrow> (\<not> pending s \<longrightarrow> search_text (address s) = input s)"

lemma sp_set_same: "sp_set k v ps = ps \<Longrightarrow> sp_get ps k = Some v" "ps = sp_set k v ps \<Longrightarrow> sp_get ps k = Some v"
  by (metis sp_get_set)+

lemma sp_set_twice_same: "sp_set k v (sp_set k' w ps) = ps \<Longrightarrow> k' \<noteq> k \<Longrightarrow> sp_get ps k = Some v \<and> sp_get ps k' = Some w"
  by (metis sp_get_set)

lemmas set_same = sp_set_same sp_set_twice_same

lemma search_text_set: "search_text (sp_set k v ps) = (if k = ''q'' then v else search_text ps)"
  by (simp add: search_text_def)

interpretation searching: machine "list_step ctx r" "\<lambda>e. e \<noteq> GoBack" search_inv for ctx r
proof
  fix e s assume e: "e \<noteq> GoBack" and inv: "search_inv s"
  have "search_inv (list_action ctx r e s)"
    using e inv
    by (cases e) (auto simp: search_inv_def handleChange_def clearSearchValue_def handleSwitch_def setSearchParams_def search_text_set Let_def
        split: option.split)
  then show "search_inv (list_step ctx r e s)"
    by (auto simp: list_step_def search_inv_def url_settle_frame Let_def)
qed

lemma list_step_frame:
  "input (list_step ctx r e s) = input (list_action ctx r e s)" "pending (list_step ctx r e s) = pending (list_action ctx r e s)"
  by (simp_all add: list_step_def url_settle_frame Let_def)

lemma new_search_first_page:
  "pending s \<Longrightarrow> sp_get (address (list_step ctx r SearchTimer s)) ''page'' \<in> {None, Some [], Some ''1''}"
  by (auto simp: list_step_def handleChange_def setSearchParams_def settle_page Let_def dest: set_same split: option.split)

section \<open>Properties\<close>

text \<open>
  As long as nobody goes back in the history, the address of a list asks for the text in its search input, except while a change of the text
  waits for its half second, and the change that is then made shows the first page.
\<close>

theorem search_settles:
  assumes "GoBack \<notin> set es"
  shows "let s = fold (list_step ctx r) es (open_list ctx r earlier ps st)
    in if pending s then sp_get (address (list_step ctx r SearchTimer s)) ''page'' \<in> {None, Some [], Some ''1''}
         \<and> search_text (address (list_step ctx r SearchTimer s)) = input s
       else search_text (address s) = input s"
proof -
  let ?s = "fold (list_step ctx r) es (open_list ctx r earlier ps st)"
  have "list_all (\<lambda>e. e \<noteq> GoBack) es" using assms by (auto simp: list_all_iff)
  moreover have "search_inv (open_list ctx r earlier ps st)" by (simp add: search_inv_def open_list_def url_settle_frame)
  ultimately have inv: "search_inv ?s" by (rule searching.inv_run)
  then have "search_inv (list_step ctx r SearchTimer ?s)" by (intro searching.inv_step) simp_all
  then show ?thesis using inv new_search_first_page [of ?s ctx r]
    by (auto simp: search_inv_def list_step_def handleChange_def setSearchParams_def url_settle_frame search_text_set Let_def split: option.split)
qed

text \<open>
  Where the full-text search is available, the switch turns it over and goes to the first page, and a list that is opened later without a
  choice in its address starts with the choice that was made.
\<close>

theorem fts_choice_is_remembered:
  assumes "ftsEnabled ctx" and "sp_has (address s) ''fts''" and "\<not> sp_has ps ''fts''"
  shows "isFtsEnabled ctx r (list_step ctx r SwitchFts s) = (\<not> isFtsEnabled ctx r s)
    \<and> sp_get (address (list_step ctx r SwitchFts s)) ''page'' = Some ''1''
    \<and> isFtsEnabled ctx r (open_list ctx r earlier ps (stored (list_step ctx r SwitchFts s))) = (\<not> isFtsEnabled ctx r s)"
  using assms
  by (auto simp: isFtsEnabled_def list_step_def handleSwitch_def setSearchParams_def settle_simp fts_effect_def open_list_def sp_has_def Let_def
      dest: set_same)

text \<open>
  A list that was opened at an address without a choice of the full-text search cannot be left by going back: the page behind it is the same
  list without the choice, which writes the choice again.
\<close>

theorem fts_blocks_back:
  assumes "ftsEnabled ctx" and "\<not> sp_has ps ''fts''"
  shows "list_step ctx r GoBack (open_list ctx r earlier ps st) = open_list ctx r earlier ps st"
  using assms
  by (auto simp: list_step_def open_list_def settle_simp fts_effect_def setSearchParams_def sp_has_def Let_def dest: set_same split: option.split)

section \<open>Witnesses\<close>

abbreviation fts_context :: ClusterContext where
  "fts_context \<equiv> contextValue (Some [\<lparr>cl_name = ''k'', cl_readOnly = None, cl_features = Some [FTS_ENABLED]\<rparr>]) ''k''"

lemma fts_available: "ftsEnabled fts_context"
  by (simp add: contextValue_def)

lemma search_settles_witness:
  "search_text (address (fold (list_step fts_context ''topics'') [TypeSearch ''ab'', SearchTimer] (open_list fts_context ''topics'' [] [] (\<lambda>_. None))))
   = ''ab''"
proof -
  let ?s = "fold (list_step fts_context ''topics'') [TypeSearch ''ab'', SearchTimer] (open_list fts_context ''topics'' [] [] (\<lambda>_. None))"
  have "\<not> pending ?s" "input ?s = ''ab''"
    by (simp_all only: fold_simps o_apply id_apply list_step_frame list_action.simps)
      (simp_all add: handleChange_def setSearchParams_def list_step_frame Let_def)
  moreover have "GoBack \<notin> set [TypeSearch ''ab'', SearchTimer]" by simp
  ultimately show ?thesis using search_settles unfolding Let_def by (metis (no_types, lifting))
qed

lemma fts_choice_is_remembered_witness:
  "isFtsEnabled fts_context ''topics''
     (open_list fts_context ''topics'' [] [] (stored (list_step fts_context ''topics'' SwitchFts (open_list fts_context ''topics'' [] [(''fts'', ''false'')] (\<lambda>_. None)))))"
proof -
  let ?s = "open_list fts_context ''topics'' [] [(''fts'', ''false'')] (\<lambda>_. None)"
  have "sp_has (address ?s) ''fts''" "\<not> isFtsEnabled fts_context ''topics'' ?s"
    using fts_available
    by (simp_all add: open_list_def settle_simp fts_effect_def isFtsEnabled_def sp_has_def)
  with fts_choice_is_remembered [OF fts_available, of ?s "[]" "''topics''" "[]"] show ?thesis by (simp add: sp_has_def)
qed

lemma fts_blocks_back_witness:
  "fold (list_step fts_context ''topics'') [GoBack, GoBack, GoBack] (open_list fts_context ''topics'' [[]] [] (\<lambda>_. None))
   = open_list fts_context ''topics'' [[]] [] (\<lambda>_. None)"
  using fts_blocks_back [OF fts_available, of "[]" "''topics''" "[[]]" "\<lambda>_. None"] by (simp add: sp_has_def)

end
