(* ===== verification/Lists.thy ===== *)
theory Lists
  imports ListControls Hooks TableState
begin

text \<open>
  The pages that list the topics (\<open>frontend/src/components/Topics/List/ListPage.tsx\<close>, \<open>TopicTable.tsx\<close>), the consumer groups
  (\<open>components/ConsumerGroups/List.tsx\<close>), the schemas (\<open>components/Schemas/List/List.tsx\<close>) and the access rules
  (\<open>components/ACLPage/List/List.tsx\<close>) of a cluster: what they ask for, at an address that the controls of \<open>ListControls\<close> and the table write, and
  what the export of topics and groups asks for.
\<close>

section \<open>Reading the address\<close>

text \<open>\<open>text || undefined\<close>.\<close>

definition truthy_text :: "string option \<Rightarrow> string option" where
  "truthy_text v = (case v of Some t \<Rightarrow> if t \<noteq> [] then Some t else None | None \<Rightarrow> None)"

definition upper_text :: "string \<Rightarrow> string" where
  "upper_text s = map (\<lambda>c. let n = of_char c :: nat in if 97 \<le> n \<and> n \<le> 122 then char_of (n - 32) else c) s"

definition sort_order :: "sparams \<Rightarrow> string option" where
  "sort_order ps = truthy_text (map_option upper_text (sp_get ps ''sortDirection''))"

text \<open>Page and size of the page, for addresses in which both are whole numbers.\<close>

definition whole_number :: "nat \<Rightarrow> string option \<Rightarrow> nat option" where
  "whole_number d v =
     (case truthy_text v of None \<Rightarrow> Some d | Some t \<Rightarrow> if list_all is_digit t then Some (read_nat t) else None)"

definition list_window :: "sparams \<Rightarrow> (nat \<times> nat) option" where
  "list_window ps =
     (case (whole_number 1 (sp_get ps ''page''), whole_number (nat PER_PAGE) (sp_get ps ''perPage'')) of
        (Some p, Some n) \<Rightarrow> Some (p, n)
      | _ \<Rightarrow> None)"

definition window_members :: "nat \<times> nat \<Rightarrow> (string \<times> key_part) list" where
  "window_members w = [(''page'', KN (fst w)), (''perPage'', KN (snd w))]"

abbreviation member_values :: "(string \<times> key_part) list \<Rightarrow> args" where
  "member_values \<equiv> map (\<lambda>(k, v). (k, part_value v))"

section \<open>Topics\<close>

definition topics_params :: "ClusterContext \<Rightarrow> list_page \<Rightarrow> (string \<times> key_part) list" where
  "topics_params ctx s =
     (let searchParams = address s
      in [(''showInternal'', KB (\<not> sp_has searchParams ''hideInternal''))]
         @ opt_member ''search'' (map_option KS (truthy_text (sp_get searchParams ''q'')))
         @ opt_member ''orderBy'' (map_option KS (truthy_text (sp_get searchParams ''sortBy'')))
         @ opt_member ''sortOrder'' (map_option KS (sort_order searchParams))
         @ [(''fts'', KB (isFtsEnabled ctx ''topics'' s))])"

definition topics_query :: "string \<Rightarrow> ClusterContext \<Rightarrow> list_page \<Rightarrow> query_hook option" where
  "topics_query c ctx s = map_option (\<lambda>w. useTopics c (topics_params ctx s @ window_members w)) (list_window (address s))"

definition topics_csv :: "string \<Rightarrow> ClusterContext \<Rightarrow> list_page \<Rightarrow> api_call" where
  "topics_csv c ctx s = (''getTopicsCsv'', getTopicsCsv, in_cluster c (member_values (topics_params ctx s)))"

text \<open>
  The first effect of the page writes the size of a page and the stored choice about internal topics. The effect of the full-text switch runs before it
  too, but the address that it writes then is replaced at once; only the history has these entries as well.
\<close>

definition ListPage_effect :: "list_page \<Rightarrow> list_page" where
  "ListPage_effect s =
     (let ps = (if sp_has (address s) ''perPage'' then address s else sp_set ''perPage'' (show_int PER_PAGE) (address s));
          ps' = (if truthy_text (stored s ''hideInternalTopics'') \<noteq> None \<and> \<not> sp_has ps ''hideInternal''
                 then sp_set ''hideInternal'' ''true'' ps else ps)
      in setSearchParams ps' s)"

definition switch_internal :: "list_page \<Rightarrow> list_page" where
  "switch_internal s =
     (if sp_has (address s) ''hideInternal''
      then setSearchParams (sp_set ''page'' ''1'' (sp_delete ''hideInternal'' (address s)))
             (s\<lparr>stored := (stored s)(''hideInternalTopics'' := None)\<rparr>)
      else setSearchParams (sp_set ''page'' ''1'' (sp_set ''hideInternal'' ''true'' (address s)))
             (s\<lparr>stored := (stored s)(''hideInternalTopics'' \<mapsto> ''true'')\<rparr>))"

datatype topics_event = SwitchInternal | Control list_event

fun topics_step :: "ClusterContext \<Rightarrow> topics_event \<Rightarrow> list_page \<Rightarrow> list_page" where
  "topics_step ctx SwitchInternal s =
     (let s' = switch_internal s in if address s' \<noteq> address s then settle ctx ''topics'' s' else s')"
| "topics_step ctx (Control e) s = list_step ctx ''topics'' e s"

definition open_topics :: "ClusterContext \<Rightarrow> sparams list \<Rightarrow> sparams \<Rightarrow> (string \<Rightarrow> string option) \<Rightarrow> list_page" where
  "open_topics ctx earlier ps st =
     settle ctx ''topics'' (ListPage_effect
       \<lparr>past = earlier, address = ps, stored = st, input = search_text ps, showIcon = (search_text ps \<noteq> []), pending = False\<rparr>)"

section \<open>Groups, schemas, access rules\<close>

definition groups_params :: "ClusterContext \<Rightarrow> list_page \<Rightarrow> (string \<times> key_part) list" where
  "groups_params ctx s =
     opt_member ''orderBy'' (map_option KS (truthy_text (sp_get (address s) ''sortBy'')))
     @ opt_member ''sortOrder'' (map_option KS (sort_order (address s)))
     @ [(''search'', KS (search_text (address s))), (''fts'', KB (isFtsEnabled ctx ''consumer_groups'' s))]"

definition groups_state :: "sparams \<Rightarrow> (string \<times> key_part) list" where
  "groups_state ps = opt_member ''state'' (map_option (\<lambda>t. KA (js_split '','' t)) (sp_get ps ''STATE''))"

definition groups_query :: "string \<Rightarrow> ClusterContext \<Rightarrow> list_page \<Rightarrow> query_hook option" where
  "groups_query c ctx s =
     map_option (\<lambda>w. useConsumerGroups c (groups_params ctx s @ window_members w @ groups_state (address s))) (list_window (address s))"

definition groups_csv :: "string \<Rightarrow> ClusterContext \<Rightarrow> list_page \<Rightarrow> api_call" where
  "groups_csv c ctx s = (''getConsumerGroupsCsv'', getConsumerGroupsCsv, in_cluster c (member_values (groups_params ctx s)))"

definition schemas_query :: "string \<Rightarrow> ClusterContext \<Rightarrow> list_page \<Rightarrow> query_hook option" where
  "schemas_query c ctx s =
     map_option (\<lambda>w. useGetSchemas c
         \<lparr>sl_page = Some (fst w), sl_perPage = Some (snd w), sl_search = Some (search_text (address s)),
          sl_sortOrder = sort_order (address s), sl_orderBy = sp_get (address s) ''sortBy'',
          sl_fts = Some (isFtsEnabled ctx ''schemas'' s)\<rparr>)
       (list_window (address s))"

definition acls_query :: "string \<Rightarrow> ClusterContext \<Rightarrow> list_page \<Rightarrow> query_hook" where
  "acls_query c ctx s = useAcls c (Some (search_text (address s))) (Some (isFtsEnabled ctx ''acl'' s))"

section \<open>The search of the topics\<close>

lemma truthy_query: "truthy_text (sp_get ps ''q'') = (if search_text ps = [] then None else Some (search_text ps))"
  by (simp add: truthy_text_def search_text_def split: option.split)

lemma ListPage_effect_frame:
  "input (ListPage_effect s) = input s" "pending (ListPage_effect s) = pending s"
  "search_text (address (ListPage_effect s)) = search_text (address s)"
  by (simp_all add: ListPage_effect_def setSearchParams_def search_text_set Let_def)

lemma switch_internal_frame:
  "input (switch_internal s) = input s" "pending (switch_internal s) = pending s"
  "search_text (address (switch_internal s)) = search_text (address s)"
  by (simp_all add: switch_internal_def setSearchParams_def search_text_def)

interpretation topics: machine "topics_step ctx" "\<lambda>e. e \<noteq> Control GoBack" search_inv for ctx
proof
  fix e s assume e: "e \<noteq> Control GoBack" and inv: "search_inv s"
  show "search_inv (topics_step ctx e s)"
  proof (cases e)
    case SwitchInternal
    then show ?thesis using inv by (simp add: search_inv_def switch_internal_frame url_settle_frame Let_def)
  next
    case (Control a)
    then show ?thesis using e inv searching.inv_step [of a s ctx "''topics''"] by simp
  qed
qed

lemma topics_search:
  "map_of (topics_params ctx s) ''search'' = (if search_text (address s) = [] then None else Some (KS (search_text (address s))))"
  by (simp add: topics_params_def truthy_query opt_member_def Let_def split: option.split)


lemma settle_keeps:
  "k \<noteq> ''fts'' \<Longrightarrow> sp_get (address (settle ctx r s)) k = sp_get (address s) k"
  "k \<noteq> storageKey r \<Longrightarrow> stored (settle ctx r s) k = stored s k"
  by (simp_all add: settle_simp fts_effect_def setSearchParams_def)

lemma sp_set_delete_same: "sp_set k v (sp_delete k' ps) = ps \<Longrightarrow> k' \<noteq> k \<Longrightarrow> sp_get ps k' = None \<and> sp_get ps k = Some v"
  by (metis sp_get_delete sp_get_set)

lemma switched_internal:
  "sp_has (address (topics_step ctx SwitchInternal s)) ''hideInternal'' = (\<not> sp_has (address s) ''hideInternal'')"
  "sp_get (address (topics_step ctx SwitchInternal s)) ''page'' = Some ''1''"
  "truthy_text (stored (topics_step ctx SwitchInternal s) ''hideInternalTopics'') = None \<longleftrightarrow> sp_has (address s) ''hideInternal''"
  by (auto simp: sp_has_def settle_keeps switch_internal_def setSearchParams_def truthy_text_def storageKey_def Let_def
      dest: set_same sp_set_delete_same)

section \<open>Properties\<close>


text \<open>
  The switch for internal topics turns the choice over and goes to the first page, and a list that is opened later without a choice in its address
  starts with the choice that was made.
\<close>

theorem internal_topics_choice_is_remembered:
  assumes "\<not> sp_has ps ''hideInternal''"
  shows "sp_has (address (topics_step ctx SwitchInternal s)) ''hideInternal'' = (\<not> sp_has (address s) ''hideInternal'')
    \<and> sp_get (address (topics_step ctx SwitchInternal s)) ''page'' = Some ''1''
    \<and> sp_has (address (open_topics ctx earlier ps (stored (topics_step ctx SwitchInternal s)))) ''hideInternal'' = (\<not> sp_has (address s) ''hideInternal'')"
proof -
  have "sp_has (address (open_topics ctx earlier ps (stored (topics_step ctx SwitchInternal s)))) ''hideInternal''
    \<longleftrightarrow> truthy_text (stored (topics_step ctx SwitchInternal s) ''hideInternalTopics'') \<noteq> None"
    using assms
    by (simp add: open_topics_def sp_has_def settle_keeps ListPage_effect_def setSearchParams_def Let_def del: topics_step.simps)
  then show ?thesis using switched_internal [of ctx s] by (simp del: topics_step.simps)
qed

text \<open>
  The list of consumer groups asks for the chosen states only, and its export does not: the file has the groups of every state.
\<close>

theorem groups_export_ignores_state:
  assumes "sp_get (address s) ''STATE'' = Some t" and "groups_query c ctx s = Some h"
  shows "(''state'', VArr (map VStr (js_split '','' t))) \<in> set (snd (snd (queryFn h)))
    \<and> ''state'' \<notin> fst ` set (snd (snd (groups_csv c ctx s)))"
  using assms
  by (auto simp: groups_query_def groups_csv_def groups_state_def groups_params_def useConsumerGroups_def use_query_def in_cluster_def opt_member_def
      split: option.splits)

section \<open>Witnesses\<close>

lemma per_page_text: "show_int PER_PAGE = ''25''"
  by (simp add: PER_PAGE_def show_int_def show_nat.simps digit_def) code_simp


lemma internal_topics_choice_is_remembered_witness:
  "sp_has (address (open_topics fts_context [] [] (stored (topics_step fts_context SwitchInternal (open_topics fts_context [] [] (\<lambda>_. None)))))) ''hideInternal''"
proof -
  have "\<not> sp_has (address (open_topics fts_context [] [] (\<lambda>_. None))) ''hideInternal''"
    by (simp add: open_topics_def sp_has_def settle_keeps ListPage_effect_def setSearchParams_def truthy_text_def Let_def)
  with internal_topics_choice_is_remembered [of "[]" fts_context "open_topics fts_context [] [] (\<lambda>_. None)" "[]"] show ?thesis
    by (simp add: sp_has_def)
qed

lemma groups_export_ignores_state_witness:
  "''state'' \<notin> fst ` set (snd (snd (groups_csv ''k'' fts_context
     \<lparr>past = [], address = [(''STATE'', ''EMPTY'')], stored = \<lambda>_. None, input = [], showIcon = False, pending = False\<rparr>)))"
proof -
  let ?s = "\<lparr>past = [], address = [(''STATE'', ''EMPTY'')], stored = \<lambda>_. None, input = [], showIcon = False, pending = False\<rparr>"
  have "groups_query ''k'' fts_context ?s \<noteq> None"
    by (simp add: groups_query_def list_window_def whole_number_def truthy_text_def)
  then obtain h where "groups_query ''k'' fts_context ?s = Some h" by blast
  from groups_export_ignores_state [OF _ this, of "''EMPTY''"] show ?thesis by simp
qed

end
