(* ===== verification/Timestamps.thy ===== *)
theory Timestamps
  imports Formatting Dates Timezones
begin

text \<open>
  Times in words (\<open>formatTimestamp\<close> and \<open>timeAgo\<close> of \<open>frontend/src/lib/dateTimeHelpers.ts\<close>, \<open>getDateInCurrentTimezone\<close> of
  \<open>lib/hooks/useTimezones.ts\<close>). What the internationalisation library writes, and what the platform reads beyond the standard format of
  dates, are parameters.
\<close>

section \<open>The argument\<close>

text \<open>A time is missing, in milliseconds, a text, or a date, which may be invalid. Zero and the empty text count as missing.\<close>

datatype timestamp = NoTimestamp | Millis int | TimeText string | DateObject "int option"

definition max_time :: int where
  "max_time = 8640000000000000"

definition given_time :: "(string \<Rightarrow> int option) \<Rightarrow> timestamp \<Rightarrow> int option" where
  "given_time platform ts =
     (case ts of
        NoTimestamp \<Rightarrow> None
      | Millis n \<Rightarrow> if n \<noteq> 0 \<and> \<bar>n\<bar> \<le> max_time then Some n else None
      | TimeText s \<Rightarrow> if s \<noteq> [] then date_of_text platform s else None
      | DateObject d \<Rightarrow> d)"

section \<open>Times\<close>

text \<open>The parameter writes a time in the format and the zone.\<close>

definition formatTimestamp ::
  "(string \<Rightarrow> int option) \<Rightarrow> (int \<Rightarrow> 'f \<Rightarrow> string \<Rightarrow> string) \<Rightarrow> Timezone \<Rightarrow> 'f \<Rightarrow> timestamp \<Rightarrow> string option \<Rightarrow> bool \<Rightarrow> string" where
  "formatTimestamp platform toLocaleString systemTimezone fmt ts timezone withMilliseconds =
     (case given_time platform ts of
        None \<Rightarrow> []
      | Some t \<Rightarrow>
          let finalTimezone = (case timezone of Some z \<Rightarrow> if z \<noteq> [] then z else tz_value systemTimezone | None \<Rightarrow> tz_value systemTimezone)
          in toLocaleString t fmt finalTimezone @ (if withMilliseconds then millisecond_suffix t else []))"

definition getDateInCurrentTimezone ::
  "(int \<Rightarrow> string \<Rightarrow> string) \<Rightarrow> (string \<Rightarrow> int option) \<Rightarrow> Timezone option \<Rightarrow> Timezone \<Rightarrow> int \<Rightarrow> int option" where
  "getDateInCurrentTimezone swedish platform currentTimezone systemTimezone date =
     date_of_text platform (swedish date (tz_value (case currentTimezone of Some tz \<Rightarrow> tz | None \<Rightarrow> systemTimezone)))"

section \<open>Times ago\<close>

datatype time_unit = Second | Minute | Hour | Day

fun unit_seconds :: "time_unit \<Rightarrow> int" where
  "unit_seconds Second = 1"
| "unit_seconds Minute = 60"
| "unit_seconds Hour = 3600"
| "unit_seconds Day = 86400"

text \<open>The number and the unit, or nothing when the date itself is shown.\<close>

definition time_distance :: "int \<Rightarrow> (int \<times> time_unit) option" where
  "time_distance diffMs =
     (let diffSeconds = diffMs div 1000; diffMinutes = diffSeconds div 60; diffHours = diffMinutes div 60; diffDays = diffHours div 24
      in if diffSeconds < 60 then Some (- diffSeconds, Second)
         else if diffMinutes < 60 then Some (- diffMinutes, Minute)
         else if diffHours < 24 then Some (- diffHours, Hour)
         else if diffDays < 30 then Some (- diffDays, Day)
         else None)"

definition timeAgo ::
  "(string \<Rightarrow> int option) \<Rightarrow> (int \<Rightarrow> time_unit \<Rightarrow> string) \<Rightarrow> (int \<Rightarrow> string) \<Rightarrow> int \<Rightarrow> timestamp \<Rightarrow> string" where
  "timeAgo platform rtf toLocaleDateString now ts =
     (case given_time platform ts of
        None \<Rightarrow> []
      | Some t \<Rightarrow> (case time_distance (now - t) of Some (n, u) \<Rightarrow> rtf n u | None \<Rightarrow> toLocaleDateString t))"

section \<open>Distances\<close>

lemma whole_units: "d div 60 div 60 = d div 3600" "d div 3600 div 24 = d div 86400" for d :: int
  by (simp_all add: zdiv_zmult2_eq [symmetric])

lemma unit_limits:
  "(d :: int) div 60 < 60 \<longleftrightarrow> d < 3600" "(d :: int) div 3600 < 24 \<longleftrightarrow> d < 86400" "(d :: int) div 86400 < 30 \<longleftrightarrow> d < 2592000"
  by linarith+

lemma time_distance_eq:
  "time_distance d =
     (if d div 1000 < 60 then Some (- (d div 1000), Second)
      else if d div 1000 < 3600 then Some (- (d div 1000 div 60), Minute)
      else if d div 1000 < 86400 then Some (- (d div 1000 div 3600), Hour)
      else if d div 1000 < 2592000 then Some (- (d div 1000 div 86400), Day)
      else None)"
  unfolding time_distance_def Let_def whole_units unit_limits by (rule refl)

lemma unit_bounds:
  assumes "0 < (k :: int)"
  shows "x div 1000 div k * (k * 1000) \<le> x" and "x < (x div 1000 div k + 1) * (k * 1000)"
proof -
  have "x div 1000 div k = x div (k * 1000)" using assms by (simp add: zdiv_zmult2_eq [symmetric] mult.commute)
  moreover have "x div (k * 1000) * (k * 1000) + x mod (k * 1000) = x" by (rule div_mult_mod_eq)
  moreover have "0 \<le> x mod (k * 1000)" "x mod (k * 1000) < k * 1000" using assms by simp_all
  ultimately show "x div 1000 div k * (k * 1000) \<le> x" and "x < (x div 1000 div k + 1) * (k * 1000)"
    by (simp_all add: distrib_right)
qed

text \<open>A time in the past is told in the largest unit that fits, rounded down; from thirty days on the date is shown.\<close>

theorem time_ago_spec:
  assumes "given_time platform ts = Some t" and "t \<le> now"
  shows "if now - t < 30 * 86400000
    then \<exists>n u. timeAgo platform rtf date now ts = rtf (- n) u
      \<and> n * unit_seconds u * 1000 \<le> now - t \<and> now - t < (n + 1) * unit_seconds u * 1000
      \<and> (u \<noteq> Second \<longrightarrow> 1 \<le> n) \<and> n < (case u of Hour \<Rightarrow> 24 | Day \<Rightarrow> 30 | _ \<Rightarrow> 60)
    else timeAgo platform rtf date now ts = date t"
proof -
  let ?d = "(now - t) div 1000"
  have ago: "timeAgo platform rtf date now ts = (case time_distance (now - t) of Some (n, u) \<Rightarrow> rtf n u | None \<Rightarrow> date t)"
    using assms(1) by (simp add: timeAgo_def)
  have unit: ?thesis if "timeAgo platform rtf date now ts = rtf (- (?d div k)) u" "unit_seconds u = k" "0 < k" "now - t < 30 * 86400000"
    "u \<noteq> Second \<longrightarrow> 1 \<le> ?d div k" "?d div k < (case u of Hour \<Rightarrow> 24 | Day \<Rightarrow> 30 | _ \<Rightarrow> 60)" for k u
    using that unit_bounds [OF that(3), of "now - t"]
    unfolding if_P [OF that(4)] by (intro exI [of _ "?d div k"] exI [of _ u]) (simp add: mult.assoc)
  consider "?d < 60" | "60 \<le> ?d" "?d < 3600" | "3600 \<le> ?d" "?d < 86400" | "86400 \<le> ?d" "?d < 2592000" | "2592000 \<le> ?d"
    by linarith
  then show ?thesis
  proof cases
    case 1
    then have "now - t < 30 * 86400000" by linarith
    with 1 show ?thesis by (intro unit [of 1 Second]) (simp_all add: ago time_distance_eq)
  next
    case 2
    then have "now - t < 30 * 86400000" "1 \<le> ?d div 60" by linarith+
    with 2 show ?thesis by (intro unit [of 60 Minute]) (simp_all add: ago time_distance_eq unit_limits)
  next
    case 3
    then have "now - t < 30 * 86400000" "1 \<le> ?d div 3600" by linarith+
    with 3 show ?thesis by (intro unit [of 3600 Hour]) (simp_all add: ago time_distance_eq unit_limits)
  next
    case 4
    then have "now - t < 30 * 86400000" "1 \<le> ?d div 86400" by linarith+
    with 4 show ?thesis by (intro unit [of 86400 Day]) (simp_all add: ago time_distance_eq unit_limits)
  next
    case 5
    then have "\<not> now - t < 30 * 86400000" by linarith
    with 5 show ?thesis unfolding ago by (simp add: time_distance_eq)
  qed
qed

text \<open>A time in the future is told in seconds, however far it is.\<close>

lemma future_in_seconds:
  assumes "given_time platform ts = Some t" and "now < t"
  shows "timeAgo platform rtf date now ts = rtf (- ((now - t) div 1000)) Second"
proof -
  have "(now - t) div 1000 < 60" using assms(2) by linarith
  then show ?thesis using assms(1) by (simp add: timeAgo_def time_distance_def)
qed

lemma time_ago_spec_witness:
  "\<exists>n u. timeAgo (\<lambda>_. None) (\<lambda>n u. show_int n) show_int 90000000 (Millis 3600000) = show_int (- n)
     \<and> n * unit_seconds u * 1000 \<le> 86400000 \<and> 86400000 < (n + 1) * unit_seconds u * 1000"
proof -
  have "given_time (\<lambda>_. None) (Millis 3600000) = Some 3600000" by (simp add: given_time_def max_time_def)
  from time_ago_spec [OF this, of 90000000 "\<lambda>n u. show_int n" show_int] show ?thesis by auto
qed

end
