(* ===== verification/Spec2Isabelle.thy ===== *)
theory Spec2Isabelle
  imports Permissions Paths TopicMessages ClusterSchema DesktopMcp DesktopUpdates ConfigTransfer
    Reminder QueryCache TableExport ConsumerGroups ApiContract
    CustomParams Formatting Versions TableState LocalStorage
    Queries ResetOffsets Nanoid NumberInput
    Menus TopicCopy Produce Ksql Acls DangerZone Preview
    Schemas PartitionTable Timezones Brokers ConnectorForms Lists Timestamps
begin

text \<open>
  A model of the client of Kafbat, the web interface for Kafka clusters whose sources are in
  \<open>frontend/src\<close>. Paths without a prefix below are paths in that directory.

  \<^bold>\<open>The program.\<close> The client is a single page application in TypeScript. The route says which cluster, topic,
  schema, consumer group or connector a page is about (\<open>lib/paths.ts\<close>). A page reads its data with the hooks of \<open>lib/hooks/api\<close>: each
  hook is a key in the cache of answers and a call of the client that is generated from the description of the
  server's interface (\<open>generated-sources\<close>). A page changes data with the mutation hooks of the same directory, each of which says which keys are
  read again after the change. Filters, sorting and pages are kept in the query of the address, preferences in local
  storage. Menus and buttons are enabled by the permissions of the user (\<open>lib/permissions.ts\<close>), and dangerous changes are asked about in one dialog
  (\<open>components/contexts/ConfirmContext.tsx\<close>). The messages of a topic and the results of ksqlDB queries arrive in streams of events. In the desktop
  application, the host offers updates, the settings of agents, and import and export of the environments.

  \<^bold>\<open>The base.\<close> \<open>Prelude\<close> has the strings, numbers, plain objects and array methods of the language, and the interfaces of
  the development as locales: \<open>dictionary\<close> (objects, \<open>URLSearchParams\<close>, stores keyed by id), \<open>codec\<close> (everything that is
  written and read back), \<open>machine\<close> and \<open>logging_machine\<close> (components that are driven by events, with their invariant and
  what they write to a log of requests). Every such component interprets one of them. \<open>Json\<close> and \<open>JsonText\<close> have the values and the texts of JSON, with
  parsing and both forms of printing; \<open>Dates\<close> the texts of dates; \<open>SearchParams\<close> the query of an address; \<open>ArraySort\<close> the sort
  of arrays with the locale of its comparison functions; \<open>Nanoid\<close> the random names.

  \<^bold>\<open>The client of the interface.\<close> \<open>ApiRuntime\<close> is \<open>generated-sources/runtime.ts\<close> with one interpreter of model
  descriptions; \<open>ApiEnums\<close>, \<open>ApiModels\<close> and \<open>ApiConfigModels\<close> are the models, \<open>ApiClient\<close> the operations of \<open>generated-sources/apis\<close>.
  \<open>ApiCodec\<close>, \<open>ApiContract\<close> and \<open>ApiRoutes\<close> prove for all of them that models survive being sent and read, that answers of the declared
  shape have the declared type, and which operations share an address.

  \<^bold>\<open>Requests and answers.\<close> \<open>Hooks\<close> and \<open>QueryCache\<close> have all hooks of \<open>lib/hooks/api\<close> but the mutation of ksqlDB, which is in \<open>Ksql\<close>, and their keys;
  \<open>Queries\<close> relates the keys that a change invalidates to the requests that it affects. \<open>Errors\<close> is
  \<open>lib/errorHandling.tsx\<close> and the handlers of \<open>components/App.tsx\<close>. \<open>Paths\<close> is \<open>lib/paths.ts\<close>.

  \<^bold>\<open>Access and confirmation.\<close> \<open>Permissions\<close> is \<open>lib/permissions.ts\<close>; its property compares the index of permissions with a direct reading
  of the list. \<open>Confirm\<close> is the dialog; \<open>Menus\<close> the menus of topics and connectors, whose properties combine permission, state and confirmation.

  \<^bold>\<open>Messages.\<close> \<open>TopicMessages\<close> is \<open>lib/hooks/api/topicMessages.tsx\<close>: batches, frames, and the connection; \<open>MessageFilters\<close> the filters in the address and
  in local storage (\<open>lib/hooks/useMessagesFilters.ts\<close>); \<open>FilterStore\<close> the saved filters; \<open>Preview\<close> the rows of the table, with the previews of keys and values;
  \<open>Produce\<close> the form that sends a message, and the side bar in which a consumed message is reproduced.

  \<^bold>\<open>Topics.\<close> \<open>TopicForm\<close> (creation and editing, with what the server makes of an edit), \<open>CustomParams\<close>, \<open>TopicCopy\<close> and \<open>DangerZone\<close>.

  \<^bold>\<open>Consumer groups.\<close> \<open>ConsumerGroups\<close> (lag trends, the table of topics), \<open>PartitionTable\<close> (the order of the partitions) and
  \<open>ResetOffsets\<close> (the form, its request and the part of the server that reads it).

  \<^bold>\<open>Schemas, ksqlDB, access rules.\<close> \<open>Schemas\<close> is \<open>components/Schemas\<close>, \<open>Ksql\<close> is \<open>components/KsqlDb\<close> with \<open>lib/hooks/api/ksqlDb.tsx\<close>, and \<open>Acls\<close>
  is \<open>components/ACLPage/Form\<close> with the server's expansion of the requests into rules.

  \<^bold>\<open>Clusters, lists, brokers, connectors.\<close> \<open>Navigation\<close> (the menu of a cluster and the routes of its page), \<open>ListControls\<close> (search and full-text switch of the
  lists, with the history of the browser), \<open>Lists\<close> (what the lists and their exports ask for), \<open>Brokers\<close> (\<open>components/Brokers\<close>) and \<open>ConnectorForms\<close>
  (\<open>components/Connect/New\<close>, \<open>Details/Config\<close> and the select they use).

  \<^bold>\<open>Configuration and desktop.\<close> \<open>AppConfig\<close> (the stored list of clusters), \<open>ClusterForm\<close> and \<open>ClusterSchema\<close> (the form of a cluster in both directions, its
  validation), \<open>DesktopMcp\<close>, \<open>DesktopUpdates\<close>, \<open>ConfigTransfer\<close> and \<open>Reminder\<close>.

  \<^bold>\<open>Tables and small helpers.\<close> \<open>TableState\<close>, \<open>TableExport\<close>, \<open>LocalStorage\<close>, \<open>Formatting\<close>, \<open>Versions\<close>, \<open>NumberInput\<close>, \<open>Timezones\<close> and \<open>Timestamps\<close>.

  \<^bold>\<open>How code becomes definitions.\<close> Objects are records, unions of texts are datatypes, and where the code looks at an unknown value it is a value of
  \<open>json\<close> or \<open>jsval\<close>. What may throw returns \<open>res\<close>, an error or a value. A component with state is a record with one function for each handler, and its step
  function takes the event of a user, a timer or an answer; state updates take effect at once, as they do after rendering. A request is the value of the call,
  written to a log; whether the server accepts it is part of the event. The names are those of the code, with a prefix where a name is taken.
  Strings are lists of code units up to 255, and where texts are encoded they are the bytes of UTF-8; numbers are exact decimals or integers, without rounding.

  \<^bold>\<open>What the theorems show.\<close> Invariants and safety of each machine over all runs; round trips of everything that is written and read back; functional
  behaviour of forms, from what was entered to the request; and, under the kind of errors, behaviour of the code that contradicts its purpose, stated as
  it is. A theorem with hypotheses has a closed instance with the same name and \<open>_witness\<close>.

  \<^bold>\<open>Bounds.\<close> The parser of JSON has fuel, set to more than twice the length of the text, and \<open>JsonText.fuel_enough\<close> shows that more never changes the result.
  The search for a free name of a copied cluster is bounded by the number of names, and \<open>AppConfig\<close> proves that the unbounded loop
  ends and finds the same name. The loop of \<open>Nanoid\<close> is a partial function. All other recursion is structural or has a measure.

  \<^bold>\<open>Parameters.\<close> Code that is not in the repository is an argument: the engine of regular expressions, the internationalisation library, the evaluation of JSON
  paths, the generator of example messages and the validator of schemas, random numbers, the clock. The libraries for forms (react-hook-form, yup),
  the cache (react-query) and the router are read by their documented behaviour where the code relies on it.

  \<^bold>\<open>Not modelled.\<close> Markup, styles, icons, charts and editors, which have no state of their own; the table library behind
  \<open>components/common/NewTable/Table.tsx\<close>; the columns of lists and the detail pages, which only show what a query returned; sign-in, which passes data on. Of the server in Go
  (\<open>internal\<close>) only the readers of requests are modelled whose behaviour a property needs (editing a topic, resetting offsets, access rules,
  partitions); the desktop host in Rust (\<open>desktop\<close>) and the end-to-end tests are not.
\<close>

end
